(* ===== verification/Prelude.thy ===== *)
theory Prelude
  imports Main "HOL-Library.Word" "HOL-Library.Char_ord" "HOL-Library.List_Lexorder"
    "HOL-Library.Multiset" "HOL-Library.Monad_Syntax"
begin

text \<open>
  Shared vocabulary of the development. It fixes how the Go program is read in HOL:
  a Go \<^verbatim>\<open>string\<close> is a byte string (\<^typ>\<open>string\<close>, whose characters are bytes), a
  \<^verbatim>\<open>[]byte\<close> a list of 8-bit words, a call that returns \<^verbatim>\<open>(T, error)\<close> a value of a sum
  type with the error on the left, and a point in time or a \<^verbatim>\<open>time.Duration\<close> an integer
  number of nanoseconds. It also holds the lemma collections and the generic list, option and
  sum lemmas that the component theories use.
\<close>

named_theorems go_std \<open>unfolding rules of the modelled Go standard library\<close>
named_theorems store_simps \<open>lookup-after-update rules of the in-memory and SQL stores\<close>
named_theorems handler_defs \<open>definitions of handlers and of the helpers they inline\<close>

type_synonym byte = "8 word"
type_synonym time = int
type_synonym duration = int

text \<open>The errors of \<^verbatim>\<open>internal/store\<close>: the two the callers tell apart, and any other.\<close>

datatype store_error = ErrNotFound | ErrConflict | ErrStore

type_synonym 'a st = "store_error + 'a"

text \<open>Go's early return on a non-nil error.\<close>

definition bind_err :: "'e + 'a \<Rightarrow> ('a \<Rightarrow> 'e + 'b) \<Rightarrow> 'e + 'b" where
  "bind_err r f = (case r of Inl e \<Rightarrow> Inl e | Inr x \<Rightarrow> f x)"

text \<open>The nanosecond unit of \<^verbatim>\<open>package time\<close>, the zero time and \<^verbatim>\<open>Time.Unix\<close>.\<close>

definition second :: duration where
  "second = 1000000000"

definition zero_time :: time where
  "zero_time = - 62135596800 * 1000000000"

definition unix_seconds :: "time \<Rightarrow> int" where
  "unix_seconds t = t div 1000000000"

definition time_of_unix :: "int \<Rightarrow> time" where
  "time_of_unix s = s * 1000000000"

text \<open>Two's complement wrap-around of a 64-bit signed integer.\<close>

definition wrap64 :: "int \<Rightarrow> int" where
  "wrap64 i = (i + 2 ^ 63) mod 2 ^ 64 - 2 ^ 63"

lemma bind_err_simps [simp]:
  "bind_err (Inl e) f = Inl e"
  "bind_err (Inr x) f = f x"
  by (simp_all add: bind_err_def)

lemma bind_err_Inr_iff:
  "bind_err r f = Inr y \<longleftrightarrow> (\<exists>x. r = Inr x \<and> f x = Inr y)"
  by (cases r) auto

lemma bind_err_Inl_iff:
  "bind_err r f = Inl e \<longleftrightarrow> r = Inl e \<or> (\<exists>x. r = Inr x \<and> f x = Inl e)"
  by (cases r) auto

lemma wrap64_id [simp]: "- (2 ^ 63) \<le> i \<Longrightarrow> i < 2 ^ 63 \<Longrightarrow> wrap64 i = i"
  by (simp add: wrap64_def)

lemma wrap64_bounds: "- (2 ^ 63) \<le> wrap64 i" "wrap64 i < 2 ^ 63"
proof -
  have "0 \<le> (i + 2 ^ 63) mod 2 ^ 64" "(i + 2 ^ 63) mod 2 ^ 64 < (2 ^ 64 :: int)"
    by simp_all
  then show "- (2 ^ 63) \<le> wrap64 i" "wrap64 i < 2 ^ 63"
    by (simp_all add: wrap64_def)
qed

lemma unix_seconds_of_unix [simp]: "unix_seconds (time_of_unix s) = s"
  by (simp add: unix_seconds_def time_of_unix_def)

lemma unix_seconds_mono: "s \<le> t \<Longrightarrow> unix_seconds s \<le> unix_seconds t"
  by (simp add: unix_seconds_def zdiv_mono1)

text \<open>Sorting by a key is determined by the multiset of elements once the list is sorted first.\<close>

lemma sort_eq_of_mset_eq:
  fixes xs ys :: "'a::linorder list"
  assumes "mset xs = mset ys"
  shows "sort xs = sort ys"
  using assms by (metis mset_sort properties_for_sort sorted_sort)

lemma mset_sort_key [simp]: "mset (sort_key f xs) = mset xs"
  by simp

lemma sorted_map_nth_le:
  assumes "sorted (map f xs)" "i \<le> j" "j < length xs"
  shows "f (xs ! i) \<le> f (xs ! j)"
  using assms sorted_nth_mono [of "map f xs" i j] by simp

text \<open>Association lists: the lookup that Go's comma-ok map read performs.\<close>

lemma map_of_filter_fst:
  "map_of (filter (\<lambda>p. P (fst p)) xs) k = (if P k then map_of xs k else None)"
  by (induction xs) auto

end
