(* ===== verification/GoStd.thy ===== *)
theory GoStd
  imports Prelude
begin

unbundle bit_operations_syntax

text \<open>
  The parts of Go's standard library that the modelled code calls: UTF-8 decoding as a
  \<^verbatim>\<open>range\<close> over a string performs it, \<^verbatim>\<open>unicode/utf16\<close>, \<^verbatim>\<open>strings.Fields\<close>,
  \<^verbatim>\<open>strings.Join\<close>, \<^verbatim>\<open>strings.Cut\<close>, \<^verbatim>\<open>strings.CutSuffix\<close>, \<^verbatim>\<open>strconv.Atoi\<close>,
  \<^verbatim>\<open>strconv.ParseUint\<close>, \<^verbatim>\<open>base64.RawURLEncoding\<close>, \<^verbatim>\<open>url.Values\<close> and \<^verbatim>\<open>crypto/rand\<close>.
  These are the language's own library and have no entry in the source map.
\<close>

section \<open>Runes\<close>

type_synonym rune = nat

abbreviation rune_error :: rune where
  "rune_error \<equiv> 65533"

text \<open>
  \<^verbatim>\<open>utf8.DecodeRuneInString\<close>: the rune at the front and how many bytes it took. An
  ill-formed sequence is the replacement rune and takes one byte.
\<close>

definition cont_byte :: "nat \<Rightarrow> nat \<Rightarrow> nat \<Rightarrow> bool" where
  "cont_byte lo hi b \<longleftrightarrow> lo \<le> b \<and> b \<le> hi"

definition decode_rune :: "nat list \<Rightarrow> rune \<times> nat" where
  "decode_rune bs =
    (case bs of
       [] \<Rightarrow> (rune_error, 0)
     | b0 # r1 \<Rightarrow>
         if b0 < 128 then (b0, 1)
         else if b0 < 194 \<or> b0 > 244 then (rune_error, 1)
         else (case r1 of
             [] \<Rightarrow> (rune_error, 1)
           | b1 # r2 \<Rightarrow>
               let lo = (if b0 = 224 then 160 else if b0 = 240 then 144 else 128);
                   hi = (if b0 = 237 then 159 else if b0 = 244 then 143 else 191)
               in if \<not> cont_byte lo hi b1 then (rune_error, 1)
                  else if b0 < 224 then ((b0 - 192) * 64 + (b1 - 128), 2)
                  else (case r2 of
                      [] \<Rightarrow> (rune_error, 1)
                    | b2 # r3 \<Rightarrow>
                        if \<not> cont_byte 128 191 b2 then (rune_error, 1)
                        else if b0 < 240
                        then ((b0 - 224) * 4096 + (b1 - 128) * 64 + (b2 - 128), 3)
                        else (case r3 of
                            [] \<Rightarrow> (rune_error, 1)
                          | b3 # _ \<Rightarrow>
                              if \<not> cont_byte 128 191 b3 then (rune_error, 1)
                              else ((b0 - 240) * 262144 + (b1 - 128) * 4096
                                      + (b2 - 128) * 64 + (b3 - 128), 4)))))"

lemma decode_rune_width: "bs \<noteq> [] \<Longrightarrow> 1 \<le> snd (decode_rune bs)"
  by (auto simp: decode_rune_def Let_def split: list.splits)

text \<open>The runes of a byte sequence with the bytes each one came from.\<close>

function rune_chunks :: "nat list \<Rightarrow> (rune \<times> nat list) list" where
  "rune_chunks bs =
    (if bs = [] then []
     else (let (r, n) = decode_rune bs in (r, take n bs) # rune_chunks (drop n bs)))"
  by pat_completeness auto
termination
proof (relation "measure length", goal_cases)
  case (2 bs p r n)
  then have "n = snd (decode_rune bs)" by (metis snd_conv)
  with 2 show ?case using decode_rune_width [of bs] by (cases bs) auto
qed simp

declare rune_chunks.simps [simp del]

definition string_bytes :: "string \<Rightarrow> nat list" where
  "string_bytes s = map of_char s"

definition bytes_string :: "nat list \<Rightarrow> string" where
  "bytes_string bs = map char_of bs"

text \<open>The conversion \<^verbatim>\<open>[]rune(s)\<close>.\<close>

definition runes :: "string \<Rightarrow> rune list" where
  "runes s = map fst (rune_chunks (string_bytes s))"

text \<open>The conversion \<^verbatim>\<open>string(rs)\<close> of runes back to UTF-8.\<close>

definition encode_rune :: "rune \<Rightarrow> nat list" where
  "encode_rune r =
    (if r < 128 then [r]
     else if r < 2048 then [192 + r div 64, 128 + r mod 64]
     else if r > 1114111 \<or> (55296 \<le> r \<and> r \<le> 57343) then [239, 191, 189]
     else if r < 65536 then [224 + r div 4096, 128 + r div 64 mod 64, 128 + r mod 64]
     else [240 + r div 262144, 128 + r div 4096 mod 64, 128 + r div 64 mod 64, 128 + r mod 64])"

definition string_of_runes :: "rune list \<Rightarrow> string" where
  "string_of_runes rs = bytes_string (concat (map encode_rune rs))"

section \<open>UTF-16\<close>

text \<open>\<^verbatim>\<open>utf16.Encode\<close> and \<^verbatim>\<open>utf16.Decode\<close>, on 16-bit code units read as naturals.\<close>

definition encode_utf16_rune :: "rune \<Rightarrow> nat list" where
  "encode_utf16_rune r =
    (if r < 55296 \<or> (57344 \<le> r \<and> r < 65536) then [r]
     else if 65536 \<le> r \<and> r \<le> 1114111
     then [55296 + (r - 65536) div 1024, 56320 + (r - 65536) mod 1024]
     else [rune_error])"

definition utf16_encode :: "rune list \<Rightarrow> nat list" where
  "utf16_encode rs = concat (map encode_utf16_rune rs)"

fun utf16_decode :: "nat list \<Rightarrow> rune list" where
  "utf16_decode [] = []"
| "utf16_decode [u] =
     [if u < 55296 \<or> 57344 \<le> u then u else rune_error]"
| "utf16_decode (u # v # us) =
     (if u < 55296 \<or> 57344 \<le> u then u # utf16_decode (v # us)
      else if u < 56320 \<and> 56320 \<le> v \<and> v < 57344
      then ((u - 55296) * 1024 + (v - 56320) + 65536) # utf16_decode us
      else rune_error # utf16_decode (v # us))"

section \<open>Strings\<close>

text \<open>\<^verbatim>\<open>unicode.IsSpace\<close>.\<close>

definition is_space :: "rune \<Rightarrow> bool" where
  "is_space r \<longleftrightarrow> (9 \<le> r \<and> r \<le> 13) \<or> r = 32 \<or> r = 133 \<or> r = 160 \<or> r = 5760
     \<or> (8192 \<le> r \<and> r \<le> 8202) \<or> r = 8232 \<or> r = 8233 \<or> r = 8239 \<or> r = 8287 \<or> r = 12288"

text \<open>\<^verbatim>\<open>strings.Fields\<close>: the maximal runs of runes that are not white space.\<close>

fun fields_chunks :: "nat list \<Rightarrow> (rune \<times> nat list) list \<Rightarrow> nat list list" where
  "fields_chunks cur [] = (if cur = [] then [] else [cur])"
| "fields_chunks cur ((r, bs) # cs) =
     (if is_space r then (if cur = [] then [] else [cur]) @ fields_chunks [] cs
      else fields_chunks (cur @ bs) cs)"

definition fields :: "string \<Rightarrow> string list" where
  "fields s = map bytes_string (fields_chunks [] (rune_chunks (string_bytes s)))"

text \<open>\<^verbatim>\<open>strings.Join\<close>.\<close>

fun join :: "string \<Rightarrow> string list \<Rightarrow> string" where
  "join sep [] = []"
| "join sep [w] = w"
| "join sep (w # v # ws) = w @ sep @ join sep (v # ws)"

text \<open>\<^verbatim>\<open>strings.Cut\<close> at a single byte: before, after, found.\<close>

fun cut :: "char \<Rightarrow> string \<Rightarrow> string \<times> string \<times> bool" where
  "cut c [] = ([], [], False)"
| "cut c (x # xs) =
     (if x = c then ([], xs, True)
      else (let (a, b, ok) = cut c xs in (x # a, b, ok)))"

text \<open>\<^verbatim>\<open>strings.CutPrefix\<close>, \<^verbatim>\<open>strings.CutSuffix\<close>, \<^verbatim>\<open>strings.HasPrefix\<close>.\<close>

definition has_prefix :: "string \<Rightarrow> string \<Rightarrow> bool" where
  "has_prefix s p \<longleftrightarrow> take (length p) s = p"

definition cut_prefix :: "string \<Rightarrow> string \<Rightarrow> string \<times> bool" where
  "cut_prefix s p = (if has_prefix s p then (drop (length p) s, True) else (s, False))"

definition cut_suffix :: "string \<Rightarrow> string \<Rightarrow> string \<times> bool" where
  "cut_suffix s p =
    (if length p \<le> length s \<and> drop (length s - length p) s = p
     then (take (length s - length p) s, True) else (s, False))"

text \<open>\<^verbatim>\<open>strings.Split\<close> at a single byte.\<close>

fun split_on :: "char \<Rightarrow> string \<Rightarrow> string list" where
  "split_on c [] = [[]]"
| "split_on c (x # xs) =
     (if x = c then [] # split_on c xs
      else (case split_on c xs of [] \<Rightarrow> [[x]] | w # ws \<Rightarrow> (x # w) # ws))"

text \<open>
  \<^verbatim>\<open>strconv.Atoi\<close> and \<^verbatim>\<open>strconv.ParseUint(s, 10, 32)\<close>: a non-empty run of decimal digits,
  for the first with an optional sign, whose value fits.
\<close>

definition digit_value :: "char \<Rightarrow> nat option" where
  "digit_value c = (let n = of_char c :: nat in if 48 \<le> n \<and> n \<le> 57 then Some (n - 48) else None)"

fun parse_digits :: "nat \<Rightarrow> string \<Rightarrow> nat option" where
  "parse_digits acc [] = Some acc"
| "parse_digits acc (c # cs) =
     (case digit_value c of None \<Rightarrow> None | Some d \<Rightarrow> parse_digits (10 * acc + d) cs)"

definition parse_uint32 :: "string \<Rightarrow> nat option" where
  "parse_uint32 s =
    (if s = [] then None
     else case parse_digits 0 s of
         None \<Rightarrow> None
       | Some n \<Rightarrow> if n < 2 ^ 32 then Some n else None)"

definition atoi :: "string \<Rightarrow> int option" where
  "atoi s =
    (let (neg, ds) = (case s of c # cs \<Rightarrow>
            (if c = CHR ''-'' then (True, cs) else if c = CHR ''+'' then (False, cs) else (False, s))
          | [] \<Rightarrow> (False, []))
     in if ds = [] then None
        else case parse_digits 0 ds of
            None \<Rightarrow> None
          | Some n \<Rightarrow>
              (let v = (if neg then - int n else int n)
               in if - (2 ^ 63) \<le> v \<and> v < 2 ^ 63 then Some v else None))"

text \<open>\<^verbatim>\<open>strings.Contains\<close>, and \<^verbatim>\<open>strings.Split\<close> at a separator that is not empty.\<close>

fun contains :: "string \<Rightarrow> string \<Rightarrow> bool" where
  "contains [] p \<longleftrightarrow> p = []"
| "contains (c # s) p \<longleftrightarrow> has_prefix (c # s) p \<or> contains s p"

function split_string :: "string \<Rightarrow> string \<Rightarrow> string list" where
  "split_string sep s =
    (if s = [] then [[]]
     else if sep \<noteq> [] \<and> has_prefix s sep then [] # split_string sep (drop (length sep) s)
     else (case split_string sep (tl s) of [] \<Rightarrow> [[hd s]] | w # ws \<Rightarrow> (hd s # w) # ws))"
  by pat_completeness auto
termination split_string
  by (relation "measure (\<lambda>(sep, s). length s)") auto

declare split_string.simps [simp del]

text \<open>
  \<^verbatim>\<open>strings.ToLower\<close>: outside ASCII the mapping of single runes is Unicode data, the argument \<open>lower\<close>.
\<close>

definition lower_rune :: "(rune \<Rightarrow> rune) \<Rightarrow> rune \<Rightarrow> rune" where
  "lower_rune lower r = (if r < 128 then (if 65 \<le> r \<and> r \<le> 90 then r + 32 else r) else lower r)"

definition to_lower :: "(rune \<Rightarrow> rune) \<Rightarrow> string \<Rightarrow> string" where
  "to_lower lower s = string_of_runes (map (lower_rune lower) (runes s))"

text \<open>\<^verbatim>\<open>url.QueryEscape\<close>.\<close>

definition query_safe :: "nat \<Rightarrow> bool" where
  "query_safe b \<longleftrightarrow> 65 \<le> b \<and> b \<le> 90 \<or> 97 \<le> b \<and> b \<le> 122 \<or> 48 \<le> b \<and> b \<le> 57
     \<or> b = 45 \<or> b = 46 \<or> b = 95 \<or> b = 126"

definition upper_hex :: "nat \<Rightarrow> nat" where
  "upper_hex n = (if n < 10 then 48 + n else 55 + n)"

definition escape_byte :: "nat \<Rightarrow> nat list" where
  "escape_byte b =
    (if query_safe b then [b] else if b = 32 then [43] else [37, upper_hex (b div 16), upper_hex (b mod 16)])"

definition query_escape :: "string \<Rightarrow> string" where
  "query_escape s = bytes_string (concat (map escape_byte (string_bytes s)))"

section \<open>Unpadded base64url\<close>

definition b64_code :: "nat \<Rightarrow> nat" where
  "b64_code n =
     (if n < 26 then n + 65 else if n < 52 then n + 71 else if n < 62 then n - 4
      else if n = 62 then 45 else 95)"

definition b64_char :: "nat \<Rightarrow> char" where
  "b64_char n = char_of (b64_code n)"

definition b64_value :: "char \<Rightarrow> nat option" where
  "b64_value c =
    (let n = of_char c :: nat in
     if 65 \<le> n \<and> n \<le> 90 then Some (n - 65)
     else if 97 \<le> n \<and> n \<le> 122 then Some (n - 71)
     else if 48 \<le> n \<and> n \<le> 57 then Some (n + 4)
     else if n = 45 then Some 62
     else if n = 95 then Some 63
     else None)"

fun b64_encode :: "nat list \<Rightarrow> string" where
  "b64_encode [] = []"
| "b64_encode [a] = [b64_char (a div 4), b64_char (a mod 4 * 16)]"
| "b64_encode [a, b] =
     [b64_char (a div 4), b64_char (a mod 4 * 16 + b div 16), b64_char (b mod 16 * 4)]"
| "b64_encode (a # b # c # bs) =
     b64_char (a div 4) # b64_char (a mod 4 * 16 + b div 16)
       # b64_char (b mod 16 * 4 + c div 64) # b64_char (c mod 64) # b64_encode bs"

fun b64_groups :: "nat list \<Rightarrow> nat list option" where
  "b64_groups [] = Some []"
| "b64_groups [p] = None"
| "b64_groups [p, q] = Some [p * 4 + q div 16]"
| "b64_groups [p, q, r] = Some [p * 4 + q div 16, q mod 16 * 16 + r div 4]"
| "b64_groups (p # q # r # s # xs) =
     (case b64_groups xs of
        None \<Rightarrow> None
      | Some bs \<Rightarrow>
          Some ((p * 4 + q div 16) # (q mod 16 * 16 + r div 4) # (r mod 4 * 64 + s) # bs))"

text \<open>The decoder skips carriage returns and line feeds, as Go's does.\<close>

definition b64_decode :: "string \<Rightarrow> nat list option" where
  "b64_decode s =
    (case those (map b64_value (filter (\<lambda>c. c \<noteq> CHR 0x0A \<and> c \<noteq> CHR 0x0D) s)) of
       None \<Rightarrow> None
     | Some vs \<Rightarrow> b64_groups vs)"

text \<open>\<^verbatim>\<open>base64.StdEncoding\<close>: the other two characters, and padding to whole groups.\<close>

definition b64_std :: "nat list \<Rightarrow> string" where
  "b64_std bs =
     map (\<lambda>c. if c = CHR ''-'' then CHR ''+'' else if c = CHR ''_'' then CHR ''/'' else c) (b64_encode bs)
       @ replicate ((3 - length bs mod 3) mod 3) (CHR ''='')"

section \<open>Form values\<close>

text \<open>
  A \<^verbatim>\<open>url.Values\<close>: each key once, with the values it arrived with in order. \<^verbatim>\<open>ParseForm\<close>
  never stores an empty value list.
\<close>

type_synonym url_values = "(string \<times> string list) list"

definition wf_values :: "url_values \<Rightarrow> bool" where
  "wf_values vs \<longleftrightarrow> distinct (map fst vs) \<and> list_all (\<lambda>p. snd p \<noteq> []) vs"

definition first_value :: "string list \<Rightarrow> string" where
  "first_value vs = (case vs of [] \<Rightarrow> [] | v # _ \<Rightarrow> v)"

text \<open>\<^verbatim>\<open>Values.Get\<close>: the first value, or the empty string.\<close>

definition values_get :: "url_values \<Rightarrow> string \<Rightarrow> string" where
  "values_get vs k = (case map_of vs k of None \<Rightarrow> [] | Some xs \<Rightarrow> first_value xs)"

section \<open>Entropy\<close>

text \<open>
  \<^verbatim>\<open>crypto/rand\<close> as a finite supply of bytes: reading more than it holds is the error branch of
  \<^verbatim>\<open>rand.Read\<close>.
\<close>

type_synonym entropy = "nat list"

definition rand_read :: "nat \<Rightarrow> entropy \<Rightarrow> (nat list \<times> entropy) option" where
  "rand_read n e = (if length e < n then None else Some (take n e, drop n e))"

section \<open>Facts\<close>

text \<open>Strings and their bytes.\<close>

lemma bytes_string_bytes [simp]: "bytes_string (string_bytes s) = s"
  by (simp add: bytes_string_def string_bytes_def comp_def)

lemma string_bytes_string:
  "list_all (\<lambda>b. b < 256) bs \<Longrightarrow> string_bytes (bytes_string bs) = bs"
  by (induction bs) (simp_all add: bytes_string_def string_bytes_def)

lemma string_bytes_append [simp]: "string_bytes (s @ t) = string_bytes s @ string_bytes t"
  by (simp add: string_bytes_def)

lemma string_bytes_bound: "b \<in> set (string_bytes s) \<Longrightarrow> b < 256"
  by (auto simp: string_bytes_def)

lemma rune_chunks_Nil [simp]: "rune_chunks [] = []"
  by (simp add: rune_chunks.simps)

lemma rune_chunks_concat: "concat (map snd (rune_chunks bs)) = bs"
proof (induction bs rule: rune_chunks.induct)
  case (1 bs)
  show ?case
  proof (cases "bs = []")
    case False
    obtain r n where d: "decode_rune bs = (r, n)" by (cases "decode_rune bs")
    have "concat (map snd (rune_chunks (drop n bs))) = drop n bs"
      using 1 [OF False d [symmetric]] by simp
    with False d show ?thesis by (subst rune_chunks.simps) simp
  qed simp
qed

text \<open>A Unicode scalar value: what a well-formed string holds.\<close>

definition scalar :: "rune \<Rightarrow> bool" where
  "scalar r \<longleftrightarrow> r \<le> 1114111 \<and> \<not> (55296 \<le> r \<and> r \<le> 57343)"

lemma encode_rune_bound: "b \<in> set (encode_rune r) \<Longrightarrow> b < 256"
  by (auto simp: encode_rune_def split: if_splits)

lemma digits64_3: "(r::nat) = r div 4096 * 4096 + r div 64 mod 64 * 64 + r mod 64"
proof -
  have "r div 4096 = r div 64 div 64" by (simp add: div_mult2_eq [symmetric])
  then have "r div 64 = r div 4096 * 64 + r div 64 mod 64" by simp
  then show ?thesis using div_mult_mod_eq [of r 64] by linarith
qed

lemma digits64_4:
  "(r::nat) = r div 262144 * 262144 + r div 4096 mod 64 * 4096 + r div 64 mod 64 * 64 + r mod 64"
proof -
  have "r div 262144 = r div 4096 div 64" by (simp add: div_mult2_eq [symmetric])
  then have "r div 4096 = r div 262144 * 64 + r div 4096 mod 64" by simp
  then show ?thesis using digits64_3 [of r] by linarith
qed

lemma decode_encode_rune3:
  assumes "scalar r" "2048 \<le> r" "r < 65536"
  shows "decode_rune (encode_rune r @ bs) = (r, length (encode_rune r))"
proof -
  define a b c where "a = r div 4096" and "b = r div 64 mod 64" and "c = r mod 64"
  have r: "r = a * 4096 + b * 64 + c" unfolding a_def b_def c_def by (rule digits64_3)
  have bc: "b < 64" "c < 64" by (simp_all add: b_def c_def)
  have a16: "a < 16" using r assms(3) by linarith
  have lo: "a = 0 \<Longrightarrow> 32 \<le> b" and hi: "a = 13 \<Longrightarrow> b \<le> 31"
    using r bc assms by (auto simp: scalar_def)
  have e: "encode_rune r = [224 + a, 128 + b, 128 + c]"
    using assms by (auto simp: encode_rune_def scalar_def a_def b_def c_def)
  show ?thesis
    unfolding e using r bc a16 lo hi
    by (simp add: decode_rune_def cont_byte_def Let_def)
qed

lemma decode_encode_rune4:
  assumes "65536 \<le> r" "r \<le> 1114111"
  shows "decode_rune (encode_rune r @ bs) = (r, length (encode_rune r))"
proof -
  define a b c d where "a = r div 262144" and "b = r div 4096 mod 64"
    and "c = r div 64 mod 64" and "d = r mod 64"
  have r: "r = a * 262144 + b * 4096 + c * 64 + d"
    unfolding a_def b_def c_def d_def by (rule digits64_4)
  have bcd: "b < 64" "c < 64" "d < 64" by (simp_all add: b_def c_def d_def)
  have a5: "a < 5" using r assms(2) by linarith
  have lo: "a = 0 \<Longrightarrow> 16 \<le> b" and hi: "a = 4 \<Longrightarrow> b \<le> 15"
    using r bcd assms by auto
  have e: "encode_rune r = [240 + a, 128 + b, 128 + c, 128 + d]"
    using assms by (auto simp: encode_rune_def a_def b_def c_def d_def)
  show ?thesis
    unfolding e using r bcd a5 lo hi
    by (simp add: decode_rune_def cont_byte_def Let_def)
qed

lemma decode_encode_rune:
  assumes "scalar r"
  shows "decode_rune (encode_rune r @ bs) = (r, length (encode_rune r))"
proof -
  consider (a) "r < 128" | (b) "128 \<le> r" "r < 2048" | (c) "2048 \<le> r" "r < 65536"
    | (d) "65536 \<le> r" "r \<le> 1114111"
    using assms by (fastforce simp: scalar_def)
  then show ?thesis
  proof cases
    case a
    then show ?thesis by (simp add: decode_rune_def encode_rune_def)
  next
    case b
    then have "2 \<le> r div 64" "r div 64 < 32" by auto
    with b show ?thesis
      by (simp add: decode_rune_def encode_rune_def cont_byte_def Let_def)
  next
    case c
    with assms show ?thesis by (rule decode_encode_rune3)
  next
    case d
    then show ?thesis by (rule decode_encode_rune4)
  qed
qed

lemma encode_rune_nonempty [simp]: "encode_rune r \<noteq> []"
  by (simp add: encode_rune_def)

lemma rune_chunks_encode:
  assumes "list_all scalar rs"
  shows "rune_chunks (concat (map encode_rune rs)) = map (\<lambda>r. (r, encode_rune r)) rs"
  using assms
proof (induction rs)
  case (Cons r rs)
  then have "decode_rune (encode_rune r @ concat (map encode_rune rs)) = (r, length (encode_rune r))"
    by (simp add: decode_encode_rune)
  with Cons show ?case
    by (subst rune_chunks.simps) simp
qed simp

lemma runes_string_of_runes:
  assumes "list_all scalar rs"
  shows "runes (string_of_runes rs) = rs"
proof -
  have "list_all (\<lambda>b. b < 256) (concat (map encode_rune rs))"
    by (auto simp: list_all_iff dest: encode_rune_bound)
  then show ?thesis
    using assms by (simp add: runes_def string_of_runes_def string_bytes_string
        rune_chunks_encode comp_def)
qed

lemma decode_rune_scalar:
  assumes "\<And>b. b \<in> set bs \<Longrightarrow> b < 256"
  shows "scalar (fst (decode_rune bs))"
  using assms
  by (auto simp: decode_rune_def scalar_def cont_byte_def Let_def split: list.splits)

lemma rune_chunks_scalar:
  assumes "\<And>b. b \<in> set bs \<Longrightarrow> b < 256"
  shows "list_all (\<lambda>p. scalar (fst p)) (rune_chunks bs)"
  using assms
proof (induction bs rule: rune_chunks.induct)
  case (1 bs)
  show ?case
  proof (cases "bs = []")
    case False
    obtain r n where d: "decode_rune bs = (r, n)" by (cases "decode_rune bs")
    have "list_all (\<lambda>p. scalar (fst p)) (rune_chunks (drop n bs))"
      using 1 False d by (metis in_set_dropD)
    moreover have "scalar r" using decode_rune_scalar [of bs] d "1.prems" by simp
    ultimately show ?thesis using False d by (subst rune_chunks.simps) simp
  qed simp
qed

lemma runes_scalar: "list_all scalar (runes s)"
  using rune_chunks_scalar [of "string_bytes s"] string_bytes_bound
  by (auto simp: runes_def list_all_iff)

lemma string_of_runes_runes_idem: "runes (string_of_runes (runes s)) = runes s"
  by (simp add: runes_string_of_runes runes_scalar)

text \<open>UTF-16 loses nothing on scalar values.\<close>

lemma utf16_decode_plain:
  "r < 55296 \<or> 57344 \<le> r \<Longrightarrow> utf16_decode (r # us) = r # utf16_decode us"
  by (cases us) simp_all

lemma utf16_decode_encode_rune:
  assumes "scalar r"
  shows "utf16_decode (encode_utf16_rune r @ us) = r # utf16_decode us"
proof (cases "r < 65536")
  case True
  then have "encode_utf16_rune r = [r]" "r < 55296 \<or> 57344 \<le> r"
    using assms by (auto simp: encode_utf16_rune_def scalar_def)
  then show ?thesis by (simp add: utf16_decode_plain)
next
  case False
  define q where "q = r - 65536"
  have r: "r = q + 65536" and q: "q < 1048576"
    using False assms by (auto simp: q_def scalar_def)
  have "encode_utf16_rune r = [55296 + q div 1024, 56320 + q mod 1024]"
    using False assms by (simp add: encode_utf16_rune_def scalar_def q_def)
  moreover have "q div 1024 < 1024" using q by (simp add: less_mult_imp_div_less)
  moreover have "q div 1024 * 1024 + q mod 1024 = q" by simp
  ultimately show ?thesis by (simp add: r)
qed

lemma utf16_roundtrip: "list_all scalar rs \<Longrightarrow> utf16_decode (utf16_encode rs) = rs"
  by (induction rs) (simp_all add: utf16_encode_def utf16_decode_encode_rune)

lemma encode_utf16_rune_bound: "u \<in> set (encode_utf16_rune r) \<Longrightarrow> u < 65536"
proof -
  assume u: "u \<in> set (encode_utf16_rune r)"
  have "(r - 65536) div 1024 < 1024" if "r \<le> 1114111"
    using that by (simp add: less_mult_imp_div_less)
  moreover have "(r - 65536) mod 1024 < 1024" by simp
  ultimately show "u < 65536"
    using u unfolding encode_utf16_rune_def by (force split: if_splits)
qed

lemma utf16_encode_bound: "u \<in> set (utf16_encode rs) \<Longrightarrow> u < 65536"
  using encode_utf16_rune_bound by (auto simp: utf16_encode_def)

text \<open>ASCII strings are their own runes.\<close>

definition ascii :: "string \<Rightarrow> bool" where
  "ascii s \<longleftrightarrow> list_all (\<lambda>c. (of_char c :: nat) < 128) s"

lemma rune_chunks_ascii:
  "list_all (\<lambda>b. b < 128) bs \<Longrightarrow> rune_chunks bs = map (\<lambda>b. (b, [b])) bs"
proof (induction bs)
  case (Cons b bs)
  then have "decode_rune (b # bs) = (b, 1)" by (simp add: decode_rune_def)
  with Cons show ?case by (subst rune_chunks.simps) simp
qed simp

lemma runes_ascii: "ascii s \<Longrightarrow> runes s = string_bytes s"
  by (simp add: runes_def rune_chunks_ascii ascii_def string_bytes_def list_all_iff comp_def)

lemma utf16_encode_ascii: "list_all (\<lambda>b. b < 128) rs \<Longrightarrow> utf16_encode rs = rs"
  by (induction rs) (simp_all add: utf16_encode_def encode_utf16_rune_def)

text \<open>Base64url: decoding what was encoded.\<close>

lemma of_char_b64_char: "n < 64 \<Longrightarrow> of_char (b64_char n) = b64_code n"
proof -
  assume "n < 64"
  then have "b64_code n < 256" by (auto simp: b64_code_def)
  then show ?thesis by (simp add: b64_char_def)
qed

lemma b64_value_char: "n < 64 \<Longrightarrow> b64_value (b64_char n) = Some n"
  by (simp add: b64_value_def of_char_b64_char Let_def) (auto simp: b64_code_def)

lemma b64_char_not_newline: "n < 64 \<Longrightarrow> b64_char n \<noteq> CHR 0x0A \<and> b64_char n \<noteq> CHR 0x0D"
  using of_char_b64_char [of n] by (auto simp: b64_code_def split: if_splits)

lemma b64_encode_chars:
  "list_all (\<lambda>b. b < 256) bs \<Longrightarrow> \<exists>vs. b64_encode bs = map b64_char vs \<and> list_all (\<lambda>v. v < 64) vs
     \<and> b64_groups vs = Some bs"
proof (induction bs rule: b64_encode.induct)
  case 1
  then show ?case by (intro exI [of _ "[]"]) simp
next
  case (2 a)
  then show ?case by (intro exI [of _ "[a div 4, a mod 4 * 16]"]) auto
next
  case (3 a b)
  then show ?case
    by (intro exI [of _ "[a div 4, a mod 4 * 16 + b div 16, b mod 16 * 4]"]) auto
next
  case (4 a b c bs)
  then obtain vs where "b64_encode bs = map b64_char vs" "list_all (\<lambda>v. v < 64) vs"
    "b64_groups vs = Some bs" by auto
  with 4 show ?case
    by (intro exI [of _ "a div 4 # (a mod 4 * 16 + b div 16) # (b mod 16 * 4 + c div 64)
          # c mod 64 # vs"]) auto
qed

lemma those_map_b64:
  "list_all (\<lambda>v. v < 64) vs \<Longrightarrow> those (map (\<lambda>v. b64_value (b64_char v)) vs) = Some vs"
  by (induction vs) (simp_all add: b64_value_char)

theorem b64_roundtrip:
  assumes "list_all (\<lambda>b. b < 256) bs"
  shows "b64_decode (b64_encode bs) = Some bs"
proof -
  obtain vs where vs: "b64_encode bs = map b64_char vs" "list_all (\<lambda>v. v < 64) vs"
    "b64_groups vs = Some bs" using b64_encode_chars [OF assms] by blast
  have "filter (\<lambda>c. c \<noteq> CHR 0x0A \<and> c \<noteq> CHR 0x0D) (map b64_char vs) = map b64_char vs"
    using vs(2) b64_char_not_newline by (auto simp: filter_id_conv list_all_iff)
  with vs show ?thesis
    by (simp add: b64_decode_def those_map_b64 comp_def)
qed

text \<open>Cutting a string at the first separator.\<close>

lemma cut_append: "c \<notin> set a \<Longrightarrow> cut c (a @ c # b) = (a, b, True)"
  by (induction a) auto

lemma cut_None: "c \<notin> set s \<Longrightarrow> cut c s = (s, [], False)"
  by (induction s) auto

lemma cut_TrueD:
  assumes "cut c s = (a, b, True)"
  shows "s = a @ c # b" and "c \<notin> set a"
proof -
  have "s = a @ c # b \<and> c \<notin> set a" using assms
  proof (induction s arbitrary: a)
    case (Cons x xs)
    show ?case
    proof (cases "x = c")
      case False
      with Cons.prems obtain a' where "a = x # a'" "cut c xs = (a', b, True)"
        by (auto split: prod.splits)
      with Cons.IH False show ?thesis by auto
    qed (use Cons.prems in auto)
  qed simp
  then show "s = a @ c # b" and "c \<notin> set a" by auto
qed

end
