(* ===== verification/JavaMap.thy ===== *)
theory JavaMap
  imports GoStd
begin

unbundle bit_operations_syntax

text \<open>
  \<^verbatim>\<open>internal/javamap/javamap.go\<close>: the order in which a Java \<^verbatim>\<open>HashMap\<close> iterates its keys.
  A \<^verbatim>\<open>uint32\<close> is a \<^typ>\<open>32 word\<close>; a Go \<^verbatim>\<open>int\<close> is an \<^typ>\<open>int\<close>. The two loops that
  double a table size are partial: once the doubling wraps to zero they never end, so they return
  in the option type and the theorems say for which sizes they return.
  The reference they are compared with is the walk of the hash table itself
  (\<open>table_walk\<close>): bucket by bucket, each bucket's chain in insertion order.
\<close>

section \<open>The code\<close>

definition hashCode :: "string \<Rightarrow> 32 word" where
  "hashCode s = foldl (\<lambda>h u. 31 * h + of_nat u) 0 (utf16_encode (runes s))"

definition bucket :: "string \<Rightarrow> 32 word \<Rightarrow> 32 word" where
  "bucket s cap = (let h = hashCode s in (h XOR drop_bit 16 h) AND (cap - 1))"

partial_function (option) tableSizeFor_loop :: "int \<Rightarrow> 32 word \<Rightarrow> 32 word option" where
  "tableSizeFor_loop n c = (if c < word_of_int n then tableSizeFor_loop n (c * 2) else Some c)"

definition tableSizeFor :: "int \<Rightarrow> 32 word option" where
  "tableSizeFor n = tableSizeFor_loop n 1"

definition capacity :: "int \<Rightarrow> int \<Rightarrow> 32 word option" where
  "capacity requested entries =
    (case tableSizeFor requested of
       None \<Rightarrow> None
     | Some c \<Rightarrow> Some (if entries * 4 > uint c * 3 then c * 2 else c))"

partial_function (option) capacityFor_loop :: "int \<Rightarrow> 32 word \<Rightarrow> 32 word option" where
  "capacityFor_loop n cap =
    (if n > uint (cap div 4 * 3) then capacityFor_loop n (cap * 2) else Some cap)"

definition capacityFor :: "int \<Rightarrow> 32 word option" where
  "capacityFor n = capacityFor_loop n 16"

definition byBucket :: "string list \<Rightarrow> 32 word \<Rightarrow> string list" where
  "byBucket keys cap = sort_key (\<lambda>k. bucket k cap) keys"

definition SizedKeyOrder :: "int \<Rightarrow> string list \<Rightarrow> string list option" where
  "SizedKeyOrder builtFor0 keys =
    (let out = keys;
         builtFor = (if builtFor0 \<le> 0 \<or> builtFor0 > int (length out)
                     then int (length out) else builtFor0)
     in case capacity (7 * builtFor div 4) builtFor of
          None \<Rightarrow> None
        | Some c1 \<Rightarrow>
            (let out = byBucket (take (nat builtFor) out) c1 @ drop (nat builtFor) out
             in case capacity (int (length out)) (int (length out)) of
                  None \<Rightarrow> None
                | Some c2 \<Rightarrow> Some (byBucket out c2)))"

definition KeyOrder :: "string list \<Rightarrow> string list option" where
  "KeyOrder keys =
    (let out = sort keys
     in case capacityFor (int (length out)) of
          None \<Rightarrow> None
        | Some c \<Rightarrow> Some (byBucket out c))"

section \<open>The reference: walking the table\<close>

text \<open>
  A table of \<open>cap\<close> buckets filled by inserting \<open>keys\<close> in order, read from bucket 0
  upwards with each chain in the order it was built.
\<close>

definition table_walk :: "string list \<Rightarrow> 32 word \<Rightarrow> string list" where
  "table_walk keys cap =
    concat (map (\<lambda>b. filter (\<lambda>k. bucket k cap = of_nat b) keys) [0..<unat cap])"

definition pow2_word :: "32 word \<Rightarrow> bool" where
  "pow2_word c \<longleftrightarrow> (\<exists>j<32. c = 2 ^ j)"

section \<open>Powers of two in 32 bits\<close>

lemma uint_pow2: "j < 32 \<Longrightarrow> uint (2 ^ j :: 32 word) = 2 ^ j"
proof -
  assume "j < 32"
  then have "(2::int) ^ j < 2 ^ 32" by (intro power_strict_increasing) auto
  then have "take_bit 32 ((2::int) ^ j) = 2 ^ j" by (intro take_bit_int_eq_self) simp_all
  then show ?thesis
    using uint_word_of_int_eq [of "2 ^ j", where ?'a = 32] by (simp add: word_of_int_2p)
qed

lemma uint_word_of_int_small: "0 \<le> n \<Longrightarrow> n < 2 ^ 32 \<Longrightarrow> uint (word_of_int n :: 32 word) = n"
  by (simp add: uint_word_of_int_eq take_bit_int_eq_self)

lemma pow2_split:
  fixes j :: nat
  shows "2 \<le> j \<Longrightarrow> (2::int) ^ j = 4 * 2 ^ (j - 2)"
    and "3 \<le> j \<Longrightarrow> (2::int) ^ j = 8 * 2 ^ (j - 3)"
  by (auto simp: power_add dest!: le_Suc_ex)

lemma unat_pow2: "j < 32 \<Longrightarrow> unat (2 ^ j :: 32 word) = 2 ^ j"
  using uint_pow2 [of j] by (metis nat_2 nat_power_eq numeral_2_eq_2 unat_eq_nat_uint zero_le_numeral)

lemma pow2_three_quarters:
  assumes "2 \<le> j" "j < 32"
  shows "uint ((2 ^ j :: 32 word) div 4 * 3) = 3 * 2 ^ (j - 2)"
proof -
  have split: "(2::int) ^ j = 4 * 2 ^ (j - 2)"
    using assms(1) by (rule pow2_split)
  have "uint ((2 ^ j :: 32 word) div 4) = 2 ^ j div 4"
    using assms(2) by (simp add: uint_div uint_pow2)
  also have "\<dots> = 2 ^ (j - 2)" by (simp add: split)
  finally have d: "uint ((2 ^ j :: 32 word) div 4) = 2 ^ (j - 2)" .
  have "(2::int) ^ (j - 2) \<le> 2 ^ 29" using assms(2) by (intro power_increasing) auto
  then have "(2::int) ^ (j - 2) * 3 < 2 ^ 32" by simp
  then show ?thesis by (simp add: uint_word_ariths d take_bit_int_eq_self)
qed

lemma pow2_double: "j < 31 \<Longrightarrow> (2 ^ j :: 32 word) * 2 = 2 ^ Suc j"
  by simp

lemma pow2_double_wraps: "(2 ^ 31 :: 32 word) * 2 = 0"
  by simp

section \<open>The growing table\<close>

lemma capacityFor_loop_returns:
  assumes "n \<le> 1610612736" "2 \<le> k" "k < 32"
  shows "\<exists>j. k \<le> j \<and> j < 32 \<and> capacityFor_loop n (2 ^ k) = Some (2 ^ j)
           \<and> n \<le> 3 * 2 ^ (j - 2) \<and> (j = k \<or> 3 * 2 ^ (j - 3) < n)"
  using assms(2,3)
proof (induction "31 - k" arbitrary: k)
  case 0
  then have "k = 31" by simp
  with assms(1) show ?case
    using pow2_three_quarters [of 31]
    by (intro exI [of _ 31]) (simp add: capacityFor_loop.simps [of n "2147483648"])
next
  case (Suc d)
  then have k: "2 \<le> k" "k < 31" "d = 31 - Suc k" by auto
  have q: "uint ((2 ^ k :: 32 word) div 4 * 3) = 3 * 2 ^ (k - 2)"
    using k by (simp add: pow2_three_quarters)
  show ?case
  proof (cases "n > 3 * 2 ^ (k - 2)")
    case True
    have "capacityFor_loop n (2 ^ k) = capacityFor_loop n (2 ^ Suc k)"
      using True q k(2) by (subst capacityFor_loop.simps) (simp add: mult.commute)
    moreover obtain j where "Suc k \<le> j" "j < 32"
      "capacityFor_loop n (2 ^ Suc k) = Some (2 ^ j)" "n \<le> 3 * 2 ^ (j - 2)"
      "j = Suc k \<or> 3 * 2 ^ (j - 3) < n"
      using Suc.hyps(1) [OF k(3)] k(1,2) by auto
    moreover have "Suc k - 3 = k - 2" by simp
    ultimately show ?thesis using True by (intro exI [of _ j]) auto
  next
    case False
    then show ?thesis
      using q k by (intro exI [of _ k]) (simp add: capacityFor_loop.simps [of n "2 ^ k"])
  qed
qed

lemma capacityFor_loop_bound:
  assumes "capacityFor_loop n c = Some r" "pow2_word c \<or> c = 0"
  shows "n \<le> 1610612736"
proof -
  have "pow2_word c \<or> c = 0 \<longrightarrow> n \<le> 1610612736"
  proof (rule capacityFor_loop.raw_induct
      [where P = "\<lambda>n c r. pow2_word c \<or> c = 0 \<longrightarrow> n \<le> 1610612736", OF _ assms(1)])
    fix f n r and c :: "32 word"
    assume IH: "\<And>n c r. f n c = Some r \<Longrightarrow> pow2_word c \<or> c = 0 \<longrightarrow> n \<le> 1610612736"
      and eq: "(if n > uint (c div 4 * 3) then f n (c * 2) else Some c) = Some r"
    show "pow2_word c \<or> c = 0 \<longrightarrow> n \<le> 1610612736"
    proof
      assume c: "pow2_word c \<or> c = 0"
      have "pow2_word (c * 2) \<or> c * 2 = 0"
      proof (cases "c = 0")
        case False
        with c obtain j where j: "j < 32" "c = 2 ^ j" by (auto simp: pow2_word_def)
        show ?thesis
        proof (cases "j = 31")
          case False
          with j have "Suc j < 32" "c * 2 = 2 ^ Suc j" by (auto simp: pow2_double)
          then show ?thesis unfolding pow2_word_def by blast
        qed (use j in simp)
      qed simp
      moreover have "uint (c div 4 * 3) \<le> 1610612736"
      proof (cases "c = 0")
        case False
        with c obtain j where j: "j < 32" "c = 2 ^ j" by (auto simp: pow2_word_def)
        show ?thesis
        proof (cases "j < 2")
          case True
          then have "j = 0 \<or> j = 1" by auto
          with j show ?thesis by auto
        next
          case False
          have "(2::int) ^ (j - 2) \<le> 2 ^ 29" using j(1) by (intro power_increasing) auto
          with False j show ?thesis by (simp add: pow2_three_quarters)
        qed
      qed simp
      ultimately show "n \<le> 1610612736"
        using eq IH by (cases "n > uint (c div 4 * 3)") auto
    qed
  qed
  with assms(2) show ?thesis by blast
qed

lemma capacityFor_cases:
  assumes "n \<le> 1610612736"
  obtains j where "4 \<le> j" "j < 32" "capacityFor n = Some (2 ^ j)" "n \<le> 3 * 2 ^ (j - 2)"
    "j = 4 \<or> 3 * 2 ^ (j - 3) < n"
  using capacityFor_loop_returns [OF assms, of 4] by (auto simp: capacityFor_def)

lemma capacityFor_returns: "(\<exists>c. capacityFor n = Some c) \<longleftrightarrow> n \<le> 1610612736"
proof
  assume "\<exists>c. capacityFor n = Some c"
  then obtain c where "capacityFor_loop n (2 ^ 4) = Some c" by (auto simp: capacityFor_def)
  moreover have "pow2_word (2 ^ 4)" unfolding pow2_word_def by (intro exI [of _ 4]) simp
  ultimately show "n \<le> 1610612736" using capacityFor_loop_bound by blast
next
  assume "n \<le> 1610612736"
  then show "\<exists>c. capacityFor n = Some c" by (meson capacityFor_cases)
qed

text \<open>
  C39. The no-argument table size: \<open>capacityFor n\<close> returns exactly when \<open>n\<close> is at most
  three quarters of the largest table a \<^verbatim>\<open>uint32\<close> holds, and for every larger \<open>n\<close> its
  loop never ends.
\<close>

theorem capacityFor_returns_iff: "(\<exists>c. capacityFor n = Some c) \<longleftrightarrow> n \<le> 1610612736"
  by (rule capacityFor_returns)

lemma capacityFor_minimal:
  assumes "capacityFor n = Some c"
  shows "pow2_word c \<and> 16 \<le> uint c \<and> 4 * n \<le> 3 * uint c \<and> (c = 16 \<or> 3 * uint c < 8 * n)"
proof -
  have "n \<le> 1610612736" using assms capacityFor_returns by blast
  then obtain j where j: "4 \<le> j" "j < 32" "capacityFor n = Some (2 ^ j)" "n \<le> 3 * 2 ^ (j - 2)"
    "j = 4 \<or> 3 * 2 ^ (j - 3) < n" by (rule capacityFor_cases)
  have c: "c = 2 ^ j" using assms j(3) by simp
  have u: "uint c = 2 ^ j" using c j(2) by (simp add: uint_pow2)
  have e: "(2::int) ^ j = 4 * 2 ^ (j - 2)" "(2::int) ^ j = 8 * 2 ^ (j - 3)" "(2::int) ^ j \<ge> 2 ^ 4"
    using j(1) pow2_split [of j] power_increasing [of 4 j "2::int"] by simp_all
  have "pow2_word c" using c j(2) by (auto simp: pow2_word_def)
  then show ?thesis using j(4,5) u e c by auto
qed

text \<open>
  The size it returns is the one a Java table has reached: a power of two of at least 16
  buckets that holds the \<open>n\<close> entries under the 0.75 load factor, and, when it is more than
  the initial 16, one that half as many buckets would not have held.
\<close>

theorem capacityFor_least:
  assumes "capacityFor n = Some c"
  shows "pow2_word c \<and> 16 \<le> uint c \<and> 4 * n \<le> 3 * uint c \<and> (c = 16 \<or> 3 * uint c < 8 * n)"
  by (rule capacityFor_minimal [OF assms])

section \<open>The sized table\<close>

lemma tableSizeFor_loop_returns:
  assumes "0 \<le> n" "n \<le> 2 ^ 31" "k < 32"
  shows "\<exists>j. k \<le> j \<and> j < 32 \<and> tableSizeFor_loop n (2 ^ k) = Some (2 ^ j)
           \<and> n \<le> 2 ^ j \<and> (j = k \<or> 2 ^ (j - 1) < n)"
  using assms(3)
proof (induction "31 - k" arbitrary: k)
  case 0
  then have "k = 31" by simp
  have "\<not> (2147483648 :: 32 word) < word_of_int n"
    using assms(1,2) by (simp add: word_less_def uint_word_of_int_small)
  with \<open>k = 31\<close> assms(2) show ?case
    by (intro exI [of _ 31]) (simp add: tableSizeFor_loop.simps [of n "2147483648"])
next
  case (Suc d)
  then have k: "k < 31" "d = 31 - Suc k" by auto
  have lt: "(2 ^ k :: 32 word) < word_of_int n \<longleftrightarrow> 2 ^ k < n"
    using assms(1,2) k(1) by (simp add: word_less_def uint_word_of_int_small uint_pow2)
  show ?case
  proof (cases "2 ^ k < n")
    case True
    have "tableSizeFor_loop n (2 ^ k) = tableSizeFor_loop n (2 ^ Suc k)"
      using True lt by (subst tableSizeFor_loop.simps) (simp add: mult.commute)
    moreover obtain j where "Suc k \<le> j" "j < 32"
      "tableSizeFor_loop n (2 ^ Suc k) = Some (2 ^ j)" "n \<le> 2 ^ j" "j = Suc k \<or> 2 ^ (j - 1) < n"
      using Suc.hyps(1) [OF k(2)] k(1) by auto
    ultimately show ?thesis using True by (intro exI [of _ j]) auto
  next
    case False
    then show ?thesis
      using lt k by (intro exI [of _ k]) (simp add: tableSizeFor_loop.simps [of n "2 ^ k"])
  qed
qed

lemma tableSizeFor_cases:
  assumes "0 \<le> n" "n \<le> 2 ^ 31"
  obtains j where "j < 32" "tableSizeFor n = Some (2 ^ j)" "n \<le> 2 ^ j" "j = 0 \<or> 2 ^ (j - 1) < n"
  using tableSizeFor_loop_returns [OF assms, of 0] by (auto simp: tableSizeFor_def)

lemma capacity_loads:
  assumes "0 \<le> entries" "entries \<le> requested" "requested \<le> 2 ^ 30"
  shows "\<exists>c. capacity requested entries = Some c \<and> pow2_word c \<and> 4 * entries \<le> 3 * uint c"
proof -
  obtain j where j: "j < 32" "tableSizeFor requested = Some (2 ^ j)" "requested \<le> 2 ^ j"
    "j = 0 \<or> 2 ^ (j - 1) < requested"
    using tableSizeFor_cases [of requested] assms by auto
  have "j < 31"
  proof (rule ccontr)
    assume "\<not> j < 31"
    with j(1) have "j = 31" by simp
    with j(4) assms(3) show False by simp
  qed
  then have u: "uint (2 ^ j :: 32 word) = 2 ^ j" "uint (2 ^ Suc j :: 32 word) = 2 * 2 ^ j"
    by (simp_all only: uint_pow2 less_SucI power_Suc Suc_less_eq) (use uint_pow2 [of "Suc j"] in simp)
  show ?thesis
  proof (cases "entries * 4 > uint (2 ^ j :: 32 word) * 3")
    case True
    have "capacity requested entries = Some (2 ^ Suc j)"
      using True j(2) by (simp add: capacity_def mult.commute)
    moreover have "pow2_word (2 ^ Suc j)"
      unfolding pow2_word_def using \<open>j < 31\<close> by (intro exI [of _ "Suc j"]) simp
    moreover have "4 * entries \<le> 3 * uint (2 ^ Suc j :: 32 word)"
      using assms j(3) u by linarith
    ultimately show ?thesis by blast
  next
    case False
    have "capacity requested entries = Some (2 ^ j)" using False j(2) by (simp add: capacity_def)
    moreover have "pow2_word (2 ^ j)" unfolding pow2_word_def using j(1) by blast
    ultimately show ?thesis using False by auto
  qed
qed

text \<open>
  A table asked for at least as many buckets as it is given entries, in the range where the
  doubling does not wrap, is a power of two that holds the entries under the load factor: one
  doubling is enough.
\<close>

theorem capacity_load_factor:
  assumes "0 \<le> entries" "entries \<le> requested" "requested \<le> 2 ^ 30"
  shows "\<exists>c. capacity requested entries = Some c \<and> pow2_word c \<and> 4 * entries \<le> 3 * uint c"
  by (rule capacity_loads [OF assms])

section \<open>Buckets and the order of keys\<close>

lemma bucket_less:
  assumes "pow2_word c"
  shows "bucket k c < c"
proof -
  obtain j where j: "j < 32" "c = 2 ^ j" using assms by (auto simp: pow2_word_def)
  have "bucket k c = take_bit j (hashCode k XOR drop_bit 16 (hashCode k))"
    using j by (simp add: bucket_def Let_def take_bit_eq_mask mask_eq_exp_minus_1)
  moreover have "take_bit j x < (2 ^ j :: 32 word)" for x :: "32 word"
    using j(1) and_mask_less_size [of j x] by (simp add: take_bit_eq_mask word_size)
  ultimately show ?thesis using j(2) by metis
qed

lemma concat_map_single:
  assumes "distinct bs" "i \<in> set bs"
  shows "concat (map (\<lambda>b. if b = i then ys else []) bs) = ys"
proof -
  have none: "i \<notin> set cs \<Longrightarrow> concat (map (\<lambda>b. if b = i then ys else []) cs) = []" for cs
    by (induction cs) auto
  show ?thesis using assms by (induction bs) (auto simp: none)
qed

lemma byBucket_eq_table_walk:
  assumes "pow2_word c"
  shows "byBucket keys c = table_walk keys c"
  unfolding byBucket_def
proof (rule properties_for_sort_key)
  let ?f = "\<lambda>k. bucket k c"
  have small: "i < unat c \<Longrightarrow> unat (of_nat i :: 32 word) = i" for i
    using unsigned_less [of c, where ?'a = nat] by (simp add: unat_of_nat)
  have inj: "a = b" if "a < unat c" "b < unat c" "(of_nat a :: 32 word) = of_nat b" for a b
    using that small by metis
  have cover: "\<exists>i < unat c. ?f k = of_nat i" for k
    using bucket_less [OF assms, of k] by (intro exI [of _ "unat (?f k)"]) (simp add: word_less_nat_alt)
  have flt: "filter (\<lambda>x. ?f k = ?f x) (table_walk keys c) = filter (\<lambda>x. ?f k = ?f x) keys" for k
  proof -
    obtain i where i: "i < unat c" "?f k = of_nat i" using cover by blast
    have "filter (\<lambda>x. ?f k = ?f x) (table_walk keys c) =
        concat (map (\<lambda>b. if b = i then filter (\<lambda>x. ?f x = of_nat i) keys else []) [0..<unat c])"
      unfolding table_walk_def filter_concat map_map comp_def filter_filter
      by (intro arg_cong [where f = concat] map_cong refl)
        (auto simp: i(2) filter_empty_conv intro!: filter_cong dest: inj [OF i(1)])
    also have "\<dots> = filter (\<lambda>x. ?f x = of_nat i) keys"
      by (rule concat_map_single) (use i(1) in simp_all)
    finally show ?thesis using i(2) by (simp add: eq_commute)
  qed
  show "filter (\<lambda>x. ?f k = ?f x) (table_walk keys c) = filter (\<lambda>x. ?f k = ?f x) keys"
    if "k \<in> set (table_walk keys c)" for k
    by (rule flt)
  show "mset (table_walk keys c) = mset keys"
  proof (rule multiset_eqI)
    fix x
    have cnt: "count (mset ys) x = length (filter (\<lambda>y. x = y) (filter (\<lambda>y. ?f x = ?f y) ys))" for ys
      by (auto simp: count_mset count_list_eq_length_filter intro!: arg_cong [where f = length] filter_cong)
    show "count (mset (table_walk keys c)) x = count (mset keys) x" by (simp only: cnt flt)
  qed
  have "sorted (map ?f (concat (map (\<lambda>b. filter (\<lambda>k. ?f k = of_nat b) keys) [i..<n])))"
    if "n \<le> unat c" for i n
    using that
  proof (induction n)
    case (Suc n)
    show ?case
    proof (cases "i \<le> n")
      case True
      have "sorted (map ?f (filter (\<lambda>k. ?f k = of_nat n) keys))"
        by (induction keys) auto
      moreover have "of_nat a \<le> (of_nat n :: 32 word)" if "a < n" for a
        using that Suc.prems small by (simp add: word_le_nat_alt)
      ultimately show ?thesis using Suc True by (auto simp: sorted_append)
    qed simp
  qed simp
  then show "sorted (map ?f (table_walk keys c))" by (simp add: table_walk_def)
qed

lemma byBucket_mset: "mset (byBucket keys c) = mset keys"
  by (simp add: byBucket_def)

lemma byBucket_length [simp]: "length (byBucket keys c) = length keys"
  by (simp add: byBucket_def)

lemma KeyOrder_Some:
  assumes "int (length keys) \<le> 1610612736"
  obtains c where "capacityFor (int (length keys)) = Some c" "pow2_word c"
    "KeyOrder keys = Some (table_walk (sort keys) c)"
proof -
  obtain c where c: "capacityFor (int (length keys)) = Some c"
    using assms capacityFor_returns by blast
  then have "pow2_word c" using capacityFor_minimal by blast
  with c that show ?thesis by (simp add: KeyOrder_def byBucket_eq_table_walk)
qed

text \<open>
  Sorting by bucket is walking the table: for a table whose size is a power of two, the
  stable in-place sort of \<^verbatim>\<open>byBucket\<close> leaves the keys exactly as a hash table of that size,
  filled in the order the keys came, is read out.
\<close>

theorem byBucket_walks_table:
  assumes "pow2_word c"
  shows "byBucket keys c = table_walk keys c"
  by (rule byBucket_eq_table_walk [OF assms])

text \<open>
  \<^verbatim>\<open>KeyOrder\<close> is a function of the key set alone: up to the size where the table can grow it
  returns a rearrangement of the keys, and whatever order the caller's map handed them over in,
  the answer is the same, namely the walk of a 16-bucket, doubling table over the sorted keys.
\<close>

theorem KeyOrder_canonical:
  assumes "int (length keys) \<le> 1610612736" "mset keys' = mset keys"
  shows "\<exists>out c. KeyOrder keys = Some out \<and> KeyOrder keys' = Some out \<and> mset out = mset keys
           \<and> capacityFor (int (length keys)) = Some c \<and> out = table_walk (sort keys) c"
proof -
  have len: "length keys' = length keys" using assms(2) by (metis size_mset)
  have srt: "sort keys' = sort keys" by (rule sort_eq_of_mset_eq [OF assms(2)])
  obtain c where c: "capacityFor (int (length keys)) = Some c" "pow2_word c"
    "KeyOrder keys = Some (table_walk (sort keys) c)"
    using KeyOrder_Some [OF assms(1)] by blast
  moreover have "KeyOrder keys' = KeyOrder keys" by (simp add: KeyOrder_def srt len)
  moreover have "mset (table_walk (sort keys) c) = mset keys"
    using c(2) byBucket_mset [of "sort keys" c] by (simp add: byBucket_eq_table_walk)
  ultimately show ?thesis by auto
qed

text \<open>
  \<^verbatim>\<open>SizedKeyOrder\<close> keeps every key and reads two tables: the keys the map was built for are
  first put in the order of a table asked for seven quarters of their number, the appended keys
  keep their place behind them, and the result is the walk of the final table over that order.
\<close>

theorem SizedKeyOrder_two_tables:
  assumes "int (length keys) \<le> 2 ^ 29" "0 < builtFor" "builtFor \<le> int (length keys)"
  shows "\<exists>c1 c2 out. SizedKeyOrder builtFor keys = Some out
           \<and> capacity (7 * builtFor div 4) builtFor = Some c1
           \<and> capacity (int (length keys)) (int (length keys)) = Some c2
           \<and> out = table_walk (table_walk (take (nat builtFor) keys) c1 @ drop (nat builtFor) keys) c2
           \<and> mset out = mset keys"
proof -
  have "builtFor \<le> 7 * builtFor div 4" "7 * builtFor div 4 \<le> 2 ^ 30" using assms by auto
  then obtain c1 where c1: "capacity (7 * builtFor div 4) builtFor = Some c1" "pow2_word c1"
    using capacity_loads [of builtFor "7 * builtFor div 4"] assms(2) by auto
  obtain c2 where c2: "capacity (int (length keys)) (int (length keys)) = Some c2" "pow2_word c2"
    using capacity_loads [of "int (length keys)" "int (length keys)"] assms(1) by auto
  let ?mid = "table_walk (take (nat builtFor) keys) c1 @ drop (nat builtFor) keys"
  have mset_walk: "mset (table_walk ks c1) = mset ks" "mset (table_walk ks c2) = mset ks" for ks
    using c1(2) c2(2) byBucket_mset by (metis byBucket_eq_table_walk)+
  have mid: "mset ?mid = mset keys" by (simp add: mset_walk) (metis append_take_drop_id mset_append)
  then have "length ?mid = length keys" by (metis size_mset)
  then have "SizedKeyOrder builtFor keys = Some (table_walk ?mid c2)"
    using assms(2,3) c1 c2 by (simp add: SizedKeyOrder_def Let_def byBucket_eq_table_walk)
  moreover have "mset (table_walk ?mid c2) = mset keys" by (simp only: mset_walk mid)
  ultimately show ?thesis using c1(1) c2(1) by blast
qed

end
