(* ===== verification/Model.thy ===== *)
theory Model
  imports GoStd
begin

unbundle bit_operations_syntax

text \<open>
  \<^verbatim>\<open>internal/model/model.go\<close>: the domain types the modelled packages read and write, each
  struct as a record with the source's fields (prefixed by the type, because HOL record fields are
  global), and the identifier, secret and naming functions beside them. A Go map is an association
  list; reading an absent key of a \<^verbatim>\<open>map[string]string\<close> gives the empty string, as in Go.
\<close>

section \<open>Types\<close>

type_synonym 'v smap = "(string \<times> 'v) list"

record realm =
  Realm_ID :: string
  Realm_Name :: string
  Realm_Enabled :: bool
  Realm_AccessTokenLifespan :: duration
  Realm_RefreshTokenLifespan :: duration
  Realm_Settings :: string

record protocol_mapper =
  PM_ID :: string
  PM_Name :: string
  PM_Protocol :: string
  PM_ProtocolMapper :: string
  PM_ConsentRequired :: bool
  PM_Config :: "string smap"

record client =
  Client_ID :: string
  Client_RealmID :: string
  Client_ClientID :: string
  Client_Name :: string
  Client_Description :: string
  Client_RootURL :: string
  Client_BaseURL :: string
  Client_Enabled :: bool
  Client_PublicClient :: bool
  Client_Secret :: string
  Client_Protocol :: string
  Client_ClientAuthenticatorType :: string
  Client_SurrogateAuthRequired :: bool
  Client_AlwaysDisplayInConsole :: bool
  Client_BearerOnly :: bool
  Client_ConsentRequired :: bool
  Client_StandardFlowEnabled :: bool
  Client_ImplicitFlowEnabled :: bool
  Client_DirectAccessGrantsEnabled :: bool
  Client_ServiceAccountsEnabled :: bool
  Client_AuthorizationServicesEnabled :: bool
  Client_FrontchannelLogout :: bool
  Client_FullScopeAllowed :: bool
  Client_NotBefore :: int
  Client_NodeReRegistrationTimeout :: int
  Client_RedirectURIs :: "string list"
  Client_WebOrigins :: "string list"
  Client_DefaultClientScopes :: "string list"
  Client_OptionalClientScopes :: "string list"
  Client_Attributes :: "string smap"
  Client_ProtocolMappers :: "protocol_mapper list"
  Client_RegisteredNodes :: "int smap"

record user =
  User_ID :: string
  User_RealmID :: string
  User_Username :: string
  User_Email :: string
  User_EmailVerified :: bool
  User_Enabled :: bool
  User_FirstName :: string
  User_LastName :: string
  User_CreatedTimestamp :: int
  User_Attributes :: "string list smap"
  User_RequiredActions :: "string list"
  User_NotBefore :: int

record credential =
  Cred_ID :: string
  Cred_UserID :: string
  Cred_Type :: string
  Cred_CreatedDate :: int
  Cred_Algorithm :: string
  Cred_HashIterations :: int
  Cred_AdditionalParameters :: "string list smap"
  Cred_Salt :: "byte list"
  Cred_HashValue :: "byte list"
  Cred_Label :: string
  Cred_Priority :: int

record user_session =
  US_ID :: string
  US_RealmID :: string
  US_UserID :: string
  US_Username :: string
  US_StartedAt :: int
  US_LastRefresh :: int
  US_ExpiresAt :: int

record client_session =
  CS_ID :: string
  CS_UserSessionID :: string
  CS_ClientID :: string
  CS_Scope :: string
  CS_StartedAt :: int

record role =
  Role_ID :: string
  Role_RealmID :: string
  Role_ClientID :: string
  Role_Name :: string
  Role_Description :: string
  Role_Composite :: bool
  Role_Attributes :: "string list smap"

record group =
  Group_ID :: string
  Group_RealmID :: string
  Group_ParentID :: string
  Group_Name :: string
  Group_OrganizationID :: string
  Group_Attributes :: "string list smap"

record federated_identity =
  FI_IdentityProvider :: string
  FI_UserID :: string
  FI_Username :: string

record realm_key =
  Key_ID :: string
  Key_RealmID :: string
  Key_Algorithm :: string
  Key_Use :: string
  Key_PrivateKey :: "byte list"
  Key_Certificate :: "byte list"
  Key_CreatedAt :: int

record client_scope =
  Scope_ID :: string
  Scope_RealmID :: string
  Scope_Name :: string
  Scope_Description :: string
  Scope_Protocol :: string
  Scope_Attributes :: "string smap"
  Scope_ProtocolMappers :: "protocol_mapper list"

record required_action_provider =
  RAP_ID :: string
  RAP_RealmID :: string
  RAP_Alias :: string
  RAP_Name :: "string option"
  RAP_ProviderID :: string
  RAP_Enabled :: bool
  RAP_DefaultAction :: bool
  RAP_Priority :: int
  RAP_Config :: "string smap"

record authentication_flow =
  Flow_ID :: string
  Flow_RealmID :: string
  Flow_Alias :: "string option"
  Flow_Description :: string
  Flow_ProviderID :: string
  Flow_TopLevel :: bool
  Flow_BuiltIn :: bool
  Flow_Ordinal :: int

record authentication_execution =
  Exec_ID :: string
  Exec_RealmID :: string
  Exec_ParentFlowID :: string
  Exec_Authenticator :: string
  Exec_FlowID :: string
  Exec_ConfigID :: string
  Exec_Requirement :: string
  Exec_Priority :: int

record authentication_config =
  Conf_ID :: string
  Conf_RealmID :: string
  Conf_Alias :: string
  Conf_Config :: "string smap"

text \<open>The zero values of the structs the code fills in by name.\<close>

definition zero_client :: client where
  "zero_client = \<lparr>Client_ID = [], Client_RealmID = [], Client_ClientID = [], Client_Name = [],
     Client_Description = [], Client_RootURL = [], Client_BaseURL = [], Client_Enabled = False,
     Client_PublicClient = False, Client_Secret = [], Client_Protocol = [],
     Client_ClientAuthenticatorType = [], Client_SurrogateAuthRequired = False,
     Client_AlwaysDisplayInConsole = False, Client_BearerOnly = False, Client_ConsentRequired = False,
     Client_StandardFlowEnabled = False, Client_ImplicitFlowEnabled = False,
     Client_DirectAccessGrantsEnabled = False, Client_ServiceAccountsEnabled = False,
     Client_AuthorizationServicesEnabled = False, Client_FrontchannelLogout = False,
     Client_FullScopeAllowed = False, Client_NotBefore = 0, Client_NodeReRegistrationTimeout = 0,
     Client_RedirectURIs = [], Client_WebOrigins = [], Client_DefaultClientScopes = [],
     Client_OptionalClientScopes = [], Client_Attributes = [], Client_ProtocolMappers = [],
     Client_RegisteredNodes = []\<rparr>"

definition zero_user :: user where
  "zero_user = \<lparr>User_ID = [], User_RealmID = [], User_Username = [], User_Email = [],
     User_EmailVerified = False, User_Enabled = False, User_FirstName = [], User_LastName = [],
     User_CreatedTimestamp = 0, User_Attributes = [], User_RequiredActions = [], User_NotBefore = 0\<rparr>"

section \<open>Operations\<close>

text \<open>Reading a \<^verbatim>\<open>map[string]string\<close>: the zero value for an absent key.\<close>

definition attr :: "string smap \<Rightarrow> string \<Rightarrow> string" where
  "attr m k = (case map_of m k of None \<Rightarrow> [] | Some v \<Rightarrow> v)"

fun StringMap_Get :: "string smap \<Rightarrow> string \<Rightarrow> string \<times> bool" where
  "StringMap_Get [] key = ([], False)"
| "StringMap_Get ((k, v) # m) key = (if k = key then (v, True) else StringMap_Get m key)"

fun StringMap_Set :: "string smap \<Rightarrow> string \<Rightarrow> string \<Rightarrow> string smap" where
  "StringMap_Set [] key value = [(key, value)]"
| "StringMap_Set ((k, v) # m) key value =
     (if k = key then (k, value) # m else (k, v) # StringMap_Set m key value)"

definition hex_digit :: "nat \<Rightarrow> char" where
  "hex_digit n = (if n < 10 then char_of (48 + n) else char_of (87 + n))"

definition hex_encode :: "nat list \<Rightarrow> string" where
  "hex_encode bs = concat (map (\<lambda>b. [hex_digit (b div 16), hex_digit (b mod 16)]) bs)"

text \<open>
  \<^verbatim>\<open>NewID\<close>: sixteen random bytes with the version and variant bits forced; a failing entropy
  source panics, which is \<^const>\<open>None\<close>.
\<close>

definition NewID :: "entropy \<Rightarrow> (string \<times> entropy) option" where
  "NewID e =
    (case rand_read 16 e of
       None \<Rightarrow> None
     | Some (b, e') \<Rightarrow>
         (let b = b[6 := (b ! 6) mod 16 + 64];
              b = b[8 := (b ! 8) mod 64 + 128]
          in Some (hex_encode (take 4 b) @ ''-'' @ hex_encode (take 2 (drop 4 b)) @ ''-''
               @ hex_encode (take 2 (drop 6 b)) @ ''-'' @ hex_encode (take 2 (drop 8 b)) @ ''-''
               @ hex_encode (take 6 (drop 10 b)), e')))"

definition secretAlphabet :: string where
  "secretAlphabet = ''0123456789ABCDEFGHIJKLMNOPQRSTUVWXYZabcdefghijklmnopqrstuvwxyz''"

definition secretLength :: nat where
  "secretLength = 86"

fun NewSecret_draw :: "string \<Rightarrow> nat list \<Rightarrow> string" where
  "NewSecret_draw out [] = out"
| "NewSecret_draw out (b # bs) =
     (if 248 \<le> b then NewSecret_draw out bs
      else (let out = out @ [secretAlphabet ! (b mod 62)]
            in if length out = secretLength then out else NewSecret_draw out bs))"

function NewSecret_loop :: "string \<Rightarrow> entropy \<Rightarrow> (string \<times> entropy) option" where
  "NewSecret_loop out e =
    (if length out < secretLength
     then (case rand_read secretLength e of
             None \<Rightarrow> None
           | Some (buf, e') \<Rightarrow> NewSecret_loop (NewSecret_draw out buf) e')
     else Some (out, e))"
  by pat_completeness auto
termination
  by (relation "measure (\<lambda>(out, e). length e)")
    (auto simp: rand_read_def secretLength_def split: if_splits)

definition NewSecret :: "entropy \<Rightarrow> (string \<times> entropy) option" where
  "NewSecret e = NewSecret_loop [] e"

definition ServiceAccountUsername :: "string \<Rightarrow> string" where
  "ServiceAccountUsername clientID = ''service-account-'' @ clientID"

definition DefaultRolesName :: "string \<Rightarrow> string" where
  "DefaultRolesName realm = ''default-roles-'' @ realm"

section \<open>Facts\<close>

declare NewSecret_loop.simps [simp del]

lemma StringMap_Get_map_of:
  "StringMap_Get m key = (case map_of m key of None \<Rightarrow> ([], False) | Some v \<Rightarrow> (v, True))"
  by (induction m) auto

lemma StringMap_Set_map_of: "map_of (StringMap_Set m key value) = (map_of m)(key \<mapsto> value)"
  by (induction m) (auto simp: fun_eq_iff)

text \<open>The keys keep their order: a new one goes to the end.\<close>

lemma StringMap_Set_keys:
  "map fst (StringMap_Set m key value) =
     (if key \<in> fst ` set m then map fst m else map fst m @ [key])"
  by (induction m) force+

lemma ServiceAccountUsername_inj: "inj ServiceAccountUsername"
  by (auto simp: inj_def ServiceAccountUsername_def)

lemma secretAlphabet_length: "length secretAlphabet = 62"
  by (simp add: secretAlphabet_def)

lemma NewSecret_draw_invariant:
  assumes "length out < secretLength" "set out \<subseteq> set secretAlphabet"
  shows "length (NewSecret_draw out bs) \<le> secretLength
       \<and> set (NewSecret_draw out bs) \<subseteq> set secretAlphabet"
  using assms
proof (induction out bs rule: NewSecret_draw.induct)
  case (2 out b bs)
  have "secretAlphabet ! (b mod 62) \<in> set secretAlphabet"
    by (rule nth_mem) (simp add: secretAlphabet_length)
  with 2 show ?case by (auto simp: Let_def)
qed auto

lemma NewSecret_loop_invariant:
  assumes "NewSecret_loop out e = Some (s, e')" "length out \<le> secretLength"
    "set out \<subseteq> set secretAlphabet"
  shows "length s = secretLength \<and> set s \<subseteq> set secretAlphabet"
  using assms
proof (induction out e rule: NewSecret_loop.induct)
  case (1 out e)
  show ?case
  proof (cases "length out < secretLength")
    case True
    with 1 obtain buf e1 where r: "rand_read secretLength e = Some (buf, e1)"
      "NewSecret_loop (NewSecret_draw out buf) e1 = Some (s, e')"
      by (auto simp: NewSecret_loop.simps [of out e] split: option.splits)
    moreover have "length (NewSecret_draw out buf) \<le> secretLength"
      "set (NewSecret_draw out buf) \<subseteq> set secretAlphabet"
      using NewSecret_draw_invariant [OF True "1.prems"(3)] by auto
    ultimately show ?thesis using 1 True by blast
  next
    case False
    with "1.prems" show ?thesis by (auto simp: NewSecret_loop.simps [of out e])
  qed
qed

text \<open>
  A generated client secret has the measured shape whatever the entropy source produced:
  exactly 86 characters, every one of them alphanumeric.
\<close>

theorem NewSecret_shape:
  assumes "NewSecret e = Some (s, e')"
  shows "length s = 86 \<and> set s \<subseteq> set secretAlphabet"
  using NewSecret_loop_invariant [of "[]" e s e'] assms
  by (simp add: NewSecret_def secretLength_def)

end
