(* ===== verification/Store.thy ===== *)
theory Store
  imports Model
begin

text \<open>
  \<^verbatim>\<open>internal/store/store.go\<close>: the repository interfaces the handlers are written against. A Go
  interface value is a record of its methods over an abstract database type \<open>'db\<close>. A read returns
  its value or an error; a write returns the next database or an error, and an error leaves the
  database as it was, because each write is one statement or one transaction. The context argument
  carries no data the modelled code reads and is dropped.
\<close>

record 'db role_repo =
  RoleRepo_Create :: "'db \<Rightarrow> role \<Rightarrow> 'db st"
  RoleRepo_ByID :: "'db \<Rightarrow> string \<Rightarrow> string \<Rightarrow> role st"
  RoleRepo_ByName :: "'db \<Rightarrow> string \<Rightarrow> string \<Rightarrow> string \<Rightarrow> role st"
  RoleRepo_ListRealmRoles :: "'db \<Rightarrow> string \<Rightarrow> role list st"
  RoleRepo_ListClientRoles :: "'db \<Rightarrow> string \<Rightarrow> string \<Rightarrow> role list st"
  RoleRepo_AddComposite :: "'db \<Rightarrow> string \<Rightarrow> string \<Rightarrow> 'db st"
  RoleRepo_ListComposites :: "'db \<Rightarrow> string \<Rightarrow> role list st"
  RoleRepo_RemoveComposite :: "'db \<Rightarrow> string \<Rightarrow> string \<Rightarrow> 'db st"
  RoleRepo_AssignToUser :: "'db \<Rightarrow> string \<Rightarrow> string \<Rightarrow> 'db st"
  RoleRepo_RemoveFromUser :: "'db \<Rightarrow> string \<Rightarrow> string \<Rightarrow> 'db st"
  RoleRepo_ListUserRoles :: "'db \<Rightarrow> string \<Rightarrow> role list st"
  RoleRepo_AssignToGroup :: "'db \<Rightarrow> string \<Rightarrow> string \<Rightarrow> 'db st"
  RoleRepo_RemoveFromGroup :: "'db \<Rightarrow> string \<Rightarrow> string \<Rightarrow> 'db st"
  RoleRepo_ListGroupRoles :: "'db \<Rightarrow> string \<Rightarrow> role list st"
  RoleRepo_ListUsersWithRole :: "'db \<Rightarrow> string \<Rightarrow> string \<Rightarrow> user list st"
  RoleRepo_AddClientScopeMapping :: "'db \<Rightarrow> string \<Rightarrow> string \<Rightarrow> 'db st"
  RoleRepo_RemoveClientScopeMapping :: "'db \<Rightarrow> string \<Rightarrow> string \<Rightarrow> 'db st"
  RoleRepo_ListClientScopeMappings :: "'db \<Rightarrow> string \<Rightarrow> role list st"
  RoleRepo_AddClientScopeScopeMapping :: "'db \<Rightarrow> string \<Rightarrow> string \<Rightarrow> 'db st"
  RoleRepo_RemoveClientScopeScopeMapping :: "'db \<Rightarrow> string \<Rightarrow> string \<Rightarrow> 'db st"
  RoleRepo_ListClientScopeScopeMappings :: "'db \<Rightarrow> string \<Rightarrow> role list st"
  RoleRepo_Update :: "'db \<Rightarrow> role \<Rightarrow> 'db st"
  RoleRepo_Delete :: "'db \<Rightarrow> string \<Rightarrow> string \<Rightarrow> 'db st"

record 'db session_repo =
  SessionRepo_CreateUserSession :: "'db \<Rightarrow> user_session \<Rightarrow> 'db st"
  SessionRepo_UserSessionByID :: "'db \<Rightarrow> string \<Rightarrow> string \<Rightarrow> user_session st"
  SessionRepo_TouchUserSession :: "'db \<Rightarrow> string \<Rightarrow> int \<Rightarrow> 'db st"
  SessionRepo_DeleteUserSession :: "'db \<Rightarrow> string \<Rightarrow> string \<Rightarrow> 'db st"
  SessionRepo_DeleteUserSessions :: "'db \<Rightarrow> string \<Rightarrow> string \<Rightarrow> 'db st"
  SessionRepo_CreateClientSession :: "'db \<Rightarrow> client_session \<Rightarrow> 'db st"
  SessionRepo_ClientSession :: "'db \<Rightarrow> string \<Rightarrow> string \<Rightarrow> client_session st"
  SessionRepo_ListUserSessionsByRealm :: "'db \<Rightarrow> string \<Rightarrow> user_session list st"
  SessionRepo_ListUserSessionsByUser :: "'db \<Rightarrow> string \<Rightarrow> string \<Rightarrow> user_session list st"
  SessionRepo_ListUserSessionsByClient :: "'db \<Rightarrow> string \<Rightarrow> string \<Rightarrow> user_session list st"
  SessionRepo_ListClientSessions :: "'db \<Rightarrow> string \<Rightarrow> client_session list st"

record 'db user_repo =
  UserRepo_Create :: "'db \<Rightarrow> user \<Rightarrow> 'db st"
  UserRepo_ByUsername :: "'db \<Rightarrow> string \<Rightarrow> string \<Rightarrow> user st"
  UserRepo_ByID :: "'db \<Rightarrow> string \<Rightarrow> string \<Rightarrow> user st"
  UserRepo_ListByRealm :: "'db \<Rightarrow> string \<Rightarrow> user list st"
  UserRepo_Update :: "'db \<Rightarrow> user \<Rightarrow> 'db st"
  UserRepo_Delete :: "'db \<Rightarrow> string \<Rightarrow> string \<Rightarrow> 'db st"
  UserRepo_SetCredential :: "'db \<Rightarrow> credential \<Rightarrow> 'db st"
  UserRepo_CredentialByUser :: "'db \<Rightarrow> string \<Rightarrow> string \<Rightarrow> credential st"
  UserRepo_ListCredentials :: "'db \<Rightarrow> string \<Rightarrow> credential list st"
  UserRepo_CredentialByID :: "'db \<Rightarrow> string \<Rightarrow> string \<Rightarrow> credential st"
  UserRepo_DeleteCredential :: "'db \<Rightarrow> string \<Rightarrow> string \<Rightarrow> 'db st"
  UserRepo_UpdateCredential :: "'db \<Rightarrow> credential \<Rightarrow> 'db st"
  UserRepo_ListFederatedIdentities :: "'db \<Rightarrow> string \<Rightarrow> string \<Rightarrow> federated_identity list st"
  UserRepo_LinkFederatedIdentity :: "'db \<Rightarrow> string \<Rightarrow> string \<Rightarrow> federated_identity \<Rightarrow> 'db st"
  UserRepo_UnlinkFederatedIdentity :: "'db \<Rightarrow> string \<Rightarrow> string \<Rightarrow> string \<Rightarrow> 'db st"

record 'db client_repo =
  ClientRepo_Create :: "'db \<Rightarrow> client \<Rightarrow> 'db st"
  ClientRepo_ByClientID :: "'db \<Rightarrow> string \<Rightarrow> string \<Rightarrow> client st"
  ClientRepo_ByID :: "'db \<Rightarrow> string \<Rightarrow> string \<Rightarrow> client st"
  ClientRepo_ListByRealm :: "'db \<Rightarrow> string \<Rightarrow> client list st"
  ClientRepo_Update :: "'db \<Rightarrow> client \<Rightarrow> 'db st"
  ClientRepo_Delete :: "'db \<Rightarrow> string \<Rightarrow> string \<Rightarrow> 'db st"
  ClientRepo_ProtocolMapperOwner :: "'db \<Rightarrow> string \<Rightarrow> string st"
  ClientRepo_RegisterNode :: "'db \<Rightarrow> string \<Rightarrow> string \<Rightarrow> int \<Rightarrow> 'db st"
  ClientRepo_UnregisterNode :: "'db \<Rightarrow> string \<Rightarrow> string \<Rightarrow> 'db st"

record 'db client_scope_repo =
  ClientScopeRepo_Create :: "'db \<Rightarrow> client_scope \<Rightarrow> 'db st"
  ClientScopeRepo_ByID :: "'db \<Rightarrow> string \<Rightarrow> string \<Rightarrow> client_scope st"
  ClientScopeRepo_ByName :: "'db \<Rightarrow> string \<Rightarrow> string \<Rightarrow> client_scope st"
  ClientScopeRepo_ListByRealm :: "'db \<Rightarrow> string \<Rightarrow> client_scope list st"
  ClientScopeRepo_Update :: "'db \<Rightarrow> client_scope \<Rightarrow> 'db st"
  ClientScopeRepo_Delete :: "'db \<Rightarrow> string \<Rightarrow> string \<Rightarrow> 'db st"
  ClientScopeRepo_ProtocolMapperOwner :: "'db \<Rightarrow> string \<Rightarrow> string st"
  ClientScopeRepo_ListRealmDefaults :: "'db \<Rightarrow> string \<Rightarrow> bool \<Rightarrow> client_scope list st"
  ClientScopeRepo_AddRealmDefault :: "'db \<Rightarrow> string \<Rightarrow> string \<Rightarrow> bool \<Rightarrow> 'db st"
  ClientScopeRepo_RemoveRealmDefault :: "'db \<Rightarrow> string \<Rightarrow> string \<Rightarrow> 'db st"
  ClientScopeRepo_ListClientScopes :: "'db \<Rightarrow> string \<Rightarrow> bool \<Rightarrow> client_scope list st"
  ClientScopeRepo_AddClientScope :: "'db \<Rightarrow> string \<Rightarrow> string \<Rightarrow> bool \<Rightarrow> 'db st"
  ClientScopeRepo_RemoveClientScope :: "'db \<Rightarrow> string \<Rightarrow> string \<Rightarrow> 'db st"

record 'db realm_repo =
  RealmRepo_Create :: "'db \<Rightarrow> realm \<Rightarrow> 'db st"
  RealmRepo_ByName :: "'db \<Rightarrow> string \<Rightarrow> realm st"
  RealmRepo_List :: "'db \<Rightarrow> realm list st"
  RealmRepo_Update :: "'db \<Rightarrow> realm \<Rightarrow> 'db st"
  RealmRepo_Delete :: "'db \<Rightarrow> string \<Rightarrow> 'db st"

record 'db key_repo =
  KeyRepo_Create :: "'db \<Rightarrow> realm_key \<Rightarrow> 'db st"
  KeyRepo_ListByRealm :: "'db \<Rightarrow> string \<Rightarrow> realm_key list st"

record 'db required_action_repo =
  RequiredActionRepo_ListByRealm :: "'db \<Rightarrow> string \<Rightarrow> required_action_provider list st"
  RequiredActionRepo_ByAlias :: "'db \<Rightarrow> string \<Rightarrow> string \<Rightarrow> required_action_provider st"
  RequiredActionRepo_Create :: "'db \<Rightarrow> required_action_provider \<Rightarrow> 'db st"
  RequiredActionRepo_Update :: "'db \<Rightarrow> required_action_provider \<Rightarrow> 'db st"
  RequiredActionRepo_Delete :: "'db \<Rightarrow> string \<Rightarrow> string \<Rightarrow> 'db st"

record 'db authentication_flow_repo =
  FlowRepo_ListFlows :: "'db \<Rightarrow> string \<Rightarrow> authentication_flow list st"
  FlowRepo_FlowByID :: "'db \<Rightarrow> string \<Rightarrow> string \<Rightarrow> authentication_flow st"
  FlowRepo_FlowByAlias :: "'db \<Rightarrow> string \<Rightarrow> string \<Rightarrow> authentication_flow st"
  FlowRepo_CreateFlow :: "'db \<Rightarrow> authentication_flow \<Rightarrow> 'db st"
  FlowRepo_UpdateFlow :: "'db \<Rightarrow> authentication_flow \<Rightarrow> 'db st"
  FlowRepo_DeleteFlow :: "'db \<Rightarrow> string \<Rightarrow> string \<Rightarrow> 'db st"
  FlowRepo_ListExecutions :: "'db \<Rightarrow> string \<Rightarrow> string \<Rightarrow> authentication_execution list st"
  FlowRepo_ExecutionByID :: "'db \<Rightarrow> string \<Rightarrow> string \<Rightarrow> authentication_execution st"
  FlowRepo_CreateExecution :: "'db \<Rightarrow> authentication_execution \<Rightarrow> 'db st"
  FlowRepo_UpdateExecution :: "'db \<Rightarrow> authentication_execution \<Rightarrow> 'db st"
  FlowRepo_DeleteExecution :: "'db \<Rightarrow> string \<Rightarrow> string \<Rightarrow> 'db st"
  FlowRepo_ListConfigs :: "'db \<Rightarrow> string \<Rightarrow> authentication_config list st"
  FlowRepo_ConfigByID :: "'db \<Rightarrow> string \<Rightarrow> string \<Rightarrow> authentication_config st"
  FlowRepo_CreateConfig :: "'db \<Rightarrow> authentication_config \<Rightarrow> 'db st"
  FlowRepo_UpdateConfig :: "'db \<Rightarrow> authentication_config \<Rightarrow> 'db st"
  FlowRepo_DeleteConfig :: "'db \<Rightarrow> string \<Rightarrow> string \<Rightarrow> 'db st"

text \<open>The part of the \<^verbatim>\<open>Store\<close> interface the modelled handlers reach.\<close>

record 'db store =
  Store_Realms :: "'db realm_repo"
  Store_Keys :: "'db key_repo"
  Store_Clients :: "'db client_repo"
  Store_ClientScopes :: "'db client_scope_repo"
  Store_Users :: "'db user_repo"
  Store_Roles :: "'db role_repo"
  Store_Sessions :: "'db session_repo"
  Store_RequiredActions :: "'db required_action_repo"
  Store_AuthenticationFlows :: "'db authentication_flow_repo"

section \<open>Contracts\<close>

text \<open>
  What the role computations rely on: under the repository's invariant every role a read returns is
  one of the finitely many stored roles, and an identifier identifies a role. A read may fail.
\<close>

locale role_repo_laws =
  fixes repo :: "'db role_repo"
    and inv :: "'db \<Rightarrow> bool"
    and all_roles :: "'db \<Rightarrow> role list"
  assumes ids_unique: "inv db \<Longrightarrow> distinct (map Role_ID (all_roles db))"
    and composites_sub:
      "inv db \<Longrightarrow> RoleRepo_ListComposites repo db i = Inr rs \<Longrightarrow> set rs \<subseteq> set (all_roles db)"
    and user_roles_sub:
      "inv db \<Longrightarrow> RoleRepo_ListUserRoles repo db i = Inr rs \<Longrightarrow> set rs \<subseteq> set (all_roles db)"
    and group_roles_sub:
      "inv db \<Longrightarrow> RoleRepo_ListGroupRoles repo db i = Inr rs \<Longrightarrow> set rs \<subseteq> set (all_roles db)"
    and client_roles_sub:
      "inv db \<Longrightarrow> RoleRepo_ListClientRoles repo db i j = Inr rs \<Longrightarrow> set rs \<subseteq> set (all_roles db)"
    and scope_mappings_sub:
      "inv db \<Longrightarrow> RoleRepo_ListClientScopeMappings repo db i = Inr rs
         \<Longrightarrow> set rs \<subseteq> set (all_roles db)"
    and scope_scope_mappings_sub:
      "inv db \<Longrightarrow> RoleRepo_ListClientScopeScopeMappings repo db i = Inr rs
         \<Longrightarrow> set rs \<subseteq> set (all_roles db)"
begin

lemma role_eqI:
  assumes "inv db" "p \<in> set (all_roles db)" "q \<in> set (all_roles db)" "Role_ID p = Role_ID q"
  shows "p = q"
  using ids_unique [OF assms(1)] assms(2-4) by (auto simp: distinct_map inj_on_def)

end

text \<open>The contract of a repository whose reads do not fail.\<close>

locale role_repo_total = role_repo_laws +
  assumes composites_ok: "inv db \<Longrightarrow> \<exists>rs. RoleRepo_ListComposites repo db i = Inr rs"
    and user_roles_ok: "inv db \<Longrightarrow> \<exists>rs. RoleRepo_ListUserRoles repo db i = Inr rs"
    and group_roles_ok: "inv db \<Longrightarrow> \<exists>rs. RoleRepo_ListGroupRoles repo db i = Inr rs"
    and client_roles_ok: "inv db \<Longrightarrow> \<exists>rs. RoleRepo_ListClientRoles repo db i j = Inr rs"
    and scope_mappings_ok: "inv db \<Longrightarrow> \<exists>rs. RoleRepo_ListClientScopeMappings repo db i = Inr rs"
    and scope_scope_mappings_ok:
      "inv db \<Longrightarrow> \<exists>rs. RoleRepo_ListClientScopeScopeMappings repo db i = Inr rs"

end
