(* ===== verification/Sqlite.thy ===== *)
theory Sqlite
  imports Store
begin

text \<open>
  \<^verbatim>\<open>internal/store/sqlite/sqlite.go\<close>: the SQL repositories. A table is a list of rows in
  insertion order; a statement is the corresponding list operation with the constraints its
  migration declares: a primary key or \<^verbatim>\<open>UNIQUE\<close> violation is \<^const>\<open>ErrConflict\<close> (what
  \<^verbatim>\<open>classify\<close> makes of the driver's message), a foreign key violation any other error, an update or
  delete that changes no row \<^const>\<open>ErrNotFound\<close> where the code asks \<^verbatim>\<open>affectedOne\<close>, and
  \<^verbatim>\<open>ON DELETE CASCADE\<close> removes the referring rows. \<^verbatim>\<open>ORDER BY\<close> sorts stably. Columns that hold
  JSON are modelled by the value they decode to. Failures of the database itself are not modelled
  here; the handlers' models still have the branches for them, because they are written against
  the interface records of \<open>Store\<close>.
\<close>

section \<open>Tables\<close>

record sqlite_db =
  T_realm :: "realm list"
  T_client :: "client list"
  T_user :: "user list"
  T_credential :: "credential list"
  T_role :: "role list"
  T_role_attribute :: "(string \<times> string \<times> string \<times> nat) list"
  T_composite :: "(string \<times> string) list"
  T_user_role :: "(string \<times> string) list"
  T_group :: "group list"
  T_group_attribute :: "(string \<times> string \<times> string \<times> nat) list"
  T_membership :: "(string \<times> string) list"
  T_default_group :: "(string \<times> string) list"
  T_group_role :: "(string \<times> string) list"
  T_scope_mapping :: "(string \<times> string) list"
  T_client_scope :: "client_scope list"
  T_client_client_scope :: "(string \<times> string \<times> bool) list"
  T_client_scope_role :: "(string \<times> string) list"
  T_user_session :: "user_session list"
  T_client_session :: "client_session list"
  T_authz_resource_server :: "string list"
  T_client_node :: "(string \<times> string \<times> int) list"
  T_realm_default_scope :: "(string \<times> string \<times> bool \<times> int) list"
  T_federated :: "(string \<times> string \<times> federated_identity \<times> int) list"
  T_realm_key :: "realm_key list"
  T_required_action :: "required_action_provider list"
  T_flow :: "authentication_flow list"
  T_execution :: "authentication_execution list"
  T_config :: "authentication_config list"

section \<open>Statements\<close>

definition first_row :: "'a list \<Rightarrow> 'a st" where
  "first_row xs = (case xs of [] \<Rightarrow> Inl ErrNotFound | x # _ \<Rightarrow> Inr x)"

definition affectedOne :: "nat \<Rightarrow> 'a \<Rightarrow> 'a st" where
  "affectedOne n x = (if n = 0 then Inl ErrNotFound else Inr x)"

definition insert_pair ::
  "(string \<times> string) list \<Rightarrow> bool \<Rightarrow> string \<Rightarrow> string \<Rightarrow> (string \<times> string) list st" where
  "insert_pair tbl fk a b =
    (if (a, b) \<in> set tbl then Inl ErrConflict
     else if \<not> fk then Inl ErrStore
     else Inr (tbl @ [(a, b)]))"

definition insert_pair_ignore ::
  "(string \<times> string) list \<Rightarrow> bool \<Rightarrow> string \<Rightarrow> string \<Rightarrow> (string \<times> string) list st" where
  "insert_pair_ignore tbl fk a b =
    (if (a, b) \<in> set tbl then Inr tbl
     else if \<not> fk then Inl ErrStore
     else Inr (tbl @ [(a, b)]))"

definition has_role :: "sqlite_db \<Rightarrow> string \<Rightarrow> bool" where
  "has_role db ident \<longleftrightarrow> ident \<in> Role_ID ` set (T_role db)"

definition has_user :: "sqlite_db \<Rightarrow> string \<Rightarrow> bool" where
  "has_user db ident \<longleftrightarrow> ident \<in> User_ID ` set (T_user db)"

definition has_client :: "sqlite_db \<Rightarrow> string \<Rightarrow> bool" where
  "has_client db ident \<longleftrightarrow> ident \<in> Client_ID ` set (T_client db)"

definition has_realm :: "sqlite_db \<Rightarrow> string \<Rightarrow> bool" where
  "has_realm db ident \<longleftrightarrow> ident \<in> Realm_ID ` set (T_realm db)"

definition has_scope :: "sqlite_db \<Rightarrow> string \<Rightarrow> bool" where
  "has_scope db ident \<longleftrightarrow> ident \<in> Scope_ID ` set (T_client_scope db)"

definition has_group :: "sqlite_db \<Rightarrow> string \<Rightarrow> bool" where
  "has_group db ident \<longleftrightarrow> ident \<in> Group_ID ` set (T_group db)"

text \<open>The cascades of the schema, for the tables modelled here.\<close>

definition cascade_sessions :: "(string \<Rightarrow> bool) \<Rightarrow> sqlite_db \<Rightarrow> sqlite_db" where
  "cascade_sessions gone db = db
     \<lparr>T_user_session := filter (\<lambda>s. \<not> gone (US_ID s)) (T_user_session db),
      T_client_session := filter (\<lambda>c. \<not> gone (CS_UserSessionID c)) (T_client_session db)\<rparr>"

definition cascade_roles :: "(string \<Rightarrow> bool) \<Rightarrow> sqlite_db \<Rightarrow> sqlite_db" where
  "cascade_roles gone db = db
     \<lparr>T_role := filter (\<lambda>r. \<not> gone (Role_ID r)) (T_role db),
      T_role_attribute := filter (\<lambda>p. \<not> gone (fst p)) (T_role_attribute db),
      T_composite := filter (\<lambda>(p, c). \<not> gone p \<and> \<not> gone c) (T_composite db),
      T_user_role := filter (\<lambda>(u, r). \<not> gone r) (T_user_role db),
      T_group_role := filter (\<lambda>(g, r). \<not> gone r) (T_group_role db),
      T_scope_mapping := filter (\<lambda>(c, r). \<not> gone r) (T_scope_mapping db),
      T_client_scope_role := filter (\<lambda>(s, r). \<not> gone r) (T_client_scope_role db)\<rparr>"

definition cascade_users :: "(string \<Rightarrow> bool) \<Rightarrow> sqlite_db \<Rightarrow> sqlite_db" where
  "cascade_users gone db =
    (let sess = (\<lambda>i. \<exists>s \<in> set (T_user_session db). US_ID s = i \<and> gone (US_UserID s))
     in cascade_sessions sess
          (db\<lparr>T_user := filter (\<lambda>u. \<not> gone (User_ID u)) (T_user db),
              T_credential := filter (\<lambda>c. \<not> gone (Cred_UserID c)) (T_credential db),
              T_user_role := filter (\<lambda>(u, r). \<not> gone u) (T_user_role db),
              T_membership := filter (\<lambda>(g, u). \<not> gone u) (T_membership db),
              T_federated := filter (\<lambda>(realm, u, fi, seq). \<not> gone u) (T_federated db)\<rparr>))"

definition cascade_clients :: "(string \<Rightarrow> bool) \<Rightarrow> sqlite_db \<Rightarrow> sqlite_db" where
  "cascade_clients gone db = db
     \<lparr>T_client := filter (\<lambda>c. \<not> gone (Client_ID c)) (T_client db),
      T_client_session := filter (\<lambda>c. \<not> gone (CS_ClientID c)) (T_client_session db),
      T_client_client_scope := filter (\<lambda>(c, s, d). \<not> gone c) (T_client_client_scope db),
      T_scope_mapping := filter (\<lambda>(c, r). \<not> gone c) (T_scope_mapping db),
      T_authz_resource_server := filter (\<lambda>c. \<not> gone c) (T_authz_resource_server db),
      T_client_node := filter (\<lambda>(c, n, a). \<not> gone c) (T_client_node db)\<rparr>"

definition cascade_scopes :: "(string \<Rightarrow> bool) \<Rightarrow> sqlite_db \<Rightarrow> sqlite_db" where
  "cascade_scopes gone db = db
     \<lparr>T_client_scope := filter (\<lambda>s. \<not> gone (Scope_ID s)) (T_client_scope db),
      T_client_client_scope := filter (\<lambda>(c, s, d). \<not> gone s) (T_client_client_scope db),
      T_client_scope_role := filter (\<lambda>(s, r). \<not> gone s) (T_client_scope_role db),
      T_realm_default_scope := filter (\<lambda>(realm, s, d, o'). \<not> gone s) (T_realm_default_scope db)\<rparr>"

definition cascade_groups :: "(string \<Rightarrow> bool) \<Rightarrow> sqlite_db \<Rightarrow> sqlite_db" where
  "cascade_groups gone db = db
     \<lparr>T_group := filter (\<lambda>g. \<not> gone (Group_ID g)) (T_group db),
      T_group_attribute := filter (\<lambda>p. \<not> gone (fst p)) (T_group_attribute db),
      T_membership := filter (\<lambda>(g, u). \<not> gone g) (T_membership db),
      T_group_role := filter (\<lambda>(g, r). \<not> gone g) (T_group_role db),
      T_default_group := filter (\<lambda>(realm, g). \<not> gone g) (T_default_group db)\<rparr>"

section \<open>Roles\<close>

fun append_attribute :: "string list smap \<Rightarrow> string \<Rightarrow> string \<Rightarrow> string list smap" where
  "append_attribute [] n v = [(n, [v])]"
| "append_attribute ((k, vs) # m) n v =
     (if k = n then (k, vs @ [v]) # m else (k, vs) # append_attribute m n v)"

definition role_attributes :: "sqlite_db \<Rightarrow> string \<Rightarrow> string list smap" where
  "role_attributes db ident =
    foldl (\<lambda>m (i, n, v, k). append_attribute m n v) []
      (sort_key (\<lambda>(i, n, v, k). n) (sort_key (\<lambda>(i, n, v, k). k)
        (filter (\<lambda>p. fst p = ident) (T_role_attribute db))))"

definition loadRoleAttributes :: "sqlite_db \<Rightarrow> role list \<Rightarrow> role list" where
  "loadRoleAttributes db roles = map (\<lambda>r. r\<lparr>Role_Attributes := role_attributes db (Role_ID r)\<rparr>) roles"

definition insertRoleAttributes :: "role \<Rightarrow> (string \<times> string \<times> string \<times> nat) list" where
  "insertRoleAttributes m =
    concat (map (\<lambda>(name, values). map (\<lambda>(i, v). (Role_ID m, name, v, i)) (enumerate 0 values))
      (Role_Attributes m))"

definition roleRepo_Create :: "sqlite_db \<Rightarrow> role \<Rightarrow> sqlite_db st" where
  "roleRepo_Create db m =
    (if \<exists>r \<in> set (T_role db). Role_ID r = Role_ID m
          \<or> (Role_RealmID r = Role_RealmID m \<and> Role_ClientID r = Role_ClientID m
               \<and> Role_Name r = Role_Name m)
     then Inl ErrConflict
     else if \<not> has_realm db (Role_RealmID m) then Inl ErrStore
     else Inr (db\<lparr>T_role := T_role db @ [m\<lparr>Role_Attributes := []\<rparr>],
                  T_role_attribute := T_role_attribute db @ insertRoleAttributes m\<rparr>))"

definition roleRepo_ByName :: "sqlite_db \<Rightarrow> string \<Rightarrow> string \<Rightarrow> string \<Rightarrow> role st" where
  "roleRepo_ByName db realmID clientID name =
    first_row (loadRoleAttributes db
      (filter (\<lambda>r. Role_RealmID r = realmID \<and> Role_ClientID r = clientID \<and> Role_Name r = name)
        (T_role db)))"

definition roleRepo_ListRealmRoles :: "sqlite_db \<Rightarrow> string \<Rightarrow> role list st" where
  "roleRepo_ListRealmRoles db realmID =
    Inr (loadRoleAttributes db (sort_key Role_Name
      (filter (\<lambda>r. Role_RealmID r = realmID \<and> Role_ClientID r = []) (T_role db))))"

definition roleRepo_ByID :: "sqlite_db \<Rightarrow> string \<Rightarrow> string \<Rightarrow> role st" where
  "roleRepo_ByID db realmID ident =
    first_row (loadRoleAttributes db
      (filter (\<lambda>r. Role_RealmID r = realmID \<and> Role_ID r = ident) (T_role db)))"

definition roleRepo_ListClientRoles :: "sqlite_db \<Rightarrow> string \<Rightarrow> string \<Rightarrow> role list st" where
  "roleRepo_ListClientRoles db realmID clientID =
    Inr (loadRoleAttributes db (sort_key Role_Name
      (filter (\<lambda>r. Role_RealmID r = realmID \<and> Role_ClientID r = clientID) (T_role db))))"

definition roleRepo_Update :: "sqlite_db \<Rightarrow> role \<Rightarrow> sqlite_db st" where
  "roleRepo_Update db m =
    (let upd = (\<lambda>r. if Role_ID r = Role_ID m
                    then r\<lparr>Role_Name := Role_Name m, Role_Description := Role_Description m,
                           Role_Composite := Role_Composite m\<rparr> else r)
     in if \<exists>r \<in> set (T_role db). \<exists>q \<in> set (T_role db). Role_ID r = Role_ID m \<and> Role_ID q \<noteq> Role_ID m
             \<and> Role_RealmID q = Role_RealmID r \<and> Role_ClientID q = Role_ClientID r
             \<and> Role_Name q = Role_Name m
        then Inl ErrConflict
        else affectedOne (length (filter (\<lambda>r. Role_ID r = Role_ID m) (T_role db)))
               (db\<lparr>T_role := map upd (T_role db),
                   T_role_attribute := filter (\<lambda>p. fst p \<noteq> Role_ID m) (T_role_attribute db)
                     @ insertRoleAttributes m\<rparr>))"

definition roleRepo_Delete :: "sqlite_db \<Rightarrow> string \<Rightarrow> string \<Rightarrow> sqlite_db st" where
  "roleRepo_Delete db realmID ident =
    (let resync = (\<lambda>r. if (Role_ID r, ident) \<in> set (T_composite db)
                          \<and> \<not> (\<exists>(p, c) \<in> set (T_composite db). p = Role_ID r \<and> c \<noteq> ident)
                       then r\<lparr>Role_Composite := False\<rparr> else r);
         db1 = db\<lparr>T_role := map resync (T_role db)\<rparr>;
         hit = filter (\<lambda>r. Role_RealmID r = realmID \<and> Role_ID r = ident) (T_role db1)
     in affectedOne (length hit) (cascade_roles (\<lambda>i. i \<in> Role_ID ` set hit) db1))"

definition roleRepo_AddComposite :: "sqlite_db \<Rightarrow> string \<Rightarrow> string \<Rightarrow> sqlite_db st" where
  "roleRepo_AddComposite db roleID childRoleID =
    bind_err (insert_pair (T_composite db) (has_role db roleID \<and> has_role db childRoleID)
        roleID childRoleID)
      (\<lambda>t. Inr (db\<lparr>T_composite := t\<rparr>))"

text \<open>\<^verbatim>\<open>SELECT r.* FROM keycloak_role r JOIN m ON m.role_id = r.id WHERE m.holder = ?\<close>.\<close>

definition join_roles :: "sqlite_db \<Rightarrow> (string \<times> string) list \<Rightarrow> string \<Rightarrow> role list" where
  "join_roles db m holder =
    loadRoleAttributes db (sort_key Role_Name
      (filter (\<lambda>r. (holder, Role_ID r) \<in> set m) (T_role db)))"

definition roleRepo_ListComposites :: "sqlite_db \<Rightarrow> string \<Rightarrow> role list st" where
  "roleRepo_ListComposites db roleID = Inr (join_roles db (T_composite db) roleID)"

definition roleRepo_RemoveComposite :: "sqlite_db \<Rightarrow> string \<Rightarrow> string \<Rightarrow> sqlite_db st" where
  "roleRepo_RemoveComposite db roleID childRoleID =
    Inr (db\<lparr>T_composite := filter (\<lambda>p. p \<noteq> (roleID, childRoleID)) (T_composite db)\<rparr>)"

definition roleRepo_AssignToUser :: "sqlite_db \<Rightarrow> string \<Rightarrow> string \<Rightarrow> sqlite_db st" where
  "roleRepo_AssignToUser db userID roleID =
    bind_err (insert_pair (T_user_role db) (has_user db userID \<and> has_role db roleID) userID roleID)
      (\<lambda>t. Inr (db\<lparr>T_user_role := t\<rparr>))"

definition roleRepo_RemoveFromUser :: "sqlite_db \<Rightarrow> string \<Rightarrow> string \<Rightarrow> sqlite_db st" where
  "roleRepo_RemoveFromUser db userID roleID =
    affectedOne (length (filter (\<lambda>p. p = (userID, roleID)) (T_user_role db)))
      (db\<lparr>T_user_role := filter (\<lambda>p. p \<noteq> (userID, roleID)) (T_user_role db)\<rparr>)"

definition roleRepo_ListUserRoles :: "sqlite_db \<Rightarrow> string \<Rightarrow> role list st" where
  "roleRepo_ListUserRoles db userID = Inr (join_roles db (T_user_role db) userID)"

definition roleRepo_ListUsersWithRole :: "sqlite_db \<Rightarrow> string \<Rightarrow> string \<Rightarrow> user list st" where
  "roleRepo_ListUsersWithRole db realmID roleID =
    Inr (sort_key User_Username
      (filter (\<lambda>u. User_RealmID u = realmID \<and> (User_ID u, roleID) \<in> set (T_user_role db)) (T_user db)))"

definition roleRepo_AssignToGroup :: "sqlite_db \<Rightarrow> string \<Rightarrow> string \<Rightarrow> sqlite_db st" where
  "roleRepo_AssignToGroup db groupID roleID =
    bind_err (insert_pair_ignore (T_group_role db) (has_group db groupID \<and> has_role db roleID)
        groupID roleID)
      (\<lambda>t. Inr (db\<lparr>T_group_role := t\<rparr>))"

definition roleRepo_RemoveFromGroup :: "sqlite_db \<Rightarrow> string \<Rightarrow> string \<Rightarrow> sqlite_db st" where
  "roleRepo_RemoveFromGroup db groupID roleID =
    Inr (db\<lparr>T_group_role := filter (\<lambda>p. p \<noteq> (groupID, roleID)) (T_group_role db)\<rparr>)"

definition roleRepo_ListGroupRoles :: "sqlite_db \<Rightarrow> string \<Rightarrow> role list st" where
  "roleRepo_ListGroupRoles db groupID = Inr (join_roles db (T_group_role db) groupID)"

definition roleRepo_AddClientScopeMapping :: "sqlite_db \<Rightarrow> string \<Rightarrow> string \<Rightarrow> sqlite_db st" where
  "roleRepo_AddClientScopeMapping db clientID roleID =
    bind_err (insert_pair_ignore (T_scope_mapping db) (has_client db clientID \<and> has_role db roleID)
        clientID roleID)
      (\<lambda>t. Inr (db\<lparr>T_scope_mapping := t\<rparr>))"

definition roleRepo_RemoveClientScopeMapping :: "sqlite_db \<Rightarrow> string \<Rightarrow> string \<Rightarrow> sqlite_db st" where
  "roleRepo_RemoveClientScopeMapping db clientID roleID =
    Inr (db\<lparr>T_scope_mapping := filter (\<lambda>p. p \<noteq> (clientID, roleID)) (T_scope_mapping db)\<rparr>)"

definition roleRepo_ListClientScopeMappings :: "sqlite_db \<Rightarrow> string \<Rightarrow> role list st" where
  "roleRepo_ListClientScopeMappings db clientID = Inr (join_roles db (T_scope_mapping db) clientID)"

definition roleRepo_AddClientScopeScopeMapping :: "sqlite_db \<Rightarrow> string \<Rightarrow> string \<Rightarrow> sqlite_db st" where
  "roleRepo_AddClientScopeScopeMapping db clientScopeID roleID =
    bind_err (insert_pair_ignore (T_client_scope_role db)
        (has_scope db clientScopeID \<and> has_role db roleID) clientScopeID roleID)
      (\<lambda>t. Inr (db\<lparr>T_client_scope_role := t\<rparr>))"

definition roleRepo_RemoveClientScopeScopeMapping :: "sqlite_db \<Rightarrow> string \<Rightarrow> string \<Rightarrow> sqlite_db st" where
  "roleRepo_RemoveClientScopeScopeMapping db clientScopeID roleID =
    Inr (db\<lparr>T_client_scope_role :=
          filter (\<lambda>p. p \<noteq> (clientScopeID, roleID)) (T_client_scope_role db)\<rparr>)"

definition roleRepo_ListClientScopeScopeMappings :: "sqlite_db \<Rightarrow> string \<Rightarrow> role list st" where
  "roleRepo_ListClientScopeScopeMappings db clientScopeID =
    Inr (join_roles db (T_client_scope_role db) clientScopeID)"

section \<open>Sessions\<close>

definition sessionRepo_CreateUserSession :: "sqlite_db \<Rightarrow> user_session \<Rightarrow> sqlite_db st" where
  "sessionRepo_CreateUserSession db m =
    (if \<exists>s \<in> set (T_user_session db). US_ID s = US_ID m then Inl ErrConflict
     else if \<not> (has_realm db (US_RealmID m) \<and> has_user db (US_UserID m)) then Inl ErrStore
     else Inr (db\<lparr>T_user_session := T_user_session db @ [m]\<rparr>))"

definition sessionRepo_UserSessionByID :: "sqlite_db \<Rightarrow> string \<Rightarrow> string \<Rightarrow> user_session st" where
  "sessionRepo_UserSessionByID db realmID ident =
    first_row (filter (\<lambda>s. US_RealmID s = realmID \<and> US_ID s = ident) (T_user_session db))"

definition sessionRepo_TouchUserSession :: "sqlite_db \<Rightarrow> string \<Rightarrow> int \<Rightarrow> sqlite_db st" where
  "sessionRepo_TouchUserSession db ident lastRefresh =
    affectedOne (length (filter (\<lambda>s. US_ID s = ident) (T_user_session db)))
      (db\<lparr>T_user_session := map (\<lambda>s. if US_ID s = ident then s\<lparr>US_LastRefresh := lastRefresh\<rparr> else s)
            (T_user_session db)\<rparr>)"

definition sessionRepo_DeleteUserSession :: "sqlite_db \<Rightarrow> string \<Rightarrow> string \<Rightarrow> sqlite_db st" where
  "sessionRepo_DeleteUserSession db realmID ident =
    (let hit = filter (\<lambda>s. US_RealmID s = realmID \<and> US_ID s = ident) (T_user_session db)
     in affectedOne (length hit) (cascade_sessions (\<lambda>i. i \<in> US_ID ` set hit) db))"

definition sessionRepo_DeleteUserSessions :: "sqlite_db \<Rightarrow> string \<Rightarrow> string \<Rightarrow> sqlite_db st" where
  "sessionRepo_DeleteUserSessions db realmID userID =
    (let hit = filter (\<lambda>s. US_RealmID s = realmID \<and> US_UserID s = userID) (T_user_session db)
     in Inr (cascade_sessions (\<lambda>i. i \<in> US_ID ` set hit) db))"

definition sessionRepo_CreateClientSession :: "sqlite_db \<Rightarrow> client_session \<Rightarrow> sqlite_db st" where
  "sessionRepo_CreateClientSession db m =
    (if \<exists>c \<in> set (T_client_session db). CS_ID c = CS_ID m
          \<or> (CS_UserSessionID c = CS_UserSessionID m \<and> CS_ClientID c = CS_ClientID m)
     then Inl ErrConflict
     else if \<not> ((\<exists>s \<in> set (T_user_session db). US_ID s = CS_UserSessionID m)
                 \<and> has_client db (CS_ClientID m)) then Inl ErrStore
     else Inr (db\<lparr>T_client_session := T_client_session db @ [m]\<rparr>))"

definition sessionRepo_ClientSession :: "sqlite_db \<Rightarrow> string \<Rightarrow> string \<Rightarrow> client_session st" where
  "sessionRepo_ClientSession db userSessionID clientID =
    first_row (filter (\<lambda>c. CS_UserSessionID c = userSessionID \<and> CS_ClientID c = clientID)
      (T_client_session db))"

definition sessionRepo_ListUserSessionsByRealm :: "sqlite_db \<Rightarrow> string \<Rightarrow> user_session list st" where
  "sessionRepo_ListUserSessionsByRealm db realmID =
    Inr (sort_key US_ID (filter (\<lambda>s. US_RealmID s = realmID) (T_user_session db)))"

definition sessionRepo_ListUserSessionsByUser ::
  "sqlite_db \<Rightarrow> string \<Rightarrow> string \<Rightarrow> user_session list st" where
  "sessionRepo_ListUserSessionsByUser db realmID userID =
    Inr (sort_key US_ID
      (filter (\<lambda>s. US_RealmID s = realmID \<and> US_UserID s = userID) (T_user_session db)))"

definition sessionRepo_ListUserSessionsByClient ::
  "sqlite_db \<Rightarrow> string \<Rightarrow> string \<Rightarrow> user_session list st" where
  "sessionRepo_ListUserSessionsByClient db realmID clientID =
    Inr (sort_key US_ID
      (concat (map (\<lambda>s. map (\<lambda>_. s)
          (filter (\<lambda>c. CS_UserSessionID c = US_ID s \<and> CS_ClientID c = clientID) (T_client_session db)))
        (filter (\<lambda>s. US_RealmID s = realmID) (T_user_session db)))))"

definition sessionRepo_ListClientSessions :: "sqlite_db \<Rightarrow> string \<Rightarrow> client_session list st" where
  "sessionRepo_ListClientSessions db userSessionID =
    Inr (sort_key CS_ID (filter (\<lambda>c. CS_UserSessionID c = userSessionID) (T_client_session db)))"

section \<open>Users and credentials\<close>

definition userRepo_Create :: "sqlite_db \<Rightarrow> user \<Rightarrow> sqlite_db st" where
  "userRepo_Create db m =
    (if \<exists>u \<in> set (T_user db). User_ID u = User_ID m
          \<or> (User_RealmID u = User_RealmID m \<and> User_Username u = User_Username m)
     then Inl ErrConflict
     else if \<not> has_realm db (User_RealmID m) then Inl ErrStore
     else Inr (db\<lparr>T_user := T_user db @ [m]\<rparr>))"

definition userRepo_ByUsername :: "sqlite_db \<Rightarrow> string \<Rightarrow> string \<Rightarrow> user st" where
  "userRepo_ByUsername db realmID username =
    first_row (filter (\<lambda>u. User_RealmID u = realmID \<and> User_Username u = username) (T_user db))"

definition userRepo_ByID :: "sqlite_db \<Rightarrow> string \<Rightarrow> string \<Rightarrow> user st" where
  "userRepo_ByID db realmID ident =
    first_row (filter (\<lambda>u. User_RealmID u = realmID \<and> User_ID u = ident) (T_user db))"

definition userRepo_ListByRealm :: "sqlite_db \<Rightarrow> string \<Rightarrow> user list st" where
  "userRepo_ListByRealm db realmID =
    Inr (sort_key User_Username (filter (\<lambda>u. User_RealmID u = realmID) (T_user db)))"

definition userRepo_Update :: "sqlite_db \<Rightarrow> user \<Rightarrow> sqlite_db st" where
  "userRepo_Update db m =
    (let upd = (\<lambda>u. if User_RealmID u = User_RealmID m \<and> User_ID u = User_ID m
                    then m\<lparr>User_CreatedTimestamp := User_CreatedTimestamp u\<rparr> else u);
         hit = filter (\<lambda>u. User_RealmID u = User_RealmID m \<and> User_ID u = User_ID m) (T_user db)
     in if hit \<noteq> [] \<and> (\<exists>q \<in> set (T_user db). User_ID q \<noteq> User_ID m
             \<and> User_RealmID q = User_RealmID m \<and> User_Username q = User_Username m)
        then Inl ErrConflict
        else affectedOne (length hit) (db\<lparr>T_user := map upd (T_user db)\<rparr>))"

definition userRepo_Delete :: "sqlite_db \<Rightarrow> string \<Rightarrow> string \<Rightarrow> sqlite_db st" where
  "userRepo_Delete db realmID ident =
    (let hit = filter (\<lambda>u. User_RealmID u = realmID \<and> User_ID u = ident) (T_user db)
     in affectedOne (length hit) (cascade_users (\<lambda>i. i \<in> User_ID ` set hit) db))"

definition userRepo_SetCredential :: "sqlite_db \<Rightarrow> credential \<Rightarrow> sqlite_db st" where
  "userRepo_SetCredential db m =
    (if \<exists>c \<in> set (T_credential db). Cred_UserID c = Cred_UserID m \<and> Cred_Type c = Cred_Type m
     then Inr (db\<lparr>T_credential := map (\<lambda>c.
            if Cred_UserID c = Cred_UserID m \<and> Cred_Type c = Cred_Type m
            then c\<lparr>Cred_CreatedDate := Cred_CreatedDate m, Cred_Algorithm := Cred_Algorithm m,
                   Cred_HashIterations := Cred_HashIterations m,
                   Cred_AdditionalParameters := Cred_AdditionalParameters m,
                   Cred_Salt := Cred_Salt m, Cred_HashValue := Cred_HashValue m,
                   Cred_Label := Cred_Label m\<rparr>
            else c) (T_credential db)\<rparr>)
     else if \<exists>c \<in> set (T_credential db). Cred_ID c = Cred_ID m then Inl ErrConflict
     else if \<not> has_user db (Cred_UserID m) then Inl ErrStore
     else Inr (db\<lparr>T_credential := T_credential db @ [m]\<rparr>))"

text \<open>\<^verbatim>\<open>ORDER BY priority, id\<close>.\<close>

definition by_priority :: "credential list \<Rightarrow> credential list" where
  "by_priority cs = sort_key Cred_Priority (sort_key Cred_ID cs)"

definition userRepo_CredentialByUser :: "sqlite_db \<Rightarrow> string \<Rightarrow> string \<Rightarrow> credential st" where
  "userRepo_CredentialByUser db userID typ =
    first_row (by_priority
      (filter (\<lambda>c. Cred_UserID c = userID \<and> Cred_Type c = typ) (T_credential db)))"

definition userRepo_ListCredentials :: "sqlite_db \<Rightarrow> string \<Rightarrow> credential list st" where
  "userRepo_ListCredentials db userID =
    Inr (by_priority (filter (\<lambda>c. Cred_UserID c = userID) (T_credential db)))"

definition userRepo_CredentialByID :: "sqlite_db \<Rightarrow> string \<Rightarrow> string \<Rightarrow> credential st" where
  "userRepo_CredentialByID db userID ident =
    first_row (filter (\<lambda>c. Cred_UserID c = userID \<and> Cred_ID c = ident) (T_credential db))"

definition userRepo_DeleteCredential :: "sqlite_db \<Rightarrow> string \<Rightarrow> string \<Rightarrow> sqlite_db st" where
  "userRepo_DeleteCredential db userID ident =
    affectedOne (length (filter (\<lambda>c. Cred_UserID c = userID \<and> Cred_ID c = ident) (T_credential db)))
      (db\<lparr>T_credential := filter (\<lambda>c. \<not> (Cred_UserID c = userID \<and> Cred_ID c = ident)) (T_credential db)\<rparr>)"

definition userRepo_UpdateCredential :: "sqlite_db \<Rightarrow> credential \<Rightarrow> sqlite_db st" where
  "userRepo_UpdateCredential db m =
    affectedOne (length (filter (\<lambda>c. Cred_UserID c = Cred_UserID m \<and> Cred_ID c = Cred_ID m)
        (T_credential db)))
      (db\<lparr>T_credential := map (\<lambda>c. if Cred_UserID c = Cred_UserID m \<and> Cred_ID c = Cred_ID m
            then c\<lparr>Cred_Label := Cred_Label m, Cred_Priority := Cred_Priority m\<rparr> else c)
          (T_credential db)\<rparr>)"

definition userRepo_ListFederatedIdentities ::
  "sqlite_db \<Rightarrow> string \<Rightarrow> string \<Rightarrow> federated_identity list st" where
  "userRepo_ListFederatedIdentities db realmID userID =
    Inr (map (\<lambda>(r, u, fi, seq). fi) (sort_key (\<lambda>(r, u, fi, seq). seq)
      (filter (\<lambda>(r, u, fi, seq). r = realmID \<and> u = userID) (T_federated db))))"

definition userRepo_LinkFederatedIdentity ::
  "sqlite_db \<Rightarrow> string \<Rightarrow> string \<Rightarrow> federated_identity \<Rightarrow> sqlite_db st" where
  "userRepo_LinkFederatedIdentity db realmID userID fi =
    (let seqs = map (\<lambda>(r, u, f, seq). seq)
                  (filter (\<lambda>(r, u, f, seq). r = realmID \<and> u = userID) (T_federated db));
         seq = (if seqs = [] then 0 else Max (set seqs) + 1)
     in if \<exists>(r, u, f, n) \<in> set (T_federated db). r = realmID \<and> u = userID
             \<and> FI_IdentityProvider f = FI_IdentityProvider fi
        then Inl ErrConflict
        else if \<not> (has_realm db realmID \<and> has_user db userID) then Inl ErrStore
        else Inr (db\<lparr>T_federated := T_federated db @ [(realmID, userID, fi, seq)]\<rparr>))"

definition userRepo_UnlinkFederatedIdentity ::
  "sqlite_db \<Rightarrow> string \<Rightarrow> string \<Rightarrow> string \<Rightarrow> sqlite_db st" where
  "userRepo_UnlinkFederatedIdentity db realmID userID provider =
    (let hit = (\<lambda>(r, u, f, n). r = realmID \<and> u = userID \<and> FI_IdentityProvider f = provider)
     in affectedOne (length (filter hit (T_federated db)))
          (db\<lparr>T_federated := filter (\<lambda>row. \<not> hit row) (T_federated db)\<rparr>))"

section \<open>Clients and client scopes\<close>

definition loadClientScopeNames :: "sqlite_db \<Rightarrow> client \<Rightarrow> client" where
  "loadClientScopeNames db m =
    (let joined = sort_key Scope_Name (filter (\<lambda>s.
           \<exists>(c, i, d) \<in> set (T_client_client_scope db). c = Client_ID m \<and> i = Scope_ID s)
           (T_client_scope db));
         is_default = (\<lambda>s. (Client_ID m, Scope_ID s, True) \<in> set (T_client_client_scope db))
     in m\<lparr>Client_DefaultClientScopes := map Scope_Name (filter is_default joined),
          Client_OptionalClientScopes := map Scope_Name (filter (\<lambda>s. \<not> is_default s) joined)\<rparr>)"

definition loadNodes :: "sqlite_db \<Rightarrow> client \<Rightarrow> client" where
  "loadNodes db m = m\<lparr>Client_RegisteredNodes :=
     map snd (filter (\<lambda>p. fst p = Client_ID m) (T_client_node db))\<rparr>"

definition scanWithScopes :: "sqlite_db \<Rightarrow> client \<Rightarrow> client" where
  "scanWithScopes db row =
    loadNodes db (loadClientScopeNames db
      (row\<lparr>Client_AuthorizationServicesEnabled := Client_ID row \<in> set (T_authz_resource_server db)\<rparr>))"

definition add_scope_row ::
  "(string \<times> string \<times> bool) list \<Rightarrow> string \<Rightarrow> string \<Rightarrow> bool \<Rightarrow> (string \<times> string \<times> bool) list" where
  "add_scope_row t c s d = (if \<exists>d'. (c, s, d') \<in> set t then t else t @ [(c, s, d)])"

definition attachClientScopes :: "sqlite_db \<Rightarrow> client \<Rightarrow> sqlite_db" where
  "attachClientScopes db m =
    (let add = (\<lambda>names d t. foldl (\<lambda>t name. foldl (\<lambda>t s. add_scope_row t (Client_ID m) (Scope_ID s) d) t
            (filter (\<lambda>s. Scope_RealmID s = Client_RealmID m \<and> Scope_Name s = name) (T_client_scope db)))
          t names)
     in db\<lparr>T_client_client_scope := add (Client_OptionalClientScopes m) False
            (add (Client_DefaultClientScopes m) True (T_client_client_scope db))\<rparr>)"

definition clientRepo_Create :: "sqlite_db \<Rightarrow> client \<Rightarrow> sqlite_db st" where
  "clientRepo_Create db m =
    (if \<exists>c \<in> set (T_client db). Client_ID c = Client_ID m
          \<or> (Client_RealmID c = Client_RealmID m \<and> Client_ClientID c = Client_ClientID m)
     then Inl ErrConflict
     else if \<not> has_realm db (Client_RealmID m) then Inl ErrStore
     else Inr (attachClientScopes
       (db\<lparr>T_client := T_client db @ [m\<lparr>Client_DefaultClientScopes := [],
             Client_OptionalClientScopes := [], Client_RegisteredNodes := [],
             Client_AuthorizationServicesEnabled := False\<rparr>]\<rparr>) m))"

definition clientRepo_ByClientID :: "sqlite_db \<Rightarrow> string \<Rightarrow> string \<Rightarrow> client st" where
  "clientRepo_ByClientID db realmID clientID =
    bind_err (first_row (filter (\<lambda>c. Client_RealmID c = realmID \<and> Client_ClientID c = clientID)
        (T_client db)))
      (\<lambda>row. Inr (scanWithScopes db row))"

definition clientRepo_ByID :: "sqlite_db \<Rightarrow> string \<Rightarrow> string \<Rightarrow> client st" where
  "clientRepo_ByID db realmID ident =
    bind_err (first_row (filter (\<lambda>c. Client_RealmID c = realmID \<and> Client_ID c = ident) (T_client db)))
      (\<lambda>row. Inr (scanWithScopes db row))"

definition clientRepo_ListByRealm :: "sqlite_db \<Rightarrow> string \<Rightarrow> client list st" where
  "clientRepo_ListByRealm db realmID =
    Inr (map (scanWithScopes db) (sort_key Client_ClientID
      (filter (\<lambda>c. Client_RealmID c = realmID) (T_client db))))"

definition clientRepo_Update :: "sqlite_db \<Rightarrow> client \<Rightarrow> sqlite_db st" where
  "clientRepo_Update db m =
    (let mine = (\<lambda>c. Client_RealmID c = Client_RealmID m \<and> Client_ID c = Client_ID m);
         row = m\<lparr>Client_DefaultClientScopes := [], Client_OptionalClientScopes := [],
                 Client_RegisteredNodes := [], Client_AuthorizationServicesEnabled := False\<rparr>
     in if (\<exists>c \<in> set (T_client db). mine c)
             \<and> (\<exists>c \<in> set (T_client db). \<not> mine c \<and> Client_RealmID c = Client_RealmID m
                   \<and> Client_ClientID c = Client_ClientID m)
        then Inl ErrConflict
        else affectedOne (length (filter mine (T_client db)))
               (db\<lparr>T_client := map (\<lambda>c. if mine c then row else c) (T_client db)\<rparr>))"

definition HoldsProtocolMapper :: "protocol_mapper list \<Rightarrow> string \<Rightarrow> bool" where
  "HoldsProtocolMapper mappers mapperID \<longleftrightarrow> (\<exists>m \<in> set mappers. PM_ID m = mapperID)"

definition clientRepo_ProtocolMapperOwner :: "sqlite_db \<Rightarrow> string \<Rightarrow> string st" where
  "clientRepo_ProtocolMapperOwner db mapperID =
    first_row (map Client_ID
      (filter (\<lambda>c. HoldsProtocolMapper (Client_ProtocolMappers c) mapperID) (T_client db)))"

definition clientRepo_RegisterNode :: "sqlite_db \<Rightarrow> string \<Rightarrow> string \<Rightarrow> int \<Rightarrow> sqlite_db st" where
  "clientRepo_RegisterNode db clientID node at =
    (if \<exists>a. (clientID, node, a) \<in> set (T_client_node db)
     then Inr (db\<lparr>T_client_node := map (\<lambda>(c, n, a). if c = clientID \<and> n = node then (c, n, at) else (c, n, a))
            (T_client_node db)\<rparr>)
     else if \<not> has_client db clientID then Inl ErrStore
     else Inr (db\<lparr>T_client_node := T_client_node db @ [(clientID, node, at)]\<rparr>))"

definition clientRepo_UnregisterNode :: "sqlite_db \<Rightarrow> string \<Rightarrow> string \<Rightarrow> sqlite_db st" where
  "clientRepo_UnregisterNode db clientID node =
    affectedOne (length (filter (\<lambda>(c, n, a). c = clientID \<and> n = node) (T_client_node db)))
      (db\<lparr>T_client_node := filter (\<lambda>(c, n, a). \<not> (c = clientID \<and> n = node)) (T_client_node db)\<rparr>)"

definition clientRepo_Delete :: "sqlite_db \<Rightarrow> string \<Rightarrow> string \<Rightarrow> sqlite_db st" where
  "clientRepo_Delete db realmID ident =
    (let hit = filter (\<lambda>c. Client_RealmID c = realmID \<and> Client_ID c = ident) (T_client db)
     in affectedOne (length hit) (cascade_clients (\<lambda>i. i \<in> Client_ID ` set hit) db))"

definition clientScopeRepo_Create :: "sqlite_db \<Rightarrow> client_scope \<Rightarrow> sqlite_db st" where
  "clientScopeRepo_Create db m =
    (if \<exists>s \<in> set (T_client_scope db). Scope_ID s = Scope_ID m
          \<or> (Scope_RealmID s = Scope_RealmID m \<and> Scope_Name s = Scope_Name m)
     then Inl ErrConflict
     else if \<not> has_realm db (Scope_RealmID m) then Inl ErrStore
     else Inr (db\<lparr>T_client_scope := T_client_scope db @ [m]\<rparr>))"

definition clientScopeRepo_Update :: "sqlite_db \<Rightarrow> client_scope \<Rightarrow> sqlite_db st" where
  "clientScopeRepo_Update db m =
    (let mine = (\<lambda>s. Scope_RealmID s = Scope_RealmID m \<and> Scope_ID s = Scope_ID m)
     in if (\<exists>s \<in> set (T_client_scope db). mine s)
             \<and> (\<exists>s \<in> set (T_client_scope db). \<not> mine s \<and> Scope_RealmID s = Scope_RealmID m
                   \<and> Scope_Name s = Scope_Name m)
        then Inl ErrConflict
        else affectedOne (length (filter mine (T_client_scope db)))
               (db\<lparr>T_client_scope := map (\<lambda>s. if mine s then m else s) (T_client_scope db)\<rparr>))"

definition clientScopeRepo_Delete :: "sqlite_db \<Rightarrow> string \<Rightarrow> string \<Rightarrow> sqlite_db st" where
  "clientScopeRepo_Delete db realmID ident =
    (let hit = filter (\<lambda>s. Scope_RealmID s = realmID \<and> Scope_ID s = ident) (T_client_scope db)
     in affectedOne (length hit) (cascade_scopes (\<lambda>i. i \<in> Scope_ID ` set hit) db))"

definition clientScopeRepo_ProtocolMapperOwner :: "sqlite_db \<Rightarrow> string \<Rightarrow> string st" where
  "clientScopeRepo_ProtocolMapperOwner db mapperID =
    first_row (map Scope_ID
      (filter (\<lambda>s. HoldsProtocolMapper (Scope_ProtocolMappers s) mapperID) (T_client_scope db)))"

text \<open>The join over \<^verbatim>\<open>realm_default_client_scope\<close>, whose primary key names each scope once per realm.\<close>

definition clientScopeRepo_ListRealmDefaults :: "sqlite_db \<Rightarrow> string \<Rightarrow> bool \<Rightarrow> client_scope list st" where
  "clientScopeRepo_ListRealmDefaults db realmID defaultScope =
    Inr (concat (map (\<lambda>(r, i, d, n). filter (\<lambda>s. Scope_ID s = i) (T_client_scope db))
      (sort_key (\<lambda>(r, i, d, n). n)
        (filter (\<lambda>(r, i, d, n). r = realmID \<and> d = defaultScope) (T_realm_default_scope db)))))"

definition clientScopeRepo_AddRealmDefault ::
  "sqlite_db \<Rightarrow> string \<Rightarrow> string \<Rightarrow> bool \<Rightarrow> sqlite_db st" where
  "clientScopeRepo_AddRealmDefault db realmID scopeID defaultScope =
    (let ns = map (\<lambda>(r, i, d, n). n) (filter (\<lambda>(r, i, d, n). r = realmID) (T_realm_default_scope db));
         ordinal = (if ns = [] then 0 else Max (set ns) + 1)
     in if \<exists>(r, i, d, n) \<in> set (T_realm_default_scope db). r = realmID \<and> i = scopeID
        then Inl ErrConflict
        else if \<not> (has_realm db realmID \<and> has_scope db scopeID) then Inl ErrStore
        else Inr (db\<lparr>T_realm_default_scope :=
               T_realm_default_scope db @ [(realmID, scopeID, defaultScope, ordinal)]\<rparr>))"

definition clientScopeRepo_RemoveRealmDefault :: "sqlite_db \<Rightarrow> string \<Rightarrow> string \<Rightarrow> sqlite_db st" where
  "clientScopeRepo_RemoveRealmDefault db realmID scopeID =
    Inr (db\<lparr>T_realm_default_scope :=
      filter (\<lambda>(r, i, d, n). \<not> (r = realmID \<and> i = scopeID)) (T_realm_default_scope db)\<rparr>)"

definition clientScopeRepo_ByID :: "sqlite_db \<Rightarrow> string \<Rightarrow> string \<Rightarrow> client_scope st" where
  "clientScopeRepo_ByID db realmID ident =
    first_row (filter (\<lambda>s. Scope_RealmID s = realmID \<and> Scope_ID s = ident) (T_client_scope db))"

definition clientScopeRepo_ByName :: "sqlite_db \<Rightarrow> string \<Rightarrow> string \<Rightarrow> client_scope st" where
  "clientScopeRepo_ByName db realmID name =
    first_row (filter (\<lambda>s. Scope_RealmID s = realmID \<and> Scope_Name s = name) (T_client_scope db))"

definition clientScopeRepo_ListByRealm :: "sqlite_db \<Rightarrow> string \<Rightarrow> client_scope list st" where
  "clientScopeRepo_ListByRealm db realmID =
    Inr (sort_key Scope_Name (filter (\<lambda>s. Scope_RealmID s = realmID) (T_client_scope db)))"

definition clientScopeRepo_ListClientScopes :: "sqlite_db \<Rightarrow> string \<Rightarrow> bool \<Rightarrow> client_scope list st" where
  "clientScopeRepo_ListClientScopes db clientID defaultScope =
    Inr (sort_key Scope_Name
      (filter (\<lambda>s. (clientID, Scope_ID s, defaultScope) \<in> set (T_client_client_scope db))
        (T_client_scope db)))"

definition clientScopeRepo_AddClientScope ::
  "sqlite_db \<Rightarrow> string \<Rightarrow> string \<Rightarrow> bool \<Rightarrow> sqlite_db st" where
  "clientScopeRepo_AddClientScope db clientID scopeID defaultScope =
    (if \<exists>(c, s, d) \<in> set (T_client_client_scope db). c = clientID \<and> s = scopeID then Inr db
     else if \<not> (has_client db clientID \<and> has_scope db scopeID) then Inl ErrStore
     else Inr (db\<lparr>T_client_client_scope := T_client_client_scope db @ [(clientID, scopeID, defaultScope)]\<rparr>))"

definition clientScopeRepo_RemoveClientScope :: "sqlite_db \<Rightarrow> string \<Rightarrow> string \<Rightarrow> sqlite_db st" where
  "clientScopeRepo_RemoveClientScope db clientID scopeID =
    Inr (db\<lparr>T_client_client_scope :=
      filter (\<lambda>(c, s, d). \<not> (c = clientID \<and> s = scopeID)) (T_client_client_scope db)\<rparr>)"

section \<open>Realms and keys\<close>

text \<open>
  The two lifespans are stored in whole seconds, \<^verbatim>\<open>int64(d.Seconds())\<close>, and read back as durations;
  a fraction of a second is dropped.
\<close>

definition whole_seconds :: "duration \<Rightarrow> duration" where
  "whole_seconds d = (if 0 \<le> d then d div second * second else - (- d div second * second))"

definition realm_row :: "realm \<Rightarrow> realm" where
  "realm_row m = m\<lparr>Realm_AccessTokenLifespan := whole_seconds (Realm_AccessTokenLifespan m),
                  Realm_RefreshTokenLifespan := whole_seconds (Realm_RefreshTokenLifespan m)\<rparr>"

definition realmRepo_Create :: "sqlite_db \<Rightarrow> realm \<Rightarrow> sqlite_db st" where
  "realmRepo_Create db m =
    (if \<exists>r \<in> set (T_realm db). Realm_ID r = Realm_ID m \<or> Realm_Name r = Realm_Name m
     then Inl ErrConflict
     else Inr (db\<lparr>T_realm := T_realm db @ [realm_row m]\<rparr>))"

definition realmRepo_ByName :: "sqlite_db \<Rightarrow> string \<Rightarrow> realm st" where
  "realmRepo_ByName db name = first_row (filter (\<lambda>r. Realm_Name r = name) (T_realm db))"

definition realmRepo_List :: "sqlite_db \<Rightarrow> realm list st" where
  "realmRepo_List db = Inr (sort_key Realm_Name (T_realm db))"

definition realmRepo_Update :: "sqlite_db \<Rightarrow> realm \<Rightarrow> sqlite_db st" where
  "realmRepo_Update db m =
    (if (\<exists>r \<in> set (T_realm db). Realm_ID r = Realm_ID m)
        \<and> (\<exists>r \<in> set (T_realm db). Realm_ID r \<noteq> Realm_ID m \<and> Realm_Name r = Realm_Name m)
     then Inl ErrConflict
     else affectedOne (length (filter (\<lambda>r. Realm_ID r = Realm_ID m) (T_realm db)))
            (db\<lparr>T_realm := map (\<lambda>r. if Realm_ID r = Realm_ID m then realm_row m else r) (T_realm db)\<rparr>))"

text \<open>Every root table refers to its realm with \<^verbatim>\<open>ON DELETE CASCADE\<close>.\<close>

definition cascade_realm :: "string \<Rightarrow> sqlite_db \<Rightarrow> sqlite_db" where
  "cascade_realm realmID db =
    (let clients = (\<lambda>i. \<exists>c \<in> set (T_client db). Client_ID c = i \<and> Client_RealmID c = realmID);
         users = (\<lambda>i. \<exists>u \<in> set (T_user db). User_ID u = i \<and> User_RealmID u = realmID);
         roles = (\<lambda>i. \<exists>r \<in> set (T_role db). Role_ID r = i \<and> Role_RealmID r = realmID);
         groups = (\<lambda>i. \<exists>g \<in> set (T_group db). Group_ID g = i \<and> Group_RealmID g = realmID);
         scopes = (\<lambda>i. \<exists>s \<in> set (T_client_scope db). Scope_ID s = i \<and> Scope_RealmID s = realmID);
         sessions = (\<lambda>i. \<exists>s \<in> set (T_user_session db). US_ID s = i \<and> US_RealmID s = realmID);
         db = cascade_sessions sessions (cascade_users users (cascade_clients clients
                (cascade_groups groups (cascade_scopes scopes (cascade_roles roles db)))))
     in db\<lparr>T_realm := filter (\<lambda>r. Realm_ID r \<noteq> realmID) (T_realm db),
           T_realm_key := filter (\<lambda>k. Key_RealmID k \<noteq> realmID) (T_realm_key db),
           T_default_group := filter (\<lambda>(r, g). r \<noteq> realmID) (T_default_group db),
           T_realm_default_scope := filter (\<lambda>(r, i, d, n). r \<noteq> realmID) (T_realm_default_scope db),
           T_federated := filter (\<lambda>(r, u, f, n). r \<noteq> realmID) (T_federated db),
           T_required_action := filter (\<lambda>a. RAP_RealmID a \<noteq> realmID) (T_required_action db),
           T_flow := filter (\<lambda>f. Flow_RealmID f \<noteq> realmID) (T_flow db),
           T_execution := filter (\<lambda>e. Exec_RealmID e \<noteq> realmID
               \<and> \<not> (\<exists>f \<in> set (T_flow db). Flow_ID f = Exec_ParentFlowID e \<and> Flow_RealmID f = realmID))
             (T_execution db),
           T_config := filter (\<lambda>c. Conf_RealmID c \<noteq> realmID) (T_config db)\<rparr>)"

definition realmRepo_Delete :: "sqlite_db \<Rightarrow> string \<Rightarrow> sqlite_db st" where
  "realmRepo_Delete db ident =
    affectedOne (length (filter (\<lambda>r. Realm_ID r = ident) (T_realm db))) (cascade_realm ident db)"

definition keyRepo_Create :: "sqlite_db \<Rightarrow> realm_key \<Rightarrow> sqlite_db st" where
  "keyRepo_Create db m =
    (if \<exists>k \<in> set (T_realm_key db). Key_ID k = Key_ID m
          \<or> (Key_RealmID k = Key_RealmID m \<and> Key_Algorithm k = Key_Algorithm m)
     then Inl ErrConflict
     else if \<not> has_realm db (Key_RealmID m) then Inl ErrStore
     else Inr (db\<lparr>T_realm_key := T_realm_key db @ [m]\<rparr>))"

definition keyRepo_ListByRealm :: "sqlite_db \<Rightarrow> string \<Rightarrow> realm_key list st" where
  "keyRepo_ListByRealm db realmID =
    Inr (sort_key Key_Algorithm (filter (\<lambda>k. Key_RealmID k = realmID) (T_realm_key db)))"

section \<open>Required actions and authentication flows\<close>

definition priority_order :: "('a \<Rightarrow> int) \<Rightarrow> ('a \<Rightarrow> string) \<Rightarrow> 'a list \<Rightarrow> 'a list" where
  "priority_order priority ident xs = sort_key priority (sort_key ident xs)"

definition requiredActionRepo_Create :: "sqlite_db \<Rightarrow> required_action_provider \<Rightarrow> sqlite_db st" where
  "requiredActionRepo_Create db m =
    (if \<exists>a \<in> set (T_required_action db). RAP_ID a = RAP_ID m then Inl ErrConflict
     else if \<not> has_realm db (RAP_RealmID m) then Inl ErrStore
     else Inr (db\<lparr>T_required_action := T_required_action db @ [m]\<rparr>))"

definition requiredActionRepo_ListByRealm :: "sqlite_db \<Rightarrow> string \<Rightarrow> required_action_provider list st" where
  "requiredActionRepo_ListByRealm db realmID =
    Inr (priority_order RAP_Priority RAP_ID (filter (\<lambda>a. RAP_RealmID a = realmID) (T_required_action db)))"

definition requiredActionRepo_ByAlias :: "sqlite_db \<Rightarrow> string \<Rightarrow> string \<Rightarrow> required_action_provider st" where
  "requiredActionRepo_ByAlias db realmID alias =
    first_row (priority_order RAP_Priority RAP_ID
      (filter (\<lambda>a. RAP_RealmID a = realmID \<and> RAP_Alias a = alias) (T_required_action db)))"

definition requiredActionRepo_Update :: "sqlite_db \<Rightarrow> required_action_provider \<Rightarrow> sqlite_db st" where
  "requiredActionRepo_Update db m =
    (let hit = (\<lambda>a. RAP_RealmID a = RAP_RealmID m \<and> RAP_ID a = RAP_ID m)
     in affectedOne (length (filter hit (T_required_action db)))
          (db\<lparr>T_required_action := map (\<lambda>a. if hit a then m else a) (T_required_action db)\<rparr>))"

definition requiredActionRepo_Delete :: "sqlite_db \<Rightarrow> string \<Rightarrow> string \<Rightarrow> sqlite_db st" where
  "requiredActionRepo_Delete db realmID ident =
    (let hit = (\<lambda>a. RAP_RealmID a = realmID \<and> RAP_ID a = ident)
     in affectedOne (length (filter hit (T_required_action db)))
          (db\<lparr>T_required_action := filter (\<lambda>a. \<not> hit a) (T_required_action db)\<rparr>))"

definition flowRepo_ListFlows :: "sqlite_db \<Rightarrow> string \<Rightarrow> authentication_flow list st" where
  "flowRepo_ListFlows db realmID =
    Inr (sort_key Flow_Ordinal (filter (\<lambda>f. Flow_RealmID f = realmID) (T_flow db)))"

definition flowRepo_FlowByID :: "sqlite_db \<Rightarrow> string \<Rightarrow> string \<Rightarrow> authentication_flow st" where
  "flowRepo_FlowByID db realmID ident =
    first_row (filter (\<lambda>f. Flow_RealmID f = realmID \<and> Flow_ID f = ident) (T_flow db))"

definition flowRepo_FlowByAlias :: "sqlite_db \<Rightarrow> string \<Rightarrow> string \<Rightarrow> authentication_flow st" where
  "flowRepo_FlowByAlias db realmID alias =
    first_row (filter (\<lambda>f. Flow_RealmID f = realmID \<and> Flow_Alias f = Some alias) (T_flow db))"

definition flowRepo_CreateFlow :: "sqlite_db \<Rightarrow> authentication_flow \<Rightarrow> sqlite_db st" where
  "flowRepo_CreateFlow db f =
    (let ordinals = map Flow_Ordinal (filter (\<lambda>g. Flow_RealmID g = Flow_RealmID f) (T_flow db));
         next = (if ordinals = [] then - 1 else Max (set ordinals)) + 1
     in if \<exists>g \<in> set (T_flow db). Flow_ID g = Flow_ID f then Inl ErrConflict
        else if \<not> has_realm db (Flow_RealmID f) then Inl ErrStore
        else Inr (db\<lparr>T_flow := T_flow db @ [f\<lparr>Flow_Ordinal := next\<rparr>]\<rparr>))"

definition flowRepo_UpdateFlow :: "sqlite_db \<Rightarrow> authentication_flow \<Rightarrow> sqlite_db st" where
  "flowRepo_UpdateFlow db f =
    (let hit = (\<lambda>g. Flow_RealmID g = Flow_RealmID f \<and> Flow_ID g = Flow_ID f)
     in affectedOne (length (filter hit (T_flow db)))
          (db\<lparr>T_flow := map (\<lambda>g. if hit g then f\<lparr>Flow_Ordinal := Flow_Ordinal g\<rparr> else g) (T_flow db)\<rparr>))"

definition flowRepo_DeleteFlow :: "sqlite_db \<Rightarrow> string \<Rightarrow> string \<Rightarrow> sqlite_db st" where
  "flowRepo_DeleteFlow db realmID ident =
    (let hit = (\<lambda>f. Flow_RealmID f = realmID \<and> Flow_ID f = ident)
     in affectedOne (length (filter hit (T_flow db)))
          (db\<lparr>T_flow := filter (\<lambda>f. \<not> hit f) (T_flow db),
              T_execution := filter (\<lambda>e. Exec_ParentFlowID e \<noteq> ident) (T_execution db)\<rparr>))"

definition flowRepo_ListExecutions :: "sqlite_db \<Rightarrow> string \<Rightarrow> string \<Rightarrow> authentication_execution list st" where
  "flowRepo_ListExecutions db realmID parentFlowID =
    Inr (priority_order Exec_Priority Exec_ID
      (filter (\<lambda>e. Exec_RealmID e = realmID \<and> Exec_ParentFlowID e = parentFlowID) (T_execution db)))"

definition flowRepo_ExecutionByID :: "sqlite_db \<Rightarrow> string \<Rightarrow> string \<Rightarrow> authentication_execution st" where
  "flowRepo_ExecutionByID db realmID ident =
    first_row (filter (\<lambda>e. Exec_RealmID e = realmID \<and> Exec_ID e = ident) (T_execution db))"

definition flowRepo_CreateExecution :: "sqlite_db \<Rightarrow> authentication_execution \<Rightarrow> sqlite_db st" where
  "flowRepo_CreateExecution db e =
    (if \<exists>x \<in> set (T_execution db). Exec_ID x = Exec_ID e then Inl ErrConflict
     else if \<not> has_realm db (Exec_RealmID e) \<or> Exec_ParentFlowID e \<notin> Flow_ID ` set (T_flow db) then Inl ErrStore
     else Inr (db\<lparr>T_execution := T_execution db @ [e]\<rparr>))"

definition flowRepo_UpdateExecution :: "sqlite_db \<Rightarrow> authentication_execution \<Rightarrow> sqlite_db st" where
  "flowRepo_UpdateExecution db e =
    (let hit = (\<lambda>x. Exec_RealmID x = Exec_RealmID e \<and> Exec_ID x = Exec_ID e)
     in affectedOne (length (filter hit (T_execution db)))
          (db\<lparr>T_execution := map (\<lambda>x. if hit x
               then x\<lparr>Exec_Requirement := Exec_Requirement e, Exec_Priority := Exec_Priority e,
                      Exec_ConfigID := Exec_ConfigID e\<rparr> else x) (T_execution db)\<rparr>))"

definition flowRepo_DeleteExecution :: "sqlite_db \<Rightarrow> string \<Rightarrow> string \<Rightarrow> sqlite_db st" where
  "flowRepo_DeleteExecution db realmID ident =
    (let hit = (\<lambda>x. Exec_RealmID x = realmID \<and> Exec_ID x = ident)
     in affectedOne (length (filter hit (T_execution db)))
          (db\<lparr>T_execution := filter (\<lambda>x. \<not> hit x) (T_execution db)\<rparr>))"

definition flowRepo_ListConfigs :: "sqlite_db \<Rightarrow> string \<Rightarrow> authentication_config list st" where
  "flowRepo_ListConfigs db realmID =
    Inr (sort_key Conf_ID (filter (\<lambda>c. Conf_RealmID c = realmID) (T_config db)))"

definition flowRepo_ConfigByID :: "sqlite_db \<Rightarrow> string \<Rightarrow> string \<Rightarrow> authentication_config st" where
  "flowRepo_ConfigByID db realmID ident =
    first_row (filter (\<lambda>c. Conf_RealmID c = realmID \<and> Conf_ID c = ident) (T_config db))"

definition flowRepo_CreateConfig :: "sqlite_db \<Rightarrow> authentication_config \<Rightarrow> sqlite_db st" where
  "flowRepo_CreateConfig db c =
    (if \<exists>x \<in> set (T_config db). Conf_ID x = Conf_ID c then Inl ErrConflict
     else if \<not> has_realm db (Conf_RealmID c) then Inl ErrStore
     else Inr (db\<lparr>T_config := T_config db @ [c]\<rparr>))"

definition flowRepo_UpdateConfig :: "sqlite_db \<Rightarrow> authentication_config \<Rightarrow> sqlite_db st" where
  "flowRepo_UpdateConfig db c =
    (let hit = (\<lambda>x. Conf_RealmID x = Conf_RealmID c \<and> Conf_ID x = Conf_ID c)
     in affectedOne (length (filter hit (T_config db)))
          (db\<lparr>T_config := map (\<lambda>x. if hit x then c else x) (T_config db)\<rparr>))"

definition flowRepo_DeleteConfig :: "sqlite_db \<Rightarrow> string \<Rightarrow> string \<Rightarrow> sqlite_db st" where
  "flowRepo_DeleteConfig db realmID ident =
    (let hit = (\<lambda>x. Conf_RealmID x = realmID \<and> Conf_ID x = ident)
     in affectedOne (length (filter hit (T_config db)))
          (db\<lparr>T_config := filter (\<lambda>x. \<not> hit x) (T_config db),
              T_execution := map (\<lambda>e. if Exec_RealmID e = realmID \<and> Exec_ConfigID e = ident
                then e\<lparr>Exec_ConfigID := []\<rparr> else e) (T_execution db)\<rparr>))"

section \<open>The store\<close>

definition sqlite_roles :: "sqlite_db role_repo" where
  "sqlite_roles =
    \<lparr>RoleRepo_Create = roleRepo_Create, RoleRepo_ByID = roleRepo_ByID,
     RoleRepo_ByName = roleRepo_ByName, RoleRepo_ListRealmRoles = roleRepo_ListRealmRoles,
     RoleRepo_ListClientRoles = roleRepo_ListClientRoles,
     RoleRepo_AddComposite = roleRepo_AddComposite,
     RoleRepo_ListComposites = roleRepo_ListComposites,
     RoleRepo_RemoveComposite = roleRepo_RemoveComposite,
     RoleRepo_AssignToUser = roleRepo_AssignToUser,
     RoleRepo_RemoveFromUser = roleRepo_RemoveFromUser,
     RoleRepo_ListUserRoles = roleRepo_ListUserRoles,
     RoleRepo_AssignToGroup = roleRepo_AssignToGroup,
     RoleRepo_RemoveFromGroup = roleRepo_RemoveFromGroup,
     RoleRepo_ListGroupRoles = roleRepo_ListGroupRoles,
     RoleRepo_ListUsersWithRole = roleRepo_ListUsersWithRole,
     RoleRepo_AddClientScopeMapping = roleRepo_AddClientScopeMapping,
     RoleRepo_RemoveClientScopeMapping = roleRepo_RemoveClientScopeMapping,
     RoleRepo_ListClientScopeMappings = roleRepo_ListClientScopeMappings,
     RoleRepo_AddClientScopeScopeMapping = roleRepo_AddClientScopeScopeMapping,
     RoleRepo_RemoveClientScopeScopeMapping = roleRepo_RemoveClientScopeScopeMapping,
     RoleRepo_ListClientScopeScopeMappings = roleRepo_ListClientScopeScopeMappings,
     RoleRepo_Update = roleRepo_Update, RoleRepo_Delete = roleRepo_Delete\<rparr>"

definition sqlite_sessions :: "sqlite_db session_repo" where
  "sqlite_sessions =
    \<lparr>SessionRepo_CreateUserSession = sessionRepo_CreateUserSession,
     SessionRepo_UserSessionByID = sessionRepo_UserSessionByID,
     SessionRepo_TouchUserSession = sessionRepo_TouchUserSession,
     SessionRepo_DeleteUserSession = sessionRepo_DeleteUserSession,
     SessionRepo_DeleteUserSessions = sessionRepo_DeleteUserSessions,
     SessionRepo_CreateClientSession = sessionRepo_CreateClientSession,
     SessionRepo_ClientSession = sessionRepo_ClientSession,
     SessionRepo_ListUserSessionsByRealm = sessionRepo_ListUserSessionsByRealm,
     SessionRepo_ListUserSessionsByUser = sessionRepo_ListUserSessionsByUser,
     SessionRepo_ListUserSessionsByClient = sessionRepo_ListUserSessionsByClient,
     SessionRepo_ListClientSessions = sessionRepo_ListClientSessions\<rparr>"

definition sqlite_users :: "sqlite_db user_repo" where
  "sqlite_users =
    \<lparr>UserRepo_Create = userRepo_Create, UserRepo_ByUsername = userRepo_ByUsername,
     UserRepo_ByID = userRepo_ByID, UserRepo_ListByRealm = userRepo_ListByRealm,
     UserRepo_Update = userRepo_Update, UserRepo_Delete = userRepo_Delete,
     UserRepo_SetCredential = userRepo_SetCredential,
     UserRepo_CredentialByUser = userRepo_CredentialByUser,
     UserRepo_ListCredentials = userRepo_ListCredentials,
     UserRepo_CredentialByID = userRepo_CredentialByID,
     UserRepo_DeleteCredential = userRepo_DeleteCredential,
     UserRepo_UpdateCredential = userRepo_UpdateCredential,
     UserRepo_ListFederatedIdentities = userRepo_ListFederatedIdentities,
     UserRepo_LinkFederatedIdentity = userRepo_LinkFederatedIdentity,
     UserRepo_UnlinkFederatedIdentity = userRepo_UnlinkFederatedIdentity\<rparr>"

definition sqlite_clients :: "sqlite_db client_repo" where
  "sqlite_clients =
    \<lparr>ClientRepo_Create = clientRepo_Create, ClientRepo_ByClientID = clientRepo_ByClientID,
     ClientRepo_ByID = clientRepo_ByID, ClientRepo_ListByRealm = clientRepo_ListByRealm,
     ClientRepo_Update = clientRepo_Update, ClientRepo_Delete = clientRepo_Delete,
     ClientRepo_ProtocolMapperOwner = clientRepo_ProtocolMapperOwner,
     ClientRepo_RegisterNode = clientRepo_RegisterNode,
     ClientRepo_UnregisterNode = clientRepo_UnregisterNode\<rparr>"

definition sqlite_client_scopes :: "sqlite_db client_scope_repo" where
  "sqlite_client_scopes =
    \<lparr>ClientScopeRepo_Create = clientScopeRepo_Create,
     ClientScopeRepo_ByID = clientScopeRepo_ByID, ClientScopeRepo_ByName = clientScopeRepo_ByName,
     ClientScopeRepo_ListByRealm = clientScopeRepo_ListByRealm,
     ClientScopeRepo_Update = clientScopeRepo_Update,
     ClientScopeRepo_Delete = clientScopeRepo_Delete,
     ClientScopeRepo_ProtocolMapperOwner = clientScopeRepo_ProtocolMapperOwner,
     ClientScopeRepo_ListRealmDefaults = clientScopeRepo_ListRealmDefaults,
     ClientScopeRepo_AddRealmDefault = clientScopeRepo_AddRealmDefault,
     ClientScopeRepo_RemoveRealmDefault = clientScopeRepo_RemoveRealmDefault,
     ClientScopeRepo_ListClientScopes = clientScopeRepo_ListClientScopes,
     ClientScopeRepo_AddClientScope = clientScopeRepo_AddClientScope,
     ClientScopeRepo_RemoveClientScope = clientScopeRepo_RemoveClientScope\<rparr>"

definition sqlite_realms :: "sqlite_db realm_repo" where
  "sqlite_realms =
    \<lparr>RealmRepo_Create = realmRepo_Create, RealmRepo_ByName = realmRepo_ByName,
     RealmRepo_List = realmRepo_List, RealmRepo_Update = realmRepo_Update,
     RealmRepo_Delete = realmRepo_Delete\<rparr>"

definition sqlite_keys :: "sqlite_db key_repo" where
  "sqlite_keys = \<lparr>KeyRepo_Create = keyRepo_Create, KeyRepo_ListByRealm = keyRepo_ListByRealm\<rparr>"

definition sqlite_required_actions :: "sqlite_db required_action_repo" where
  "sqlite_required_actions =
    \<lparr>RequiredActionRepo_ListByRealm = requiredActionRepo_ListByRealm,
     RequiredActionRepo_ByAlias = requiredActionRepo_ByAlias,
     RequiredActionRepo_Create = requiredActionRepo_Create,
     RequiredActionRepo_Update = requiredActionRepo_Update,
     RequiredActionRepo_Delete = requiredActionRepo_Delete\<rparr>"

definition sqlite_flows :: "sqlite_db authentication_flow_repo" where
  "sqlite_flows =
    \<lparr>FlowRepo_ListFlows = flowRepo_ListFlows, FlowRepo_FlowByID = flowRepo_FlowByID,
     FlowRepo_FlowByAlias = flowRepo_FlowByAlias, FlowRepo_CreateFlow = flowRepo_CreateFlow,
     FlowRepo_UpdateFlow = flowRepo_UpdateFlow, FlowRepo_DeleteFlow = flowRepo_DeleteFlow,
     FlowRepo_ListExecutions = flowRepo_ListExecutions, FlowRepo_ExecutionByID = flowRepo_ExecutionByID,
     FlowRepo_CreateExecution = flowRepo_CreateExecution, FlowRepo_UpdateExecution = flowRepo_UpdateExecution,
     FlowRepo_DeleteExecution = flowRepo_DeleteExecution, FlowRepo_ListConfigs = flowRepo_ListConfigs,
     FlowRepo_ConfigByID = flowRepo_ConfigByID, FlowRepo_CreateConfig = flowRepo_CreateConfig,
     FlowRepo_UpdateConfig = flowRepo_UpdateConfig, FlowRepo_DeleteConfig = flowRepo_DeleteConfig\<rparr>"

definition sqlite_store :: "sqlite_db store" where
  "sqlite_store =
    \<lparr>Store_Realms = sqlite_realms, Store_Keys = sqlite_keys, Store_Clients = sqlite_clients,
     Store_ClientScopes = sqlite_client_scopes, Store_Users = sqlite_users,
     Store_Roles = sqlite_roles, Store_Sessions = sqlite_sessions,
     Store_RequiredActions = sqlite_required_actions, Store_AuthenticationFlows = sqlite_flows\<rparr>"

section \<open>Invariants of the role tables\<close>

text \<open>Primary keys and foreign keys of the role tables.\<close>

definition wf_roles :: "sqlite_db \<Rightarrow> bool" where
  "wf_roles db \<longleftrightarrow>
     distinct (map Role_ID (T_role db))
   \<and> (\<forall>(p, c) \<in> set (T_composite db). has_role db p \<and> has_role db c)
   \<and> (\<forall>(u, r) \<in> set (T_user_role db). has_user db u \<and> has_role db r)
   \<and> (\<forall>(g, r) \<in> set (T_group_role db). has_group db g \<and> has_role db r)
   \<and> (\<forall>(c, r) \<in> set (T_scope_mapping db). has_client db c \<and> has_role db r)
   \<and> (\<forall>(s, r) \<in> set (T_client_scope_role db). has_scope db s \<and> has_role db r)"

text \<open>The derived flag: a role is composite exactly when it has a child.\<close>

definition flags_synced :: "sqlite_db \<Rightarrow> bool" where
  "flags_synced db \<longleftrightarrow>
     (\<forall>r \<in> set (T_role db). Role_Composite r \<longleftrightarrow> Role_ID r \<in> fst ` set (T_composite db))"

definition stored_roles :: "sqlite_db \<Rightarrow> role list" where
  "stored_roles db = loadRoleAttributes db (T_role db)"

text \<open>Small values for the examples.\<close>

definition sample_role :: "string \<Rightarrow> bool \<Rightarrow> role" where
  "sample_role i b = \<lparr>Role_ID = i, Role_RealmID = ''m'', Role_ClientID = [], Role_Name = i,
     Role_Description = [], Role_Composite = b, Role_Attributes = []\<rparr>"

definition empty_db :: sqlite_db where
  "empty_db = \<lparr>T_realm = [], T_client = [], T_user = [], T_credential = [], T_role = [],
     T_role_attribute = [], T_composite = [], T_user_role = [], T_group = [], T_group_attribute = [],
     T_membership = [], T_default_group = [], T_group_role = [],
     T_scope_mapping = [], T_client_scope = [], T_client_client_scope = [], T_client_scope_role = [],
     T_user_session = [], T_client_session = [], T_authz_resource_server = [], T_client_node = [],
     T_realm_default_scope = [], T_federated = [], T_realm_key = [],
     T_required_action = [], T_flow = [], T_execution = [], T_config = []\<rparr>"

lemma loadRoleAttributes_ids [store_simps]:
  "map Role_ID (loadRoleAttributes db rs) = map Role_ID rs"
  by (simp add: loadRoleAttributes_def comp_def)

lemma set_loadRoleAttributes_mono:
  "set rs \<subseteq> set qs \<Longrightarrow> set (loadRoleAttributes db rs) \<subseteq> set (loadRoleAttributes db qs)"
  by (auto simp: loadRoleAttributes_def)

lemma join_roles_stored: "set (join_roles db m h) \<subseteq> set (stored_roles db)"
  by (simp add: join_roles_def stored_roles_def set_loadRoleAttributes_mono)

lemma client_roles_stored:
  "set (loadRoleAttributes db (sort_key f (filter P (T_role db)))) \<subseteq> set (stored_roles db)"
  by (simp add: stored_roles_def set_loadRoleAttributes_mono)

lemma affectedOne_Inr [store_simps]: "affectedOne n x = Inr y \<longleftrightarrow> n \<noteq> 0 \<and> x = y"
  by (simp add: affectedOne_def)

interpretation sq: role_repo_total sqlite_roles wf_roles stored_roles
proof
  show "distinct (map Role_ID (stored_roles db))" if "wf_roles db" for db
    using that by (simp add: wf_roles_def stored_roles_def loadRoleAttributes_ids)
qed (auto simp: sqlite_roles_def
      roleRepo_ListComposites_def roleRepo_ListUserRoles_def roleRepo_ListGroupRoles_def
      roleRepo_ListClientRoles_def roleRepo_ListClientScopeMappings_def
      roleRepo_ListClientScopeScopeMappings_def
      intro: subsetD [OF join_roles_stored] subsetD [OF client_roles_stored])

text \<open>Every write of the role repository keeps the keys.\<close>

lemma roleRepo_Create_wf:
  "wf_roles db \<Longrightarrow> roleRepo_Create db m = Inr db' \<Longrightarrow> wf_roles db'"
  by (fastforce simp: roleRepo_Create_def wf_roles_def has_role_def has_user_def has_client_def
      has_scope_def has_group_def split: if_splits)

lemma has_role_ids: "has_role db i \<longleftrightarrow> i \<in> set (map Role_ID (T_role db))"
  by (simp add: has_role_def)

lemma wf_roles_same_ids:
  assumes "map Role_ID rs = map Role_ID (T_role db)"
  shows "wf_roles (db\<lparr>T_role := rs, T_role_attribute := as\<rparr>) = wf_roles db"
    "wf_roles (db\<lparr>T_role := rs\<rparr>) = wf_roles db"
proof -
  have "has_role (db\<lparr>T_role := rs, T_role_attribute := as\<rparr>) i = has_role db i"
    "has_role (db\<lparr>T_role := rs\<rparr>) i = has_role db i" for i
    using assms by (simp_all add: has_role_ids del: set_map)
  then show "wf_roles (db\<lparr>T_role := rs, T_role_attribute := as\<rparr>) = wf_roles db"
    "wf_roles (db\<lparr>T_role := rs\<rparr>) = wf_roles db"
    using assms by (simp_all add: wf_roles_def has_user_def has_client_def has_scope_def has_group_def)
qed

lemma roleRepo_Update_wf:
  "wf_roles db \<Longrightarrow> roleRepo_Update db m = Inr db' \<Longrightarrow> wf_roles db'"
  by (auto simp: roleRepo_Update_def Let_def affectedOne_Inr wf_roles_same_ids split: if_splits)

lemma cascade_roles_wf: "wf_roles db \<Longrightarrow> wf_roles (cascade_roles gone db)"
  by (fastforce simp: wf_roles_def cascade_roles_def has_role_def has_user_def has_client_def
      has_scope_def has_group_def distinct_map_filter)

lemma roleRepo_Delete_wf:
  "wf_roles db \<Longrightarrow> roleRepo_Delete db realmID i = Inr db' \<Longrightarrow> wf_roles db'"
  by (auto simp: roleRepo_Delete_def Let_def affectedOne_Inr wf_roles_same_ids
      intro!: cascade_roles_wf split: if_splits)

lemma insert_pair_wf:
  "wf_roles db \<Longrightarrow> roleRepo_AddComposite db p c = Inr db' \<Longrightarrow> wf_roles db'"
  "wf_roles db \<Longrightarrow> roleRepo_AssignToUser db u r = Inr db' \<Longrightarrow> wf_roles db'"
  "wf_roles db \<Longrightarrow> roleRepo_AssignToGroup db g r = Inr db' \<Longrightarrow> wf_roles db'"
  "wf_roles db \<Longrightarrow> roleRepo_AddClientScopeMapping db cl r = Inr db' \<Longrightarrow> wf_roles db'"
  "wf_roles db \<Longrightarrow> roleRepo_AddClientScopeScopeMapping db s r = Inr db' \<Longrightarrow> wf_roles db'"
  by (auto simp: roleRepo_AddComposite_def roleRepo_AssignToUser_def roleRepo_AssignToGroup_def
      roleRepo_AddClientScopeMapping_def roleRepo_AddClientScopeScopeMapping_def insert_pair_def
      insert_pair_ignore_def bind_err_Inr_iff wf_roles_def has_role_def has_user_def has_client_def
      has_scope_def has_group_def split: if_splits)

lemma remove_pair_wf:
  "wf_roles db \<Longrightarrow> roleRepo_RemoveComposite db p c = Inr db' \<Longrightarrow> wf_roles db'"
  "wf_roles db \<Longrightarrow> roleRepo_RemoveFromUser db u r = Inr db' \<Longrightarrow> wf_roles db'"
  "wf_roles db \<Longrightarrow> roleRepo_RemoveFromGroup db g r = Inr db' \<Longrightarrow> wf_roles db'"
  "wf_roles db \<Longrightarrow> roleRepo_RemoveClientScopeMapping db cl r = Inr db' \<Longrightarrow> wf_roles db'"
  "wf_roles db \<Longrightarrow> roleRepo_RemoveClientScopeScopeMapping db s r = Inr db' \<Longrightarrow> wf_roles db'"
  by (auto simp: roleRepo_RemoveComposite_def roleRepo_RemoveFromUser_def
      roleRepo_RemoveFromGroup_def roleRepo_RemoveClientScopeMapping_def
      roleRepo_RemoveClientScopeScopeMapping_def affectedOne_Inr wf_roles_def has_role_def
      has_user_def has_client_def has_scope_def has_group_def)

text \<open>What a deletion leaves, as sets: the deleted role and every row that named it are gone.\<close>

lemma roleRepo_Delete_tables:
  assumes "roleRepo_Delete db realmID i = Inr db'"
  shows "Role_ID ` set (T_role db') = Role_ID ` set (T_role db) - {i}"
    and "set (T_composite db') = {(p, c) \<in> set (T_composite db). p \<noteq> i \<and> c \<noteq> i}"
    and "set (T_user_role db') = {(u, r) \<in> set (T_user_role db). r \<noteq> i}"
    and "\<forall>r' \<in> set (T_role db'). \<exists>r \<in> set (T_role db). Role_ID r = Role_ID r'
          \<and> (Role_Composite r' \<longleftrightarrow> Role_Composite r
               \<and> \<not> ((Role_ID r, i) \<in> set (T_composite db)
                   \<and> (\<forall>(p, c) \<in> set (T_composite db). p = Role_ID r \<longrightarrow> c = i)))"
proof -
  define resync where "resync = (\<lambda>r :: role. if (Role_ID r, i) \<in> set (T_composite db)
      \<and> \<not> (\<exists>(p, c) \<in> set (T_composite db). p = Role_ID r \<and> c \<noteq> i)
      then r\<lparr>Role_Composite := False\<rparr> else r)"
  have id: "Role_ID (resync r) = Role_ID r" for r by (simp add: resync_def)
  let ?hit = "filter (\<lambda>r. Role_RealmID r = realmID \<and> Role_ID r = i) (map resync (T_role db))"
  from assms have ne: "?hit \<noteq> []"
    and db': "db' = cascade_roles (\<lambda>j. j \<in> Role_ID ` set ?hit) (db\<lparr>T_role := map resync (T_role db)\<rparr>)"
    unfolding roleRepo_Delete_def Let_def resync_def [symmetric] affectedOne_Inr
    by (simp_all add: filter_map)
  have gone: "(j \<in> Role_ID ` set ?hit) = (j = i)" for j
    using ne by (auto simp: image_iff filter_empty_conv)
  show "set (T_composite db') = {(p, c) \<in> set (T_composite db). p \<noteq> i \<and> c \<noteq> i}"
    "set (T_user_role db') = {(u, r) \<in> set (T_user_role db). r \<noteq> i}"
    unfolding db' cascade_roles_def gone by auto
  show "Role_ID ` set (T_role db') = Role_ID ` set (T_role db) - {i}"
    unfolding db' cascade_roles_def gone by (auto simp: id image_iff) (metis id)
  show "\<forall>r' \<in> set (T_role db'). \<exists>r \<in> set (T_role db). Role_ID r = Role_ID r'
          \<and> (Role_Composite r' \<longleftrightarrow> Role_Composite r
               \<and> \<not> ((Role_ID r, i) \<in> set (T_composite db)
                   \<and> (\<forall>(p, c) \<in> set (T_composite db). p = Role_ID r \<longrightarrow> c = i)))"
  proof
  fix r' assume "r' \<in> set (T_role db')"
  then obtain r where r: "r \<in> set (T_role db)" "r' = resync r"
    unfolding db' cascade_roles_def gone by auto
  show "\<exists>r \<in> set (T_role db). Role_ID r = Role_ID r'
          \<and> (Role_Composite r' \<longleftrightarrow> Role_Composite r
               \<and> \<not> ((Role_ID r, i) \<in> set (T_composite db)
                   \<and> (\<forall>(p, c) \<in> set (T_composite db). p = Role_ID r \<longrightarrow> c = i)))"
    by (rule bexI [of _ r]) (use r in \<open>auto simp: resync_def\<close>)
  qed
qed

text \<open>
  Deleting a role keeps the composite flag derived: if every role was flagged composite exactly
  when it had a child, the same holds after the deletion, whichever parents lost their last child;
  and no row of the composite or user mapping tables still names the deleted role.
\<close>

theorem roleRepo_Delete_flags:
  assumes "flags_synced db" "roleRepo_Delete db realmID i = Inr db'"
  shows "flags_synced db' \<and> \<not> has_role db' i
       \<and> (\<forall>(p, c) \<in> set (T_composite db'). p \<noteq> i \<and> c \<noteq> i)
       \<and> (\<forall>(u, r) \<in> set (T_user_role db'). r \<noteq> i)"
proof -
  note t = roleRepo_Delete_tables [OF assms(2)]
  have "Role_Composite r' \<longleftrightarrow> Role_ID r' \<in> fst ` set (T_composite db')"
    if r': "r' \<in> set (T_role db')" for r'
  proof -
    obtain r where r: "r \<in> set (T_role db)" "Role_ID r = Role_ID r'"
      "Role_Composite r' \<longleftrightarrow> Role_Composite r \<and> \<not> ((Role_ID r, i) \<in> set (T_composite db)
          \<and> (\<forall>(p, c) \<in> set (T_composite db). p = Role_ID r \<longrightarrow> c = i))"
      using bspec [OF t(4) r'] by blast
    have "Role_ID r' \<noteq> i" using r' t(1) by auto
    moreover have "Role_Composite r \<longleftrightarrow> (\<exists>c. (Role_ID r', c) \<in> set (T_composite db))"
      using assms(1) r(1, 2) by (force simp: flags_synced_def)
    moreover have "Role_ID r' \<in> fst ` set (T_composite db')
        \<longleftrightarrow> (\<exists>c. (Role_ID r', c) \<in> set (T_composite db) \<and> Role_ID r' \<noteq> i \<and> c \<noteq> i)"
      unfolding t(2) by force
    ultimately show ?thesis using r(2, 3) by auto
  qed
  then have "flags_synced db'" by (simp add: flags_synced_def)
  moreover have "\<not> has_role db' i" using t(1) by (simp add: has_role_def)
  ultimately show ?thesis using t(2, 3) by auto
qed

end
