(* ===== verification/Roles.thy ===== *)
theory Roles
  imports Sqlite
begin

text \<open>
  \<^verbatim>\<open>internal/roles/roles.go\<close>, what a user holds and which of it survives into a token, and
  \<^verbatim>\<open>tokenRoles\<close> of \<^verbatim>\<open>internal/oidc/roles.go\<close>, which fills the two role claims. The composite walk is a
  work-list loop that stops only when its queue is empty, so it is a partial function: \<^const>\<open>None\<close>
  is a walk that never returns. The lemmas show that under the repository contract it always
  returns and computes the reflexive transitive closure of the composite relation.
\<close>

section \<open>The composite walk\<close>

partial_function (option) ExpandFrom_loop ::
  "(string \<Rightarrow> role list st) \<Rightarrow> string list \<Rightarrow> role list \<Rightarrow> role list \<Rightarrow> (role list st) option" where
  "ExpandFrom_loop composites seen out queue =
    (if queue = [] then Some (Inr out)
     else let role = hd queue; queue = tl queue in
       (if Role_ID role \<in> set seen then ExpandFrom_loop composites seen out queue
        else if \<not> Role_Composite role
        then ExpandFrom_loop composites (Role_ID role # seen) (out @ [role]) queue
        else (case composites (Role_ID role) of
                Inl e \<Rightarrow> Some (Inl e)
              | Inr children \<Rightarrow>
                  ExpandFrom_loop composites (Role_ID role # seen) (out @ [role]) (queue @ children))))"

definition ExpandFrom :: "'db role_repo \<Rightarrow> 'db \<Rightarrow> role list \<Rightarrow> (role list st) option" where
  "ExpandFrom repo db direct = ExpandFrom_loop (RoleRepo_ListComposites repo db) [] [] direct"

text \<open>Sequencing a call that may fail or never return.\<close>

definition bind_run :: "('e + 'a) option \<Rightarrow> ('a \<Rightarrow> ('e + 'b) option) \<Rightarrow> ('e + 'b) option" where
  "bind_run m f = (case m of None \<Rightarrow> None | Some (Inl e) \<Rightarrow> Some (Inl e) | Some (Inr x) \<Rightarrow> f x)"

definition Effective :: "'db role_repo \<Rightarrow> 'db \<Rightarrow> string \<Rightarrow> (role list st) option" where
  "Effective repo db userID =
    bind_run (Some (RoleRepo_ListUserRoles repo db userID)) (ExpandFrom repo db)"

definition EffectiveForGroup :: "'db role_repo \<Rightarrow> 'db \<Rightarrow> string \<Rightarrow> (role list st) option" where
  "EffectiveForGroup repo db groupID =
    bind_run (Some (RoleRepo_ListGroupRoles repo db groupID)) (ExpandFrom repo db)"

section \<open>The scope filter\<close>

definition ScopesInEffect ::
  "'db client_scope_repo \<Rightarrow> 'db \<Rightarrow> client \<Rightarrow> string \<Rightarrow> client_scope list st" where
  "ScopesInEffect repo db c granted =
    bind_err (ClientScopeRepo_ListClientScopes repo db (Client_ID c) True) (\<lambda>defaults.
    bind_err (ClientScopeRepo_ListClientScopes repo db (Client_ID c) False) (\<lambda>optional.
      let asked = GoStd.fields granted
      in Inr (defaults @ filter (\<lambda>s. Scope_Name s \<in> set asked) optional)))"

fun append_mappings ::
  "'db role_repo \<Rightarrow> 'db \<Rightarrow> role list \<Rightarrow> client_scope list \<Rightarrow> role list st" where
  "append_mappings repo db direct [] = Inr direct"
| "append_mappings repo db direct (s # scopes) =
     bind_err (RoleRepo_ListClientScopeScopeMappings repo db (Scope_ID s))
       (\<lambda>mapped. append_mappings repo db (direct @ mapped) scopes)"

definition InScope ::
  "'db role_repo \<Rightarrow> 'db \<Rightarrow> client \<Rightarrow> client_scope list \<Rightarrow> ((role \<Rightarrow> bool) st) option" where
  "InScope repo db c scopes =
    (if Client_FullScopeAllowed c then Some (Inr (\<lambda>_. True))
     else
       bind_run (Some (RoleRepo_ListClientScopeMappings repo db (Client_ID c))) (\<lambda>direct.
       bind_run (Some (RoleRepo_ListClientRoles repo db (Client_RealmID c) (Client_ID c))) (\<lambda>own.
       bind_run (Some (append_mappings repo db (direct @ own) scopes)) (\<lambda>direct.
       bind_run (ExpandFrom repo db direct) (\<lambda>reachable.
         Some (Inr (\<lambda>role. Role_ID role \<in> Role_ID ` set reachable)))))))"

definition Filter :: "role list \<Rightarrow> (role \<Rightarrow> bool) \<Rightarrow> role list" where
  "Filter xs ok = filter ok xs"

definition AssignDefaults ::
  "'db role_repo \<Rightarrow> 'db \<Rightarrow> string \<Rightarrow> string \<Rightarrow> string \<Rightarrow> 'db st" where
  "AssignDefaults repo db realmID realmName userID =
    bind_err (RoleRepo_ByName repo db realmID [] (DefaultRolesName realmName)) (\<lambda>role.
      case RoleRepo_AssignToUser repo db userID (Role_ID role) of
        Inl ErrConflict \<Rightarrow> Inr db
      | r \<Rightarrow> r)"

section \<open>The role claims of a token\<close>

fun append_role :: "string list smap \<Rightarrow> string \<Rightarrow> string \<Rightarrow> string list smap" where
  "append_role [] n r = [(n, [r])]"
| "append_role ((k, rs) # m) n r = (if k = n then (k, rs @ [r]) # m else (k, rs) # append_role m n r)"

fun split_roles ::
  "(string \<Rightarrow> client st) \<Rightarrow> string smap \<Rightarrow> string list \<Rightarrow> string list smap \<Rightarrow> role list
     \<Rightarrow> string list \<times> string list smap" where
  "split_roles byID names realmRoles clientRoles [] = (realmRoles, clientRoles)"
| "split_roles byID names realmRoles clientRoles (r # rs) =
     (if Role_ClientID r = []
      then split_roles byID names (realmRoles @ [Role_Name r]) clientRoles rs
      else (case map_of names (Role_ClientID r) of
              Some name \<Rightarrow>
                split_roles byID names realmRoles (append_role clientRoles name (Role_Name r)) rs
            | None \<Rightarrow>
                (case byID (Role_ClientID r) of
                   Inl _ \<Rightarrow> split_roles byID names realmRoles clientRoles rs
                 | Inr c \<Rightarrow>
                     split_roles byID ((Role_ClientID r, Client_ClientID c) # names) realmRoles
                       (append_role clientRoles (Client_ClientID c) (Role_Name r)) rs)))"

definition tokenRoles ::
  "'db store \<Rightarrow> 'db \<Rightarrow> realm \<Rightarrow> client \<Rightarrow> user \<Rightarrow> string
     \<Rightarrow> ((string list \<times> string list smap) st) option" where
  "tokenRoles s db realm client user scope =
    bind_run (Effective (Store_Roles s) db (User_ID user)) (\<lambda>effective.
    bind_run (Some (ScopesInEffect (Store_ClientScopes s) db client scope)) (\<lambda>scopes.
    bind_run (InScope (Store_Roles s) db client scopes) (\<lambda>inScope.
      Some (Inr (split_roles (ClientRepo_ByID (Store_Clients s) db (Realm_ID realm)) [] [] []
        (Filter effective inScope))))))"

section \<open>The closure the walk computes\<close>

text \<open>One composite step: a flagged role to a role its composite read lists.\<close>

definition composite_step :: "(string \<Rightarrow> role list st) \<Rightarrow> (role \<times> role) set" where
  "composite_step composites =
    {(p, c). Role_Composite p \<and> (\<exists>cs. composites (Role_ID p) = Inr cs \<and> c \<in> set cs)}"

definition closure :: "(string \<Rightarrow> role list st) \<Rightarrow> role set \<Rightarrow> role set" where
  "closure composites R = (composite_step composites)\<^sup>* `` R"

text \<open>
  The loop invariant. \<open>U\<close> is the finite set of stored roles: the walk stays inside it, \<open>seen\<close>
  holds the identifiers of \<open>out\<close>, and every child of an emitted role is emitted or queued.
\<close>

definition walk_inv ::
  "(string \<Rightarrow> role list st) \<Rightarrow> role set \<Rightarrow> role set \<Rightarrow> string list \<Rightarrow> role list \<Rightarrow> role list \<Rightarrow> bool" where
  "walk_inv c U R seen out queue \<longleftrightarrow>
     set seen = Role_ID ` set out \<and> distinct (map Role_ID out)
   \<and> set out \<union> set queue \<subseteq> U \<inter> closure c R \<and> R \<subseteq> set out \<union> set queue
   \<and> (\<forall>p \<in> set out. \<forall>q. (p, q) \<in> composite_step c \<longrightarrow> q \<in> set out \<union> set queue)"

text \<open>
  The specification of the two closures over the tables of the database: what a holder reaches
  through \<^verbatim>\<open>composite_role\<close>, and the roots of a client's token scope.
\<close>

definition reach :: "sqlite_db \<Rightarrow> string set \<Rightarrow> string set" where
  "reach db R = (set (T_composite db))\<^sup>* `` R"

definition holds :: "sqlite_db \<Rightarrow> string \<Rightarrow> string set" where
  "holds db userID = reach db {r. (userID, r) \<in> set (T_user_role db)}"

definition scope_roots :: "sqlite_db \<Rightarrow> client \<Rightarrow> client_scope set \<Rightarrow> string set" where
  "scope_roots db c scopes =
     {r. (Client_ID c, r) \<in> set (T_scope_mapping db)}
   \<union> Role_ID ` {r \<in> set (T_role db). Role_RealmID r = Client_RealmID c \<and> Role_ClientID r = Client_ID c}
   \<union> (\<Union>s \<in> scopes. {r. (Scope_ID s, r) \<in> set (T_client_scope_role db)})"

definition in_token_scope :: "sqlite_db \<Rightarrow> client \<Rightarrow> client_scope set \<Rightarrow> string \<Rightarrow> bool" where
  "in_token_scope db c scopes i \<longleftrightarrow>
     Client_FullScopeAllowed c \<or> i \<in> reach db (scope_roots db c scopes)"

text \<open>
  What a token may carry: the role is held, it is in the client's token scope, and the client scopes
  that contribute are the client's default ones and the optional ones the granted scope names.
\<close>

definition scopes_in_effect :: "sqlite_db \<Rightarrow> client \<Rightarrow> string \<Rightarrow> client_scope set" where
  "scopes_in_effect db c granted =
    {s \<in> set (T_client_scope db).
       (Client_ID c, Scope_ID s, True) \<in> set (T_client_client_scope db)
     \<or> (Client_ID c, Scope_ID s, False) \<in> set (T_client_client_scope db)
         \<and> Scope_Name s \<in> set (GoStd.fields granted)}"

definition in_token :: "sqlite_db \<Rightarrow> client \<Rightarrow> user \<Rightarrow> string \<Rightarrow> role \<Rightarrow> bool" where
  "in_token db c u granted r \<longleftrightarrow> r \<in> set (T_role db) \<and> Role_ID r \<in> holds db (User_ID u)
     \<and> in_token_scope db c (scopes_in_effect db c granted) (Role_ID r)"

definition claim_roles :: "string list smap \<Rightarrow> string \<Rightarrow> string list" where
  "claim_roles m name = (case map_of m name of None \<Rightarrow> [] | Some rs \<Rightarrow> rs)"

text \<open>An example: two roles that are composites of each other, one of them assigned to a user.\<close>

definition sample_user :: user where
  "sample_user = \<lparr>User_ID = ''u'', User_RealmID = ''m'', User_Username = ''alice'', User_Email = [],
     User_EmailVerified = False, User_Enabled = True, User_FirstName = [], User_LastName = [],
     User_CreatedTimestamp = 0, User_Attributes = [], User_RequiredActions = [], User_NotBefore = 0\<rparr>"

definition cyclic_db :: sqlite_db where
  "cyclic_db = empty_db
     \<lparr>T_role := [sample_role ''a'' True, sample_role ''b'' True, sample_role ''c'' False],
      T_composite := [(''a'', ''b''), (''b'', ''a'')],
      T_user := [sample_user], T_user_role := [(''u'', ''a'')]\<rparr>"

definition sample_client :: client where
  "sample_client = \<lparr>Client_ID = ''k'', Client_RealmID = ''m'', Client_ClientID = ''app'',
     Client_Name = [], Client_Description = [], Client_RootURL = [], Client_BaseURL = [],
     Client_Enabled = True, Client_PublicClient = False, Client_Secret = ''s3cret'',
     Client_Protocol = ''openid-connect'', Client_ClientAuthenticatorType = ''client-secret'',
     Client_SurrogateAuthRequired = False, Client_AlwaysDisplayInConsole = False,
     Client_BearerOnly = False, Client_ConsentRequired = False, Client_StandardFlowEnabled = True,
     Client_ImplicitFlowEnabled = False, Client_DirectAccessGrantsEnabled = True,
     Client_ServiceAccountsEnabled = False, Client_AuthorizationServicesEnabled = False,
     Client_FrontchannelLogout = False, Client_FullScopeAllowed = False, Client_NotBefore = 0,
     Client_NodeReRegistrationTimeout = 0, Client_RedirectURIs = [], Client_WebOrigins = [],
     Client_DefaultClientScopes = [], Client_OptionalClientScopes = [], Client_Attributes = [],
     Client_ProtocolMappers = [], Client_RegisteredNodes = []\<rparr>"

definition mapped_db :: sqlite_db where
  "mapped_db = cyclic_db\<lparr>T_client := [sample_client], T_scope_mapping := [(''k'', ''a'')]\<rparr>"

definition sample_realm :: realm where
  "sample_realm = \<lparr>Realm_ID = ''m'', Realm_Name = ''master'', Realm_Enabled = True,
     Realm_AccessTokenLifespan = 60 * second, Realm_RefreshTokenLifespan = 1800 * second,
     Realm_Settings = []\<rparr>"

lemma bind_run_simps [simp]:
  "bind_run (Some (Inl e)) f = Some (Inl e)"
  "bind_run (Some (Inr x)) f = f x"
  "bind_run None f = None"
  by (simp_all add: bind_run_def)

lemma bind_run_Inr:
  "bind_run m f = Some (Inr y) \<longleftrightarrow> (\<exists>x. m = Some (Inr x) \<and> f x = Some (Inr y))"
  by (auto simp: bind_run_def split: option.splits sum.splits)

lemma closure_mono: "R \<subseteq> S \<Longrightarrow> closure c R \<subseteq> closure c S"
  by (auto simp: closure_def)

lemma closure_least:
  assumes "R \<subseteq> S" "\<And>p q. p \<in> S \<Longrightarrow> (p, q) \<in> composite_step c \<Longrightarrow> q \<in> S"
  shows "closure c R \<subseteq> S"
proof -
  have "y \<in> S" if "(x, y) \<in> (composite_step c)\<^sup>*" "x \<in> R" for x y
    using that by (induction rule: rtrancl_induct) (use assms in auto)
  then show ?thesis by (auto simp: closure_def)
qed

lemma closure_subset: "R \<subseteq> closure c R"
  by (auto simp: closure_def)

lemma closure_step: "p \<in> closure c R \<Longrightarrow> (p, q) \<in> composite_step c \<Longrightarrow> q \<in> closure c R"
  by (auto simp: closure_def intro: rtrancl_into_rtrancl)


lemma ExpandFrom_loop_Nil: "ExpandFrom_loop c seen out [] = Some (Inr out)"
  by (simp add: ExpandFrom_loop.simps)

lemma ExpandFrom_loop_Cons:
  "ExpandFrom_loop c seen out (r # q) =
    (if Role_ID r \<in> set seen then ExpandFrom_loop c seen out q
     else if \<not> Role_Composite r then ExpandFrom_loop c (Role_ID r # seen) (out @ [r]) q
     else (case c (Role_ID r) of
             Inl e \<Rightarrow> Some (Inl e)
           | Inr cs \<Rightarrow> ExpandFrom_loop c (Role_ID r # seen) (out @ [r]) (q @ cs)))"
  by (subst ExpandFrom_loop.simps) simp

lemmas ExpandFrom_loop_eqs = ExpandFrom_loop_Nil ExpandFrom_loop_Cons

context role_repo_laws
begin

lemma inv_skip:
  assumes "inv db" "walk_inv (RoleRepo_ListComposites repo db) (set (all_roles db)) R seen out (r # q)" "Role_ID r \<in> set seen"
  shows "walk_inv (RoleRepo_ListComposites repo db) (set (all_roles db)) R seen out q"
proof -
  from assms obtain r' where "r' \<in> set out" "Role_ID r' = Role_ID r"
    by (auto simp: walk_inv_def)
  moreover have "r' \<in> set (all_roles db)" "r \<in> set (all_roles db)" using assms(2) \<open>r' \<in> set out\<close> by (auto simp: walk_inv_def)
  ultimately have "r \<in> set out" using role_eqI [OF assms(1)] by metis
  with assms(2) show ?thesis by (auto simp: walk_inv_def)
qed

lemma inv_emit:
  assumes "inv db" "walk_inv (RoleRepo_ListComposites repo db) (set (all_roles db)) R seen out (r # q)" "Role_ID r \<notin> set seen"
    and "\<And>x. (r, x) \<in> composite_step (RoleRepo_ListComposites repo db) \<Longrightarrow> x \<in> set cs"
    and "\<And>x. x \<in> set cs \<Longrightarrow> x \<in> set (all_roles db) \<and> (r, x) \<in> composite_step (RoleRepo_ListComposites repo db)"
  shows "walk_inv (RoleRepo_ListComposites repo db) (set (all_roles db)) R (Role_ID r # seen) (out @ [r]) (q @ cs)"
proof -
  have "set cs \<subseteq> set (all_roles db) \<inter> closure (RoleRepo_ListComposites repo db) R"
    using assms(2) closure_step [of r "RoleRepo_ListComposites repo db" R] assms(5) by (auto simp: walk_inv_def)
  with assms(2-4) show ?thesis by (auto simp: walk_inv_def)
qed

lemma inv_done:
  assumes "inv db" "walk_inv (RoleRepo_ListComposites repo db) (set (all_roles db)) R seen out []"
  shows "distinct (map Role_ID out) \<and> set out = closure (RoleRepo_ListComposites repo db) R"
proof -
  have "closure (RoleRepo_ListComposites repo db) R \<subseteq> set out"
    by (rule closure_least) (use assms in \<open>auto simp: walk_inv_def\<close>)
  with assms show ?thesis by (auto simp: walk_inv_def)
qed

text \<open>
  The walk returns: each iteration either shortens the queue or, by emitting a role, shrinks the
  set of roles not yet seen. It returns the closure, or the error of a read it made on the way.
\<close>

lemma loop_correct:
  assumes "inv db" "walk_inv (RoleRepo_ListComposites repo db) (set (all_roles db)) R seen out queue"
  shows "(\<exists>rs. ExpandFrom_loop (RoleRepo_ListComposites repo db) seen out queue = Some (Inr rs)
            \<and> distinct (map Role_ID rs) \<and> set rs = closure (RoleRepo_ListComposites repo db) R)
       \<or> (\<exists>e. \<exists>r \<in> closure (RoleRepo_ListComposites repo db) R. Role_Composite r \<and> RoleRepo_ListComposites repo db (Role_ID r) = Inl e
            \<and> ExpandFrom_loop (RoleRepo_ListComposites repo db) seen out queue = Some (Inl e))"
  using assms(2)
proof (induction "card (set (all_roles db) - set out)" arbitrary: seen out queue rule: less_induct)
  case less
  note outer = less.hyps
  show ?case using less.prems
  proof (induction queue )
    case Nil
    then show ?case using inv_done [OF assms(1)] by (simp add: ExpandFrom_loop_eqs)
  next
    case (Cons r q)
    show ?case
    proof (cases "Role_ID r \<in> set seen")
      case True
      with Cons.IH [OF inv_skip [OF assms(1) Cons.prems True]] show ?thesis
        by (simp add: ExpandFrom_loop_eqs)
    next
      case False
      have r: "r \<in> set (all_roles db)" "r \<in> closure (RoleRepo_ListComposites repo db) R" "r \<notin> set out"
        using Cons.prems False by (auto simp: walk_inv_def)
      have small: "card (set (all_roles db) - set (out @ [r])) < card (set (all_roles db) - set out)"
        by (rule psubset_card_mono) (use r in auto)
      show ?thesis
      proof (cases "Role_Composite r")
        case plain: False
        have "walk_inv (RoleRepo_ListComposites repo db) (set (all_roles db)) R (Role_ID r # seen) (out @ [r]) (q @ [])"
          by (rule inv_emit [OF assms(1) Cons.prems False]) (use plain in \<open>auto simp: composite_step_def\<close>)
        from outer [OF small this] show ?thesis using False plain by (simp add: ExpandFrom_loop_eqs)
      next
        case comp: True
        show ?thesis
        proof (cases "RoleRepo_ListComposites repo db (Role_ID r)")
          case (Inl e)
          with comp False r(2) show ?thesis by (auto simp: ExpandFrom_loop_eqs)
        next
          case (Inr cs)
          have "walk_inv (RoleRepo_ListComposites repo db) (set (all_roles db)) R (Role_ID r # seen) (out @ [r]) (q @ cs)"
            by (rule inv_emit [OF assms(1) Cons.prems False])
              (use comp Inr composites_sub [OF assms(1) Inr] in \<open>auto simp: composite_step_def\<close>)
          from outer [OF small this] show ?thesis
            using False comp Inr by (simp add: ExpandFrom_loop_eqs)
        qed
      qed
    qed
  qed
qed

text \<open>The walk from a set of stored roles: total, duplicate-free and exactly the closure.\<close>

lemma ExpandFrom_correct:
  assumes "inv db" "set direct \<subseteq> set (all_roles db)"
  shows "(\<exists>rs. ExpandFrom repo db direct = Some (Inr rs) \<and> distinct (map Role_ID rs)
            \<and> set rs = closure (RoleRepo_ListComposites repo db) (set direct))
       \<or> (\<exists>e. \<exists>r \<in> closure (RoleRepo_ListComposites repo db) (set direct). Role_Composite r
            \<and> RoleRepo_ListComposites repo db (Role_ID r) = Inl e
            \<and> ExpandFrom repo db direct = Some (Inl e))"
  unfolding ExpandFrom_def
  by (rule loop_correct [OF assms(1)]) (use assms(2) closure_subset in \<open>auto simp: walk_inv_def\<close>)

end

context role_repo_total
begin

lemma ExpandFrom_total:
  assumes "inv db" "set direct \<subseteq> set (all_roles db)"
  obtains rs where "ExpandFrom repo db direct = Some (Inr rs)" "distinct (map Role_ID rs)"
    "set rs = closure (RoleRepo_ListComposites repo db) (set direct)"
  using ExpandFrom_correct [OF assms] composites_ok [OF assms(1)] by (metis Inl_Inr_False)

lemma append_mappings_total:
  assumes "inv db" "set direct \<subseteq> set (all_roles db)"
  shows "\<exists>rs. append_mappings repo db direct scopes = Inr rs \<and> set rs \<subseteq> set (all_roles db)
     \<and> set rs = set direct \<union>
         (\<Union>s \<in> set scopes. {r. \<exists>qs. RoleRepo_ListClientScopeScopeMappings repo db (Scope_ID s) = Inr qs
                                 \<and> r \<in> set qs})"
  using assms(2)
proof (induction scopes arbitrary: direct)
  case (Cons s scopes)
  obtain m where m: "RoleRepo_ListClientScopeScopeMappings repo db (Scope_ID s) = Inr m"
    using scope_scope_mappings_ok [OF assms(1)] by blast
  have "set (direct @ m) \<subseteq> set (all_roles db)"
    using Cons.prems scope_scope_mappings_sub [OF assms(1) m] by simp
  from Cons.IH [OF this] show ?case by (auto simp: m)
qed auto

end

section \<open>The closure over the database\<close>

lemma loadRoleAttributes_Composite [simp]:
  "Role_ID (r\<lparr>Role_Attributes := a\<rparr>) = Role_ID r"
  "Role_Composite (r\<lparr>Role_Attributes := a\<rparr>) = Role_Composite r"
  by simp_all

lemma stored_role_of_id:
  assumes "wf_roles db" "has_role db i"
  obtains r where "r \<in> set (stored_roles db)" "Role_ID r = i"
proof -
  from assms(2) have "i \<in> set (map Role_ID (stored_roles db))"
    by (simp add: has_role_ids stored_roles_def loadRoleAttributes_ids del: set_map)
  then show ?thesis using that by auto
qed

lemma join_roles_ids:
  assumes "\<forall>(h, r) \<in> set m. has_role db r"
  shows "Role_ID ` set (join_roles db m h) = {r. (h, r) \<in> set m}"
proof -
  have "Role_ID ` set (join_roles db m h) = {i. (h, i) \<in> set m \<and> has_role db i}"
    by (auto simp: join_roles_def loadRoleAttributes_def has_role_def image_iff)
  then show ?thesis using assms by auto
qed

lemma composite_step_stored:
  assumes "wf_roles db" "flags_synced db" "p \<in> set (stored_roles db)" "q \<in> set (stored_roles db)"
  shows "(p, q) \<in> composite_step (roleRepo_ListComposites db)
     \<longleftrightarrow> (Role_ID p, Role_ID q) \<in> set (T_composite db)"
proof -
  obtain p0 where p0: "p0 \<in> set (T_role db)" "Role_ID p0 = Role_ID p" "Role_Composite p0 = Role_Composite p"
    using assms(3) by (auto simp: stored_roles_def loadRoleAttributes_def)
  have flag: "Role_Composite p \<longleftrightarrow> Role_ID p \<in> fst ` set (T_composite db)"
    using assms(2) p0 by (auto simp: flags_synced_def)
  have "q \<in> set (join_roles db (T_composite db) (Role_ID p))
      \<longleftrightarrow> (Role_ID p, Role_ID q) \<in> set (T_composite db)"
    using assms(4) by (auto simp: join_roles_def loadRoleAttributes_def stored_roles_def)
  then show ?thesis
    using flag by (force simp: composite_step_def roleRepo_ListComposites_def)
qed

lemma closure_ids:
  assumes wf: "wf_roles db" and "flags_synced db" and R: "R \<subseteq> set (stored_roles db)"
  shows "Role_ID ` closure (roleRepo_ListComposites db) R = reach db (Role_ID ` R)"
    and "closure (roleRepo_ListComposites db) R \<subseteq> set (stored_roles db)"
proof -
  let ?S = "composite_step (roleRepo_ListComposites db)"
  have child: "c \<in> set (stored_roles db)" if "(p, c) \<in> ?S" for p c
    using that join_roles_stored by (fastforce simp: composite_step_def roleRepo_ListComposites_def)
  show sub: "closure (roleRepo_ListComposites db) R \<subseteq> set (stored_roles db)"
    by (rule closure_least [OF R]) (rule child)
  have "(Role_ID x, Role_ID y) \<in> (set (T_composite db))\<^sup>*" if "(x, y) \<in> ?S\<^sup>*" "x \<in> R" for x y
    using that
  proof (induction rule: rtrancl_induct)
    case (step y z)
    have "y \<in> set (stored_roles db)" using step sub by (auto simp: closure_def)
    then show ?case using step child [OF step(2)] composite_step_stored [OF assms(1, 2)]
      by (meson rtrancl.rtrancl_into_rtrancl)
  qed simp
  then have "Role_ID ` closure (roleRepo_ListComposites db) R \<subseteq> reach db (Role_ID ` R)"
    by (auto simp: closure_def reach_def)
  moreover have "\<exists>y \<in> closure (roleRepo_ListComposites db) R. Role_ID y = j"
    if "(Role_ID x, j) \<in> (set (T_composite db))\<^sup>*" "x \<in> R" for x j
    using that
  proof (induction rule: rtrancl_induct)
    case base
    then show ?case using closure_subset by blast
  next
    case (step j k)
    then obtain y where y: "y \<in> closure (roleRepo_ListComposites db) R" "Role_ID y = j" by blast
    have "has_role db k" using wf step(2) by (auto simp: wf_roles_def)
    then obtain z where "z \<in> set (stored_roles db)" "Role_ID z = k"
      using stored_role_of_id [OF wf] by blast
    then show ?case using y sub step(2) composite_step_stored [OF assms(1, 2)] closure_step by blast
  qed
  then have "reach db (Role_ID ` R) \<subseteq> Role_ID ` closure (roleRepo_ListComposites db) R"
    by (force simp: reach_def)
  ultimately show "Role_ID ` closure (roleRepo_ListComposites db) R = reach db (Role_ID ` R)" by blast
qed

lemma sqlite_roles_sel [simp]:
  "RoleRepo_ListComposites sqlite_roles = roleRepo_ListComposites"
  "RoleRepo_ListUserRoles sqlite_roles = roleRepo_ListUserRoles"
  "RoleRepo_ListGroupRoles sqlite_roles = roleRepo_ListGroupRoles"
  "RoleRepo_ListClientRoles sqlite_roles = roleRepo_ListClientRoles"
  "RoleRepo_ListClientScopeMappings sqlite_roles = roleRepo_ListClientScopeMappings"
  "RoleRepo_ListClientScopeScopeMappings sqlite_roles = roleRepo_ListClientScopeScopeMappings"
  by (simp_all add: sqlite_roles_def)

lemma sqlite_store_sel [simp]:
  "Store_Roles sqlite_store = sqlite_roles" "Store_Clients sqlite_store = sqlite_clients"
  "Store_ClientScopes sqlite_store = sqlite_client_scopes"
  "ClientRepo_ByID sqlite_clients = clientRepo_ByID"
  "ClientScopeRepo_ListClientScopes sqlite_client_scopes = clientScopeRepo_ListClientScopes"
  by (simp_all add: sqlite_store_def sqlite_clients_def sqlite_client_scopes_def)

lemma expand_ids:
  assumes "wf_roles db" "flags_synced db" "set direct \<subseteq> set (stored_roles db)"
  obtains rs where "ExpandFrom sqlite_roles db direct = Some (Inr rs)" "distinct (map Role_ID rs)"
    "set rs \<subseteq> set (stored_roles db)" "Role_ID ` set rs = reach db (Role_ID ` set direct)"
proof -
  obtain rs where rs: "ExpandFrom sqlite_roles db direct = Some (Inr rs)" "distinct (map Role_ID rs)"
    "set rs = closure (roleRepo_ListComposites db) (set direct)"
    using sq.ExpandFrom_total [OF assms(1, 3)] by auto
  with closure_ids [OF assms] show ?thesis by (intro that [of rs]) auto
qed

lemma user_role_ids:
  assumes "wf_roles db"
  shows "Role_ID ` set (join_roles db (T_user_role db) u) = {r. (u, r) \<in> set (T_user_role db)}"
    "Role_ID ` set (join_roles db (T_group_role db) u) = {r. (u, r) \<in> set (T_group_role db)}"
    "Role_ID ` set (join_roles db (T_scope_mapping db) u) = {r. (u, r) \<in> set (T_scope_mapping db)}"
    "Role_ID ` set (join_roles db (T_client_scope_role db) u) = {r. (u, r) \<in> set (T_client_scope_role db)}"
  by (rule join_roles_ids; use assms in \<open>auto simp: wf_roles_def\<close>)+

lemma effective_ids:
  assumes "wf_roles db" "flags_synced db"
  obtains rs where "Effective sqlite_roles db userID = Some (Inr rs)" "distinct (map Role_ID rs)"
    "set rs \<subseteq> set (stored_roles db)" "Role_ID ` set rs = holds db userID"
  using expand_ids [OF assms join_roles_stored [of db "T_user_role db" userID]]
  by (auto simp: Effective_def roleRepo_ListUserRoles_def holds_def user_role_ids [OF assms(1)])

lemma in_scope_ids:
  assumes "wf_roles db" "flags_synced db"
  obtains ok where "InScope sqlite_roles db c scopes = Some (Inr ok)"
    "\<And>r. ok r \<longleftrightarrow> in_token_scope db c (set scopes) (Role_ID r)"
proof (cases "Client_FullScopeAllowed c")
  case True
  then show ?thesis using that [of "\<lambda>_. True"] by (simp add: InScope_def in_token_scope_def)
next
  case False
  define own where "own = loadRoleAttributes db (sort_key Role_Name
      (filter (\<lambda>r. Role_RealmID r = Client_RealmID c \<and> Role_ClientID r = Client_ID c) (T_role db)))"
  define direct where "direct = join_roles db (T_scope_mapping db) (Client_ID c) @ own"
  have sub: "set direct \<subseteq> set (stored_roles db)"
    by (simp add: direct_def own_def join_roles_stored client_roles_stored)
  obtain roots where roots: "append_mappings sqlite_roles db direct scopes = Inr roots"
      "set roots \<subseteq> set (stored_roles db)"
      "set roots = set direct \<union>
         (\<Union>s \<in> set scopes. set (join_roles db (T_client_scope_role db) (Scope_ID s)))"
    using sq.append_mappings_total [OF assms(1) sub, of scopes]
    by (auto simp: roleRepo_ListClientScopeScopeMappings_def)
  have "Role_ID ` set own =
      Role_ID ` {r \<in> set (T_role db). Role_RealmID r = Client_RealmID c \<and> Role_ClientID r = Client_ID c}"
    by (simp add: own_def loadRoleAttributes_def image_image)
  then have ids: "Role_ID ` set roots = scope_roots db c (set scopes)"
    by (simp add: roots(3) direct_def scope_roots_def image_Un image_UN user_role_ids [OF assms(1)])
  obtain rs where rs: "ExpandFrom sqlite_roles db roots = Some (Inr rs)"
      "Role_ID ` set rs = reach db (scope_roots db c (set scopes))"
    using expand_ids [OF assms roots(2)] ids by metis
  have "InScope sqlite_roles db c scopes = Some (Inr (\<lambda>r. Role_ID r \<in> Role_ID ` set rs))"
    using False roots(1) rs(1)
    by (simp add: InScope_def roleRepo_ListClientScopeMappings_def roleRepo_ListClientRoles_def
        direct_def own_def)
  then show ?thesis using that False rs(2) by (simp add: in_token_scope_def)
qed

lemma claim_roles_append:
  "claim_roles (append_role m n r) k = claim_roles m k @ (if k = n then [r] else [])"
  by (induction m) (auto simp: claim_roles_def)

lemma split_roles_spec:
  assumes "\<forall>k n. map_of names k = Some n \<longrightarrow> (\<exists>c. byID k = Inr c \<and> Client_ClientID c = n)"
  shows "fst (split_roles byID names rr cr rs)
         = rr @ map Role_Name (filter (\<lambda>r. Role_ClientID r = []) rs)
     \<and> (x \<in> set (claim_roles (snd (split_roles byID names rr cr rs)) name)
         \<longleftrightarrow> x \<in> set (claim_roles cr name)
           \<or> (\<exists>r \<in> set rs. \<exists>c. Role_ClientID r \<noteq> [] \<and> byID (Role_ClientID r) = Inr c
                \<and> Client_ClientID c = name \<and> Role_Name r = x))"
  using assms
proof (induction rs arbitrary: names rr cr)
  case (Cons r rs)
  consider (realm) "Role_ClientID r = []"
    | (cached) n where "Role_ClientID r \<noteq> []" "map_of names (Role_ClientID r) = Some n"
    | (missing) e where "Role_ClientID r \<noteq> []" "map_of names (Role_ClientID r) = None"
        "byID (Role_ClientID r) = Inl e"
    | (fresh) c where "Role_ClientID r \<noteq> []" "map_of names (Role_ClientID r) = None"
        "byID (Role_ClientID r) = Inr c"
    by (metis not_None_eq sum.exhaust)
  then show ?case
  proof cases
    case cached
    then obtain c where "byID (Role_ClientID r) = Inr c" "Client_ClientID c = n"
      using Cons.prems by blast
    then show ?thesis
      using cached Cons.IH [OF Cons.prems, of rr "append_role cr n (Role_Name r)"]
      by (auto simp: claim_roles_append)
  next
    case fresh
    have "\<forall>k n. map_of ((Role_ClientID r, Client_ClientID c) # names) k = Some n
        \<longrightarrow> (\<exists>c. byID k = Inr c \<and> Client_ClientID c = n)"
      using Cons.prems fresh by simp
    from Cons.IH [OF this, of rr "append_role cr (Client_ClientID c) (Role_Name r)"] fresh
    show ?thesis by (auto simp: claim_roles_append)
  qed (use Cons in auto)
qed simp

lemma tokenRoles_run:
  assumes "wf_roles db" "flags_synced db"
  obtains eff where "set eff \<subseteq> set (stored_roles db)" "Role_ID ` set eff = holds db (User_ID user)"
    "tokenRoles sqlite_store db realm client user scope = Some (Inr
       (split_roles (clientRepo_ByID db (Realm_ID realm)) [] [] []
          (filter (\<lambda>r. in_token_scope db client (scopes_in_effect db client scope) (Role_ID r)) eff)))"
proof -
  obtain eff where eff: "Effective sqlite_roles db (User_ID user) = Some (Inr eff)"
    "distinct (map Role_ID eff)" "set eff \<subseteq> set (stored_roles db)"
    "Role_ID ` set eff = holds db (User_ID user)"
    by (rule effective_ids [OF assms])
  define attached where "attached d = sort_key Scope_Name
      (filter (\<lambda>s. (Client_ID client, Scope_ID s, d) \<in> set (T_client_client_scope db))
        (T_client_scope db))" for d
  define scopes where "scopes = attached True
      @ filter (\<lambda>s. Scope_Name s \<in> set (GoStd.fields scope)) (attached False)"
  have scopes: "ScopesInEffect sqlite_client_scopes db client scope = Inr scopes"
    "set scopes = scopes_in_effect db client scope"
    by (auto simp: ScopesInEffect_def clientScopeRepo_ListClientScopes_def scopes_in_effect_def
        scopes_def attached_def)
  obtain ok where "InScope sqlite_roles db client scopes = Some (Inr ok)"
    "\<And>r. ok r \<longleftrightarrow> in_token_scope db client (set scopes) (Role_ID r)"
    by (rule in_scope_ids [OF assms, of client scopes]) blast
  then have "tokenRoles sqlite_store db realm client user scope = Some (Inr
       (split_roles (clientRepo_ByID db (Realm_ID realm)) [] [] []
          (filter (\<lambda>r. in_token_scope db client (set scopes) (Role_ID r)) eff)))"
    by (simp add: tokenRoles_def eff(1) scopes(1) Filter_def cong: filter_cong)
  with eff(3, 4) scopes(2) show ?thesis by (intro that [of eff]) simp_all
qed

text \<open>The walk returns rows with their attributes loaded; a stored row has the same identity.\<close>

lemma stored_rows:
  assumes "wf_roles db" "set eff \<subseteq> set (stored_roles db)" "Role_ID ` set eff = I"
  shows "(\<exists>r \<in> set eff. P (Role_ID r) (Role_ClientID r) (Role_Name r))
     \<longleftrightarrow> (\<exists>r \<in> set (T_role db). Role_ID r \<in> I \<and> P (Role_ID r) (Role_ClientID r) (Role_Name r))"
proof
  assume "\<exists>r \<in> set eff. P (Role_ID r) (Role_ClientID r) (Role_Name r)"
  then obtain r where r: "r \<in> set eff" "P (Role_ID r) (Role_ClientID r) (Role_Name r)" by blast
  then obtain r0 where "r0 \<in> set (T_role db)" "r = r0\<lparr>Role_Attributes := role_attributes db (Role_ID r0)\<rparr>"
    using assms(2) by (auto simp: stored_roles_def loadRoleAttributes_def)
  moreover have "Role_ID r \<in> I" using r(1) assms(3) by auto
  ultimately show "\<exists>r \<in> set (T_role db). Role_ID r \<in> I
      \<and> P (Role_ID r) (Role_ClientID r) (Role_Name r)" using r(2) by (auto intro!: bexI [of _ r0])
next
  assume "\<exists>r \<in> set (T_role db). Role_ID r \<in> I \<and> P (Role_ID r) (Role_ClientID r) (Role_Name r)"
  then obtain r0 r where r: "r0 \<in> set (T_role db)" "P (Role_ID r0) (Role_ClientID r0) (Role_Name r0)"
    "r \<in> set eff" "Role_ID r = Role_ID r0" using assms(3) by auto
  have "r0\<lparr>Role_Attributes := role_attributes db (Role_ID r0)\<rparr> \<in> set (stored_roles db)"
    using r(1) by (auto simp: stored_roles_def loadRoleAttributes_def)
  then have "r = r0\<lparr>Role_Attributes := role_attributes db (Role_ID r0)\<rparr>"
    using sq.role_eqI [OF assms(1)] r(3, 4) assms(2) by auto
  with r show "\<exists>r \<in> set eff. P (Role_ID r) (Role_ClientID r) (Role_Name r)"
    by (auto intro!: bexI [of _ r])
qed

lemma clientRepo_ByID_iff:
  assumes "distinct (map Client_ID (T_client db))"
  shows "(\<exists>c. clientRepo_ByID db realmID i = Inr c \<and> Client_ClientID c = name)
     \<longleftrightarrow> (\<exists>c \<in> set (T_client db). Client_RealmID c = realmID \<and> Client_ID c = i \<and> Client_ClientID c = name)"
proof -
  let ?hit = "filter (\<lambda>c. Client_RealmID c = realmID \<and> Client_ID c = i) (T_client db)"
  have "Client_ClientID (scanWithScopes db c) = Client_ClientID c" for c
    by (simp add: scanWithScopes_def loadNodes_def loadClientScopeNames_def Let_def)
  then have "(\<exists>c. clientRepo_ByID db realmID i = Inr c \<and> Client_ClientID c = name)
      \<longleftrightarrow> (\<exists>c cs. ?hit = c # cs \<and> Client_ClientID c = name)"
    by (cases ?hit) (auto simp: clientRepo_ByID_def first_row_def)
  also have "\<dots> \<longleftrightarrow> (\<exists>c \<in> set ?hit. Client_ClientID c = name)"
  proof -
    have "c = c'" if "c \<in> set ?hit" "c' \<in> set ?hit" for c c'
      using assms that by (auto simp: distinct_map inj_on_def)
    then show ?thesis by (cases ?hit) (simp, metis list.set_intros(1) list.inject)
  qed
  finally show ?thesis by auto
qed

section \<open>Properties\<close>

text \<open>
  C34. The composite walk always returns, on every stored composite graph, cyclic ones included, and
  returns each held role once: the identifiers it lists are exactly those reachable from the user's
  direct assignments through the composite table.
\<close>

theorem Effective_closure:
  assumes "wf_roles db" "flags_synced db"
  shows "\<exists>rs. Effective sqlite_roles db userID = Some (Inr rs) \<and> distinct (map Role_ID rs)
     \<and> set rs \<subseteq> set (stored_roles db)
     \<and> Role_ID ` set rs = (set (T_composite db))\<^sup>* `` {r. (userID, r) \<in> set (T_user_role db)}"
  using effective_ids [OF assms] unfolding holds_def reach_def by metis

lemma cyclic_db_wf: "wf_roles cyclic_db" "flags_synced cyclic_db"
  by (simp_all add: cyclic_db_def wf_roles_def flags_synced_def has_role_def has_user_def
      sample_role_def sample_user_def empty_db_def)

theorem Effective_closure_witness:
  "Effective sqlite_roles cyclic_db ''u'' = Some (Inr [sample_role ''a'' True, sample_role ''b'' True])
   \<and> {''a'', ''b''} = (set (T_composite cyclic_db))\<^sup>* `` {r. (''u'', r) \<in> set (T_user_role cyclic_db)}"
proof -
  have "Effective sqlite_roles cyclic_db ''u''
      = Some (Inr [sample_role ''a'' True, sample_role ''b'' True])"
    by (simp add: Effective_def ExpandFrom_def ExpandFrom_loop_eqs roleRepo_ListUserRoles_def
        roleRepo_ListComposites_def join_roles_def loadRoleAttributes_def role_attributes_def
        cyclic_db_def empty_db_def sample_role_def)
  then show ?thesis
    using Effective_closure [OF cyclic_db_wf, of "''u''"] by (auto simp: sample_role_def)
qed

text \<open>
  The token scope of a client without full scope is decided by role identifier alone: a role
  passes exactly when its identifier is reachable from the client's scope mappings, the client's own
  roles and the scope mappings of the client scopes in effect. With full scope every role passes.
\<close>

theorem InScope_spec:
  assumes "wf_roles db" "flags_synced db"
  shows "\<exists>ok. InScope sqlite_roles db c scopes = Some (Inr ok)
     \<and> (\<forall>r. ok r \<longleftrightarrow> Client_FullScopeAllowed c
            \<or> Role_ID r \<in> (set (T_composite db))\<^sup>* `` scope_roots db c (set scopes))"
  using in_scope_ids [OF assms] unfolding in_token_scope_def reach_def by metis

lemma mapped_db_wf: "wf_roles mapped_db" "flags_synced mapped_db"
  by (simp_all add: mapped_db_def cyclic_db_def wf_roles_def flags_synced_def has_role_def
      has_user_def has_client_def sample_role_def sample_user_def sample_client_def empty_db_def)

lemma mapped_db_composites:
  "T_composite mapped_db = [(''a'', ''b''), (''b'', ''a'')]"
  "(''a'', ''c'') \<notin> (set (T_composite mapped_db))\<^sup>*"
proof -
  show t: "T_composite mapped_db = [(''a'', ''b''), (''b'', ''a'')]"
    by (simp add: mapped_db_def cyclic_db_def)
  then have "snd p \<noteq> ''c''" if "p \<in> set (T_composite mapped_db)" for p using that by auto
  then show "(''a'', ''c'') \<notin> (set (T_composite mapped_db))\<^sup>*" by (force elim: rtranclE)
qed

text \<open>
  C33. The role claims of a token are exact. Under the keys of the database and a synchronised
  composite flag, \<^verbatim>\<open>tokenRoles\<close> returns, its realm roles are the names of the realm roles that the
  user holds (mapped to the user directly, or reached from such a role through composites; the mappings of
  the user's groups are not read) and that are in the client's token scope, and under a client's name it lists exactly
  the names of the held, in-scope roles of a client of the realm with that name. A role of a client
  the realm does not have is in neither.
\<close>

theorem tokenRoles_exact:
  assumes "wf_roles db" "flags_synced db" "distinct (map Client_ID (T_client db))"
  shows "\<exists>rr cr. tokenRoles sqlite_store db realm client user scope = Some (Inr (rr, cr))
     \<and> set rr = {Role_Name r | r. in_token db client user scope r \<and> Role_ClientID r = []}
     \<and> (\<forall>name. set (claim_roles cr name) =
          {Role_Name r | r. in_token db client user scope r \<and> Role_ClientID r \<noteq> []
             \<and> (\<exists>c \<in> set (T_client db). Client_RealmID c = Realm_ID realm
                   \<and> Client_ID c = Role_ClientID r \<and> Client_ClientID c = name)})"
proof -
  let ?in = "in_token_scope db client (scopes_in_effect db client scope)"
  let ?byID = "clientRepo_ByID db (Realm_ID realm)"
  obtain eff where eff: "set eff \<subseteq> set (stored_roles db)" "Role_ID ` set eff = holds db (User_ID user)"
    "tokenRoles sqlite_store db realm client user scope
       = Some (Inr (split_roles ?byID [] [] [] (filter (\<lambda>r. ?in (Role_ID r)) eff)))"
    by (rule tokenRoles_run [OF assms(1, 2)])
  obtain rr cr where sp: "split_roles ?byID [] [] [] (filter (\<lambda>r. ?in (Role_ID r)) eff) = (rr, cr)"
    by fastforce
  note rows = stored_rows [OF assms(1) eff(1, 2)]
  note spec = split_roles_spec [of "[]" ?byID "[]" "[]" "filter (\<lambda>r. ?in (Role_ID r)) eff",
      unfolded sp, simplified]
  have "x \<in> set rr \<longleftrightarrow> (\<exists>r \<in> set eff. ?in (Role_ID r) \<and> Role_ClientID r = [] \<and> Role_Name r = x)" for x
    using spec by auto
  then have "set rr = {Role_Name r | r. in_token db client user scope r \<and> Role_ClientID r = []}"
    using rows [of "\<lambda>i c n. ?in i \<and> c = [] \<and> n = x" for x] by (fastforce simp: in_token_def)
  moreover have "x \<in> set (claim_roles cr name)
      \<longleftrightarrow> (\<exists>r \<in> set eff. ?in (Role_ID r) \<and> Role_ClientID r \<noteq> []
            \<and> (\<exists>c. ?byID (Role_ClientID r) = Inr c \<and> Client_ClientID c = name) \<and> Role_Name r = x)" for x name
    using spec [of x name] by (auto simp: claim_roles_def)
  then have "x \<in> set (claim_roles cr name) \<longleftrightarrow>
      (\<exists>r \<in> set (T_role db). Role_ID r \<in> holds db (User_ID user) \<and> ?in (Role_ID r) \<and> Role_ClientID r \<noteq> []
        \<and> (\<exists>c \<in> set (T_client db). Client_RealmID c = Realm_ID realm
              \<and> Client_ID c = Role_ClientID r \<and> Client_ClientID c = name) \<and> Role_Name r = x)" for x name
    unfolding clientRepo_ByID_iff [OF assms(3)]
    using rows [of "\<lambda>i k n. ?in i \<and> k \<noteq> [] \<and> (\<exists>c \<in> set (T_client db).
        Client_RealmID c = Realm_ID realm \<and> Client_ID c = k \<and> Client_ClientID c = name) \<and> n = x"]
    by simp
  then have "set (claim_roles cr name) = {Role_Name r | r. in_token db client user scope r
      \<and> Role_ClientID r \<noteq> [] \<and> (\<exists>c \<in> set (T_client db). Client_RealmID c = Realm_ID realm
            \<and> Client_ID c = Role_ClientID r \<and> Client_ClientID c = name)}" for name
    unfolding in_token_def by (intro set_eqI) (simp only: mem_Collect_eq, blast)
  ultimately show ?thesis using eff(3) sp by simp
qed

theorem tokenRoles_exact_witness:
  "\<exists>rr cr. tokenRoles sqlite_store mapped_db sample_realm sample_client sample_user [] = Some (Inr (rr, cr))
     \<and> ''a'' \<in> set rr \<and> ''c'' \<notin> set rr"
proof -
  have "distinct (map Client_ID (T_client mapped_db))" by (simp add: mapped_db_def)
  from tokenRoles_exact [OF mapped_db_wf this, of sample_realm sample_client sample_user "[]"]
  obtain rr cr where run: "tokenRoles sqlite_store mapped_db sample_realm sample_client sample_user []
        = Some (Inr (rr, cr))"
    "set rr = {Role_Name r | r. in_token mapped_db sample_client sample_user [] r \<and> Role_ClientID r = []}"
    by blast
  have a: "in_token mapped_db sample_client sample_user [] (sample_role ''a'' True)"
    by (auto simp: in_token_def holds_def in_token_scope_def reach_def scope_roots_def mapped_db_def
        cyclic_db_def empty_db_def sample_role_def sample_user_def sample_client_def)
  have "(''u'', r) \<in> set (T_user_role mapped_db) \<longleftrightarrow> r = ''a''" for r
    by (auto simp: mapped_db_def cyclic_db_def empty_db_def)
  then have "\<not> in_token mapped_db sample_client sample_user [] r" if "Role_ID r = ''c''" for r
    using that mapped_db_composites(2) by (auto simp: in_token_def holds_def reach_def sample_user_def)
  moreover have "Role_ID r = Role_Name r" if "r \<in> set (T_role mapped_db)" for r
    using that by (auto simp: mapped_db_def cyclic_db_def empty_db_def sample_role_def)
  ultimately have "\<not> in_token mapped_db sample_client sample_user [] r" if "Role_Name r = ''c''" for r
    using that unfolding in_token_def by metis
  then have "''c'' \<notin> set rr" unfolding run(2) by fastforce
  moreover have "''a'' \<in> set rr"
    unfolding run(2) mem_Collect_eq
    by (rule exI [of _ "sample_role ''a'' True"]) (use a in \<open>simp add: sample_role_def\<close>)
  ultimately show ?thesis using run(1) by blast
qed

lemma client_writes_keep_roles:
  "clientRepo_Delete db realmID i = Inr db' \<Longrightarrow> T_role db' = T_role db"
  "clientRepo_Delete db realmID i = Inr db' \<Longrightarrow> T_user_role db' = T_user_role db"
  "clientRepo_Delete db realmID i = Inr db' \<Longrightarrow> T_composite db' = T_composite db"
  "clientRepo_Delete db realmID i = Inr db' \<Longrightarrow> T_role_attribute db' = T_role_attribute db"
  "clientRepo_Create db m = Inr db' \<Longrightarrow> T_role db' = T_role db"
  "clientRepo_Create db m = Inr db' \<Longrightarrow> T_user_role db' = T_user_role db"
  "clientRepo_Create db m = Inr db' \<Longrightarrow> T_composite db' = T_composite db"
  "clientRepo_Create db m = Inr db' \<Longrightarrow> T_role_attribute db' = T_role_attribute db"
  unfolding clientRepo_Delete_def clientRepo_Create_def cascade_clients_def attachClientScopes_def
    Let_def affectedOne_Inr
  by (auto split: if_splits)

text \<open>
  Deleting a client leaves every role it owned stored, with its assignments and composite
  rows: the roles of a client deleted and created again under the same identifier are the roles the
  deleted one had.
\<close>

theorem clientRepo_Delete_keeps_roles:
  assumes "clientRepo_Delete db realmID i = Inr db'" "clientRepo_Create db' m = Inr db''"
    "Client_ID m = i"
  shows "roleRepo_ListClientRoles db'' realmID (Client_ID m) = roleRepo_ListClientRoles db realmID i
       \<and> T_user_role db'' = T_user_role db \<and> T_composite db'' = T_composite db"
proof -
  have "T_role db'' = T_role db" "T_user_role db'' = T_user_role db" "T_composite db'' = T_composite db"
    "T_role_attribute db'' = T_role_attribute db"
    using assms(1, 2) by (simp_all add: client_writes_keep_roles)
  then show ?thesis
    by (simp add: assms(3) roleRepo_ListClientRoles_def loadRoleAttributes_def role_attributes_def)
qed

end
