(* ===== verification/Ber.thy ===== *)
theory Ber
  imports Prelude
begin

unbundle bit_operations_syntax

text \<open>
  \<^verbatim>\<open>internal/keystore/ber.go\<close>: the rewriter that turns BER, as BouncyCastle streams it, into DER.
  A byte slice is a list of 8-bit words and a slice expression \<^verbatim>\<open>b[i:]\<close> is \<^term>\<open>drop i b\<close>. The one error,
  \<^verbatim>\<open>errBER\<close>, is \<^const>\<open>None\<close>. \<^verbatim>\<open>berRead\<close> and \<^verbatim>\<open>berEndOfContents\<close> call each other, and so do \<^verbatim>\<open>berValue\<close>
  and its loop over the children; both pairs are total functions, so that they return on every
  input is part of their definition.
\<close>

section \<open>Definitions\<close>

definition berMaxDepth :: nat where
  "berMaxDepth = 64"

definition be_value :: "byte list \<Rightarrow> nat" where
  "be_value bs = foldl (\<lambda>n c. n * 256 + unat c) 0 bs"

text \<open>\<^verbatim>\<open>berRead\<close> returns the tag, the header, the content, the rest and whether the length was
  indefinite; \<^verbatim>\<open>berEndOfContents\<close> is its loop at position \<open>at\<close>.\<close>

function (sequential)
  berRead :: "byte list \<Rightarrow> (byte \<times> byte list \<times> byte list \<times> byte list \<times> bool) option" and
  berEndOfContents_loop :: "byte list \<Rightarrow> nat \<Rightarrow> nat option"
where
  "berRead b =
    (if length b < 2 then None
     else if (b ! 0) AND 0x1f = 0x1f then None
     else if b ! 1 = 0x80
     then (case berEndOfContents_loop (drop 2 b) 0 of
             None \<Rightarrow> None
           | Some e \<Rightarrow> Some (b ! 0, take 2 b, take e (drop 2 b), drop (2 + e + 2) b, True))
     else if (b ! 1) AND 0x80 \<noteq> 0
     then (let n = unat ((b ! 1) AND 0x7f)
           in if n > 4 \<or> 2 + n > length b then None
              else (let len = be_value (take n (drop 2 b)); i = 2 + n
                    in if i + len > length b then None
                       else Some (b ! 0, take i b, take len (drop i b), drop (i + len) b, False)))
     else (let len = unat (b ! 1)
           in if 2 + len > length b then None
              else Some (b ! 0, take 2 b, take len (drop 2 b), drop (2 + len) b, False)))"
| "berEndOfContents_loop b at =
    (if at + 2 > length b then None
     else if b ! at = 0 \<and> b ! (at + 1) = 0 then Some at
     else (case berRead (drop at b) of
             None \<Rightarrow> None
           | Some (tag, header, content, rest, indefinite) \<Rightarrow>
               berEndOfContents_loop b
                 (at + (length header + length content) + (if indefinite then 2 else 0))))"
  by pat_completeness auto

lemma berRead_header_partial:
  assumes "berRead_berEndOfContents_loop_dom (Inl b)" "berRead b = Some (tag, h, c, r, ind)"
  shows "2 \<le> length h"
  using assms(2) unfolding berRead.psimps [OF assms(1)]
  by (auto simp: Let_def split: if_splits option.splits)

termination berRead
proof (relation "measure (case_sum (\<lambda>b. 2 * length b) (\<lambda>(b, at). 2 * (length b - at) + 1))",
    goal_cases)
  case (4 b at y tag z header w content v rest indefinite)
  then have "2 \<le> length header" using berRead_header_partial by metis
  with 4 show ?case by auto
qed auto

declare berRead.simps [simp del] berEndOfContents_loop.simps [simp del]

definition berEndOfContents :: "byte list \<Rightarrow> nat option" where
  "berEndOfContents b = berEndOfContents_loop b 0"

definition berEncode :: "byte \<Rightarrow> byte list \<Rightarrow> byte list" where
  "berEncode tag content =
    (let n = length content;
         header =
           (if n < 0x80 then [tag, of_nat n]
            else if n < 2 ^ 8 then [tag, 0x81, of_nat n]
            else if n < 2 ^ 16 then [tag, 0x82, of_nat (n div 256), of_nat n]
            else if n < 2 ^ 24 then [tag, 0x83, of_nat (n div 2 ^ 16), of_nat (n div 2 ^ 8), of_nat n]
            else [tag, 0x84, of_nat (n div 2 ^ 24), of_nat (n div 2 ^ 16), of_nat (n div 2 ^ 8), of_nat n])
     in header @ content)"

function berJoinOctetStrings_loop :: "byte list \<Rightarrow> byte list \<Rightarrow> byte list option" where
  "berJoinOctetStrings_loop joined children =
    (if children = [] then Some joined
     else (case berRead children of
             None \<Rightarrow> None
           | Some (tag, header, content, rest, indefinite) \<Rightarrow>
               if tag \<noteq> 0x04 then None
               else berJoinOctetStrings_loop (joined @ content) rest))"
  by pat_completeness auto

lemma berRead_header:
  "berRead b = Some (tag, h, c, r, ind) \<Longrightarrow> 2 \<le> length h"
  unfolding berRead.simps [of b] by (auto simp: Let_def split: if_splits option.splits)

lemma berEndOfContents_loop_cases:
  assumes "berEndOfContents_loop b at = Some e"
  obtains (pair) "at + 2 \<le> length b" "b ! at = 0" "b ! (at + 1) = 0" "e = at"
    | (item) tag h c r ind where "at + 2 \<le> length b" "\<not> (b ! at = 0 \<and> b ! (at + 1) = 0)"
        "berRead (drop at b) = Some (tag, h, c, r, ind)"
        "berEndOfContents_loop b (at + (length h + length c) + (if ind then 2 else 0)) = Some e"
  using assms unfolding berEndOfContents_loop.simps [of b at]
  by (auto simp: not_less split: if_splits option.splits prod.splits)

lemma berEndOfContents_bounds:
  "berEndOfContents_loop b at = Some e \<Longrightarrow> at \<le> e \<and> e + 2 \<le> length b \<and> b ! e = 0 \<and> b ! (e + 1) = 0"
proof (induction "length b - at" arbitrary: at rule: less_induct)
  case less
  from less.prems show ?case
  proof (cases rule: berEndOfContents_loop_cases)
    case (item tag h c r ind)
    have "2 \<le> length h" using berRead_header item(3) .
    then show ?thesis using less.hyps [OF _ item(4)] item(1) by fastforce
  qed auto
qed

text \<open>What a successful read cuts the input into.\<close>

lemma berRead_cut:
  assumes "berRead b = Some (tag, h, c, r, ind)"
  obtains i len where "tag = b ! 0" "tag AND 0x1f \<noteq> 0x1f" "2 \<le> i" "i \<le> 6"
    "h = take i b" "c = take len (drop i b)" "i + len + (if ind then 2 else 0) \<le> length b"
    "r = drop (i + len + (if ind then 2 else 0)) b"
proof -
  have two: "\<not> length b < 2" and tag: "tag = b ! 0" "tag AND 0x1f \<noteq> 0x1f"
    using assms unfolding berRead.simps [of b]
    by (auto simp: Let_def split: if_splits option.splits)
  consider (indef) e where "berEndOfContents_loop (drop 2 b) 0 = Some e" "h = take 2 b"
      "c = take e (drop 2 b)" "r = drop (2 + e + 2) b" "ind"
    | (long) n len where "n \<le> 4" "len = be_value (take n (drop 2 b))" "2 + n + len \<le> length b"
        "h = take (2 + n) b" "c = take len (drop (2 + n) b)" "r = drop (2 + n + len) b" "\<not> ind"
    | (short) len where "2 + len \<le> length b" "h = take 2 b" "c = take len (drop 2 b)"
        "r = drop (2 + len) b" "\<not> ind"
    using assms unfolding berRead.simps [of b]
    by (auto simp: Let_def not_less split: if_splits option.splits)
  then show ?thesis
  proof cases
    case indef
    with berEndOfContents_bounds [OF indef(1)] two tag show ?thesis
      by (intro that [of 2 e]) auto
  next
    case long
    with tag show ?thesis by (intro that [of "2 + n" len]) auto
  next
    case short
    with tag show ?thesis by (intro that [of 2 len]) auto
  qed
qed

lemma berRead_split:
  assumes "berRead b = Some (tag, h, c, r, ind)"
  shows "2 \<le> length h" "length h + length c + length r \<le> length b" "length r < length b"
    "length h \<le> 6" "\<not> ind \<Longrightarrow> b = h @ c @ r"
proof -
  obtain i len where cut: "2 \<le> i" "i \<le> 6" "h = take i b" "c = take len (drop i b)"
    "i + len + (if ind then 2 else 0) \<le> length b" "r = drop (i + len + (if ind then 2 else 0)) b"
    using berRead_cut [OF assms] by metis
  then have len: "length h = i" "length c = len" "length r = length b - (i + len + (if ind then 2 else 0))"
    by (simp_all split: if_splits)
  show "2 \<le> length h" "length h + length c + length r \<le> length b" "length r < length b" "length h \<le> 6"
    using cut(1, 2, 5) by (simp_all add: len split: if_splits)
  show "b = h @ c @ r" if "\<not> ind"
  proof -
    have "b = take i b @ take len (drop i b) @ drop (len + i) b"
      by (metis append_take_drop_id drop_drop)
    then show ?thesis using that unfolding cut(3, 4, 6) by (simp add: add.commute)
  qed
qed

termination berJoinOctetStrings_loop
  by (relation "measure (\<lambda>(j, c). length c)") (auto dest: berRead_split(3))

declare berJoinOctetStrings_loop.simps [simp del]

definition berJoinOctetStrings :: "byte list \<Rightarrow> byte list option" where
  "berJoinOctetStrings children = berJoinOctetStrings_loop [] children"

text \<open>\<^verbatim>\<open>berValue\<close> and its loop over the content of a constructed value, whose accumulators are the
  rewritten children and \<^verbatim>\<open>allOctetStrings\<close>.\<close>

function (sequential)
  berValue :: "byte list \<Rightarrow> nat \<Rightarrow> (byte list \<times> byte list) option" and
  berValue_loop :: "byte list \<Rightarrow> nat \<Rightarrow> byte list \<Rightarrow> bool \<Rightarrow> (byte list \<times> bool) option"
where
  "berValue b depth =
    (if depth > berMaxDepth then None
     else (case berRead b of
             None \<Rightarrow> None
           | Some (tag, header, content, rest, indefinite) \<Rightarrow>
               if tag AND 0x20 = 0
               then (if indefinite then None
                     else Some (take (length header + length content) b, rest))
               else (case berValue_loop content depth [] (content \<noteq> []) of
                       None \<Rightarrow> None
                     | Some (children, allOctetStrings) \<Rightarrow>
                         if tag = 0x24
                         then (case berJoinOctetStrings children of
                                 None \<Rightarrow> None
                               | Some joined \<Rightarrow> Some (berEncode 0x04 joined, rest))
                         else if indefinite \<and> tag AND 0xc0 = 0x80 \<and> allOctetStrings
                         then (case berJoinOctetStrings children of
                                 None \<Rightarrow> None
                               | Some joined \<Rightarrow> Some (berEncode (tag AND NOT 0x20) joined, rest))
                         else Some (berEncode tag children, rest))))"
| "berValue_loop content depth children allOctetStrings =
    (if content = [] then Some (children, allOctetStrings)
     else (case berValue content (depth + 1) of
             None \<Rightarrow> None
           | Some (child, content') \<Rightarrow>
               berValue_loop content' depth (children @ child) (allOctetStrings \<and> content ! 0 = 0x04)))"
  by pat_completeness auto

lemma berValue_rest_partial:
  assumes "berValue_berValue_loop_dom (Inl (b, d))" "berValue b d = Some (v, r)"
  shows "length r < length b"
  using assms(2) unfolding berValue.psimps [OF assms(1)]
  by (auto simp: Let_def split: if_splits option.splits) (erule berRead_split(3))+

termination berValue
proof (relation "measure (case_sum (\<lambda>(b, d). 2 * length b) (\<lambda>(c, d, ch, a). 2 * length c + 1))",
    goal_cases)
  case (2 b depth a tag y header z content w rest indefinite)
  then show ?case using berRead_split(1, 2) by fastforce
next
  case (4 content depth children allOctetStrings a child content')
  then show ?case using berValue_rest_partial by fastforce
qed auto

declare berValue.simps [simp del] berValue_loop.simps [simp del]

definition berToDER :: "byte list \<Rightarrow> byte list option" where
  "berToDER raw =
    (case berValue raw 0 of
       None \<Rightarrow> None
     | Some (out, rest) \<Rightarrow> if rest \<noteq> [] then None else Some out)"

text \<open>
  Specification vocabulary: DER values as trees, a run of \<open>n\<close> nested indefinite-length sequences, and
  the headers of a definite length.
\<close>

datatype asn1 = Prim byte "byte list" | Constructed byte "asn1 list"

fun der :: "asn1 \<Rightarrow> byte list" where
  "der (Prim tag content) = berEncode tag content"
| "der (Constructed tag ts) = berEncode tag (concat (map der ts))"

fun wf_der :: "asn1 \<Rightarrow> bool" where
  "wf_der (Prim tag content) \<longleftrightarrow> tag AND 0x20 = 0 \<and> tag AND 0x1f \<noteq> 0x1f \<and> length content < 2 ^ 32"
| "wf_der (Constructed tag ts) \<longleftrightarrow> tag AND 0x20 \<noteq> 0 \<and> tag AND 0x1f \<noteq> 0x1f \<and> tag \<noteq> 0x24
     \<and> length (concat (map der ts)) < 2 ^ 32 \<and> list_all wf_der ts"

fun fits :: "nat \<Rightarrow> asn1 \<Rightarrow> bool" where
  "fits d (Prim tag content) \<longleftrightarrow> d \<le> berMaxDepth"
| "fits d (Constructed tag ts) \<longleftrightarrow> d \<le> berMaxDepth \<and> list_all (fits (d + 1)) ts"

definition nested :: "nat \<Rightarrow> byte list" where
  "nested n = concat (replicate n [0x30, 0x80]) @ replicate (2 * n) 0"

definition definite_header :: "byte list \<Rightarrow> nat \<Rightarrow> bool" where
  "definite_header h len \<longleftrightarrow>
     (length h = 2 \<and> h ! 1 AND 0x80 = 0 \<and> len = unat (h ! 1))
   \<or> (h ! 1 \<noteq> 0x80 \<and> h ! 1 AND 0x80 \<noteq> 0 \<and> 2 \<le> length h \<and> length h \<le> 6
       \<and> length h = 2 + unat (h ! 1 AND 0x7f) \<and> len = be_value (drop 2 h))"

section \<open>Reading what the encoder writes\<close>

lemma berRead_definite:
  assumes "definite_header h (length c)" "h ! 0 AND 0x1f \<noteq> 0x1f"
  shows "berRead (h @ c @ r) = Some (h ! 0, h, c, r, False)"
proof -
  let ?b = "h @ c @ r"
  have two: "2 \<le> length h" using assms(1) by (auto simp: definite_header_def)
  then have nth: "?b ! 0 = h ! 0" "?b ! 1 = h ! 1" "\<not> length ?b < 2" by (auto simp: nth_append)
  from assms(1) consider
      (short) "length h = 2" "h ! 1 AND 0x80 = 0" "length c = unat (h ! 1)"
    | (long) "h ! 1 \<noteq> 0x80" "h ! 1 AND 0x80 \<noteq> 0" "length h \<le> 6"
        "length h = 2 + unat (h ! 1 AND 0x7f)" "length c = be_value (drop 2 h)"
    by (auto simp: definite_header_def)
  then show ?thesis
  proof cases
    case short
    then have "h ! 1 \<noteq> 0x80" by auto
    with short assms(2) nth show ?thesis
      unfolding berRead.simps [of ?b] by (simp add: Let_def)
  next
    case long
    define n where "n = unat (h ! 1 AND 0x7f)"
    have n: "length h = 2 + n" "\<not> n > 4" using long by (auto simp: n_def)
    have "take n (drop 2 ?b) = drop 2 h" using n two by simp
    then have v: "be_value (take n (drop 2 ?b)) = length c" using long(5) by simp
    have "\<not> (n > 4 \<or> 2 + n > length ?b)" "\<not> 2 + n + length c > length ?b" using n by auto
    moreover have "take (2 + n) ?b = h" "take (length c) (drop (2 + n) ?b) = c"
      "drop (2 + n + length c) ?b = r" using n by simp_all
    ultimately show ?thesis
      unfolding berRead.simps [of ?b] nth n_def [symmetric] Let_def v
      using nth(3) assms(2) long(1, 2) by simp
  qed
qed

lemma berRead_definiteD:
  assumes "berRead b = Some (tag, h, c, r, False)"
  shows "b = h @ c @ r" "definite_header h (length c)" "tag = h ! 0" "tag AND 0x1f \<noteq> 0x1f"
proof -
  show b: "b = h @ c @ r" using berRead_split(5) [OF assms] by simp
  have two: "2 \<le> length h" using berRead_split(1) [OF assms] .
  show "tag = h ! 0" "tag AND 0x1f \<noteq> 0x1f"
    using berRead_cut [OF assms] two by (metis b nth_append zero_less_numeral order_less_le_trans)+
  show "definite_header h (length c)"
    using assms unfolding berRead.simps [of b] definite_header_def
    by (auto simp: Let_def not_less drop_take split: if_splits option.splits)
qed

lemma unat_of_nat_byte: "unat (of_nat n :: byte) = n mod 256"
  by (simp add: unat_of_nat)

lemma high_bit: "(x :: byte) AND 0x80 = 0 \<longleftrightarrow> unat x < 128"
proof -
  have "x AND 2 ^ 7 = 0 \<longleftrightarrow> \<not> bit x 7" by (rule and_exp_eq_0_iff_not_bit)
  also have "bit x 7 \<longleftrightarrow> odd (unat x div 2 ^ 7)"
    using bit_iff_odd [of "unat x" 7] by (simp add: bit_unsigned_iff)
  also have "\<dots> \<longleftrightarrow> \<not> unat x < 128"
  proof -
    have "unat x < 256" using unsigned_less [of x, where ?'a = nat] by simp
    then have "unat x div 128 = 0 \<or> unat x div 128 = 1 \<and> 128 \<le> unat x" by linarith
    then show ?thesis by auto
  qed
  finally show ?thesis by simp
qed

lemma be_value_bytes:
  "n < 2 ^ 8 \<Longrightarrow> be_value [of_nat n] = n"
  "n < 2 ^ 16 \<Longrightarrow> be_value [of_nat (n div 256), of_nat n] = n"
  "n < 2 ^ 24 \<Longrightarrow> be_value [of_nat (n div 2 ^ 16), of_nat (n div 2 ^ 8), of_nat n] = n"
  "n < 2 ^ 32 \<Longrightarrow>
     be_value [of_nat (n div 2 ^ 24), of_nat (n div 2 ^ 16), of_nat (n div 2 ^ 8), of_nat n] = n"
proof -
  have d: "n div 2 ^ 16 = n div 2 ^ 8 div 256" "n div 2 ^ 24 = n div 2 ^ 8 div 256 div 256"
    by (simp_all add: div_mult2_eq [symmetric])
  show "n < 2 ^ 8 \<Longrightarrow> be_value [of_nat n] = n"
    by (simp add: be_value_def unat_of_nat_byte)
  show "n < 2 ^ 16 \<Longrightarrow> be_value [of_nat (n div 256), of_nat n] = n"
    by (simp add: be_value_def unat_of_nat_byte del: of_nat_div) 
  show "n < 2 ^ 24 \<Longrightarrow> be_value [of_nat (n div 2 ^ 16), of_nat (n div 2 ^ 8), of_nat n] = n"
    unfolding d be_value_def by (simp add: unat_of_nat_byte)
  show "n < 2 ^ 32 \<Longrightarrow>
     be_value [of_nat (n div 2 ^ 24), of_nat (n div 2 ^ 16), of_nat (n div 2 ^ 8), of_nat n] = n"
    unfolding d be_value_def by (simp add: unat_of_nat_byte)
qed

lemma berEncode_header:
  assumes "length c < 2 ^ 32"
  obtains h where "berEncode tag c = h @ c" "definite_header h (length c)" "h ! 0 = tag"
    "2 \<le> length h" "length h \<le> 6"
proof -
  let ?n = "length c"
  consider (a) "?n < 0x80" | (b) "0x80 \<le> ?n" "?n < 2 ^ 8" | (c) "2 ^ 8 \<le> ?n" "?n < 2 ^ 16"
    | (d) "2 ^ 16 \<le> ?n" "?n < 2 ^ 24" | (e) "2 ^ 24 \<le> ?n" by linarith
  then show ?thesis
  proof cases
    case a
    then show ?thesis
      by (intro that [of "[tag, of_nat ?n]"])
        (auto simp: Let_def berEncode_def definite_header_def high_bit unat_of_nat_byte)
  next
    case b
    then show ?thesis
      by (intro that [of "[tag, 0x81, of_nat ?n]"])
        (auto simp: Let_def berEncode_def definite_header_def be_value_bytes)
  next
    case c
    then show ?thesis
      by (intro that [of "[tag, 0x82, of_nat (?n div 256), of_nat ?n]"])
        (auto simp: Let_def berEncode_def definite_header_def be_value_bytes)
  next
    case d
    then show ?thesis using be_value_bytes(3) [of ?n]
      by (intro that [of "[tag, 0x83, of_nat (?n div 2 ^ 16), of_nat (?n div 2 ^ 8), of_nat ?n]"])
        (auto simp: Let_def berEncode_def definite_header_def)
  next
    case e
    then show ?thesis using be_value_bytes(4) [of ?n] assms
      by (intro that [of "[tag, 0x84, of_nat (?n div 2 ^ 24), of_nat (?n div 2 ^ 16),
          of_nat (?n div 2 ^ 8), of_nat ?n]"])
        (auto simp: Let_def berEncode_def definite_header_def)
  qed
qed

lemma berRead_berEncode:
  assumes "length c < 2 ^ 32" "tag AND 0x1f \<noteq> 0x1f"
  obtains h where "berRead (berEncode tag c @ r) = Some (tag, h, c, r, False)" "berEncode tag c = h @ c"
proof -
  obtain h where h: "berEncode tag c = h @ c" "definite_header h (length c)" "h ! 0 = tag"
    using berEncode_header [OF assms(1)] by metis
  then have "berRead (berEncode tag c @ r) = Some (tag, h, c, r, False)"
    using berRead_definite [OF h(2), of r] assms(2) by simp
  with h(1) show ?thesis using that by blast
qed

lemma berEncode_length: "length (berEncode tag c) \<le> 6 + length c" "berEncode tag c \<noteq> []"
  by (auto simp: berEncode_def Let_def)

lemma berJoinOctetStrings_length:
  "berJoinOctetStrings_loop j cs = Some out \<Longrightarrow> length out \<le> length j + length cs"
proof (induction j cs rule: berJoinOctetStrings_loop.induct)
  case (1 j cs)
  show ?case
  proof (cases "cs = []")
    case False
    then obtain tag h c r ind where read: "berRead cs = Some (tag, h, c, r, ind)"
      and rec: "berJoinOctetStrings_loop (j @ c) r = Some out" and "tag = 0x04"
      using "1.prems" unfolding berJoinOctetStrings_loop.simps [of j cs]
      by (auto split: option.splits if_splits)
    have "length out \<le> length (j @ c) + length r"
      using "1.IH" [OF False read refl refl refl refl] rec \<open>tag = 0x04\<close> by simp
    with berRead_split(1, 2) [OF read] show ?thesis by simp
  qed (use "1.prems" in \<open>simp add: berJoinOctetStrings_loop.simps\<close>)
qed

text \<open>The four ways a value is rewritten.\<close>

lemma berValue_cases:
  assumes "berValue b d = Some (v, rest)"
  obtains (prim) tag h c where "d \<le> berMaxDepth" "berRead b = Some (tag, h, c, rest, False)"
      "tag AND 0x20 = 0" "v = h @ c"
    | (octets) h c ind cs al joined where "d \<le> berMaxDepth" "berRead b = Some (0x24, h, c, rest, ind)"
        "berValue_loop c d [] (c \<noteq> []) = Some (cs, al)" "berJoinOctetStrings cs = Some joined"
        "v = berEncode 0x04 joined"
    | (implicit) tag h c cs joined where "d \<le> berMaxDepth" "berRead b = Some (tag, h, c, rest, True)"
        "tag AND 0x20 \<noteq> 0" "berValue_loop c d [] (c \<noteq> []) = Some (cs, True)"
        "berJoinOctetStrings cs = Some joined" "v = berEncode (tag AND NOT 0x20) joined"
    | (cons) tag h c ind cs al where "d \<le> berMaxDepth" "berRead b = Some (tag, h, c, rest, ind)"
        "tag AND 0x20 \<noteq> 0" "tag \<noteq> 0x24" "berValue_loop c d [] (c \<noteq> []) = Some (cs, al)"
        "v = berEncode tag cs"
proof -
  obtain tag h c r ind where read: "berRead b = Some (tag, h, c, r, ind)" and d: "d \<le> berMaxDepth"
    using assms unfolding berValue.simps [of b d]
    by (auto simp: not_less split: if_splits option.splits)
  note eq = assms [unfolded berValue.simps [of b d], simplified read option.case prod.case]
  show ?thesis
  proof (cases "tag AND 0x20 = 0")
    case True
    with eq d have "\<not> ind" "rest = r" "v = take (length h + length c) b"
      by (auto split: if_splits)
    moreover have "b = h @ c @ r" using berRead_split(5) [OF read] \<open>\<not> ind\<close> by simp
    then have "take (length h + length c) b = h @ c" by simp
    ultimately show ?thesis using True read d prim by simp
  next
    case False
    then obtain cs al where loop: "berValue_loop c d [] (c \<noteq> []) = Some (cs, al)"
      using eq d by (auto split: if_splits option.splits)
    show ?thesis
      using eq False d loop read octets implicit cons
      by (auto simp: not_less split: if_splits option.splits)
  qed
qed

lemma berValue_loop_cases:
  assumes "berValue_loop content d ch a = Some (cs, al)"
  obtains (stop) "content = []" "cs = ch" "al = a"
    | (child) v r where "content \<noteq> []" "berValue content (d + 1) = Some (v, r)"
        "berValue_loop r d (ch @ v) (a \<and> content ! 0 = 0x04) = Some (cs, al)"
  using assms unfolding berValue_loop.simps [of content d ch a]
  by (auto split: if_splits option.splits prod.splits)

lemma berValue_rest: "berValue b d = Some (v, r) \<Longrightarrow> length r < length b"
  by (erule berValue_cases) (auto dest: berRead_split(3))

section \<open>Normal forms\<close>

text \<open>A value that the rewriter leaves alone, whatever follows it.\<close>

definition normal :: "nat \<Rightarrow> byte list \<Rightarrow> bool" where
  "normal d v \<longleftrightarrow> v \<noteq> [] \<and> (\<forall>r. berValue (v @ r) d = Some (v, r))"

definition normal_run :: "nat \<Rightarrow> byte list \<Rightarrow> bool" where
  "normal_run d cs \<longleftrightarrow> (\<forall>ch a. \<exists>al. berValue_loop cs d ch a = Some (ch @ cs, al))"

lemma normal_run_Nil: "normal_run d []"
  by (simp add: normal_run_def berValue_loop.simps)

lemma normal_run_append: "normal (d + 1) v \<Longrightarrow> normal_run d cs \<Longrightarrow> normal_run d (v @ cs)"
  unfolding normal_run_def
proof (intro allI)
  fix ch a
  assume v: "normal (d + 1) v" and cs: "\<forall>ch a. \<exists>al. berValue_loop cs d ch a = Some (ch @ cs, al)"
  have "berValue (v @ cs) (d + 1) = Some (v, cs)" "v @ cs \<noteq> []" using v by (auto simp: normal_def)
  then have "berValue_loop (v @ cs) d ch a = berValue_loop cs d (ch @ v) (a \<and> (v @ cs) ! 0 = 0x04)"
    unfolding berValue_loop.simps [of "v @ cs"] by auto
  then show "\<exists>al. berValue_loop (v @ cs) d ch a = Some (ch @ v @ cs, al)"
    using cs by (metis append_assoc)
qed

lemma normal_prim:
  assumes "d \<le> berMaxDepth" "definite_header h (length c)" "h ! 0 AND 0x1f \<noteq> 0x1f" "h ! 0 AND 0x20 = 0"
  shows "normal d (h @ c)"
proof -
  have "berValue ((h @ c) @ r) d = Some (h @ c, r)" for r
    using berRead_definite [OF assms(2, 3), of r] assms(1, 4) unfolding berValue.simps [of "(h @ c) @ r"]
    by simp
  moreover have "h \<noteq> []" using assms(2) by (auto simp: definite_header_def)
  ultimately show ?thesis by (simp add: normal_def)
qed

lemma normal_berEncode_prim:
  assumes "d \<le> berMaxDepth" "length c < 2 ^ 32" "tag AND 0x1f \<noteq> 0x1f" "tag AND 0x20 = 0"
  shows "normal d (berEncode tag c)"
  using berEncode_header [OF assms(2)] normal_prim [OF assms(1)] assms(3, 4) by metis

lemma normal_berEncode_cons:
  assumes "d \<le> berMaxDepth" "length cs < 2 ^ 32" "tag AND 0x1f \<noteq> 0x1f" "tag AND 0x20 \<noteq> 0"
    "tag \<noteq> 0x24" "normal_run d cs"
  shows "normal d (berEncode tag cs)"
proof -
  have "berValue (berEncode tag cs @ r) d = Some (berEncode tag cs, r)" for r
  proof -
    obtain h where h: "berRead (berEncode tag cs @ r) = Some (tag, h, cs, r, False)"
      using berRead_berEncode [OF assms(2, 3)] by metis
    obtain al where "berValue_loop cs d [] (cs \<noteq> []) = Some (cs, al)"
      using assms(6) unfolding normal_run_def by (metis append_Nil)
    with h assms(1, 4, 5) show ?thesis unfolding berValue.simps [of "berEncode tag cs @ r"] by simp
  qed
  then show ?thesis by (simp add: normal_def berEncode_length)
qed

text \<open>
  Every value the rewriter produces is normal. The length bound keeps all lengths in four octets:
  a rewritten value is at most three times as long as what it replaces.
\<close>

lemma berValue_normal:
  "berValue b d = Some (v, r) \<Longrightarrow> 3 * length b < 2 ^ 32 \<Longrightarrow>
     normal d v \<and> length v + 3 * length r \<le> 3 * length b"
  "berValue_loop content d ch a = Some (cs, al) \<Longrightarrow> 3 * length content < 2 ^ 32 \<Longrightarrow>
     \<exists>new. cs = ch @ new \<and> length new \<le> 3 * length content \<and> normal_run d new"
proof (induction b d and content d ch a arbitrary: v r and cs al rule: berValue_berValue_loop.induct)
  case (1 b d)
  have sizes: "normal_run d cs \<and> length cs \<le> 3 * length c \<and> length c + 2 + length rest \<le> length b"
    if "berRead b = Some (tag, h, c, rest, ind)" "tag AND 0x20 \<noteq> 0" "d \<le> berMaxDepth"
      "berValue_loop c d [] (c \<noteq> []) = Some (cs, al)" for tag h c rest ind cs al
  proof -
    have "length h + length c + length rest \<le> length b" "2 \<le> length h"
      using berRead_split(1, 2) [OF that(1)] by auto
    then show ?thesis
      using "1.IH" [OF _ that(1) refl refl refl refl that(2) that(4)] that(3) "1.prems"(2) by fastforce
  qed
  have joined: "length j \<le> length cs" if "berJoinOctetStrings cs = Some j" for cs j
    using berJoinOctetStrings_length [of "[]" cs j] that by (simp add: berJoinOctetStrings_def)
  from "1.prems"(1) show ?case
  proof (cases rule: berValue_cases)
    case (prim tag h c)
    have "normal d v"
      using normal_prim [OF prim(1)] berRead_definiteD [OF prim(2)] prim(3, 4) by metis
    then show ?thesis using berRead_split(2) [OF prim(2)] prim(4) by simp
  next
    case (octets h c ind cs al j)
    have s: "normal_run d cs \<and> length cs \<le> 3 * length c \<and> length c + 2 + length r \<le> length b"
      using sizes [OF octets(2) _ octets(1, 3)] by simp
    have "normal d v"
      unfolding octets(5) using octets(1) joined [OF octets(4)] s "1.prems"(2)
      by (intro normal_berEncode_prim) auto
    then show ?thesis
      using berEncode_length(1) [of 4 j] joined [OF octets(4)] s octets(5) by auto
  next
    case (implicit tag h c cs j)
    have s: "normal_run d cs \<and> length cs \<le> 3 * length c \<and> length c + 2 + length r \<le> length b"
      using sizes [OF implicit(2, 3, 1, 4)] .
    have "tag AND 0x1f \<noteq> 0x1f" by (rule berRead_cut [OF implicit(2)])
    then have t: "(tag AND NOT 0x20) AND 0x1f \<noteq> 0x1f" "(tag AND NOT 0x20) AND 0x20 = 0"
      by (simp_all add: and.assoc)
    have "normal d v"
      unfolding implicit(6) using implicit(1) joined [OF implicit(5)] s "1.prems"(2) t
      by (intro normal_berEncode_prim) auto
    then show ?thesis
      using berEncode_length(1) [of "tag AND NOT 0x20" j] joined [OF implicit(5)] s implicit(6) by auto
  next
    case (cons tag h c ind cs al)
    have s: "normal_run d cs \<and> length cs \<le> 3 * length c \<and> length c + 2 + length r \<le> length b"
      using sizes [OF cons(2, 3, 1, 5)] .
    have "tag AND 0x1f \<noteq> 0x1f" by (rule berRead_cut [OF cons(2)])
    then have "normal d v"
      unfolding cons(6) using cons(1, 3, 4) s "1.prems"(2) by (intro normal_berEncode_cons) auto
    then show ?thesis using berEncode_length(1) [of tag cs] s cons(6) by auto
  qed
next
  case (2 content d ch a)
  from "2.prems"(1) show ?case
  proof (cases rule: berValue_loop_cases)
    case stop
    then show ?thesis using normal_run_Nil by auto
  next
    case (child v r)
    have v: "normal (d + 1) v" "length v + 3 * length r \<le> 3 * length content"
      using "2.IH"(1) [OF child(1, 2)] "2.prems"(2) by auto
    obtain new where new: "cs = (ch @ v) @ new" "length new \<le> 3 * length r" "normal_run d new"
      using "2.IH"(2) [OF child(1, 2) refl child(3)] berValue_rest [OF child(2)] "2.prems"(2) by auto
    then show ?thesis using v normal_run_append [OF v(1) new(3)] by (intro exI [of _ "v @ new"]) auto
  qed
qed

section \<open>Properties\<close>

text \<open>
  C38. Rewriting is idempotent: whatever BER came in, the rewriter reads its own output back and
  returns it unchanged. The bound keeps every length within the four octets the reader accepts.
\<close>

theorem berToDER_idempotent:
  assumes "berToDER raw = Some out" "3 * length raw < 2 ^ 32"
  shows "berToDER out = Some out"
proof -
  have "berValue raw 0 = Some (out, [])"
    using assms(1) by (auto simp: berToDER_def split: option.splits if_splits)
  then have "normal 0 out" using berValue_normal(1) assms(2) by blast
  then have "berValue (out @ []) 0 = Some (out, [])" unfolding normal_def by blast
  then show ?thesis by (simp add: berToDER_def)
qed

theorem berToDER_idempotent_witness:
  "berToDER [0x24, 0x80, 0x04, 0x02, 0xaa, 0xbb, 0x04, 0x01, 0xcc, 0x00, 0x00]
     = Some [0x04, 0x03, 0xaa, 0xbb, 0xcc]
   \<and> berToDER [0x04, 0x03, 0xaa, 0xbb, 0xcc] = Some [0x04, 0x03, 0xaa, 0xbb, 0xcc]"
proof -
  have "berToDER [0x24, 0x80, 0x04, 0x02, 0xaa, 0xbb, 0x04, 0x01, 0xcc, 0x00, 0x00]
     = Some [0x04, 0x03, 0xaa, 0xbb, 0xcc]"
    by code_simp
  with berToDER_idempotent [OF this] show ?thesis by simp
qed

lemma der_normal: "wf_der t \<Longrightarrow> fits d t \<Longrightarrow> normal d (der t)"
proof (induction t arbitrary: d)
  case (Prim tag c)
  then show ?case by (auto intro: normal_berEncode_prim)
next
  case (Constructed tag ts)
  have "normal_run d (concat (map der ts'))" if "set ts' \<subseteq> set ts" for ts'
    using that
  proof (induction ts')
    case (Cons t ts')
    then have "normal (d + 1) (der t)"
      using Constructed.IH [of t "d + 1"] Constructed.prems by (auto simp: list_all_iff)
    with Cons show ?case by (simp add: normal_run_append)
  qed (simp add: normal_run_Nil)
  with Constructed.prems show ?case by (auto intro: normal_berEncode_cons)
qed

text \<open>
  A file that is already DER comes back identical: the encoding of every well-formed tree of
  definite-length values (no constructed octet string, nesting within the bound) is returned as it
  is.
\<close>

theorem berToDER_leaves_DER_alone:
  assumes "wf_der t" "fits 0 t"
  shows "berToDER (der t) = Some (der t)"
proof -
  have "berValue (der t @ []) 0 = Some (der t, [])"
    using der_normal [OF assms] unfolding normal_def by blast
  then show ?thesis by (simp add: berToDER_def)
qed

text \<open>Chunks: the end of an indefinite value lies behind the chunks it holds.\<close>

lemma end_of_chunks:
  assumes "\<forall>c \<in> set chunks. length c < 2 ^ 32"
  shows "berEndOfContents_loop (pre @ concat (map (berEncode 0x04) chunks) @ 0 # 0 # r) (length pre)
     = Some (length pre + length (concat (map (berEncode 0x04) chunks)))"
  using assms
proof (induction chunks arbitrary: pre)
  case Nil
  then show ?case by (simp add: berEndOfContents_loop.simps nth_append)
next
  case (Cons c chunks)
  let ?more = "concat (map (berEncode 0x04) chunks) @ 0 # 0 # r"
  let ?b = "pre @ berEncode 0x04 c @ ?more"
  obtain h where h: "berRead (berEncode 0x04 c @ ?more) = Some (0x04, h, c, ?more, False)"
      "berEncode 0x04 c = h @ c"
    by (rule berRead_berEncode [of c "0x04" ?more]) (use Cons.prems in auto)
  have "?b ! length pre = 0x04"
    using berRead_definiteD(3) [OF h(1)] berRead_split(1) [OF h(1)] h(2)
    by (auto simp: nth_append)
  then have "berEndOfContents_loop ?b (length pre)
      = berEndOfContents_loop ?b (length pre + (length h + length c))"
    unfolding berEndOfContents_loop.simps [of ?b "length pre"] using h(1) by simp
  also have "\<dots> = Some (length pre + (length h + length c) + length (concat (map (berEncode 0x04) chunks)))"
    using Cons.IH [of "pre @ berEncode 0x04 c"] Cons.prems h(2) by simp
  finally show ?case using h(2) by simp
qed

lemma join_chunks:
  assumes "\<forall>c \<in> set chunks. length c < 2 ^ 32"
  shows "berJoinOctetStrings_loop j (concat (map (berEncode 0x04) chunks)) = Some (j @ concat chunks)"
  using assms
proof (induction chunks arbitrary: j)
  case Nil
  then show ?case by (simp add: berJoinOctetStrings_loop.simps)
next
  case (Cons c chunks)
  let ?more = "concat (map (berEncode 0x04) chunks)"
  obtain h where h: "berRead (berEncode 0x04 c @ ?more) = Some (0x04, h, c, ?more, False)"
    by (rule berRead_berEncode [of c "0x04" ?more]) (use Cons.prems in auto)
  have "berJoinOctetStrings_loop j (berEncode 0x04 c @ ?more) = berJoinOctetStrings_loop (j @ c) ?more"
    unfolding berJoinOctetStrings_loop.simps [of j "berEncode 0x04 c @ ?more"] using h
    by (simp add: berEncode_length)
  then show ?case using Cons by simp
qed

lemma chunks_normal_run:
  "\<forall>c \<in> set chunks. length c < 2 ^ 32 \<Longrightarrow> d < berMaxDepth
     \<Longrightarrow> normal_run d (concat (map (berEncode 0x04) chunks))"
  by (induction chunks) (auto simp: normal_run_Nil intro!: normal_run_append normal_berEncode_prim)

text \<open>
  A streamed octet string is reassembled: an indefinite-length constructed octet string holding
  any number of primitive chunks becomes one primitive octet string whose content is the
  concatenation of the chunks, in order, wherever the bytes of the end-of-contents pair occur
  inside them.
\<close>

theorem berToDER_joins_chunks:
  assumes "\<forall>c \<in> set chunks. length c < 2 ^ 32"
  shows "berToDER ([0x24, 0x80] @ concat (map (berEncode 0x04) chunks) @ [0, 0])
     = Some (berEncode 0x04 (concat chunks))"
proof -
  let ?cs = "concat (map (berEncode 0x04) chunks)"
  let ?b = "[0x24, 0x80] @ ?cs @ [0, 0]"
  have "berEndOfContents_loop (?cs @ [0, 0]) 0 = Some (length ?cs)"
    using end_of_chunks [OF assms, of "[]" "[]"] by simp
  then have read: "berRead ?b = Some (0x24, [0x24, 0x80], ?cs, [], True)"
    unfolding berRead.simps [of ?b] by simp
  obtain al where loop: "berValue_loop ?cs 0 [] (?cs \<noteq> []) = Some (?cs, al)"
    using chunks_normal_run [OF assms, of 0] unfolding normal_run_def
    by (metis append_Nil berMaxDepth_def zero_less_numeral)
  have "berJoinOctetStrings ?cs = Some (concat chunks)"
    using join_chunks [OF assms, of "[]"] by (simp add: berJoinOctetStrings_def)
  then have "berValue ?b 0 = Some (berEncode 0x04 (concat chunks), [])"
    unfolding berValue.simps [of ?b] read using loop by simp
  then show ?thesis by (simp add: berToDER_def)
qed

lemma nested_Suc: "nested (Suc n) = [0x30, 0x80] @ nested n @ [0, 0]"
  by (simp add: nested_def replicate_app_Cons_same)

lemma berRead_nested: "berRead (nested (Suc n) @ r) = Some (0x30, [0x30, 0x80], nested n, r, True)"
proof (induction n arbitrary: r)
  case 0
  have "berEndOfContents_loop (0 # 0 # r) 0 = Some 0" by (simp add: berEndOfContents_loop.simps)
  moreover have "nested (Suc 0) @ r = 0x30 # 0x80 # 0 # 0 # r" "nested 0 = []"
    by (simp_all add: nested_def numeral_2_eq_2)
  ultimately show ?case by (simp add: berRead.simps)
next
  case (Suc n)
  let ?b = "nested (Suc n) @ 0 # 0 # r"
  have len: "length (nested (Suc n)) = length (nested n) + 4" by (simp add: nested_Suc)
  have fin: "berEndOfContents_loop ?b (length (nested (Suc n))) = Some (length (nested (Suc n)))"
    by (simp add: berEndOfContents_loop.simps nth_append)
  have at: "0 + (length [0x30 :: byte, 0x80] + length (nested n)) + 2 = length (nested (Suc n))"
    by (simp add: len)
  have "?b ! 0 = 0x30" by (simp add: nested_Suc)
  then have "\<not> (?b ! 0 = 0 \<and> ?b ! (0 + 1) = 0)" "\<not> length ?b < 0 + 2" by auto
  then have "berEndOfContents_loop ?b 0
      = berEndOfContents_loop ?b (0 + (length [0x30 :: byte, 0x80] + length (nested n)) + 2)"
    unfolding berEndOfContents_loop.simps [of ?b 0] drop_0 Suc [of "0 # 0 # r"]
    by (simp only: if_False option.case prod.case if_True)
  then have "berEndOfContents_loop ?b 0 = Some (length (nested (Suc n)))"
    unfolding at fin .
  then show ?case
    by (simp add: nested_Suc [of "Suc n"] berRead.simps)
qed

lemma berValue_nested: "berMaxDepth < d + n \<Longrightarrow> berValue (nested (Suc n) @ r) d = None"
proof (induction n arbitrary: d r)
  case 0
  then show ?case by (simp add: berValue.simps)
next
  case (Suc n)
  have "berValue (nested (Suc n)) (d + 1) = None" using Suc.IH [of "d + 1" "[]"] Suc.prems by simp
  moreover have "nested (Suc n) \<noteq> []" by (simp add: nested_Suc)
  ultimately have "berValue_loop (nested (Suc n)) d [] True = None"
    unfolding berValue_loop.simps [of "nested (Suc n)"] by simp
  then show ?case
    unfolding berValue.simps [of "nested (Suc (Suc n)) @ r"] berRead_nested
    using \<open>nested (Suc n) \<noteq> []\<close> by simp
qed

text \<open>
  The nesting bound limits \<^verbatim>\<open>berValue\<close> and not the reader under it: an input of any number of
  nested indefinite-length sequences is refused beyond the bound, but \<^verbatim>\<open>berRead\<close>, which has no depth
  argument and calls itself through \<^verbatim>\<open>berEndOfContents\<close> once per level, follows every level first.
\<close>

theorem berRead_ignores_depth_bound:
  "berRead (nested (Suc n)) = Some (0x30, [0x30, 0x80], nested n, [], True)
   \<and> (berMaxDepth < n \<longrightarrow> berToDER (nested (Suc n)) = None)"
  using berRead_nested [of n "[]"] berValue_nested [of 0 n "[]"] by (simp add: berToDER_def)

end
