(* ===== verification/GroupStore.thy ===== *)
theory GroupStore
  imports Sqlite
begin

text \<open>
  The group tree: \<^verbatim>\<open>groupRepo\<close> of \<^verbatim>\<open>internal/store/sqlite/sqlite.go\<close> over the tables of \<open>Sqlite\<close>, and
  \<^verbatim>\<open>moveOrganizationGroup\<close> of \<^verbatim>\<open>internal/admin/organizationgroups.go\<close>, the one operation that reparents
  a group. The two walks over the tree, \<^verbatim>\<open>Ancestry\<close> upwards and \<^verbatim>\<open>subtree\<close> downwards, are loops with no
  bound of their own, so they are partial functions and \<^const>\<open>None\<close> is a walk that never returns.
\<close>

section \<open>The repository\<close>

definition group_attributes :: "sqlite_db \<Rightarrow> string \<Rightarrow> string list smap" where
  "group_attributes db ident =
    foldl (\<lambda>m (i, n, v, k). append_attribute m n v) []
      (sort_key (\<lambda>(i, n, v, k). n) (sort_key (\<lambda>(i, n, v, k). k)
        (filter (\<lambda>p. fst p = ident) (T_group_attribute db))))"

definition loadGroupAttributes :: "sqlite_db \<Rightarrow> group list \<Rightarrow> group list" where
  "loadGroupAttributes db gs = map (\<lambda>g. g\<lparr>Group_Attributes := group_attributes db (Group_ID g)\<rparr>) gs"

definition insertGroupAttributes :: "group \<Rightarrow> (string \<times> string \<times> string \<times> nat) list" where
  "insertGroupAttributes m =
    concat (map (\<lambda>(name, values). map (\<lambda>(i, v). (Group_ID m, name, v, i)) (enumerate 0 values))
      (Group_Attributes m))"

text \<open>\<^verbatim>\<open>UNIQUE (realm_id, parent_id, name)\<close>: another row already has the name beside that parent.\<close>

definition sibling_taken :: "sqlite_db \<Rightarrow> string \<Rightarrow> string \<Rightarrow> string \<Rightarrow> string \<Rightarrow> bool" where
  "sibling_taken db realmID parentID name ident \<longleftrightarrow>
    (\<exists>g \<in> set (T_group db). Group_RealmID g = realmID \<and> Group_ParentID g = parentID
       \<and> Group_Name g = name \<and> Group_ID g \<noteq> ident)"

definition groupRepo_Create :: "sqlite_db \<Rightarrow> group \<Rightarrow> sqlite_db st" where
  "groupRepo_Create db m =
    (if has_group db (Group_ID m)
        \<or> sibling_taken db (Group_RealmID m) (Group_ParentID m) (Group_Name m) (Group_ID m)
     then Inl ErrConflict
     else if \<not> has_realm db (Group_RealmID m) then Inl ErrStore
     else Inr (db\<lparr>T_group := T_group db @ [m\<lparr>Group_Attributes := []\<rparr>],
                  T_group_attribute := T_group_attribute db @ insertGroupAttributes m\<rparr>))"

definition groupRepo_ByID :: "sqlite_db \<Rightarrow> string \<Rightarrow> string \<Rightarrow> group st" where
  "groupRepo_ByID db realmID ident =
    first_row (loadGroupAttributes db
      (filter (\<lambda>g. Group_RealmID g = realmID \<and> Group_ID g = ident) (T_group db)))"

definition groupRepo_Update :: "sqlite_db \<Rightarrow> group \<Rightarrow> sqlite_db st" where
  "groupRepo_Update db m =
    (let mine = (\<lambda>g. Group_RealmID g = Group_RealmID m \<and> Group_ID g = Group_ID m)
     in if \<exists>g \<in> set (T_group db). mine g
             \<and> sibling_taken db (Group_RealmID g) (Group_ParentID g) (Group_Name m) (Group_ID m)
        then Inl ErrConflict
        else affectedOne (length (filter mine (T_group db)))
               (db\<lparr>T_group := map (\<lambda>g. if mine g then g\<lparr>Group_Name := Group_Name m\<rparr> else g) (T_group db),
                   T_group_attribute := filter (\<lambda>p. fst p \<noteq> Group_ID m) (T_group_attribute db)
                     @ insertGroupAttributes m\<rparr>))"

definition groupRepo_list :: "sqlite_db \<Rightarrow> (group \<Rightarrow> bool) \<Rightarrow> group list" where
  "groupRepo_list db P = loadGroupAttributes db (sort_key Group_Name (filter P (T_group db)))"

definition groupRepo_ListTopLevel :: "sqlite_db \<Rightarrow> string \<Rightarrow> group list st" where
  "groupRepo_ListTopLevel db realmID =
    Inr (groupRepo_list db (\<lambda>g. Group_RealmID g = realmID \<and> Group_ParentID g = []
      \<and> Group_OrganizationID g = []))"

definition groupRepo_ListChildren :: "sqlite_db \<Rightarrow> string \<Rightarrow> string \<Rightarrow> group list st" where
  "groupRepo_ListChildren db realmID parentID =
    Inr (groupRepo_list db (\<lambda>g. Group_RealmID g = realmID \<and> Group_ParentID g = parentID))"

definition groupRepo_ListAll :: "sqlite_db \<Rightarrow> string \<Rightarrow> group list st" where
  "groupRepo_ListAll db realmID =
    Inr (groupRepo_list db (\<lambda>g. Group_RealmID g = realmID \<and> Group_OrganizationID g = []))"

definition groupRepo_ListOrganizationAll :: "sqlite_db \<Rightarrow> string \<Rightarrow> string \<Rightarrow> group list st" where
  "groupRepo_ListOrganizationAll db realmID orgID =
    Inr (groupRepo_list db (\<lambda>g. Group_RealmID g = realmID \<and> Group_OrganizationID g = orgID
      \<and> orgID \<noteq> [] \<and> Group_ParentID g \<noteq> []))"

definition groupRepo_OrganizationRoot :: "sqlite_db \<Rightarrow> string \<Rightarrow> string \<Rightarrow> group st" where
  "groupRepo_OrganizationRoot db realmID orgID =
    first_row (loadGroupAttributes db (filter (\<lambda>g. Group_RealmID g = realmID
      \<and> Group_OrganizationID g = orgID \<and> orgID \<noteq> [] \<and> Group_ParentID g = []) (T_group db)))"

text \<open>\<^verbatim>\<open>subtree\<close>: position \<open>i\<close> of the growing list, then the list reversed.\<close>

partial_function (option) groupRepo_subtree_loop ::
  "sqlite_db \<Rightarrow> string \<Rightarrow> string list \<Rightarrow> nat \<Rightarrow> (string list st) option" where
  "groupRepo_subtree_loop db realmID out i =
    (if i < length out
     then (case groupRepo_ListChildren db realmID (out ! i) of
             Inl e \<Rightarrow> Some (Inl e)
           | Inr kids \<Rightarrow> groupRepo_subtree_loop db realmID (out @ map Group_ID kids) (i + 1))
     else Some (Inr (rev out)))"

definition groupRepo_subtree :: "sqlite_db \<Rightarrow> string \<Rightarrow> string \<Rightarrow> (string list st) option" where
  "groupRepo_subtree db realmID ident = groupRepo_subtree_loop db realmID [ident] 0"

definition groupRepo_Delete :: "sqlite_db \<Rightarrow> string \<Rightarrow> string \<Rightarrow> (sqlite_db st) option" where
  "groupRepo_Delete db realmID ident =
    (case groupRepo_ByID db realmID ident of
       Inl e \<Rightarrow> Some (Inl e)
     | Inr _ \<Rightarrow>
         (case groupRepo_subtree db realmID ident of
            None \<Rightarrow> None
          | Some (Inl e) \<Rightarrow> Some (Inl e)
          | Some (Inr ids) \<Rightarrow>
              Some (Inr (foldl (\<lambda>db gid. cascade_groups
                (\<lambda>i. i = gid \<and> (\<exists>g \<in> set (T_group db). Group_ID g = i \<and> Group_RealmID g = realmID)) db)
                db ids))))"

definition groupRepo_Move :: "sqlite_db \<Rightarrow> string \<Rightarrow> string \<Rightarrow> string \<Rightarrow> sqlite_db st" where
  "groupRepo_Move db realmID ident parentID =
    (let mine = (\<lambda>g. Group_RealmID g = realmID \<and> Group_ID g = ident)
     in if \<exists>g \<in> set (T_group db). mine g \<and> sibling_taken db realmID parentID (Group_Name g) ident
        then Inl ErrConflict
        else affectedOne (length (filter mine (T_group db)))
               (db\<lparr>T_group := map (\<lambda>g. if mine g then g\<lparr>Group_ParentID := parentID\<rparr> else g) (T_group db)\<rparr>))"

partial_function (option) groupRepo_Ancestry_loop ::
  "sqlite_db \<Rightarrow> string \<Rightarrow> group list \<Rightarrow> string \<Rightarrow> (group list st) option" where
  "groupRepo_Ancestry_loop db realmID chain ident =
    (if ident = [] then Some (Inr chain)
     else (case groupRepo_ByID db realmID ident of
             Inl e \<Rightarrow> Some (Inl e)
           | Inr g \<Rightarrow> groupRepo_Ancestry_loop db realmID (g # chain) (Group_ParentID g)))"

definition groupRepo_Ancestry :: "sqlite_db \<Rightarrow> string \<Rightarrow> string \<Rightarrow> (group list st) option" where
  "groupRepo_Ancestry db realmID ident = groupRepo_Ancestry_loop db realmID [] ident"

definition groupRepo_Members :: "sqlite_db \<Rightarrow> string \<Rightarrow> string \<Rightarrow> user list st" where
  "groupRepo_Members db realmID groupID =
    Inr (sort_key User_Username
      (filter (\<lambda>u. User_RealmID u = realmID \<and> (groupID, User_ID u) \<in> set (T_membership db)) (T_user db)))"

definition groupRepo_AddMember :: "sqlite_db \<Rightarrow> string \<Rightarrow> string \<Rightarrow> sqlite_db st" where
  "groupRepo_AddMember db groupID userID =
    bind_err (insert_pair_ignore (T_membership db) (has_group db groupID \<and> has_user db userID)
        groupID userID)
      (\<lambda>t. Inr (db\<lparr>T_membership := t\<rparr>))"

definition groupRepo_RemoveMember :: "sqlite_db \<Rightarrow> string \<Rightarrow> string \<Rightarrow> sqlite_db st" where
  "groupRepo_RemoveMember db groupID userID =
    Inr (db\<lparr>T_membership := filter (\<lambda>p. p \<noteq> (groupID, userID)) (T_membership db)\<rparr>)"

definition groupRepo_ListUserGroups :: "sqlite_db \<Rightarrow> string \<Rightarrow> string \<Rightarrow> group list st" where
  "groupRepo_ListUserGroups db realmID userID =
    Inr (groupRepo_list db (\<lambda>g. Group_RealmID g = realmID \<and> (Group_ID g, userID) \<in> set (T_membership db)))"

definition groupRepo_ListDefaultGroups :: "sqlite_db \<Rightarrow> string \<Rightarrow> group list st" where
  "groupRepo_ListDefaultGroups db realmID =
    Inr (groupRepo_list db (\<lambda>g. (realmID, Group_ID g) \<in> set (T_default_group db)))"

definition groupRepo_AddDefaultGroup :: "sqlite_db \<Rightarrow> string \<Rightarrow> string \<Rightarrow> sqlite_db st" where
  "groupRepo_AddDefaultGroup db realmID groupID =
    bind_err (insert_pair_ignore (T_default_group db) (has_realm db realmID \<and> has_group db groupID)
        realmID groupID)
      (\<lambda>t. Inr (db\<lparr>T_default_group := t\<rparr>))"

definition groupRepo_RemoveDefaultGroup :: "sqlite_db \<Rightarrow> string \<Rightarrow> string \<Rightarrow> sqlite_db st" where
  "groupRepo_RemoveDefaultGroup db realmID groupID =
    Inr (db\<lparr>T_default_group := filter (\<lambda>p. p \<noteq> (realmID, groupID)) (T_default_group db)\<rparr>)"

section \<open>Moving an organization's group\<close>

text \<open>The answer of the handler, as its status and the message of its body; 204 has none.\<close>

definition writeOrganizationGroupConflict :: "bool \<Rightarrow> nat \<times> string" where
  "writeOrganizationGroupConflict child =
    (if child then (409, ''Sibling group with the given name already exists'')
     else (409, ''Group with the given name already exists.''))"

definition moveOrganizationGroup ::
  "sqlite_db \<Rightarrow> string \<Rightarrow> string \<Rightarrow> group \<Rightarrow> string \<Rightarrow> bool \<Rightarrow> (nat \<times> string) \<times> sqlite_db" where
  "moveOrganizationGroup db realmID orgID parent ident child =
    (case groupRepo_ByID db realmID ident of
       Inl ErrNotFound \<Rightarrow> ((404, ''Could not find group by id''), db)
     | Inl _ \<Rightarrow> ((500, ''Internal Server Error''), db)
     | Inr g \<Rightarrow>
         if Group_OrganizationID g = [] then ((400, ''Can only move organization groups''), db)
         else if Group_OrganizationID g \<noteq> orgID
         then ((400, ''Group does not belong to this organization''), db)
         else (case groupRepo_Move db realmID (Group_ID g) (Group_ID parent) of
                 Inl ErrConflict \<Rightarrow> (writeOrganizationGroupConflict child, db)
               | Inl _ \<Rightarrow> ((500, ''Internal Server Error''), db)
               | Inr db' \<Rightarrow> ((204, []), db')))"

section \<open>The tree\<close>

text \<open>The parent relation of a realm's groups, its keys, and the shape the walks rely on.\<close>

definition parent_of :: "sqlite_db \<Rightarrow> string \<Rightarrow> (string \<times> string) set" where
  "parent_of db realmID =
    {(Group_ID g, Group_ParentID g) | g. g \<in> set (T_group db) \<and> Group_RealmID g = realmID}"

definition realm_groups :: "sqlite_db \<Rightarrow> string \<Rightarrow> string set" where
  "realm_groups db realmID = {Group_ID g | g. g \<in> set (T_group db) \<and> Group_RealmID g = realmID}"

definition wf_groups :: "sqlite_db \<Rightarrow> bool" where
  "wf_groups db \<longleftrightarrow> distinct (map Group_ID (T_group db)) \<and> [] \<notin> Group_ID ` set (T_group db)"

definition forest :: "sqlite_db \<Rightarrow> string \<Rightarrow> bool" where
  "forest db realmID \<longleftrightarrow> acyclic (parent_of db realmID)
     \<and> (\<forall>(g, p) \<in> parent_of db realmID. p \<noteq> [] \<longrightarrow> p \<in> realm_groups db realmID)"

definition descendants :: "sqlite_db \<Rightarrow> string \<Rightarrow> string \<Rightarrow> string set" where
  "descendants db realmID ident = ((parent_of db realmID)\<inverse>)\<^sup>* `` {ident}"

text \<open>A small tree for the examples.\<close>

definition sample_group :: "string \<Rightarrow> string \<Rightarrow> group" where
  "sample_group i p = \<lparr>Group_ID = i, Group_RealmID = ''m'', Group_ParentID = p, Group_Name = i,
     Group_OrganizationID = ''o'', Group_Attributes = []\<rparr>"

definition tree_db :: sqlite_db where
  "tree_db = empty_db\<lparr>T_group := [sample_group ''root'' [], sample_group ''a'' ''root'',
     sample_group ''b'' ''a'']\<rparr>"

lemma loadGroupAttributes_ids [simp]: "map Group_ID (loadGroupAttributes db gs) = map Group_ID gs"
  by (simp add: loadGroupAttributes_def comp_def)

lemma parent_of_iff:
  "(i, p) \<in> parent_of db realmID \<longleftrightarrow>
     (\<exists>g \<in> set (T_group db). Group_RealmID g = realmID \<and> Group_ID g = i \<and> Group_ParentID g = p)"
  by (auto simp: parent_of_def)

lemma realm_groups_Domain: "realm_groups db realmID = Domain (parent_of db realmID)"
  by (auto simp: realm_groups_def parent_of_def)

lemma groupRepo_ByID_Inr:
  assumes "groupRepo_ByID db realmID i = Inr g"
  obtains g0 where "g0 \<in> set (T_group db)" "Group_RealmID g0 = realmID" "Group_ID g0 = i"
    "g = g0\<lparr>Group_Attributes := group_attributes db i\<rparr>"
proof -
  have "g \<in> set (loadGroupAttributes db
      (filter (\<lambda>g. Group_RealmID g = realmID \<and> Group_ID g = i) (T_group db)))"
    using assms by (auto simp: groupRepo_ByID_def first_row_def split: list.splits)
  then show ?thesis using that by (auto simp: loadGroupAttributes_def)
qed

lemma groupRepo_ByID_missing:
  "i \<notin> realm_groups db realmID \<Longrightarrow> groupRepo_ByID db realmID i = Inl ErrNotFound"
proof -
  assume "i \<notin> realm_groups db realmID"
  then have "filter (\<lambda>g. Group_RealmID g = realmID \<and> Group_ID g = i) (T_group db) = []"
    by (auto simp: realm_groups_def filter_empty_conv)
  then show ?thesis by (simp add: groupRepo_ByID_def first_row_def loadGroupAttributes_def)
qed

lemma groupRepo_ByID_present:
  assumes "i \<in> realm_groups db realmID"
  obtains g where "groupRepo_ByID db realmID i = Inr g"
proof (cases "groupRepo_ByID db realmID i")
  case (Inl e)
  then have "filter (\<lambda>g. Group_RealmID g = realmID \<and> Group_ID g = i) (T_group db) = []"
    by (simp add: groupRepo_ByID_def first_row_def loadGroupAttributes_def split: list.splits)
  with assms show ?thesis by (auto simp: realm_groups_def filter_empty_conv)
qed (use that in blast)

lemma groupRepo_ByID_parent:
  assumes "groupRepo_ByID db realmID i = Inr g"
  shows "(i, Group_ParentID g) \<in> parent_of db realmID" "Group_ID g = i"
  by (rule groupRepo_ByID_Inr [OF assms], auto simp: parent_of_iff)+

lemma parent_unique:
  assumes "wf_groups db" "(g, p) \<in> parent_of db realmID" "(g, q) \<in> parent_of db realmID"
  shows "p = q"
proof -
  obtain x y where xy: "x \<in> set (T_group db)" "y \<in> set (T_group db)" "Group_ID x = Group_ID y"
    "Group_ParentID x = p" "Group_ParentID y = q"
    using assms(2, 3) unfolding parent_of_iff by metis
  have "inj_on Group_ID (set (T_group db))" using assms(1) by (simp add: wf_groups_def distinct_map)
  then show ?thesis using xy by (metis inj_onD)
qed

lemma ListChildren_ids:
  obtains kids where "groupRepo_ListChildren db realmID p = Inr kids"
    "Group_ID ` set kids = {g. (g, p) \<in> parent_of db realmID}"
    "wf_groups db \<Longrightarrow> distinct (map Group_ID kids)"
proof -
  let ?P = "\<lambda>g. Group_RealmID g = realmID \<and> Group_ParentID g = p"
  let ?kids = "groupRepo_list db ?P"
  have ids: "mset (map Group_ID ?kids) = mset (map Group_ID (filter ?P (T_group db)))"
    by (simp add: groupRepo_list_def)
  have "set (map Group_ID ?kids) = set (map Group_ID (filter ?P (T_group db)))"
    by (rule mset_eq_setD [OF ids])
  also have "\<dots> = {g. (g, p) \<in> parent_of db realmID}" by (auto simp: parent_of_iff)
  finally have "Group_ID ` set ?kids = {g. (g, p) \<in> parent_of db realmID}" by simp
  moreover have "distinct (map Group_ID ?kids)" if "wf_groups db"
  proof -
    have "distinct (map Group_ID (filter ?P (T_group db)))"
      using that by (simp add: wf_groups_def distinct_map_filter)
    then show ?thesis using mset_eq_imp_distinct_iff [OF ids] by simp
  qed
  ultimately show ?thesis using that [of ?kids] by (simp add: groupRepo_ListChildren_def)
qed

section \<open>The walk upwards\<close>

text \<open>A chain from a root down to a group, as the path is read.\<close>

fun chain_from :: "string \<Rightarrow> group list \<Rightarrow> bool" where
  "chain_from p [] \<longleftrightarrow> True"
| "chain_from p (g # gs) \<longleftrightarrow> Group_ParentID g = p \<and> chain_from (Group_ID g) gs"

text \<open>A group on a cycle of the parent relation has no path: the walk never returns.\<close>

lemma Ancestry_returns_off_cycle:
  assumes "groupRepo_Ancestry_loop db realmID chain i = Some r" "wf_groups db"
  shows "(i, i) \<notin> (parent_of db realmID)\<^sup>+"
proof -
  have "wf_groups db \<longrightarrow> (i, i) \<notin> (parent_of db realmID)\<^sup>+"
    using assms(1)
  proof (rule groupRepo_Ancestry_loop.raw_induct
      [where P = "\<lambda>db realmID chain i r. wf_groups db \<longrightarrow> (i, i) \<notin> (parent_of db realmID)\<^sup>+", rotated])
    fix loop db realmID chain i r
    assume IH: "\<And>db realmID chain i r. loop db realmID chain i = Some r \<Longrightarrow>
        wf_groups db \<longrightarrow> (i, i) \<notin> (parent_of db realmID)\<^sup>+"
      and run: "(if i = [] then Some (Inr chain)
         else case groupRepo_ByID db realmID i of Inl e \<Rightarrow> Some (Inl e)
              | Inr g \<Rightarrow> loop db realmID (g # chain) (Group_ParentID g)) = Some r"
    show "wf_groups db \<longrightarrow> (i, i) \<notin> (parent_of db realmID)\<^sup>+"
    proof (rule impI, rule notI)
      assume wf: "wf_groups db" and cyc: "(i, i) \<in> (parent_of db realmID)\<^sup>+"
      obtain p where p: "(i, p) \<in> parent_of db realmID" "(p, i) \<in> (parent_of db realmID)\<^sup>*"
        using tranclD [OF cyc] by blast
      have "i \<in> Group_ID ` set (T_group db)" using p(1) by (auto simp: parent_of_iff)
      then have "i \<noteq> []" using wf by (metis wf_groups_def)
      have "i \<in> realm_groups db realmID" using p(1) by (auto simp: realm_groups_Domain)
      then obtain g where g: "groupRepo_ByID db realmID i = Inr g" by (rule groupRepo_ByID_present)
      then have "Group_ParentID g = p"
        using parent_unique [OF wf _ p(1)] groupRepo_ByID_parent(1) [OF g] by blast
      then have "(p, p) \<notin> (parent_of db realmID)\<^sup>+"
        using run g \<open>i \<noteq> []\<close> IH wf by simp
      moreover have "(p, p) \<in> (parent_of db realmID)\<^sup>+" using p by (rule rtrancl_into_trancl1 [rotated])
      ultimately show False by simp
    qed
  qed
  with assms(2) show ?thesis by blast
qed

lemma chain_from_snoc:
  "chain_from p (gs @ [g]) \<longleftrightarrow>
     chain_from p gs \<and> Group_ParentID g = (if gs = [] then p else Group_ID (last gs))"
  by (induction gs arbitrary: p) auto

lemma finite_parent_of: "finite (parent_of db realmID)"
proof -
  have "parent_of db realmID \<subseteq> (\<lambda>g. (Group_ID g, Group_ParentID g)) ` set (T_group db)"
    by (auto simp: parent_of_def)
  then show ?thesis by (rule finite_subset) simp
qed

lemma Ancestry_loop_total:
  assumes "wf_groups db" "forest db realmID"
  shows "i = [] \<or> i \<in> realm_groups db realmID \<Longrightarrow>
    \<exists>cs. groupRepo_Ancestry_loop db realmID chain i = Some (Inr (cs @ chain))
       \<and> chain_from [] cs \<and> (i \<noteq> [] \<longrightarrow> cs \<noteq> [] \<and> Group_ID (last cs) = i) \<and> (i = [] \<longrightarrow> cs = [])"
proof (induction i arbitrary: chain rule: wf_induct_rule
    [OF finite_acyclic_wf_converse [OF finite_parent_of, of db realmID]])
  case 1
  then show ?case using assms(2) by (simp add: forest_def)
next
  case (2 i)
  show ?case
  proof (cases "i = []")
    case True
    then show ?thesis by (simp add: groupRepo_Ancestry_loop.simps)
  next
    case False
    then obtain g where g: "groupRepo_ByID db realmID i = Inr g"
      using groupRepo_ByID_present "2.prems" by blast
    note parent = groupRepo_ByID_parent [OF g]
    then have "Group_ParentID g = [] \<or> Group_ParentID g \<in> realm_groups db realmID"
      using assms(2) by (auto simp: forest_def)
    then obtain cs where cs: "groupRepo_Ancestry_loop db realmID (g # chain) (Group_ParentID g)
          = Some (Inr (cs @ g # chain))" "chain_from [] cs"
        "Group_ParentID g \<noteq> [] \<longrightarrow> cs \<noteq> [] \<and> Group_ID (last cs) = Group_ParentID g"
        "Group_ParentID g = [] \<longrightarrow> cs = []"
      using "2.IH" [of "Group_ParentID g" "g # chain"] parent(1) by auto
    have "groupRepo_Ancestry_loop db realmID chain i = Some (Inr ((cs @ [g]) @ chain))"
      using False g cs(1) by (subst groupRepo_Ancestry_loop.simps) simp
    moreover have "chain_from [] (cs @ [g])" using cs(2-4) by (auto simp: chain_from_snoc)
    ultimately show ?thesis using False parent(2) by (intro exI [of _ "cs @ [g]"]) auto
  qed
qed

section \<open>The walk downwards\<close>

lemma descendants_iff: "x \<in> descendants db realmID i \<longleftrightarrow> (x, i) \<in> (parent_of db realmID)\<^sup>*"
  by (simp add: descendants_def rtrancl_converse)

lemma descendants_child:
  "p \<in> descendants db realmID i \<Longrightarrow> (x, p) \<in> parent_of db realmID \<Longrightarrow> x \<in> descendants db realmID i"
  unfolding descendants_iff by (rule converse_rtrancl_into_rtrancl)

definition subtree_inv :: "sqlite_db \<Rightarrow> string \<Rightarrow> string \<Rightarrow> string list \<Rightarrow> nat \<Rightarrow> bool" where
  "subtree_inv db realmID root out i \<longleftrightarrow>
     root \<in> set out \<and> i \<le> length out \<and> distinct out \<and> set out \<subseteq> descendants db realmID root
   \<and> (\<forall>j < i. \<forall>x. (x, out ! j) \<in> parent_of db realmID \<longrightarrow> x \<in> set out)
   \<and> (\<forall>x \<in> set out. x \<noteq> root \<longrightarrow> (\<exists>j < i. (x, out ! j) \<in> parent_of db realmID))"

lemma subtree_step:
  assumes wf: "wf_groups db" and ac: "acyclic (parent_of db realmID)"
    and inv: "subtree_inv db realmID root out i" and i: "i < length out"
    and kids: "Group_ID ` set kids = {g. (g, out ! i) \<in> parent_of db realmID}" "distinct (map Group_ID kids)"
  shows "subtree_inv db realmID root (out @ map Group_ID kids) (i + 1)"
proof -
  have "out ! i \<in> descendants db realmID root"
    using inv nth_mem [OF i] unfolding subtree_inv_def by blast
  then have root: "(out ! i, root) \<in> (parent_of db realmID)\<^sup>*" by (simp add: descendants_iff)
  have new: "k \<notin> set out" if "(k, out ! i) \<in> parent_of db realmID" for k
  proof
    assume "k \<in> set out"
    show False
    proof (cases "k = root")
      case True
      with root that have "(root, root) \<in> (parent_of db realmID)\<^sup>+" by (meson rtrancl_into_trancl2)
      with ac show False by (simp add: acyclic_def)
    next
      case False
      then obtain j where "j < i" "(k, out ! j) \<in> parent_of db realmID"
        using inv \<open>k \<in> set out\<close> by (auto simp: subtree_inv_def)
      then have "out ! i = out ! j" using parent_unique [OF wf that] by simp
      moreover have "distinct out" "j < length out" using inv i \<open>j < i\<close> by (auto simp: subtree_inv_def)
      ultimately have "j = i" using i by (simp add: nth_eq_iff_index_eq)
      then show False using \<open>j < i\<close> by simp
    qed
  qed
  have nth: "(out @ map Group_ID kids) ! j = out ! j" if "j \<le> i" for j
    using that i by (simp add: nth_append)
  have "\<forall>x \<in> set (map Group_ID kids). (x, out ! i) \<in> parent_of db realmID" using kids(1) by auto
  moreover have "set (map Group_ID kids) \<subseteq> descendants db realmID root"
    using kids(1) root descendants_child [of "out ! i" db realmID root] by (auto simp: descendants_iff)
  moreover have "set out \<inter> set (map Group_ID kids) = {}" using new kids(1) by auto
  moreover have "x \<in> set out \<union> set (map Group_ID kids)"
    if "(x, out ! j) \<in> parent_of db realmID" "j < i + 1" for x j
    using that inv kids(1) by (cases "j = i") (auto simp: subtree_inv_def less_Suc_eq)
  ultimately show ?thesis
    using inv i kids(2) nth unfolding subtree_inv_def
    by (auto simp: less_Suc_eq_le) (metis le_less order_refl)+
qed

lemma subtree_loop_total:
  assumes wf: "wf_groups db" and f: "forest db realmID"
  shows "subtree_inv db realmID root out i \<Longrightarrow>
    \<exists>ids. groupRepo_subtree_loop db realmID out i = Some (Inr ids) \<and> distinct ids
       \<and> set ids = descendants db realmID root"
proof (induction "card (insert root (Domain (parent_of db realmID))) - i" arbitrary: out i
    rule: less_induct)
  case less
  have sub: "set out \<subseteq> insert root (Domain (parent_of db realmID))"
  proof
    fix x assume "x \<in> set out"
    then have "(x, root) \<in> (parent_of db realmID)\<^sup>*"
      using less.prems by (auto simp: subtree_inv_def descendants_iff)
    then show "x \<in> insert root (Domain (parent_of db realmID))" by (auto elim: converse_rtranclE)
  qed
  have fin: "finite (insert root (Domain (parent_of db realmID)))"
    by (simp add: finite_Domain finite_parent_of)
  show ?case
  proof (cases "i < length out")
    case True
    obtain kids where kids: "groupRepo_ListChildren db realmID (out ! i) = Inr kids"
        "Group_ID ` set kids = {g. (g, out ! i) \<in> parent_of db realmID}" "distinct (map Group_ID kids)"
      using ListChildren_ids [of db realmID "out ! i"] wf by metis
    have inv': "subtree_inv db realmID root (out @ map Group_ID kids) (i + 1)"
      using subtree_step [OF wf _ less.prems True kids(2, 3)] f by (simp add: forest_def)
    have "length out \<le> card (insert root (Domain (parent_of db realmID)))"
      using card_mono [OF fin sub] less.prems by (simp add: subtree_inv_def distinct_card)
    with True less.hyps [OF _ inv'] have "\<exists>ids. groupRepo_subtree_loop db realmID
        (out @ map Group_ID kids) (i + 1) = Some (Inr ids) \<and> distinct ids
        \<and> set ids = descendants db realmID root" by simp
    then show ?thesis using True kids(1) by (subst groupRepo_subtree_loop.simps) simp
  next
    case False
    then have all: "x \<in> set out" if "p \<in> set out" "(x, p) \<in> parent_of db realmID" for x p
      using that less.prems by (auto simp: subtree_inv_def in_set_conv_nth)
    have "x \<in> set out" if "(x, root) \<in> (parent_of db realmID)\<^sup>*" for x
      using that
    proof (induction rule: converse_rtrancl_induct)
      case base
      then show ?case using less.prems by (simp add: subtree_inv_def)
    qed (use all in blast)
    then have "set out = descendants db realmID root"
      using less.prems by (auto simp: subtree_inv_def descendants_iff)
    moreover have "groupRepo_subtree_loop db realmID out i = Some (Inr (rev out))"
      using False by (subst groupRepo_subtree_loop.simps) simp
    ultimately show ?thesis using less.prems by (simp add: subtree_inv_def)
  qed
qed

lemma subtree_total:
  assumes "wf_groups db" "forest db realmID"
  obtains ids where "groupRepo_subtree db realmID root = Some (Inr ids)" "distinct ids"
    "set ids = descendants db realmID root"
proof -
  have "subtree_inv db realmID root [root] 0" by (simp add: subtree_inv_def descendants_iff)
  from subtree_loop_total [OF assms this] show ?thesis
    using that unfolding groupRepo_subtree_def by blast
qed

text \<open>On a cycle the list grows forever: there is always an unread position on the cycle.\<close>

lemma subtree_returns_off_cycle:
  assumes "groupRepo_subtree_loop db realmID out i = Some r" "i \<le> j" "j < length out"
  shows "(out ! j, out ! j) \<notin> (parent_of db realmID)\<^sup>+"
proof -
  have "\<forall>j. i \<le> j \<and> j < length out \<longrightarrow> (out ! j, out ! j) \<notin> (parent_of db realmID)\<^sup>+"
    using assms(1)
  proof (rule groupRepo_subtree_loop.raw_induct [where P = "\<lambda>db realmID out i r.
        \<forall>j. i \<le> j \<and> j < length out \<longrightarrow> (out ! j, out ! j) \<notin> (parent_of db realmID)\<^sup>+", rotated])
    fix loop db realmID out i r
    assume IH: "\<And>db realmID out i r. loop db realmID out i = Some r \<Longrightarrow>
        \<forall>j. i \<le> j \<and> j < length out \<longrightarrow> (out ! j, out ! j) \<notin> (parent_of db realmID)\<^sup>+"
      and run: "(if i < length out
         then case groupRepo_ListChildren db realmID (out ! i) of Inl e \<Rightarrow> Some (Inl e)
              | Inr kids \<Rightarrow> loop db realmID (out @ map Group_ID kids) (i + 1)
         else Some (Inr (rev out))) = Some r"
    show "\<forall>j. i \<le> j \<and> j < length out \<longrightarrow> (out ! j, out ! j) \<notin> (parent_of db realmID)\<^sup>+"
    proof (intro allI impI, elim conjE, rule notI)
    fix j assume j: "i \<le> j" "j < length out" and cyc: "(out ! j, out ! j) \<in> (parent_of db realmID)\<^sup>+"
    obtain kids where kids: "groupRepo_ListChildren db realmID (out ! i) = Inr kids"
        "Group_ID ` set kids = {g. (g, out ! i) \<in> parent_of db realmID}"
      by (rule ListChildren_ids)
    have rec: "\<forall>j'. i + 1 \<le> j' \<and> j' < length (out @ map Group_ID kids) \<longrightarrow>
        ((out @ map Group_ID kids) ! j', (out @ map Group_ID kids) ! j') \<notin> (parent_of db realmID)\<^sup>+"
      using IH [of db realmID "out @ map Group_ID kids" "i + 1" r] run j kids(1) by simp
    show False
    proof (cases "j = i")
      case True
      obtain k where k: "(k, out ! i) \<in> parent_of db realmID" "(out ! i, k) \<in> (parent_of db realmID)\<^sup>*"
        using cyc True by (metis tranclD2)
      then have kk: "(k, k) \<in> (parent_of db realmID)\<^sup>+" by (rule rtrancl_into_trancl2)
      have "k \<in> set (map Group_ID kids)" using k(1) kids(2) by auto
      then obtain m where m: "m < length kids" "map Group_ID kids ! m = k" by (auto simp: in_set_conv_nth)
      then have "(out @ map Group_ID kids) ! (length out + m) = k" by simp
      then show False using rec [rule_format, of "length out + m"] kk m j True by simp
    next
      case False
      then show False using rec [rule_format, of j] j cyc by (simp add: nth_append)
    qed
    qed
  qed
  with assms(2, 3) show ?thesis by blast
qed

section \<open>Writes\<close>

lemma Move_parent_of:
  assumes "groupRepo_Move db realmID i p = Inr db'"
  shows "i \<in> realm_groups db realmID"
    "parent_of db' realmID = insert (i, p) {(x, y) \<in> parent_of db realmID. x \<noteq> i}"
    "map Group_ID (T_group db') = map Group_ID (T_group db)"
    "realm_groups db' realmID = realm_groups db realmID"
proof -
  let ?mine = "\<lambda>g. Group_RealmID g = realmID \<and> Group_ID g = i"
  let ?upd = "\<lambda>g. if ?mine g then g\<lparr>Group_ParentID := p\<rparr> else g"
  have hit: "filter ?mine (T_group db) \<noteq> []" and t: "T_group db' = map ?upd (T_group db)"
    using assms by (auto simp: groupRepo_Move_def Let_def affectedOne_Inr split: if_splits)
  show i: "i \<in> realm_groups db realmID" using hit by (auto simp: filter_empty_conv realm_groups_def)
  have iff: "(x, y) \<in> parent_of db' realmID \<longleftrightarrow> (x = i \<and> y = p) \<or> (x \<noteq> i \<and> (x, y) \<in> parent_of db realmID)" for x y
  proof -
    have "(x, y) \<in> parent_of db' realmID \<longleftrightarrow> (\<exists>g \<in> set (T_group db).
        Group_RealmID (?upd g) = realmID \<and> Group_ID (?upd g) = x \<and> Group_ParentID (?upd g) = y)"
      by (simp only: parent_of_iff t set_map bex_simps)
    also have "\<dots> \<longleftrightarrow> (\<exists>g \<in> set (T_group db). Group_RealmID g = realmID \<and> Group_ID g = x
        \<and> (if x = i then p else Group_ParentID g) = y)"
      by (rule bex_cong) auto
    also have "\<dots> \<longleftrightarrow> (x = i \<and> y = p) \<or> (x \<noteq> i \<and> (x, y) \<in> parent_of db realmID)"
      using i unfolding parent_of_iff realm_groups_def by auto
    finally show ?thesis .
  qed
  then show "parent_of db' realmID = insert (i, p) {(x, y) \<in> parent_of db realmID. x \<noteq> i}" by auto
  show "map Group_ID (T_group db') = map Group_ID (T_group db)" unfolding t by simp
  show "realm_groups db' realmID = realm_groups db realmID"
    using i unfolding realm_groups_Domain Domain_iff set_eq_iff iff by blast
qed

lemma descendants_after_move:
  assumes "groupRepo_Move db realmID i p = Inr db'" "p \<in> descendants db realmID i"
  shows "(i, i) \<in> (parent_of db' realmID)\<^sup>+"
proof -
  note t = Move_parent_of(2) [OF assms(1)]
  have "(x, i) \<in> (parent_of db' realmID)\<^sup>*" if "(x, i) \<in> (parent_of db realmID)\<^sup>*" for x
    using that
  proof (induction rule: converse_rtrancl_induct)
    case (step y z)
    then show ?case
      by (cases "y = i") (auto simp: t intro: converse_rtrancl_into_rtrancl)
  qed simp
  then have "(p, i) \<in> (parent_of db' realmID)\<^sup>*" using assms(2) by (simp add: descendants_iff)
  moreover have "(i, p) \<in> parent_of db' realmID" by (simp add: t)
  ultimately show ?thesis by (rule rtrancl_into_trancl2 [rotated])
qed

lemma Move_forest:
  assumes "wf_groups db" "forest db realmID" "groupRepo_Move db realmID i p = Inr db'"
    "p = [] \<or> p \<in> realm_groups db realmID" "p \<notin> descendants db realmID i"
  shows "forest db' realmID"
proof -
  note t = Move_parent_of [OF assms(3)]
  let ?R = "{(x, y) \<in> parent_of db realmID. x \<noteq> i}"
  have "acyclic ?R" using assms(2) by (auto simp: forest_def intro: acyclic_subset)
  moreover have "(p, i) \<notin> ?R\<^sup>*"
    using assms(5) rtrancl_mono [of ?R "parent_of db realmID"] by (auto simp: descendants_iff)
  ultimately have "acyclic (parent_of db' realmID)" unfolding t(2) by (simp add: acyclic_insert)
  moreover have "\<forall>(g, q) \<in> parent_of db' realmID. q \<noteq> [] \<longrightarrow> q \<in> realm_groups db' realmID"
    using assms(2, 4) unfolding t(2, 4) by (auto simp: forest_def)
  ultimately show ?thesis by (simp add: forest_def)
qed

text \<open>What \<^verbatim>\<open>Delete\<close> leaves when it removes a list of groups one by one.\<close>

lemma cascade_groups_cascade_groups:
  "cascade_groups p (cascade_groups q db) = cascade_groups (\<lambda>i. q i \<or> p i) db"
  by (simp add: cascade_groups_def case_prod_unfold conj_commute)

lemma realm_groups_cascade:
  "realm_groups (cascade_groups (\<lambda>i. P i) db) realmID = {i \<in> realm_groups db realmID. \<not> P i}"
  by (auto simp: realm_groups_def cascade_groups_def)

text \<open>The deletions of a subtree, one group after another, are one deletion of all of its groups.\<close>

lemma delete_rows:
  "foldl (\<lambda>db gid. cascade_groups
        (\<lambda>i. i = gid \<and> (\<exists>g \<in> set (T_group db). Group_ID g = i \<and> Group_RealmID g = realmID)) db) db ids
     = cascade_groups (\<lambda>i. i \<in> set ids \<and> i \<in> realm_groups db realmID) db"
proof (induction ids arbitrary: db)
  case Nil
  show ?case by (simp add: cascade_groups_def)
next
  case (Cons gid ids)
  have "(\<lambda>i. i = gid \<and> (\<exists>g \<in> set (T_group db). Group_ID g = i \<and> Group_RealmID g = realmID))
      = (\<lambda>i. i = gid \<and> i \<in> realm_groups db realmID)"
    by (auto simp: realm_groups_def fun_eq_iff)
  moreover have "(\<lambda>i. i = gid \<and> i \<in> realm_groups db realmID \<or> i \<in> set ids
        \<and> i \<in> realm_groups db realmID \<and> \<not> (i = gid \<and> i \<in> realm_groups db realmID))
      = (\<lambda>i. i \<in> set (gid # ids) \<and> i \<in> realm_groups db realmID)" by auto
  ultimately show ?case
    by (simp add: Cons.IH realm_groups_cascade cascade_groups_cascade_groups)
qed

lemma descendants_realm_groups:
  assumes "i \<in> realm_groups db realmID"
  shows "descendants db realmID i \<subseteq> realm_groups db realmID"
proof
  fix x assume "x \<in> descendants db realmID i"
  then have "(x, i) \<in> (parent_of db realmID)\<^sup>*" by (simp add: descendants_iff)
  then show "x \<in> realm_groups db realmID"
    by (cases rule: converse_rtranclE) (use assms in \<open>auto simp: realm_groups_Domain\<close>)
qed

lemma filtered_groups:
  assumes "T_group db' = filter (\<lambda>g. \<not> (Group_ID g \<in> D \<and> Group_RealmID g = realmID)) (T_group db)"
  shows "parent_of db' realmID = {(x, y) \<in> parent_of db realmID. x \<notin> D}"
    "realm_groups db' realmID = realm_groups db realmID - D"
  using assms by (auto simp: parent_of_def realm_groups_def)

section \<open>Properties\<close>

text \<open>
  While the parent links of a realm form a forest, the walk upwards returns for every group and
  answers its path: a chain that starts at a group with no parent, in which each group is the parent
  of the next, and that ends at the group asked for.
\<close>

theorem Ancestry_path:
  assumes "wf_groups db" "forest db realmID" "i \<in> realm_groups db realmID"
  shows "\<exists>chain. groupRepo_Ancestry db realmID i = Some (Inr chain)
     \<and> chain \<noteq> [] \<and> chain_from [] chain \<and> Group_ID (last chain) = i"
proof -
  have "i \<noteq> []" using assms(1, 3) by (auto simp: realm_groups_def wf_groups_def image_iff)
  then show ?thesis
    using Ancestry_loop_total [OF assms(1, 2), of i "[]"] assms(3)
    by (auto simp: groupRepo_Ancestry_def)
qed

lemma tree_db_parents:
  "parent_of tree_db ''m'' = {(''root'', []), (''a'', ''root''), (''b'', ''a'')}"
  "realm_groups tree_db ''m'' = {''root'', ''a'', ''b''}"
proof -
  have p: "parent_of db r = set (map (\<lambda>g. (Group_ID g, Group_ParentID g))
      (filter (\<lambda>g. Group_RealmID g = r) (T_group db)))" for db r
    by (auto simp: parent_of_def)
  show "parent_of tree_db ''m'' = {(''root'', []), (''a'', ''root''), (''b'', ''a'')}"
    by (simp add: p tree_db_def sample_group_def)
  then show "realm_groups tree_db ''m'' = {''root'', ''a'', ''b''}"
    by (simp add: realm_groups_Domain)
qed

lemma tree_db_forest: "wf_groups tree_db" "forest tree_db ''m''"
proof -
  show "wf_groups tree_db" by (simp add: wf_groups_def tree_db_def sample_group_def)
  have "acyclic (parent_of tree_db ''m'')"
    unfolding tree_db_parents
    by (rule acyclicI_order [where f = "\<lambda>x. if x = [] then 0 else if x = ''root'' then 1
        else if x = ''a'' then (2 :: nat) else 3"]) auto
  then show "forest tree_db ''m''" by (auto simp: forest_def tree_db_parents)
qed

text \<open>
  C35. Deleting a group of a forest returns and removes exactly its subtree, with everything that refers
  to it: the rows of the group and of its descendants go, and with them exactly the attributes, the
  memberships, the role mappings and the default-group entries of these groups, and nothing else in the
  database changes. What remains of the realm is every group that is not the group or one of its
  descendants, the groups of other realms are untouched, and the remaining links still form a forest.
\<close>

theorem groupRepo_Delete_subtree:
  assumes "wf_groups db" "forest db realmID" "i \<in> realm_groups db realmID"
  shows "\<exists>db'. groupRepo_Delete db realmID i = Some (Inr db')
     \<and> db' = db\<lparr>T_group := [g \<leftarrow> T_group db. Group_ID g \<notin> descendants db realmID i],
         T_group_attribute := [a \<leftarrow> T_group_attribute db. fst a \<notin> descendants db realmID i],
         T_membership := [m \<leftarrow> T_membership db. fst m \<notin> descendants db realmID i],
         T_group_role := [m \<leftarrow> T_group_role db. fst m \<notin> descendants db realmID i],
         T_default_group := [d \<leftarrow> T_default_group db. snd d \<notin> descendants db realmID i]\<rparr>
     \<and> realm_groups db' realmID = realm_groups db realmID - descendants db realmID i
     \<and> filter (\<lambda>g. Group_RealmID g \<noteq> realmID) (T_group db') = filter (\<lambda>g. Group_RealmID g \<noteq> realmID) (T_group db)
     \<and> forest db' realmID"
proof -
  let ?D = "descendants db realmID i"
  obtain g where g: "groupRepo_ByID db realmID i = Inr g" by (rule groupRepo_ByID_present [OF assms(3)])
  obtain ids where ids: "groupRepo_subtree db realmID i = Some (Inr ids)"
      "set ids = ?D" using subtree_total [OF assms(1, 2)] by metis
  define db' where "db' = cascade_groups (\<lambda>i. i \<in> ?D) db"
  have "(\<lambda>i. i \<in> set ids \<and> i \<in> realm_groups db realmID) = (\<lambda>i. i \<in> ?D)"
    using descendants_realm_groups [OF assms(3)] ids(2) by auto
  then have run: "groupRepo_Delete db realmID i = Some (Inr db')"
    using g ids(1) by (simp add: groupRepo_Delete_def db'_def delete_rows)
  have rows: "db' = db\<lparr>T_group := [g \<leftarrow> T_group db. Group_ID g \<notin> ?D],
         T_group_attribute := [a \<leftarrow> T_group_attribute db. fst a \<notin> ?D],
         T_membership := [m \<leftarrow> T_membership db. fst m \<notin> ?D],
         T_group_role := [m \<leftarrow> T_group_role db. fst m \<notin> ?D],
         T_default_group := [d \<leftarrow> T_default_group db. snd d \<notin> ?D]\<rparr>"
    by (simp add: db'_def cascade_groups_def case_prod_unfold)
  have "Group_ID g \<in> ?D \<longleftrightarrow> Group_ID g \<in> ?D \<and> Group_RealmID g = realmID" if "g \<in> set (T_group db)" for g
  proof -
    have "inj_on Group_ID (set (T_group db))" using assms(1) by (simp add: wf_groups_def distinct_map)
    moreover have "Group_ID g \<in> realm_groups db realmID" if "Group_ID g \<in> ?D"
      using that descendants_realm_groups [OF assms(3)] by blast
    ultimately show ?thesis using \<open>g \<in> set (T_group db)\<close> by (auto simp: realm_groups_def dest: inj_onD)
  qed
  then have t: "T_group db' = filter (\<lambda>g. \<not> (Group_ID g \<in> ?D \<and> Group_RealmID g = realmID)) (T_group db)"
    unfolding db'_def cascade_groups_def by (simp cong: filter_cong)
  note f = filtered_groups [OF t]
  have "acyclic (parent_of db' realmID)"
    unfolding f(1) using assms(2) by (auto simp: forest_def intro: acyclic_subset)
  moreover have "q \<in> realm_groups db' realmID" if "(x, q) \<in> parent_of db' realmID" "q \<noteq> []" for x q
    using that assms(2) descendants_child [of q db realmID i x] unfolding f by (auto simp: forest_def)
  ultimately have "forest db' realmID" by (auto simp: forest_def)
  moreover have "filter (\<lambda>g. Group_RealmID g \<noteq> realmID) (T_group db')
      = filter (\<lambda>g. Group_RealmID g \<noteq> realmID) (T_group db)"
    unfolding t filter_filter by (rule filter_cong) auto
  ultimately show ?thesis using run rows f(2) by blast
qed

lemma member_tree:
  "wf_groups (tree_db\<lparr>T_membership := ms\<rparr>)" "forest (tree_db\<lparr>T_membership := ms\<rparr>) ''m''"
  "realm_groups (tree_db\<lparr>T_membership := ms\<rparr>) ''m'' = {''root'', ''a'', ''b''}"
  "descendants (tree_db\<lparr>T_membership := ms\<rparr>) ''m'' ''a'' = {''a'', ''b''}"
proof -
  have eq: "parent_of (tree_db\<lparr>T_membership := ms\<rparr>) ''m'' = parent_of tree_db ''m''" by (simp add: parent_of_def)
  show "wf_groups (tree_db\<lparr>T_membership := ms\<rparr>)" using tree_db_forest(1) by (simp add: wf_groups_def)
  show "realm_groups (tree_db\<lparr>T_membership := ms\<rparr>) ''m'' = {''root'', ''a'', ''b''}"
    unfolding realm_groups_Domain eq by (simp add: tree_db_parents)
  then show "forest (tree_db\<lparr>T_membership := ms\<rparr>) ''m''"
    using tree_db_forest(2) unfolding forest_def eq by (simp add: tree_db_parents)
  have "x \<in> {''a'', ''b''}" if "(x, ''a'') \<in> (parent_of tree_db ''m'')\<^sup>*" for x
    using that by (induction rule: converse_rtrancl_induct) (auto simp: tree_db_parents)
  moreover have "(''b'', ''a'') \<in> (parent_of tree_db ''m'')\<^sup>*"
    by (rule r_into_rtrancl) (simp add: tree_db_parents)
  ultimately show "descendants (tree_db\<lparr>T_membership := ms\<rparr>) ''m'' ''a'' = {''a'', ''b''}"
    unfolding set_eq_iff descendants_iff eq by blast
qed

theorem groupRepo_Delete_subtree_witness:
  "\<exists>db'. groupRepo_Delete (tree_db\<lparr>T_membership := [(''b'', ''u''), (''root'', ''u'')]\<rparr>) ''m'' ''a'' = Some (Inr db')
     \<and> realm_groups db' ''m'' = {''root''} \<and> T_membership db' = [(''root'', ''u'')] \<and> forest db' ''m''"
proof -
  let ?db = "tree_db\<lparr>T_membership := [(''b'', ''u''), (''root'', ''u'')]\<rparr>"
  have "''a'' \<in> realm_groups ?db ''m''" unfolding member_tree by simp
  then show ?thesis
    using groupRepo_Delete_subtree [OF member_tree(1, 2), of "''a''" "[(''b'', ''u''), (''root'', ''u'')]"]
    unfolding member_tree by auto
qed

text \<open>
  C36. Reparenting keeps a forest exactly when the new parent is not inside the moved subtree: after
  a successful move to an existing group (or to the top level) the links form a forest if and only
  if the new parent is neither the group nor one of its descendants.
\<close>

theorem groupRepo_Move_forest_iff:
  assumes "wf_groups db" "forest db realmID" "groupRepo_Move db realmID i p = Inr db'"
    "p = [] \<or> p \<in> realm_groups db realmID"
  shows "forest db' realmID \<longleftrightarrow> p \<notin> descendants db realmID i"
  using Move_forest [OF assms] descendants_after_move [OF assms(3)]
  by (auto simp: forest_def acyclic_def)

theorem groupRepo_Move_forest_iff_witness:
  "\<exists>db'. groupRepo_Move tree_db ''m'' ''b'' ''root'' = Inr db' \<and> forest db' ''m''"
proof -
  obtain db' where m: "groupRepo_Move tree_db ''m'' ''b'' ''root'' = Inr db'"
    by (simp add: groupRepo_Move_def affectedOne_def sibling_taken_def tree_db_def sample_group_def)
  have "x \<in> {''root'', []}" if "(''root'', x) \<in> (parent_of tree_db ''m'')\<^sup>*" for x
    using that by (induction rule: rtrancl_induct) (auto simp: tree_db_parents)
  from this [of "''b''"] have "''root'' \<notin> descendants tree_db ''m'' ''b''"
    by (auto simp: descendants_iff)
  then show ?thesis
    using groupRepo_Move_forest_iff [OF tree_db_forest m] m by (simp add: tree_db_parents)
qed

text \<open>
  C37. The handler that moves an organization's group does not look at where the new parent lies:
  asked to move a group under itself or under one of its descendants it answers 204, and from then
  on neither the path of the group nor its deletion ever returns.
\<close>

theorem moveOrganizationGroup_cycle:
  assumes "wf_groups db" "groupRepo_ByID db realmID i = Inr g"
    "Group_OrganizationID g = orgID" "orgID \<noteq> []"
    "\<not> sibling_taken db realmID (Group_ID parent) (Group_Name g) i"
    "Group_ID parent \<in> descendants db realmID i"
  shows "\<exists>db'. moveOrganizationGroup db realmID orgID parent i child = ((204, []), db')
     \<and> groupRepo_Ancestry db' realmID i = None \<and> groupRepo_Delete db' realmID i = None"
proof -
  obtain g0 where g0: "g0 \<in> set (T_group db)" "Group_RealmID g0 = realmID" "Group_ID g0 = i"
      "g = g0\<lparr>Group_Attributes := group_attributes db i\<rparr>"
    by (rule groupRepo_ByID_Inr [OF assms(2)])
  let ?mine = "\<lambda>g. Group_RealmID g = realmID \<and> Group_ID g = i"
  have inj: "inj_on Group_ID (set (T_group db))" using assms(1) by (simp add: wf_groups_def distinct_map)
  then have "x = g0" if "x \<in> set (T_group db)" "?mine x" for x
    using that g0 by (auto simp: inj_on_def)
  then have "\<not> (\<exists>x \<in> set (T_group db). ?mine x \<and> sibling_taken db realmID (Group_ID parent) (Group_Name x) i)"
    using assms(5) g0(4) by auto
  moreover have "filter ?mine (T_group db) \<noteq> []" using g0 by (auto simp: filter_empty_conv)
  ultimately obtain db' where m: "groupRepo_Move db realmID i (Group_ID parent) = Inr db'"
    by (simp add: groupRepo_Move_def Let_def affectedOne_def)
  have "Group_ID g = i" using g0 by simp
  then have h: "moveOrganizationGroup db realmID orgID parent i child = ((204, []), db')"
    using assms(2-4) m by (simp add: moveOrganizationGroup_def)
  have cyc: "(i, i) \<in> (parent_of db' realmID)\<^sup>+" using descendants_after_move [OF m assms(6)] .
  have wf': "wf_groups db'"
    using assms(1) Move_parent_of(3) [OF m] unfolding wf_groups_def by (metis list.set_map)
  have "groupRepo_Ancestry db' realmID i = None"
    using Ancestry_returns_off_cycle [OF _ wf'] cyc unfolding groupRepo_Ancestry_def
    by (metis not_None_eq)
  moreover have "groupRepo_subtree db' realmID i = None"
  proof (rule ccontr)
    assume "groupRepo_subtree db' realmID i \<noteq> None"
    then obtain r where "groupRepo_subtree_loop db' realmID [i] 0 = Some r"
      by (auto simp: groupRepo_subtree_def)
    from subtree_returns_off_cycle [OF this, of 0] cyc show False by simp
  qed
  moreover have "i \<in> realm_groups db' realmID" using Move_parent_of(1, 4) [OF m] by simp
  then obtain g' where "groupRepo_ByID db' realmID i = Inr g'" by (rule groupRepo_ByID_present)
  ultimately show ?thesis using h by (simp add: groupRepo_Delete_def)
qed

theorem moveOrganizationGroup_cycle_witness:
  "\<exists>db'. moveOrganizationGroup tree_db ''m'' ''o'' (sample_group ''b'' ''a'') ''a'' True = ((204, []), db')
     \<and> groupRepo_Ancestry db' ''m'' ''a'' = None \<and> groupRepo_Delete db' ''m'' ''a'' = None"
proof -
  have "(''b'', ''a'') \<in> (parent_of tree_db ''m'')\<^sup>*"
    by (rule r_into_rtrancl) (simp add: tree_db_parents)
  then have "Group_ID (sample_group ''b'' ''a'') \<in> descendants tree_db ''m'' ''a''"
    by (simp add: descendants_iff sample_group_def)
  moreover have "groupRepo_ByID tree_db ''m'' ''a'' = Inr (sample_group ''a'' ''root'')"
    by (simp add: groupRepo_ByID_def first_row_def loadGroupAttributes_def group_attributes_def
        tree_db_def empty_db_def sample_group_def)
  ultimately show ?thesis
    by (intro moveOrganizationGroup_cycle [OF tree_db_forest(1)])
      (auto simp: sibling_taken_def tree_db_def sample_group_def)
qed

end
