(* ===== verification/AuthStore.thy ===== *)
theory AuthStore
  imports Model
begin

text \<open>
  \<^verbatim>\<open>internal/oidc/authsession.go\<close>: the in-memory store of login sessions, restart records,
  authorization codes and consents. Sessions and tabs are Go pointers that handlers keep while the
  store changes, so they live in a heap at addresses; restart records and codes are not written
  after they are stored and are plain values. Every operation runs under the store's mutex, so it is
  one atomic step; \<^verbatim>\<open>s.now()\<close> is the argument \<open>now\<close>, and the random bytes come from an entropy supply
  whose exhaustion is the error branch \<^const>\<open>None\<close>.
\<close>

section \<open>Data\<close>

record auth_tab =
  Tab_TabID :: string
  Tab_SessionCode :: string
  Tab_ClientID :: string
  Tab_ClientUUID :: string
  Tab_RedirectURI :: string
  Tab_ResponseMode :: string
  Tab_State :: string
  Tab_HasState :: bool
  Tab_Scope :: string
  Tab_Nonce :: string
  Tab_CodeChallenge :: string
  Tab_CodeChallengeMethod :: string
  Tab_Username :: string
  Tab_Prompt :: string
  Tab_UserID :: string
  Tab_DeviceUserCode :: string
  Tab_SAMLBinding :: string
  Tab_SAMLRequestID :: string

record auth_session =
  Sess_RootID :: string
  Sess_Realm :: string
  Sess_Secret :: string
  Sess_Hash :: string
  Sess_Tabs :: "string \<rightharpoonup> nat"
  Sess_ExpiresAt :: time

record restart_record =
  Rst_Realm :: string
  Rst_ClientID :: string
  Rst_RedirectURI :: string
  Rst_State :: string
  Rst_HasState :: bool
  Rst_ResponseMode :: string
  Rst_Scope :: string
  Rst_Nonce :: string
  Rst_CodeChallenge :: string
  Rst_CodeChallengeMethod :: string
  Rst_DeviceUserCode :: string
  Rst_SAMLBinding :: string
  Rst_SAMLRequestID :: string
  Rst_ExpiresAt :: time

record auth_code =
  Code_Code :: string
  Code_Realm :: string
  Code_ClientUUID :: string
  Code_RedirectURI :: string
  Code_UserID :: string
  Code_SessionID :: string
  Code_Scope :: string
  Code_Nonce :: string
  Code_CodeChallenge :: string
  Code_CodeChallengeMethod :: string
  Code_ExpiresAt :: time

record auth_store =
  AS_sessions :: "string \<rightharpoonup> nat"
  AS_session_heap :: "nat \<Rightarrow> auth_session option"
  AS_tab_heap :: "nat \<Rightarrow> auth_tab option"
  AS_next :: nat
  AS_restarts :: "string \<rightharpoonup> restart_record"
  AS_codes :: "string \<rightharpoonup> auth_code"

definition newAuthStore :: auth_store where
  "newAuthStore = \<lparr>AS_sessions = Map.empty, AS_session_heap = (\<lambda>_. None), AS_tab_heap = (\<lambda>_. None),
     AS_next = 0, AS_restarts = Map.empty, AS_codes = Map.empty\<rparr>"

definition rootIDBytes :: nat where "rootIDBytes = 18"
definition tabIDBytes :: nat where "tabIDBytes = 8"
definition sessionCodeBytes :: nat where "sessionCodeBytes = 32"
definition cookieSecretBytes :: nat where "cookieSecretBytes = 64"

definition authSessionLifespan :: duration where
  "authSessionLifespan = 30 * 60 * second"

definition authCodeLifespan :: duration where
  "authCodeLifespan = 60 * second"

definition realmCookiePath :: "string \<Rightarrow> string" where
  "realmCookiePath realm = ''/realms/'' @ realm @ ''/''"

section \<open>Operations\<close>

definition randomBase64URL :: "nat \<Rightarrow> entropy \<Rightarrow> (string \<times> entropy) option" where
  "randomBase64URL n e =
    (case rand_read n e of None \<Rightarrow> None | Some (buf, e') \<Rightarrow> Some (b64_encode buf, e'))"

definition uuidShaped :: "entropy \<Rightarrow> (string \<times> entropy) option" where
  "uuidShaped e =
    (case rand_read 16 e of
       None \<Rightarrow> None
     | Some (b, e') \<Rightarrow>
         Some (hex_encode (take 4 b) @ ''-'' @ hex_encode (take 2 (drop 4 b)) @ ''-''
           @ hex_encode (take 2 (drop 6 b)) @ ''-'' @ hex_encode (take 2 (drop 8 b)) @ ''-''
           @ hex_encode (take 6 (drop 10 b)), e'))"

definition encodeAuthSessionID :: "string \<Rightarrow> string \<Rightarrow> string" where
  "encodeAuthSessionID rootID secret = b64_encode (string_bytes (rootID @ ''.'' @ secret))"

definition decodeAuthSessionID :: "string \<Rightarrow> (string \<times> string) option" where
  "decodeAuthSessionID cookie =
    (case b64_decode cookie of
       None \<Rightarrow> None
     | Some raw \<Rightarrow>
         (case cut (CHR ''.'') (bytes_string raw) of
            (rootID, secret, found) \<Rightarrow>
              if \<not> found \<or> rootID = [] \<or> secret = [] then None else Some (rootID, secret)))"

definition keycloakSessionValue :: "string \<Rightarrow> string" where
  "keycloakSessionValue hash =
    map (\<lambda>c. if c = CHR ''+'' then CHR ''-'' else if c = CHR ''/'' then CHR ''_'' else c) hash"

definition auth_sweepLocked :: "auth_store \<Rightarrow> time \<Rightarrow> auth_store" where
  "auth_sweepLocked s now = s
     \<lparr>AS_sessions := (\<lambda>i. case AS_sessions s i of
          None \<Rightarrow> None
        | Some a \<Rightarrow> (case AS_session_heap s a of
                       Some sess \<Rightarrow> if now > Sess_ExpiresAt sess then None else Some a
                     | None \<Rightarrow> Some a)),
      AS_restarts := (\<lambda>i. case AS_restarts s i of
          None \<Rightarrow> None | Some rec \<Rightarrow> if now > Rst_ExpiresAt rec then None else Some rec),
      AS_codes := (\<lambda>i. case AS_codes s i of
          None \<Rightarrow> None | Some c \<Rightarrow> if now > Code_ExpiresAt c then None else Some c)\<rparr>"

text \<open>Allocating a tab, \<^verbatim>\<open>&authTab{...}\<close>.\<close>

definition alloc_tab :: "auth_store \<Rightarrow> auth_tab \<Rightarrow> nat \<times> auth_store" where
  "alloc_tab s t = (AS_next s,
     s\<lparr>AS_tab_heap := (AS_tab_heap s)(AS_next s \<mapsto> t), AS_next := AS_next s + 1\<rparr>)"

definition tab_at :: "auth_store \<Rightarrow> nat \<Rightarrow> auth_tab" where
  "tab_at s a = the (AS_tab_heap s a)"

definition session_at :: "auth_store \<Rightarrow> nat \<Rightarrow> auth_session" where
  "session_at s a = the (AS_session_heap s a)"

definition newAuthSession ::
  "auth_store \<Rightarrow> time \<Rightarrow> entropy \<Rightarrow> string \<Rightarrow> string \<Rightarrow> string \<Rightarrow> nat \<Rightarrow> ((nat \<times> auth_store) \<times> entropy) option" where
  "newAuthSession s now e realm rootID hash tab =
    (case randomBase64URL cookieSecretBytes e of
       None \<Rightarrow> None
     | Some (secret, e') \<Rightarrow>
         (let sess = \<lparr>Sess_RootID = rootID, Sess_Realm = realm, Sess_Secret = secret, Sess_Hash = hash,
                      Sess_Tabs = [Tab_TabID (tab_at s tab) \<mapsto> tab],
                      Sess_ExpiresAt = now + authSessionLifespan\<rparr>;
              s = auth_sweepLocked s now;
              a = AS_next s
          in Some ((a, s\<lparr>AS_session_heap := (AS_session_heap s)(a \<mapsto> sess), AS_next := a + 1,
                         AS_sessions := (AS_sessions s)(rootID \<mapsto> a)\<rparr>), e')))"

definition addTab :: "auth_store \<Rightarrow> time \<Rightarrow> nat \<Rightarrow> nat \<Rightarrow> auth_store" where
  "addTab s now sess tab =
    (case AS_sessions s (Sess_RootID (session_at s sess)) of
       None \<Rightarrow> s
     | Some live \<Rightarrow>
         (let l = session_at s live
          in s\<lparr>AS_session_heap := (AS_session_heap s)(live \<mapsto>
               l\<lparr>Sess_Tabs := (Sess_Tabs l)(Tab_TabID (tab_at s tab) \<mapsto> tab),
                 Sess_ExpiresAt := now + authSessionLifespan\<rparr>)\<rparr>))"

definition sessionByCookie :: "auth_store \<Rightarrow> time \<Rightarrow> string \<Rightarrow> string \<Rightarrow> nat option \<times> auth_store" where
  "sessionByCookie s now realm cookie =
    (case decodeAuthSessionID cookie of
       None \<Rightarrow> (None, s)
     | Some (rootID, secret) \<Rightarrow>
         (case AS_sessions s rootID of
            None \<Rightarrow> (None, s)
          | Some a \<Rightarrow>
              (let sess = session_at s a
               in if Sess_Realm sess \<noteq> realm \<or> Sess_Secret sess \<noteq> secret then (None, s)
                  else if now > Sess_ExpiresAt sess
                  then (None, s\<lparr>AS_sessions := (AS_sessions s)(rootID := None)\<rparr>)
                  else (Some a, s))))"

definition tabByID :: "auth_store \<Rightarrow> time \<Rightarrow> nat \<Rightarrow> string \<Rightarrow> nat option" where
  "tabByID s now sess tabID =
    (case AS_sessions s (Sess_RootID (session_at s sess)) of
       None \<Rightarrow> None
     | Some live \<Rightarrow>
         if now > Sess_ExpiresAt (session_at s live) then None
         else Sess_Tabs (session_at s live) tabID)"

definition tabByCode :: "auth_store \<Rightarrow> time \<Rightarrow> nat \<Rightarrow> string \<Rightarrow> string \<Rightarrow> nat option" where
  "tabByCode s now sess tabID sessionCode =
    (case AS_sessions s (Sess_RootID (session_at s sess)) of
       None \<Rightarrow> None
     | Some live \<Rightarrow>
         if now > Sess_ExpiresAt (session_at s live) then None
         else (case Sess_Tabs (session_at s live) tabID of
                 None \<Rightarrow> None
               | Some tab \<Rightarrow>
                   if Tab_SessionCode (tab_at s tab) = [] \<or> Tab_SessionCode (tab_at s tab) \<noteq> sessionCode
                   then None else Some tab))"

definition rotateSessionCode ::
  "auth_store \<Rightarrow> time \<Rightarrow> entropy \<Rightarrow> nat \<Rightarrow> nat \<Rightarrow> string \<Rightarrow> ((string \<times> auth_store) \<times> entropy) option" where
  "rotateSessionCode s now e sess tab username =
    (case randomBase64URL sessionCodeBytes e of
       None \<Rightarrow> None
     | Some (code, e') \<Rightarrow>
         (let s = s\<lparr>AS_tab_heap := (AS_tab_heap s)(tab \<mapsto>
                  (tab_at s tab)\<lparr>Tab_SessionCode := code, Tab_Username := username\<rparr>)\<rparr>;
              s = (case AS_sessions s (Sess_RootID (session_at s sess)) of
                     None \<Rightarrow> s
                   | Some live \<Rightarrow> s\<lparr>AS_session_heap := (AS_session_heap s)(live \<mapsto>
                       (session_at s live)\<lparr>Sess_ExpiresAt := now + authSessionLifespan\<rparr>)\<rparr>)
          in Some ((code, s), e')))"

definition endSession :: "auth_store \<Rightarrow> string \<Rightarrow> auth_store" where
  "endSession s rootID = s\<lparr>AS_sessions := (AS_sessions s)(rootID := None)\<rparr>"

definition newRestart ::
  "auth_store \<Rightarrow> time \<Rightarrow> entropy \<Rightarrow> restart_record \<Rightarrow> ((string \<times> auth_store) \<times> entropy) option" where
  "newRestart s now e rec =
    (case randomBase64URL cookieSecretBytes e of
       None \<Rightarrow> None
     | Some (i, e') \<Rightarrow>
         (let rec = rec\<lparr>Rst_ExpiresAt := now + authSessionLifespan\<rparr>;
              s = auth_sweepLocked s now
          in Some ((i, s\<lparr>AS_restarts := (AS_restarts s)(i \<mapsto> rec)\<rparr>), e')))"

definition restartByCookie :: "auth_store \<Rightarrow> time \<Rightarrow> string \<Rightarrow> string \<Rightarrow> restart_record option" where
  "restartByCookie s now realm cookie =
    (if cookie = [] then None
     else (case AS_restarts s cookie of
             None \<Rightarrow> None
           | Some rec \<Rightarrow>
               if Rst_Realm rec \<noteq> realm \<or> now > Rst_ExpiresAt rec then None else Some rec))"

definition newCode ::
  "auth_store \<Rightarrow> time \<Rightarrow> entropy \<Rightarrow> auth_code \<Rightarrow> ((string \<times> auth_store) \<times> entropy) option" where
  "newCode s now e c =
    (case uuidShaped e of
       None \<Rightarrow> None
     | Some (part1, e') \<Rightarrow>
         (let code = part1 @ ''.'' @ Code_SessionID c @ ''.'' @ Code_ClientUUID c;
              c = c\<lparr>Code_Code := code, Code_ExpiresAt := now + authCodeLifespan\<rparr>;
              s = auth_sweepLocked s now
          in Some ((code, s\<lparr>AS_codes := (AS_codes s)(code \<mapsto> c)\<rparr>), e')))"

definition spendCode :: "auth_store \<Rightarrow> time \<Rightarrow> string \<Rightarrow> string \<Rightarrow> auth_code option \<times> auth_store" where
  "spendCode s now realm code =
    (case AS_codes s code of
       None \<Rightarrow> (None, s)
     | Some c \<Rightarrow>
         (let s = s\<lparr>AS_codes := (AS_codes s)(code := None)\<rparr>
          in if Code_Realm c \<noteq> realm \<or> now > Code_ExpiresAt c then (None, s) else (Some c, s)))"

section \<open>Consents\<close>

type_synonym consent_store = "string \<Rightarrow> bool"

definition newConsentStore :: consent_store where
  "newConsentStore = (\<lambda>_. False)"

definition consentKey :: "string \<Rightarrow> string \<Rightarrow> string \<Rightarrow> string" where
  "consentKey realmID userID clientUUID = realmID @ [CHR 0x00] @ userID @ [CHR 0x00] @ clientUUID"

definition consent_granted :: "consent_store \<Rightarrow> string \<Rightarrow> string \<Rightarrow> string \<Rightarrow> bool" where
  "consent_granted s realmID userID clientUUID = s (consentKey realmID userID clientUUID)"

definition consent_grant :: "consent_store \<Rightarrow> string \<Rightarrow> string \<Rightarrow> string \<Rightarrow> consent_store" where
  "consent_grant s realmID userID clientUUID = s(consentKey realmID userID clientUUID := True)"

section \<open>The store as a state machine\<close>

text \<open>
  One step is one locked operation; the clock may move forward between steps. The label records what
  the step did to codes and when: which one it issued and for which realm, which one it handed out,
  and which attempt to spend one it refused.
\<close>

datatype code_event =
  Issued time string string | Spent time string string | Refused time string string | Quiet

fun event_code :: "code_event \<Rightarrow> string option" where
  "event_code (Issued t r c) = Some c"
| "event_code (Spent t r c) = Some c"
| "event_code (Refused t r c) = Some c"
| "event_code Quiet = None"

inductive auth_step :: "auth_store \<times> time \<Rightarrow> code_event \<Rightarrow> auth_store \<times> time \<Rightarrow> bool" where
  tick: "t \<le> t' \<Longrightarrow> auth_step (s, t) Quiet (s, t')"
| new_session: "newAuthSession s t e realm root hash tab = Some ((a, s'), e') \<Longrightarrow> auth_step (s, t) Quiet (s', t)"
| make_tab: "alloc_tab s x = (a, s') \<Longrightarrow> auth_step (s, t) Quiet (s', t)"
| add_tab: "auth_step (s, t) Quiet (addTab s t sess tab, t)"
| by_cookie: "sessionByCookie s t realm cookie = (r, s') \<Longrightarrow> auth_step (s, t) Quiet (s', t)"
| rotate: "rotateSessionCode s t e sess tab username = Some ((code, s'), e') \<Longrightarrow> auth_step (s, t) Quiet (s', t)"
| end_session: "auth_step (s, t) Quiet (endSession s root, t)"
| new_restart: "newRestart s t e rec = Some ((i, s'), e') \<Longrightarrow> auth_step (s, t) Quiet (s', t)"
| new_code: "newCode s t e c = Some ((code, s'), e') \<Longrightarrow> auth_step (s, t) (Issued t (Code_Realm c) code) (s', t)"
| spend_ok: "spendCode s t realm code = (Some c, s') \<Longrightarrow> auth_step (s, t) (Spent t realm code) (s', t)"
| spend_no: "spendCode s t realm code = (None, s') \<Longrightarrow> auth_step (s, t) (Refused t realm code) (s', t)"

inductive auth_run :: "code_event list \<Rightarrow> auth_store \<times> time \<Rightarrow> bool" where
  start: "auth_run [] (newAuthStore, t)"
| step: "auth_run es st \<Longrightarrow> auth_step st ev st' \<Longrightarrow> auth_run (es @ [ev]) st'"

inductive_simps auth_step_issued: "auth_step (s, t) (Issued u r c) (s', t')"
inductive_simps auth_step_spent: "auth_step (s, t) (Spent u r c) (s', t')"
inductive_simps auth_step_refused: "auth_step (s, t) (Refused u r c) (s', t')"
inductive_cases auth_run_snoc: "auth_run (es @ [ev]) st'"

section \<open>Authorization codes: single use is single attempt\<close>

text \<open>
  No step but \<^const>\<open>newCode\<close> adds a code, so a stored code can be traced back to the step that issued
  it. \<open>issued_since es t r c\<close> says that the last event of \<open>es\<close> about the code \<open>c\<close> issued it.
\<close>

definition sample_code :: auth_code where
  "sample_code = \<lparr>Code_Code = '''', Code_Realm = ''demo'', Code_ClientUUID = ''app'',
     Code_RedirectURI = ''https://app/cb'', Code_UserID = ''u1'', Code_SessionID = ''s1'',
     Code_Scope = ''openid'', Code_Nonce = '''', Code_CodeChallenge = '''',
     Code_CodeChallengeMethod = '''', Code_ExpiresAt = 0\<rparr>"

definition sample_code_string :: string where
  "sample_code_string = ''00000000-0000-0000-0000-000000000000.s1.app''"

definition issued_since :: "code_event list \<Rightarrow> time \<Rightarrow> string \<Rightarrow> string \<Rightarrow> bool" where
  "issued_since es t r c \<longleftrightarrow>
    (\<exists>before after. es = before @ [Issued t r c] @ after \<and> Some c \<notin> event_code ` set after)"

lemma issued_since_snoc:
  "issued_since es t r c \<Longrightarrow> event_code ev \<noteq> Some c \<Longrightarrow> issued_since (es @ [ev]) t r c"
  unfolding issued_since_def
proof (elim exE conjE)
  fix b a
  assume "es = b @ [Issued t r c] @ a" "Some c \<notin> event_code ` set a" "event_code ev \<noteq> Some c"
  then have "es @ [ev] = b @ [Issued t r c] @ (a @ [ev]) \<and> Some c \<notin> event_code ` set (a @ [ev])"
    by auto
  then show "\<exists>b a. es @ [ev] = b @ [Issued t r c] @ a \<and> Some c \<notin> event_code ` set a"
    by blast
qed

lemma issued_since_last: "issued_since (es @ [Issued t r c]) t r c"
  unfolding issued_since_def by (rule exI [of _ es], rule exI [of _ "[]"]) simp

lemma sweep_codes_le: "AS_codes (auth_sweepLocked s now) c = Some x \<Longrightarrow> AS_codes s c = Some x"
  by (auto simp: auth_sweepLocked_def split: option.splits if_splits)

lemma quiet_step_codes:
  assumes "auth_step (s, t) Quiet (s', t')" "AS_codes s' c = Some x"
  shows "AS_codes s c = Some x"
  using assms(1)
proof (cases rule: auth_step.cases)
  case tick with assms(2) show ?thesis by simp
next
  case new_session with assms(2) show ?thesis
    by (auto simp: newAuthSession_def Let_def split: option.splits intro: sweep_codes_le)
next
  case make_tab with assms(2) show ?thesis by (auto simp: alloc_tab_def)
next
  case add_tab with assms(2) show ?thesis by (auto simp: addTab_def Let_def split: option.splits)
next
  case by_cookie with assms(2) show ?thesis
    by (auto simp: sessionByCookie_def Let_def split: option.splits prod.splits if_splits)
next
  case rotate with assms(2) show ?thesis
    by (auto simp: rotateSessionCode_def Let_def split: option.splits)
next
  case end_session with assms(2) show ?thesis by (simp add: endSession_def)
next
  case new_restart with assms(2) show ?thesis
    by (auto simp: newRestart_def Let_def split: option.splits intro: sweep_codes_le)
qed

lemma step_time_le: "auth_step (s, t) ev (s', t') \<Longrightarrow> t \<le> t'"
  by (auto elim: auth_step.cases)

lemma newCode_codes:
  assumes "newCode s t e c = Some ((code, s'), e')" "AS_codes s' i = Some x"
  shows "i = code \<and> Code_Realm x = Code_Realm c \<and> Code_ExpiresAt x = t + authCodeLifespan
     \<or> i \<noteq> code \<and> AS_codes s i = Some x"
  using assms by (auto simp: newCode_def Let_def split: option.splits if_splits intro: sweep_codes_le)

lemma spendCode_codes:
  assumes "spendCode s t realm code = (r, s')" "AS_codes s' i = Some x"
  shows "i \<noteq> code \<and> AS_codes s i = Some x"
  using assms by (auto simp: spendCode_def Let_def split: option.splits if_splits)

lemma stored_code_traced:
  assumes "auth_run es (s, now)" "AS_codes s i = Some x"
  shows "\<exists>t. issued_since es t (Code_Realm x) i \<and> Code_ExpiresAt x = t + authCodeLifespan \<and> t \<le> now"
  using assms
proof (induction es "(s, now)" arbitrary: s now rule: auth_run.induct)
  case (start t)
  then show ?case by (simp add: newAuthStore_def)
next
  case (step es st ev s' now')
  obtain s now where st: "st = (s, now)" by (cases st)
  have le: "now \<le> now'" using step.hyps(3) st step_time_le by simp
  have old: "\<exists>t. issued_since (es @ [ev]) t (Code_Realm x) i \<and> Code_ExpiresAt x = t + authCodeLifespan \<and> t \<le> now'"
    if "AS_codes s i = Some x" "event_code ev \<noteq> Some i"
    using step.hyps(2) [OF st] that le issued_since_snoc by fastforce
  show ?case
  proof (cases ev)
    case (Issued u r c)
    then obtain e c0 e' where n: "newCode s now e c0 = Some ((c, s'), e')" "r = Code_Realm c0" "u = now" "now' = now"
      using step.hyps(3) st by (auto simp: auth_step_issued)
    from newCode_codes [OF n(1) step.prems] show ?thesis
    proof
      assume "i = c \<and> Code_Realm x = Code_Realm c0 \<and> Code_ExpiresAt x = now + authCodeLifespan"
      then show ?thesis using Issued n issued_since_last by auto
    next
      assume "i \<noteq> c \<and> AS_codes s i = Some x"
      then show ?thesis using Issued old by auto
    qed
  next
    case (Spent u r c)
    then obtain y where "spendCode s now r c = (Some y, s')"
      using step.hyps(3) st by (auto simp: auth_step_spent)
    then have "i \<noteq> c \<and> AS_codes s i = Some x" by (rule spendCode_codes [OF _ step.prems])
    then show ?thesis using Spent old by auto
  next
    case (Refused u r c)
    then have "spendCode s now r c = (None, s')"
      using step.hyps(3) st by (auto simp: auth_step_refused)
    then have "i \<noteq> c \<and> AS_codes s i = Some x" by (rule spendCode_codes [OF _ step.prems])
    then show ?thesis using Refused old by auto
  next
    case Quiet
    then show ?thesis using quiet_step_codes [OF _ step.prems] step.hyps(3) st old by auto
  qed
qed

lemma auth_run_split:
  "auth_run (es @ es') st' \<Longrightarrow> \<exists>st. auth_run es st"
proof (induction es' arbitrary: st' rule: rev_induct)
  case (snoc e es')
  then have "auth_run ((es @ es') @ [e]) st'" by simp
  then show ?case using snoc.IH by (cases rule: auth_run_snoc) blast
qed auto

lemma spendCode_SomeD:
  assumes "spendCode s t realm code = (Some c, s')"
  shows "AS_codes s code = Some c" "Code_Realm c = realm" "t \<le> Code_ExpiresAt c"
  using assms by (auto simp: spendCode_def Let_def split: option.splits if_splits)

text \<open>
  C29. In every history of the store, from an empty store through any interleaving of its locked
  operations, a code that is handed out at time \<open>t\<close> to a request at realm \<open>r\<close> was issued at that very
  realm, at most sixty seconds earlier, and between the issue and the hand-out nothing happened to that
  code: it was not handed out and no attempt to spend it, at any realm, was refused. A code is
  therefore used at most once, a failed attempt burns it, and it never crosses a realm.
\<close>

theorem auth_code_single_attempt:
  assumes "auth_run (es @ [Spent t r c] @ later) st"
  shows "\<exists>before t0 after. es = before @ [Issued t0 r c] @ after
     \<and> Some c \<notin> event_code ` set after \<and> t0 \<le> t \<and> t \<le> t0 + 60 * 1000000000"
proof -
  obtain st1 where "auth_run (es @ [Spent t r c]) st1"
    using assms auth_run_split [of "es @ [Spent t r c]" later st] unfolding append_assoc by blast
  then obtain st0 where run: "auth_run es st0" and step: "auth_step st0 (Spent t r c) st1"
    by (cases rule: auth_run_snoc)
  obtain s0 n0 where st0: "st0 = (s0, n0)" by (cases st0)
  obtain s1 n1 where st1: "st1 = (s1, n1)" by (cases st1)
  note st = st0 st1
  obtain y where sp: "spendCode s0 n0 r c = (Some y, s1)" "n0 = t"
    using step unfolding st auth_step_spent by blast
  note d = spendCode_SomeD [OF sp(1)]
  from stored_code_traced [OF run [unfolded st] d(1)] obtain t0 where
    "issued_since es t0 (Code_Realm y) c" "Code_ExpiresAt y = t0 + authCodeLifespan" "t0 \<le> n0" by blast
  then have "issued_since es t0 r c" "t0 \<le> t" "t \<le> t0 + 60 * 1000000000"
    using d(2,3) sp(2) by (simp_all add: authCodeLifespan_def second_def)
  then show ?thesis unfolding issued_since_def by blast
qed


lemma sample_newCode:
  "newCode newAuthStore 0 (replicate 16 0) sample_code = Some ((sample_code_string,
     newAuthStore\<lparr>AS_codes := [sample_code_string \<mapsto>
        sample_code\<lparr>Code_Code := sample_code_string, Code_ExpiresAt := 60 * second\<rparr>]\<rparr>), [])"
proof -
  have "uuidShaped (replicate 16 0) = Some (''00000000-0000-0000-0000-000000000000'', [])"
    by code_simp
  moreover have "auth_sweepLocked newAuthStore 0 = newAuthStore"
    by (simp add: auth_sweepLocked_def newAuthStore_def)
  ultimately show ?thesis
    by (simp add: newCode_def sample_code_def sample_code_string_def authCodeLifespan_def newAuthStore_def Let_def)
qed

lemma sample_run:
  "\<exists>st. auth_run ([Issued 0 ''demo'' sample_code_string, Quiet]
     @ [Spent (30 * 1000000000) ''demo'' sample_code_string] @ []) st"
proof -
  let ?s1 = "newAuthStore\<lparr>AS_codes := [sample_code_string \<mapsto>
        sample_code\<lparr>Code_Code := sample_code_string, Code_ExpiresAt := 60 * second\<rparr>]\<rparr>"
  have r: "Code_Realm sample_code = ''demo''" by (simp add: sample_code_def)
  have "auth_run ([] @ [Issued 0 ''demo'' sample_code_string]) (?s1, 0)"
    using auth_run.step [OF auth_run.start new_code [OF sample_newCode]] by (simp add: r)
  moreover have "auth_step (?s1, 0) Quiet (?s1, 30 * 1000000000)"
    by (rule tick) simp
  ultimately have *: "auth_run (([] @ [Issued 0 ''demo'' sample_code_string]) @ [Quiet]) (?s1, 30 * 1000000000)"
    by (rule auth_run.step)
  have "\<exists>c s2. spendCode ?s1 (30 * 1000000000) ''demo'' sample_code_string = (Some c, s2)"
    by (simp add: spendCode_def sample_code_def second_def)
  then obtain c s2 where "spendCode ?s1 (30 * 1000000000) ''demo'' sample_code_string = (Some c, s2)"
    by blast
  from auth_run.step [OF * spend_ok [OF this]] show ?thesis by auto
qed

theorem auth_code_single_attempt_witness:
  "\<exists>before t0 after. [Issued 0 ''demo'' sample_code_string, Quiet]
       = before @ [Issued t0 ''demo'' sample_code_string] @ after
     \<and> Some sample_code_string \<notin> event_code ` set after
     \<and> t0 \<le> 30 * 1000000000 \<and> 30 * 1000000000 \<le> t0 + 60 * 1000000000"
proof -
  obtain st where "auth_run ([Issued 0 ''demo'' sample_code_string, Quiet]
     @ [Spent (30 * 1000000000) ''demo'' sample_code_string] @ []) st"
    using sample_run by blast
  then show ?thesis by (rule auth_code_single_attempt)
qed

section \<open>Session cookies\<close>

text \<open>
  The value of the \<^verbatim>\<open>AUTH_SESSION_ID\<close> cookie decodes to the root id and the secret it was built
  from exactly when neither is empty and the root id has no dot; the secret may hold any bytes.
\<close>

lemma decode_encodeAuthSessionID_iff:
  "decodeAuthSessionID (encodeAuthSessionID rootID secret) = Some (rootID, secret)
     \<longleftrightarrow> rootID \<noteq> [] \<and> secret \<noteq> [] \<and> CHR ''.'' \<notin> set rootID"
proof -
  have dec: "b64_decode (encodeAuthSessionID rootID secret)
      = Some (string_bytes (rootID @ ''.'' @ secret))"
    unfolding encodeAuthSessionID_def
    by (rule b64_roundtrip) (use string_bytes_bound in \<open>auto simp: list_all_iff\<close>)
  show ?thesis
  proof (cases "CHR ''.'' \<in> set rootID")
    case False
    then show ?thesis
      using cut_append [of "CHR ''.''" rootID secret]
      by (simp add: decodeAuthSessionID_def dec del: string_bytes_append)
  next
    case True
    obtain a b f where c: "cut (CHR ''.'') (rootID @ ''.'' @ secret) = (a, b, f)"
      by (cases "cut (CHR ''.'') (rootID @ ''.'' @ secret)") auto
    then have "f \<Longrightarrow> CHR ''.'' \<notin> set a" using cut_TrueD(2) by auto
    then show ?thesis
      using True c by (auto simp: decodeAuthSessionID_def dec simp del: string_bytes_append)
  qed
qed

text \<open>
  The addresses of the live sessions are allocated, and a session sits under its own root id.
\<close>

definition wf_auth :: "auth_store \<Rightarrow> bool" where
  "wf_auth s \<longleftrightarrow> (\<forall>i a. AS_sessions s i = Some a \<longrightarrow>
     a < AS_next s \<and> (\<exists>x. AS_session_heap s a = Some x \<and> Sess_RootID x = i))"

lemma wf_authD:
  assumes "wf_auth s" "AS_sessions s i = Some a"
  shows "a < AS_next s" "\<exists>x. AS_session_heap s a = Some x \<and> Sess_RootID x = i"
  using assms unfolding wf_auth_def by blast+

lemma sweep_simps [simp]:
  "AS_next (auth_sweepLocked s now) = AS_next s"
  "AS_session_heap (auth_sweepLocked s now) = AS_session_heap s"
  "AS_tab_heap (auth_sweepLocked s now) = AS_tab_heap s"
  by (simp_all add: auth_sweepLocked_def)

lemma sweep_sessions_le:
  "AS_sessions (auth_sweepLocked s now) i = Some a \<Longrightarrow> AS_sessions s i = Some a"
  by (auto simp: auth_sweepLocked_def split: option.splits if_splits)

lemma wf_auth_frame:
  assumes "wf_auth s" "AS_next s \<le> AS_next s'"
    and "\<And>i a. AS_sessions s' i = Some a \<Longrightarrow> AS_sessions s i = Some a"
    and "\<And>i a x. AS_sessions s' i = Some a \<Longrightarrow> AS_session_heap s a = Some x
           \<Longrightarrow> \<exists>y. AS_session_heap s' a = Some y \<and> Sess_RootID y = Sess_RootID x"
  shows "wf_auth s'"
  unfolding wf_auth_def
proof (intro allI impI conjI)
  fix i a assume "AS_sessions s' i = Some a"
  note l = this assms(3) [OF this]
  show "a < AS_next s'" using wf_authD(1) [OF assms(1) l(2)] assms(2) by simp
  show "\<exists>x. AS_session_heap s' a = Some x \<and> Sess_RootID x = i"
    using wf_authD(2) [OF assms(1) l(2)] assms(4) [OF l(1)] by blast
qed

lemma newAuthSession_effect:
  assumes "newAuthSession s now e realm root hash tab = Some ((a, s'), e')"
  shows "a = AS_next s" "AS_next s' = AS_next s + 1"
    "AS_sessions s' root = Some a"
    "\<And>i b. i \<noteq> root \<Longrightarrow> AS_sessions s' i = Some b \<Longrightarrow> AS_sessions s i = Some b"
    "\<And>b. b \<noteq> a \<Longrightarrow> AS_session_heap s' b = AS_session_heap s b"
    "\<exists>x. AS_session_heap s' a = Some x \<and> Sess_RootID x = root \<and> Sess_Realm x = realm
       \<and> Sess_ExpiresAt x = now + authSessionLifespan"
  using assms sweep_sessions_le [of s now]
  by (auto simp: newAuthSession_def Let_def split: option.splits if_splits)

lemma wf_auth_newAuthSession:
  assumes "wf_auth s" "newAuthSession s now e realm root hash tab = Some ((a, s'), e')"
  shows "wf_auth s'"
  unfolding wf_auth_def
proof (intro allI impI)
  fix i b assume b: "AS_sessions s' i = Some b"
  note n = newAuthSession_effect [OF assms(2)]
  show "b < AS_next s' \<and> (\<exists>x. AS_session_heap s' b = Some x \<and> Sess_RootID x = i)"
  proof (cases "i = root")
    case True
    then show ?thesis using b n by auto
  next
    case False
    note w = wf_authD [OF assms(1) n(4) [OF False b]]
    then show ?thesis using n(1,2,5) by (metis less_SucI add.commute nat_neq_iff plus_1_eq_Suc)
  qed
qed

lemma wf_auth_step:
  assumes "wf_auth s" "auth_step (s, t) ev (s', t')"
  shows "wf_auth s'"
  using assms(2)
proof (cases rule: auth_step.cases)
  case (new_session e realm root hash tab a e')
  then show ?thesis using wf_auth_newAuthSession assms(1) by blast
next
  case (make_tab x a)
  then show ?thesis by (auto intro!: wf_auth_frame [OF assms(1)] simp: alloc_tab_def)
next
  case (add_tab sess tab)
  then show ?thesis using assms(1)
    by (auto intro!: wf_auth_frame [OF assms(1)] simp: addTab_def Let_def session_at_def split: option.splits)
next
  case (by_cookie realm cookie r)
  then show ?thesis
    by (auto intro!: wf_auth_frame [OF assms(1)] simp: sessionByCookie_def Let_def
        split: option.splits prod.splits if_splits)
next
  case (rotate e sess tab username code e')
  then show ?thesis
    by (auto intro!: wf_auth_frame [OF assms(1)] simp: rotateSessionCode_def Let_def session_at_def
        split: option.splits)
next
  case (end_session root)
  then show ?thesis
    by (auto intro!: wf_auth_frame [OF assms(1)] simp: endSession_def split: if_splits)
next
  case (new_restart e rec i e')
  then show ?thesis
    by (auto intro!: wf_auth_frame [OF assms(1)] simp: newRestart_def Let_def
        split: option.splits dest: sweep_sessions_le)
next
  case (new_code e c code e')
  then show ?thesis
    by (auto intro!: wf_auth_frame [OF assms(1)] simp: newCode_def Let_def
        split: option.splits dest: sweep_sessions_le)
next
  case (spend_ok realm code c)
  then show ?thesis
    by (auto intro!: wf_auth_frame [OF assms(1)] simp: spendCode_def Let_def
        split: option.splits if_splits)
next
  case (spend_no realm code)
  then show ?thesis
    by (auto intro!: wf_auth_frame [OF assms(1)] simp: spendCode_def Let_def
        split: option.splits if_splits)
qed (use assms(1) in simp)

lemma auth_run_wf: "auth_run es (s, t) \<Longrightarrow> wf_auth s"
proof (induction es "(s, t)" arbitrary: s t rule: auth_run.induct)
  case (start t)
  then show ?case by (simp add: wf_auth_def newAuthStore_def)
next
  case (step es st ev s' t')
  then show ?case using wf_auth_step by (cases st) blast
qed

text \<open>
  In every reachable state of the store, the login session a browser has just been given is found
  again by exactly the cookies that carry its root id and its own secret, at exactly its own realm, for
  exactly the thirty minutes after it was made.
\<close>

theorem sessionByCookie_exact:
  assumes "auth_run es (s, now)"
    and "newAuthSession s now e realm root hash tab = Some ((a, s'), e')"
  shows "fst (sessionByCookie s' now' realm' cookie) = Some a
     \<longleftrightarrow> realm' = realm \<and> now' \<le> now + 30 * 60 * 1000000000
       \<and> decodeAuthSessionID cookie = Some (root, Sess_Secret (session_at s' a))"
proof -
  note n = newAuthSession_effect [OF assms(2)]
  obtain x where x: "AS_session_heap s' a = Some x" "Sess_Realm x = realm"
      "Sess_ExpiresAt x = now + authSessionLifespan" using n(6) by blast
  have other: "AS_sessions s' i \<noteq> Some a" if "i \<noteq> root" for i
    using n(4) [OF that, of a] wf_authD(1) [OF auth_run_wf [OF assms(1)], of i a] n(1) by auto
  show ?thesis
    using n(3) x other
    by (auto simp: sessionByCookie_def session_at_def Let_def authSessionLifespan_def second_def
        split: option.splits prod.splits if_splits)
qed

lemma randomBase64URL_nonempty:
  "randomBase64URL (Suc n) e = Some (code, e') \<Longrightarrow> code \<noteq> []"
proof -
  assume "randomBase64URL (Suc n) e = Some (code, e')"
  then have "code = b64_encode (take (Suc n) e)" "e \<noteq> []"
    by (auto simp: randomBase64URL_def rand_read_def split: if_splits)
  then show "code \<noteq> []" by (cases "take (Suc n) e" rule: b64_encode.cases) auto
qed

lemma sample_newAuthSession:
  "\<exists>a s' e'. newAuthSession newAuthStore 0 (replicate 64 0) ''demo'' ''root'' ''hash'' 0 = Some ((a, s'), e')"
  by (simp add: newAuthSession_def randomBase64URL_def rand_read_def cookieSecretBytes_def Let_def)

section \<open>Session codes\<close>

text \<open>
  A failed credential replaces the session code of its tab. Afterwards no other code is accepted
  for that tab, whatever session and tab id it is presented with; the new one is accepted for thirty
  minutes if the tab was one of the session's live tabs; and once the login has ended the
  session, none is.
\<close>

theorem rotateSessionCode_replaces:
  assumes "rotateSessionCode s now e sess tab username = Some ((code, s'), e')"
    and "tabByID s now sess tabID = Some tab"
  shows "(\<forall>now' sess' tabID' code'. tabByCode s' now' sess' tabID' code' = Some tab \<longrightarrow> code' = code)
    \<and> (\<forall>now'. now' \<le> now + 30 * 60 * 1000000000 \<longrightarrow> tabByCode s' now' sess tabID code = Some tab)
    \<and> (\<forall>now' code'. tabByCode (endSession s' (Sess_RootID (session_at s sess))) now' sess tabID code' = None)"
proof -
  obtain c where c: "randomBase64URL sessionCodeBytes e = Some (c, e')"
    using assms(1) by (auto simp: rotateSessionCode_def Let_def split: option.splits)
  have "c \<noteq> []" using randomBase64URL_nonempty [of 31 e] c by (simp add: sessionCodeBytes_def)
  obtain live where l: "AS_sessions s (Sess_RootID (session_at s sess)) = Some live"
      "Sess_Tabs (session_at s live) tabID = Some tab"
    using assms(2) by (auto simp: tabByID_def split: option.splits if_splits)
  have s': "code = c" "tab_at s' tab = (tab_at s tab)\<lparr>Tab_SessionCode := code, Tab_Username := username\<rparr>"
      "AS_sessions s' = AS_sessions s"
      "session_at s' live = (session_at s live)\<lparr>Sess_ExpiresAt := now + authSessionLifespan\<rparr>"
      "\<And>b. Sess_RootID (session_at s' b) = Sess_RootID (session_at s b)"
    using assms(1) l(1) c
    by (auto simp: rotateSessionCode_def tab_at_def session_at_def Let_def)
  have only: "code' = code" if "tabByCode s' now' sess' tabID' code' = Some tab" for now' sess' tabID' code'
    using that s'(2) by (auto simp: tabByCode_def split: option.splits if_splits)
  have new: "tabByCode s' now' sess tabID code = Some tab" if "now' \<le> now + 30 * 60 * 1000000000" for now'
    using that s' l \<open>c \<noteq> []\<close> by (simp add: tabByCode_def authSessionLifespan_def second_def)
  have ended: "tabByCode (endSession s' (Sess_RootID (session_at s sess))) now' sess tabID code' = None" for now' code'
    using s'(5) [of sess] by (simp add: tabByCode_def endSession_def session_at_def)
  show ?thesis using only new ended by blast
qed

definition sample_tab :: auth_tab where
  "sample_tab = \<lparr>Tab_TabID = ''t1'', Tab_SessionCode = ''old'', Tab_ClientID = ''app'', Tab_ClientUUID = ''c1'',
     Tab_RedirectURI = ''https://app/cb'', Tab_ResponseMode = [], Tab_State = [], Tab_HasState = False,
     Tab_Scope = ''openid'', Tab_Nonce = [], Tab_CodeChallenge = [], Tab_CodeChallengeMethod = [],
     Tab_Username = [], Tab_Prompt = [], Tab_UserID = [], Tab_DeviceUserCode = [], Tab_SAMLBinding = [],
     Tab_SAMLRequestID = []\<rparr>"

definition sample_store :: auth_store where
  "sample_store = \<lparr>AS_sessions = [''root'' \<mapsto> 0],
     AS_session_heap = [0 \<mapsto> \<lparr>Sess_RootID = ''root'', Sess_Realm = ''demo'', Sess_Secret = ''s'',
        Sess_Hash = ''h'', Sess_Tabs = [''t1'' \<mapsto> 1], Sess_ExpiresAt = 10\<rparr>],
     AS_tab_heap = [1 \<mapsto> sample_tab], AS_next = 2, AS_restarts = Map.empty, AS_codes = Map.empty\<rparr>"

end
