(* ===== verification/DeviceStore.thy ===== *)
theory DeviceStore
  imports AuthStore "HOL-Library.AList"
begin

text \<open>
  \<^verbatim>\<open>internal/oidc/devicestore.go\<close> and the device-code ladder of \<^verbatim>\<open>internal/oidc/device.go\<close>: the
  in-memory store of device authorizations. A device code is one Go object that the two maps share, so
  it lives in a heap and both maps hold its address. A poll is split into the micro-steps between which
  another request may run: the lookup, the three checks in front of the clock, the stamp, the look at
  the approval, and the removal. \<open>deviceCodeGrant_poll\<close> runs them without interruption.
\<close>

section \<open>Data\<close>

record device_code =
  DC_Code :: string
  DC_UserCode :: string
  DC_Realm :: string
  DC_ClientUUID :: string
  DC_Scope :: string
  DC_Interval :: duration
  DC_ExpiresAt :: time
  DC_LastPoll :: time
  DC_Denied :: bool
  DC_UserID :: string
  DC_SessionID :: string

record device_store =
  DS_codes :: "(string \<times> nat) list"
  DS_userCodes :: "(string \<times> nat) list"
  DS_heap :: "nat \<Rightarrow> device_code option"
  DS_next :: nat

definition newDeviceStore :: device_store where
  "newDeviceStore = \<lparr>DS_codes = [], DS_userCodes = [], DS_heap = (\<lambda>_. None), DS_next = 0\<rparr>"

definition deviceCodeBytes :: nat where "deviceCodeBytes = 32"
definition userCodeAlphabet :: string where "userCodeAlphabet = ''ABCDEFGHIJKLMNOPQRSTUVWXYZ''"
definition userCodeGroup :: nat where "userCodeGroup = 4"
definition deviceCodeGrace :: duration where "deviceCodeGrace = 15 * second"

definition device_at :: "device_store \<Rightarrow> nat \<Rightarrow> device_code" where
  "device_at s a = the (DS_heap s a)"

section \<open>Operations\<close>

text \<open>
  The loop of \<^verbatim>\<open>randomUserCode\<close> reads one byte per round; a rejected byte leaves \<open>out\<close> as it is. It
  ends with the error branch when the entropy supply does.
\<close>

function randomUserCode_loop :: "string \<Rightarrow> entropy \<Rightarrow> (string \<times> entropy) option" where
  "randomUserCode_loop out e =
    (if length out < 2 * userCodeGroup + 1
     then if length out = userCodeGroup then randomUserCode_loop (out @ ''-'') e
          else (case e of
                  [] \<Rightarrow> None
                | b # e' \<Rightarrow>
                    if b \<ge> (256 div length userCodeAlphabet) * length userCodeAlphabet
                    then randomUserCode_loop out e'
                    else randomUserCode_loop (out @ [userCodeAlphabet ! (b mod length userCodeAlphabet)]) e')
     else Some (out, e))"
  by pat_completeness auto
termination
  by (relation "measures [\<lambda>(out, e). length e, \<lambda>(out, e). 9 - length out]") (auto simp: userCodeGroup_def)

definition randomUserCode :: "entropy \<Rightarrow> (string \<times> entropy) option" where
  "randomUserCode e = randomUserCode_loop [] e"

definition sweep_entry :: "device_store \<Rightarrow> time \<Rightarrow> string \<times> nat \<Rightarrow> device_store \<Rightarrow> device_store" where
  "sweep_entry s cutoff p st =
    (if cutoff > DC_ExpiresAt (device_at s (snd p))
     then st\<lparr>DS_codes := AList.delete (fst p) (DS_codes st),
             DS_userCodes := AList.delete (DC_UserCode (device_at s (snd p))) (DS_userCodes st)\<rparr>
     else st)"

definition device_sweepLocked :: "device_store \<Rightarrow> time \<Rightarrow> device_store" where
  "device_sweepLocked s now = fold (sweep_entry s (now - deviceCodeGrace)) (DS_codes s) s"

definition newDeviceCode ::
  "device_store \<Rightarrow> time \<Rightarrow> entropy \<Rightarrow> device_code \<Rightarrow> duration \<Rightarrow> ((nat \<times> device_store) \<times> entropy) option" where
  "newDeviceCode s now e dc lifespan =
    (case randomBase64URL deviceCodeBytes e of
       None \<Rightarrow> None
     | Some (code, e1) \<Rightarrow>
         (case randomUserCode e1 of
            None \<Rightarrow> None
          | Some (userCode, e2) \<Rightarrow>
              (let dc = dc\<lparr>DC_Code := code, DC_UserCode := userCode, DC_ExpiresAt := now + lifespan\<rparr>;
                   s = device_sweepLocked s now;
                   a = DS_next s
               in Some ((a, s\<lparr>DS_heap := (DS_heap s)(a \<mapsto> dc), DS_next := a + 1,
                              DS_codes := AList.update code a (DS_codes s),
                              DS_userCodes := AList.update userCode a (DS_userCodes s)\<rparr>), e2))))"

definition deviceCodeByCode :: "device_store \<Rightarrow> string \<Rightarrow> string \<Rightarrow> nat option" where
  "deviceCodeByCode s realm code =
    (case map_of (DS_codes s) code of
       None \<Rightarrow> None
     | Some a \<Rightarrow> if DC_Realm (device_at s a) \<noteq> realm then None else Some a)"

definition deviceCodeByUserCode :: "device_store \<Rightarrow> time \<Rightarrow> string \<Rightarrow> string \<Rightarrow> nat option" where
  "deviceCodeByUserCode s now realm userCode =
    (case map_of (DS_userCodes s) userCode of
       None \<Rightarrow> None
     | Some a \<Rightarrow>
         if DC_Realm (device_at s a) \<noteq> realm \<or> now > DC_ExpiresAt (device_at s a) then None else Some a)"

definition approveDeviceCode ::
  "device_store \<Rightarrow> time \<Rightarrow> string \<Rightarrow> string \<Rightarrow> string \<Rightarrow> bool \<times> device_store" where
  "approveDeviceCode s now userCode userID sessionID =
    (case map_of (DS_userCodes s) userCode of
       None \<Rightarrow> (False, s)
     | Some a \<Rightarrow>
         if now > DC_ExpiresAt (device_at s a) then (False, s)
         else (True, s\<lparr>DS_heap := (DS_heap s)(a \<mapsto>
                 (device_at s a)\<lparr>DC_UserID := userID, DC_SessionID := sessionID\<rparr>)\<rparr>))"

definition denyDeviceCode :: "device_store \<Rightarrow> time \<Rightarrow> string \<Rightarrow> bool \<times> device_store" where
  "denyDeviceCode s now userCode =
    (case map_of (DS_userCodes s) userCode of
       None \<Rightarrow> (False, s)
     | Some a \<Rightarrow>
         if now > DC_ExpiresAt (device_at s a) then (False, s)
         else (True, s\<lparr>DS_heap := (DS_heap s)(a \<mapsto> (device_at s a)\<lparr>DC_Denied := True\<rparr>)\<rparr>))"

definition stampPoll :: "device_store \<Rightarrow> time \<Rightarrow> nat \<Rightarrow> device_store" where
  "stampPoll s now a = s\<lparr>DS_heap := (DS_heap s)(a \<mapsto> (device_at s a)\<lparr>DC_LastPoll := now\<rparr>)\<rparr>"

definition spendDeviceCode :: "device_store \<Rightarrow> nat \<Rightarrow> device_store" where
  "spendDeviceCode s a = s
     \<lparr>DS_codes := AList.delete (DC_Code (device_at s a)) (DS_codes s),
      DS_userCodes := AList.delete (DC_UserCode (device_at s a)) (DS_userCodes s)\<rparr>"

section \<open>Client attributes\<close>

definition attrDeviceGrantEnabled :: string where
  "attrDeviceGrantEnabled = ''oauth2.device.authorization.grant.enabled''"
definition attrDeviceCodeLifespan :: string where
  "attrDeviceCodeLifespan = ''oauth2.device.code.lifespan''"
definition attrDevicePollInterval :: string where
  "attrDevicePollInterval = ''oauth2.device.polling.interval''"
definition defaultDeviceCodeLifespan :: duration where
  "defaultDeviceCodeLifespan = 600 * second"
definition defaultDevicePollInterval :: duration where
  "defaultDevicePollInterval = 5 * second"

definition deviceGrantEnabled :: "client \<Rightarrow> bool" where
  "deviceGrantEnabled c \<longleftrightarrow> attr (Client_Attributes c) attrDeviceGrantEnabled = ''true''"

definition deviceDurationAttr :: "client \<Rightarrow> string \<Rightarrow> duration \<Rightarrow> duration" where
  "deviceDurationAttr c name fallback =
    (case atoi (attr (Client_Attributes c) name) of
       None \<Rightarrow> fallback
     | Some seconds \<Rightarrow> if seconds \<le> 0 then fallback else wrap64 (seconds * second))"

definition deviceCodeLifespan :: "client \<Rightarrow> duration" where
  "deviceCodeLifespan c = deviceDurationAttr c attrDeviceCodeLifespan defaultDeviceCodeLifespan"

definition devicePollInterval :: "client \<Rightarrow> duration" where
  "devicePollInterval c = deviceDurationAttr c attrDevicePollInterval defaultDevicePollInterval"

section \<open>One poll\<close>

datatype poll_state =
    PollStart
  | PollFound nat
  | PollPassed nat
  | PollStamped nat
  | PollApproved nat
  | PollError string string
  | PollRedeem nat

definition poll_step ::
  "time \<Rightarrow> string \<Rightarrow> client \<Rightarrow> string \<Rightarrow> device_store \<Rightarrow> poll_state \<Rightarrow> device_store \<times> poll_state" where
  "poll_step now realm client code s p =
    (case p of
       PollStart \<Rightarrow>
         (case deviceCodeByCode s realm code of
            None \<Rightarrow> (s, PollError ''invalid_grant'' ''Device code not valid'')
          | Some a \<Rightarrow> (s, PollFound a))
     | PollFound a \<Rightarrow>
         (let dc = device_at s a
          in if now > DC_ExpiresAt dc then (s, PollError ''expired_token'' ''Device code is expired'')
             else if DC_ClientUUID dc \<noteq> Client_ID client
             then (s, PollError ''invalid_grant'' ''unauthorized client'')
             else if DC_LastPoll dc \<noteq> zero_time \<and> now - DC_LastPoll dc < DC_Interval dc
             then (s, PollError ''slow_down'' ''Slow down'')
             else (s, PollPassed a))
     | PollPassed a \<Rightarrow> (stampPoll s now a, PollStamped a)
     | PollStamped a \<Rightarrow>
         (let dc = device_at s a
          in if DC_Denied dc
             then (s, PollError ''access_denied'' ''The end user denied the authorization request'')
             else if DC_UserID dc = []
             then (s, PollError ''authorization_pending'' ''The authorization request is still pending'')
             else (s, PollApproved a))
     | PollApproved a \<Rightarrow> (spendDeviceCode s a, PollRedeem a)
     | PollError e d \<Rightarrow> (s, PollError e d)
     | PollRedeem a \<Rightarrow> (s, PollRedeem a))"

definition deviceCodeGrant_poll ::
  "time \<Rightarrow> string \<Rightarrow> client \<Rightarrow> string \<Rightarrow> device_store \<Rightarrow> device_store \<times> poll_state" where
  "deviceCodeGrant_poll now realm client code s =
     ((\<lambda>(s, p). poll_step now realm client code s p) ^^ 5) (s, PollStart)"

section \<open>The user code\<close>

declare randomUserCode_loop.simps [simp del]

definition user_code_shape :: "string \<Rightarrow> bool" where
  "user_code_shape s \<longleftrightarrow> (\<exists>xs ys. s = xs @ ''-'' @ ys \<and> length xs = 4 \<and> length ys = 4
     \<and> set xs \<subseteq> set userCodeAlphabet \<and> set ys \<subseteq> set userCodeAlphabet)"

text \<open>The bytes the loop accepts, and the letter it takes for one.\<close>

definition accepted :: "nat \<Rightarrow> bool" where
  "accepted b \<longleftrightarrow> b < (256 div length userCodeAlphabet) * length userCodeAlphabet"

definition letter :: "nat \<Rightarrow> char" where
  "letter b = userCodeAlphabet ! (b mod length userCodeAlphabet)"

lemma alphabet_length [simp]: "length userCodeAlphabet = 26"
  by (simp add: userCodeAlphabet_def)

lemma accepted_iff: "accepted b \<longleftrightarrow> b < 234"
  by (simp add: accepted_def)

lemma loop_letters:
  assumes "length bs = k" "list_all accepted bs"
    and "length out + k \<le> 4 \<or> 5 \<le> length out \<and> length out + k \<le> 9"
  shows "randomUserCode_loop out (bs @ e) = randomUserCode_loop (out @ map letter bs) e"
  using assms
proof (induction bs arbitrary: out k)
  case (Cons b bs)
  have "length out < 9" "length out \<noteq> 4" using Cons.prems by auto
  then have "randomUserCode_loop out ((b # bs) @ e) = randomUserCode_loop (out @ [letter b]) (bs @ e)"
    using Cons.prems(2)
    by (subst randomUserCode_loop.simps) (simp add: userCodeGroup_def letter_def accepted_def)
  also have "\<dots> = randomUserCode_loop ((out @ [letter b]) @ map letter bs) e"
    using Cons.prems by (intro Cons.IH [of "k - 1"]) auto
  finally show ?case by simp
qed simp

lemma loop_skips_rejected:
  "\<not> accepted b \<Longrightarrow> length out < 9 \<Longrightarrow> length out \<noteq> 4
     \<Longrightarrow> randomUserCode_loop out (b # e) = randomUserCode_loop out e"
  by (subst randomUserCode_loop.simps) (simp add: userCodeGroup_def accepted_def)

text \<open>The loop depends on the accepted bytes alone.\<close>

lemma loop_filter:
  "map_option fst (randomUserCode_loop out e) = map_option fst (randomUserCode_loop out (filter accepted e))"
proof (induction out e rule: randomUserCode_loop.induct)
  case (1 out e)
  show ?case
  proof (cases "length out < 9")
    case False
    then show ?thesis by (simp add: randomUserCode_loop.simps userCodeGroup_def)
  next
    case lt: True
    show ?thesis
    proof (cases "length out = 4")
      case True
      then show ?thesis
        using 1(1) lt by (simp add: randomUserCode_loop.simps [of out] userCodeGroup_def)
    next
      case ne: False
      show ?thesis
      proof (cases e)
        case (Cons b e')
        then show ?thesis
          using 1(2,3) lt ne
          by (cases "accepted b")
            (simp_all add: loop_skips_rejected randomUserCode_loop.simps [of out] userCodeGroup_def accepted_def)
      qed simp
    qed
  qed
qed

lemma randomUserCode_accepted:
  assumes "8 \<le> length bs" "list_all accepted bs"
  shows "randomUserCode bs = Some (map letter (take 4 bs) @ ''-'' @ map letter (take 4 (drop 4 bs)), drop 8 bs)"
proof -
  have "drop 4 bs = take 4 (drop 4 bs) @ drop 4 (drop 4 bs)" by (simp only: append_take_drop_id)
  then have "bs = take 4 bs @ drop 4 bs" "drop 4 bs = take 4 (drop 4 bs) @ drop 8 bs" by simp_all
  note e = this
  have acc: "list_all accepted (take 4 bs)" "list_all accepted (take 4 (drop 4 bs))"
    using assms(2) by (auto simp: list_all_iff dest: in_set_takeD in_set_dropD)
  have "randomUserCode_loop [] (take 4 bs @ drop 4 bs) = randomUserCode_loop (map letter (take 4 bs)) (drop 4 bs)"
    using loop_letters [of "take 4 bs" 4 "[]" "drop 4 bs"] assms(1) acc(1) by (simp del: append_take_drop_id)
  also have "\<dots> = randomUserCode_loop (map letter (take 4 bs) @ ''-'') (drop 4 bs)"
    using assms(1) by (subst randomUserCode_loop.simps) (simp add: userCodeGroup_def)
  also have "\<dots> = randomUserCode_loop (map letter (take 4 bs) @ ''-'')
      (take 4 (drop 4 bs) @ drop 8 bs)" using e(2) by simp
  also have "\<dots> = randomUserCode_loop ((map letter (take 4 bs) @ ''-'') @ map letter (take 4 (drop 4 bs))) (drop 8 bs)"
    using assms(1) acc(2) by (intro loop_letters [of _ 4]) auto
  also have "\<dots> = Some ((map letter (take 4 bs) @ ''-'') @ map letter (take 4 (drop 4 bs)), drop 8 bs)"
    using assms(1) by (subst randomUserCode_loop.simps) (simp add: userCodeGroup_def)
  finally show ?thesis using e(1) by (simp add: randomUserCode_def)
qed

lemma loop_exhausted:
  assumes "list_all accepted e" "length out \<le> 4 \<and> length out + length e < 8
     \<or> 5 \<le> length out \<and> length out + length e < 9"
  shows "randomUserCode_loop out e = None"
  using assms
proof (induction out e rule: randomUserCode_loop.induct)
  case (1 out e)
  show ?case
  proof (cases "length out = 4")
    case True
    then show ?thesis
      using 1 by (subst randomUserCode_loop.simps) (auto simp: userCodeGroup_def)
  next
    case ne: False
    show ?thesis
    proof (cases e)
      case Nil
      then show ?thesis using 1(4) [simplified] "1.prems" ne
        by (subst randomUserCode_loop.simps) (auto simp: userCodeGroup_def)
    next
      case (Cons b e')
      then have "randomUserCode_loop (out @ [letter b]) e' = None"
        using "1.IH"(3) [OF _ _ Cons] "1.prems" ne
        by (auto simp: userCodeGroup_def accepted_iff letter_def)
      then show ?thesis using Cons "1.prems" ne
        by (subst randomUserCode_loop.simps) (auto simp: userCodeGroup_def accepted_iff letter_def)
    qed
  qed
qed

lemma letter_preimages:
  assumes "i < 26"
  shows "card {b. b < 256 \<and> accepted b \<and> letter b = userCodeAlphabet ! i} = 9"
proof -
  have "distinct userCodeAlphabet" by code_simp
  then have nth: "userCodeAlphabet ! (b mod 26) = userCodeAlphabet ! i \<longleftrightarrow> b mod 26 = i" for b
    using assms by (intro nth_eq_iff_index_eq) auto
  have "{b. b < 256 \<and> accepted b \<and> letter b = userCodeAlphabet ! i} = (\<lambda>k. 26 * k + i) ` {..<9}"
    (is "?l = ?r")
  proof (rule set_eqI)
    fix b
    have "b \<in> ?l \<longleftrightarrow> b < 234 \<and> b mod 26 = i" by (auto simp: accepted_iff letter_def nth)
    also have "\<dots> \<longleftrightarrow> b \<in> ?r"
    proof
      assume "b < 234 \<and> b mod 26 = i"
      then have "b = 26 * (b div 26) + i" "b div 26 < 9" by (auto simp: mult_div_mod_eq)
      then show "b \<in> ?r" by blast
    qed (use assms in auto)
    finally show "b \<in> ?l \<longleftrightarrow> b \<in> ?r" .
  qed
  then show ?thesis by (simp add: card_image inj_on_def)
qed

text \<open>
  The user code is XXXX-XXXX. It comes from the first eight bytes of the entropy supply that
  are not rejected, in order, one letter each, and the call fails only when the supply has fewer than
  eight such bytes; every letter is the value of exactly nine of the 256 bytes, so the letters of a code
  are equally likely.
\<close>

theorem randomUserCode_uniform:
  "map_option fst (randomUserCode e) =
     (let bs = filter accepted e
      in if length bs < 8 then None
         else Some (map letter (take 4 bs) @ ''-'' @ map letter (take 4 (drop 4 bs))))
   \<and> (\<forall>i<26. card {b. b < 256 \<and> accepted b \<and> letter b = userCodeAlphabet ! i} = 9)"
proof -
  have acc: "list_all accepted (filter accepted e)" by (simp add: list_all_iff)
  have "map_option fst (randomUserCode e) = map_option fst (randomUserCode (filter accepted e))"
    unfolding randomUserCode_def by (rule loop_filter)
  then show ?thesis
    using randomUserCode_accepted [OF _ acc] loop_exhausted [OF acc, of "[]"] letter_preimages
    by (auto simp: Let_def randomUserCode_def not_less)
qed

section \<open>Device authorizations as a state machine\<close>

text \<open>
  A step is one store operation or one whole poll. Events name the device code by its address, which is
  the identity of the Go object; a mint supplies the object the handler builds, all of whose other
  fields are zero.
\<close>

definition device_request :: "string \<Rightarrow> string \<Rightarrow> string \<Rightarrow> duration \<Rightarrow> device_code" where
  "device_request realm clientUUID scope interval = \<lparr>DC_Code = [], DC_UserCode = [], DC_Realm = realm,
     DC_ClientUUID = clientUUID, DC_Scope = scope, DC_Interval = interval, DC_ExpiresAt = zero_time,
     DC_LastPoll = zero_time, DC_Denied = False, DC_UserID = [], DC_SessionID = []\<rparr>"

datatype device_event =
    Minted time nat string string duration
  | Approved nat string string
  | Denied nat
  | Redeemed time nat string string string string
  | Idle

fun event_addr :: "device_event \<Rightarrow> nat option" where
  "event_addr (Minted t a r c l) = Some a"
| "event_addr (Approved a u sid) = Some a"
| "event_addr (Denied a) = Some a"
| "event_addr (Redeemed t a r c u sid) = Some a"
| "event_addr Idle = None"

inductive device_step :: "device_store \<times> time \<Rightarrow> device_event \<Rightarrow> device_store \<times> time \<Rightarrow> bool" where
  tick: "t \<le> t' \<Longrightarrow> device_step (s, t) Idle (s, t')"
| mint: "newDeviceCode s t e (device_request realm cid scope interval) lifespan = Some ((a, s'), e')
    \<Longrightarrow> device_step (s, t) (Minted t a realm cid lifespan) (s', t)"
| approve: "approveDeviceCode s t uc uid sid = (True, s') \<Longrightarrow> map_of (DS_userCodes s) uc = Some a
    \<Longrightarrow> device_step (s, t) (Approved a uid sid) (s', t)"
| deny: "denyDeviceCode s t uc = (True, s') \<Longrightarrow> map_of (DS_userCodes s) uc = Some a
    \<Longrightarrow> device_step (s, t) (Denied a) (s', t)"
| poll_redeem: "deviceCodeGrant_poll t realm client code s = (s', PollRedeem a)
    \<Longrightarrow> device_step (s, t) (Redeemed t a realm (Client_ID client) (DC_UserID (device_at s a))
          (DC_SessionID (device_at s a))) (s', t)"
| poll_refused: "deviceCodeGrant_poll t realm client code s = (s', PollError err desc)
    \<Longrightarrow> device_step (s, t) Idle (s', t)"

inductive device_run :: "device_event list \<Rightarrow> device_store \<times> time \<Rightarrow> bool" where
  start: "device_run [] (newDeviceStore, t)"
| step: "device_run es st \<Longrightarrow> device_step st ev st' \<Longrightarrow> device_run (es @ [ev]) st'"

inductive_cases device_run_snoc: "device_run (es @ [ev]) st'"

lemma sweep_entry_le:
  "map_of (DS_codes (sweep_entry s cutoff p st)) c = Some x \<Longrightarrow> map_of (DS_codes st) c = Some x"
  "map_of (DS_userCodes (sweep_entry s cutoff p st)) c = Some x \<Longrightarrow> map_of (DS_userCodes st) c = Some x"
  "DS_heap (sweep_entry s cutoff p st) = DS_heap st" "DS_next (sweep_entry s cutoff p st) = DS_next st"
  by (simp_all add: sweep_entry_def AList.delete_conv split: if_splits)

lemma fold_sweep_codes:
  "map_of (DS_codes (fold (sweep_entry s cutoff) xs st)) c = Some x \<Longrightarrow> map_of (DS_codes st) c = Some x"
  by (induction xs arbitrary: st) (auto dest: sweep_entry_le(1,2))

lemma fold_sweep_userCodes:
  "map_of (DS_userCodes (fold (sweep_entry s cutoff) xs st)) c = Some x \<Longrightarrow> map_of (DS_userCodes st) c = Some x"
  by (induction xs arbitrary: st) (auto dest: sweep_entry_le(1,2))

lemma fold_sweep_heap:
  "DS_heap (fold (sweep_entry s cutoff) xs st) = DS_heap st
   \<and> DS_next (fold (sweep_entry s cutoff) xs st) = DS_next st"
  by (induction xs arbitrary: st) (auto simp: sweep_entry_le)

lemma device_sweep_le:
  "map_of (DS_codes (device_sweepLocked s now)) c = Some x \<Longrightarrow> map_of (DS_codes s) c = Some x"
  "map_of (DS_userCodes (device_sweepLocked s now)) c = Some x \<Longrightarrow> map_of (DS_userCodes s) c = Some x"
  "DS_heap (device_sweepLocked s now) = DS_heap s"
  "DS_next (device_sweepLocked s now) = DS_next s"
  unfolding device_sweepLocked_def
  by (auto dest: fold_sweep_codes fold_sweep_userCodes simp: fold_sweep_heap)

text \<open>The five micro-steps of an uninterrupted poll, composed: the ladder of the handler.\<close>

lemma deviceCodeGrant_poll_ladder:
  "deviceCodeGrant_poll t realm client code s =
    (case deviceCodeByCode s realm code of
       None \<Rightarrow> (s, PollError ''invalid_grant'' ''Device code not valid'')
     | Some a \<Rightarrow>
         (let dc = device_at s a
          in if t > DC_ExpiresAt dc then (s, PollError ''expired_token'' ''Device code is expired'')
             else if DC_ClientUUID dc \<noteq> Client_ID client
             then (s, PollError ''invalid_grant'' ''unauthorized client'')
             else if DC_LastPoll dc \<noteq> zero_time \<and> t - DC_LastPoll dc < DC_Interval dc
             then (s, PollError ''slow_down'' ''Slow down'')
             else if DC_Denied dc
             then (stampPoll s t a, PollError ''access_denied'' ''The end user denied the authorization request'')
             else if DC_UserID dc = []
             then (stampPoll s t a, PollError ''authorization_pending'' ''The authorization request is still pending'')
             else (spendDeviceCode (stampPoll s t a) a, PollRedeem a)))"
proof -
  have iter: "(f ^^ 5) x = f (f (f (f (f x))))" for f :: "'x \<Rightarrow> 'x" and x
    by (simp add: eval_nat_numeral)
  have st: "DC_Denied (device_at (stampPoll s t a) a) = DC_Denied (device_at s a)"
    "DC_UserID (device_at (stampPoll s t a) a) = DC_UserID (device_at s a)" for a
    by (simp_all add: stampPoll_def device_at_def)
  show ?thesis
    unfolding deviceCodeGrant_poll_def iter
    by (cases "deviceCodeByCode s realm code") (simp_all add: poll_step_def Let_def st)
qed

text \<open>What a whole poll does to the store, and what it takes for it to redeem the code.\<close>

lemma poll_cases:
  assumes "deviceCodeGrant_poll t realm client code s = (s', p)"
  obtains (untouched) e d where "s' = s" "p = PollError e d"
    | (stamped) a e d where "map_of (DS_codes s) code = Some a" "s' = stampPoll s t a" "p = PollError e d"
    | (redeemed) a where "map_of (DS_codes s) code = Some a" "p = PollRedeem a"
        "s' = spendDeviceCode (stampPoll s t a) a" "DC_Realm (device_at s a) = realm"
        "t \<le> DC_ExpiresAt (device_at s a)" "DC_ClientUUID (device_at s a) = Client_ID client"
        "\<not> DC_Denied (device_at s a)" "DC_UserID (device_at s a) \<noteq> []"
proof (cases "deviceCodeByCode s realm code")
  case None
  then show ?thesis using assms untouched by (auto simp: deviceCodeGrant_poll_ladder)
next
  case (Some a)
  then have c: "map_of (DS_codes s) code = Some a" "DC_Realm (device_at s a) = realm"
    by (auto simp: deviceCodeByCode_def split: option.splits if_splits)
  show ?thesis
    using assms Some untouched stamped [OF c(1)] redeemed [OF c(1) _ _ c(2)]
    by (auto simp: deviceCodeGrant_poll_ladder Let_def split: if_splits)
qed

section \<open>Every redemption was authorised, once\<close>

definition device_inv :: "device_event list \<Rightarrow> device_store \<Rightarrow> bool" where
  "device_inv es s \<longleftrightarrow>
     (\<forall>c a. map_of (DS_codes s) c = Some a \<longrightarrow> a < DS_next s \<and> DC_Code (device_at s a) = c)
   \<and> (\<forall>u a. map_of (DS_userCodes s) u = Some a \<longrightarrow> a < DS_next s)
   \<and> (\<forall>a < DS_next s. \<exists>t l. Minted t a (DC_Realm (device_at s a)) (DC_ClientUUID (device_at s a)) l \<in> set es
        \<and> DC_ExpiresAt (device_at s a) = t + l)
   \<and> (\<forall>a < DS_next s. DC_UserID (device_at s a) \<noteq> []
        \<longrightarrow> Approved a (DC_UserID (device_at s a)) (DC_SessionID (device_at s a)) \<in> set es)
   \<and> (\<forall>a < DS_next s. Denied a \<in> set es \<longrightarrow> DC_Denied (device_at s a))
   \<and> (\<forall>t a r c u sid. Redeemed t a r c u sid \<in> set es \<longrightarrow> a \<notin> ran (map_of (DS_codes s)))
   \<and> (\<forall>ev \<in> set es. \<forall>a. event_addr ev = Some a \<longrightarrow> a < DS_next s)"

lemma device_invD:
  assumes "device_inv es s"
  shows "\<And>c a. map_of (DS_codes s) c = Some a \<Longrightarrow> a < DS_next s \<and> DC_Code (device_at s a) = c"
    and "\<And>u a. map_of (DS_userCodes s) u = Some a \<Longrightarrow> a < DS_next s"
    and "\<And>a. a < DS_next s \<Longrightarrow> \<exists>t l. Minted t a (DC_Realm (device_at s a)) (DC_ClientUUID (device_at s a)) l \<in> set es
        \<and> DC_ExpiresAt (device_at s a) = t + l"
    and "\<And>a. a < DS_next s \<Longrightarrow> DC_UserID (device_at s a) \<noteq> []
        \<Longrightarrow> Approved a (DC_UserID (device_at s a)) (DC_SessionID (device_at s a)) \<in> set es"
    and "\<And>a. a < DS_next s \<Longrightarrow> Denied a \<in> set es \<Longrightarrow> DC_Denied (device_at s a)"
    and "\<And>t a r c u sid. Redeemed t a r c u sid \<in> set es \<Longrightarrow> a \<notin> ran (map_of (DS_codes s))"
    and "\<And>ev a. ev \<in> set es \<Longrightarrow> event_addr ev = Some a \<Longrightarrow> a < DS_next s"
  using assms unfolding device_inv_def by blast+

lemma device_inv_mint:
  assumes inv: "device_inv es s"
    and n: "newDeviceCode s t e (device_request realm cid scope interval) lifespan = Some ((a, s'), e')"
  shows "device_inv (es @ [Minted t a realm cid lifespan]) s'"
proof -
  obtain code uc where s': "a = DS_next s" "DS_next s' = DS_next s + 1"
    "DS_heap s' = (DS_heap s)(a \<mapsto> (device_request realm cid scope interval)
       \<lparr>DC_Code := code, DC_UserCode := uc, DC_ExpiresAt := t + lifespan\<rparr>)"
    "map_of (DS_codes s') = (map_of (DS_codes (device_sweepLocked s t)))(code \<mapsto> a)"
    "map_of (DS_userCodes s') = (map_of (DS_userCodes (device_sweepLocked s t)))(uc \<mapsto> a)"
    using n by (auto simp: newDeviceCode_def Let_def device_sweep_le AList.update_conv' split: option.splits)
  have new: "device_at s' a = (device_request realm cid scope interval)
       \<lparr>DC_Code := code, DC_UserCode := uc, DC_ExpiresAt := t + lifespan\<rparr>"
    and old: "\<And>b. b \<noteq> a \<Longrightarrow> device_at s' b = device_at s b"
    using s'(3) by (simp_all add: device_at_def)
  note d = device_invD [OF inv]
  have fresh: "event_addr ev \<noteq> Some a" if "ev \<in> set es" for ev
    using d(7) [OF that] s'(1) by auto
  have lt: "b \<noteq> a \<and> b < DS_next s" if "b < DS_next s'" "b \<noteq> a" for b
    using that s' by simp
  show ?thesis unfolding device_inv_def
  proof (intro conjI allI impI ballI)
    fix c b assume b: "map_of (DS_codes s') c = Some b"
    have c: "c = code \<and> b = a \<or> c \<noteq> code \<and> map_of (DS_codes s) c = Some b"
      using b device_sweep_le(1) [of s t c b] unfolding s'(4) by (auto split: if_splits)
    then show "b < DS_next s'" using s'(1,2) d(1) [of c b] by auto
    show "DC_Code (device_at s' b) = c"
    proof (cases "c = code")
      case True with c new show ?thesis by (simp add: device_request_def)
    next
      case False
      then have "b < DS_next s \<and> DC_Code (device_at s b) = c" using c d(1) by blast
      then show ?thesis using old [of b] s'(1) by auto
    qed
  next
    fix u b assume "map_of (DS_userCodes s') u = Some b"
    then have "b = a \<or> map_of (DS_userCodes s) u = Some b"
      using device_sweep_le(2) [of s t u b] unfolding s'(5) by (auto split: if_splits)
    then show "b < DS_next s'" using s'(1,2) d(2) [of u b] by auto
  next
    fix b assume "b < DS_next s'"
    then show "\<exists>t' l. Minted t' b (DC_Realm (device_at s' b)) (DC_ClientUUID (device_at s' b)) l
        \<in> set (es @ [Minted t a realm cid lifespan]) \<and> DC_ExpiresAt (device_at s' b) = t' + l"
      using d(3) lt [of b] old [of b] new by (cases "b = a") (auto simp: device_request_def)
  next
    fix b assume "b < DS_next s'" "DC_UserID (device_at s' b) \<noteq> []"
    then show "Approved b (DC_UserID (device_at s' b)) (DC_SessionID (device_at s' b))
        \<in> set (es @ [Minted t a realm cid lifespan])"
      using d(4) lt [of b] old [of b] new by (cases "b = a") (auto simp: device_request_def)
  next
    fix b assume "b < DS_next s'" "Denied b \<in> set (es @ [Minted t a realm cid lifespan])"
    then show "DC_Denied (device_at s' b)"
      using d(5) lt [of b] old [of b] fresh [of "Denied b"] by (cases "b = a") auto
  next
    fix u b r c x y assume "Redeemed u b r c x y \<in> set (es @ [Minted t a realm cid lifespan])"
    then have "Redeemed u b r c x y \<in> set es" by simp
    then have "b \<notin> ran (map_of (DS_codes s))" "b \<noteq> a" using d(6) fresh [of "Redeemed u b r c x y"] by auto
    then show "b \<notin> ran (map_of (DS_codes s'))"
      using device_sweep_le(1) [of s t _ b] unfolding s'(4) ran_def by (auto split: if_splits)
  next
    fix ev b assume "ev \<in> set (es @ [Minted t a realm cid lifespan])" "event_addr ev = Some b"
    then show "b < DS_next s'" using d(7) [of ev b] s'(1,2) by auto
  qed
qed

text \<open>The other steps change one object or drop map entries.\<close>

lemma device_inv_update:
  assumes inv: "device_inv es s" and "a < DS_next s"
    and s': "DS_next s' = DS_next s" "\<And>b. b \<noteq> a \<Longrightarrow> device_at s' b = device_at s b"
      "\<And>c b. map_of (DS_codes s') c = Some b \<Longrightarrow> map_of (DS_codes s) c = Some b"
      "\<And>c b. map_of (DS_userCodes s') c = Some b \<Longrightarrow> map_of (DS_userCodes s) c = Some b"
    and same: "DC_Code (device_at s' a) = DC_Code (device_at s a)"
      "DC_Realm (device_at s' a) = DC_Realm (device_at s a)"
      "DC_ClientUUID (device_at s' a) = DC_ClientUUID (device_at s a)"
      "DC_ExpiresAt (device_at s' a) = DC_ExpiresAt (device_at s a)"
    and mono: "DC_Denied (device_at s a) \<Longrightarrow> DC_Denied (device_at s' a)"
    and ev: "event_addr ev \<in> {None, Some a}" "\<And>b. ev = Denied b \<Longrightarrow> DC_Denied (device_at s' a)"
      "DC_UserID (device_at s' a) \<noteq> [] \<Longrightarrow> DC_UserID (device_at s' a) = DC_UserID (device_at s a)
           \<and> DC_SessionID (device_at s' a) = DC_SessionID (device_at s a)
         \<or> ev = Approved a (DC_UserID (device_at s' a)) (DC_SessionID (device_at s' a))"
      "\<And>t r c u sid. ev = Redeemed t a r c u sid \<Longrightarrow> a \<notin> ran (map_of (DS_codes s'))"
  shows "device_inv (es @ [ev]) s'"
  unfolding device_inv_def
proof (intro conjI allI impI ballI)
  note d = device_invD [OF inv]
  have keep: "DC_Code (device_at s' b) = DC_Code (device_at s b)"
    "DC_Realm (device_at s' b) = DC_Realm (device_at s b)"
    "DC_ClientUUID (device_at s' b) = DC_ClientUUID (device_at s b)"
    "DC_ExpiresAt (device_at s' b) = DC_ExpiresAt (device_at s b)" for b
    using same s'(2) by (cases "b = a"; simp)+
  fix c b assume b: "map_of (DS_codes s') c = Some b"
  show "b < DS_next s'" "DC_Code (device_at s' b) = c" using d(1) [OF s'(3) [OF b]] s'(1) keep by simp_all
next
  fix u b assume "map_of (DS_userCodes s') u = Some b"
  from device_invD(2) [OF inv s'(4) [OF this]] show "b < DS_next s'" using s'(1) by simp
next
  fix b assume "b < DS_next s'"
  then show "\<exists>t l. Minted t b (DC_Realm (device_at s' b)) (DC_ClientUUID (device_at s' b)) l \<in> set (es @ [ev])
      \<and> DC_ExpiresAt (device_at s' b) = t + l"
    using device_invD(3) [OF inv, of b] s'(1,2) same by (cases "b = a") auto
next
  fix b assume "b < DS_next s'" "DC_UserID (device_at s' b) \<noteq> []"
  then show "Approved b (DC_UserID (device_at s' b)) (DC_SessionID (device_at s' b)) \<in> set (es @ [ev])"
    using device_invD(4) [OF inv, of b] s'(1,2) ev(3) by (cases "b = a") auto
next
  fix b assume "b < DS_next s'" "Denied b \<in> set (es @ [ev])"
  then show "DC_Denied (device_at s' b)"
    using device_invD(5) [OF inv, of b] s'(1,2) ev(1,2) mono by (cases "b = a") auto
next
  fix t b r c u sid assume "Redeemed t b r c u sid \<in> set (es @ [ev])"
  then show "b \<notin> ran (map_of (DS_codes s'))"
    using device_invD(6) [OF inv, of t b r c u sid] s'(3) ev(1,4) by (fastforce simp: ran_def)
next
  fix e b assume "e \<in> set (es @ [ev])" "event_addr e = Some b"
  then show "b < DS_next s'" using device_invD(7) [OF inv] assms(2) s'(1) ev(1) by fastforce
qed

lemma device_inv_step:
  assumes inv: "device_inv es s" and step: "device_step (s, t) ev (s', t')"
  shows "device_inv (es @ [ev]) s'"
  using step
proof (cases rule: device_step.cases)
  case tick
  then show ?thesis using inv by (auto simp: device_inv_def)
next
  case (mint e realm cid scope interval lifespan a e')
  then show ?thesis using device_inv_mint [OF inv] by blast
next
  case (approve uc uid sid a)
  have "s' = s\<lparr>DS_heap := (DS_heap s)(a \<mapsto> (device_at s a)\<lparr>DC_UserID := uid, DC_SessionID := sid\<rparr>)\<rparr>"
    using approve by (auto simp: approveDeviceCode_def split: if_splits)
  then show ?thesis unfolding approve(1)
    by (intro device_inv_update [OF inv device_invD(2) [OF inv approve(4)]]) (auto simp: device_at_def)
next
  case (deny uc a)
  have "s' = s\<lparr>DS_heap := (DS_heap s)(a \<mapsto> (device_at s a)\<lparr>DC_Denied := True\<rparr>)\<rparr>"
    using deny by (auto simp: denyDeviceCode_def split: if_splits)
  then show ?thesis unfolding deny(1)
    by (intro device_inv_update [OF inv device_invD(2) [OF inv deny(4)]]) (auto simp: device_at_def)
next
  case (poll_redeem realm client code a)
  then obtain b where b: "map_of (DS_codes s) code = Some a" "s' = spendDeviceCode (stampPoll s t a) a"
    by (elim poll_cases) auto
  note a = device_invD(1) [OF inv b(1)]
  have st: "map_of (DS_codes s') = (map_of (DS_codes s))(code := None)"
    using b(2) a by (simp add: spendDeviceCode_def stampPoll_def device_at_def AList.delete_conv')
  have "a \<notin> ran (map_of (DS_codes s'))"
    using device_invD(1) [OF inv, of _ a] a unfolding st ran_def by auto
  then show ?thesis using b(2) a unfolding poll_redeem(1)
    by (intro device_inv_update [OF inv, of a])
      (auto simp: device_at_def spendDeviceCode_def stampPoll_def AList.delete_conv' split: if_splits)
next
  case (poll_refused realm client code err desc)
  then consider "s' = s" | a where "map_of (DS_codes s) code = Some a" "s' = stampPoll s t a"
    by (elim poll_cases) auto
  then show ?thesis
  proof cases
    case 1
    then show ?thesis using inv poll_refused(1) by (auto simp: device_inv_def)
  next
    case (2 a)
    then show ?thesis using device_invD(1) [OF inv 2(1)] unfolding poll_refused(1)
      by (intro device_inv_update [OF inv, of a]) (auto simp: device_at_def stampPoll_def)
  qed
qed

lemma device_run_inv: "device_run es (s, t) \<Longrightarrow> device_inv es s"
proof (induction es "(s, t)" arbitrary: s t rule: device_run.induct)
  case (start t)
  then show ?case by (simp add: device_inv_def newDeviceStore_def)
next
  case (step es st ev s' t')
  then show ?case using device_inv_step by (cases st) blast
qed

text \<open>
  C30. In every history of the device store in which polls are not interleaved, a poll that redeems a
  device code at time \<open>t\<close> does so for a code that was minted for that very realm and client and has
  not expired, that somebody approved as that very user and session, that nobody has denied, and that
  no earlier poll has redeemed.
\<close>

theorem device_redemption_authorised:
  assumes "device_run (es @ [Redeemed t a realm cid uid sid]) st"
  shows "(\<exists>t0 lifespan. Minted t0 a realm cid lifespan \<in> set es \<and> t \<le> t0 + lifespan)
     \<and> uid \<noteq> [] \<and> Approved a uid sid \<in> set es \<and> Denied a \<notin> set es
     \<and> (\<forall>t' r' c' u' s'. Redeemed t' a r' c' u' s' \<notin> set es)"
proof -
  obtain st0 where run: "device_run es st0" and step: "device_step st0 (Redeemed t a realm cid uid sid) st"
    using assms by (cases rule: device_run_snoc)
  obtain s t0 where st0: "st0 = (s, t0)" by (cases st0)
  obtain s' t' where st: "st = (s', t')" by (cases st)
  note inv = device_run_inv [OF run [unfolded st0]]
  from step [unfolded st0 st] show ?thesis
  proof (cases rule: device_step.cases)
    case (poll_redeem client code)
    then obtain "map_of (DS_codes s) code = Some a" "DC_Realm (device_at s a) = realm"
        "t \<le> DC_ExpiresAt (device_at s a)" "DC_ClientUUID (device_at s a) = Client_ID client"
        "\<not> DC_Denied (device_at s a)" "DC_UserID (device_at s a) \<noteq> []"
      by (elim poll_cases) auto
    note p = this
    have lt: "a < DS_next s" using device_invD(1) [OF inv p(1)] by simp
    have "a \<in> ran (map_of (DS_codes s))" using p(1) by (rule ranI)
    then have "\<forall>t' r' c' u' s'. Redeemed t' a r' c' u' s' \<notin> set es" using device_invD(6) [OF inv] by blast
    moreover obtain t1 l where "Minted t1 a realm cid l \<in> set es" "DC_ExpiresAt (device_at s a) = t1 + l"
      using device_invD(3) [OF inv lt] p(2,4) poll_redeem by auto
    then have "\<exists>t0 l. Minted t0 a realm cid l \<in> set es \<and> t \<le> t0 + l" using p(3) by auto
    ultimately show ?thesis
      using poll_redeem p device_invD(4) [OF inv lt p(6)] device_invD(5) [OF inv lt] by auto
  qed
qed

definition sample_client :: client where
  "sample_client = \<lparr>Client_ID = ''c1'', Client_RealmID = ''r1'', Client_ClientID = ''tv'', Client_Name = [],
     Client_Description = [], Client_RootURL = [], Client_BaseURL = [], Client_Enabled = True,
     Client_PublicClient = True, Client_Secret = [], Client_Protocol = ''openid-connect'',
     Client_ClientAuthenticatorType = [], Client_SurrogateAuthRequired = False,
     Client_AlwaysDisplayInConsole = False, Client_BearerOnly = False, Client_ConsentRequired = False,
     Client_StandardFlowEnabled = True, Client_ImplicitFlowEnabled = False,
     Client_DirectAccessGrantsEnabled = False, Client_ServiceAccountsEnabled = False,
     Client_AuthorizationServicesEnabled = False, Client_FrontchannelLogout = False,
     Client_FullScopeAllowed = True, Client_NotBefore = 0, Client_NodeReRegistrationTimeout = 0,
     Client_RedirectURIs = [], Client_WebOrigins = [], Client_DefaultClientScopes = [],
     Client_OptionalClientScopes = [], Client_Attributes = [(attrDeviceGrantEnabled, ''true'')],
     Client_ProtocolMappers = [], Client_RegisteredNodes = []\<rparr>"

definition sample_device :: device_code where
  "sample_device = (device_request ''demo'' ''c1'' ''openid'' (5 * second))
     \<lparr>DC_Code := b64_encode (replicate 32 0), DC_UserCode := ''AAAA-AAAA'', DC_ExpiresAt := 600 * second\<rparr>"

definition sample_devices :: device_store where
  "sample_devices = \<lparr>DS_codes = [(b64_encode (replicate 32 0), 0)], DS_userCodes = [(''AAAA-AAAA'', 0)],
     DS_heap = [0 \<mapsto> sample_device], DS_next = 1\<rparr>"

definition sample_approved :: device_store where
  "sample_approved = sample_devices
     \<lparr>DS_heap := [0 \<mapsto> sample_device\<lparr>DC_UserID := ''u1'', DC_SessionID := ''s1''\<rparr>]\<rparr>"

lemma sample_mint:
  "newDeviceCode newDeviceStore 0 (replicate 40 0) (device_request ''demo'' ''c1'' ''openid'' (5 * second)) (600 * second)
     = Some ((0, sample_devices), [])"
proof -
  have "randomUserCode (replicate 8 0) = Some (''AAAA-AAAA'', [])"
    by code_simp
  moreover have "randomBase64URL deviceCodeBytes (replicate 40 0) = Some (b64_encode (replicate 32 0), replicate 8 0)"
    by (simp add: randomBase64URL_def rand_read_def deviceCodeBytes_def)
  moreover have "device_sweepLocked newDeviceStore 0 = newDeviceStore"
    by (simp add: device_sweepLocked_def newDeviceStore_def)
  moreover have "[0 \<mapsto> x] = (\<lambda>_. None)(0 \<mapsto> x)" for x :: device_code by simp
  ultimately show ?thesis
    by (simp add: newDeviceCode_def Let_def newDeviceStore_def sample_devices_def sample_device_def)
qed

lemma sample_approve:
  "approveDeviceCode sample_devices 0 ''AAAA-AAAA'' ''u1'' ''s1'' = (True, sample_approved)"
  by (simp add: approveDeviceCode_def sample_approved_def sample_devices_def device_at_def sample_device_def second_def)

lemma sample_poll:
  "deviceCodeGrant_poll 0 ''demo'' sample_client (b64_encode (replicate 32 0)) sample_approved
     = (spendDeviceCode (stampPoll sample_approved 0 0) 0, PollRedeem 0)"
proof -
  have "device_at sample_approved 0 = sample_device\<lparr>DC_UserID := ''u1'', DC_SessionID := ''s1''\<rparr>"
    by (simp add: device_at_def sample_approved_def)
  moreover have "deviceCodeByCode sample_approved ''demo'' (b64_encode (replicate 32 0)) = Some 0"
    by (simp add: deviceCodeByCode_def sample_approved_def sample_devices_def device_at_def sample_device_def
        device_request_def)
  ultimately show ?thesis
    by (simp add: deviceCodeGrant_poll_ladder sample_device_def device_request_def sample_client_def second_def)
qed

lemma sample_device_run:
  "device_run [Minted 0 0 ''demo'' ''c1'' (600 * second), Approved 0 ''u1'' ''s1''] (sample_approved, 0)"
proof -
  have "device_run ([] @ [Minted 0 0 ''demo'' ''c1'' (600 * second)]) (sample_devices, 0)"
    by (rule device_run.step [OF device_run.start mint [OF sample_mint]])
  then have "device_run (([] @ [Minted 0 0 ''demo'' ''c1'' (600 * second)]) @ [Approved 0 ''u1'' ''s1''])
      (sample_approved, 0)"
    by (rule device_run.step [OF _ approve [OF sample_approve]]) (simp add: sample_devices_def)
  then show ?thesis by simp
qed

theorem device_redemption_authorised_witness:
  "\<exists>st. device_run ([Minted 0 0 ''demo'' ''c1'' (600 * second), Approved 0 ''u1'' ''s1'']
       @ [Redeemed 0 0 ''demo'' ''c1'' ''u1'' ''s1'']) st
     \<and> Denied 0 \<notin> set [Minted 0 0 ''demo'' ''c1'' (600 * second), Approved 0 ''u1'' ''s1'']"
proof -
  from device_run.step [OF sample_device_run poll_redeem [OF sample_poll]]
  have "device_run ([Minted 0 0 ''demo'' ''c1'' (600 * second), Approved 0 ''u1'' ''s1'']
       @ [Redeemed 0 0 ''demo'' ''c1'' ''u1'' ''s1'']) (spendDeviceCode (stampPoll sample_approved 0 0) 0, 0)"
    by (simp add: sample_approved_def device_at_def sample_client_def)
  from this device_redemption_authorised [OF this] show ?thesis by blast
qed

section \<open>Overlapping polls\<close>

text \<open>
  Two requests that poll the same code at once. Each entry of the schedule lets one of them take its
  next micro-step; the store operations themselves are locked, nothing else is.
\<close>

definition race_step ::
  "time \<Rightarrow> string \<Rightarrow> client \<Rightarrow> string \<Rightarrow> bool \<Rightarrow> device_store \<times> poll_state \<times> poll_state
     \<Rightarrow> device_store \<times> poll_state \<times> poll_state" where
  "race_step now realm client code first c =
    (case c of (s, p, q) \<Rightarrow>
       if first then (case poll_step now realm client code s p of (s', p') \<Rightarrow> (s', p', q))
       else (case poll_step now realm client code s q of (s', q') \<Rightarrow> (s', p, q')))"

definition race :: "time \<Rightarrow> string \<Rightarrow> client \<Rightarrow> string \<Rightarrow> bool list \<Rightarrow> device_store
     \<Rightarrow> device_store \<times> poll_state \<times> poll_state" where
  "race now realm client code schedule s =
     fold (race_step now realm client code) schedule (s, PollStart, PollStart)"

text \<open>
  C40. The removal of a redeemed code does not look whether the code is still there, so the single use
  of a device code rests on polls not overlapping: whenever one poll would redeem a code, two polls
  that take their micro-steps in turn both redeem it, although run one after the other the second
  is refused.
\<close>

theorem device_poll_race:
  assumes "device_run es (s, now)" and "deviceCodeGrant_poll now realm client code s = (s', PollRedeem a)"
  shows "snd (race now realm client code [True, False, True, False, True, False, True, False, True, False] s)
      = (PollRedeem a, PollRedeem a)
    \<and> snd (deviceCodeGrant_poll now realm client code s') = PollError ''invalid_grant'' ''Device code not valid''"
proof (cases "deviceCodeByCode s realm code")
  case (Some b)
  let ?dc = "device_at s b"
  have c: "b = a" "s' = spendDeviceCode (stampPoll s now a) a" "now \<le> DC_ExpiresAt ?dc"
      "DC_ClientUUID ?dc = Client_ID client" "\<not> (DC_LastPoll ?dc \<noteq> zero_time \<and> now - DC_LastPoll ?dc < DC_Interval ?dc)"
      "\<not> DC_Denied ?dc" "DC_UserID ?dc \<noteq> []"
    using assms Some by (auto simp: deviceCodeGrant_poll_ladder Let_def split: if_splits)
  have st: "device_at (stampPoll x now b) b = (device_at x b)\<lparr>DC_LastPoll := now\<rparr>" for x
    by (simp add: stampPoll_def device_at_def)
  have "snd (race now realm client code [True, False, True, False, True, False, True, False, True, False] s)
      = (PollRedeem b, PollRedeem b)"
    using Some c(3-7) by (simp add: race_def race_step_def poll_step_def Let_def st)
  moreover have "deviceCodeByCode s' realm code = None"
  proof -
    have "map_of (DS_codes s) code = Some a" using Some c(1) by (auto simp: deviceCodeByCode_def split: option.splits if_splits)
    then have "DC_Code (device_at s a) = code" using device_invD(1) [OF device_run_inv [OF assms(1)]] by blast
    then show ?thesis
      using c(1,2) st [of s] by (simp add: deviceCodeByCode_def spendDeviceCode_def stampPoll_def AList.delete_conv)
  qed
  ultimately show ?thesis using c(1) by (simp add: deviceCodeGrant_poll_ladder)
qed (use assms(2) in \<open>simp add: deviceCodeGrant_poll_ladder\<close>)

theorem device_poll_race_witness:
  "snd (race 0 ''demo'' sample_client (b64_encode (replicate 32 0))
      [True, False, True, False, True, False, True, False, True, False] sample_approved)
    = (PollRedeem 0, PollRedeem 0)"
  using device_poll_race [OF sample_device_run sample_poll] by blast

end
