(* ===== verification/Json.thy ===== *)
theory Json
  imports GoStd "HOL-Library.Countable"
begin

text \<open>
  \<^verbatim>\<open>encoding/json\<close>, as far as the program uses it: JSON values, the text \<^verbatim>\<open>json.Marshal\<close> writes for one,
  and the syntactic half of \<^verbatim>\<open>json.Unmarshal\<close>, which accepts a text or refuses it and decodes its string
  literals. Texts are byte sequences. A value written and read back is the value, as long as its strings
  are valid UTF-8 and its nesting is within the decoder's bound.
\<close>

section \<open>Values\<close>

datatype json =
    JNull
  | JBool bool
  | JInt int
  | JFloat string
  | JStr string
  | JArr "json list"
  | JObj "(string \<times> json) list"

instance json :: countable
  by countable_datatype

text \<open>
  The payloads whose text decodes to themselves: every string is valid UTF-8, since \<^verbatim>\<open>encoding/json\<close>
  replaces the bytes that are not.
\<close>

definition valid_utf8 :: "string \<Rightarrow> bool" where
  "valid_utf8 s \<longleftrightarrow> string_of_runes (runes s) = s"

fun json_ok :: "json \<Rightarrow> bool" where
  "json_ok (JStr s) = valid_utf8 s"
| "json_ok (JArr js) = list_all json_ok js"
| "json_ok (JObj ps) = list_all (\<lambda>p. valid_utf8 (fst p) \<and> json_ok (snd p)) ps"
| "json_ok _ = True"

section \<open>Writing\<close>

definition hex_digit :: "nat \<Rightarrow> nat" where
  "hex_digit n = (if n < 10 then 48 + n else 87 + n)"

text \<open>A rune inside a string literal, with HTML escaping on, as \<^verbatim>\<open>json.Marshal\<close> has it.\<close>

definition quote_chunk :: "rune \<times> nat list \<Rightarrow> nat list" where
  "quote_chunk c =
    (case c of (r, bs) \<Rightarrow>
       if r < 128
       then (if r = 34 \<or> r = 92 then [92, r]
             else if r = 8 then [92, 98] else if r = 12 then [92, 102] else if r = 10 then [92, 110]
             else if r = 13 then [92, 114] else if r = 9 then [92, 116]
             else if r < 32 \<or> r = 60 \<or> r = 62 \<or> r = 38
             then [92, 117, 48, 48, hex_digit (r div 16), hex_digit (r mod 16)]
             else [r])
       else if r = rune_error \<and> length bs = 1 then [92, 117, 102, 102, 102, 100]
       else if r = 8232 \<or> r = 8233 then [92, 117, 50, 48, 50, hex_digit (r mod 16)]
       else bs)"

definition quote_string :: "string \<Rightarrow> nat list" where
  "quote_string s = [34] @ concat (map quote_chunk (rune_chunks (string_bytes s))) @ [34]"

function nat_digits :: "nat \<Rightarrow> nat list" where
  "nat_digits n = (if n < 10 then [48 + n] else nat_digits (n div 10) @ [48 + n mod 10])"
  by pat_completeness auto
termination nat_digits by (relation "measure id") auto

declare nat_digits.simps [simp del]

definition int_digits :: "int \<Rightarrow> nat list" where
  "int_digits i = (if i < 0 then [45] @ nat_digits (nat (- i)) else nat_digits (nat i))"

fun sep_concat :: "nat \<Rightarrow> nat list list \<Rightarrow> nat list" where
  "sep_concat c [] = []"
| "sep_concat c [x] = x"
| "sep_concat c (x # y # xs) = x @ [c] @ sep_concat c (y # xs)"

fun json_text :: "json \<Rightarrow> nat list" where
  "json_text JNull = [110, 117, 108, 108]"
| "json_text (JBool b) = (if b then [116, 114, 117, 101] else [102, 97, 108, 115, 101])"
| "json_text (JInt i) = int_digits i"
| "json_text (JFloat t) = string_bytes t"
| "json_text (JStr s) = quote_string s"
| "json_text (JArr js) = [91] @ sep_concat 44 (map json_text js) @ [93]"
| "json_text (JObj ps) = [123] @ sep_concat 44 (map (\<lambda>p. quote_string (fst p) @ [58] @ json_text (snd p)) ps) @ [125]"

section \<open>Reading\<close>

definition is_digit :: "nat \<Rightarrow> bool" where
  "is_digit b \<longleftrightarrow> 48 \<le> b \<and> b \<le> 57"

definition hex_value :: "nat \<Rightarrow> nat option" where
  "hex_value b =
    (if is_digit b then Some (b - 48) else if 97 \<le> b \<and> b \<le> 102 then Some (b - 87)
     else if 65 \<le> b \<and> b \<le> 70 then Some (b - 55) else None)"

definition json_space :: "nat \<Rightarrow> bool" where
  "json_space b \<longleftrightarrow> b = 32 \<or> b = 9 \<or> b = 13 \<or> b = 10"

definition skip_space :: "nat list \<Rightarrow> nat list" where
  "skip_space bs = dropWhile json_space bs"

definition first_to :: "'a list \<Rightarrow> ('a list \<times> 'b) option \<Rightarrow> ('a list \<times> 'b) option" where
  "first_to xs m = map_option (\<lambda>(ys, r). (xs @ ys, r)) m"

text \<open>The body of a string literal up to its closing quote, and what follows it.\<close>

fun scan_string :: "nat list \<Rightarrow> (nat list \<times> nat list) option" where
  "scan_string [] = None"
| "scan_string (b # bs) =
     (if b = 34 then Some ([], bs)
      else if b = 92
      then (case bs of
              [] \<Rightarrow> None
            | c # cs \<Rightarrow>
                if c = 98 \<or> c = 102 \<or> c = 110 \<or> c = 114 \<or> c = 116 \<or> c = 92 \<or> c = 47 \<or> c = 34
                then first_to [b, c] (scan_string cs)
                else if c = 117
                then (case cs of
                        h1 # h2 # h3 # h4 # ds \<Rightarrow>
                          if list_all (\<lambda>x. hex_value x \<noteq> None) [h1, h2, h3, h4]
                          then first_to [b, c, h1, h2, h3, h4] (scan_string ds) else None
                      | _ \<Rightarrow> None)
                else None)
      else if b < 32 then None
      else first_to [b] (scan_string bs))"

text \<open>\<^verbatim>\<open>getu4\<close>: the code unit of an escape at the front.\<close>

definition getu4 :: "nat list \<Rightarrow> nat option" where
  "getu4 bs =
    (case bs of
       b # c # h1 # h2 # h3 # h4 # _ \<Rightarrow>
         if b = 92 \<and> c = 117
         then (case (hex_value h1, hex_value h2, hex_value h3, hex_value h4) of
                 (Some a1, Some a2, Some a3, Some a4) \<Rightarrow> Some (((a1 * 16 + a2) * 16 + a3) * 16 + a4)
               | _ \<Rightarrow> None)
         else None
     | _ \<Rightarrow> None)"

definition unescape :: "nat \<Rightarrow> nat" where
  "unescape c = (if c = 98 then 8 else if c = 102 then 12 else if c = 110 then 10
     else if c = 114 then 13 else if c = 116 then 9 else c)"

lemma decode_rune_drop: "bs \<noteq> [] \<Longrightarrow> length bs - snd (decode_rune bs) < length bs"
  using decode_rune_width [of bs] by (cases bs) auto

text \<open>\<^verbatim>\<open>unquoteBytes\<close> on a scanned body: escapes, surrogate pairs, and bytes that are no UTF-8.\<close>

function unquote :: "nat list \<Rightarrow> nat list" where
  "unquote bs =
    (if bs = [] then []
     else case getu4 bs of
         Some u \<Rightarrow>
           if 55296 \<le> u \<and> u < 57344
           then (case getu4 (drop 6 bs) of
                   Some v \<Rightarrow>
                     if u < 56320 \<and> 56320 \<le> v \<and> v < 57344
                     then encode_rune ((u - 55296) * 1024 + (v - 56320) + 65536) @ unquote (drop 12 bs)
                     else encode_rune rune_error @ unquote (drop 6 bs)
                 | None \<Rightarrow> encode_rune rune_error @ unquote (drop 6 bs))
           else encode_rune u @ unquote (drop 6 bs)
       | None \<Rightarrow>
           if hd bs = 92 \<and> tl bs \<noteq> [] then unescape (hd (tl bs)) # unquote (drop 2 bs)
           else encode_rune (fst (decode_rune bs)) @ unquote (drop (snd (decode_rune bs)) bs))"
  by pat_completeness auto
termination unquote
  by (relation "measure length") (auto simp: decode_rune_drop)

declare unquote.simps [simp del]

definition read_string :: "nat list \<Rightarrow> (string \<times> nat list) option" where
  "read_string bs = map_option (\<lambda>(raw, rest). (bytes_string (unquote raw), rest)) (scan_string bs)"

definition digits_nat :: "nat list \<Rightarrow> nat" where
  "digits_nat ds = foldl (\<lambda>n d. 10 * n + (d - 48)) 0 ds"

text \<open>A number: its text, and the integer it names when it has neither fraction nor exponent.\<close>

definition scan_fraction :: "nat list \<Rightarrow> (nat list \<times> nat list) option" where
  "scan_fraction bs =
    (case bs of
       b # cs \<Rightarrow>
         if b = 46
         then (if takeWhile is_digit cs = [] then None
               else Some (b # takeWhile is_digit cs, dropWhile is_digit cs))
         else Some ([], bs)
     | [] \<Rightarrow> Some ([], []))"

definition scan_exponent :: "nat list \<Rightarrow> (nat list \<times> nat list) option" where
  "scan_exponent bs =
    (case bs of
       b # cs \<Rightarrow>
         if b = 101 \<or> b = 69
         then (let (sign, ds) = (case cs of c # ds \<Rightarrow> if c = 43 \<or> c = 45 then ([c], ds) else ([], cs) | [] \<Rightarrow> ([], []))
               in if takeWhile is_digit ds = [] then None
                  else Some (b # sign @ takeWhile is_digit ds, dropWhile is_digit ds))
         else Some ([], bs)
     | [] \<Rightarrow> Some ([], []))"

definition scan_integer :: "nat list \<Rightarrow> (nat list \<times> nat list) option" where
  "scan_integer bs =
    (case bs of
       [] \<Rightarrow> None
     | b # cs \<Rightarrow>
         if b = 48 then Some ([b], cs)
         else if is_digit b then Some (b # takeWhile is_digit cs, dropWhile is_digit cs)
         else None)"

definition scan_unsigned :: "nat list \<Rightarrow> nat list \<Rightarrow> (json \<times> nat list) option" where
  "scan_unsigned sign ds =
    (case scan_integer ds of
       None \<Rightarrow> None
     | Some (whole, r1) \<Rightarrow>
         (case scan_fraction r1 of
            None \<Rightarrow> None
          | Some (fraction, r2) \<Rightarrow>
              (case scan_exponent r2 of
                 None \<Rightarrow> None
               | Some (exponent, r3) \<Rightarrow>
                   Some (if fraction = [] \<and> exponent = []
                         then JInt ((if sign = [] then 1 else - 1) * int (digits_nat whole))
                         else JFloat (bytes_string (sign @ whole @ fraction @ exponent)), r3))))"

definition scan_number :: "nat list \<Rightarrow> (json \<times> nat list) option" where
  "scan_number bs =
    (case bs of
       [] \<Rightarrow> None
     | b # cs \<Rightarrow> if b = 45 then scan_unsigned [b] cs else scan_unsigned [] bs)"

definition expect :: "nat list \<Rightarrow> json \<Rightarrow> nat list \<Rightarrow> (json \<times> nat list) option" where
  "expect word j bs =
    (if take (length word) bs = word then Some (j, drop (length word) bs) else None)"

text \<open>
  A value nested at most \<open>d\<close> deep at the front of the text and what follows it. The first argument
  bounds the recursion; a bound above twice the number of bytes is enough for every text.
\<close>

fun parse_value :: "nat \<Rightarrow> nat \<Rightarrow> nat list \<Rightarrow> (json \<times> nat list) option"
  and parse_elems :: "nat \<Rightarrow> nat \<Rightarrow> nat list \<Rightarrow> (json list \<times> nat list) option"
  and parse_members :: "nat \<Rightarrow> nat \<Rightarrow> nat list \<Rightarrow> ((string \<times> json) list \<times> nat list) option"
where
  "parse_value 0 d bs = None"
| "parse_value (Suc n) d bs =
    (case skip_space bs of
       [] \<Rightarrow> None
     | b # r \<Rightarrow>
         if b = 123
         then (if d = 0 then None
               else if skip_space r \<noteq> [] \<and> hd (skip_space r) = 125 then Some (JObj [], tl (skip_space r))
               else map_option (\<lambda>(ps, r). (JObj ps, r)) (parse_members n (d - 1) (skip_space r)))
         else if b = 91
         then (if d = 0 then None
               else if skip_space r \<noteq> [] \<and> hd (skip_space r) = 93 then Some (JArr [], tl (skip_space r))
               else map_option (\<lambda>(js, r). (JArr js, r)) (parse_elems n (d - 1) (skip_space r)))
         else if b = 34 then map_option (\<lambda>(s, r). (JStr s, r)) (read_string r)
         else if b = 116 then expect [116, 114, 117, 101] (JBool True) (b # r)
         else if b = 102 then expect [102, 97, 108, 115, 101] (JBool False) (b # r)
         else if b = 110 then expect [110, 117, 108, 108] JNull (b # r)
         else scan_number (b # r))"
| "parse_elems 0 d bs = None"
| "parse_elems (Suc n) d bs =
    (case parse_value n d bs of
       None \<Rightarrow> None
     | Some (j, r) \<Rightarrow>
         (case skip_space r of
            [] \<Rightarrow> None
          | b # r \<Rightarrow>
              if b = 44 then first_to [j] (parse_elems n d r)
              else if b = 93 then Some ([j], r) else None))"
| "parse_members 0 d bs = None"
| "parse_members (Suc n) d bs =
    (case skip_space bs of
       [] \<Rightarrow> None
     | q # r \<Rightarrow>
         if q \<noteq> 34 then None
         else (case read_string r of
                 None \<Rightarrow> None
               | Some (k, r) \<Rightarrow>
                   (case skip_space r of
                      [] \<Rightarrow> None
                    | c # r \<Rightarrow>
                        if c \<noteq> 58 then None
                        else (case parse_value n d r of
                                None \<Rightarrow> None
                              | Some (j, r) \<Rightarrow>
                                  (case skip_space r of
                                     [] \<Rightarrow> None
                                   | b # r \<Rightarrow>
                                       if b = 44 then first_to [(k, j)] (parse_members n d r)
                                       else if b = 125 then Some ([(k, j)], r) else None)))))"

definition maxNestingDepth :: nat where "maxNestingDepth = 10000"

definition json_parse :: "nat list \<Rightarrow> json option" where
  "json_parse bs =
    (case parse_value (Suc (2 * length bs)) maxNestingDepth bs of
       None \<Rightarrow> None
     | Some (j, r) \<Rightarrow> if skip_space r = [] then Some j else None)"

section \<open>Strings survive\<close>

lemma first_to_simps [simp]:
  "first_to [] m = m" "first_to xs (first_to ys m) = first_to (xs @ ys) m"
  "first_to xs (Some (ys, r)) = Some (xs @ ys, r)" "first_to xs None = None"
  by (cases m; auto simp: first_to_def)+

lemma hex_round [simp]: "n < 16 \<Longrightarrow> hex_value (hex_digit n) = Some n"
  by (auto simp: hex_value_def hex_digit_def is_digit_def)

lemma hex_numerals [simp]: "hex_value 48 = Some 0" "hex_value 50 = Some 2"
  by (simp_all add: hex_value_def is_digit_def)

lemma encode_rune_high: "128 \<le> r \<Longrightarrow> list_all (\<lambda>b. 128 \<le> b) (encode_rune r)"
  by (auto simp: encode_rune_def)

lemma scan_string_high: "list_all (\<lambda>b. 128 \<le> b) bs \<Longrightarrow> scan_string (bs @ xs) = first_to bs (scan_string xs)"
  by (induction bs) auto

abbreviation quoted_rune :: "rune \<Rightarrow> nat list" where
  "quoted_rune r \<equiv> quote_chunk (r, encode_rune r)"

lemma encode_rune_width: "128 \<le> r \<Longrightarrow> length (encode_rune r) \<noteq> 1"
  by (auto simp: encode_rune_def)

lemma scan_quoted_rune: "scan_string (quoted_rune r @ xs) = first_to (quoted_rune r) (scan_string xs)"
proof (cases "r < 128")
  case True
  then show ?thesis by (auto simp: quote_chunk_def encode_rune_def hex_value_def is_digit_def hex_digit_def)
next
  case False
  then show ?thesis using encode_rune_width [of r] scan_string_high [OF encode_rune_high]
    by (auto simp: quote_chunk_def hex_value_def is_digit_def hex_digit_def)
qed

lemma scan_quoted: "scan_string (concat (map quoted_rune rs) @ xs) = first_to (concat (map quoted_rune rs)) (scan_string xs)"
  by (induction rs) (simp_all add: scan_quoted_rune)

lemma getu4_escape:
  "a < 16 \<Longrightarrow> b < 16 \<Longrightarrow> getu4 (92 # 117 # 48 # 48 # hex_digit a # hex_digit b # xs) = Some (a * 16 + b)"
  "b < 16 \<Longrightarrow> getu4 (92 # 117 # 50 # 48 # 50 # hex_digit b # xs) = Some (8224 + b)"
  by (simp_all add: getu4_def)

lemma getu4_plain: "b \<noteq> 92 \<Longrightarrow> getu4 (b # xs) = None" "c \<noteq> 117 \<Longrightarrow> getu4 (92 # c # xs) = None"
  by (auto simp: getu4_def split: list.splits)

lemma unquote_quoted_rune:
  assumes "scalar r"
  shows "unquote (quoted_rune r @ xs) = encode_rune r @ unquote xs"
proof (cases "r < 128")
  case True
  then show ?thesis
    by (subst unquote.simps)
      (auto simp: quote_chunk_def getu4_escape getu4_plain unescape_def encode_rune_def decode_rune_def)
next
  case False
  then have high: "hd (encode_rune r @ xs) \<noteq> 92" "encode_rune r @ xs \<noteq> []"
    using encode_rune_high [of r] by (cases "encode_rune r"; auto)+
  then have none: "getu4 (encode_rune r @ xs) = None"
    by (cases "encode_rune r @ xs") (auto simp: getu4_plain)
  show ?thesis
  proof (cases "r = 8232 \<or> r = 8233")
    case True
    then show ?thesis by (subst unquote.simps) (auto simp: quote_chunk_def getu4_escape)
  next
    case other: False
    then have "quoted_rune r = encode_rune r" using False encode_rune_width [of r] by (auto simp: quote_chunk_def)
    then show ?thesis
      using high none decode_encode_rune [OF assms, of xs] by (subst unquote.simps) simp
  qed
qed

lemma unquote_quoted: "list_all scalar rs \<Longrightarrow> unquote (concat (map quoted_rune rs)) = concat (map encode_rune rs)"
  by (induction rs) (simp_all add: unquote_quoted_rune unquote.simps [of "[]"])

lemma valid_utf8_chunks:
  assumes "valid_utf8 s"
  shows "rune_chunks (string_bytes s) = map (\<lambda>r. (r, encode_rune r)) (runes s)"
proof -
  have "list_all (\<lambda>b. b < 256) (concat (map encode_rune (runes s)))"
    by (auto simp: list_all_iff dest: encode_rune_bound)
  then have "string_bytes (string_of_runes (runes s)) = concat (map encode_rune (runes s))"
    unfolding string_of_runes_def by (rule string_bytes_string)
  then have "string_bytes s = concat (map encode_rune (runes s))"
    using assms by (simp add: valid_utf8_def)
  then show ?thesis using rune_chunks_encode [OF runes_scalar] by metis
qed

lemma read_quoted:
  assumes "valid_utf8 s"
  shows "read_string (tl (quote_string s) @ xs) = Some (s, xs)"
proof -
  have q: "quote_string s = [34] @ concat (map quoted_rune (runes s)) @ [34]"
    using valid_utf8_chunks [OF assms] by (simp add: quote_string_def comp_def)
  have "scan_string (concat (map quoted_rune (runes s)) @ 34 # xs) = Some (concat (map quoted_rune (runes s)), xs)"
    by (simp add: scan_quoted)
  then show ?thesis
    using assms by (simp add: q read_string_def unquote_quoted [OF runes_scalar] valid_utf8_def string_of_runes_def)
qed

section \<open>Values survive\<close>

fun json_depth :: "json \<Rightarrow> nat" where
  "json_depth (JArr js) = Suc (fold max (map json_depth js) 0)"
| "json_depth (JObj ps) = Suc (fold max (map (\<lambda>p. json_depth (snd p)) ps) 0)"
| "json_depth _ = 0"

text \<open>The values the program writes hold no number but integers.\<close>

fun json_plain :: "json \<Rightarrow> bool" where
  "json_plain (JFloat t) = False"
| "json_plain (JArr js) = list_all json_plain js"
| "json_plain (JObj ps) = list_all (\<lambda>p. json_plain (snd p)) ps"
| "json_plain _ = True"

definition number_end :: "nat list \<Rightarrow> bool" where
  "number_end xs \<longleftrightarrow> (case xs of [] \<Rightarrow> True | x # _ \<Rightarrow> \<not> is_digit x \<and> x \<noteq> 46 \<and> x \<noteq> 101 \<and> x \<noteq> 69)"

lemma is_digit_add [simp]: "is_digit (48 + k) \<longleftrightarrow> k < 10"
  by (auto simp: is_digit_def)

lemma nat_digits_digits: "list_all is_digit (nat_digits n)"
  by (induction n rule: nat_digits.induct) (subst nat_digits.simps, simp)

lemma nat_digits_value: "digits_nat (nat_digits n) = n"
proof (induction n rule: nat_digits.induct)
  case (1 n)
  then show ?case by (subst nat_digits.simps) (simp add: digits_nat_def)
qed

lemma nat_digits_head: "nat_digits n = 48 # ds \<Longrightarrow> ds = [] \<and> n = 0"
proof (induction n arbitrary: ds rule: nat_digits.induct)
  case (1 n)
  show ?case
  proof (cases "n < 10")
    case False
    then have e: "nat_digits (n div 10) @ [48 + n mod 10] = 48 # ds"
      using 1(2) by (subst (asm) (1) nat_digits.simps) simp
    have "nat_digits (n div 10) \<noteq> []" by (subst nat_digits.simps) simp
    then obtain es where "nat_digits (n div 10) = 48 # es" using e by (cases "nat_digits (n div 10)") auto
    then have "n div 10 = 0" using 1(1) [OF False] by blast
    with False show ?thesis by simp
  qed (use 1(2) in \<open>simp add: nat_digits.simps\<close>)
qed

lemma takeWhile_digits:
  "list_all is_digit ds \<Longrightarrow> number_end xs \<Longrightarrow> takeWhile is_digit (ds @ xs) = ds \<and> dropWhile is_digit (ds @ xs) = xs"
  by (induction ds) (auto simp: number_end_def split: list.splits)

lemma scan_integer_digits:
  assumes "number_end xs"
  shows "scan_integer (nat_digits n @ xs) = Some (nat_digits n, xs)"
proof -
  obtain b ds where d: "nat_digits n = b # ds" by (cases "nat_digits n") (simp_all add: nat_digits.simps [of n] split: if_splits)
  then have "is_digit b" "list_all is_digit ds" using nat_digits_digits [of n] by auto
  then show ?thesis
    using d nat_digits_head [of n ds] takeWhile_digits [OF _ assms, of ds] by (auto simp: scan_integer_def)
qed

lemma scan_number_digits:
  assumes "number_end xs"
  shows "scan_number (int_digits i @ xs) = Some (JInt i, xs)"
proof -
  obtain b ds where d: "nat_digits (nat \<bar>i\<bar>) = b # ds"
    by (cases "nat_digits (nat \<bar>i\<bar>)") (simp_all add: nat_digits.simps [of "nat \<bar>i\<bar>"] split: if_splits)
  then have "b \<noteq> 45" using nat_digits_digits [of "nat \<bar>i\<bar>"] by (auto simp: is_digit_def)
  moreover have "scan_fraction xs = Some ([], xs)" "scan_exponent xs = Some ([], xs)"
    using assms by (auto simp: scan_fraction_def scan_exponent_def number_end_def split: list.splits)
  ultimately show ?thesis
    using scan_integer_digits [OF assms, of "nat \<bar>i\<bar>"] d nat_digits_value [of "nat \<bar>i\<bar>"]
    by (cases "i < 0") (auto simp: scan_number_def scan_unsigned_def int_digits_def)
qed

lemma int_digits_head: obtains b r where "int_digits i = b # r" "b = 45 \<or> is_digit b"
proof (cases "nat_digits (nat \<bar>i\<bar>)")
  case Nil
  then show thesis by (simp add: nat_digits.simps [of "nat \<bar>i\<bar>"] split: if_splits)
next
  case (Cons b r)
  then show thesis
    using that nat_digits_digits [of "nat \<bar>i\<bar>"] by (cases "i < 0") (auto simp: int_digits_def)
qed

lemma json_text_head:
  assumes "json_plain j"
  obtains b r where "json_text j = b # r" "\<not> json_space b" "b \<noteq> 93" "b \<noteq> 125"
proof (cases j)
  case (JInt i)
  obtain b r where "int_digits i = b # r" "b = 45 \<or> is_digit b" by (rule int_digits_head)
  then show thesis using that [of b r] JInt by (auto simp: json_space_def is_digit_def)
next
  case (JBool b)
  then show thesis using that by (cases b) (auto simp: json_space_def)
qed (use that assms in \<open>auto simp: json_space_def quote_string_def split: if_splits\<close>)

lemma skip_space_text: "json_plain j \<Longrightarrow> skip_space (json_text j @ xs) = json_text j @ xs"
  by (rule json_text_head [of j]) (auto simp: skip_space_def)

lemma skip_space_cons [simp]: "\<not> json_space b \<Longrightarrow> skip_space (b # xs) = b # xs"
  by (simp add: skip_space_def)

lemma not_space [simp]: "\<not> json_space 34" "\<not> json_space 44" "\<not> json_space 58" "\<not> json_space 91" "\<not> json_space 93"
  "\<not> json_space 123" "\<not> json_space 125" "\<not> json_space 116" "\<not> json_space 102" "\<not> json_space 110"
  by (simp_all add: json_space_def)

lemma number_end_delimiter [simp]: "number_end (44 # xs)" "number_end (93 # xs)" "number_end (125 # xs)" "number_end []"
  by (simp_all add: number_end_def is_digit_def)

lemma fold_max_le: "fold max xs (a::nat) \<le> d \<longleftrightarrow> a \<le> d \<and> (\<forall>x \<in> set xs. x \<le> d)"
  by (induction xs arbitrary: a) auto

definition reads_back :: "json \<Rightarrow> bool" where
  "reads_back j \<longleftrightarrow> (\<forall>n d xs. json_depth j \<le> d \<longrightarrow> length (json_text j) < n \<longrightarrow> number_end xs
     \<longrightarrow> parse_value n d (json_text j @ xs) = Some (j, xs))"

lemma reads_backD:
  "reads_back j \<Longrightarrow> json_depth j \<le> d \<Longrightarrow> length (json_text j) < n \<Longrightarrow> number_end xs
     \<Longrightarrow> parse_value n d (json_text j @ xs) = Some (j, xs)"
  by (simp add: reads_back_def)

lemma parse_elems_text:
  assumes "js \<noteq> []" "\<forall>j \<in> set js. reads_back j \<and> json_depth j \<le> d"
    and "length (sep_concat 44 (map json_text js)) + 1 < n"
  shows "parse_elems n d (sep_concat 44 (map json_text js) @ 93 # xs) = Some (js, xs)"
  using assms
proof (induction js arbitrary: n)
  case (Cons j js)
  obtain m where n: "n = Suc m" using Cons.prems(3) by (cases n) auto
  show ?case
  proof (cases js)
    case Nil
    then show ?thesis using Cons.prems reads_backD [of j d m "93 # xs"] n by simp
  next
    case (Cons j' js')
    then have "parse_elems m d (sep_concat 44 (map json_text js) @ 93 # xs) = Some (js, xs)"
      using Cons.IH [of m] Cons.prems n by simp
    then show ?thesis
      using Cons Cons.prems reads_backD [of j d m "44 # sep_concat 44 (map json_text js) @ 93 # xs"] n by simp
  qed
qed simp

definition member_text :: "string \<times> json \<Rightarrow> nat list" where
  "member_text p = quote_string (fst p) @ [58] @ json_text (snd p)"

lemma quote_string_head: "quote_string s = 34 # tl (quote_string s)"
  by (simp add: quote_string_def)

lemma member_text_head [simp]: "hd (member_text p) = 34" "member_text p \<noteq> []"
  by (simp_all add: member_text_def quote_string_def)

lemma parse_member:
  assumes "valid_utf8 k" "reads_back j" "json_depth j \<le> d" "length (json_text j) < m" "number_end (b # ys)"
    and "\<not> json_space b" "b = 44 \<or> b = 125"
  shows "parse_members (Suc m) d (member_text (k, j) @ b # ys)
    = (if b = 44 then first_to [(k, j)] (parse_members m d ys) else Some ([(k, j)], ys))"
proof -
  have "read_string (tl (quote_string k) @ 58 # json_text j @ b # ys) = Some (k, 58 # json_text j @ b # ys)"
    by (rule read_quoted [OF assms(1)])
  moreover have "parse_value m d (json_text j @ b # ys) = Some (j, b # ys)"
    by (rule reads_backD [OF assms(2-5)])
  moreover have "member_text (k, j) @ b # ys = 34 # (tl (quote_string k) @ 58 # json_text j @ b # ys)"
    using quote_string_head [of k] by (simp add: member_text_def)
  ultimately show ?thesis using assms(6,7) by auto
qed

lemma parse_members_text:
  assumes "ps \<noteq> []" "\<forall>p \<in> set ps. valid_utf8 (fst p) \<and> reads_back (snd p) \<and> json_depth (snd p) \<le> d"
    and "length (sep_concat 44 (map member_text ps)) < n"
  shows "parse_members n d (sep_concat 44 (map member_text ps) @ 125 # xs) = Some (ps, xs)"
  using assms
proof (induction ps arbitrary: n)
  case (Cons p ps)
  obtain k j where p: "p = (k, j)" by (cases p)
  obtain m where n: "n = Suc m" using Cons.prems(3) by (cases n) auto
  have len: "length (json_text j) < length (member_text p)" by (simp add: p member_text_def)
  show ?case
  proof (cases ps)
    case Nil
    then show ?thesis using Cons.prems parse_member [of k j d m 125 xs] n p len by simp
  next
    case (Cons p' ps')
    then have "parse_members m d (sep_concat 44 (map member_text ps) @ 125 # xs) = Some (ps, xs)"
      using Cons.IH [of m] Cons.prems n by simp
    then show ?thesis
      using Cons Cons.prems parse_member [of k j d m 44 "sep_concat 44 (map member_text ps) @ 125 # xs"] n p len
      by simp
  qed
qed simp

lemma sep_concat_head: "x \<noteq> [] \<Longrightarrow> \<exists>r. sep_concat c (x # xs) = hd x # r"
  by (cases xs; cases x) auto

lemma json_reads_back: "json_plain j \<Longrightarrow> json_ok j \<Longrightarrow> reads_back j"
proof (induction j)
  case (JInt i)
  show ?case unfolding reads_back_def
  proof (intro allI impI)
    fix n d xs assume a: "length (json_text (JInt i)) < n" "number_end xs"
    obtain b r where i: "int_digits i = b # r" "b = 45 \<or> is_digit b" by (rule int_digits_head)
    then have "\<not> json_space b" "b \<noteq> 123" "b \<noteq> 91" "b \<noteq> 34" "b \<noteq> 116" "b \<noteq> 102" "b \<noteq> 110"
      by (auto simp: json_space_def is_digit_def)
    then show "parse_value n d (json_text (JInt i) @ xs) = Some (JInt i, xs)"
      using a i(1) scan_number_digits [OF a(2), of i] by (cases n) auto
  qed
next
  case (JStr s)
  have "parse_value n d (json_text (JStr s) @ xs) = Some (JStr s, xs)" if "length (json_text (JStr s)) < n" for n d xs
  proof -
    obtain q where q: "quote_string s = 34 # q" using quote_string_head by blast
    then have "read_string (q @ xs) = Some (s, xs)" using read_quoted [of s xs] JStr by simp
    then show ?thesis using that q by (cases n) simp_all
  qed
  then show ?case by (simp add: reads_back_def)
next
  case (JArr js)
  have "parse_value n d (json_text (JArr js) @ xs) = Some (JArr js, xs)"
    if a: "json_depth (JArr js) \<le> d" "length (json_text (JArr js)) < n" for n d xs
  proof -
    obtain m d' where n: "n = Suc m" "d = Suc d'" using a by (cases n; cases d) auto
    show ?thesis
    proof (cases js)
      case (Cons j js')
      have "\<forall>j \<in> set js. reads_back j \<and> json_depth j \<le> d'"
        using JArr a(1) n by (auto simp: list_all_iff fold_max_le)
      then have "parse_elems m d' (sep_concat 44 (map json_text js) @ 93 # xs) = Some (js, xs)"
        using parse_elems_text [of js d' m xs] Cons a(2) n by simp
      moreover obtain b r where "json_text j = b # r" "\<not> json_space b" "b \<noteq> 93"
        using JArr.prems Cons by (auto intro: json_text_head [of j])
      moreover from this obtain r' where "sep_concat 44 (map json_text js) = b # r'"
        using sep_concat_head [of "json_text j" 44 "map json_text js'"] Cons by auto
      ultimately show ?thesis using n by simp
    qed (use n in \<open>simp\<close>)
  qed
  then show ?case by (simp add: reads_back_def)
next
  case (JObj ps)
  have "parse_value n d (json_text (JObj ps) @ xs) = Some (JObj ps, xs)"
    if a: "json_depth (JObj ps) \<le> d" "length (json_text (JObj ps)) < n" for n d xs
  proof -
    obtain m d' where n: "n = Suc m" "d = Suc d'" using a by (cases n; cases d) auto
    have tx: "json_text (JObj ps) = [123] @ sep_concat 44 (map member_text ps) @ [125]"
      by (simp add: member_text_def [abs_def])
    show ?thesis
    proof (cases ps)
      case (Cons p ps')
      have "\<forall>p \<in> set ps. valid_utf8 (fst p) \<and> reads_back (snd p) \<and> json_depth (snd p) \<le> d'"
        using JObj a(1) n by (fastforce simp: list_all_iff fold_max_le)
      then have "parse_members m d' (sep_concat 44 (map member_text ps) @ 125 # xs) = Some (ps, xs)"
        using parse_members_text [of ps d' m xs] Cons a(2) n tx by simp
      moreover obtain r' where "sep_concat 44 (map member_text ps) = 34 # r'"
        using sep_concat_head [of "member_text p" 44 "map member_text ps'"] Cons by auto
      ultimately show ?thesis using n tx by simp
    qed (use n in \<open>simp\<close>)
  qed
  then show ?case by (simp add: reads_back_def)
qed (auto simp: reads_back_def expect_def gr0_conv_Suc split: if_splits dest!: less_imp_Suc_add)

section \<open>Enough recursion for every text\<close>

text \<open>Each call takes at least one byte off the text, so a bound above twice its length never runs out.\<close>

lemma skip_space_le: "length (skip_space bs) \<le> length bs"
  by (simp add: skip_space_def length_dropWhile_le)

lemma scan_string_shorter: "scan_string bs = Some (raw, r) \<Longrightarrow> length r < length bs"
  by (induction bs arbitrary: raw rule: scan_string.induct)
    (force simp: first_to_def split: if_splits list.splits)+

lemma read_string_shorter: "read_string bs = Some (s, r) \<Longrightarrow> length r < length bs"
  by (auto simp: read_string_def dest: scan_string_shorter)

lemma dropWhile_le: "length (dropWhile P xs) \<le> length xs"
  by (rule length_dropWhile_le)

lemma scan_integer_shorter: "scan_integer bs = Some (ds, r) \<Longrightarrow> length r < length bs"
  by (auto simp: scan_integer_def le_imp_less_Suc dropWhile_le split: list.splits if_splits)

lemma scan_fraction_le: "scan_fraction bs = Some (ds, r) \<Longrightarrow> length r \<le> length bs"
  by (auto simp: scan_fraction_def le_SucI dropWhile_le split: list.splits if_splits)

lemma scan_exponent_le: "scan_exponent bs = Some (ds, r) \<Longrightarrow> length r \<le> length bs"
  by (auto simp: scan_exponent_def le_SucI dropWhile_le split: list.splits if_splits)

lemma scan_unsigned_shorter: "scan_unsigned sign bs = Some (j, r) \<Longrightarrow> length r < length bs"
  by (auto simp: scan_unsigned_def split: option.splits
      dest!: scan_integer_shorter scan_fraction_le scan_exponent_le)

lemma scan_number_shorter: "scan_number bs = Some (j, r) \<Longrightarrow> length r < length bs"
  by (auto simp: scan_number_def split: list.splits if_splits dest!: scan_unsigned_shorter)

lemma expect_shorter: "expect word j bs = Some (j', r) \<Longrightarrow> word \<noteq> [] \<Longrightarrow> length r < length bs"
  by (cases word; cases bs) (auto simp: expect_def split: if_splits)

lemma parse_shorter:
  shows "parse_value n d bs = Some (j, r) \<Longrightarrow> length r < length bs"
    and "parse_elems n d bs = Some (js, r) \<Longrightarrow> length r < length bs"
    and "parse_members n d bs = Some (ps, r) \<Longrightarrow> length r < length bs"
proof (induction n d bs and n d bs and n d bs arbitrary: j r and js r and ps r
    rule: parse_value_parse_elems_parse_members.induct)
  case (2 n d bs)
  obtain b t where t: "skip_space bs = b # t" using 2(3) by (auto split: list.splits)
  then have le: "length t < length bs" using skip_space_le [of bs] by simp
  have st: "length (skip_space t) \<le> length t" by (rule skip_space_le)
  have "length r < length (b # t)"
    using 2(1,2) [OF t] 2(3) t st
    by (auto split: if_splits dest: expect_shorter scan_number_shorter read_string_shorter)
  with le show ?case by simp
next
  case (4 n d bs)
  obtain j t b u where v: "parse_value n d bs = Some (j, t)" "skip_space t = b # u"
    using 4(3) by (auto split: option.splits list.splits)
  then have "length t < length bs" "length u < length t" using 4(1) skip_space_le [of t] by auto
  moreover have "length r \<le> length u"
    using 4(2) [OF v(1) refl v(2)] 4(3) v by (auto simp: first_to_def split: if_splits)
  ultimately show ?case by simp
next
  case (6 n d bs)
  obtain q t where q: "skip_space bs = q # t" "q = 34" using 6(3) by (auto split: list.splits if_splits)
  then have l1: "length t < length bs" using skip_space_le [of bs] by simp
  obtain k u where k: "read_string t = Some (k, u)" using 6(3) q by (auto split: option.splits)
  obtain c v where c: "skip_space u = c # v" "c = 58" using 6(3) q k by (auto split: list.splits if_splits)
  then have l2: "length v < length t" using skip_space_le [of u] read_string_shorter [OF k] by simp
  obtain j x where j: "parse_value n d v = Some (j, x)" using 6(3) q k c by (auto split: option.splits)
  obtain b y where b: "skip_space x = b # y" using 6(3) q k c j by (auto split: list.splits)
  have l3: "length y < length v" using 6(1) [OF q(1) _ k refl c(1)] q c j b skip_space_le [of x] by auto
  have "length r \<le> length y"
    using 6(2) [OF q(1) _ k refl c(1) _ j refl b] 6(3) q k c j b by (auto simp: first_to_def split: if_splits)
  with l1 l2 l3 show ?case by simp
qed simp_all

lemma parse_bound:
  shows "2 * length bs < n \<Longrightarrow> n \<le> m \<Longrightarrow> parse_value m d bs = parse_value n d bs"
    and "2 * length bs + 1 < n \<Longrightarrow> n \<le> m \<Longrightarrow> parse_elems m d bs = parse_elems n d bs"
    and "2 * length bs + 1 < n \<Longrightarrow> n \<le> m \<Longrightarrow> parse_members m d bs = parse_members n d bs"
proof (induction n d bs and n d bs and n d bs arbitrary: m and m and m
    rule: parse_value_parse_elems_parse_members.induct)
  case (2 n d bs)
  obtain m' where m: "m = Suc m'" using 2(4) by (cases m) auto
  show ?case
  proof (cases "skip_space bs")
    case (Cons b r)
    then have "2 * length (skip_space r) + 1 < n" "n \<le> m'"
      using 2(3,4) m skip_space_le [of bs] skip_space_le [of r] by auto
    then have
      "b = 123 \<Longrightarrow> d \<noteq> 0 \<Longrightarrow> \<not> (skip_space r \<noteq> [] \<and> hd (skip_space r) = 125)
         \<Longrightarrow> parse_members m' (d - 1) (skip_space r) = parse_members n (d - 1) (skip_space r)"
      "b = 91 \<Longrightarrow> d \<noteq> 0 \<Longrightarrow> \<not> (skip_space r \<noteq> [] \<and> hd (skip_space r) = 93)
         \<Longrightarrow> parse_elems m' (d - 1) (skip_space r) = parse_elems n (d - 1) (skip_space r)"
      using 2(1,2) [OF Cons, of m'] by simp_all
    then show ?thesis using Cons m by (cases "skip_space r") auto
  qed (simp add: m)
next
  case (4 n d bs)
  obtain m' where m: "m = Suc m'" "n \<le> m'" using 4(4) by (cases m) auto
  have v: "parse_value m' d bs = parse_value n d bs" using 4(1) [of m'] 4(3) m by simp
  show ?case
  proof (cases "parse_value n d bs")
    case (Some a)
    obtain j t where a: "a = (j, t)" by (cases a)
    show ?thesis
    proof (cases "skip_space t")
      case (Cons b u)
      have "2 * length u + 1 < n" using parse_shorter(1) [of n d bs j t] Some a Cons skip_space_le [of t] 4(3) by simp
      then show ?thesis using 4(2) [OF Some a [symmetric] Cons, of m'] Some a Cons m v by simp
    qed (use Some a m v in \<open>simp\<close>)
  qed (use m v in \<open>simp\<close>)
next
  case (6 n d bs)
  obtain m' where m: "m = Suc m'" "n \<le> m'" using 6(4) by (cases m) auto
  show ?case
  proof (cases "skip_space bs")
    case q: (Cons q t)
    show ?thesis
    proof (cases "read_string t")
      case (Some a)
      obtain k u where a: "a = (k, u)" by (cases a)
      show ?thesis
      proof (cases "skip_space u")
        case c: (Cons c v)
        have v: "length v + 2 < length bs"
          using q c Some a skip_space_le [of bs] skip_space_le [of u] read_string_shorter [of t k u] by simp
        show ?thesis
        proof (cases "q = 34 \<and> c = 58")
          case True
          have pv: "parse_value m' d v = parse_value n d v"
            using 6(1) [OF q _ Some a [symmetric] c, of m'] True v 6(3) m by simp
          show ?thesis
          proof (cases "parse_value n d v")
            case j: (Some e)
            obtain j x where e: "e = (j, x)" by (cases e)
            show ?thesis
            proof (cases "skip_space x")
              case b: (Cons b y)
              have "2 * length y + 1 < n"
                using parse_shorter(1) [of n d v j x] j e b skip_space_le [of x] v 6(3) by simp
              then show ?thesis
                using 6(2) [OF q _ Some a [symmetric] c _ j e [symmetric] b, of m'] True q Some a c j e b m pv by simp
            qed (use True q Some a c j e m pv in \<open>simp\<close>)
          qed (use True q Some a c m pv in \<open>simp\<close>)
        qed (use q Some a c m in \<open>auto\<close>)
      qed (use q Some a m in \<open>simp\<close>)
    qed (use q m in \<open>simp\<close>)
  qed (use m in \<open>simp\<close>)
qed simp_all

section \<open>Round trip\<close>

text \<open>
  What is written is read back: the text of a value whose strings are valid UTF-8, whose numbers are
  integers and whose nesting is within the decoder's bound parses to that value.
\<close>

lemma json_roundtrip:
  assumes "json_ok j" "json_plain j" "json_depth j \<le> maxNestingDepth"
  shows "json_parse (json_text j) = Some j"
proof -
  have "parse_value (Suc (2 * length (json_text j))) maxNestingDepth (json_text j @ []) = Some (j, [])"
    by (rule reads_backD [OF json_reads_back [OF assms(2,1)] assms(3)]) simp_all
  then show ?thesis by (simp add: json_parse_def skip_space_def)
qed

text \<open>No larger bound on the recursion makes the parser accept more or answer differently.\<close>

lemma json_parse_bound:
  "2 * length bs < n \<Longrightarrow> json_parse bs
    = (case parse_value n maxNestingDepth bs of None \<Rightarrow> None | Some (j, r) \<Rightarrow> if skip_space r = [] then Some j else None)"
  using parse_bound(1) [of bs "Suc (2 * length bs)" n] by (simp add: json_parse_def)

end
