(* ===== verification/Sha256.thy ===== *)
theory Sha256
  imports Prelude
begin

unbundle bit_operations_syntax

text \<open>
  \<^verbatim>\<open>crypto/sha256\<close>: the digest of FIPS 180-4, on which the \<^verbatim>\<open>at_hash\<close> claim and the S256 code
  challenge rest. Bytes are natural numbers below 256, words are 32 bits wide and additions wrap.
\<close>

type_synonym w32 = "32 word"

definition rotr :: "nat \<Rightarrow> w32 \<Rightarrow> w32" where
  "rotr n x = drop_bit n x OR push_bit (32 - n) x"

text \<open>
  The round constants and the initial state, in decimal: the first 32 bits of the fractional parts of
  the cube roots of the first 64 primes and of the square roots of the first eight, which the two
  lemmas below confirm.
\<close>

definition sha_K :: "w32 list" where
  "sha_K =
    [1116352408, 1899447441, 3049323471, 3921009573, 961987163, 1508970993, 2453635748, 2870763221,
     3624381080, 310598401, 607225278, 1426881987, 1925078388, 2162078206, 2614888103, 3248222580,
     3835390401, 4022224774, 264347078, 604807628, 770255983, 1249150122, 1555081692, 1996064986,
     2554220882, 2821834349, 2952996808, 3210313671, 3336571891, 3584528711, 113926993, 338241895,
     666307205, 773529912, 1294757372, 1396182291, 1695183700, 1986661051, 2177026350, 2456956037,
     2730485921, 2820302411, 3259730800, 3345764771, 3516065817, 3600352804, 4094571909, 275423344,
     430227734, 506948616, 659060556, 883997877, 958139571, 1322822218, 1537002063, 1747873779,
     1955562222, 2024104815, 2227730452, 2361852424, 2428436474, 2756734187, 3204031479, 3329325298]"

type_synonym sha_state = "w32 \<times> w32 \<times> w32 \<times> w32 \<times> w32 \<times> w32 \<times> w32 \<times> w32"

definition sha_init :: sha_state where
  "sha_init =
    (1779033703, 3144134277, 1013904242, 2773480762, 1359893119, 2600822924, 528734635, 1541459225)"

definition small_primes :: "int list" where
  "small_primes =
    [2, 3, 5, 7, 11, 13, 17, 19, 23, 29, 31, 37, 41, 43, 47, 53, 59, 61, 67, 71, 73, 79, 83, 89, 97, 101, 103, 107, 109, 113, 127, 131,
     137, 139, 149, 151, 157, 163, 167, 173, 179, 181, 191, 193, 197, 199, 211, 223, 227, 229, 233, 239, 241, 251, 257, 263, 269, 271, 277, 281, 283, 293, 307, 311]"

text \<open>The constant \<open>k\<close> holds the first 32 bits after the point of the \<open>r\<close>-th root of \<open>p\<close>.\<close>

definition root_bits :: "nat \<Rightarrow> int \<Rightarrow> w32 \<Rightarrow> bool" where
  "root_bits r p k \<longleftrightarrow>
     list_ex (\<lambda>c. c ^ r \<le> p \<and> p < (c + 1) ^ r
         \<and> (c * 2 ^ 32 + uint k) ^ r \<le> p * 2 ^ (32 * r)
         \<and> p * 2 ^ (32 * r) < (c * 2 ^ 32 + uint k + 1) ^ r) [1, 2, 3, 4, 5, 6]"

definition word_of_bytes :: "nat \<Rightarrow> nat \<Rightarrow> nat \<Rightarrow> nat \<Rightarrow> w32" where
  "word_of_bytes a b c d =
     push_bit 24 (of_nat a) OR push_bit 16 (of_nat b) OR push_bit 8 (of_nat c) OR of_nat d"

fun words_of :: "nat list \<Rightarrow> w32 list" where
  "words_of (a # b # c # d # bs) = word_of_bytes a b c d # words_of bs"
| "words_of _ = []"

definition bytes_of :: "w32 \<Rightarrow> nat list" where
  "bytes_of w = map (\<lambda>i. unat (ucast (drop_bit i w) :: 8 word)) [24, 16, 8, 0]"

text \<open>The message schedule, newest word first.\<close>

fun sha_extend :: "nat \<Rightarrow> w32 list \<Rightarrow> w32 list" where
  "sha_extend 0 ws = ws"
| "sha_extend (Suc n) ws =
     (let x = ws ! 14; y = ws ! 1;
          s0 = rotr 7 x XOR rotr 18 x XOR drop_bit 3 x;
          s1 = rotr 17 y XOR rotr 19 y XOR drop_bit 10 y
      in sha_extend n ((ws ! 15 + s0 + ws ! 6 + s1) # ws))"

fun sha_round :: "w32 \<times> w32 \<Rightarrow> sha_state \<Rightarrow> sha_state" where
  "sha_round (k, w) (a, b, c, d, e, f, g, h) =
     (let t1 = h + (rotr 6 e XOR rotr 11 e XOR rotr 25 e) + ((e AND f) XOR (NOT e AND g)) + k + w;
          t2 = (rotr 2 a XOR rotr 13 a XOR rotr 22 a) + ((a AND b) XOR (a AND c) XOR (b AND c))
      in (t1 + t2, a, b, c, d + t1, e, f, g))"

fun sha_add :: "sha_state \<Rightarrow> sha_state \<Rightarrow> sha_state" where
  "sha_add (a, b, c, d, e, f, g, h) (a', b', c', d', e', f', g', h') =
     (a + a', b + b', c + c', d + d', e + e', f + f', g + g', h + h')"

definition sha_block :: "nat list \<Rightarrow> sha_state \<Rightarrow> sha_state" where
  "sha_block bs st =
     sha_add st (fold sha_round (zip sha_K (rev (sha_extend 48 (rev (words_of bs))))) st)"

definition sha_pad :: "nat list \<Rightarrow> nat list" where
  "sha_pad m =
    (let n = 8 * of_nat (length m) :: 64 word
     in m @ [128] @ replicate ((119 - length m mod 64) mod 64) 0
          @ map (\<lambda>i. unat (ucast (drop_bit i n) :: 8 word)) [56, 48, 40, 32, 24, 16, 8, 0])"

function sha_blocks :: "nat list \<Rightarrow> sha_state \<Rightarrow> sha_state" where
  "sha_blocks bs st = (if bs = [] then st else sha_blocks (drop 64 bs) (sha_block (take 64 bs) st))"
  by pat_completeness auto
termination
  by (relation "measure (\<lambda>p. length (fst p))") (auto simp: length_greater_0_conv [symmetric] simp del: length_greater_0_conv)

fun sha_output :: "sha_state \<Rightarrow> nat list" where
  "sha_output (a, b, c, d, e, f, g, h) = concat (map bytes_of [a, b, c, d, e, f, g, h])"

definition sha256 :: "nat list \<Rightarrow> nat list" where
  "sha256 m = sha_output (sha_blocks (sha_pad m) sha_init)"

declare sha_blocks.simps [simp del]

lemma sha_K_roots: "list_all2 (root_bits 3) small_primes sha_K"
  by code_simp

lemma sha_init_roots:
  "list_all2 (root_bits 2) (take 8 small_primes)
     (case sha_init of (a, b, c, d, e, f, g, h) \<Rightarrow> [a, b, c, d, e, f, g, h])"
  by (simp add: small_primes_def sha_init_def root_bits_def)

lemma sha256_length [simp]: "length (sha256 m) = 32"
  by (cases "sha_blocks (sha_pad m) sha_init" rule: sha_output.cases) (simp add: sha256_def bytes_of_def)

lemma unat_byte: "unat (w :: 8 word) < 256"
proof -
  have "unat w < 2 ^ LENGTH(8)" by (rule unsigned_less)
  then show ?thesis by simp
qed

lemma sha256_bytes: "list_all (\<lambda>b. b < 256) (sha256 m)"
  by (cases "sha_blocks (sha_pad m) sha_init" rule: sha_output.cases)
    (simp add: sha256_def bytes_of_def unat_byte)

end
