(* ===== verification/Token.thy ===== *)
theory Token
  imports Json JavaMap Model Sha256
begin

text \<open>
  \<^verbatim>\<open>internal/token\<close>: the claim sets, the issuer, the parsers, the introspection body, the identity
  cookie and the registration access token, with the signers of \<^verbatim>\<open>internal/keys/keys.go\<close>. A claim
  struct is a record and its JSON object the list of its keys in the declared order, with the
  \<^verbatim>\<open>omitempty\<close> keys left out as \<^verbatim>\<open>encoding/json\<close> does. The JWS library is a parameter: it signs a
  JSON value into a compact string and verifies such a string back into a JSON value. A call that
  panics or never returns is \<^const>\<open>None\<close>, an error a value on the left.
\<close>

section \<open>The JWS library\<close>

datatype jws_alg = RS256 | HS512

text \<open>
  \<open>J_sign alg typ kid key payload\<close> is \<^verbatim>\<open>NewSigner\<close>, \<^verbatim>\<open>json.Marshal\<close>, \<^verbatim>\<open>Sign\<close> and \<^verbatim>\<open>CompactSerialize\<close>,
  \<^const>\<open>None\<close> being an error of any of them; \<open>J_verify alg key raw\<close> is \<^verbatim>\<open>ParseSigned\<close> with that one
  permitted algorithm, \<^verbatim>\<open>Verify\<close> and the syntactic half of \<^verbatim>\<open>json.Unmarshal\<close>. \<open>J_public\<close> is the public half
  of an RSA key.
\<close>

record jose =
  J_sign :: "jws_alg \<Rightarrow> string \<Rightarrow> string \<Rightarrow> nat list \<Rightarrow> json \<Rightarrow> string option"
  J_verify :: "jws_alg \<Rightarrow> nat list \<Rightarrow> string \<Rightarrow> json option"
  J_public :: "nat list \<Rightarrow> nat list"

definition verify_key :: "jose \<Rightarrow> jws_alg \<Rightarrow> nat list \<Rightarrow> nat list" where
  "verify_key J alg key = (case alg of RS256 \<Rightarrow> J_public J key | HS512 \<Rightarrow> key)"

text \<open>
  What the code relies on: a signed payload verifies under the matching key, and a token signed with
  one algorithm is refused where only the other is permitted.
\<close>

definition jose_ok :: "jose \<Rightarrow> bool" where
  "jose_ok J \<longleftrightarrow> (\<forall>alg typ kid key j raw. J_sign J alg typ kid key j = Some raw \<longrightarrow>
     (json_ok j \<longrightarrow> J_verify J alg (verify_key J alg key) raw = Some j)
     \<and> (\<forall>alg' key'. alg' \<noteq> alg \<longrightarrow> J_verify J alg' key' raw = None))"

section \<open>Keys\<close>

record realm_keys =
  RK_RSAKeyID :: string
  RK_EncKeyID :: string
  RK_HMACKeyID :: string
  RK_AESKeyID :: string
  RK_rsaKey :: "nat list"
  RK_certDER :: "nat list"
  RK_encKey :: "nat list"
  RK_encCertDER :: "nat list"
  RK_hmacKey :: "nat list"
  RK_aesKey :: "nat list"

definition SigningPublicKey :: "jose \<Rightarrow> realm_keys \<Rightarrow> nat list" where
  "SigningPublicKey J k = J_public J (RK_rsaKey k)"

definition HMACSecret :: "realm_keys \<Rightarrow> nat list" where
  "HMACSecret k = RK_hmacKey k"

definition RSASignerTyped :: "jose \<Rightarrow> realm_keys \<Rightarrow> string \<Rightarrow> json \<Rightarrow> string option" where
  "RSASignerTyped J k typ = J_sign J RS256 typ (RK_RSAKeyID k) (RK_rsaKey k)"

definition RSASigner :: "jose \<Rightarrow> realm_keys \<Rightarrow> json \<Rightarrow> string option" where
  "RSASigner J k = RSASignerTyped J k ''JWT''"

definition HMACSigner :: "jose \<Rightarrow> realm_keys \<Rightarrow> json \<Rightarrow> string option" where
  "HMACSigner J k = J_sign J HS512 ''JWT'' (RK_HMACKeyID k) (RK_hmacKey k)"

section \<open>Claim sets\<close>

record confirmation =
  Cnf_Jkt :: string
  Cnf_JktType :: string

datatype aud_claim = AudAbsent | AudOne string | AudMany "string list"

type_synonym resource_access = "(string \<times> string list) list"

record access_claims =
  AC_Exp :: int
  AC_Iat :: int
  AC_AuthTime :: "int option"
  AC_Jti :: string
  AC_Iss :: string
  AC_Aud :: aud_claim
  AC_Sub :: string
  AC_Typ :: string
  AC_Azp :: string
  AC_Sid :: string
  AC_Acr :: string
  AC_AllowedOrigins :: "string list"
  AC_RealmAccess :: "string list option"
  AC_ResourceAccess :: resource_access
  AC_Cnf :: "confirmation option"
  AC_Scope :: string
  AC_EmailVerified :: bool
  AC_PreferredUsername :: string

record lightweight_claims =
  LC_Exp :: int
  LC_Iat :: int
  LC_Jti :: string
  LC_Iss :: string
  LC_Typ :: string
  LC_Azp :: string
  LC_Sid :: string
  LC_Cnf :: "confirmation option"
  LC_Scope :: string

record id_claims =
  IC_Exp :: int
  IC_Iat :: int
  IC_AuthTime :: "int option"
  IC_Jti :: string
  IC_Iss :: string
  IC_Aud :: string
  IC_Sub :: string
  IC_Typ :: string
  IC_Azp :: string
  IC_Nonce :: string
  IC_Sid :: string
  IC_AtHash :: string
  IC_Acr :: string
  IC_EmailVerified :: bool
  IC_PreferredUsername :: string

record refresh_claims =
  RC_Exp :: int
  RC_Iat :: int
  RC_Jti :: string
  RC_Iss :: string
  RC_Aud :: string
  RC_Sub :: string
  RC_Typ :: string
  RC_Azp :: string
  RC_Sid :: string
  RC_Cnf :: "confirmation option"
  RC_Scope :: string
  RC_AudX :: aud_claim
  RC_Prov :: string

record logout_claims =
  LO_Exp :: int
  LO_Iat :: int
  LO_Jti :: string
  LO_Iss :: string
  LO_Aud :: string
  LO_Sub :: string
  LO_Typ :: string
  LO_Sid :: string
  LO_Events :: "string list"

record identity_claims =
  ID_Expiry :: int
  ID_IssuedAt :: int
  ID_ID :: string
  ID_Issuer :: string
  ID_Subject :: string
  ID_Type :: string
  ID_SessionID :: string
  ID_StateChecker :: string

record registration_claims =
  RG_Exp :: int
  RG_Iat :: int
  RG_Jti :: string
  RG_Iss :: string
  RG_Aud :: string
  RG_Typ :: string
  RG_RegistrationAuth :: string
  RG_AllowedOrigins :: "string list"

text \<open>The two shapes \<^verbatim>\<open>accessClaims\<close> returns as \<^verbatim>\<open>any\<close>.\<close>

datatype any_access = FullClaims access_claims | LightClaims lightweight_claims

section \<open>Their JSON objects\<close>

definition omit_str :: "string \<Rightarrow> string \<Rightarrow> (string \<times> json) list" where
  "omit_str k s = (if s = [] then [] else [(k, JStr s)])"

definition omit_int :: "string \<Rightarrow> int option \<Rightarrow> (string \<times> json) list" where
  "omit_int k v = (case v of None \<Rightarrow> [] | Some n \<Rightarrow> [(k, JInt n)])"

definition omit_strs :: "string \<Rightarrow> string list \<Rightarrow> (string \<times> json) list" where
  "omit_strs k xs = (if xs = [] then [] else [(k, JArr (map JStr xs))])"

definition omit_aud :: "string \<Rightarrow> aud_claim \<Rightarrow> (string \<times> json) list" where
  "omit_aud k a = (case a of AudAbsent \<Rightarrow> [] | AudOne s \<Rightarrow> [(k, JStr s)]
     | AudMany xs \<Rightarrow> [(k, JArr (map JStr xs))])"

definition roleClaim_json :: "string list \<Rightarrow> json" where
  "roleClaim_json roles = JObj [(''roles'', JArr (map JStr roles))]"

definition omit_roles :: "string \<Rightarrow> string list option \<Rightarrow> (string \<times> json) list" where
  "omit_roles k r = (case r of None \<Rightarrow> [] | Some xs \<Rightarrow> [(k, roleClaim_json xs)])"

definition resourceAccess_MarshalJSON :: "resource_access \<Rightarrow> json" where
  "resourceAccess_MarshalJSON r = JObj (map (\<lambda>(c, roles). (c, roleClaim_json roles)) r)"

definition omit_resources :: "string \<Rightarrow> resource_access \<Rightarrow> (string \<times> json) list" where
  "omit_resources k r = (if r = [] then [] else [(k, resourceAccess_MarshalJSON r)])"

definition omit_cnf :: "string \<Rightarrow> confirmation option \<Rightarrow> (string \<times> json) list" where
  "omit_cnf k c = (case c of None \<Rightarrow> [] | Some x \<Rightarrow>
     [(k, JObj [(''jkt'', JStr (Cnf_Jkt x)), (''kc-jkt-type'', JStr (Cnf_JktType x))])])"

definition access_json :: "access_claims \<Rightarrow> json" where
  "access_json c = JObj (
     [(''exp'', JInt (AC_Exp c)), (''iat'', JInt (AC_Iat c))] @ omit_int ''auth_time'' (AC_AuthTime c)
     @ [(''jti'', JStr (AC_Jti c)), (''iss'', JStr (AC_Iss c))] @ omit_aud ''aud'' (AC_Aud c)
     @ [(''sub'', JStr (AC_Sub c)), (''typ'', JStr (AC_Typ c)), (''azp'', JStr (AC_Azp c)),
        (''sid'', JStr (AC_Sid c)), (''acr'', JStr (AC_Acr c))]
     @ omit_strs ''allowed-origins'' (AC_AllowedOrigins c) @ omit_roles ''realm_access'' (AC_RealmAccess c)
     @ omit_resources ''resource_access'' (AC_ResourceAccess c) @ omit_cnf ''cnf'' (AC_Cnf c)
     @ [(''scope'', JStr (AC_Scope c)), (''email_verified'', JBool (AC_EmailVerified c)),
        (''preferred_username'', JStr (AC_PreferredUsername c))])"

definition lightweight_json :: "lightweight_claims \<Rightarrow> json" where
  "lightweight_json c = JObj (
     [(''exp'', JInt (LC_Exp c)), (''iat'', JInt (LC_Iat c)), (''jti'', JStr (LC_Jti c)),
      (''iss'', JStr (LC_Iss c)), (''typ'', JStr (LC_Typ c)), (''azp'', JStr (LC_Azp c)),
      (''sid'', JStr (LC_Sid c))] @ omit_cnf ''cnf'' (LC_Cnf c) @ [(''scope'', JStr (LC_Scope c))])"

definition any_access_json :: "any_access \<Rightarrow> json" where
  "any_access_json a = (case a of FullClaims c \<Rightarrow> access_json c | LightClaims c \<Rightarrow> lightweight_json c)"

definition id_json :: "id_claims \<Rightarrow> json" where
  "id_json c = JObj (
     [(''exp'', JInt (IC_Exp c)), (''iat'', JInt (IC_Iat c))] @ omit_int ''auth_time'' (IC_AuthTime c)
     @ [(''jti'', JStr (IC_Jti c)), (''iss'', JStr (IC_Iss c)), (''aud'', JStr (IC_Aud c)),
        (''sub'', JStr (IC_Sub c)), (''typ'', JStr (IC_Typ c)), (''azp'', JStr (IC_Azp c))]
     @ omit_str ''nonce'' (IC_Nonce c) @ [(''sid'', JStr (IC_Sid c))] @ omit_str ''at_hash'' (IC_AtHash c)
     @ [(''acr'', JStr (IC_Acr c)), (''email_verified'', JBool (IC_EmailVerified c)),
        (''preferred_username'', JStr (IC_PreferredUsername c))])"

definition refresh_json :: "refresh_claims \<Rightarrow> json" where
  "refresh_json c = JObj (
     [(''exp'', JInt (RC_Exp c)), (''iat'', JInt (RC_Iat c)), (''jti'', JStr (RC_Jti c)),
      (''iss'', JStr (RC_Iss c)), (''aud'', JStr (RC_Aud c)), (''sub'', JStr (RC_Sub c)),
      (''typ'', JStr (RC_Typ c)), (''azp'', JStr (RC_Azp c)), (''sid'', JStr (RC_Sid c))]
     @ omit_cnf ''cnf'' (RC_Cnf c) @ [(''scope'', JStr (RC_Scope c))]
     @ omit_aud ''aud_x'' (RC_AudX c) @ [(''prov'', JStr (RC_Prov c))])"

definition logout_json :: "logout_claims \<Rightarrow> json" where
  "logout_json c = JObj (
     [(''exp'', JInt (LO_Exp c)), (''iat'', JInt (LO_Iat c)), (''jti'', JStr (LO_Jti c)),
      (''iss'', JStr (LO_Iss c)), (''aud'', JStr (LO_Aud c)), (''sub'', JStr (LO_Sub c)),
      (''typ'', JStr (LO_Typ c))] @ omit_str ''sid'' (LO_Sid c)
     @ [(''events'', JObj (map (\<lambda>e. (e, JObj [])) (LO_Events c)))])"

definition identity_json :: "identity_claims \<Rightarrow> json" where
  "identity_json c = JObj
     [(''exp'', JInt (ID_Expiry c)), (''iat'', JInt (ID_IssuedAt c)), (''jti'', JStr (ID_ID c)),
      (''iss'', JStr (ID_Issuer c)), (''sub'', JStr (ID_Subject c)), (''typ'', JStr (ID_Type c)),
      (''sid'', JStr (ID_SessionID c)), (''state_checker'', JStr (ID_StateChecker c))]"

definition registration_json :: "registration_claims \<Rightarrow> json" where
  "registration_json c = JObj
     [(''exp'', JInt (RG_Exp c)), (''iat'', JInt (RG_Iat c)), (''jti'', JStr (RG_Jti c)),
      (''iss'', JStr (RG_Iss c)), (''aud'', JStr (RG_Aud c)), (''typ'', JStr (RG_Typ c)),
      (''registration_auth'', JStr (RG_RegistrationAuth c)),
      (''allowed-origins'', JArr (map JStr (RG_AllowedOrigins c)))]"

section \<open>Building claims\<close>

definition TypeAccess :: string where "TypeAccess = ''Bearer''"
definition TypeID :: string where "TypeID = ''ID''"
definition TypeRefresh :: string where "TypeRefresh = ''Refresh''"
definition TypeLogout :: string where "TypeLogout = ''Logout''"
definition LogoutHeaderType :: string where "LogoutHeaderType = ''logout+jwt''"
definition BackchannelLogoutEvent :: string where
  "BackchannelLogoutEvent = ''http://schemas.openid.net/event/backchannel-logout''"
definition JktTypeDPoP :: string where "JktTypeDPoP = ''DPoP''"
definition LightweightAttribute :: string where
  "LightweightAttribute = ''client.use.lightweight.access.token.enabled''"
definition refreshOnlyScopes :: "string list" where
  "refreshOnlyScopes = [''web-origins'', ''acr'', ''basic'', ''roles'']"
definition serviceAccountScope :: string where "serviceAccountScope = ''service_account''"
definition LogoutLife :: duration where "LogoutLife = 120 * second"
definition SerializedIDType :: string where "SerializedIDType = ''Serialized-ID''"
definition IdentityCookieLifespan :: duration where "IdentityCookieLifespan = 36000 * second"
definition TypeRegistration :: string where "TypeRegistration = ''RegistrationAccessToken''"
definition registrationAuthAuthenticated :: string where "registrationAuthAuthenticated = ''authenticated''"

definition confirmationClaim :: "string \<Rightarrow> confirmation option" where
  "confirmationClaim jkt =
    (if jkt = [] then None else Some \<lparr>Cnf_Jkt = jkt, Cnf_JktType = JktTypeDPoP\<rparr>)"

definition audienceClaim :: "string list \<Rightarrow> aud_claim" where
  "audienceClaim audiences =
    (case audiences of [] \<Rightarrow> AudAbsent | [a] \<Rightarrow> AudOne a | _ \<Rightarrow> AudMany audiences)"

definition realmAccessClaim :: "string list \<Rightarrow> string list option option" where
  "realmAccessClaim names =
    (if names = [] then Some None else map_option Some (KeyOrder names))"

definition resourceAccessClaim :: "string list smap \<Rightarrow> resource_access option" where
  "resourceAccessClaim clientRoles =
    (if clientRoles = [] then Some []
     else (case KeyOrder (map fst clientRoles) of
             None \<Rightarrow> None
           | Some clients \<Rightarrow>
               those (map (\<lambda>c. map_option (\<lambda>roles. (c, roles))
                 (KeyOrder (case map_of clientRoles c of None \<Rightarrow> [] | Some rs \<Rightarrow> rs))) clients)))"

definition IsLightweight :: "client \<Rightarrow> bool" where
  "IsLightweight c \<longleftrightarrow> attr (Client_Attributes c) LightweightAttribute = ''true''"

definition Audience :: "string \<Rightarrow> string list smap \<Rightarrow> string list option" where
  "Audience issuingClient clientRoles =
     KeyOrder (filter (\<lambda>c. c \<noteq> issuingClient) (map fst clientRoles))"

fun append_missing :: "string list \<Rightarrow> string list \<Rightarrow> string list" where
  "append_missing words [] = words"
| "append_missing words (w # ws) = append_missing (if w \<in> set words then words else words @ [w]) ws"

definition RefreshScope :: "string \<Rightarrow> client \<Rightarrow> string" where
  "RefreshScope granted c =
    (let extra = refreshOnlyScopes @ (if Client_ServiceAccountsEnabled c then [serviceAccountScope] else [])
     in join '' '' (append_missing (GoStd.fields granted) extra))"

definition atHash :: "string \<Rightarrow> string" where
  "atHash accessToken =
    (if accessToken = [] then []
     else (let s = sha256 (string_bytes accessToken) in b64_encode (take (length s div 2) s)))"

section \<open>Issuing\<close>

record issuer =
  Iss_Keys :: realm_keys
  Iss_Issuer :: string

record token_request =
  Req_Client :: client
  Req_User :: user
  Req_UserSession :: user_session
  Req_Scope :: string
  Req_RealmRoles :: "string list"
  Req_ClientRoles :: "string list smap"
  Req_AccessLife :: duration
  Req_RefreshLife :: duration
  Req_IncludeIDToken :: bool
  Req_AuthTime :: time
  Req_Nonce :: string
  Req_Thumbprint :: string

record token_set =
  Set_AccessToken :: string
  Set_IDToken :: string
  Set_RefreshToken :: string

datatype token_error = ErrInvalidToken | ErrExpiredToken | ErrSign

definition authTimeClaim :: "token_request \<Rightarrow> int option" where
  "authTimeClaim r =
    (if Req_AuthTime r = zero_time then None else Some (unix_seconds (Req_AuthTime r)))"

definition accessClaims ::
  "issuer \<Rightarrow> token_request \<Rightarrow> int \<Rightarrow> int \<Rightarrow> entropy \<Rightarrow> (any_access \<times> entropy) option" where
  "accessClaims i r iat exp e =
    (case NewID e of
       None \<Rightarrow> None
     | Some (jti, e') \<Rightarrow>
         if IsLightweight (Req_Client r)
         then Some (LightClaims \<lparr>LC_Exp = exp, LC_Iat = iat, LC_Jti = jti, LC_Iss = Iss_Issuer i,
                LC_Typ = TypeAccess, LC_Azp = Client_ClientID (Req_Client r),
                LC_Sid = US_ID (Req_UserSession r), LC_Cnf = confirmationClaim (Req_Thumbprint r),
                LC_Scope = Req_Scope r\<rparr>, e')
         else (case (Audience (Client_ClientID (Req_Client r)) (Req_ClientRoles r),
                     realmAccessClaim (Req_RealmRoles r), resourceAccessClaim (Req_ClientRoles r)) of
                 (Some aud, Some realmAccess, Some resources) \<Rightarrow>
                   Some (FullClaims \<lparr>AC_Exp = exp, AC_Iat = iat, AC_AuthTime = authTimeClaim r, AC_Jti = jti,
                     AC_Iss = Iss_Issuer i, AC_Aud = audienceClaim aud, AC_Sub = US_UserID (Req_UserSession r),
                     AC_Typ = TypeAccess, AC_Azp = Client_ClientID (Req_Client r),
                     AC_Sid = US_ID (Req_UserSession r), AC_Acr = ''1'',
                     AC_AllowedOrigins = Client_WebOrigins (Req_Client r), AC_RealmAccess = realmAccess,
                     AC_ResourceAccess = resources, AC_Cnf = confirmationClaim (Req_Thumbprint r),
                     AC_Scope = Req_Scope r, AC_EmailVerified = User_EmailVerified (Req_User r),
                     AC_PreferredUsername = US_Username (Req_UserSession r)\<rparr>, e')
               | _ \<Rightarrow> None))"

definition idClaims ::
  "issuer \<Rightarrow> token_request \<Rightarrow> string \<Rightarrow> int \<Rightarrow> int \<Rightarrow> entropy \<Rightarrow> (id_claims \<times> entropy) option" where
  "idClaims i r accessToken iat exp e =
    (case NewID e of
       None \<Rightarrow> None
     | Some (jti, e') \<Rightarrow>
         Some (\<lparr>IC_Exp = exp, IC_Iat = iat, IC_AuthTime = authTimeClaim r, IC_Jti = jti,
           IC_Iss = Iss_Issuer i, IC_Aud = Client_ClientID (Req_Client r),
           IC_Sub = US_UserID (Req_UserSession r), IC_Typ = TypeID, IC_Azp = Client_ClientID (Req_Client r),
           IC_Nonce = Req_Nonce r, IC_Sid = US_ID (Req_UserSession r), IC_AtHash = atHash accessToken,
           IC_Acr = ''1'', IC_EmailVerified = User_EmailVerified (Req_User r),
           IC_PreferredUsername = US_Username (Req_UserSession r)\<rparr>, e'))"

definition refreshClaims ::
  "issuer \<Rightarrow> token_request \<Rightarrow> int \<Rightarrow> int \<Rightarrow> entropy \<Rightarrow> (refresh_claims \<times> entropy) option" where
  "refreshClaims i r iat exp e =
    (case NewID e of
       None \<Rightarrow> None
     | Some (jti, e') \<Rightarrow>
         (case Audience (Client_ClientID (Req_Client r)) (Req_ClientRoles r) of
            None \<Rightarrow> None
          | Some aud \<Rightarrow>
              Some (\<lparr>RC_Exp = exp, RC_Iat = iat, RC_Jti = jti, RC_Iss = Iss_Issuer i, RC_Aud = Iss_Issuer i,
                RC_Sub = US_UserID (Req_UserSession r), RC_Typ = TypeRefresh,
                RC_Azp = Client_ClientID (Req_Client r), RC_Sid = US_ID (Req_UserSession r),
                RC_Cnf = confirmationClaim (Req_Thumbprint r),
                RC_Scope = RefreshScope (Req_Scope r) (Req_Client r), RC_AudX = audienceClaim aud,
                RC_Prov = ''default''\<rparr>, e')))"

definition signRSA :: "jose \<Rightarrow> issuer \<Rightarrow> json \<Rightarrow> token_error + string" where
  "signRSA J i claims =
    (case RSASigner J (Iss_Keys i) claims of None \<Rightarrow> Inl ErrSign | Some raw \<Rightarrow> Inr raw)"

definition signHMAC :: "jose \<Rightarrow> issuer \<Rightarrow> json \<Rightarrow> token_error + string" where
  "signHMAC J i claims =
    (case HMACSigner J (Iss_Keys i) claims of None \<Rightarrow> Inl ErrSign | Some raw \<Rightarrow> Inr raw)"

definition Issue_refresh ::
  "jose \<Rightarrow> issuer \<Rightarrow> time \<Rightarrow> token_request \<Rightarrow> string \<Rightarrow> string \<Rightarrow> entropy
     \<Rightarrow> ((token_error + token_set) \<times> entropy) option" where
  "Issue_refresh J i now r access idToken e =
    (case refreshClaims i r (unix_seconds now) (unix_seconds (now + Req_RefreshLife r)) e of
       None \<Rightarrow> None
     | Some (claims, e') \<Rightarrow>
         (case signHMAC J i (refresh_json claims) of
            Inl err \<Rightarrow> Some (Inl err, e')
          | Inr refresh \<Rightarrow>
              Some (Inr \<lparr>Set_AccessToken = access, Set_IDToken = idToken, Set_RefreshToken = refresh\<rparr>, e')))"

definition Issue ::
  "jose \<Rightarrow> issuer \<Rightarrow> time \<Rightarrow> token_request \<Rightarrow> entropy \<Rightarrow> ((token_error + token_set) \<times> entropy) option" where
  "Issue J i now r e =
    (let iat = unix_seconds now; accessExp = unix_seconds (now + Req_AccessLife r)
     in case accessClaims i r iat accessExp e of
          None \<Rightarrow> None
        | Some (claims, e1) \<Rightarrow>
            (case signRSA J i (any_access_json claims) of
               Inl err \<Rightarrow> Some (Inl err, e1)
             | Inr access \<Rightarrow>
                 if Req_IncludeIDToken r
                 then (case idClaims i r access iat accessExp e1 of
                         None \<Rightarrow> None
                       | Some (claims, e2) \<Rightarrow>
                           (case signRSA J i (id_json claims) of
                              Inl err \<Rightarrow> Some (Inl err, e2)
                            | Inr idToken \<Rightarrow> Issue_refresh J i now r access idToken e2))
                 else Issue_refresh J i now r access [] e1))"

record logout_request =
  LR_ClientID :: string
  LR_UserID :: string
  LR_SessionID :: string
  LR_SessionRequired :: bool

definition IssueLogout ::
  "jose \<Rightarrow> issuer \<Rightarrow> time \<Rightarrow> logout_request \<Rightarrow> entropy \<Rightarrow> ((token_error + string) \<times> entropy) option" where
  "IssueLogout J i now r e =
    (case NewID e of
       None \<Rightarrow> None
     | Some (jti, e') \<Rightarrow>
         (let claims = \<lparr>LO_Exp = unix_seconds (now + LogoutLife), LO_Iat = unix_seconds now, LO_Jti = jti,
                LO_Iss = Iss_Issuer i, LO_Aud = LR_ClientID r, LO_Sub = LR_UserID r, LO_Typ = TypeLogout,
                LO_Sid = (if LR_SessionRequired r then LR_SessionID r else []),
                LO_Events = [BackchannelLogoutEvent]\<rparr>
          in case RSASignerTyped J (Iss_Keys i) LogoutHeaderType (logout_json claims) of
               None \<Rightarrow> Some (Inl ErrSign, e')
             | Some raw \<Rightarrow> Some (Inr raw, e')))"

definition ExampleAccessClaims ::
  "issuer \<Rightarrow> time \<Rightarrow> token_request \<Rightarrow> entropy \<Rightarrow> (any_access \<times> entropy) option" where
  "ExampleAccessClaims i now r e =
     accessClaims i r (unix_seconds now) (unix_seconds (now + Req_AccessLife r)) e"

definition ExampleIDClaims ::
  "issuer \<Rightarrow> time \<Rightarrow> token_request \<Rightarrow> entropy \<Rightarrow> (id_claims \<times> entropy) option" where
  "ExampleIDClaims i now r e =
     idClaims i r [] (unix_seconds now) (unix_seconds (now + Req_AccessLife r)) e"

definition IssueIdentityCookie ::
  "jose \<Rightarrow> realm_keys \<Rightarrow> string \<Rightarrow> string \<Rightarrow> string \<Rightarrow> string \<Rightarrow> string \<Rightarrow> time \<Rightarrow> token_error + string" where
  "IssueIdentityCookie J k issuer subject sessionID jti stateChecker now =
    (case HMACSigner J k (identity_json \<lparr>ID_Expiry = unix_seconds (now + IdentityCookieLifespan),
        ID_IssuedAt = unix_seconds now, ID_ID = jti, ID_Issuer = issuer, ID_Subject = subject,
        ID_Type = SerializedIDType, ID_SessionID = sessionID, ID_StateChecker = stateChecker\<rparr>) of
       None \<Rightarrow> Inl ErrSign | Some raw \<Rightarrow> Inr raw)"

definition IssueRegistration ::
  "jose \<Rightarrow> realm_keys \<Rightarrow> string \<Rightarrow> string \<Rightarrow> time \<Rightarrow> token_error + string" where
  "IssueRegistration J k issuer i now =
    (case HMACSigner J k (registration_json \<lparr>RG_Exp = 0, RG_Iat = unix_seconds now, RG_Jti = i,
        RG_Iss = issuer, RG_Aud = issuer, RG_Typ = TypeRegistration,
        RG_RegistrationAuth = registrationAuthAuthenticated, RG_AllowedOrigins = []\<rparr>) of
       None \<Rightarrow> Inl ErrSign | Some raw \<Rightarrow> Inr raw)"

section \<open>Parsing\<close>

record parsed_claims =
  PC_Typ :: string
  PC_Iss :: string
  PC_Sub :: string
  PC_Azp :: string
  PC_Sid :: string
  PC_Jti :: string
  PC_Aud :: "json option"
  PC_Scope :: string
  PC_Iat :: int
  PC_Exp :: int
  PC_Cnf :: "confirmation option"

record parsed =
  Parsed_Type :: string
  Parsed_Subject :: string
  Parsed_SessionID :: string
  Parsed_ClientID :: string
  Parsed_ID :: string
  Parsed_Audience :: "string list"
  Parsed_Scope :: string
  Parsed_IssuedAt :: time
  Parsed_ExpiresAt :: time
  Parsed_Thumbprint :: string

text \<open>
  \<^verbatim>\<open>json.Unmarshal\<close> into a struct: the keys are taken in order, a key selects the field whose name it
  equals up to case folding, a later key overrides an earlier one, \<^verbatim>\<open>null\<close> leaves a string or a
  number as it was, and a value of the wrong type is an error. Folding maps the two runes outside
  ASCII that fold into it, U+017F and U+212A.
\<close>

definition fold_rune :: "rune \<Rightarrow> rune" where
  "fold_rune r = (if 65 \<le> r \<and> r \<le> 90 then r + 32 else if r = 383 then 115 else if r = 8490 then 107 else r)"

definition fold_name :: "string \<Rightarrow> rune list" where
  "fold_name s = map fold_rune (runes s)"

definition as_string :: "string \<Rightarrow> json \<Rightarrow> string option" where
  "as_string old v = (case v of JStr s \<Rightarrow> Some s | JNull \<Rightarrow> Some old | _ \<Rightarrow> None)"

definition as_int64 :: "int \<Rightarrow> json \<Rightarrow> int option" where
  "as_int64 old v = (case v of
       JInt n \<Rightarrow> if - (2 ^ 63) \<le> n \<and> n < 2 ^ 63 then Some n else None
     | JNull \<Rightarrow> Some old
     | _ \<Rightarrow> None)"

fun cnf_fields :: "confirmation \<Rightarrow> (string \<times> json) list \<Rightarrow> confirmation option" where
  "cnf_fields c [] = Some c"
| "cnf_fields c ((k, v) # ps) =
    (if fold_name k = fold_name ''jkt''
     then (case as_string (Cnf_Jkt c) v of None \<Rightarrow> None | Some s \<Rightarrow> cnf_fields (c\<lparr>Cnf_Jkt := s\<rparr>) ps)
     else if fold_name k = fold_name ''kc-jkt-type''
     then (case as_string (Cnf_JktType c) v of None \<Rightarrow> None | Some s \<Rightarrow> cnf_fields (c\<lparr>Cnf_JktType := s\<rparr>) ps)
     else cnf_fields c ps)"

definition as_cnf :: "confirmation option \<Rightarrow> json \<Rightarrow> confirmation option option" where
  "as_cnf old v = (case v of
       JNull \<Rightarrow> Some None
     | JObj ps \<Rightarrow>
         map_option Some (cnf_fields (case old of None \<Rightarrow> \<lparr>Cnf_Jkt = [], Cnf_JktType = []\<rparr> | Some c \<Rightarrow> c) ps)
     | _ \<Rightarrow> None)"

definition set_claim :: "string \<Rightarrow> json \<Rightarrow> parsed_claims \<Rightarrow> parsed_claims option" where
  "set_claim k v c =
    (let n = fold_name k
     in if n = fold_name ''typ'' then map_option (\<lambda>s. c\<lparr>PC_Typ := s\<rparr>) (as_string (PC_Typ c) v)
        else if n = fold_name ''iss'' then map_option (\<lambda>s. c\<lparr>PC_Iss := s\<rparr>) (as_string (PC_Iss c) v)
        else if n = fold_name ''sub'' then map_option (\<lambda>s. c\<lparr>PC_Sub := s\<rparr>) (as_string (PC_Sub c) v)
        else if n = fold_name ''azp'' then map_option (\<lambda>s. c\<lparr>PC_Azp := s\<rparr>) (as_string (PC_Azp c) v)
        else if n = fold_name ''sid'' then map_option (\<lambda>s. c\<lparr>PC_Sid := s\<rparr>) (as_string (PC_Sid c) v)
        else if n = fold_name ''jti'' then map_option (\<lambda>s. c\<lparr>PC_Jti := s\<rparr>) (as_string (PC_Jti c) v)
        else if n = fold_name ''aud'' then Some (c\<lparr>PC_Aud := Some v\<rparr>)
        else if n = fold_name ''scope'' then map_option (\<lambda>s. c\<lparr>PC_Scope := s\<rparr>) (as_string (PC_Scope c) v)
        else if n = fold_name ''iat'' then map_option (\<lambda>s. c\<lparr>PC_Iat := s\<rparr>) (as_int64 (PC_Iat c) v)
        else if n = fold_name ''exp'' then map_option (\<lambda>s. c\<lparr>PC_Exp := s\<rparr>) (as_int64 (PC_Exp c) v)
        else if n = fold_name ''cnf'' then map_option (\<lambda>s. c\<lparr>PC_Cnf := s\<rparr>) (as_cnf (PC_Cnf c) v)
        else Some c)"

fun set_claims :: "(string \<times> json) list \<Rightarrow> parsed_claims \<Rightarrow> parsed_claims option" where
  "set_claims [] c = Some c"
| "set_claims ((k, v) # ps) c = (case set_claim k v c of None \<Rightarrow> None | Some c' \<Rightarrow> set_claims ps c')"

definition zero_claims :: parsed_claims where
  "zero_claims = \<lparr>PC_Typ = [], PC_Iss = [], PC_Sub = [], PC_Azp = [], PC_Sid = [], PC_Jti = [],
     PC_Aud = None, PC_Scope = [], PC_Iat = 0, PC_Exp = 0, PC_Cnf = None\<rparr>"

definition unmarshal_claims :: "json \<Rightarrow> parsed_claims option" where
  "unmarshal_claims j = (case j of
       JObj ps \<Rightarrow> set_claims ps zero_claims
     | JNull \<Rightarrow> Some zero_claims
     | _ \<Rightarrow> None)"

definition verify :: "jose \<Rightarrow> string \<Rightarrow> jws_alg \<Rightarrow> nat list \<Rightarrow> token_error + parsed_claims" where
  "verify J raw alg key =
    (case J_verify J alg key raw of
       None \<Rightarrow> Inl ErrInvalidToken
     | Some payload \<Rightarrow>
         (case unmarshal_claims payload of
            None \<Rightarrow> Inl ErrInvalidToken
          | Some claims \<Rightarrow> Inr claims))"

definition thumbprint :: "confirmation option \<Rightarrow> string" where
  "thumbprint c = (case c of None \<Rightarrow> [] | Some x \<Rightarrow> Cnf_Jkt x)"

definition parseAudience :: "json option \<Rightarrow> string list" where
  "parseAudience raw =
    (case raw of
       Some (JArr js) \<Rightarrow> (case those (map (as_string []) js) of None \<Rightarrow> [] | Some many \<Rightarrow> many)
     | Some (JStr one) \<Rightarrow> [one]
     | _ \<Rightarrow> [])"

definition check :: "parsed_claims \<Rightarrow> string \<Rightarrow> string \<Rightarrow> time \<Rightarrow> token_error + parsed" where
  "check claims issuer wantType now =
    (if PC_Iss claims \<noteq> issuer then Inl ErrInvalidToken
     else if PC_Typ claims \<noteq> wantType then Inl ErrInvalidToken
     else (let expires = time_of_unix (PC_Exp claims)
           in if \<not> now < expires then Inl ErrExpiredToken
              else Inr \<lparr>Parsed_Type = PC_Typ claims, Parsed_Subject = PC_Sub claims,
                Parsed_SessionID = PC_Sid claims, Parsed_ClientID = PC_Azp claims,
                Parsed_ID = PC_Jti claims, Parsed_Audience = parseAudience (PC_Aud claims),
                Parsed_Scope = PC_Scope claims, Parsed_IssuedAt = time_of_unix (PC_Iat claims),
                Parsed_ExpiresAt = expires, Parsed_Thumbprint = thumbprint (PC_Cnf claims)\<rparr>))"

definition ParseAccess :: "jose \<Rightarrow> realm_keys \<Rightarrow> string \<Rightarrow> string \<Rightarrow> time \<Rightarrow> token_error + parsed" where
  "ParseAccess J k issuer raw now =
     bind_err (verify J raw RS256 (SigningPublicKey J k)) (\<lambda>claims. check claims issuer TypeAccess now)"

definition ParseID :: "jose \<Rightarrow> realm_keys \<Rightarrow> string \<Rightarrow> string \<Rightarrow> token_error + parsed" where
  "ParseID J k issuer raw =
     bind_err (verify J raw RS256 (SigningPublicKey J k)) (\<lambda>claims.
       if PC_Iss claims \<noteq> issuer \<or> PC_Typ claims \<noteq> TypeID then Inl ErrInvalidToken
       else Inr \<lparr>Parsed_Type = PC_Typ claims, Parsed_Subject = PC_Sub claims,
         Parsed_SessionID = PC_Sid claims, Parsed_ClientID = PC_Azp claims,
         Parsed_ID = PC_Jti claims, Parsed_Audience = parseAudience (PC_Aud claims),
         Parsed_Scope = PC_Scope claims, Parsed_IssuedAt = time_of_unix (PC_Iat claims),
         Parsed_ExpiresAt = time_of_unix (PC_Exp claims), Parsed_Thumbprint = []\<rparr>)"

definition ParseRefresh :: "jose \<Rightarrow> realm_keys \<Rightarrow> string \<Rightarrow> string \<Rightarrow> time \<Rightarrow> token_error + parsed" where
  "ParseRefresh J k issuer raw now =
     bind_err (verify J raw HS512 (HMACSecret k)) (\<lambda>claims. check claims issuer TypeRefresh now)"

definition ParseIdentityCookie :: "jose \<Rightarrow> realm_keys \<Rightarrow> string \<Rightarrow> string \<Rightarrow> time \<Rightarrow> token_error + parsed" where
  "ParseIdentityCookie J k issuer raw now =
     bind_err (verify J raw HS512 (HMACSecret k)) (\<lambda>claims. check claims issuer SerializedIDType now)"

definition ParseRegistration :: "jose \<Rightarrow> realm_keys \<Rightarrow> string \<Rightarrow> string \<Rightarrow> token_error + string" where
  "ParseRegistration J k issuer raw =
     bind_err (verify J raw HS512 (HMACSecret k)) (\<lambda>claims.
       if PC_Iss claims \<noteq> issuer \<or> PC_Typ claims \<noteq> TypeRegistration \<or> PC_Jti claims = []
       then Inl ErrInvalidToken else Inr (PC_Jti claims))"

section \<open>Introspection\<close>

record introspection =
  IN_Exp :: int
  IN_Iat :: int
  IN_Jti :: string
  IN_Iss :: string
  IN_Aud :: aud_claim
  IN_Sub :: string
  IN_Typ :: string
  IN_Azp :: string
  IN_Sid :: string
  IN_Acr :: string
  IN_RealmAccess :: "string list option"
  IN_ResourceAccess :: resource_access
  IN_Scope :: string
  IN_EmailVerified :: bool
  IN_PreferredUsername :: string
  IN_ClientID :: string
  IN_Username :: string
  IN_TokenType :: string
  IN_Active :: bool

record introspection_request =
  IR_Parsed :: parsed
  IR_Issuer :: string
  IR_Username :: string
  IR_Realm :: "string list"
  IR_Clients :: "string list smap"
  IR_EmailVerify :: bool

definition introspectionAudience :: "introspection_request \<Rightarrow> string list option" where
  "introspectionAudience r =
    (case Audience (Parsed_ClientID (IR_Parsed r)) (IR_Clients r) of
       None \<Rightarrow> None
     | Some resolved \<Rightarrow> Some (append_missing (Parsed_Audience (IR_Parsed r)) resolved))"

definition Introspect :: "introspection_request \<Rightarrow> introspection option" where
  "Introspect r =
    (case (introspectionAudience r, realmAccessClaim (IR_Realm r), resourceAccessClaim (IR_Clients r)) of
       (Some aud, Some realmAccess, Some resources) \<Rightarrow>
         (let p = IR_Parsed r
          in Some \<lparr>IN_Exp = unix_seconds (Parsed_ExpiresAt p), IN_Iat = unix_seconds (Parsed_IssuedAt p),
               IN_Jti = Parsed_ID p, IN_Iss = IR_Issuer r, IN_Aud = audienceClaim aud,
               IN_Sub = Parsed_Subject p, IN_Typ = Parsed_Type p, IN_Azp = Parsed_ClientID p,
               IN_Sid = Parsed_SessionID p, IN_Acr = ''1'', IN_RealmAccess = realmAccess,
               IN_ResourceAccess = resources, IN_Scope = Parsed_Scope p,
               IN_EmailVerified = IR_EmailVerify r, IN_PreferredUsername = IR_Username r,
               IN_ClientID = Parsed_ClientID p, IN_Username = IR_Username r,
               IN_TokenType = Parsed_Type p, IN_Active = True\<rparr>)
     | _ \<Rightarrow> None)"

section \<open>Reading a claim set back\<close>

lemma fold_names [simp]:
  "fold_name ''typ'' = [116, 121, 112]" "fold_name ''iss'' = [105, 115, 115]"
  "fold_name ''sub'' = [115, 117, 98]" "fold_name ''azp'' = [97, 122, 112]"
  "fold_name ''sid'' = [115, 105, 100]" "fold_name ''jti'' = [106, 116, 105]"
  "fold_name ''aud'' = [97, 117, 100]" "fold_name ''scope'' = [115, 99, 111, 112, 101]"
  "fold_name ''iat'' = [105, 97, 116]" "fold_name ''exp'' = [101, 120, 112]"
  "fold_name ''cnf'' = [99, 110, 102]" "fold_name ''jkt'' = [106, 107, 116]"
  "fold_name ''kc-jkt-type'' = [107, 99, 45, 106, 107, 116, 45, 116, 121, 112, 101]"
  "fold_name ''auth_time'' = [97, 117, 116, 104, 95, 116, 105, 109, 101]"
  "fold_name ''acr'' = [97, 99, 114]" "fold_name ''nonce'' = [110, 111, 110, 99, 101]"
  "fold_name ''at_hash'' = [97, 116, 95, 104, 97, 115, 104]"
  "fold_name ''aud_x'' = [97, 117, 100, 95, 120]" "fold_name ''prov'' = [112, 114, 111, 118]"
  "fold_name ''events'' = [101, 118, 101, 110, 116, 115]"
  "fold_name ''state_checker'' = [115, 116, 97, 116, 101, 95, 99, 104, 101, 99, 107, 101, 114]"
  "fold_name ''allowed-origins'' = [97, 108, 108, 111, 119, 101, 100, 45, 111, 114, 105, 103, 105, 110, 115]"
  "fold_name ''realm_access'' = [114, 101, 97, 108, 109, 95, 97, 99, 99, 101, 115, 115]"
  "fold_name ''resource_access'' = [114, 101, 115, 111, 117, 114, 99, 101, 95, 97, 99, 99, 101, 115, 115]"
  "fold_name ''email_verified'' = [101, 109, 97, 105, 108, 95, 118, 101, 114, 105, 102, 105, 101, 100]"
  "fold_name ''preferred_username'' =
     [112, 114, 101, 102, 101, 114, 114, 101, 100, 95, 117, 115, 101, 114, 110, 97, 109, 101]"
  "fold_name ''registration_auth'' =
     [114, 101, 103, 105, 115, 116, 114, 97, 116, 105, 111, 110, 95, 97, 117, 116, 104]"
  by (simp_all add: fold_name_def fold_rune_def runes_ascii ascii_def string_bytes_def)

definition int64 :: "int \<Rightarrow> bool" where
  "int64 n \<longleftrightarrow> - (2 ^ 63) \<le> n \<and> n < 2 ^ 63"

lemma as_simps [simp]:
  "as_string old (JStr s) = Some s"
  "int64 n \<Longrightarrow> as_int64 m (JInt n) = Some n"
  "as_cnf None (JObj [(''jkt'', JStr (Cnf_Jkt x)), (''kc-jkt-type'', JStr (Cnf_JktType x))]) = Some (Some x)"
  by (simp_all add: as_string_def as_int64_def int64_def as_cnf_def)

lemma set_claim_simps [simp]:
  "set_claim ''typ'' (JStr s) c = Some (c\<lparr>PC_Typ := s\<rparr>)"
  "set_claim ''iss'' (JStr s) c = Some (c\<lparr>PC_Iss := s\<rparr>)"
  "set_claim ''sub'' (JStr s) c = Some (c\<lparr>PC_Sub := s\<rparr>)"
  "set_claim ''azp'' (JStr s) c = Some (c\<lparr>PC_Azp := s\<rparr>)"
  "set_claim ''sid'' (JStr s) c = Some (c\<lparr>PC_Sid := s\<rparr>)"
  "set_claim ''jti'' (JStr s) c = Some (c\<lparr>PC_Jti := s\<rparr>)"
  "set_claim ''aud'' v c = Some (c\<lparr>PC_Aud := Some v\<rparr>)"
  "set_claim ''scope'' (JStr s) c = Some (c\<lparr>PC_Scope := s\<rparr>)"
  "int64 n \<Longrightarrow> set_claim ''iat'' (JInt n) c = Some (c\<lparr>PC_Iat := n\<rparr>)"
  "int64 n \<Longrightarrow> set_claim ''exp'' (JInt n) c = Some (c\<lparr>PC_Exp := n\<rparr>)"
  "set_claim ''auth_time'' v c = Some c" "set_claim ''acr'' v c = Some c" "set_claim ''nonce'' v c = Some c"
  "set_claim ''at_hash'' v c = Some c" "set_claim ''aud_x'' v c = Some c" "set_claim ''prov'' v c = Some c"
  "set_claim ''state_checker'' v c = Some c" "set_claim ''allowed-origins'' v c = Some c"
  "set_claim ''realm_access'' v c = Some c" "set_claim ''resource_access'' v c = Some c"
  "set_claim ''email_verified'' v c = Some c" "set_claim ''preferred_username'' v c = Some c"
  "set_claim ''registration_auth'' v c = Some c"
  by (simp_all add: set_claim_def Let_def)

lemma set_claim_cnf [simp]:
  "PC_Cnf c = None \<Longrightarrow> set_claim ''cnf''
     (JObj [(''jkt'', JStr (Cnf_Jkt x)), (''kc-jkt-type'', JStr (Cnf_JktType x))]) c = Some (c\<lparr>PC_Cnf := Some x\<rparr>)"
  by (simp add: set_claim_def Let_def)

lemma set_claims_append:
  "set_claims (ps @ qs) c = (case set_claims ps c of None \<Rightarrow> None | Some c' \<Rightarrow> set_claims qs c')"
  by (induction ps c rule: set_claims.induct) (auto split: option.splits)

lemma set_claims_omit [simp]:
  "set_claims (omit_int ''auth_time'' a @ ps) c = set_claims ps c"
  "set_claims (omit_strs ''allowed-origins'' xs @ ps) c = set_claims ps c"
  "set_claims (omit_roles ''realm_access'' r @ ps) c = set_claims ps c"
  "set_claims (omit_resources ''resource_access'' rs @ ps) c = set_claims ps c"
  "set_claims (omit_str ''nonce'' s @ ps) c = set_claims ps c"
  "set_claims (omit_str ''at_hash'' s @ ps) c = set_claims ps c"
  "set_claims (omit_aud ''aud_x'' d @ ps) c = set_claims ps c"
  by (simp_all add: omit_int_def omit_strs_def omit_roles_def omit_resources_def omit_str_def omit_aud_def
      split: option.splits aud_claim.splits)

lemma set_claims_cnf [simp]:
  "PC_Cnf c = None \<Longrightarrow> set_claims (omit_cnf ''cnf'' f @ ps) c = set_claims ps (c\<lparr>PC_Cnf := f\<rparr>)"
  by (cases c, cases f) (simp_all add: omit_cnf_def)

definition aud_json :: "aud_claim \<Rightarrow> json option" where
  "aud_json a = (case a of AudAbsent \<Rightarrow> None | AudOne s \<Rightarrow> Some (JStr s) | AudMany xs \<Rightarrow> Some (JArr (map JStr xs)))"

lemma set_claims_aud [simp]:
  "PC_Aud c = None \<Longrightarrow> set_claims (omit_aud ''aud'' d @ ps) c = set_claims ps (c\<lparr>PC_Aud := aud_json d\<rparr>)"
  by (cases c, cases d) (simp_all add: omit_aud_def aud_json_def)

lemma audienceClaim_cases [case_names none one many]:
  obtains "auds = []" | a where "auds = [a]" | a b as where "auds = a # b # as"
  by (cases auds rule: list.exhaust, simp, metis list.exhaust)

lemma parseAudience_audienceClaim [simp]: "parseAudience (aud_json (audienceClaim auds)) = auds"
proof -
  have "those (map (as_string [] \<circ> JStr) xs) = Some xs" for xs by (induction xs) simp_all
  then show ?thesis
    by (simp add: parseAudience_def aud_json_def audienceClaim_def split: list.splits aud_claim.splits)
qed

lemma unmarshal_access:
  assumes "int64 (AC_Exp c)" "int64 (AC_Iat c)"
  shows "unmarshal_claims (access_json c) = Some \<lparr>PC_Typ = AC_Typ c, PC_Iss = AC_Iss c, PC_Sub = AC_Sub c,
     PC_Azp = AC_Azp c, PC_Sid = AC_Sid c, PC_Jti = AC_Jti c, PC_Aud = aud_json (AC_Aud c),
     PC_Scope = AC_Scope c, PC_Iat = AC_Iat c, PC_Exp = AC_Exp c, PC_Cnf = AC_Cnf c\<rparr>"
  using assms by (simp add: unmarshal_claims_def access_json_def zero_claims_def)

lemma unmarshal_lightweight:
  assumes "int64 (LC_Exp c)" "int64 (LC_Iat c)"
  shows "unmarshal_claims (lightweight_json c) = Some \<lparr>PC_Typ = LC_Typ c, PC_Iss = LC_Iss c, PC_Sub = [],
     PC_Azp = LC_Azp c, PC_Sid = LC_Sid c, PC_Jti = LC_Jti c, PC_Aud = None,
     PC_Scope = LC_Scope c, PC_Iat = LC_Iat c, PC_Exp = LC_Exp c, PC_Cnf = LC_Cnf c\<rparr>"
  using assms by (simp add: unmarshal_claims_def lightweight_json_def zero_claims_def)

lemma unmarshal_id:
  assumes "int64 (IC_Exp c)" "int64 (IC_Iat c)"
  shows "unmarshal_claims (id_json c) = Some \<lparr>PC_Typ = IC_Typ c, PC_Iss = IC_Iss c, PC_Sub = IC_Sub c,
     PC_Azp = IC_Azp c, PC_Sid = IC_Sid c, PC_Jti = IC_Jti c, PC_Aud = Some (JStr (IC_Aud c)),
     PC_Scope = [], PC_Iat = IC_Iat c, PC_Exp = IC_Exp c, PC_Cnf = None\<rparr>"
  using assms by (simp add: unmarshal_claims_def id_json_def zero_claims_def)

lemma unmarshal_refresh:
  assumes "int64 (RC_Exp c)" "int64 (RC_Iat c)"
  shows "unmarshal_claims (refresh_json c) = Some \<lparr>PC_Typ = RC_Typ c, PC_Iss = RC_Iss c, PC_Sub = RC_Sub c,
     PC_Azp = RC_Azp c, PC_Sid = RC_Sid c, PC_Jti = RC_Jti c, PC_Aud = Some (JStr (RC_Aud c)),
     PC_Scope = RC_Scope c, PC_Iat = RC_Iat c, PC_Exp = RC_Exp c, PC_Cnf = RC_Cnf c\<rparr>"
  using assms by (simp add: unmarshal_claims_def refresh_json_def zero_claims_def)

lemma unmarshal_identity:
  assumes "int64 (ID_Expiry c)" "int64 (ID_IssuedAt c)"
  shows "unmarshal_claims (identity_json c) = Some \<lparr>PC_Typ = ID_Type c, PC_Iss = ID_Issuer c, PC_Sub = ID_Subject c,
     PC_Azp = [], PC_Sid = ID_SessionID c, PC_Jti = ID_ID c, PC_Aud = None,
     PC_Scope = [], PC_Iat = ID_IssuedAt c, PC_Exp = ID_Expiry c, PC_Cnf = None\<rparr>"
  using assms by (simp add: unmarshal_claims_def identity_json_def zero_claims_def)

lemma unmarshal_registration:
  assumes "int64 (RG_Exp c)" "int64 (RG_Iat c)"
  shows "unmarshal_claims (registration_json c) = Some \<lparr>PC_Typ = RG_Typ c, PC_Iss = RG_Iss c, PC_Sub = [],
     PC_Azp = [], PC_Sid = [], PC_Jti = RG_Jti c, PC_Aud = Some (JStr (RG_Aud c)),
     PC_Scope = [], PC_Iat = RG_Iat c, PC_Exp = RG_Exp c, PC_Cnf = None\<rparr>"
  using assms by (simp add: unmarshal_claims_def registration_json_def zero_claims_def)

section \<open>Signing and verifying\<close>

lemma jose_okD:
  assumes "jose_ok J" "J_sign J alg typ kid key j = Some raw"
  shows "json_ok j \<Longrightarrow> J_verify J alg (verify_key J alg key) raw = Some j"
    and "alg' \<noteq> alg \<Longrightarrow> J_verify J alg' key' raw = None"
  using assms unfolding jose_ok_def by blast+

lemma signRSA_verify:
  assumes "jose_ok J" "signRSA J i j = Inr raw"
  shows "json_ok j \<Longrightarrow> J_verify J RS256 (SigningPublicKey J (Iss_Keys i)) raw = Some j"
    and "verify J raw HS512 key = Inl ErrInvalidToken"
  using jose_okD [OF assms(1), of RS256] assms(2)
  by (auto simp: signRSA_def RSASigner_def RSASignerTyped_def SigningPublicKey_def verify_key_def verify_def
      split: option.splits)

lemma signHMAC_verify:
  assumes "jose_ok J" "HMACSigner J k j = Some raw"
  shows "json_ok j \<Longrightarrow> J_verify J HS512 (HMACSecret k) raw = Some j"
    and "verify J raw RS256 key = Inl ErrInvalidToken"
  using jose_okD [OF assms(1), of HS512] assms(2)
  by (auto simp: HMACSigner_def HMACSecret_def verify_key_def verify_def split: option.splits)

lemma KeyOrder_set: "KeyOrder keys = Some out \<Longrightarrow> set out = set keys"
proof -
  assume "KeyOrder keys = Some out"
  then obtain c where "out = byBucket (sort keys) c" by (auto simp: KeyOrder_def Let_def split: option.splits)
  then have "mset out = mset keys" by (simp add: byBucket_mset)
  then show "set out = set keys" by (metis set_mset_mset)
qed

text \<open>
  The strings of a request that end up in a claim. When they are valid UTF-8 the three payloads are
  texts that decode to themselves; the identifiers and the hash the issuer makes are ASCII.
\<close>

definition request_strings :: "issuer \<Rightarrow> token_request \<Rightarrow> string list" where
  "request_strings i r =
     [Iss_Issuer i, Client_ClientID (Req_Client r), US_UserID (Req_UserSession r), US_ID (Req_UserSession r),
      US_Username (Req_UserSession r), Req_Scope r, RefreshScope (Req_Scope r) (Req_Client r), Req_Nonce r,
      Req_Thumbprint r] @ Client_WebOrigins (Req_Client r) @ Req_RealmRoles r
     @ concat (map (\<lambda>(c, roles). c # roles) (Req_ClientRoles r))"

lemma valid_utf8_ascii: "ascii s \<Longrightarrow> valid_utf8 s"
proof -
  assume a: "ascii s"
  have "concat (map encode_rune bs) = bs" if "list_all (\<lambda>b. b < 128) bs" for bs
    using that by (induction bs) (simp_all add: encode_rune_def)
  moreover have "list_all (\<lambda>b. b < 128) (string_bytes s)"
    using a by (simp add: ascii_def string_bytes_def list_all_iff)
  ultimately show "valid_utf8 s" using a by (simp add: valid_utf8_def runes_ascii string_of_runes_def)
qed

lemma ascii_append [simp]: "ascii (s @ t) \<longleftrightarrow> ascii s \<and> ascii t"
  by (simp add: ascii_def)

text \<open>The words of an ASCII scope, and the refresh scope built from them, are ASCII.\<close>

lemma fields_chunks_bytes:
  "w \<in> set (fields_chunks cur cs) \<Longrightarrow> set w \<subseteq> set cur \<union> \<Union> (set ` snd ` set cs)"
  by (induction cur cs rule: fields_chunks.induct) (fastforce split: if_splits)+

lemma fields_bytes: "w \<in> set (GoStd.fields s) \<Longrightarrow> set w \<subseteq> set s"
proof
  fix c assume "w \<in> set (GoStd.fields s)" and c: "c \<in> set w"
  then obtain bs where bs: "bs \<in> set (fields_chunks [] (rune_chunks (string_bytes s)))" "w = bytes_string bs"
    by (auto simp: GoStd.fields_def)
  have "set bs \<subseteq> set (concat (map snd (rune_chunks (string_bytes s))))"
    using fields_chunks_bytes [OF bs(1)] by auto
  then have "set bs \<subseteq> set (string_bytes s)" by (simp add: rune_chunks_concat)
  then show "c \<in> set s" using c bs(2) by (auto simp: bytes_string_def string_bytes_def)
qed

lemma ascii_join: "ascii sep \<Longrightarrow> list_all ascii ws \<Longrightarrow> ascii (join sep ws)"
  by (induction sep ws rule: join.induct) (simp_all, simp add: ascii_def)

lemma append_missing_all: "list_all P xs \<Longrightarrow> list_all P ys \<Longrightarrow> list_all P (append_missing xs ys)"
  by (induction xs ys rule: append_missing.induct) auto

lemma ascii_RefreshScope:
  assumes "ascii s"
  shows "ascii (RefreshScope s c)"
proof -
  have "list_all ascii (GoStd.fields s)"
    using assms fields_bytes by (fastforce simp: list_all_iff ascii_def)
  moreover have "ascii '' ''" "list_all ascii refreshOnlyScopes" "ascii serviceAccountScope"
    by (simp_all add: refreshOnlyScopes_def serviceAccountScope_def ascii_def)
  ultimately show ?thesis
    unfolding RefreshScope_def Let_def by (intro ascii_join append_missing_all) simp_all
qed

lemma ascii_hex_encode: "list_all (\<lambda>b. b < 256) bs \<Longrightarrow> ascii (hex_encode bs)"
proof (induction bs)
  case (Cons b bs)
  have "b div 16 < 16" "b mod 16 < 16" using Cons.prems by auto
  moreover have "(of_char (hex_digit n) :: nat) < 128" if "n < 16" for n
    using that by (simp add: hex_digit_def)
  ultimately show ?case using Cons by (simp add: ascii_def hex_encode_def)
qed (simp add: ascii_def hex_encode_def)

lemma ascii_b64_encode: "list_all (\<lambda>b. b < 256) bs \<Longrightarrow> ascii (b64_encode bs)"
proof -
  assume "list_all (\<lambda>b. b < 256) bs"
  then obtain vs where vs: "b64_encode bs = map b64_char vs" "list_all (\<lambda>v. v < 64) vs"
    using b64_encode_chars by blast
  have "(of_char (b64_char n) :: nat) < 128" if "n < 64" for n
    using that by (auto simp: of_char_b64_char b64_code_def)
  then show "ascii (b64_encode bs)" using vs by (simp add: ascii_def list_all_iff)
qed

lemma ascii_NewID:
  assumes "NewID e = Some (s, e')" "list_all (\<lambda>b. b < 256) e"
  shows "ascii s" "list_all (\<lambda>b. b < 256) e'"
proof -
  define b where "b = (take 16 e)[6 := (take 16 e ! 6) mod 16 + 64]"
  define c where "c = b[8 := (b ! 8) mod 64 + 128]"
  have upd: "list_all P (xs[i := v])" if "list_all P xs" "P v" for P and xs :: "nat list" and i v
    using that by (auto simp: list_all_iff dest!: subsetD [OF set_update_subset_insert])
  have "list_all (\<lambda>b. b < 256) (take 16 e)" using assms(2) by (auto simp: list_all_iff dest: in_set_takeD)
  then have c: "list_all (\<lambda>b. b < 256) c"
    unfolding b_def c_def by (intro upd) (simp_all add: less_le_trans [OF mod_less_divisor [THEN add_strict_right_mono]])
  have sub: "list_all (\<lambda>b. b < 256) (take n (drop m c))" "list_all (\<lambda>b. b < 256) (take n c)" for n m
    using c by (auto simp: list_all_iff dest: in_set_takeD in_set_dropD)
  have s: "s = hex_encode (take 4 c) @ ''-'' @ hex_encode (take 2 (drop 4 c)) @ ''-''
      @ hex_encode (take 2 (drop 6 c)) @ ''-'' @ hex_encode (take 2 (drop 8 c)) @ ''-''
      @ hex_encode (take 6 (drop 10 c))"
    using assms(1) unfolding NewID_def rand_read_def Let_def b_def c_def by (auto split: if_splits)
  have "ascii ''-''" by (simp add: ascii_def)
  then show "ascii s" unfolding s ascii_append using ascii_hex_encode [OF sub(1)] ascii_hex_encode [OF sub(2)]
    by blast
  show "list_all (\<lambda>b. b < 256) e'"
    using assms by (auto simp: NewID_def rand_read_def Let_def list_all_iff dest: in_set_dropD split: if_splits)
qed

lemma resourceAccessClaim_sub:
  assumes "resourceAccessClaim cr = Some res" "(c, roles) \<in> set res"
  shows "\<exists>rs. (c, rs) \<in> set cr \<and> set roles \<subseteq> set rs"
proof -
  define f where "f = (\<lambda>c. map_option (\<lambda>roles. (c, roles))
      (KeyOrder (case map_of cr c of None \<Rightarrow> [] | Some rs \<Rightarrow> rs)))"
  obtain cs where cs: "KeyOrder (map fst cr) = Some cs" "those (map f cs) = Some res"
    using assms by (auto simp: resourceAccessClaim_def f_def split: if_splits option.splits)
  have "those (map f cs) = Some res \<Longrightarrow> x \<in> set res \<Longrightarrow> \<exists>c \<in> set cs. f c = Some x" for x cs res
    by (induction cs arbitrary: res) (auto split: option.splits)
  then obtain c' where "c' \<in> set cs" "f c' = Some (c, roles)" using cs(2) assms(2) by blast
  then have c: "c \<in> set cs" "KeyOrder (case map_of cr c of None \<Rightarrow> [] | Some rs \<Rightarrow> rs) = Some roles"
    by (auto simp: f_def)
  then have "c \<in> fst ` set cr" using KeyOrder_set [OF cs(1)] by simp
  then obtain rs where "map_of cr c = Some rs" by (cases "map_of cr c") (auto simp: map_of_eq_None_iff)
  then show ?thesis using c(2) KeyOrder_set map_of_SomeD by fastforce
qed

lemma realmAccessClaim_sub:
  "realmAccessClaim names = Some (Some roles) \<Longrightarrow> set roles \<subseteq> set names"
  using KeyOrder_set by (auto simp: realmAccessClaim_def split: if_splits)

lemma Audience_set:
  assumes "Audience c cr = Some aud"
  shows "set aud = fst ` set cr - {c}"
proof -
  have "KeyOrder (filter (\<lambda>x. x \<noteq> c) (map fst cr)) = Some aud" using assms by (simp add: Audience_def)
  from KeyOrder_set [OF this] show ?thesis by auto
qed

lemma request_stringsD:
  assumes "list_all valid_utf8 (request_strings i r)"
  shows "valid_utf8 (Iss_Issuer i)" "valid_utf8 (Client_ClientID (Req_Client r))"
    "valid_utf8 (US_UserID (Req_UserSession r))" "valid_utf8 (US_ID (Req_UserSession r))"
    "valid_utf8 (US_Username (Req_UserSession r))" "valid_utf8 (Req_Scope r)"
    "valid_utf8 (RefreshScope (Req_Scope r) (Req_Client r))" "valid_utf8 (Req_Nonce r)"
    "valid_utf8 (Req_Thumbprint r)"
    "\<And>w. w \<in> set (Client_WebOrigins (Req_Client r)) \<Longrightarrow> valid_utf8 w"
    "\<And>n. n \<in> set (Req_RealmRoles r) \<Longrightarrow> valid_utf8 n"
    "\<And>c rs. (c, rs) \<in> set (Req_ClientRoles r) \<Longrightarrow> valid_utf8 c"
    "\<And>c rs n. (c, rs) \<in> set (Req_ClientRoles r) \<Longrightarrow> n \<in> set rs \<Longrightarrow> valid_utf8 n"
  using assms unfolding request_strings_def by (fastforce simp: list_all_iff)+

text \<open>The entries of an object whose text decodes to itself.\<close>

definition entries_ok :: "(string \<times> json) list \<Rightarrow> bool" where
  "entries_ok ps \<longleftrightarrow> list_all (\<lambda>p. valid_utf8 (fst p) \<and> json_ok (snd p)) ps"

lemma entries_ok_simps [simp]:
  "entries_ok []"
  "entries_ok ((k, v) # ps) \<longleftrightarrow> valid_utf8 k \<and> json_ok v \<and> entries_ok ps"
  "entries_ok (ps @ qs) \<longleftrightarrow> entries_ok ps \<and> entries_ok qs"
  "json_ok (JObj ps) \<longleftrightarrow> entries_ok ps"
  by (simp_all add: entries_ok_def)

declare json_ok.simps(3) [simp del]

lemma valid_keys [simp]:
  "valid_utf8 ''exp''" "valid_utf8 ''iat''" "valid_utf8 ''auth_time''" "valid_utf8 ''jti''" "valid_utf8 ''iss''"
  "valid_utf8 ''aud''" "valid_utf8 ''sub''" "valid_utf8 ''typ''" "valid_utf8 ''azp''" "valid_utf8 ''sid''"
  "valid_utf8 ''acr''" "valid_utf8 ''allowed-origins''" "valid_utf8 ''realm_access''"
  "valid_utf8 ''resource_access''" "valid_utf8 ''cnf''" "valid_utf8 ''scope''" "valid_utf8 ''email_verified''"
  "valid_utf8 ''preferred_username''" "valid_utf8 ''nonce''" "valid_utf8 ''at_hash''" "valid_utf8 ''aud_x''"
  "valid_utf8 ''prov''" "valid_utf8 ''jkt''" "valid_utf8 ''kc-jkt-type''" "valid_utf8 ''roles''"
  "valid_utf8 ''state_checker''" "valid_utf8 ''registration_auth''" "valid_utf8 ''1''" "valid_utf8 ''default''"
  "valid_utf8 TypeAccess" "valid_utf8 TypeID" "valid_utf8 TypeRefresh" "valid_utf8 SerializedIDType"
  "valid_utf8 TypeRegistration" "valid_utf8 JktTypeDPoP" "valid_utf8 registrationAuthAuthenticated"
  by (simp_all add: valid_utf8_ascii ascii_def TypeAccess_def TypeID_def TypeRefresh_def SerializedIDType_def
      TypeRegistration_def JktTypeDPoP_def registrationAuthAuthenticated_def)

lemma entries_ok_omit:
  "valid_utf8 k \<Longrightarrow> entries_ok (omit_int k a)"
  "valid_utf8 k \<Longrightarrow> valid_utf8 s \<Longrightarrow> entries_ok (omit_str k s)"
  "valid_utf8 k \<Longrightarrow> list_all valid_utf8 xs \<Longrightarrow> entries_ok (omit_strs k xs)"
  "valid_utf8 k \<Longrightarrow> list_all valid_utf8 auds \<Longrightarrow> entries_ok (omit_aud k (audienceClaim auds))"
  "valid_utf8 k \<Longrightarrow> valid_utf8 jkt \<Longrightarrow> entries_ok (omit_cnf k (confirmationClaim jkt))"
  "valid_utf8 k \<Longrightarrow> (\<And>rs. r = Some rs \<Longrightarrow> list_all valid_utf8 rs) \<Longrightarrow> entries_ok (omit_roles k r)"
proof -
  have map: "list_all json_ok (map JStr xs) \<longleftrightarrow> list_all valid_utf8 xs" for xs
    by (induction xs) simp_all
  show "valid_utf8 k \<Longrightarrow> entries_ok (omit_int k a)" by (cases a) (simp_all add: omit_int_def)
  show "valid_utf8 k \<Longrightarrow> valid_utf8 s \<Longrightarrow> entries_ok (omit_str k s)" by (simp add: omit_str_def)
  show "valid_utf8 k \<Longrightarrow> list_all valid_utf8 xs \<Longrightarrow> entries_ok (omit_strs k xs)"
    by (simp add: omit_strs_def map)
  show "valid_utf8 k \<Longrightarrow> list_all valid_utf8 auds \<Longrightarrow> entries_ok (omit_aud k (audienceClaim auds))"
    by (cases auds rule: audienceClaim_cases) (simp_all add: omit_aud_def audienceClaim_def map)
  show "valid_utf8 k \<Longrightarrow> valid_utf8 jkt \<Longrightarrow> entries_ok (omit_cnf k (confirmationClaim jkt))"
    by (simp add: omit_cnf_def confirmationClaim_def)
  show "valid_utf8 k \<Longrightarrow> (\<And>rs. r = Some rs \<Longrightarrow> list_all valid_utf8 rs) \<Longrightarrow> entries_ok (omit_roles k r)"
    by (cases r) (simp_all add: omit_roles_def roleClaim_json_def map)
qed

lemma entries_ok_resources:
  assumes "valid_utf8 k" "\<And>c rs. (c, rs) \<in> set res \<Longrightarrow> valid_utf8 c \<and> list_all valid_utf8 rs"
  shows "entries_ok (omit_resources k res)"
proof -
  have "entries_ok (map (\<lambda>(c, roles). (c, roleClaim_json roles)) res)"
    using assms(2)
  proof (induction res)
    case (Cons p res)
    obtain c rs where p: "p = (c, rs)" by (cases p)
    have "valid_utf8 c" "list_all valid_utf8 rs" using Cons.prems [of c rs] p by auto
    moreover have "list_all json_ok (map JStr rs) \<longleftrightarrow> list_all valid_utf8 rs" by (induction rs) simp_all
    moreover have "entries_ok (map (\<lambda>(c, roles). (c, roleClaim_json roles)) res)"
      using Cons.prems by (intro Cons.IH) auto
    ultimately show ?case using p by (simp add: roleClaim_json_def)
  qed simp
  then show ?thesis using assms(1) by (simp add: omit_resources_def resourceAccess_MarshalJSON_def)
qed

lemma accessClaims_ok:
  assumes "accessClaims i r iat exp e = Some (c, e')" "list_all (\<lambda>b. b < 256) e"
    and u: "list_all valid_utf8 (request_strings i r)"
  shows "json_ok (any_access_json c)" "list_all (\<lambda>b. b < 256) e'"
proof -
  obtain jti where jti: "NewID e = Some (jti, e')"
    using assms(1) by (auto simp: accessClaims_def split: option.splits if_splits)
  note n = ascii_NewID [OF jti assms(2)] and d = request_stringsD [OF u]
  have j: "valid_utf8 jti" using n(1) by (rule valid_utf8_ascii)
  show "list_all (\<lambda>b. b < 256) e'" by (rule n(2))
  show "json_ok (any_access_json c)"
  proof (cases "IsLightweight (Req_Client r)")
    case True
    then have c: "c = LightClaims \<lparr>LC_Exp = exp, LC_Iat = iat, LC_Jti = jti, LC_Iss = Iss_Issuer i,
                LC_Typ = TypeAccess, LC_Azp = Client_ClientID (Req_Client r),
                LC_Sid = US_ID (Req_UserSession r), LC_Cnf = confirmationClaim (Req_Thumbprint r),
                LC_Scope = Req_Scope r\<rparr>"
      using assms(1) jti by (simp add: accessClaims_def)
    show ?thesis unfolding c
      using d(1,2,4,6) j entries_ok_omit(5) [OF valid_keys(15) d(9)]
      by (simp add: any_access_json_def lightweight_json_def)
  next
    case False
    then obtain aud ra res where p: "Audience (Client_ClientID (Req_Client r)) (Req_ClientRoles r) = Some aud"
      "realmAccessClaim (Req_RealmRoles r) = Some ra" "resourceAccessClaim (Req_ClientRoles r) = Some res"
      using assms(1) jti by (auto simp: accessClaims_def split: option.splits)
    have o1: "entries_ok (omit_aud ''aud'' (audienceClaim aud))"
      using Audience_set [OF p(1)] d(12) by (intro entries_ok_omit(4)) (auto simp: list_all_iff)
    have o2: "entries_ok (omit_roles ''realm_access'' ra)"
      using realmAccessClaim_sub [of "Req_RealmRoles r"] p(2) d(11)
      by (intro entries_ok_omit(6)) (auto simp: list_all_iff)
    have o3: "entries_ok (omit_resources ''resource_access'' res)"
    proof (rule entries_ok_resources)
      fix x rs assume "(x, rs) \<in> set res"
      from resourceAccessClaim_sub [OF p(3) this] obtain rs' where
        "(x, rs') \<in> set (Req_ClientRoles r)" "set rs \<subseteq> set rs'" by blast
      then show "valid_utf8 x \<and> list_all valid_utf8 rs" using d(12,13) by (auto simp: list_all_iff)
    qed simp
    have o4: "entries_ok (omit_strs ''allowed-origins'' (Client_WebOrigins (Req_Client r)))"
      using d(10) by (intro entries_ok_omit(3)) (simp_all add: list_all_iff)
    have c: "c = FullClaims \<lparr>AC_Exp = exp, AC_Iat = iat, AC_AuthTime = authTimeClaim r, AC_Jti = jti,
         AC_Iss = Iss_Issuer i, AC_Aud = audienceClaim aud, AC_Sub = US_UserID (Req_UserSession r),
         AC_Typ = TypeAccess, AC_Azp = Client_ClientID (Req_Client r),
         AC_Sid = US_ID (Req_UserSession r), AC_Acr = ''1'',
         AC_AllowedOrigins = Client_WebOrigins (Req_Client r), AC_RealmAccess = ra,
         AC_ResourceAccess = res, AC_Cnf = confirmationClaim (Req_Thumbprint r),
         AC_Scope = Req_Scope r, AC_EmailVerified = User_EmailVerified (Req_User r),
         AC_PreferredUsername = US_Username (Req_UserSession r)\<rparr>"
      using assms(1) jti False p by (simp add: accessClaims_def)
    show ?thesis unfolding c
      using d(1-6) j o1 o2 o3 o4 entries_ok_omit(5) [OF valid_keys(15) d(9)] entries_ok_omit(1) [OF valid_keys(3)]
      by (simp add: any_access_json_def access_json_def)
  qed
qed

lemma ascii_atHash: "ascii (atHash t)"
proof -
  have "list_all (\<lambda>b. b < 256) (take n (sha256 m))" for n m
    using sha256_bytes [of m] by (auto simp: list_all_iff dest: in_set_takeD)
  then show ?thesis unfolding atHash_def Let_def by (simp add: ascii_b64_encode) (simp add: ascii_def)
qed

lemma idClaims_ok:
  assumes "idClaims i r access iat exp e = Some (c, e')" "list_all (\<lambda>b. b < 256) e"
    and u: "list_all valid_utf8 (request_strings i r)"
  shows "json_ok (id_json c)" "list_all (\<lambda>b. b < 256) e'"
proof -
  obtain jti where jti: "NewID e = Some (jti, e')"
    using assms(1) by (auto simp: idClaims_def split: option.splits)
  note n = ascii_NewID [OF jti assms(2)] and d = request_stringsD [OF u]
  show "list_all (\<lambda>b. b < 256) e'" by (rule n(2))
  show "json_ok (id_json c)"
    using assms(1) jti d(1-5) valid_utf8_ascii [OF n(1)] entries_ok_omit(1) [OF valid_keys(3)]
      entries_ok_omit(2) [OF valid_keys(19) d(8)]
      entries_ok_omit(2) [OF valid_keys(20) valid_utf8_ascii [OF ascii_atHash [of access]]]
    by (auto simp: idClaims_def id_json_def)
qed

lemma refreshClaims_ok:
  assumes "refreshClaims i r iat exp e = Some (c, e')" "list_all (\<lambda>b. b < 256) e"
    and u: "list_all valid_utf8 (request_strings i r)"
  shows "json_ok (refresh_json c)" "list_all (\<lambda>b. b < 256) e'"
proof -
  obtain jti aud where jti: "NewID e = Some (jti, e')"
    and aud: "Audience (Client_ClientID (Req_Client r)) (Req_ClientRoles r) = Some aud"
    using assms(1) by (auto simp: refreshClaims_def split: option.splits)
  note n = ascii_NewID [OF jti assms(2)] and d = request_stringsD [OF u]
  show "list_all (\<lambda>b. b < 256) e'" by (rule n(2))
  have "entries_ok (omit_aud ''aud_x'' (audienceClaim aud))"
    using Audience_set [OF aud] d(12) by (intro entries_ok_omit(4)) (auto simp: list_all_iff)
  then show "json_ok (refresh_json c)"
    using assms(1) jti aud d(1-7) valid_utf8_ascii [OF n(1)] entries_ok_omit(5) [OF valid_keys(15) d(9)]
    by (auto simp: refreshClaims_def refresh_json_def)
qed

text \<open>What \<^const>\<open>Issue\<close> signed, when it returned a set.\<close>

lemma Issue_signed:
  assumes "Issue J i now r e = Some (Inr ts, e')"
  obtains ac e1 ic e2 rc where
    "accessClaims i r (unix_seconds now) (unix_seconds (now + Req_AccessLife r)) e = Some (ac, e1)"
    "signRSA J i (any_access_json ac) = Inr (Set_AccessToken ts)"
    "Req_IncludeIDToken r \<longrightarrow> idClaims i r (Set_AccessToken ts) (unix_seconds now)
       (unix_seconds (now + Req_AccessLife r)) e1 = Some (ic, e2) \<and> signRSA J i (id_json ic) = Inr (Set_IDToken ts)"
    "\<not> Req_IncludeIDToken r \<longrightarrow> Set_IDToken ts = [] \<and> e2 = e1"
    "refreshClaims i r (unix_seconds now) (unix_seconds (now + Req_RefreshLife r)) e2 = Some (rc, e')"
    "signHMAC J i (refresh_json rc) = Inr (Set_RefreshToken ts)"
proof -
  note that_global = that
  from assms obtain ac e1 access where a:
    "accessClaims i r (unix_seconds now) (unix_seconds (now + Req_AccessLife r)) e = Some (ac, e1)"
    "signRSA J i (any_access_json ac) = Inr access"
    by (auto simp: Issue_def Let_def split: option.splits sum.splits)
  have ref: thesis
    if "Issue_refresh J i now r access idt e2 = Some (Inr ts, e')"
      "Req_IncludeIDToken r \<Longrightarrow> idClaims i r access (unix_seconds now)
        (unix_seconds (now + Req_AccessLife r)) e1 = Some (ic, e2) \<and> signRSA J i (id_json ic) = Inr idt"
      "\<not> Req_IncludeIDToken r \<Longrightarrow> idt = [] \<and> e2 = e1" for idt e2 ic
  proof -
    from that(1) obtain rc where rc:
      "refreshClaims i r (unix_seconds now) (unix_seconds (now + Req_RefreshLife r)) e2 = Some (rc, e')"
      "signHMAC J i (refresh_json rc) = Inr (Set_RefreshToken ts)" "Set_AccessToken ts = access" "Set_IDToken ts = idt"
      by (auto simp: Issue_refresh_def split: option.splits sum.splits)
    show thesis using that(2,3) a rc by (intro that_global [of ac e1 ic e2 rc]) auto
  qed
  show thesis
  proof (cases "Req_IncludeIDToken r")
    case True
    then obtain ic e2 idt where
      "idClaims i r access (unix_seconds now) (unix_seconds (now + Req_AccessLife r)) e1 = Some (ic, e2)"
      "signRSA J i (id_json ic) = Inr idt" "Issue_refresh J i now r access idt e2 = Some (Inr ts, e')"
      using assms a by (auto simp: Issue_def Let_def split: option.splits sum.splits)
    then show thesis using True by (intro ref [of idt e2 ic]) auto
  next
    case False
    then have "Issue_refresh J i now r access [] e1 = Some (Inr ts, e')"
      using assms a by (auto simp: Issue_def Let_def)
    then show thesis using False by (intro ref [of "[]" e1]) auto
  qed
qed

section \<open>Issued tokens are read back\<close>

lemma thumbprint_confirmationClaim [simp]: "thumbprint (confirmationClaim jkt) = jkt"
  by (simp add: thumbprint_def confirmationClaim_def)

lemma token_types_distinct [simp]:
  "TypeAccess \<noteq> TypeID" "TypeID \<noteq> TypeAccess" "TypeRefresh \<noteq> SerializedIDType" "SerializedIDType \<noteq> TypeRefresh"
  "TypeRefresh \<noteq> TypeRegistration" "TypeRegistration \<noteq> TypeRefresh" "SerializedIDType \<noteq> TypeRegistration"
  "TypeRegistration \<noteq> SerializedIDType"
  by (simp_all add: TypeAccess_def TypeID_def TypeRefresh_def SerializedIDType_def TypeRegistration_def)

text \<open>The conditions under which the text of a token's claims is faithful.\<close>

definition issuable :: "issuer \<Rightarrow> time \<Rightarrow> token_request \<Rightarrow> entropy \<Rightarrow> bool" where
  "issuable i now r e \<longleftrightarrow> list_all valid_utf8 (request_strings i r) \<and> list_all (\<lambda>b. b < 256) e
     \<and> int64 (unix_seconds now) \<and> int64 (unix_seconds (now + Req_AccessLife r))
     \<and> int64 (unix_seconds (now + Req_RefreshLife r))"

lemma issuableD:
  assumes "issuable i now r e"
  shows "list_all valid_utf8 (request_strings i r)" "list_all (\<lambda>b. b < 256) e"
    "int64 (unix_seconds now)" "int64 (unix_seconds (now + Req_AccessLife r))"
    "int64 (unix_seconds (now + Req_RefreshLife r))"
  using assms by (simp_all add: issuable_def)

text \<open>The claims a verifier reads out of each of the three tokens.\<close>

definition access_read :: "issuer \<Rightarrow> time \<Rightarrow> token_request \<Rightarrow> string \<Rightarrow> string list \<Rightarrow> parsed_claims" where
  "access_read i now r jti aud = \<lparr>PC_Typ = TypeAccess, PC_Iss = Iss_Issuer i,
     PC_Sub = (if IsLightweight (Req_Client r) then [] else US_UserID (Req_UserSession r)),
     PC_Azp = Client_ClientID (Req_Client r), PC_Sid = US_ID (Req_UserSession r), PC_Jti = jti,
     PC_Aud = (if IsLightweight (Req_Client r) then None else aud_json (audienceClaim aud)),
     PC_Scope = Req_Scope r, PC_Iat = unix_seconds now, PC_Exp = unix_seconds (now + Req_AccessLife r),
     PC_Cnf = confirmationClaim (Req_Thumbprint r)\<rparr>"

definition id_read :: "issuer \<Rightarrow> time \<Rightarrow> token_request \<Rightarrow> string \<Rightarrow> parsed_claims" where
  "id_read i now r jti = \<lparr>PC_Typ = TypeID, PC_Iss = Iss_Issuer i, PC_Sub = US_UserID (Req_UserSession r),
     PC_Azp = Client_ClientID (Req_Client r), PC_Sid = US_ID (Req_UserSession r), PC_Jti = jti,
     PC_Aud = Some (JStr (Client_ClientID (Req_Client r))), PC_Scope = [], PC_Iat = unix_seconds now,
     PC_Exp = unix_seconds (now + Req_AccessLife r), PC_Cnf = None\<rparr>"

definition refresh_read :: "issuer \<Rightarrow> time \<Rightarrow> token_request \<Rightarrow> string \<Rightarrow> parsed_claims" where
  "refresh_read i now r jti = \<lparr>PC_Typ = TypeRefresh, PC_Iss = Iss_Issuer i, PC_Sub = US_UserID (Req_UserSession r),
     PC_Azp = Client_ClientID (Req_Client r), PC_Sid = US_ID (Req_UserSession r), PC_Jti = jti,
     PC_Aud = Some (JStr (Iss_Issuer i)), PC_Scope = RefreshScope (Req_Scope r) (Req_Client r),
     PC_Iat = unix_seconds now, PC_Exp = unix_seconds (now + Req_RefreshLife r),
     PC_Cnf = confirmationClaim (Req_Thumbprint r)\<rparr>"

lemma read_simps [simp]:
  "PC_Typ (access_read i now r jti aud) = TypeAccess" "PC_Iss (access_read i now r jti aud) = Iss_Issuer i"
  "PC_Typ (id_read i now r jti) = TypeID" "PC_Iss (id_read i now r jti) = Iss_Issuer i"
  "PC_Typ (refresh_read i now r jti) = TypeRefresh" "PC_Iss (refresh_read i now r jti) = Iss_Issuer i"
  by (simp_all add: access_read_def id_read_def refresh_read_def)

lemma issued_access:
  assumes J: "jose_ok J" and ok: "issuable i now r e"
    and a: "accessClaims i r (unix_seconds now) (unix_seconds (now + Req_AccessLife r)) e = Some (ac, e1)"
    and sg: "signRSA J i (any_access_json ac) = Inr raw"
    and aud: "Audience (Client_ClientID (Req_Client r)) (Req_ClientRoles r) = Some aud"
  shows "\<exists>jti. verify J raw RS256 (SigningPublicKey J (Iss_Keys i)) = Inr (access_read i now r jti aud)"
    and "verify J raw HS512 key = Inl ErrInvalidToken"
proof -
  note d = issuableD [OF ok]
  have "J_verify J RS256 (SigningPublicKey J (Iss_Keys i)) raw = Some (any_access_json ac)"
    by (rule signRSA_verify(1) [OF J sg accessClaims_ok(1) [OF a d(2,1)]])
  moreover have "\<exists>jti. unmarshal_claims (any_access_json ac) = Some (access_read i now r jti aud)"
    using a aud d(3,4) by (cases "IsLightweight (Req_Client r)") (auto simp: accessClaims_def any_access_json_def
        access_read_def unmarshal_lightweight unmarshal_access split: option.splits)
  ultimately show "\<exists>jti. verify J raw RS256 (SigningPublicKey J (Iss_Keys i)) = Inr (access_read i now r jti aud)"
    by (auto simp: verify_def)
  show "verify J raw HS512 key = Inl ErrInvalidToken" by (rule signRSA_verify(2) [OF J sg])
qed

lemma issued_id:
  assumes J: "jose_ok J" and ok: "issuable i now r e" and b: "list_all (\<lambda>b. b < 256) e1"
    and c: "idClaims i r access (unix_seconds now) (unix_seconds (now + Req_AccessLife r)) e1 = Some (ic, e2)"
    and sg: "signRSA J i (id_json ic) = Inr raw"
  shows "\<exists>jti. verify J raw RS256 (SigningPublicKey J (Iss_Keys i)) = Inr (id_read i now r jti)"
    and "verify J raw HS512 key = Inl ErrInvalidToken"
proof -
  note d = issuableD [OF ok]
  have "J_verify J RS256 (SigningPublicKey J (Iss_Keys i)) raw = Some (id_json ic)"
    by (rule signRSA_verify(1) [OF J sg idClaims_ok(1) [OF c b d(1)]])
  moreover have "\<exists>jti. unmarshal_claims (id_json ic) = Some (id_read i now r jti)"
    using c d(3,4) by (auto simp: idClaims_def id_read_def unmarshal_id split: option.splits)
  ultimately show "\<exists>jti. verify J raw RS256 (SigningPublicKey J (Iss_Keys i)) = Inr (id_read i now r jti)"
    by (auto simp: verify_def)
  show "verify J raw HS512 key = Inl ErrInvalidToken" by (rule signRSA_verify(2) [OF J sg])
qed

lemma issued_refresh:
  assumes J: "jose_ok J" and ok: "issuable i now r e" and b: "list_all (\<lambda>b. b < 256) e2"
    and c: "refreshClaims i r (unix_seconds now) (unix_seconds (now + Req_RefreshLife r)) e2 = Some (rc, e3)"
    and sg: "signHMAC J i (refresh_json rc) = Inr raw"
  shows "\<exists>jti. verify J raw HS512 (HMACSecret (Iss_Keys i)) = Inr (refresh_read i now r jti)"
    and "verify J raw RS256 key = Inl ErrInvalidToken"
    and "\<exists>aud. Audience (Client_ClientID (Req_Client r)) (Req_ClientRoles r) = Some aud"
proof -
  note d = issuableD [OF ok]
  have h: "HMACSigner J (Iss_Keys i) (refresh_json rc) = Some raw"
    using sg by (auto simp: signHMAC_def split: option.splits)
  have "J_verify J HS512 (HMACSecret (Iss_Keys i)) raw = Some (refresh_json rc)"
    by (rule signHMAC_verify(1) [OF J h refreshClaims_ok(1) [OF c b d(1)]])
  moreover have "\<exists>jti. unmarshal_claims (refresh_json rc) = Some (refresh_read i now r jti)"
    using c d(3,5) by (auto simp: refreshClaims_def refresh_read_def unmarshal_refresh split: option.splits)
  ultimately show "\<exists>jti. verify J raw HS512 (HMACSecret (Iss_Keys i)) = Inr (refresh_read i now r jti)"
    by (auto simp: verify_def)
  show "verify J raw RS256 key = Inl ErrInvalidToken" by (rule signHMAC_verify(2) [OF J h])
  show "\<exists>aud. Audience (Client_ClientID (Req_Client r)) (Req_ClientRoles r) = Some aud"
    using c by (auto simp: refreshClaims_def split: option.splits)
qed

lemma issued_set:
  assumes J: "jose_ok J" and ok: "issuable i now r e" and run: "Issue J i now r e = Some (Inr ts, e')"
  obtains jti aud jti' jti'' where
    "Audience (Client_ClientID (Req_Client r)) (Req_ClientRoles r) = Some aud"
    "verify J (Set_AccessToken ts) RS256 (SigningPublicKey J (Iss_Keys i)) = Inr (access_read i now r jti aud)"
    "Req_IncludeIDToken r \<longrightarrow>
       verify J (Set_IDToken ts) RS256 (SigningPublicKey J (Iss_Keys i)) = Inr (id_read i now r jti')"
    "verify J (Set_RefreshToken ts) HS512 (HMACSecret (Iss_Keys i)) = Inr (refresh_read i now r jti'')"
    "\<forall>key. verify J (Set_AccessToken ts) HS512 key = Inl ErrInvalidToken"
    "Req_IncludeIDToken r \<longrightarrow> (\<forall>key. verify J (Set_IDToken ts) HS512 key = Inl ErrInvalidToken)"
    "\<forall>key. verify J (Set_RefreshToken ts) RS256 key = Inl ErrInvalidToken"
proof -
  obtain ac e1 ic e2 rc where a:
    "accessClaims i r (unix_seconds now) (unix_seconds (now + Req_AccessLife r)) e = Some (ac, e1)"
    "signRSA J i (any_access_json ac) = Inr (Set_AccessToken ts)"
    and d: "Req_IncludeIDToken r \<longrightarrow> idClaims i r (Set_AccessToken ts) (unix_seconds now)
       (unix_seconds (now + Req_AccessLife r)) e1 = Some (ic, e2) \<and> signRSA J i (id_json ic) = Inr (Set_IDToken ts)"
    "\<not> Req_IncludeIDToken r \<longrightarrow> Set_IDToken ts = [] \<and> e2 = e1"
    and rf: "refreshClaims i r (unix_seconds now) (unix_seconds (now + Req_RefreshLife r)) e2 = Some (rc, e')"
    "signHMAC J i (refresh_json rc) = Inr (Set_RefreshToken ts)"
    using run by (rule Issue_signed)
  have b1: "list_all (\<lambda>b. b < 256) e1" by (rule accessClaims_ok(2) [OF a(1) issuableD(2,1) [OF ok]])
  have b2: "list_all (\<lambda>b. b < 256) e2"
    using d b1 idClaims_ok(2) [OF _ b1 issuableD(1) [OF ok]] by (cases "Req_IncludeIDToken r") auto
  note r = issued_refresh [OF J ok b2 rf]
  obtain aud where aud: "Audience (Client_ClientID (Req_Client r)) (Req_ClientRoles r) = Some aud"
    using r(3) by blast
  note acc = issued_access [OF J ok a aud]
  have idt: "Req_IncludeIDToken r \<longrightarrow> (\<exists>jti'. verify J (Set_IDToken ts) RS256 (SigningPublicKey J (Iss_Keys i))
        = Inr (id_read i now r jti')) \<and> (\<forall>key. verify J (Set_IDToken ts) HS512 key = Inl ErrInvalidToken)"
    using d(1) issued_id [OF J ok b1] by blast
  show thesis using aud acc r(1,2) idt that by blast
qed

text \<open>
  C31. What the issuer signs, the parsers read back: under the library's laws and for printable
  claims, until the access token expires \<^const>\<open>ParseAccess\<close> returns the session, the client, the
  granted scope, the DPoP binding and, unless the client is a lightweight one, the user and as audience
  exactly the clients the user has roles on, without the issuing client; from its expiry on the answer is
  that it is expired. \<^const>\<open>ParseRefresh\<close> does the same for the refresh token and its own
  lifespan, and \<^const>\<open>ParseID\<close> reads the ID token at any time.
\<close>

theorem Issue_read_back:
  assumes "jose_ok J" "issuable i now r e" "Issue J i now r e = Some (Inr ts, e')"
  shows "\<exists>aud jti jti' jti''. set aud = fst ` set (Req_ClientRoles r) - {Client_ClientID (Req_Client r)}
    \<and> (\<forall>t. ParseAccess J (Iss_Keys i) (Iss_Issuer i) (Set_AccessToken ts) t =
         (if t < time_of_unix (unix_seconds (now + Req_AccessLife r))
          then Inr \<lparr>Parsed_Type = ''Bearer'',
            Parsed_Subject = (if IsLightweight (Req_Client r) then [] else US_UserID (Req_UserSession r)),
            Parsed_SessionID = US_ID (Req_UserSession r), Parsed_ClientID = Client_ClientID (Req_Client r),
            Parsed_ID = jti, Parsed_Audience = (if IsLightweight (Req_Client r) then [] else aud),
            Parsed_Scope = Req_Scope r, Parsed_IssuedAt = time_of_unix (unix_seconds now),
            Parsed_ExpiresAt = time_of_unix (unix_seconds (now + Req_AccessLife r)),
            Parsed_Thumbprint = Req_Thumbprint r\<rparr>
          else Inl ErrExpiredToken))
    \<and> (\<forall>t. ParseRefresh J (Iss_Keys i) (Iss_Issuer i) (Set_RefreshToken ts) t =
         (if t < time_of_unix (unix_seconds (now + Req_RefreshLife r))
          then Inr \<lparr>Parsed_Type = ''Refresh'', Parsed_Subject = US_UserID (Req_UserSession r),
            Parsed_SessionID = US_ID (Req_UserSession r), Parsed_ClientID = Client_ClientID (Req_Client r),
            Parsed_ID = jti', Parsed_Audience = [Iss_Issuer i],
            Parsed_Scope = RefreshScope (Req_Scope r) (Req_Client r),
            Parsed_IssuedAt = time_of_unix (unix_seconds now),
            Parsed_ExpiresAt = time_of_unix (unix_seconds (now + Req_RefreshLife r)),
            Parsed_Thumbprint = Req_Thumbprint r\<rparr>
          else Inl ErrExpiredToken))
    \<and> (Req_IncludeIDToken r \<longrightarrow> ParseID J (Iss_Keys i) (Iss_Issuer i) (Set_IDToken ts) =
         Inr \<lparr>Parsed_Type = ''ID'', Parsed_Subject = US_UserID (Req_UserSession r),
            Parsed_SessionID = US_ID (Req_UserSession r), Parsed_ClientID = Client_ClientID (Req_Client r),
            Parsed_ID = jti'', Parsed_Audience = [Client_ClientID (Req_Client r)], Parsed_Scope = [],
            Parsed_IssuedAt = time_of_unix (unix_seconds now),
            Parsed_ExpiresAt = time_of_unix (unix_seconds (now + Req_AccessLife r)), Parsed_Thumbprint = []\<rparr>)"
proof -
  obtain jti aud jti' jti'' where v:
    "Audience (Client_ClientID (Req_Client r)) (Req_ClientRoles r) = Some aud"
    "verify J (Set_AccessToken ts) RS256 (SigningPublicKey J (Iss_Keys i)) = Inr (access_read i now r jti aud)"
    "Req_IncludeIDToken r \<longrightarrow>
       verify J (Set_IDToken ts) RS256 (SigningPublicKey J (Iss_Keys i)) = Inr (id_read i now r jti')"
    "verify J (Set_RefreshToken ts) HS512 (HMACSecret (Iss_Keys i)) = Inr (refresh_read i now r jti'')"
    by (rule issued_set [OF assms])
  have a: "parseAudience None = []" "parseAudience (Some (JStr x)) = [x]" "thumbprint None = []" for x
    by (simp_all add: parseAudience_def thumbprint_def)
  show ?thesis
    by (rule exI [of _ aud], rule exI [of _ jti], rule exI [of _ jti''], rule exI [of _ jti'], intro conjI)
      (use v a Audience_set [OF v(1)] in \<open>simp_all add: ParseAccess_def ParseRefresh_def ParseID_def check_def Let_def
         access_read_def refresh_read_def id_read_def TypeAccess_def TypeRefresh_def TypeID_def\<close>)
qed

text \<open>
  An instance of the library's laws, to run the issuer: the token is a letter for the algorithm followed
  by the code of the payload in unary.
\<close>

definition jws_tag :: "jws_alg \<Rightarrow> char" where
  "jws_tag alg = (case alg of RS256 \<Rightarrow> CHR ''R'' | HS512 \<Rightarrow> CHR ''H'')"

definition unary_jose :: jose where
  "unary_jose = \<lparr>J_sign = (\<lambda>alg typ kid key j. Some (jws_tag alg # replicate (to_nat j) CHR ''x'')),
     J_verify = (\<lambda>alg key raw. case raw of [] \<Rightarrow> None
        | c # cs \<Rightarrow> if c = jws_tag alg then Some (from_nat (length cs)) else None),
     J_public = (\<lambda>key. key)\<rparr>"

lemma unary_jose_ok: "jose_ok unary_jose"
  by (auto simp: jose_ok_def unary_jose_def jws_tag_def split: jws_alg.splits)

definition sample_keys :: realm_keys where
  "sample_keys = \<lparr>RK_RSAKeyID = ''k1'', RK_EncKeyID = ''k2'', RK_HMACKeyID = ''k3'', RK_AESKeyID = ''k4'',
     RK_rsaKey = [1], RK_certDER = [], RK_encKey = [2], RK_encCertDER = [], RK_hmacKey = [3], RK_aesKey = [4]\<rparr>"

definition sample_issuer :: issuer where
  "sample_issuer = \<lparr>Iss_Keys = sample_keys, Iss_Issuer = ''http://h/realms/demo''\<rparr>"

definition sample_request :: token_request where
  "sample_request = \<lparr>Req_Client = zero_client\<lparr>Client_ClientID := ''app''\<rparr>, Req_User = zero_user,
     Req_UserSession = \<lparr>US_ID = ''s1'', US_RealmID = ''r1'', US_UserID = ''u1'', US_Username = ''ann'',
        US_StartedAt = 0, US_LastRefresh = 0, US_ExpiresAt = 0\<rparr>,
     Req_Scope = ''openid'', Req_RealmRoles = [], Req_ClientRoles = [], Req_AccessLife = 60 * second,
     Req_RefreshLife = 1800 * second, Req_IncludeIDToken = True, Req_AuthTime = zero_time, Req_Nonce = ''n'',
     Req_Thumbprint = []\<rparr>"

lemma KeyOrder_Nil: "KeyOrder [] = Some []"
  by (simp add: KeyOrder_def capacityFor_def capacityFor_loop.simps byBucket_def)

lemma sample_issuable: "issuable sample_issuer 0 sample_request (replicate 48 7)"
proof -
  have "valid_utf8 (RefreshScope ''openid'' c)" for c
    by (rule valid_utf8_ascii [OF ascii_RefreshScope]) (simp add: ascii_def)
  then show ?thesis
    by (simp add: issuable_def request_strings_def sample_request_def sample_issuer_def valid_utf8_ascii ascii_def
        int64_def unix_seconds_def second_def zero_client_def list_all_iff)
qed

lemma NewID_returns: "16 \<le> length e \<Longrightarrow> \<exists>s. NewID e = Some (s, drop 16 e)"
  by (simp add: NewID_def rand_read_def Let_def)

lemma unary_Issue:
  assumes "Req_RealmRoles r = []" "Req_ClientRoles r = []" "48 \<le> length e"
  shows "\<exists>ts e'. Issue unary_jose i now r e = Some (Inr ts, e')"
proof -
  have s: "signRSA unary_jose i j = Inr (jws_tag RS256 # replicate (to_nat j) CHR ''x'')"
    "signHMAC unary_jose i j = Inr (jws_tag HS512 # replicate (to_nat j) CHR ''x'')" for j
    by (simp_all add: signRSA_def signHMAC_def RSASigner_def RSASignerTyped_def HMACSigner_def unary_jose_def)
  obtain s1 where s1: "NewID e = Some (s1, drop 16 e)" using NewID_returns assms(3) by fastforce
  obtain s2 where s2: "NewID (drop 16 e) = Some (s2, drop 16 (drop 16 e))"
    using NewID_returns [of "drop 16 e"] assms(3) by fastforce
  obtain s3 where s3: "NewID (drop 16 (drop 16 e)) = Some (s3, drop 16 (drop 16 (drop 16 e)))"
    using NewID_returns [of "drop 16 (drop 16 e)"] assms(3) by fastforce
  show ?thesis
    using s s1 s2 s3 assms
    by (simp add: Issue_def Issue_refresh_def accessClaims_def idClaims_def refreshClaims_def Audience_def
        realmAccessClaim_def resourceAccessClaim_def KeyOrder_Nil Let_def del: drop_drop)
qed

lemma sample_issue: "\<exists>ts e'. Issue unary_jose sample_issuer 0 sample_request (replicate 48 7) = Some (Inr ts, e')"
  by (rule unary_Issue) (simp_all add: sample_request_def)

theorem Issue_read_back_witness:
  "\<exists>ts e' p. Issue unary_jose sample_issuer 0 sample_request (replicate 48 7) = Some (Inr ts, e')
     \<and> ParseAccess unary_jose sample_keys ''http://h/realms/demo'' (Set_AccessToken ts) (59 * second) = Inr p
     \<and> Parsed_Subject p = ''u1''
     \<and> ParseAccess unary_jose sample_keys ''http://h/realms/demo'' (Set_AccessToken ts) (60 * second) = Inl ErrExpiredToken"
proof -
  obtain ts e' where run: "Issue unary_jose sample_issuer 0 sample_request (replicate 48 7) = Some (Inr ts, e')"
    using sample_issue by blast
  have s: "time_of_unix (unix_seconds (0 + Req_AccessLife sample_request)) = 60 * second" "59 * second < 60 * second"
    "Iss_Keys sample_issuer = sample_keys" "Iss_Issuer sample_issuer = ''http://h/realms/demo''"
    "\<not> IsLightweight (Req_Client sample_request)" "US_UserID (Req_UserSession sample_request) = ''u1''"
    by (simp_all add: sample_request_def sample_issuer_def time_of_unix_def unix_seconds_def second_def
        IsLightweight_def zero_client_def attr_def)
  obtain aud jti where "\<forall>t. ParseAccess unary_jose sample_keys ''http://h/realms/demo'' (Set_AccessToken ts) t =
         (if t < 60 * second
          then Inr \<lparr>Parsed_Type = ''Bearer'', Parsed_Subject = ''u1'',
            Parsed_SessionID = US_ID (Req_UserSession sample_request),
            Parsed_ClientID = Client_ClientID (Req_Client sample_request),
            Parsed_ID = jti, Parsed_Audience = aud,
            Parsed_Scope = Req_Scope sample_request, Parsed_IssuedAt = time_of_unix (unix_seconds 0),
            Parsed_ExpiresAt = 60 * second,
            Parsed_Thumbprint = Req_Thumbprint sample_request\<rparr>
          else Inl ErrExpiredToken)"
    using Issue_read_back [OF unary_jose_ok sample_issuable run] unfolding s(1,3,4,6) if_not_P [OF s(5)] by blast
  then show ?thesis using run s(2) by auto
qed

section \<open>No token stands in for another kind\<close>

definition cookie_read :: "string \<Rightarrow> string \<Rightarrow> string \<Rightarrow> string \<Rightarrow> time \<Rightarrow> parsed_claims" where
  "cookie_read iss sub sid jti now = \<lparr>PC_Typ = SerializedIDType, PC_Iss = iss, PC_Sub = sub, PC_Azp = [],
     PC_Sid = sid, PC_Jti = jti, PC_Aud = None, PC_Scope = [], PC_Iat = unix_seconds now,
     PC_Exp = unix_seconds (now + IdentityCookieLifespan), PC_Cnf = None\<rparr>"

lemma issued_cookie:
  assumes J: "jose_ok J" and c: "IssueIdentityCookie J k iss sub sid jti chk now = Inr raw"
    and u: "list_all valid_utf8 [iss, sub, sid, jti, chk]"
    and t: "int64 (unix_seconds now)" "int64 (unix_seconds (now + IdentityCookieLifespan))"
  shows "verify J raw HS512 (HMACSecret k) = Inr (cookie_read iss sub sid jti now)"
proof -
  let ?c = "\<lparr>ID_Expiry = unix_seconds (now + IdentityCookieLifespan), ID_IssuedAt = unix_seconds now,
     ID_ID = jti, ID_Issuer = iss, ID_Subject = sub, ID_Type = SerializedIDType, ID_SessionID = sid,
     ID_StateChecker = chk\<rparr>"
  have "HMACSigner J k (identity_json ?c) = Some raw"
    using c by (auto simp: IssueIdentityCookie_def split: option.splits)
  moreover have "json_ok (identity_json ?c)" using u by (simp add: identity_json_def)
  ultimately have "J_verify J HS512 (HMACSecret k) raw = Some (identity_json ?c)" using signHMAC_verify(1) [OF J] by blast
  then show ?thesis using t unmarshal_identity [of ?c] by (simp add: verify_def cookie_read_def)
qed

definition registration_read :: "string \<Rightarrow> string \<Rightarrow> time \<Rightarrow> parsed_claims" where
  "registration_read iss jti now = \<lparr>PC_Typ = TypeRegistration, PC_Iss = iss, PC_Sub = [], PC_Azp = [],
     PC_Sid = [], PC_Jti = jti, PC_Aud = Some (JStr iss), PC_Scope = [], PC_Iat = unix_seconds now,
     PC_Exp = 0, PC_Cnf = None\<rparr>"

lemma issued_registration:
  assumes J: "jose_ok J" and c: "IssueRegistration J k iss rid now = Inr raw"
    and u: "list_all valid_utf8 [iss, rid]" and t: "int64 (unix_seconds now)"
  shows "verify J raw HS512 (HMACSecret k) = Inr (registration_read iss rid now)"
proof -
  let ?c = "\<lparr>RG_Exp = 0, RG_Iat = unix_seconds now, RG_Jti = rid, RG_Iss = iss, RG_Aud = iss,
     RG_Typ = TypeRegistration, RG_RegistrationAuth = registrationAuthAuthenticated, RG_AllowedOrigins = []\<rparr>"
  have "HMACSigner J k (registration_json ?c) = Some raw"
    using c by (auto simp: IssueRegistration_def split: option.splits)
  moreover have "json_ok (registration_json ?c)" using u by (simp add: registration_json_def)
  ultimately have "J_verify J HS512 (HMACSecret k) raw = Some (registration_json ?c)"
    using signHMAC_verify(1) [OF J] by blast
  moreover have "int64 0" by (simp add: int64_def)
  ultimately show ?thesis using t unmarshal_registration [of ?c] by (simp add: verify_def registration_read_def)
qed

lemma wrong_kind:
  "PC_Typ c \<noteq> typ \<Longrightarrow> check c iss typ t = Inl ErrInvalidToken"
  by (simp add: check_def)

text \<open>
  C32. The five kinds of token a realm signs do not stand in for one another, whatever issuer and time
  the parser is asked about: an access token is no ID token and the reverse, neither is accepted where
  the realm's HMAC key is used, no HMAC token is accepted where the RSA key is, and the three kinds
  the one HMAC key signs, refresh token, identity cookie and registration token, are told apart by
  their type alone; the last one is nevertheless accepted for ever by its own parser.
\<close>

theorem token_kinds_disjoint:
  assumes "jose_ok J" "issuable i now r e" "Issue J i now r e = Some (Inr ts, e')" "Req_IncludeIDToken r"
    and "IssueIdentityCookie J (Iss_Keys i) iss sub sid jti chk now' = Inr cookie"
    and "IssueRegistration J (Iss_Keys i) iss rid now' = Inr reg"
    and "list_all valid_utf8 [iss, sub, sid, jti, chk, rid]" "rid \<noteq> []"
    and "int64 (unix_seconds now')" "int64 (unix_seconds (now' + IdentityCookieLifespan))"
  shows "ParseID J (Iss_Keys i) iss' (Set_AccessToken ts) = Inl ErrInvalidToken
    \<and> ParseAccess J (Iss_Keys i) iss' (Set_IDToken ts) t = Inl ErrInvalidToken
    \<and> (\<forall>raw \<in> {Set_AccessToken ts, Set_IDToken ts}. \<forall>k. ParseRefresh J k iss' raw t = Inl ErrInvalidToken
         \<and> ParseIdentityCookie J k iss' raw t = Inl ErrInvalidToken
         \<and> ParseRegistration J k iss' raw = Inl ErrInvalidToken)
    \<and> (\<forall>raw \<in> {Set_RefreshToken ts, cookie, reg}. \<forall>k. ParseAccess J k iss' raw t = Inl ErrInvalidToken
         \<and> ParseID J k iss' raw = Inl ErrInvalidToken)
    \<and> (\<forall>raw \<in> {cookie, reg}. ParseRefresh J (Iss_Keys i) iss' raw t = Inl ErrInvalidToken)
    \<and> (\<forall>raw \<in> {Set_RefreshToken ts, reg}. ParseIdentityCookie J (Iss_Keys i) iss' raw t = Inl ErrInvalidToken)
    \<and> (\<forall>raw \<in> {Set_RefreshToken ts, cookie}. ParseRegistration J (Iss_Keys i) iss' raw = Inl ErrInvalidToken)
    \<and> ParseRegistration J (Iss_Keys i) iss reg = Inr rid"
proof -
  obtain jti1 aud jti2 jti3 where v:
    "verify J (Set_AccessToken ts) RS256 (SigningPublicKey J (Iss_Keys i)) = Inr (access_read i now r jti1 aud)"
    "Req_IncludeIDToken r \<longrightarrow>
       verify J (Set_IDToken ts) RS256 (SigningPublicKey J (Iss_Keys i)) = Inr (id_read i now r jti2)"
    "verify J (Set_RefreshToken ts) HS512 (HMACSecret (Iss_Keys i)) = Inr (refresh_read i now r jti3)"
    "\<forall>key. verify J (Set_AccessToken ts) HS512 key = Inl ErrInvalidToken"
    "Req_IncludeIDToken r \<longrightarrow> (\<forall>key. verify J (Set_IDToken ts) HS512 key = Inl ErrInvalidToken)"
    "\<forall>key. verify J (Set_RefreshToken ts) RS256 key = Inl ErrInvalidToken"
    by (rule issued_set [OF assms(1-3)])
  have c: "verify J cookie HS512 (HMACSecret (Iss_Keys i)) = Inr (cookie_read iss sub sid jti now')"
    using assms(7) by (intro issued_cookie [OF assms(1,5) _ assms(9,10)]) simp
  have g: "verify J reg HS512 (HMACSecret (Iss_Keys i)) = Inr (registration_read iss rid now')"
    using assms(7) by (intro issued_registration [OF assms(1,6) _ assms(9)]) simp
  have n: "verify J cookie RS256 key = Inl ErrInvalidToken" "verify J reg RS256 key = Inl ErrInvalidToken" for key
    using assms(5,6) signHMAC_verify(2) [OF assms(1)]
    by (auto simp: IssueIdentityCookie_def IssueRegistration_def split: option.splits)
  have kinds: "PC_Typ (cookie_read iss sub sid jti now') = SerializedIDType"
    "PC_Typ (registration_read iss rid now') = TypeRegistration" "PC_Iss (registration_read iss rid now') = iss"
    "PC_Jti (registration_read iss rid now') = rid"
    by (simp_all add: cookie_read_def registration_read_def)
  show ?thesis
    using v c g n assms(4,8) kinds
    by (simp add: ParseID_def ParseAccess_def ParseRefresh_def ParseIdentityCookie_def ParseRegistration_def
        wrong_kind)
qed

lemma sample_cookie:
  "\<exists>raw. IssueIdentityCookie unary_jose sample_keys ''iss'' ''u1'' ''s1'' ''j'' ''c'' 0 = Inr raw"
  "\<exists>raw. IssueRegistration unary_jose sample_keys ''iss'' ''rid'' 0 = Inr raw"
  by (simp_all add: IssueIdentityCookie_def IssueRegistration_def HMACSigner_def unary_jose_def)

theorem token_kinds_disjoint_witness:
  "\<exists>cookie reg. IssueIdentityCookie unary_jose sample_keys ''iss'' ''u1'' ''s1'' ''j'' ''c'' 0 = Inr cookie
     \<and> ParseRefresh unary_jose sample_keys ''iss'' cookie 0 = Inl ErrInvalidToken
     \<and> ParseRegistration unary_jose sample_keys ''iss'' reg = Inr ''rid''"
proof -
  obtain ts e' where run: "Issue unary_jose sample_issuer 0 sample_request (replicate 48 7) = Some (Inr ts, e')"
    using sample_issue by blast
  have k: "Iss_Keys sample_issuer = sample_keys" by (simp add: sample_issuer_def)
  obtain cookie reg where s:
    "IssueIdentityCookie unary_jose sample_keys ''iss'' ''u1'' ''s1'' ''j'' ''c'' 0 = Inr cookie"
    "IssueRegistration unary_jose sample_keys ''iss'' ''rid'' 0 = Inr reg"
    using sample_cookie by blast
  have "Req_IncludeIDToken sample_request" by (simp add: sample_request_def)
  moreover have "list_all valid_utf8 [''iss'', ''u1'', ''s1'', ''j'', ''c'', ''rid'']" "''rid'' \<noteq> []"
    "int64 (unix_seconds 0)" "int64 (unix_seconds (0 + IdentityCookieLifespan))"
    by (simp_all add: valid_utf8_ascii ascii_def int64_def unix_seconds_def IdentityCookieLifespan_def second_def)
  ultimately show ?thesis
    using s token_kinds_disjoint [OF unary_jose_ok sample_issuable run, unfolded k, of "''iss''" "''u1''" "''s1''"
        "''j''" "''c''" 0 cookie "''rid''" reg "''iss''" 0] by blast
qed

end
