(* ===== verification/Http.thy ===== *)
theory Http
  imports Token
begin

text \<open>
  The response writers of \<^verbatim>\<open>internal/httpx/errors.go\<close> and the parts of a request the protocol handlers
  read. A response is its status, its headers and a body: a JSON value whose text \<^verbatim>\<open>encoding/json\<close> writes, or a page; a
  \<^verbatim>\<open>map[string]string\<close> body is written with its keys in order. The \<^verbatim>\<open>WWW-Authenticate\<close> header is kept
  as the arguments it is formatted from.
\<close>

type_synonym headers = "(string \<times> string list) list"

definition header_Set :: "headers \<Rightarrow> string \<Rightarrow> string \<Rightarrow> headers" where
  "header_Set h k v = (k, [v]) # filter (\<lambda>p. fst p \<noteq> k) h"

definition header_Add :: "headers \<Rightarrow> string \<Rightarrow> string \<Rightarrow> headers" where
  "header_Add h k v =
    (k, (case map_of h k of None \<Rightarrow> [] | Some vs \<Rightarrow> vs) @ [v]) # filter (\<lambda>p. fst p \<noteq> k) h"

definition header_Del :: "headers \<Rightarrow> string \<Rightarrow> headers" where
  "header_Del h k = filter (\<lambda>p. fst p \<noteq> k) h"

text \<open>
  The frame of a theme page and the pages with what the handler passes to each; the markup around
  these values is not modelled. A form-post page is its action, its inputs in their order and the
  address the script writes into the history.
\<close>

record theme_chrome =
  TC_Realm :: string
  TC_DisplayName :: string
  TC_DisplayNameHTML :: string
  TC_RestartParams :: string
  TC_BackToApplication :: string
  TC_AuthSessionHash :: string

datatype page =
    ErrorPage theme_chrome string
  | InfoPage theme_chrome string string
  | ExpiredPage theme_chrome string string
  | TitlePage string
  | LoginPage theme_chrome string string string
  | UpdatePasswordPage string string
  | UpdateProfilePage string string string string string
  | ConsentPage string string string
  | DeviceCodePage string theme_chrome string
  | FormPostPage string "(string \<times> string) list" string

datatype body = BodyEmpty | BodyJSON json | BodyPage page

record challenge =
  Ch_Realm :: string
  Ch_Error :: string
  Ch_Description :: string

record response =
  Resp_Status :: nat
  Resp_Headers :: headers
  Resp_Challenge :: "challenge option"
  Resp_Body :: body

definition suppressDate :: "headers \<Rightarrow> headers" where
  "suppressDate h = (''Date'', []) # filter (\<lambda>p. fst p \<noteq> ''Date'') h"

definition securityHeaders :: "(string \<times> string) list" where
  "securityHeaders =
    [(''Referrer-Policy'', ''no-referrer''),
     (''Strict-Transport-Security'', ''max-age=31536000; includeSubDomains''),
     (''X-Content-Type-Options'', ''nosniff''), (''X-Frame-Options'', ''SAMEORIGIN''), (''X-Robots-Tag'', ''none'')]"

definition SetSecurityHeaders :: "headers \<Rightarrow> headers" where
  "SetSecurityHeaders h = fold (\<lambda>(k, v) h. header_Set h k v) securityHeaders h"

definition SetUserinfoSecurityHeaders :: "headers \<Rightarrow> headers" where
  "SetUserinfoSecurityHeaders h = header_Del (SetSecurityHeaders h) ''X-Frame-Options''"

definition SetContentSecurityPolicy :: "headers \<Rightarrow> headers" where
  "SetContentSecurityPolicy h = header_Set h ''Content-Security-Policy''
     (''frame-src '' @ [CHR 0x27] @ ''self'' @ [CHR 0x27] @ ''; frame-ancestors '' @ [CHR 0x27] @ ''self''
       @ [CHR 0x27] @ ''; object-src '' @ [CHR 0x27] @ ''none'' @ [CHR 0x27] @ '';'')"

definition writeJSON :: "headers \<Rightarrow> nat \<Rightarrow> string \<Rightarrow> json \<Rightarrow> response" where
  "writeJSON h status contentType j =
    \<lparr>Resp_Status = status, Resp_Headers = header_Set (suppressDate h) ''Content-Type'' contentType,
     Resp_Challenge = None, Resp_Body = BodyJSON j\<rparr>"

definition WriteJSON :: "headers \<Rightarrow> nat \<Rightarrow> json \<Rightarrow> response" where
  "WriteJSON h status j = writeJSON h status ''application/json'' j"

definition WriteOAuthError :: "headers \<Rightarrow> nat \<Rightarrow> string \<Rightarrow> string \<Rightarrow> response" where
  "WriteOAuthError h status code description =
     WriteJSON h status (JObj [(''error'', JStr code), (''error_description'', JStr description)])"

definition WriteMessageError :: "headers \<Rightarrow> nat \<Rightarrow> string \<Rightarrow> response" where
  "WriteMessageError h status message = WriteJSON h status (JObj [(''error'', JStr message)])"

definition WriteAdminError :: "headers \<Rightarrow> nat \<Rightarrow> string \<Rightarrow> response" where
  "WriteAdminError h status message = WriteJSON h status (JObj [(''errorMessage'', JStr message)])"

definition WriteBearerChallenge :: "headers \<Rightarrow> nat \<Rightarrow> string \<Rightarrow> string \<Rightarrow> string \<Rightarrow> response" where
  "WriteBearerChallenge h status realm errCode description =
    \<lparr>Resp_Status = status,
     Resp_Headers = header_Set (suppressDate h) ''Content-Type'' ''text/plain;charset=utf-8'',
     Resp_Challenge = Some (if errCode = [] then \<lparr>Ch_Realm = realm, Ch_Error = [], Ch_Description = []\<rparr>
       else \<lparr>Ch_Realm = realm, Ch_Error = errCode, Ch_Description = description\<rparr>),
     Resp_Body = BodyEmpty\<rparr>"

definition internal_error :: "headers \<Rightarrow> response" where
  "internal_error h = WriteMessageError h 500 ''Internal Server Error''"

text \<open>
  A request: the realm of its path, the method, its query, the form of its body (\<^const>\<open>None\<close> when
  \<^verbatim>\<open>ParseForm\<close> fails), the credentials \<^verbatim>\<open>BasicAuth\<close> reads from its headers, the \<^verbatim>\<open>Authorization\<close> header,
  the values of the \<^verbatim>\<open>DPoP\<close> header, the content type and the cookies.
\<close>

record request =
  Rq_Realm :: string
  Rq_Method :: string
  Rq_Query :: url_values
  Rq_PostForm :: "url_values option"
  Rq_BasicAuth :: "(string \<times> string) option"
  Rq_Authorization :: string
  Rq_DPoP :: "string list option"
  Rq_ContentType :: string
  Rq_Cookies :: "(string \<times> string) list"

definition form_has :: "url_values \<Rightarrow> string \<Rightarrow> bool" where
  "form_has form k \<longleftrightarrow> map_of form k \<noteq> None"

definition hasDuplicate :: "url_values \<Rightarrow> bool" where
  "hasDuplicate params \<longleftrightarrow> list_ex (\<lambda>p. length (snd p) > 1) params"

lemma Write_status [simp]:
  "Resp_Status (writeJSON h s c j) = s" "Resp_Status (WriteJSON h s j) = s"
  "Resp_Status (WriteOAuthError h s e d) = s" "Resp_Status (WriteMessageError h s m) = s"
  "Resp_Status (WriteBearerChallenge h s r e d) = s" "Resp_Status (internal_error h) = 500"
  by (simp_all add: writeJSON_def WriteJSON_def WriteOAuthError_def WriteMessageError_def
      WriteBearerChallenge_def internal_error_def)

lemma Write_body [simp]:
  "Resp_Body (writeJSON h s c j) = BodyJSON j" "Resp_Body (WriteJSON h s j) = BodyJSON j"
  "Resp_Body (WriteOAuthError h s e d) = BodyJSON (JObj [(''error'', JStr e), (''error_description'', JStr d)])"
  "Resp_Body (WriteMessageError h s m) = BodyJSON (JObj [(''error'', JStr m)])"
  "Resp_Body (WriteBearerChallenge h s r e d) = BodyEmpty"
  "Resp_Body (internal_error h) = BodyJSON (JObj [(''error'', JStr ''Internal Server Error'')])"
  by (simp_all add: writeJSON_def WriteJSON_def WriteOAuthError_def WriteMessageError_def
      WriteBearerChallenge_def internal_error_def)

end
