(* ===== verification/Keys.thy ===== *)
theory Keys
  imports Token Sqlite
begin

text \<open>
  \<^verbatim>\<open>internal/keys\<close>: generating a realm's four keys, their rows in the store, and the manager that
  resolves a realm's key set through its cache, the store and, for a realm that has none, a fresh
  generation. The RSA and X.509 routines of the standard library are a parameter; an RSA private key is
  the list of bytes that stands for it and \<^verbatim>\<open>nil\<close> is the empty list. An error is a value on the left;
  a panic of \<^verbatim>\<open>model.NewID\<close> is \<^const>\<open>None\<close>.
\<close>

section \<open>The RSA and X.509 routines\<close>

datatype pkcs8_key = PkcsRSA "nat list" | PkcsOther

record cert_template =
  Cert_SerialNumber :: int
  Cert_CommonName :: string
  Cert_NotBefore :: time
  Cert_NotAfter :: time

record x509_lib =
  X_GenerateKey :: "nat \<Rightarrow> entropy \<Rightarrow> (nat list \<times> entropy) option"
  X_Public :: "nat list \<Rightarrow> nat list"
  X_CreateCertificate :: "cert_template \<Rightarrow> nat list \<Rightarrow> nat list \<Rightarrow> entropy \<Rightarrow> (nat list \<times> entropy) option"
  X_MarshalPKIXPublicKey :: "nat list \<Rightarrow> nat list option"
  X_MarshalPKCS8PrivateKey :: "nat list \<Rightarrow> byte list option"
  X_ParsePKCS8PrivateKey :: "byte list \<Rightarrow> pkcs8_key option"

text \<open>What the manager relies on: a private key survives its PKCS#8 encoding, and is not \<^verbatim>\<open>nil\<close>.\<close>

definition x509_ok :: "x509_lib \<Rightarrow> bool" where
  "x509_ok X \<longleftrightarrow>
     (\<forall>k der. X_MarshalPKCS8PrivateKey X k = Some der \<longrightarrow> X_ParsePKCS8PrivateKey X der = Some (PkcsRSA k))
     \<and> (\<forall>n e k e'. X_GenerateKey X n e = Some (k, e') \<longrightarrow> k \<noteq> []
          \<and> (list_all (\<lambda>b. b < 256) e \<longrightarrow> list_all (\<lambda>b. b < 256) e'))
     \<and> (\<forall>t p k e c e'. X_CreateCertificate X t p k e = Some (c, e') \<longrightarrow> list_all (\<lambda>b. b < 256) c
          \<and> (list_all (\<lambda>b. b < 256) e \<longrightarrow> list_all (\<lambda>b. b < 256) e'))"

section \<open>The calendar\<close>

text \<open>
  \<^verbatim>\<open>Time.AddDate\<close> for years on a UTC time: the proleptic Gregorian date of the day number, its year
  moved, and the day number of the result, where the 29th of February of a common year is the 1st of
  March.
\<close>

definition days_from_civil :: "int \<Rightarrow> int \<Rightarrow> int \<Rightarrow> int" where
  "days_from_civil year month day =
    (let y = (if month \<le> 2 then year - 1 else year);
         era = y div 400; yoe = y - era * 400;
         doy = (153 * (if month > 2 then month - 3 else month + 9) + 2) div 5 + day - 1;
         doe = yoe * 365 + yoe div 4 - yoe div 100 + doy
     in era * 146097 + doe - 719468)"

definition civil_from_days :: "int \<Rightarrow> int \<times> int \<times> int" where
  "civil_from_days days =
    (let z = days + 719468; era = z div 146097; doe = z - era * 146097;
         yoe = (doe - doe div 1460 + doe div 36524 - doe div 146096) div 365;
         doy = doe - (365 * yoe + yoe div 4 - yoe div 100);
         mp = (5 * doy + 2) div 153;
         day = doy - (153 * mp + 2) div 5 + 1;
         month = (if mp < 10 then mp + 3 else mp - 9)
     in (yoe + era * 400 + (if month \<le> 2 then 1 else 0), month, day))"

definition addYears :: "time \<Rightarrow> int \<Rightarrow> time" where
  "addYears t n =
    (let unit = 86400 * second; (year, month, day) = civil_from_days (t div unit)
     in days_from_civil (year + n) month day * unit + t mod unit)"

section \<open>Generating a key set\<close>

datatype key_error =
    ErrGenerateRSA | ErrSelfSign | ErrGenerateHMAC | ErrGenerateAES
  | ErrListKeys | ErrSigningKey | ErrEncryptionKey | ErrIncomplete
  | ErrEncodeSigning | ErrEncodeEncryption | ErrLostKeys | ErrStoreKey

type_synonym 'a gen = "((key_error + 'a) \<times> entropy) option"

definition bind_gen :: "'a gen \<Rightarrow> ('a \<Rightarrow> entropy \<Rightarrow> 'b gen) \<Rightarrow> 'b gen" where
  "bind_gen r f = (case r of None \<Rightarrow> None | Some (Inl x, e) \<Rightarrow> Some (Inl x, e) | Some (Inr a, e) \<Rightarrow> f a e)"

definition fresh_id :: "entropy \<Rightarrow> string gen" where
  "fresh_id e = (case NewID e of None \<Rightarrow> None | Some (i, e') \<Rightarrow> Some (Inr i, e'))"

definition read_bytes :: "key_error \<Rightarrow> nat \<Rightarrow> entropy \<Rightarrow> nat list gen" where
  "read_bytes err n e =
    (case rand_read n e of None \<Rightarrow> Some (Inl err, e) | Some (b, e') \<Rightarrow> Some (Inr b, e'))"

definition aesSecretSize :: nat where "aesSecretSize = 16"

definition KeyID :: "x509_lib \<Rightarrow> nat list \<Rightarrow> entropy \<Rightarrow> string gen" where
  "KeyID X pub e =
    (case X_MarshalPKIXPublicKey X pub of
       None \<Rightarrow> fresh_id e
     | Some der \<Rightarrow> Some (Inr (b64_encode (sha256 der)), e))"

definition generateAES :: "entropy \<Rightarrow> nat list gen" where
  "generateAES e = read_bytes ErrGenerateAES aesSecretSize e"

definition selfSign :: "x509_lib \<Rightarrow> time \<Rightarrow> nat list \<Rightarrow> string \<Rightarrow> entropy \<Rightarrow> nat list gen" where
  "selfSign X now key subjectCN e =
    (let tmpl = \<lparr>Cert_SerialNumber = 1, Cert_CommonName = subjectCN, Cert_NotBefore = now,
           Cert_NotAfter = addYears now 10\<rparr>
     in case X_CreateCertificate X tmpl (X_Public X key) key e of
          None \<Rightarrow> Some (Inl ErrSelfSign, e)
        | Some (der, e') \<Rightarrow> Some (Inr der, e'))"

definition generateRSAWithCertificate ::
  "x509_lib \<Rightarrow> time \<Rightarrow> string \<Rightarrow> entropy \<Rightarrow> (nat list \<times> nat list) gen" where
  "generateRSAWithCertificate X now subjectCN e =
    (case X_GenerateKey X 2048 e of
       None \<Rightarrow> Some (Inl ErrGenerateRSA, e)
     | Some (key, e1) \<Rightarrow> bind_gen (selfSign X now key subjectCN e1) (\<lambda>cert e2. Some (Inr (key, cert), e2)))"

definition Generate :: "x509_lib \<Rightarrow> time \<Rightarrow> string \<Rightarrow> entropy \<Rightarrow> realm_keys gen" where
  "Generate X now subjectCN e =
    bind_gen (generateRSAWithCertificate X now subjectCN e) (\<lambda>(rsaKey, certDER) e.
    bind_gen (generateRSAWithCertificate X now subjectCN e) (\<lambda>(encKey, encCertDER) e.
    bind_gen (read_bytes ErrGenerateHMAC 64 e) (\<lambda>hmacKey e.
    bind_gen (generateAES e) (\<lambda>aesKey e.
    bind_gen (KeyID X (X_Public X rsaKey) e) (\<lambda>rsaID e.
    bind_gen (KeyID X (X_Public X encKey) e) (\<lambda>encID e.
    bind_gen (fresh_id e) (\<lambda>hmacID e.
    bind_gen (fresh_id e) (\<lambda>aesID e.
      Some (Inr \<lparr>RK_RSAKeyID = rsaID, RK_EncKeyID = encID, RK_HMACKeyID = hmacID, RK_AESKeyID = aesID,
        RK_rsaKey = rsaKey, RK_certDER = certDER, RK_encKey = encKey, RK_encCertDER = encCertDER,
        RK_hmacKey = hmacKey, RK_aesKey = aesKey\<rparr>, e)))))))))"

section \<open>Rows and the manager\<close>

definition algRS256 :: string where "algRS256 = ''RS256''"
definition algRSAOAEP :: string where "algRSAOAEP = ''RSA-OAEP''"
definition algHS512 :: string where "algHS512 = ''HS512''"
definition algAES :: string where "algAES = ''AES''"

definition octets :: "nat list \<Rightarrow> byte list" where "octets = map of_nat"
definition naturals :: "byte list \<Rightarrow> nat list" where "naturals = map unat"

definition key_rows :: "x509_lib \<Rightarrow> realm_keys \<Rightarrow> string \<Rightarrow> int \<Rightarrow> key_error + realm_key list" where
  "key_rows X k realmID now =
    (case X_MarshalPKCS8PrivateKey X (RK_rsaKey k) of
       None \<Rightarrow> Inl ErrEncodeSigning
     | Some sigDER \<Rightarrow>
         (case X_MarshalPKCS8PrivateKey X (RK_encKey k) of
            None \<Rightarrow> Inl ErrEncodeEncryption
          | Some encDER \<Rightarrow>
              Inr [\<lparr>Key_ID = RK_RSAKeyID k, Key_RealmID = realmID, Key_Algorithm = algRS256, Key_Use = ''sig'',
                    Key_PrivateKey = sigDER, Key_Certificate = octets (RK_certDER k), Key_CreatedAt = now\<rparr>,
                   \<lparr>Key_ID = RK_EncKeyID k, Key_RealmID = realmID, Key_Algorithm = algRSAOAEP, Key_Use = ''enc'',
                    Key_PrivateKey = encDER, Key_Certificate = octets (RK_encCertDER k), Key_CreatedAt = now\<rparr>,
                   \<lparr>Key_ID = RK_HMACKeyID k, Key_RealmID = realmID, Key_Algorithm = algHS512, Key_Use = [],
                    Key_PrivateKey = octets (RK_hmacKey k), Key_Certificate = [], Key_CreatedAt = now\<rparr>,
                   \<lparr>Key_ID = RK_AESKeyID k, Key_RealmID = realmID, Key_Algorithm = algAES, Key_Use = ''enc'',
                    Key_PrivateKey = octets (RK_aesKey k), Key_Certificate = [], Key_CreatedAt = now\<rparr>]))"

definition parseRSA :: "x509_lib \<Rightarrow> byte list \<Rightarrow> nat list option" where
  "parseRSA X der =
    (case X_ParsePKCS8PrivateKey X der of Some (PkcsRSA k) \<Rightarrow> Some k | _ \<Rightarrow> None)"

definition zero_keys :: realm_keys where
  "zero_keys = \<lparr>RK_RSAKeyID = [], RK_EncKeyID = [], RK_HMACKeyID = [], RK_AESKeyID = [], RK_rsaKey = [],
     RK_certDER = [], RK_encKey = [], RK_encCertDER = [], RK_hmacKey = [], RK_aesKey = []\<rparr>"

definition load_row :: "x509_lib \<Rightarrow> realm_key \<Rightarrow> realm_keys \<Rightarrow> key_error + realm_keys" where
  "load_row X row k =
    (if Key_Algorithm row = algRS256
     then (case parseRSA X (Key_PrivateKey row) of
             None \<Rightarrow> Inl ErrSigningKey
           | Some rsa \<Rightarrow> Inr (k\<lparr>RK_RSAKeyID := Key_ID row, RK_rsaKey := rsa,
               RK_certDER := naturals (Key_Certificate row)\<rparr>))
     else if Key_Algorithm row = algRSAOAEP
     then (case parseRSA X (Key_PrivateKey row) of
             None \<Rightarrow> Inl ErrEncryptionKey
           | Some rsa \<Rightarrow> Inr (k\<lparr>RK_EncKeyID := Key_ID row, RK_encKey := rsa,
               RK_encCertDER := naturals (Key_Certificate row)\<rparr>))
     else if Key_Algorithm row = algHS512
     then Inr (k\<lparr>RK_HMACKeyID := Key_ID row, RK_hmacKey := naturals (Key_PrivateKey row)\<rparr>)
     else if Key_Algorithm row = algAES
     then Inr (k\<lparr>RK_AESKeyID := Key_ID row, RK_aesKey := naturals (Key_PrivateKey row)\<rparr>)
     else Inr k)"

fun load_rows :: "x509_lib \<Rightarrow> realm_key list \<Rightarrow> realm_keys \<Rightarrow> key_error + realm_keys" where
  "load_rows X [] k = Inr k"
| "load_rows X (row # rows) k = bind_err (load_row X row k) (load_rows X rows)"

text \<open>\<^verbatim>\<open>load\<close> returns \<^const>\<open>None\<close> on the right for \<^verbatim>\<open>nil, nil\<close>.\<close>

definition load :: "x509_lib \<Rightarrow> 'db store \<Rightarrow> 'db \<Rightarrow> realm \<Rightarrow> key_error + realm_keys option" where
  "load X s db realm =
    (case KeyRepo_ListByRealm (Store_Keys s) db (Realm_ID realm) of
       Inl _ \<Rightarrow> Inl ErrListKeys
     | Inr rows \<Rightarrow>
         if rows = [] then Inr None
         else bind_err (load_rows X rows zero_keys) (\<lambda>k.
           if RK_rsaKey k = [] \<or> RK_encKey k = [] \<or> RK_hmacKey k = [] then Inl ErrIncomplete
           else Inr (Some k)))"

fun create_rows ::
  "x509_lib \<Rightarrow> 'db store \<Rightarrow> realm \<Rightarrow> realm_keys \<Rightarrow> realm_key list \<Rightarrow> 'db \<Rightarrow> (key_error + realm_keys) \<times> 'db" where
  "create_rows X s realm k [] db = (Inr k, db)"
| "create_rows X s realm k (row # rows) db =
    (case KeyRepo_Create (Store_Keys s) db row of
       Inr db' \<Rightarrow> create_rows X s realm k rows db'
     | Inl err \<Rightarrow>
         if err = ErrConflict
         then (case load X s db realm of
                 Inl x \<Rightarrow> (Inl x, db)
               | Inr None \<Rightarrow> (Inl ErrLostKeys, db)
               | Inr (Some existing) \<Rightarrow> (Inr existing, db))
         else (Inl ErrStoreKey, db))"

text \<open>The manager's cache, by realm identifier.\<close>

type_synonym manager = "string \<Rightarrow> realm_keys option"

definition NewManager :: manager where
  "NewManager = Map.empty"

definition create ::
  "x509_lib \<Rightarrow> 'db store \<Rightarrow> time \<Rightarrow> realm \<Rightarrow> 'db \<Rightarrow> entropy \<Rightarrow> ((key_error + realm_keys) \<times> 'db \<times> entropy) option" where
  "create X s now realm db e =
    (case Generate X now (Realm_Name realm) e of
       None \<Rightarrow> None
     | Some (Inl x, e') \<Rightarrow> Some (Inl x, db, e')
     | Some (Inr k, e') \<Rightarrow>
         (case key_rows X k (Realm_ID realm) (now div 1000000) of
            Inl x \<Rightarrow> Some (Inl x, db, e')
          | Inr rows \<Rightarrow> (let (r, db') = create_rows X s realm k rows db in Some (r, db', e'))))"

definition addAES ::
  "x509_lib \<Rightarrow> 'db store \<Rightarrow> time \<Rightarrow> realm \<Rightarrow> realm_keys \<Rightarrow> 'db \<Rightarrow> entropy
     \<Rightarrow> ((key_error + realm_keys) \<times> 'db \<times> entropy) option" where
  "addAES X s now realm k db e =
    (case generateAES e of
       None \<Rightarrow> None
     | Some (Inl x, e1) \<Rightarrow> Some (Inl x, db, e1)
     | Some (Inr aesKey, e1) \<Rightarrow>
         (case NewID e1 of
            None \<Rightarrow> None
          | Some (ident, e2) \<Rightarrow>
              (let row = \<lparr>Key_ID = ident, Key_RealmID = Realm_ID realm, Key_Algorithm = algAES,
                     Key_Use = ''enc'', Key_PrivateKey = octets aesKey, Key_Certificate = [],
                     Key_CreatedAt = now div 1000000\<rparr>
               in case KeyRepo_Create (Store_Keys s) db row of
                    Inr db' \<Rightarrow> Some (Inr (k\<lparr>RK_AESKeyID := ident, RK_aesKey := aesKey\<rparr>), db', e2)
                  | Inl err \<Rightarrow>
                      if err = ErrConflict
                      then (case load X s db realm of
                              Inl x \<Rightarrow> Some (Inl x, db, e2)
                            | Inr None \<Rightarrow> Some (Inl ErrLostKeys, db, e2)
                            | Inr (Some existing) \<Rightarrow>
                                if RK_aesKey existing = [] then Some (Inl ErrLostKeys, db, e2)
                                else Some (Inr (k\<lparr>RK_AESKeyID := RK_AESKeyID existing,
                                       RK_aesKey := RK_aesKey existing\<rparr>), db, e2))
                      else Some (Inl ErrStoreKey, db, e2))))"

definition ForRealm ::
  "x509_lib \<Rightarrow> 'db store \<Rightarrow> time \<Rightarrow> realm \<Rightarrow> manager \<Rightarrow> 'db \<Rightarrow> entropy
     \<Rightarrow> ((key_error + realm_keys) \<times> manager \<times> 'db \<times> entropy) option" where
  "ForRealm X s now realm m db e =
    (case m (Realm_ID realm) of
       Some k \<Rightarrow> Some (Inr k, m, db, e)
     | None \<Rightarrow>
         (let remember = (\<lambda>r. case r of
                  None \<Rightarrow> None
                | Some (Inl x, db', e') \<Rightarrow> Some (Inl x, m, db', e')
                | Some (Inr k, db', e') \<Rightarrow> Some (Inr k, m(Realm_ID realm \<mapsto> k), db', e'))
          in case load X s db realm of
               Inl x \<Rightarrow> Some (Inl x, m, db, e)
             | Inr None \<Rightarrow> remember (create X s now realm db e)
             | Inr (Some k) \<Rightarrow>
                 remember (if RK_aesKey k = [] then addAES X s now realm k db e else Some (Inr k, db, e))))"

definition Forget :: "manager \<Rightarrow> string \<Rightarrow> manager" where
  "Forget m realmID = m(realmID := None)"

section \<open>The published set\<close>

record json_web_key =
  JWK_Key :: "nat list"
  JWK_KeyID :: string
  JWK_Algorithm :: string
  JWK_Use :: string

definition JWKS :: "x509_lib \<Rightarrow> realm_keys \<Rightarrow> json_web_key list" where
  "JWKS X k =
    [\<lparr>JWK_Key = X_Public X (RK_rsaKey k), JWK_KeyID = RK_RSAKeyID k, JWK_Algorithm = ''RS256'', JWK_Use = ''sig''\<rparr>,
     \<lparr>JWK_Key = X_Public X (RK_encKey k), JWK_KeyID = RK_EncKeyID k, JWK_Algorithm = ''RSA-OAEP'', JWK_Use = ''enc''\<rparr>]"

section \<open>Reading a stored set back\<close>

definition wf_keys :: "sqlite_db \<Rightarrow> bool" where
  "wf_keys db \<longleftrightarrow> distinct (map (\<lambda>k. (Key_RealmID k, Key_Algorithm k)) (T_realm_key db))"

definition realm_rows :: "sqlite_db \<Rightarrow> realm \<Rightarrow> realm_key list" where
  "realm_rows db realm = filter (\<lambda>k. Key_RealmID k = Realm_ID realm) (T_realm_key db)"

definition bytes_ok :: "nat list \<Rightarrow> bool" where
  "bytes_ok = list_all (\<lambda>b. b < 256)"

lemma sqlite_keys_simps [simp]:
  "KeyRepo_ListByRealm (Store_Keys sqlite_store) db i =
     Inr (sort_key Key_Algorithm (filter (\<lambda>k. Key_RealmID k = i) (T_realm_key db)))"
  "KeyRepo_Create (Store_Keys sqlite_store) db m = keyRepo_Create db m"
  by (simp_all add: sqlite_store_def sqlite_keys_def keyRepo_ListByRealm_def)

lemma naturals_octets: "bytes_ok bs \<Longrightarrow> naturals (octets bs) = bs"
  by (induction bs) (auto simp: naturals_def octets_def bytes_ok_def unat_of_nat)

lemma naturals_Nil [simp]: "naturals [] = []" "naturals bs = [] \<longleftrightarrow> bs = []"
  by (simp_all add: naturals_def)

lemma octets_Nil [simp]: "octets bs = [] \<longleftrightarrow> bs = []"
  by (simp add: octets_def)

lemma alg_order [simp]:
  "algAES < algHS512" "algAES < algRS256" "algAES < algRSAOAEP" "algHS512 < algRS256"
  "algHS512 < algRSAOAEP" "algRS256 < algRSAOAEP"
  by (simp_all add: algAES_def algHS512_def algRS256_def algRSAOAEP_def less_char_def)

lemma alg_distinct [simp]:
  "algAES \<noteq> algHS512" "algAES \<noteq> algRS256" "algAES \<noteq> algRSAOAEP" "algHS512 \<noteq> algRS256"
  "algHS512 \<noteq> algRSAOAEP" "algRS256 \<noteq> algRSAOAEP"
  "algHS512 \<noteq> algAES" "algRS256 \<noteq> algAES" "algRSAOAEP \<noteq> algAES" "algRS256 \<noteq> algHS512"
  "algRSAOAEP \<noteq> algHS512" "algRSAOAEP \<noteq> algRS256"
  by (simp_all add: algAES_def algHS512_def algRS256_def algRSAOAEP_def)

lemma load_sqlite:
  "load X sqlite_store db realm =
    (if realm_rows db realm = [] then Inr None
     else bind_err (load_rows X (sort_key Key_Algorithm (realm_rows db realm)) zero_keys) (\<lambda>k.
       if RK_rsaKey k = [] \<or> RK_encKey k = [] \<or> RK_hmacKey k = [] then Inl ErrIncomplete
       else Inr (Some k)))"
proof -
  have "sort_key Key_Algorithm (realm_rows db realm) = [] \<longleftrightarrow> realm_rows db realm = []"
    by (metis length_0_conv length_sort)
  then show ?thesis by (simp add: load_def realm_rows_def)
qed

lemma realm_rows_insert:
  "keyRepo_Create db row = Inr db' \<Longrightarrow> Key_RealmID row = Realm_ID realm
     \<Longrightarrow> realm_rows db' realm = realm_rows db realm @ [row]
       \<and> (\<forall>k \<in> set (realm_rows db realm). Key_Algorithm k \<noteq> Key_Algorithm row)"
  by (auto simp: keyRepo_Create_def realm_rows_def split: if_splits)

text \<open>An AES row commutes with the rows of the other algorithms, so its place among them is of no account.\<close>

lemma load_row_aes_commute:
  assumes "Key_Algorithm a = algAES" "Key_Algorithm x \<noteq> algAES"
  shows "bind_err (load_row X a k) (load_row X x) = bind_err (load_row X x k) (load_row X a)"
  using assms by (auto simp: load_row_def split: option.splits)

lemma bind_err_assoc: "bind_err (bind_err r f) g = bind_err r (\<lambda>x. bind_err (f x) g)"
  by (cases r) auto

lemma load_rows_insort_aes:
  assumes "Key_Algorithm a = algAES" "\<forall>x \<in> set xs. Key_Algorithm x \<noteq> algAES"
  shows "load_rows X (insort_key Key_Algorithm a xs) k = bind_err (load_rows X xs k) (load_row X a)"
  using assms(2)
proof (induction xs arbitrary: k)
  case Nil
  show ?case by (cases "load_row X a k") auto
next
  case (Cons x xs)
  have push: "load_rows X (a # ys) k = bind_err (load_rows X ys k) (load_row X a)"
    if "\<forall>y \<in> set ys. Key_Algorithm y \<noteq> algAES" for ys k
    using that
  proof (induction ys arbitrary: k)
    case Nil
    then show ?case by (cases "load_row X a k") auto
  next
    case (Cons y ys)
    have "load_rows X (a # y # ys) k = bind_err (bind_err (load_row X a k) (load_row X y)) (load_rows X ys)"
      by (cases "load_row X a k") auto
    also have "\<dots> = bind_err (load_row X y k) (load_rows X (a # ys))"
      using load_row_aes_commute [OF assms(1), of y X k] Cons.prems by (cases "load_row X y k") auto
    also have "\<dots> = bind_err (load_rows X (y # ys) k) (load_row X a)"
      using Cons by (cases "load_row X y k") auto
    finally show ?case .
  qed
  show ?case
  proof (cases "Key_Algorithm a \<le> Key_Algorithm x")
    case True
    then show ?thesis using push [OF Cons.prems] by simp
  next
    case False
    then show ?thesis using Cons by (cases "load_row X x k") auto
  qed
qed

lemma sort_key_snoc:
  assumes "\<forall>x \<in> set xs. f x \<noteq> f a" "distinct (map f xs)"
  shows "sort_key f (xs @ [a]) = insort_key f a (sort_key f xs)"
proof (rule map_sorted_distinct_set_unique)
  show "inj_on f (set (sort_key f (xs @ [a])) \<union> set (insort_key f a (sort_key f xs)))"
    using assms by (auto simp: set_insort_key distinct_map inj_on_def)
qed (use assms in \<open>auto simp: sorted_insort_key distinct_map set_insort_key distinct_insort inj_on_def\<close>)

lemma bind_gen_Some:
  "bind_gen r f = Some (Inr b, e') \<longleftrightarrow> (\<exists>a e. r = Some (Inr a, e) \<and> f a e = Some (Inr b, e'))"
  by (auto simp: bind_gen_def split: option.splits sum.splits)

lemma read_bytes_Some:
  "read_bytes err n e = Some (Inr b, e') \<longleftrightarrow> rand_read n e = Some (b, e')"
  by (auto simp: read_bytes_def split: option.splits)

lemma rand_read_bytes:
  "rand_read n e = Some (b, e') \<Longrightarrow> bytes_ok e \<Longrightarrow> length b = n \<and> bytes_ok b \<and> bytes_ok e'"
  by (auto simp: rand_read_def bytes_ok_def list_all_iff split: if_splits dest: in_set_takeD in_set_dropD)

lemma generateRSA_facts:
  assumes "x509_ok X" "generateRSAWithCertificate X now cn e = Some (Inr (key, cert), e')" "bytes_ok e"
  shows "key \<noteq> [] \<and> bytes_ok cert \<and> bytes_ok e'"
proof -
  obtain e1 where g: "X_GenerateKey X 2048 e = Some (key, e1)" "selfSign X now key cn e1 = Some (Inr cert, e')"
    using assms(2) by (auto simp: generateRSAWithCertificate_def bind_gen_Some split: option.splits)
  then obtain t where "X_CreateCertificate X t (X_Public X key) key e1 = Some (cert, e')"
    by (auto simp: selfSign_def Let_def split: option.splits)
  with g(1) assms(1,3) show ?thesis unfolding x509_ok_def bytes_ok_def by blast
qed

lemma Generate_facts:
  assumes "x509_ok X" "bytes_ok e" "Generate X now cn e = Some (Inr k, e')"
  shows "RK_rsaKey k \<noteq> [] \<and> RK_encKey k \<noteq> [] \<and> length (RK_hmacKey k) = 64 \<and> length (RK_aesKey k) = 16
    \<and> bytes_ok (RK_certDER k) \<and> bytes_ok (RK_encCertDER k) \<and> bytes_ok (RK_hmacKey k) \<and> bytes_ok (RK_aesKey k)"
proof -
  from assms(3) obtain rsa cert e1 enc ecert e2 hmac e3 aes e4 where g:
      "generateRSAWithCertificate X now cn e = Some (Inr (rsa, cert), e1)"
      "generateRSAWithCertificate X now cn e1 = Some (Inr (enc, ecert), e2)"
      "rand_read 64 e2 = Some (hmac, e3)" "rand_read 16 e3 = Some (aes, e4)"
      "RK_rsaKey k = rsa" "RK_certDER k = cert" "RK_encKey k = enc" "RK_encCertDER k = ecert"
      "RK_hmacKey k = hmac" "RK_aesKey k = aes"
    by (auto simp: Generate_def bind_gen_Some read_bytes_Some generateAES_def aesSecretSize_def split: prod.splits)
  note f1 = generateRSA_facts [OF assms(1) g(1) assms(2)]
  note f2 = generateRSA_facts [OF assms(1) g(2)]
  show ?thesis using f1 f2 g rand_read_bytes [OF g(3)] rand_read_bytes [OF g(4)] by simp
qed

text \<open>The rows of a generated set, and what loading the first \<open>n\<close> of them gives.\<close>

lemma parseRSA_marshal:
  "x509_ok X \<Longrightarrow> X_MarshalPKCS8PrivateKey X k = Some der \<Longrightarrow> parseRSA X der = Some k"
  by (auto simp: x509_ok_def parseRSA_def)

lemma key_rows_shape:
  assumes "x509_ok X" "key_rows X k i t = Inr rows"
  obtains r1 r2 r3 r4 where "rows = [r1, r2, r3, r4]"
    "Key_Algorithm r1 = algRS256" "Key_Algorithm r2 = algRSAOAEP"
    "Key_Algorithm r3 = algHS512" "Key_Algorithm r4 = algAES"
    "\<forall>r \<in> set rows. Key_RealmID r = i"
    "Key_ID r1 = RK_RSAKeyID k" "Key_ID r2 = RK_EncKeyID k" "Key_ID r3 = RK_HMACKeyID k" "Key_ID r4 = RK_AESKeyID k"
    "parseRSA X (Key_PrivateKey r1) = Some (RK_rsaKey k)" "parseRSA X (Key_PrivateKey r2) = Some (RK_encKey k)"
    "Key_Certificate r1 = octets (RK_certDER k)" "Key_Certificate r2 = octets (RK_encCertDER k)"
    "Key_PrivateKey r3 = octets (RK_hmacKey k)" "Key_PrivateKey r4 = octets (RK_aesKey k)"
proof -
  obtain s e where m: "X_MarshalPKCS8PrivateKey X (RK_rsaKey k) = Some s"
      "X_MarshalPKCS8PrivateKey X (RK_encKey k) = Some e"
    using assms(2) by (auto simp: key_rows_def split: option.splits)
  show thesis
    by (rule that) (use assms(2) m parseRSA_marshal [OF assms(1) m(1)] parseRSA_marshal [OF assms(1) m(2)] in
      \<open>auto simp: key_rows_def\<close>)
qed

lemma create_rows_db:
  assumes "create_rows X sqlite_store realm k rows db = (Inr k', db')"
    and "\<forall>r \<in> set rows. Key_RealmID r = Realm_ID realm"
  shows "\<exists>j \<le> length rows. realm_rows db' realm = realm_rows db realm @ take j rows
    \<and> (k' = k \<and> j = length rows \<or> load X sqlite_store db' realm = Inr (Some k'))"
  using assms
proof (induction rows arbitrary: db)
  case (Cons row rows)
  show ?case
  proof (cases "keyRepo_Create db row")
    case (Inr db1)
    then obtain j where "j \<le> length rows" "realm_rows db' realm = realm_rows db1 realm @ take j rows"
        "k' = k \<and> j = length rows \<or> load X sqlite_store db' realm = Inr (Some k')"
      using Cons by auto
    then show ?thesis
      using realm_rows_insert [OF Inr, of realm] Cons.prems(2) by (intro exI [of _ "Suc j"]) auto
  next
    case (Inl err)
    with Cons.prems show ?thesis by (intro exI [of _ 0]) (auto split: if_splits sum.splits option.splits)
  qed
qed auto

lemma load_generated:
  assumes "x509_ok X" "bytes_ok e" "Generate X now cn e = Some (Inr k, e')"
    and "key_rows X k i t = Inr rows"
  shows "load_rows X (sort_key Key_Algorithm rows) zero_keys = Inr k"
proof -
  note g = Generate_facts [OF assms(1-3)]
  show ?thesis
    by (rule key_rows_shape [OF assms(1,4)])
      (use g in \<open>simp add: load_row_def naturals_octets zero_keys_def\<close>)
qed

lemma load_generated_prefix:
  assumes "x509_ok X" "bytes_ok e" "Generate X now cn e = Some (Inr k, e')"
    and "key_rows X k i t = Inr rows" "realm_rows db realm = take j rows" "j \<in> {1, 2}"
  shows "load X sqlite_store db realm = Inl ErrIncomplete"
proof -
  show ?thesis
    by (rule key_rows_shape [OF assms(1,4)])
      (use assms(5,6) in \<open>auto simp: load_sqlite load_row_def zero_keys_def\<close>)
qed

text \<open>Both kinds of write leave a set behind that loads as the one handed out.\<close>

lemma create_loads:
  assumes "x509_ok X" "bytes_ok e" "realm_rows db realm = []"
    and "create X sqlite_store now realm db e = Some (Inr k, db', e')"
  shows "load X sqlite_store db' realm = Inr (Some k)"
proof -
  obtain g e1 rows where c: "Generate X now (Realm_Name realm) e = Some (Inr g, e1)"
      "key_rows X g (Realm_ID realm) (now div 1000000) = Inr rows"
      "create_rows X sqlite_store realm g rows db = (Inr k, db')"
    using assms(4) by (auto simp: create_def Let_def split: option.splits sum.splits prod.splits)
  have "\<forall>r \<in> set rows. Key_RealmID r = Realm_ID realm" "rows \<noteq> []"
    by (rule key_rows_shape [OF assms(1) c(2)]; simp)+
  with create_rows_db [OF c(3)] assms(3)
  consider "k = g" "realm_rows db' realm = rows" | "load X sqlite_store db' realm = Inr (Some k)" by force
  then show ?thesis
  proof cases
    case 1
    then show ?thesis
      using load_generated [OF assms(1,2) c(1,2)] Generate_facts [OF assms(1,2) c(1)] \<open>rows \<noteq> []\<close>
      by (auto simp: load_sqlite)
  qed
qed

lemma addAES_loads:
  assumes "wf_keys db" "bytes_ok e" "load X sqlite_store db realm = Inr (Some k)" "RK_aesKey k = []"
    and "addAES X sqlite_store now realm k db e = Some (Inr k', db', e')"
  shows "load X sqlite_store db' realm = Inr (Some k')"
proof -
  obtain aes e1 i e2 where a: "rand_read 16 e = Some (aes, e1)" "NewID e1 = Some (i, e2)"
    using assms(5)
    by (auto simp: addAES_def generateAES_def read_bytes_def aesSecretSize_def split: option.splits sum.splits)
  define row where "row = \<lparr>Key_ID = i, Key_RealmID = Realm_ID realm, Key_Algorithm = algAES, Key_Use = ''enc'',
    Key_PrivateKey = octets aes, Key_Certificate = [], Key_CreatedAt = now div 1000000\<rparr>"
  have c: "keyRepo_Create db row = Inr db'" "k' = k\<lparr>RK_AESKeyID := i, RK_aesKey := aes\<rparr>"
    using assms(3-5) a
    by (auto simp: addAES_def generateAES_def read_bytes_def aesSecretSize_def row_def [symmetric] Let_def
        split: sum.splits if_splits)
  note r = realm_rows_insert [OF c(1), of realm]
  have d: "distinct (map Key_Algorithm (realm_rows db realm))"
    using assms(1) unfolding wf_keys_def realm_rows_def
    by (auto simp: distinct_map inj_on_def)
  have "load_rows X (sort_key Key_Algorithm (realm_rows db' realm)) zero_keys
      = bind_err (load_rows X (sort_key Key_Algorithm (realm_rows db realm)) zero_keys) (load_row X row)"
    using r d by (simp add: sort_key_snoc row_def load_rows_insort_aes)
  moreover have "load_row X row k = Inr k'"
    using c(2) rand_read_bytes [OF a(1) assms(2)] by (simp add: load_row_def row_def naturals_octets)
  moreover have "load_rows X (sort_key Key_Algorithm (realm_rows db realm)) zero_keys = Inr k"
      "RK_rsaKey k \<noteq> [] \<and> RK_encKey k \<noteq> [] \<and> RK_hmacKey k \<noteq> []"
    using assms(3) by (auto simp: load_sqlite bind_err_Inr_iff split: if_splits)
  ultimately show ?thesis using c(2) r by (auto simp: load_sqlite row_def)
qed

lemma ForRealm_loads:
  assumes "x509_ok X" "bytes_ok e" "wf_keys db"
    and "ForRealm X sqlite_store now realm NewManager db e = Some (Inr k, m, db', e')"
  shows "load X sqlite_store db' realm = Inr (Some k)"
proof (cases "load X sqlite_store db realm")
  case (Inl x)
  with assms(4) show ?thesis by (simp add: ForRealm_def NewManager_def)
next
  case (Inr l)
  show ?thesis
  proof (cases l)
    case None
    then have "realm_rows db realm = []"
      using Inr by (auto simp: load_sqlite bind_err_def split: if_splits sum.splits)
    moreover have "create X sqlite_store now realm db e = Some (Inr k, db', e')"
      using assms(4) Inr None by (auto simp: ForRealm_def NewManager_def split: option.splits sum.splits)
    ultimately show ?thesis using create_loads assms(1,2) by blast
  next
    case (Some k0)
    show ?thesis
    proof (cases "RK_aesKey k0 = []")
      case True
      then have "addAES X sqlite_store now realm k0 db e = Some (Inr k, db', e')"
        using assms(4) Inr Some by (auto simp: ForRealm_def NewManager_def split: option.splits sum.splits)
      then show ?thesis using addAES_loads assms(2,3) Inr Some True by blast
    next
      case False
      then show ?thesis using assms(4) Inr Some by (auto simp: ForRealm_def NewManager_def)
    qed
  qed
qed

section \<open>A sample library and database\<close>

definition sample_x509 :: x509_lib where
  "sample_x509 = \<lparr>X_GenerateKey = (\<lambda>n e. if e = [] then None else Some ([hd e], tl e)), X_Public = (\<lambda>k. k),
     X_CreateCertificate = (\<lambda>t p k e. Some ([48], e)), X_MarshalPKIXPublicKey = (\<lambda>p. None),
     X_MarshalPKCS8PrivateKey = (\<lambda>k. if bytes_ok k then Some (octets k) else None),
     X_ParsePKCS8PrivateKey = (\<lambda>d. Some (PkcsRSA (naturals d)))\<rparr>"

definition sample_draw :: entropy where
  "sample_draw = [1, 2] @ replicate 80 7 @ replicate 16 1 @ replicate 16 2 @ replicate 16 3 @ replicate 16 4"


lemma sample_x509_ok: "x509_ok sample_x509"
proof -
  have "list_all (\<lambda>b. b < 256) (tl e)" if "list_all (\<lambda>b. b < 256) e" for e :: entropy
    using that by (cases e) auto
  then show ?thesis
    by (auto simp: x509_ok_def sample_x509_def naturals_octets split: if_splits)
qed

text \<open>The identifiers that four runs of equal bytes give differ in their second character.\<close>

lemma NewID_replicate:
  assumes "c < 10"
  obtains s where "NewID (replicate 16 c @ e) = Some (s, e)" "s ! 1 = char_of (48 + c)"
proof
  let ?b = "((replicate 16 c)[6 := c mod 16 + 64])[8 := c mod 64 + 128]"
  let ?s = "hex_encode (take 4 ?b) @ ''-'' @ hex_encode (take 2 (drop 4 ?b)) @ ''-''
     @ hex_encode (take 2 (drop 6 ?b)) @ ''-'' @ hex_encode (take 2 (drop 8 ?b)) @ ''-''
     @ hex_encode (take 6 (drop 10 ?b))"
  show "NewID (replicate 16 c @ e) = Some (?s, e)"
    by (simp add: NewID_def rand_read_def Let_def)
  have "take 4 ?b = replicate 4 c" by (simp add: take_update_cancel)
  also have "replicate 4 c = [c, c, c, c]" by (simp add: numeral_eq_Suc)
  finally show "?s ! 1 = char_of (48 + c)"
    using assms by (simp add: hex_encode_def hex_digit_def)
qed

lemma sample_generated:
  obtains k where "Generate sample_x509 0 ''r'' sample_draw = Some (Inr k, [])"
    "distinct [RK_RSAKeyID k, RK_EncKeyID k, RK_HMACKeyID k, RK_AESKeyID k]"
    "RK_rsaKey k = [1]" "RK_encKey k = [2]"
proof -
  obtain s1 where s1: "NewID (replicate 16 1 @ replicate 16 2 @ replicate 16 3 @ replicate 16 4)
      = Some (s1, replicate 16 2 @ replicate 16 3 @ replicate 16 4)" "s1 ! 1 = char_of (49 :: nat)"
    by (rule NewID_replicate [of 1]) auto
  obtain s2 where s2: "NewID (replicate 16 2 @ replicate 16 3 @ replicate 16 4)
      = Some (s2, replicate 16 3 @ replicate 16 4)" "s2 ! 1 = char_of (50 :: nat)"
    by (rule NewID_replicate [of 2]) auto
  obtain s3 where s3: "NewID (replicate 16 3 @ replicate 16 4) = Some (s3, replicate 16 4)"
      "s3 ! 1 = char_of (51 :: nat)"
    by (rule NewID_replicate [of 3]) auto
  obtain s4 where s4: "NewID (replicate 16 4) = Some (s4, [])" "s4 ! 1 = char_of (52 :: nat)"
    by (rule NewID_replicate [of 4 "[]"]) auto
  have d: "distinct [s1, s2, s3, s4]"
    using s1(2) s2(2) s3(2) s4(2) by auto
  have r: "rand_read 64 (replicate 80 7 @ e) = Some (replicate 64 7, replicate 16 7 @ e)"
     "rand_read 16 (replicate 16 7 @ e) = Some (replicate 16 7, e)" for e
    by (simp_all add: rand_read_def)
  let ?k = "\<lparr>RK_RSAKeyID = s1, RK_EncKeyID = s2, RK_HMACKeyID = s3, RK_AESKeyID = s4, RK_rsaKey = [1],
    RK_certDER = [48], RK_encKey = [2], RK_encCertDER = [48], RK_hmacKey = replicate 64 7,
    RK_aesKey = replicate 16 7\<rparr>"
  have "Generate sample_x509 0 ''r'' sample_draw = Some (Inr ?k, [])"
    using s1 s2 s3 s4 r
    by (simp add: Generate_def generateRSAWithCertificate_def selfSign_def
        sample_x509_def sample_draw_def bind_gen_def read_bytes_def generateAES_def aesSecretSize_def
        KeyID_def fresh_id_def)
  then show thesis by (rule that) (use d in simp_all)
qed

definition key_realm :: realm where
  "key_realm = \<lparr>Realm_ID = ''r'', Realm_Name = ''r'', Realm_Enabled = True, Realm_AccessTokenLifespan = 0,
     Realm_RefreshTokenLifespan = 0, Realm_Settings = []\<rparr>"

definition key_db :: sqlite_db where
  "key_db = empty_db\<lparr>T_realm := [key_realm]\<rparr>"

lemma key_realm_names [simp]: "Realm_ID key_realm = ''r''" "Realm_Name key_realm = ''r''"
  by (simp_all add: key_realm_def)

lemma key_db_facts [simp]:
  "T_realm_key key_db = []" "T_realm key_db = [key_realm]" "wf_keys key_db" "realm_rows key_db key_realm = []"
  by (simp_all add: key_db_def empty_db_def wf_keys_def realm_rows_def)

lemma create_rows_fresh:
  assumes "has_realm db (Realm_ID realm)" "\<forall>r \<in> set rows. Key_RealmID r = Realm_ID realm"
    and "distinct (map Key_ID (T_realm_key db @ rows))"
    and "distinct (map (\<lambda>r. (Key_RealmID r, Key_Algorithm r)) (T_realm_key db @ rows))"
  shows "create_rows X sqlite_store realm k rows db = (Inr k, db\<lparr>T_realm_key := T_realm_key db @ rows\<rparr>)"
  using assms
proof (induction rows arbitrary: db)
  case (Cons r rows)
  have "Key_ID r \<notin> Key_ID ` set (T_realm_key db)"
      "(Key_RealmID r, Key_Algorithm r) \<notin> (\<lambda>r. (Key_RealmID r, Key_Algorithm r)) ` set (T_realm_key db)"
    using Cons.prems(3,4) by auto
  then have "\<not> (\<exists>k \<in> set (T_realm_key db). Key_ID k = Key_ID r
      \<or> Key_RealmID k = Key_RealmID r \<and> Key_Algorithm k = Key_Algorithm r)"
    unfolding image_iff by metis
  then have "keyRepo_Create db r = Inr (db\<lparr>T_realm_key := T_realm_key db @ [r]\<rparr>)"
    using Cons.prems(1,2) unfolding keyRepo_Create_def by simp
  moreover have "has_realm (db\<lparr>T_realm_key := T_realm_key db @ [r]\<rparr>) (Realm_ID realm)"
    using Cons.prems(1) by (simp add: has_realm_def)
  ultimately show ?case using Cons by simp
qed simp

lemma sample_rows_written:
  assumes "key_rows sample_x509 k ''r'' t = Inr rows"
    and "distinct [RK_RSAKeyID k, RK_EncKeyID k, RK_HMACKeyID k, RK_AESKeyID k]"
  shows "\<exists>db'. create_rows sample_x509 sqlite_store key_realm k (take n rows) key_db = (Inr k, db')"
proof -
  have "\<forall>r \<in> set rows. Key_RealmID r = ''r''" "distinct (map Key_ID rows)"
      "distinct (map (\<lambda>r. (Key_RealmID r, Key_Algorithm r)) rows)"
    by (rule key_rows_shape [OF sample_x509_ok assms(1)]; use assms(2) in simp)+
  then show ?thesis
    using create_rows_fresh [of key_db key_realm "take n rows" sample_x509 k]
    by (auto simp: has_realm_def key_realm_def take_map [symmetric] dest: in_set_takeD)
qed

lemma sample_key_rows:
  "RK_rsaKey k = [1] \<Longrightarrow> RK_encKey k = [2] \<Longrightarrow> \<exists>rows. key_rows sample_x509 k ''r'' t = Inr rows"
  by (simp add: key_rows_def sample_x509_def bytes_ok_def)

section \<open>Properties\<close>

text \<open>
  C24. A key set outlives the process: whatever set the manager handed out, complete, for a realm
  (loaded, completed with an AES key, or freshly generated) is exactly the set a new process reads back
  from the database it left, without writing or drawing anything; so no published key identifier and no
  refresh token is invalidated by a restart.
\<close>

theorem ForRealm_survives_restart:
  assumes "x509_ok X" "bytes_ok e" "wf_keys db" "RK_aesKey k \<noteq> []"
    and "ForRealm X sqlite_store now realm NewManager db e = Some (Inr k, m, db', e')"
  shows "ForRealm X sqlite_store now' realm NewManager db' e''
      = Some (Inr k, [Realm_ID realm \<mapsto> k], db', e'')"
  using ForRealm_loads [OF assms(1-3,5)] assms(4) by (simp add: ForRealm_def NewManager_def)

theorem ForRealm_survives_restart_witness:
  "\<exists>k m db'. ForRealm sample_x509 sqlite_store 0 key_realm NewManager key_db sample_draw = Some (Inr k, m, db', [])
     \<and> ForRealm sample_x509 sqlite_store 5 key_realm NewManager db' [] = Some (Inr k, [''r'' \<mapsto> k], db', [])"
proof -
  obtain k where k: "Generate sample_x509 0 ''r'' sample_draw = Some (Inr k, [])"
      "distinct [RK_RSAKeyID k, RK_EncKeyID k, RK_HMACKeyID k, RK_AESKeyID k]"
      "RK_rsaKey k = [1]" "RK_encKey k = [2]" by (rule sample_generated)
  obtain rows where rows: "key_rows sample_x509 k ''r'' 0 = Inr rows" using sample_key_rows k(3,4) by blast
  obtain db' where db': "create_rows sample_x509 sqlite_store key_realm k rows key_db = (Inr k, db')"
    using sample_rows_written [OF rows k(2), of "length rows"] by auto
  have b: "bytes_ok sample_draw" by (auto simp: bytes_ok_def sample_draw_def list_all_iff)
  have f: "ForRealm sample_x509 sqlite_store 0 key_realm NewManager key_db sample_draw
      = Some (Inr k, [''r'' \<mapsto> k], db', [])"
    using k(1) rows db' by (simp add: ForRealm_def NewManager_def load_sqlite create_def)
  have a: "RK_aesKey k \<noteq> []" using Generate_facts [OF sample_x509_ok b k(1)] by auto
  have "ForRealm sample_x509 sqlite_store 5 key_realm NewManager db' [] = Some (Inr k, [''r'' \<mapsto> k], db', [])"
    using ForRealm_survives_restart [OF sample_x509_ok b _ a f] by simp
  with f show ?thesis by blast
qed

text \<open>
  C25. The four rows of a new set are not written atomically: a process that stops after the first or
  the second insert leaves a realm whose keys can never be resolved again. Every later process, at any
  time, reports the set as incomplete and changes nothing.
\<close>

theorem create_interrupted:
  assumes "x509_ok X" "bytes_ok e" "realm_rows db realm = []"
    and "Generate X now (Realm_Name realm) e = Some (Inr k, e1)"
    and "key_rows X k (Realm_ID realm) t = Inr rows" "n \<in> {1, 2}"
    and "create_rows X sqlite_store realm k (take n rows) db = (Inr k, db')"
  shows "ForRealm X sqlite_store now' realm NewManager db' e' = Some (Inl ErrIncomplete, NewManager, db', e')"
proof -
  have "\<forall>r \<in> set rows. Key_RealmID r = Realm_ID realm" "length rows = 4"
    by (rule key_rows_shape [OF assms(1,5)]; simp)+
  then have "\<forall>r \<in> set (take n rows). Key_RealmID r = Realm_ID realm" "length (take n rows) = n"
    using assms(6) by (auto dest: in_set_takeD)
  with create_rows_db [OF assms(7)] assms(3) obtain j where
    "j \<le> n" "realm_rows db' realm = take j rows" "j = n \<or> load X sqlite_store db' realm = Inr (Some k)"
    by (auto simp: min_def split: if_splits)
  moreover have "load X sqlite_store db' realm = Inr None" if "realm_rows db' realm = take 0 rows"
    using that by (simp add: load_sqlite)
  moreover have "load X sqlite_store db' realm = Inl ErrIncomplete"
    if "realm_rows db' realm = take j rows" "j \<in> {1, 2}" for j
    using load_generated_prefix [OF assms(1,2,4,5)] that by blast
  ultimately have "load X sqlite_store db' realm = Inl ErrIncomplete" using assms(6) by force
  then show ?thesis by (simp add: ForRealm_def NewManager_def)
qed

theorem create_interrupted_witness:
  "\<exists>k rows db'. Generate sample_x509 0 ''r'' sample_draw = Some (Inr k, [])
     \<and> key_rows sample_x509 k ''r'' 0 = Inr rows
     \<and> create_rows sample_x509 sqlite_store key_realm k (take 2 rows) key_db = (Inr k, db')
     \<and> ForRealm sample_x509 sqlite_store 5 key_realm NewManager db' sample_draw
         = Some (Inl ErrIncomplete, NewManager, db', sample_draw)"
proof -
  obtain k where k: "Generate sample_x509 0 ''r'' sample_draw = Some (Inr k, [])"
      "distinct [RK_RSAKeyID k, RK_EncKeyID k, RK_HMACKeyID k, RK_AESKeyID k]"
      "RK_rsaKey k = [1]" "RK_encKey k = [2]" by (rule sample_generated)
  obtain rows where rows: "key_rows sample_x509 k ''r'' 0 = Inr rows" using sample_key_rows k(3,4) by blast
  obtain db' where db': "create_rows sample_x509 sqlite_store key_realm k (take 2 rows) key_db = (Inr k, db')"
    using sample_rows_written [OF rows k(2)] by blast
  have b: "bytes_ok sample_draw" by (auto simp: bytes_ok_def sample_draw_def list_all_iff)
  have "ForRealm sample_x509 sqlite_store 5 key_realm NewManager db' sample_draw
      = Some (Inl ErrIncomplete, NewManager, db', sample_draw)"
    by (rule create_interrupted [OF sample_x509_ok b _ _ _ _ db', of _ _ 0]) (use k(1) rows in simp_all)
  with k(1) rows db' show ?thesis by blast
qed

end
