(* ===== verification/Password.thy ===== *)
theory Password
  imports Sqlite
begin

text \<open>
  \<^verbatim>\<open>internal/auth/password.go\<close> and the two functions that hash a new password, in
  \<^verbatim>\<open>internal/oidc/requiredactions.go\<close> and \<^verbatim>\<open>internal/admin/credentials.go\<close>. The argon2 key derivation of
  \<^verbatim>\<open>golang.org/x/crypto\<close> is a parameter whose panic is \<^const>\<open>None\<close>; its arguments keep their widths.
\<close>

section \<open>Verifying a password\<close>

type_synonym argon2 =
  "nat list \<Rightarrow> byte list \<Rightarrow> 32 word \<Rightarrow> 32 word \<Rightarrow> 8 word \<Rightarrow> 32 word \<Rightarrow> byte list option"

text \<open>
  What is assumed of it, where anything is: \<^verbatim>\<open>IDKey\<close> panics on a zero time cost and on a zero degree of
  parallelism (\<^verbatim>\<open>time < 1\<close>, \<^verbatim>\<open>threads < 1\<close>). Nothing is assumed of its other arguments.
\<close>

definition argon2_panics :: "argon2 \<Rightarrow> bool" where
  "argon2_panics IDKey \<longleftrightarrow> (\<forall>p s t m n l. t = 0 \<or> n = 0 \<longrightarrow> IDKey p s t m n l = None)"

datatype auth_error = ErrInvalidCredential | ErrUnsupported string

definition argon2idVariant :: string where "argon2idVariant = ''id''"

definition param :: "credential \<Rightarrow> string \<Rightarrow> auth_error + string" where
  "param cred name =
    (case map_of (Cred_AdditionalParameters cred) name of
       Some (v # vs) \<Rightarrow> Inr v
     | _ \<Rightarrow> Inl (ErrUnsupported name))"

definition uintParam :: "credential \<Rightarrow> string \<Rightarrow> auth_error + 32 word" where
  "uintParam cred name =
    bind_err (param cred name) (\<lambda>raw.
      case parse_uint32 raw of None \<Rightarrow> Inl (ErrUnsupported name) | Some v \<Rightarrow> Inr (of_nat v))"

text \<open>The checks in front of the derivation, and the arguments it gets.\<close>

definition hash_arguments :: "credential \<Rightarrow> auth_error + 32 word \<times> 32 word \<times> 8 word \<times> 32 word" where
  "hash_arguments cred =
    (if Cred_Algorithm cred \<noteq> ''argon2'' then Inl (ErrUnsupported ''algorithm'')
     else bind_err (param cred ''type'') (\<lambda>variant.
       if variant \<noteq> argon2idVariant then Inl (ErrUnsupported ''type'')
       else bind_err (uintParam cred ''memory'') (\<lambda>memory.
         bind_err (uintParam cred ''parallelism'') (\<lambda>parallelism.
         bind_err (uintParam cred ''hashLength'') (\<lambda>len.
           if Cred_HashIterations cred \<le> 0 then Inl (ErrUnsupported ''iterations'')
           else if parallelism > 255 then Inl (ErrUnsupported ''parallelism'')
           else Inr (of_int (Cred_HashIterations cred), memory, ucast parallelism, len))))))"

definition VerifyPassword :: "argon2 \<Rightarrow> credential option \<Rightarrow> string \<Rightarrow> (auth_error + unit) option" where
  "VerifyPassword IDKey c password =
    (case c of
       None \<Rightarrow> Some (Inl ErrInvalidCredential)
     | Some cred \<Rightarrow>
         (case hash_arguments cred of
            Inl err \<Rightarrow> Some (Inl err)
          | Inr (t, m, n, l) \<Rightarrow>
              (case IDKey (string_bytes password) (Cred_Salt cred) t m n l of
                 None \<Rightarrow> None
               | Some got \<Rightarrow>
                   Some (if got \<noteq> Cred_HashValue cred then Inl ErrInvalidCredential else Inr ()))))"

section \<open>Hashing a new password\<close>

definition passwordCredentialType :: string where "passwordCredentialType = ''password''"
definition saltLength :: nat where "saltLength = 16"

definition password_credential :: "string \<Rightarrow> string \<Rightarrow> int \<Rightarrow> byte list \<Rightarrow> byte list \<Rightarrow> credential" where
  "password_credential ident userID created salt hash =
    \<lparr>Cred_ID = ident, Cred_UserID = userID, Cred_Type = passwordCredentialType, Cred_CreatedDate = created,
     Cred_Algorithm = ''argon2'', Cred_HashIterations = 5,
     Cred_AdditionalParameters = [(''hashLength'', [''32'']), (''memory'', [''7168'']), (''type'', [''id'']),
       (''version'', [''1.3'']), (''parallelism'', [''1''])],
     Cred_Salt = salt, Cred_HashValue = hash, Cred_Label = [], Cred_Priority = 0\<rparr>"

text \<open>The salt and the identifier: a fresh one, or that of the password the user already has.\<close>

definition credential_id ::
  "'db store \<Rightarrow> 'db \<Rightarrow> entropy \<Rightarrow> user \<Rightarrow> ((store_error + byte list \<times> string) \<times> entropy) option" where
  "credential_id s db e user =
    (case rand_read saltLength e of
       None \<Rightarrow> Some (Inl ErrStore, e)
     | Some (salt, e1) \<Rightarrow>
         (case NewID e1 of
            None \<Rightarrow> None
          | Some (ident, e2) \<Rightarrow>
              (case UserRepo_CredentialByUser (Store_Users s) db (User_ID user) passwordCredentialType of
                 Inr existing \<Rightarrow> Some (Inr (map of_nat salt, Cred_ID existing), e2)
               | Inl err \<Rightarrow> if err = ErrNotFound then Some (Inr (map of_nat salt, ident), e2) else Some (Inl err, e2))))"

definition newPasswordCredential ::
  "argon2 \<Rightarrow> 'db store \<Rightarrow> 'db \<Rightarrow> time \<Rightarrow> entropy \<Rightarrow> user \<Rightarrow> string
     \<Rightarrow> ((store_error + credential) \<times> entropy) option" where
  "newPasswordCredential IDKey s db now e user password =
    (case credential_id s db e user of
       None \<Rightarrow> None
     | Some (Inl err, e') \<Rightarrow> Some (Inl err, e')
     | Some (Inr (salt, ident), e') \<Rightarrow>
         (case IDKey (string_bytes password) salt 5 7168 1 32 of
            None \<Rightarrow> None
          | Some hash \<Rightarrow>
              Some (Inr (password_credential ident (User_ID user) (now div 1000000) salt hash), e')))"

text \<open>The Admin API's variant stores an empty password as a credential without a hash.\<close>

definition admin_newPasswordCredential ::
  "argon2 \<Rightarrow> 'db store \<Rightarrow> 'db \<Rightarrow> time \<Rightarrow> entropy \<Rightarrow> user \<Rightarrow> string
     \<Rightarrow> ((store_error + credential) \<times> entropy) option" where
  "admin_newPasswordCredential IDKey s db now e user password =
    (case credential_id s db e user of
       None \<Rightarrow> None
     | Some (Inl err, e') \<Rightarrow> Some (Inl err, e')
     | Some (Inr (salt, ident), e') \<Rightarrow>
         if password = []
         then Some (Inr \<lparr>Cred_ID = ident, Cred_UserID = User_ID user, Cred_Type = passwordCredentialType,
                Cred_CreatedDate = now div 1000000, Cred_Algorithm = [], Cred_HashIterations = 0,
                Cred_AdditionalParameters = [], Cred_Salt = [], Cred_HashValue = [], Cred_Label = [],
                Cred_Priority = 0\<rparr>, e')
         else (case IDKey (string_bytes password) salt 5 7168 1 32 of
                 None \<Rightarrow> None
               | Some hash \<Rightarrow>
                   Some (Inr (password_credential ident (User_ID user) (now div 1000000) salt hash), e')))"

definition withAction :: "string list \<Rightarrow> string \<Rightarrow> bool \<Rightarrow> string list" where
  "withAction actions action want = filter (\<lambda>a. a \<noteq> action) actions @ (if want then [action] else [])"

section \<open>Properties\<close>

lemma parse_uint32_samples:
  "parse_uint32 ''32'' = Some 32" "parse_uint32 ''7168'' = Some 7168" "parse_uint32 ''1'' = Some 1"
  by (simp_all add: parse_uint32_def digit_value_def)

lemma hash_arguments_password_credential:
  "hash_arguments (password_credential i u c s h) = Inr (5, 7168, 1, 32)"
  by (simp add: hash_arguments_def password_credential_def param_def uintParam_def parse_uint32_samples
      argon2idVariant_def)

lemma withAction_set:
  "set (withAction xs a want) = (if want then insert a (set xs) else set xs - {a})"
  by (auto simp: withAction_def)

lemma newPasswordCredential_made:
  assumes "newPasswordCredential IDKey s db now e user password = Some (Inr cred, e')
      \<or> password \<noteq> [] \<and> admin_newPasswordCredential IDKey s db now e user password = Some (Inr cred, e')"
  obtains i salt h where "credential_id s db e user = Some (Inr (salt, i), e')"
    "IDKey (string_bytes password) salt 5 7168 1 32 = Some h"
    "cred = password_credential i (User_ID user) (now div 1000000) salt h"
  using assms unfolding newPasswordCredential_def admin_newPasswordCredential_def
  by (auto split: option.splits sum.splits if_splits)

lemma credential_id_salt:
  assumes "credential_id s db e user = Some (Inr (salt, i), e')"
  shows "\<exists>r e1. rand_read saltLength e = Some (r, e1) \<and> salt = map of_nat r"
  using assms by (auto simp: credential_id_def split: option.splits sum.splits if_splits)

lemma VerifyPassword_made:
  "VerifyPassword IDKey (Some (password_credential i u c salt h)) attempt =
    map_option (\<lambda>k. if k = h then Inr () else Inl ErrInvalidCredential)
      (IDKey (string_bytes attempt) salt 5 7168 1 32)"
proof -
  have "Cred_Salt (password_credential i u c salt h) = salt" "Cred_HashValue (password_credential i u c salt h) = h"
    by (simp_all add: password_credential_def)
  then show ?thesis
    by (simp add: VerifyPassword_def hash_arguments_password_credential split: option.splits)
qed

text \<open>
  C26. Setting a password and checking it agree across the packages that hash and verify. A credential
  made for a password (in the Admin API: for a password that is not empty) carries the salt just drawn;
  checking it accepts that password, and checking any attempt derives a key with the salt, cost and length
  the credential was made with, accepts the attempt exactly when its key is the key of the password, and
  otherwise refuses it as an invalid credential. The credential the Admin API makes for the empty
  password accepts no attempt, the empty one included, and reports the algorithm as unsupported.
  Nothing is assumed of the derivation.
\<close>

theorem password_roundtrip:
  "(newPasswordCredential IDKey s db now e user password = Some (Inr cred, e')
      \<or> password \<noteq> [] \<and> admin_newPasswordCredential IDKey s db now e user password = Some (Inr cred, e')
    \<longrightarrow> (\<exists>r e1. rand_read saltLength e = Some (r, e1) \<and> Cred_Salt cred = map of_nat r)
      \<and> VerifyPassword IDKey (Some cred) password = Some (Inr ())
      \<and> (\<forall>attempt. VerifyPassword IDKey (Some cred) attempt =
          map_option (\<lambda>k. if Some k = IDKey (string_bytes password) (Cred_Salt cred) 5 7168 1 32
                        then Inr () else Inl ErrInvalidCredential)
            (IDKey (string_bytes attempt) (Cred_Salt cred) 5 7168 1 32)))
   \<and> (admin_newPasswordCredential IDKey s db now e user [] = Some (Inr cred, e')
    \<longrightarrow> (\<forall>attempt. VerifyPassword IDKey (Some cred) attempt = Some (Inl (ErrUnsupported ''algorithm''))))"
proof (intro conjI [of "_ \<longrightarrow> _" "_ \<longrightarrow> _"] impI)
  assume "newPasswordCredential IDKey s db now e user password = Some (Inr cred, e')
      \<or> password \<noteq> [] \<and> admin_newPasswordCredential IDKey s db now e user password = Some (Inr cred, e')"
  then obtain i salt h where m: "credential_id s db e user = Some (Inr (salt, i), e')"
      "IDKey (string_bytes password) salt 5 7168 1 32 = Some h"
      "cred = password_credential i (User_ID user) (now div 1000000) salt h"
    by (rule newPasswordCredential_made)
  have "Cred_Salt cred = salt" using m(3) by (simp add: password_credential_def)
  with m credential_id_salt [OF m(1)]
  show "(\<exists>r e1. rand_read saltLength e = Some (r, e1) \<and> Cred_Salt cred = map of_nat r)
      \<and> VerifyPassword IDKey (Some cred) password = Some (Inr ())
      \<and> (\<forall>attempt. VerifyPassword IDKey (Some cred) attempt =
          map_option (\<lambda>k. if Some k = IDKey (string_bytes password) (Cred_Salt cred) 5 7168 1 32
                        then Inr () else Inl ErrInvalidCredential)
            (IDKey (string_bytes attempt) (Cred_Salt cred) 5 7168 1 32))"
    by (simp add: VerifyPassword_made)
next
  assume "admin_newPasswordCredential IDKey s db now e user [] = Some (Inr cred, e')"
  then have "Cred_Algorithm cred = []"
    unfolding admin_newPasswordCredential_def by (auto split: option.splits sum.splits)
  then show "\<forall>attempt. VerifyPassword IDKey (Some cred) attempt = Some (Inl (ErrUnsupported ''algorithm''))"
    by (simp add: VerifyPassword_def hash_arguments_def)
qed

definition sample_argon2 :: argon2 where
  "sample_argon2 p s t m n l = (if t = 0 \<or> n = 0 then None else Some (map of_nat p @ s))"

lemma sample_argon2_panics: "argon2_panics sample_argon2"
  by (simp add: argon2_panics_def sample_argon2_def)

theorem password_roundtrip_witness:
  "(\<exists>cred e'. newPasswordCredential sample_argon2 sqlite_store empty_db 0 (replicate 40 7) zero_user ''pw''
       = Some (Inr cred, e')
     \<and> VerifyPassword sample_argon2 (Some cred) ''pw'' = Some (Inr ())
     \<and> VerifyPassword sample_argon2 (Some cred) ''px'' = Some (Inl ErrInvalidCredential))
   \<and> (\<exists>cred e'. admin_newPasswordCredential sample_argon2 sqlite_store empty_db 0 (replicate 40 7) zero_user []
       = Some (Inr cred, e')
     \<and> VerifyPassword sample_argon2 (Some cred) [] = Some (Inl (ErrUnsupported ''algorithm'')))"
proof -
  have "\<exists>i s e'. credential_id sqlite_store empty_db (replicate 40 7) zero_user = Some (Inr (s, i), e')"
    by (simp add: credential_id_def rand_read_def saltLength_def NewID_def Let_def sqlite_store_def
        sqlite_users_def userRepo_CredentialByUser_def by_priority_def empty_db_def first_row_def)
  then obtain i s e' where c: "credential_id sqlite_store empty_db (replicate 40 7) zero_user = Some (Inr (s, i), e')"
    by blast
  then obtain cred where n: "newPasswordCredential sample_argon2 sqlite_store empty_db 0 (replicate 40 7) zero_user ''pw''
      = Some (Inr cred, e')"
    by (simp add: newPasswordCredential_def sample_argon2_def)
  from c obtain cred' where a: "admin_newPasswordCredential sample_argon2 sqlite_store empty_db 0 (replicate 40 7) zero_user []
      = Some (Inr cred', e')"
    by (simp add: admin_newPasswordCredential_def)
  have "VerifyPassword sample_argon2 (Some cred) ''pw'' = Some (Inr ())
      \<and> VerifyPassword sample_argon2 (Some cred) ''px'' = Some (Inl ErrInvalidCredential)"
    using password_roundtrip [THEN conjunct1, rule_format, OF disjI1, OF n]
    by (simp add: sample_argon2_def string_bytes_def)
  moreover have "VerifyPassword sample_argon2 (Some cred') [] = Some (Inl (ErrUnsupported ''algorithm''))"
    using password_roundtrip [THEN conjunct2, rule_format, OF a] .
  ultimately show ?thesis using n a by blast
qed

lemma hash_arguments_zero:
  assumes "hash_arguments cred = Inr (t, m, n, l)"
  shows "t = 0 \<longleftrightarrow> Cred_HashIterations cred mod 2 ^ 32 = 0" "n = 0 \<longleftrightarrow> uintParam cred ''parallelism'' = Inr 0"
proof -
  from assms obtain par where p: "uintParam cred ''parallelism'' = Inr par" "\<not> par > 255" "n = ucast par"
      "t = of_int (Cred_HashIterations cred)"
    by (auto simp: hash_arguments_def bind_err_Inr_iff split: if_splits)
  show "t = 0 \<longleftrightarrow> Cred_HashIterations cred mod 2 ^ 32 = 0"
    using p(4) by (simp add: word_of_int_eq_0_iff dvd_eq_mod_eq_0)
  have "unat par < 256" using p(2) by (simp add: word_less_nat_alt)
  then have "unat (ucast par :: 8 word) = unat par" by (simp add: unsigned_ucast_eq take_bit_eq_mod)
  then have "(ucast par :: 8 word) = 0 \<longleftrightarrow> par = 0" by (metis unat_0 unat_eq_0 unsigned_0)
  then show "n = 0 \<longleftrightarrow> uintParam cred ''parallelism'' = Inr 0" using p by simp
qed

text \<open>
  C27. Verification stops the program on a stored credential that passes every check of the function and
  has a parallelism of zero, or an iteration count that is a multiple of two to the thirty-second, which
  the conversion to 32 bits turns into zero: whatever password is tried. This uses that the derivation
  panics on a zero time cost and on zero threads. Conversely, verification stops the program only inside
  the derivation, on a credential that passed the checks; a missing credential, and one that fails a
  check, are answered by an error.
\<close>

theorem VerifyPassword_panics:
  assumes "argon2_panics IDKey"
  shows "((\<exists>a. hash_arguments cred = Inr a)
      \<and> (Cred_HashIterations cred mod 2 ^ 32 = 0 \<or> uintParam cred ''parallelism'' = Inr 0)
      \<longrightarrow> (\<forall>password. VerifyPassword IDKey (Some cred) password = None))
    \<and> (VerifyPassword IDKey c password = None \<longleftrightarrow>
      (\<exists>cred t m n l. c = Some cred \<and> hash_arguments cred = Inr (t, m, n, l)
        \<and> IDKey (string_bytes password) (Cred_Salt cred) t m n l = None))"
proof (intro conjI impI)
  assume z: "(\<exists>a. hash_arguments cred = Inr a)
      \<and> (Cred_HashIterations cred mod 2 ^ 32 = 0 \<or> uintParam cred ''parallelism'' = Inr 0)"
  then obtain t m n l where h: "hash_arguments cred = Inr (t, m, n, l)" by auto
  have "t = 0 \<or> n = 0" using z unfolding hash_arguments_zero [OF h] by (rule conjunct2)
  then show "\<forall>password. VerifyPassword IDKey (Some cred) password = None"
    using h assms by (auto simp: VerifyPassword_def argon2_panics_def)
next
  show "VerifyPassword IDKey c password = None \<longleftrightarrow>
      (\<exists>cred t m n l. c = Some cred \<and> hash_arguments cred = Inr (t, m, n, l)
        \<and> IDKey (string_bytes password) (Cred_Salt cred) t m n l = None)"
    by (auto simp: VerifyPassword_def split: option.splits sum.splits)
qed

theorem VerifyPassword_panics_witness:
  "VerifyPassword sample_argon2
     (Some ((password_credential ''c'' ''u'' 0 [] [])\<lparr>Cred_HashIterations := 2 ^ 32\<rparr>)) ''pw'' = None"
proof -
  let ?c = "(password_credential ''c'' ''u'' 0 [] [])\<lparr>Cred_HashIterations := 2 ^ 32\<rparr>"
  have "\<exists>a. hash_arguments ?c = Inr a" "Cred_HashIterations ?c mod 2 ^ 32 = 0"
    by (simp_all add: hash_arguments_def password_credential_def param_def uintParam_def parse_uint32_samples
        argon2idVariant_def)
  from this(1) disjI1 [OF this(2)] have "\<forall>password. VerifyPassword sample_argon2 (Some ?c) password = None"
    by (intro VerifyPassword_panics [OF sample_argon2_panics, THEN conjunct1, THEN mp] conjI)
  then show ?thesis by (rule spec)
qed

end
