(* ===== verification/Dpop.thy ===== *)
theory Dpop
  imports Token
begin

text \<open>
  \<^verbatim>\<open>internal/oidc/dpop.go\<close>: verifying a DPoP proof at the token endpoint, and the cache of the proofs
  already used. The JOSE library and the syntactic half of \<^verbatim>\<open>encoding/json\<close> are parameters; the order
  of the checks and their answers are the code's.
\<close>

section \<open>Constants\<close>

definition dpopHeader :: string where "dpopHeader = ''DPoP''"
definition dpopProofType :: string where "dpopProofType = ''dpop+jwt''"

definition descDPoPMissing :: string where "descDPoPMissing = ''DPoP proof is missing''"
definition descDPoPHeaderFailure :: string where
  "descDPoPHeaderFailure = ''DPoP header verification failure''"
definition descDPoPNoJWK :: string where "descDPoPNoJWK = ''No JWK in DPoP header''"
definition descDPoPMissingClaims :: string where
  "descDPoPMissingClaims = ''DPoP mandatory claims are missing''"
definition descDPoPURLMismatch :: string where "descDPoPURLMismatch = ''DPoP HTTP URL mismatch''"
definition descDPoPMethodMismatch :: string where
  "descDPoPMethodMismatch = ''DPoP HTTP method mismatch''"
definition descDPoPNotActive :: string where "descDPoPNotActive = ''DPoP proof is not active''"
definition descDPoPReplayed :: string where "descDPoPReplayed = ''DPoP proof has already been used''"
definition descDPoPConfirmationMismatch :: string where
  "descDPoPConfirmationMismatch = ''DPoP confirmation doesn'' @ [CHR 0x27] @ ''t match DPoP proof''"
definition descDPoPBadSignature :: string where
  "descDPoPBadSignature = ''DPoP verification failure: ''
     @ ''org.keycloak.exceptions.TokenSignatureInvalidException: Invalid token signature''"
definition descDPoPSigningFailed :: string where
  "descDPoPSigningFailed = ''DPoP verification failure: ''
     @ ''org.keycloak.common.VerificationException: Signing failed''"

definition descDPoPWrongType :: "string option \<Rightarrow> string" where
  "descDPoPWrongType spelled =
     ''Invalid or missing type in DPoP header: '' @ (case spelled of None \<Rightarrow> ''null'' | Some s \<Rightarrow> s)"

definition descDPoPUnsupportedAlg :: "string \<Rightarrow> string" where
  "descDPoPUnsupportedAlg alg = ''Unsupported DPoP algorithm: '' @ alg"

definition descDPoPKeyType :: "string \<Rightarrow> string \<Rightarrow> string" where
  "descDPoPKeyType alg kty = ''Key with algorithm '' @ alg @ '' and type '' @ kty
     @ '' is incorrect for provider algorithm '' @ alg"

definition dpopAlgorithms :: "(string \<times> string) list" where
  "dpopAlgorithms =
    [(''PS384'', ''RSA''), (''RS384'', ''RSA''), (''EdDSA'', ''OKP''), (''ES384'', ''EC''), (''ES256'', ''EC''),
     (''RS256'', ''RSA''), (''ES512'', ''EC''), (''PS256'', ''RSA''), (''PS512'', ''RSA''), (''RS512'', ''RSA'')]"

definition dpopCurves :: "(string \<times> string) list" where
  "dpopCurves = [(''ES256'', ''P-256''), (''ES384'', ''P-384''), (''ES512'', ''P-521'')]"

definition dpopProofLifetime :: duration where "dpopProofLifetime = 10 * second"
definition dpopClockSkew :: duration where "dpopClockSkew = 15 * second"

section \<open>The cache of used proofs\<close>

type_synonym proof_store = "string \<Rightarrow> time option"

definition newProofStore :: proof_store where
  "newProofStore = Map.empty"

definition proofStore_use :: "proof_store \<Rightarrow> string \<Rightarrow> time \<Rightarrow> bool \<times> proof_store" where
  "proofStore_use seen jti now =
    (let seen = (\<lambda>i. case seen i of
                   None \<Rightarrow> None
                 | Some at \<Rightarrow> if now - at > dpopProofLifetime + dpopClockSkew then None else Some at)
     in case seen jti of
          Some _ \<Rightarrow> (True, seen)
        | None \<Rightarrow> (False, seen(jti \<mapsto> now)))"

section \<open>The proof\<close>

record dpop_claims =
  DP_Htm :: string
  DP_Htu :: string
  DP_Iat :: "int option"
  DP_Jti :: string

record dpop_header =
  DH_Typ :: "string option"
  DH_Alg :: string
  DH_JWK :: "json option"

text \<open>
  \<open>D_json\<close> reads a JSON text; \<open>D_jwk_ok\<close> is \<^verbatim>\<open>JSONWebKey.UnmarshalJSON\<close>; \<open>D_parse_signed\<close> is
  \<^verbatim>\<open>jose.ParseSigned\<close> with one permitted algorithm, \<open>D_verify\<close> the \<^verbatim>\<open>Verify\<close> behind it, and
  \<open>D_thumbprint\<close> the key's SHA-256 thumbprint.
\<close>

record dpop_lib =
  D_json :: "nat list \<Rightarrow> json option"
  D_jwk_ok :: "json \<Rightarrow> bool"
  D_parse_signed :: "string \<Rightarrow> string \<Rightarrow> bool"
  D_verify :: "string \<Rightarrow> json \<Rightarrow> string \<Rightarrow> nat list option"
  D_thumbprint :: "json \<Rightarrow> nat list option"

text \<open>\<^verbatim>\<open>json.Unmarshal\<close> into a struct, one key at a time.\<close>

fun unmarshal_fields :: "(string \<Rightarrow> json \<Rightarrow> 's \<Rightarrow> 's option) \<Rightarrow> (string \<times> json) list \<Rightarrow> 's \<Rightarrow> 's option" where
  "unmarshal_fields put [] c = Some c"
| "unmarshal_fields put ((k, v) # ps) c =
     (case put k v c of None \<Rightarrow> None | Some c' \<Rightarrow> unmarshal_fields put ps c')"

definition unmarshal_struct :: "(string \<Rightarrow> json \<Rightarrow> 's \<Rightarrow> 's option) \<Rightarrow> 's \<Rightarrow> json \<Rightarrow> 's option" where
  "unmarshal_struct put zero j =
    (case j of JObj ps \<Rightarrow> unmarshal_fields put ps zero | JNull \<Rightarrow> Some zero | _ \<Rightarrow> None)"

definition set_dpop_header :: "string \<Rightarrow> json \<Rightarrow> dpop_header \<Rightarrow> dpop_header option" where
  "set_dpop_header k v c =
    (let n = fold_name k
     in if n = fold_name ''typ''
        then (case v of JNull \<Rightarrow> Some (c\<lparr>DH_Typ := None\<rparr>) | JStr s \<Rightarrow> Some (c\<lparr>DH_Typ := Some s\<rparr>) | _ \<Rightarrow> None)
        else if n = fold_name ''alg'' then map_option (\<lambda>s. c\<lparr>DH_Alg := s\<rparr>) (as_string (DH_Alg c) v)
        else if n = fold_name ''jwk'' then Some (c\<lparr>DH_JWK := Some v\<rparr>)
        else Some c)"

definition set_described :: "string \<Rightarrow> json \<Rightarrow> string \<times> string \<Rightarrow> (string \<times> string) option" where
  "set_described k v c =
    (let n = fold_name k
     in if n = fold_name ''kty'' then map_option (\<lambda>s. (s, snd c)) (as_string (fst c) v)
        else if n = fold_name ''crv'' then map_option (\<lambda>s. (fst c, s)) (as_string (snd c) v)
        else Some c)"

definition set_dpop_claim :: "string \<Rightarrow> json \<Rightarrow> dpop_claims \<Rightarrow> dpop_claims option" where
  "set_dpop_claim k v c =
    (let n = fold_name k
     in if n = fold_name ''htm'' then map_option (\<lambda>s. c\<lparr>DP_Htm := s\<rparr>) (as_string (DP_Htm c) v)
        else if n = fold_name ''htu'' then map_option (\<lambda>s. c\<lparr>DP_Htu := s\<rparr>) (as_string (DP_Htu c) v)
        else if n = fold_name ''iat''
        then (case v of
                JNull \<Rightarrow> Some (c\<lparr>DP_Iat := None\<rparr>)
              | _ \<Rightarrow> map_option (\<lambda>i. c\<lparr>DP_Iat := Some i\<rparr>) (as_int64 0 v))
        else if n = fold_name ''jti'' then map_option (\<lambda>s. c\<lparr>DP_Jti := s\<rparr>) (as_string (DP_Jti c) v)
        else Some c)"

definition unmarshal_bytes ::
  "dpop_lib \<Rightarrow> (string \<Rightarrow> json \<Rightarrow> 's \<Rightarrow> 's option) \<Rightarrow> 's \<Rightarrow> nat list \<Rightarrow> 's option" where
  "unmarshal_bytes D put zero text =
    (case D_json D text of None \<Rightarrow> None | Some j \<Rightarrow> unmarshal_struct put zero j)"

definition trimQuery :: "string \<Rightarrow> string" where
  "trimQuery u = takeWhile (\<lambda>c. c \<noteq> CHR ''?'' \<and> c \<noteq> CHR ''#'') u"

text \<open>The checks on the header: the algorithm and the key of a proof they let through.\<close>

definition dpop_header_checks :: "dpop_lib \<Rightarrow> string \<Rightarrow> string + string \<times> json" where
  "dpop_header_checks D value =
    (let parts = split_on CHR ''.'' value
     in if length parts \<noteq> 3 then Inl descDPoPHeaderFailure
        else (case b64_decode (parts ! 0) of
                None \<Rightarrow> Inl descDPoPHeaderFailure
              | Some rawHeader \<Rightarrow>
                  (case unmarshal_bytes D set_dpop_header \<lparr>DH_Typ = None, DH_Alg = [], DH_JWK = None\<rparr> rawHeader of
                     None \<Rightarrow> Inl descDPoPHeaderFailure
                   | Some hdr \<Rightarrow>
                       if DH_Typ hdr \<noteq> Some dpopProofType then Inl (descDPoPWrongType (DH_Typ hdr))
                       else (case map_of dpopAlgorithms (DH_Alg hdr) of
                               None \<Rightarrow> Inl (descDPoPUnsupportedAlg (DH_Alg hdr))
                             | Some wantType \<Rightarrow>
                                 (case DH_JWK hdr of
                                    None \<Rightarrow> Inl descDPoPNoJWK
                                  | Some jwk \<Rightarrow>
                                      (case unmarshal_struct set_described ([], []) jwk of
                                         None \<Rightarrow> Inl descDPoPHeaderFailure
                                       | Some (kty, crv) \<Rightarrow>
                                           if kty \<noteq> wantType then Inl (descDPoPKeyType (DH_Alg hdr) kty)
                                           else if (case map_of dpopCurves (DH_Alg hdr) of
                                                      None \<Rightarrow> False | Some want \<Rightarrow> crv \<noteq> want)
                                           then Inl descDPoPSigningFailed
                                           else Inr (DH_Alg hdr, jwk)))))))"

definition dpop_signature :: "dpop_lib \<Rightarrow> string \<Rightarrow> string \<Rightarrow> json \<Rightarrow> string + dpop_claims" where
  "dpop_signature D value alg jwk =
    (if \<not> D_jwk_ok D jwk then Inl descDPoPHeaderFailure
     else if \<not> D_parse_signed D alg value then Inl descDPoPHeaderFailure
     else (case D_verify D alg jwk value of
             None \<Rightarrow> Inl descDPoPBadSignature
           | Some payload \<Rightarrow>
               (case unmarshal_bytes D set_dpop_claim \<lparr>DP_Htm = [], DP_Htu = [], DP_Iat = None, DP_Jti = []\<rparr> payload of
                  None \<Rightarrow> Inl descDPoPHeaderFailure
                | Some claims \<Rightarrow> Inr claims)))"

text \<open>The result is a refusal or the thumbprint of the verified proof.\<close>

definition verifyDPoPProof ::
  "dpop_lib \<Rightarrow> proof_store \<Rightarrow> time \<Rightarrow> string \<Rightarrow> string \<Rightarrow> string \<Rightarrow> (string + string) \<times> proof_store" where
  "verifyDPoPProof D seen now value method url =
    (case dpop_header_checks D value of
       Inl desc \<Rightarrow> (Inl desc, seen)
     | Inr (alg, jwk) \<Rightarrow>
         (case dpop_signature D value alg jwk of
            Inl desc \<Rightarrow> (Inl desc, seen)
          | Inr claims \<Rightarrow>
              (case DP_Iat claims of
                 None \<Rightarrow> (Inl descDPoPMissingClaims, seen)
               | Some iat \<Rightarrow>
                   if DP_Htm claims = [] \<or> DP_Htu claims = [] \<or> DP_Jti claims = []
                   then (Inl descDPoPMissingClaims, seen)
                   else if trimQuery (DP_Htu claims) \<noteq> url then (Inl descDPoPURLMismatch, seen)
                   else if DP_Htm claims \<noteq> method then (Inl descDPoPMethodMismatch, seen)
                   else if time_of_unix iat < now + (- dpopProofLifetime - dpopClockSkew)
                        \<or> time_of_unix iat > now + dpopClockSkew
                   then (Inl descDPoPNotActive, seen)
                   else (let (used, seen) = proofStore_use seen (DP_Jti claims) now
                         in if used then (Inl descDPoPReplayed, seen)
                            else (case D_thumbprint D jwk of
                                    None \<Rightarrow> (Inl descDPoPHeaderFailure, seen)
                                  | Some digest \<Rightarrow> (Inr (b64_encode digest), seen))))))"

text \<open>
  \<open>raw\<close> is the header's values, \<^const>\<open>None\<close> when it is absent; \<^verbatim>\<open>strings.TrimSpace\<close> of a value is
  empty exactly when it has no fields. A request without a proof gives the empty thumbprint, which is
  \<^verbatim>\<open>dpopThumbprint(nil)\<close>.
\<close>

definition verifyDPoP ::
  "dpop_lib \<Rightarrow> proof_store \<Rightarrow> time \<Rightarrow> string list option \<Rightarrow> string \<Rightarrow> bool \<Rightarrow> string
     \<Rightarrow> (string + string) \<times> proof_store" where
  "verifyDPoP D seen now raw method required url =
    (let present = (raw \<noteq> None);
         value = (case raw of Some (v # vs) \<Rightarrow> v | _ \<Rightarrow> [])
     in if present \<and> length (the raw) > 1 then (Inl descDPoPHeaderFailure, seen)
        else if GoStd.fields value = []
        then (if present \<or> required then (Inl descDPoPMissing, seen) else (Inr [], seen))
        else verifyDPoPProof D seen now value method url)"

definition attrDPoPBound :: string where "attrDPoPBound = ''dpop.bound.access.tokens''"

definition requiresDPoP :: "string smap \<Rightarrow> bool" where
  "requiresDPoP attributes \<longleftrightarrow> attr attributes attrDPoPBound = ''true''"

definition tokenTypeFor :: "string \<Rightarrow> string" where
  "tokenTypeFor jkt = (if jkt = [] then ''Bearer'' else dpopHeader)"

section \<open>Replay\<close>

text \<open>What a proof says once its header and signature are accepted.\<close>

definition proof_claims :: "dpop_lib \<Rightarrow> string \<Rightarrow> (dpop_claims \<times> json) option" where
  "proof_claims D pf =
    (case dpop_header_checks D pf of
       Inl _ \<Rightarrow> None
     | Inr (alg, jwk) \<Rightarrow>
         (case dpop_signature D pf alg jwk of Inl _ \<Rightarrow> None | Inr claims \<Rightarrow> Some (claims, jwk)))"

text \<open>The checks of an accepted proof that do not depend on the clock or the cache.\<close>

definition proof_fits :: "dpop_lib \<Rightarrow> string \<Rightarrow> string \<Rightarrow> string \<Rightarrow> int \<Rightarrow> string \<Rightarrow> string \<Rightarrow> bool" where
  "proof_fits D pf method url iat jti jkt \<longleftrightarrow>
    (\<exists>claims jwk. proof_claims D pf = Some (claims, jwk) \<and> DP_Iat claims = Some iat \<and> DP_Jti claims = jti
       \<and> jti \<noteq> [] \<and> DP_Htm claims \<noteq> [] \<and> DP_Htu claims \<noteq> [] \<and> trimQuery (DP_Htu claims) = url
       \<and> DP_Htm claims = method \<and> map_option b64_encode (D_thumbprint D jwk) = Some jkt)"

lemma verifyDPoPProof_accepts_iff:
  "fst (verifyDPoPProof D seen now pf method url) = Inr jkt \<longleftrightarrow>
    (\<exists>iat jti. proof_fits D pf method url iat jti jkt
       \<and> now - 25 * second \<le> time_of_unix iat \<and> time_of_unix iat \<le> now + 15 * second
       \<and> \<not> fst (proofStore_use seen jti now))"
  unfolding verifyDPoPProof_def proof_fits_def proof_claims_def dpopProofLifetime_def dpopClockSkew_def
  by (cases "dpop_header_checks D pf"; cases "dpop_signature D pf (fst (projr (dpop_header_checks D pf)))
      (snd (projr (dpop_header_checks D pf)))")
    (auto simp: Let_def split: option.splits prod.splits if_splits)

lemma verifyDPoPProof_seen:
  "snd (verifyDPoPProof D seen now pf method url) = seen
    \<or> (\<exists>jti. snd (verifyDPoPProof D seen now pf method url) = snd (proofStore_use seen jti now))"
  unfolding verifyDPoPProof_def
  by (auto simp: Let_def split: option.splits prod.splits if_splits sum.splits) (metis snd_conv)+

text \<open>A request's view of the check, and a sequence of requests in the order they are served.\<close>

record dpop_call =
  Call_Now :: time
  Call_Raw :: "string list option"
  Call_Method :: string
  Call_Required :: bool
  Call_URL :: string

definition call_step :: "dpop_lib \<Rightarrow> dpop_call \<Rightarrow> proof_store \<Rightarrow> proof_store" where
  "call_step D c seen =
     snd (verifyDPoP D seen (Call_Now c) (Call_Raw c) (Call_Method c) (Call_Required c) (Call_URL c))"

lemma proofStore_use_keeps:
  "seen jti = Some at \<Longrightarrow> now - at \<le> 25 * second \<Longrightarrow> snd (proofStore_use seen other now) jti = Some at"
  by (cases "jti = other")
    (simp_all add: proofStore_use_def Let_def dpopProofLifetime_def dpopClockSkew_def split: option.splits)

lemma call_step_keeps:
  assumes "seen jti = Some at" "Call_Now c - at \<le> 25 * second"
  shows "call_step D c seen jti = Some at"
proof -
  have "snd (verifyDPoPProof D seen (Call_Now c) v m u) jti = Some at" for v m u
    using verifyDPoPProof_seen [of D seen "Call_Now c" v m u] proofStore_use_keeps [of seen jti at] assms by auto
  then show ?thesis using assms(1) by (auto simp: call_step_def verifyDPoP_def Let_def)
qed

lemma calls_keep:
  "seen jti = Some at \<Longrightarrow> \<forall>c \<in> set cs. Call_Now c - at \<le> 25 * second
     \<Longrightarrow> fold (call_step D) cs seen jti = Some at"
  by (induction cs arbitrary: seen) (auto simp: call_step_keeps)

lemma accepted_recorded:
  assumes "verifyDPoPProof D seen now pf method url = (Inr jkt, seen')"
  obtains iat jti where "proof_fits D pf method url iat jti jkt" "seen' jti = Some now"
proof -
  obtain iat jti where a: "proof_fits D pf method url iat jti jkt" "\<not> fst (proofStore_use seen jti now)"
    using verifyDPoPProof_accepts_iff [of D seen now pf _ _ jkt] assms by force
  have "seen' = snd (proofStore_use seen jti now)"
    using assms a unfolding verifyDPoPProof_def proof_fits_def proof_claims_def
    by (auto simp: Let_def split: option.splits prod.splits if_splits sum.splits)
  moreover have "snd (proofStore_use seen jti now) jti = Some now"
    using a(2) by (auto simp: proofStore_use_def Let_def split: option.splits)
  ultimately show thesis using that a(1) by blast
qed

lemma proof_fits_unique:
  "proof_fits D pf m u iat jti k \<Longrightarrow> proof_fits D pf m' u' iat' jti' k' \<Longrightarrow> iat' = iat \<and> jti' = jti"
  by (auto simp: proof_fits_def)

text \<open>A library that knows one proof, dated ten seconds after the epoch.\<close>

definition sample_dpop :: dpop_lib where
  "sample_dpop =
    \<lparr>D_json = (\<lambda>text. if text = [123]
        then Some (JObj [(''typ'', JStr ''dpop+jwt''), (''alg'', JStr ''RS256''), (''jwk'', JObj [(''kty'', JStr ''RSA'')])])
        else if text = [125]
        then Some (JObj [(''htm'', JStr ''POST''), (''htu'', JStr ''u?q''), (''iat'', JInt 10), (''jti'', JStr ''j'')])
        else None),
     D_jwk_ok = (\<lambda>_. True), D_parse_signed = (\<lambda>_ _. True), D_verify = (\<lambda>_ _ _. Some [125]),
     D_thumbprint = (\<lambda>_. Some [1])\<rparr>"

lemma dpop_fold_names:
  "fold_name ''htm'' = [104, 116, 109]" "fold_name ''htu'' = [104, 116, 117]" "fold_name ''alg'' = [97, 108, 103]"
  "fold_name ''jwk'' = [106, 119, 107]" "fold_name ''kty'' = [107, 116, 121]" "fold_name ''crv'' = [99, 114, 118]"
  by (simp_all add: fold_name_def fold_rune_def runes_ascii ascii_def string_bytes_def)

lemma sample_header: "dpop_header_checks sample_dpop ''ew.x.y'' = Inr (''RS256'', JObj [(''kty'', JStr ''RSA'')])"
  by (simp add: dpop_header_checks_def b64_decode_def b64_value_def sample_dpop_def unmarshal_bytes_def
      unmarshal_struct_def set_dpop_header_def set_described_def dpop_fold_names dpopProofType_def
      dpopAlgorithms_def dpopCurves_def as_string_def)

lemma sample_signature:
  "dpop_signature sample_dpop pf alg jwk = Inr \<lparr>DP_Htm = ''POST'', DP_Htu = ''u?q'', DP_Iat = Some 10, DP_Jti = ''j''\<rparr>"
  by (simp add: dpop_signature_def sample_dpop_def unmarshal_bytes_def unmarshal_struct_def set_dpop_claim_def
      dpop_fold_names as_string_def as_int64_def)

lemma sample_fits_iff:
  "proof_fits sample_dpop ''ew.x.y'' m u iat jti jkt \<longleftrightarrow>
     m = ''POST'' \<and> u = ''u'' \<and> iat = 10 \<and> jti = ''j'' \<and> jkt = b64_encode [1]"
  by (auto simp: proof_fits_def proof_claims_def sample_header sample_signature trimQuery_def)
    (auto simp: sample_dpop_def)

text \<open>
  C22. A DPoP proof that is not dated in the future buys one request: once it has been accepted, it is
  never accepted again, for any method or address, however many other proofs are checked in between and
  however much later it is presented.
\<close>

theorem dpop_single_use:
  assumes "verifyDPoPProof D seen t pf method url = (Inr jkt, seen1)"
    and "\<And>iat jti. proof_fits D pf method url iat jti jkt \<Longrightarrow> time_of_unix iat \<le> t"
    and "\<forall>c \<in> set cs. Call_Now c \<le> t'" "t \<le> t'"
  shows "fst (verifyDPoPProof D (fold (call_step D) cs seen1) t' pf method' url') \<noteq> Inr jkt'"
proof
  assume again: "fst (verifyDPoPProof D (fold (call_step D) cs seen1) t' pf method' url') = Inr jkt'"
  obtain iat jti where f: "proof_fits D pf method url iat jti jkt" "seen1 jti = Some t"
    using accepted_recorded [OF assms(1)] .
  obtain iat' jti' where g: "proof_fits D pf method' url' iat' jti' jkt'"
      "t' - 25 * second \<le> time_of_unix iat'" "\<not> fst (proofStore_use (fold (call_step D) cs seen1) jti' t')"
    using again unfolding verifyDPoPProof_accepts_iff by blast
  have same: "iat' = iat" "jti' = jti" using proof_fits_unique [OF f(1) g(1)] by auto
  have "t' - t \<le> 25 * second" using g(2) assms(2) [OF f(1)] same by simp
  then have "fold (call_step D) cs seen1 jti = Some t"
    using calls_keep [of seen1 jti t cs D] f(2) assms(3) by force
  then have "fst (proofStore_use (fold (call_step D) cs seen1) jti t')"
    using \<open>t' - t \<le> 25 * second\<close>
    by (simp add: proofStore_use_def Let_def dpopProofLifetime_def dpopClockSkew_def)
  with g(3) same show False by simp
qed

theorem dpop_single_use_witness:
  "\<exists>seen1. verifyDPoPProof sample_dpop newProofStore (10 * second) ''ew.x.y'' ''POST'' ''u'' = (Inr (b64_encode [1]), seen1)
     \<and> fst (verifyDPoPProof sample_dpop seen1 (30 * second) ''ew.x.y'' ''POST'' ''u'') \<noteq> Inr (b64_encode [1])"
proof -
  have "fst (verifyDPoPProof sample_dpop newProofStore (10 * second) ''ew.x.y'' ''POST'' ''u'') = Inr (b64_encode [1])"
    by (subst verifyDPoPProof_accepts_iff)
      (simp add: sample_fits_iff time_of_unix_def second_def proofStore_use_def newProofStore_def)
  then obtain seen1 where
    v: "verifyDPoPProof sample_dpop newProofStore (10 * second) ''ew.x.y'' ''POST'' ''u'' = (Inr (b64_encode [1]), seen1)"
    by (metis prod.collapse)
  have "fst (verifyDPoPProof sample_dpop (fold (call_step sample_dpop) [] seen1) (30 * second) ''ew.x.y'' ''POST'' ''u'')
      \<noteq> Inr (b64_encode [1])"
    by (rule dpop_single_use [OF v]) (simp_all add: sample_fits_iff time_of_unix_def second_def)
  with v show ?thesis by auto
qed

text \<open>
  C23. The clock skew opens a replay window. The cache forgets a proof 25 seconds after its use, but a
  proof dated up to 15 seconds in the future stays active for 25 seconds after its date: presented when
  it was minted and again more than 25 seconds later, while still active, it is accepted both times.
\<close>

theorem dpop_replay_window:
  assumes "proof_fits D pf method url iat jti jkt" "seen jti = None"
    and "t \<le> time_of_unix iat" "time_of_unix iat \<le> t + 15 * second"
    and "t + 25 * second < t'" "t' \<le> time_of_unix iat + 25 * second"
  shows "fst (verifyDPoPProof D seen t pf method url) = Inr jkt
    \<and> fst (verifyDPoPProof D (snd (verifyDPoPProof D seen t pf method url)) t' pf method url) = Inr jkt"
proof -
  have "\<not> fst (proofStore_use seen jti t)" using assms(2) by (simp add: proofStore_use_def)
  moreover have s: "0 < second" by (simp add: second_def)
  ultimately have first: "fst (verifyDPoPProof D seen t pf method url) = Inr jkt"
    using assms(1,3,4) verifyDPoPProof_accepts_iff by force
  then obtain seen1 where v: "verifyDPoPProof D seen t pf method url = (Inr jkt, seen1)" by (metis prod.collapse)
  have "seen1 jti = Some t"
    using accepted_recorded [OF v] proof_fits_unique [OF assms(1)] by metis
  then have "\<not> fst (proofStore_use seen1 jti t')"
    using assms(5) by (simp add: proofStore_use_def Let_def dpopProofLifetime_def dpopClockSkew_def)
  then have "fst (verifyDPoPProof D seen1 t' pf method url) = Inr jkt"
    using assms(1,4-6) s verifyDPoPProof_accepts_iff by force
  with first v show ?thesis by simp
qed

theorem dpop_replay_window_witness:
  "fst (verifyDPoPProof sample_dpop newProofStore 0 ''ew.x.y'' ''POST'' ''u'') = Inr (b64_encode [1])
   \<and> fst (verifyDPoPProof sample_dpop (snd (verifyDPoPProof sample_dpop newProofStore 0 ''ew.x.y'' ''POST'' ''u''))
        (30 * second) ''ew.x.y'' ''POST'' ''u'') = Inr (b64_encode [1])"
  by (rule dpop_replay_window [of _ _ _ _ 10 "''j''"])
    (simp_all add: sample_fits_iff newProofStore_def time_of_unix_def second_def)

end
