(* ===== verification/TokenEndpoint.thy ===== *)
theory TokenEndpoint
  imports Http Keys Password Dpop Roles DeviceStore
begin

text \<open>
  The protocol endpoints of \<^verbatim>\<open>internal/oidc\<close> that issue, read and revoke tokens: \<^verbatim>\<open>token.go\<close>,
  \<^verbatim>\<open>clientauth.go\<close>, \<^verbatim>\<open>device.go\<close>, \<^verbatim>\<open>tokenexchange.go\<close>, \<^verbatim>\<open>ciba.go\<close>, \<^verbatim>\<open>jwtbearer.go\<close>, \<^verbatim>\<open>introspect.go\<close>,
  \<^verbatim>\<open>revoke.go\<close> and \<^verbatim>\<open>userinfo.go\<close>. A handler maps a request, the instant it is served at and the
  server's state to a response and the next state; \<^const>\<open>None\<close> is a panic or a call that does not return.
  One request is served at one instant: the readings of the clock within it agree. A helper of the code
  that writes a response and returns \<^verbatim>\<open>nil\<close> takes the rest of the handler as its last argument.
  \<open>W_sent\<close> lists the back-channel calls attempted, an address and the token posted to it;
  \<open>H_URLParse\<close> is \<^verbatim>\<open>url.Parse\<close>: the host it reads in an address, which may be empty, and \<^const>\<open>None\<close> where it
  returns an error.
\<close>

section \<open>State\<close>

type_synonym registration_store = "string \<rightharpoonup> string"

record 'db world =
  W_db :: 'db
  W_keys :: manager
  W_auth :: auth_store
  W_device :: device_store
  W_proofs :: proof_store
  W_consents :: consent_store
  W_entropy :: entropy
  W_sent :: "(string \<times> string) list"
  W_registrations :: registration_store

record 'db server =
  H_store :: "'db store"
  H_issuerBase :: string
  H_jose :: jose
  H_x509 :: x509_lib
  H_dpop :: dpop_lib
  H_IDKey :: argon2
  H_ToLower :: "rune \<Rightarrow> rune"
  H_URLParse :: "string \<Rightarrow> string option"

type_synonym 'db outcome = "(response \<times> 'db world) option"

definition realmBase :: "'db server \<Rightarrow> string \<Rightarrow> string" where
  "realmBase h realm = H_issuerBase h @ ''/realms/'' @ realm"

definition realmIssuer :: "'db server \<Rightarrow> string \<Rightarrow> string" where
  "realmIssuer h realm = H_issuerBase h @ ''/realms/'' @ realm"

definition resolveRealm ::
  "'db server \<Rightarrow> headers \<Rightarrow> string \<Rightarrow> 'db world \<Rightarrow> (realm \<Rightarrow> 'db outcome) \<Rightarrow> 'db outcome" where
  "resolveRealm h hs name w k =
    (case RealmRepo_ByName (Store_Realms (H_store h)) (W_db w) name of
       Inl err \<Rightarrow>
         if err = ErrNotFound then Some (WriteMessageError hs 404 ''Realm does not exist'', w)
         else Some (internal_error hs, w)
     | Inr realm \<Rightarrow> k realm)"

definition realmKeys ::
  "'db server \<Rightarrow> headers \<Rightarrow> time \<Rightarrow> realm \<Rightarrow> 'db world \<Rightarrow> (realm_keys \<Rightarrow> 'db world \<Rightarrow> 'db outcome) \<Rightarrow> 'db outcome" where
  "realmKeys h hs now realm w f =
    (case ForRealm (H_x509 h) (H_store h) now realm (W_keys w) (W_db w) (W_entropy w) of
       None \<Rightarrow> None
     | Some (r, m, db, e) \<Rightarrow>
         (let w = w\<lparr>W_keys := m, W_db := db, W_entropy := e\<rparr>
          in case r of Inl _ \<Rightarrow> Some (internal_error hs, w) | Inr k \<Rightarrow> f k w))"

definition with_form :: "headers \<Rightarrow> request \<Rightarrow> 'db world \<Rightarrow> (url_values \<Rightarrow> 'db outcome) \<Rightarrow> 'db outcome" where
  "with_form hs r w f =
    (case Rq_PostForm r of
       None \<Rightarrow> Some (WriteOAuthError hs 400 ''invalid_request'' ''Invalid request'', w)
     | Some form \<Rightarrow> f form)"

section \<open>Client authentication\<close>

record client_auth_error =
  CAE_Code :: string
  CAE_Description :: string
  CAE_Status :: nat

definition errInvalidClient :: client_auth_error where
  "errInvalidClient = \<lparr>CAE_Code = ''invalid_client'',
     CAE_Description = ''Invalid client or Invalid client credentials'', CAE_Status = 401\<rparr>"

definition errUnauthorizedClient :: client_auth_error where
  "errUnauthorizedClient = \<lparr>CAE_Code = ''unauthorized_client'',
     CAE_Description = ''Invalid client or Invalid client credentials'', CAE_Status = 401\<rparr>"

definition clientCredentials :: "url_values \<Rightarrow> (string \<times> string) option \<Rightarrow> string \<times> string" where
  "clientCredentials form basic =
    (if values_get form ''client_id'' \<noteq> []
     then (values_get form ''client_id'', values_get form ''client_secret'')
     else (case basic of Some (user, pass) \<Rightarrow> (user, pass) | None \<Rightarrow> ([], [])))"

definition authenticateClient ::
  "'db server \<Rightarrow> 'db \<Rightarrow> realm \<Rightarrow> url_values \<Rightarrow> (string \<times> string) option \<Rightarrow> client_auth_error + client" where
  "authenticateClient h db realm form basic =
    (let (clientID, secret) = clientCredentials form basic
     in if clientID = [] then Inl errInvalidClient
        else (case ClientRepo_ByClientID (Store_Clients (H_store h)) db (Realm_ID realm) clientID of
                Inl _ \<Rightarrow> Inl errInvalidClient
              | Inr client \<Rightarrow>
                  if \<not> Client_Enabled client then Inl errInvalidClient
                  else if Client_PublicClient client then Inr client
                  else if Client_Secret client = [] then Inl errUnauthorizedClient
                  else if secret \<noteq> Client_Secret client then Inl errUnauthorizedClient
                  else Inr client))"

definition with_client ::
  "'db server \<Rightarrow> headers \<Rightarrow> request \<Rightarrow> realm \<Rightarrow> url_values \<Rightarrow> 'db world \<Rightarrow> (client \<Rightarrow> 'db outcome) \<Rightarrow> 'db outcome" where
  "with_client h hs r realm form w f =
    (case authenticateClient h (W_db w) realm form (Rq_BasicAuth r) of
       Inl e \<Rightarrow> Some (WriteOAuthError hs (CAE_Status e) (CAE_Code e) (CAE_Description e), w)
     | Inr client \<Rightarrow> f client)"

section \<open>Scopes, lifespans and sessions\<close>

definition defaultClientScopes :: "string list" where
  "defaultClientScopes = [''profile'', ''email'']"

definition hasScope :: "string \<Rightarrow> string \<Rightarrow> bool" where
  "hasScope scope want \<longleftrightarrow> want \<in> set (GoStd.fields scope)"

definition grantedScope :: "string \<Rightarrow> string" where
  "grantedScope requested =
     join '' '' ((if hasScope requested ''openid'' then [''openid''] else []) @ defaultClientScopes)"

definition accessLifespan :: "realm \<Rightarrow> client \<Rightarrow> duration" where
  "accessLifespan realm c =
    (case atoi (attr (Client_Attributes c) ''access.token.lifespan'') of
       None \<Rightarrow> Realm_AccessTokenLifespan realm
     | Some seconds \<Rightarrow>
         if seconds \<le> 0 then Realm_AccessTokenLifespan realm else wrap64 (seconds * second))"

text \<open>\<^verbatim>\<open>int64(d.Seconds())\<close> and \<^verbatim>\<open>d.Milliseconds()\<close>, which cut towards zero.\<close>

definition quot :: "int \<Rightarrow> int \<Rightarrow> int" where
  "quot a b = sgn a * (\<bar>a\<bar> div b)"

definition whole_seconds :: "duration \<Rightarrow> int" where "whole_seconds d = quot d second"

definition startSession ::
  "'db server \<Rightarrow> time \<Rightarrow> realm \<Rightarrow> client \<Rightarrow> user \<Rightarrow> string \<Rightarrow> 'db world
     \<Rightarrow> ((store_error + user_session) \<times> 'db world) option" where
  "startSession h now realm client user scope w =
    (case NewID (W_entropy w) of
       None \<Rightarrow> None
     | Some (sid, e1) \<Rightarrow>
         (let ms = now div 1000000;
              session = \<lparr>US_ID = sid, US_RealmID = Realm_ID realm, US_UserID = User_ID user,
                US_Username = User_Username user, US_StartedAt = ms, US_LastRefresh = ms,
                US_ExpiresAt = ms + quot (Realm_RefreshTokenLifespan realm) 1000000\<rparr>;
              w = w\<lparr>W_entropy := e1\<rparr>
          in case SessionRepo_CreateUserSession (Store_Sessions (H_store h)) (W_db w) session of
               Inl err \<Rightarrow> Some (Inl err, w)
             | Inr db \<Rightarrow>
                 (case NewID e1 of
                    None \<Rightarrow> None
                  | Some (cid, e2) \<Rightarrow>
                      (let cs = \<lparr>CS_ID = cid, CS_UserSessionID = sid, CS_ClientID = Client_ID client,
                             CS_Scope = scope, CS_StartedAt = ms\<rparr>;
                           w = w\<lparr>W_db := db, W_entropy := e2\<rparr>
                       in case SessionRepo_CreateClientSession (Store_Sessions (H_store h)) db cs of
                            Inl err \<Rightarrow> Some (Inl err, w)
                          | Inr db \<Rightarrow> Some (Inr session, w\<lparr>W_db := db\<rparr>)))))"

section \<open>Writing tokens\<close>

record token_response =
  TR_AccessToken :: string
  TR_ExpiresIn :: int
  TR_RefreshExpiresIn :: int
  TR_RefreshToken :: string
  TR_TokenType :: string
  TR_IDToken :: string
  TR_NotBeforePolicy :: int
  TR_SessionState :: string
  TR_Scope :: string

definition token_response_json :: "token_response \<Rightarrow> json" where
  "token_response_json t = JObj (
     [(''access_token'', JStr (TR_AccessToken t)), (''expires_in'', JInt (TR_ExpiresIn t)),
      (''refresh_expires_in'', JInt (TR_RefreshExpiresIn t))] @ omit_str ''refresh_token'' (TR_RefreshToken t)
     @ [(''token_type'', JStr (TR_TokenType t))] @ omit_str ''id_token'' (TR_IDToken t)
     @ [(''not-before-policy'', JInt (TR_NotBeforePolicy t))] @ omit_str ''session_state'' (TR_SessionState t)
     @ [(''scope'', JStr (TR_Scope t))])"

definition writeTokens ::
  "'db server \<Rightarrow> headers \<Rightarrow> time \<Rightarrow> realm \<Rightarrow> client \<Rightarrow> user \<Rightarrow> user_session \<Rightarrow> string \<Rightarrow> realm_keys
     \<Rightarrow> bool \<Rightarrow> time \<Rightarrow> string \<Rightarrow> string \<Rightarrow> 'db world \<Rightarrow> 'db outcome" where
  "writeTokens h hs now realm client user session scope k serviceAccount authTime nonce jkt w =
    (case tokenRoles (H_store h) (W_db w) realm client user scope of
       None \<Rightarrow> None
     | Some (Inl _) \<Rightarrow> Some (internal_error hs, w)
     | Some (Inr (realmRoles, clientRoles)) \<Rightarrow>
         (let accessLife = accessLifespan realm client;
              req = \<lparr>Req_Client = client, Req_User = user, Req_UserSession = session, Req_Scope = scope,
                Req_RealmRoles = realmRoles, Req_ClientRoles = clientRoles, Req_AccessLife = accessLife,
                Req_RefreshLife = Realm_RefreshTokenLifespan realm,
                Req_IncludeIDToken = hasScope scope ''openid'', Req_AuthTime = authTime,
                Req_Nonce = nonce, Req_Thumbprint = jkt\<rparr>
          in case Issue (H_jose h) \<lparr>Iss_Keys = k, Iss_Issuer = realmIssuer h (Realm_Name realm)\<rparr> now req (W_entropy w) of
               None \<Rightarrow> None
             | Some (Inl _, e) \<Rightarrow> Some (internal_error hs, w\<lparr>W_entropy := e\<rparr>)
             | Some (Inr ts, e) \<Rightarrow>
                 (let body = \<lparr>TR_AccessToken = Set_AccessToken ts, TR_ExpiresIn = whole_seconds accessLife,
                        TR_RefreshExpiresIn = whole_seconds (Realm_RefreshTokenLifespan realm),
                        TR_RefreshToken = Set_RefreshToken ts, TR_TokenType = tokenTypeFor jkt,
                        TR_IDToken = Set_IDToken ts, TR_NotBeforePolicy = 0,
                        TR_SessionState = US_ID session, TR_Scope = scope\<rparr>;
                      body = (if serviceAccount
                              then body\<lparr>TR_RefreshToken := [], TR_RefreshExpiresIn := 0, TR_SessionState := []\<rparr>
                              else body)
                  in Some (WriteJSON hs 200 (token_response_json body), w\<lparr>W_entropy := e\<rparr>))))"

section \<open>The authorization code grant\<close>

definition invalid_grant :: "headers \<Rightarrow> string \<Rightarrow> response" where
  "invalid_grant hs description = WriteOAuthError hs 400 ''invalid_grant'' description"

definition writeCodeNotValid :: "headers \<Rightarrow> response" where
  "writeCodeNotValid hs = invalid_grant hs ''Code not valid''"

definition unreserved :: "rune \<Rightarrow> bool" where
  "unreserved c \<longleftrightarrow> 65 \<le> c \<and> c \<le> 90 \<or> 97 \<le> c \<and> c \<le> 122 \<or> 48 \<le> c \<and> c \<le> 57
     \<or> c = 45 \<or> c = 46 \<or> c = 95 \<or> c = 126"

definition validCodeChallenge :: "string \<Rightarrow> bool" where
  "validCodeChallenge challenge \<longleftrightarrow>
     43 \<le> length challenge \<and> length challenge \<le> 128 \<and> list_all unreserved (runes challenge)"

definition codeChallengeFor :: "string \<Rightarrow> string \<Rightarrow> string" where
  "codeChallengeFor verifier method =
    (if method \<noteq> ''S256'' then verifier else b64_encode (sha256 (string_bytes verifier)))"

definition checkCodeVerifier :: "auth_code \<Rightarrow> url_values \<Rightarrow> string option" where
  "checkCodeVerifier code form =
    (if Code_CodeChallenge code = []
     then (if form_has form ''code_verifier''
           then Some ''PKCE code verifier specified but challenge not present in authorization'' else None)
     else if \<not> form_has form ''code_verifier'' then Some ''PKCE code verifier not specified''
     else if \<not> validCodeChallenge (values_get form ''code_verifier'')
     then Some ''PKCE verification failed: Invalid code verifier''
     else if codeChallengeFor (values_get form ''code_verifier'') (Code_CodeChallengeMethod code)
             \<noteq> Code_CodeChallenge code
     then Some ''PKCE verification failed: Code mismatch''
     else None)"

definition authorizationCodeGrant ::
  "'db server \<Rightarrow> headers \<Rightarrow> time \<Rightarrow> url_values \<Rightarrow> realm \<Rightarrow> client \<Rightarrow> realm_keys \<Rightarrow> string \<Rightarrow> 'db world \<Rightarrow> 'db outcome" where
  "authorizationCodeGrant h hs now form realm client k jkt w =
    (if \<not> form_has form ''code''
     then Some (WriteOAuthError hs 400 ''invalid_request'' ''Missing parameter: code'', w)
     else (let (found, auth) = spendCode (W_auth w) now (Realm_Name realm) (values_get form ''code'');
               w = w\<lparr>W_auth := auth\<rparr>
           in case found of
                None \<Rightarrow> Some (writeCodeNotValid hs, w)
              | Some code \<Rightarrow>
                  if values_get form ''redirect_uri'' \<noteq> Code_RedirectURI code
                  then Some (invalid_grant hs ''Incorrect redirect_uri'', w)
                  else if Code_ClientUUID code \<noteq> Client_ID client
                  then Some (invalid_grant hs ''Auth error: Found different client_id in clientSession'', w)
                  else (case checkCodeVerifier code form of
                          Some desc \<Rightarrow> Some (invalid_grant hs desc, w)
                        | None \<Rightarrow>
                            (case SessionRepo_UserSessionByID (Store_Sessions (H_store h)) (W_db w)
                                    (Realm_ID realm) (Code_SessionID code) of
                               Inl err \<Rightarrow>
                                 if err = ErrNotFound then Some (writeCodeNotValid hs, w)
                                 else Some (internal_error hs, w)
                             | Inr session \<Rightarrow>
                                 (case UserRepo_ByID (Store_Users (H_store h)) (W_db w)
                                         (Realm_ID realm) (Code_UserID code) of
                                    Inl err \<Rightarrow>
                                      if err = ErrNotFound then Some (writeCodeNotValid hs, w)
                                      else Some (internal_error hs, w)
                                  | Inr user \<Rightarrow>
                                      writeTokens h hs now realm client user session (Code_Scope code) k False
                                        (US_StartedAt session * 1000000) (Code_Nonce code) jkt w)))))"

section \<open>The direct, refresh and client credentials grants\<close>

definition writeInvalidUserCredentials :: "headers \<Rightarrow> response" where
  "writeInvalidUserCredentials hs = invalid_grant hs ''Invalid user credentials''"

definition passwordGrant ::
  "'db server \<Rightarrow> headers \<Rightarrow> time \<Rightarrow> url_values \<Rightarrow> realm \<Rightarrow> client \<Rightarrow> realm_keys \<Rightarrow> string \<Rightarrow> 'db world \<Rightarrow> 'db outcome" where
  "passwordGrant h hs now form realm client k jkt w =
    (if \<not> Client_DirectAccessGrantsEnabled client
     then Some (WriteOAuthError hs 400 ''unauthorized_client'' ''Client not allowed for direct access grants'', w)
     else (case UserRepo_ByUsername (Store_Users (H_store h)) (W_db w) (Realm_ID realm) (values_get form ''username'') of
             Inl err \<Rightarrow>
               if err = ErrNotFound then Some (writeInvalidUserCredentials hs, w) else Some (internal_error hs, w)
           | Inr user \<Rightarrow>
               (case UserRepo_CredentialByUser (Store_Users (H_store h)) (W_db w) (User_ID user) passwordCredentialType of
                  Inl err \<Rightarrow>
                    if err = ErrNotFound then Some (writeInvalidUserCredentials hs, w) else Some (internal_error hs, w)
                | Inr cred \<Rightarrow>
                    (case VerifyPassword (H_IDKey h) (Some cred) (values_get form ''password'') of
                       None \<Rightarrow> None
                     | Some (Inl err) \<Rightarrow>
                         if err = ErrInvalidCredential then Some (writeInvalidUserCredentials hs, w)
                         else Some (internal_error hs, w)
                     | Some (Inr _) \<Rightarrow>
                         if \<not> User_Enabled user then Some (invalid_grant hs ''Account disabled'', w)
                         else if User_RequiredActions user \<noteq> []
                         then Some (invalid_grant hs ''Account is not fully set up'', w)
                         else (let scope = grantedScope (values_get form ''scope'')
                               in case startSession h now realm client user scope w of
                                    None \<Rightarrow> None
                                  | Some (Inl _, w) \<Rightarrow> Some (internal_error hs, w)
                                  | Some (Inr session, w) \<Rightarrow>
                                      writeTokens h hs now realm client user session scope k False zero_time [] jkt w)))))"

definition writeInvalidRefreshToken :: "headers \<Rightarrow> response" where
  "writeInvalidRefreshToken hs = invalid_grant hs ''Invalid refresh token''"

definition writeSessionNotActive :: "headers \<Rightarrow> response" where
  "writeSessionNotActive hs = invalid_grant hs ''Session not active''"

definition refreshTokenGrant ::
  "'db server \<Rightarrow> headers \<Rightarrow> time \<Rightarrow> url_values \<Rightarrow> realm \<Rightarrow> client \<Rightarrow> realm_keys \<Rightarrow> string \<Rightarrow> 'db world \<Rightarrow> 'db outcome" where
  "refreshTokenGrant h hs now form realm client k jkt w =
    (case ParseRefresh (H_jose h) k (realmIssuer h (Realm_Name realm)) (values_get form ''refresh_token'') now of
       Inl _ \<Rightarrow> Some (writeInvalidRefreshToken hs, w)
     | Inr parsed \<Rightarrow>
         if Parsed_ClientID parsed \<noteq> Client_ClientID client then Some (writeInvalidRefreshToken hs, w)
         else if Parsed_Thumbprint parsed \<noteq> [] \<and> Parsed_Thumbprint parsed \<noteq> jkt
         then Some (invalid_grant hs (if jkt = [] then descDPoPMissing else descDPoPConfirmationMismatch), w)
         else (case SessionRepo_UserSessionByID (Store_Sessions (H_store h)) (W_db w)
                      (Realm_ID realm) (Parsed_SessionID parsed) of
                 Inl err \<Rightarrow>
                   if err = ErrNotFound then Some (writeSessionNotActive hs, w) else Some (internal_error hs, w)
               | Inr session \<Rightarrow>
                   (case SessionRepo_ClientSession (Store_Sessions (H_store h)) (W_db w)
                           (US_ID session) (Client_ID client) of
                      Inl err \<Rightarrow>
                        if err = ErrNotFound then Some (writeInvalidRefreshToken hs, w) else Some (internal_error hs, w)
                    | Inr clientSession \<Rightarrow>
                        (case UserRepo_ByID (Store_Users (H_store h)) (W_db w) (Realm_ID realm) (US_UserID session) of
                           Inl _ \<Rightarrow> Some (internal_error hs, w)
                         | Inr user \<Rightarrow>
                             (case SessionRepo_TouchUserSession (Store_Sessions (H_store h)) (W_db w)
                                     (US_ID session) (now div 1000000) of
                                Inl err \<Rightarrow>
                                  if err = ErrNotFound then Some (writeInvalidRefreshToken hs, w)
                                  else Some (internal_error hs, w)
                              | Inr db \<Rightarrow>
                                  writeTokens h hs now realm client user session (CS_Scope clientSession) k False
                                    zero_time [] jkt (w\<lparr>W_db := db\<rparr>))))))"

definition serviceAccountUser ::
  "'db server \<Rightarrow> time \<Rightarrow> realm \<Rightarrow> client \<Rightarrow> 'db world \<Rightarrow> ((store_error + user) \<times> 'db world) option" where
  "serviceAccountUser h now realm client w =
    (let username = ServiceAccountUsername (Client_ClientID client);
         lookup = (\<lambda>db. UserRepo_ByUsername (Store_Users (H_store h)) db (Realm_ID realm) username)
     in case lookup (W_db w) of
          Inr user \<Rightarrow> Some (Inr user, w)
        | Inl err \<Rightarrow>
            if err \<noteq> ErrNotFound then Some (Inl err, w)
            else (case NewID (W_entropy w) of
                    None \<Rightarrow> None
                  | Some (ident, e) \<Rightarrow>
                      (let w = w\<lparr>W_entropy := e\<rparr>;
                           user = zero_user\<lparr>User_ID := ident, User_RealmID := Realm_ID realm,
                             User_Username := username, User_Enabled := True,
                             User_CreatedTimestamp := now div 1000000\<rparr>
                       in case UserRepo_Create (Store_Users (H_store h)) (W_db w) user of
                            Inr db \<Rightarrow> Some (Inr user, w\<lparr>W_db := db\<rparr>)
                          | Inl err \<Rightarrow>
                              if err = ErrConflict then Some (lookup (W_db w), w) else Some (Inl err, w))))"

definition clientCredentialsGrant ::
  "'db server \<Rightarrow> headers \<Rightarrow> time \<Rightarrow> url_values \<Rightarrow> realm \<Rightarrow> client \<Rightarrow> realm_keys \<Rightarrow> string \<Rightarrow> 'db world \<Rightarrow> 'db outcome" where
  "clientCredentialsGrant h hs now form realm client k jkt w =
    (if Client_PublicClient client \<or> \<not> Client_ServiceAccountsEnabled client
     then Some (WriteOAuthError hs 400 ''unauthorized_client'' ''Client not enabled to retrieve service account'', w)
     else (case serviceAccountUser h now realm client w of
             None \<Rightarrow> None
           | Some (Inl _, w) \<Rightarrow> Some (internal_error hs, w)
           | Some (Inr user, w) \<Rightarrow>
               (let scope = grantedScope (values_get form ''scope'')
                in case startSession h now realm client user scope w of
                     None \<Rightarrow> None
                   | Some (Inl _, w) \<Rightarrow> Some (internal_error hs, w)
                   | Some (Inr session, w) \<Rightarrow>
                       writeTokens h hs now realm client user session scope k True zero_time [] jkt w)))"

section \<open>The device grant\<close>

definition device_authorization_json :: "string \<Rightarrow> string \<Rightarrow> string \<Rightarrow> int \<Rightarrow> int \<Rightarrow> json" where
  "device_authorization_json code userCode uri expires interval = JObj
     [(''device_code'', JStr code), (''user_code'', JStr userCode), (''verification_uri'', JStr uri),
      (''verification_uri_complete'', JStr (uri @ ''?user_code='' @ userCode)),
      (''expires_in'', JInt expires), (''interval'', JInt interval)]"

definition deviceAuthorization :: "'db server \<Rightarrow> headers \<Rightarrow> time \<Rightarrow> request \<Rightarrow> 'db world \<Rightarrow> 'db outcome" where
  "deviceAuthorization h hs now r w =
    resolveRealm h hs (Rq_Realm r) w (\<lambda>realm.
    with_form hs r w (\<lambda>form.
    with_client h hs r realm form w (\<lambda>client.
      if hasDuplicate form then Some (invalid_grant hs ''duplicated parameter'', w)
      else if \<not> deviceGrantEnabled client
      then Some (WriteOAuthError hs 400 ''unauthorized_client''
        (''Client is not allowed to initiate OAuth 2.0 Device ''
          @ ''Authorization Grant. The flow is disabled for the client.''), w)
      else (let lifespan = deviceCodeLifespan client; interval = devicePollInterval client;
                dc = \<lparr>DC_Code = [], DC_UserCode = [], DC_Realm = Realm_Name realm, DC_ClientUUID = Client_ID client,
                  DC_Scope = grantedScope (values_get form ''scope''), DC_Interval = interval,
                  DC_ExpiresAt = zero_time, DC_LastPoll = zero_time, DC_Denied = False, DC_UserID = [],
                  DC_SessionID = []\<rparr>
            in case newDeviceCode (W_device w) now (W_entropy w) dc lifespan of
                 None \<Rightarrow> Some (internal_error hs, w)
               | Some ((a, ds), e) \<Rightarrow>
                   (let dc = device_at ds a; uri = realmBase h (Realm_Name realm) @ ''/device'';
                        hs = header_Set hs ''Cache-Control'' ''no-store, must-revalidate, max-age=0''
                    in Some (WriteJSON hs 200 (device_authorization_json (DC_Code dc) (DC_UserCode dc) uri
                         (whole_seconds lifespan) (whole_seconds interval)),
                         w\<lparr>W_device := ds, W_entropy := e\<rparr>))))))"

definition completeDeviceCode ::
  "'db server \<Rightarrow> headers \<Rightarrow> time \<Rightarrow> realm \<Rightarrow> client \<Rightarrow> realm_keys \<Rightarrow> device_code \<Rightarrow> string \<Rightarrow> 'db world \<Rightarrow> 'db outcome" where
  "completeDeviceCode h hs now realm client k dc jkt w =
    (case SessionRepo_UserSessionByID (Store_Sessions (H_store h)) (W_db w) (Realm_ID realm) (DC_SessionID dc) of
       Inl err \<Rightarrow>
         if err = ErrNotFound then Some (invalid_grant hs ''Device code not valid'', w) else Some (internal_error hs, w)
     | Inr session \<Rightarrow>
         (case UserRepo_ByID (Store_Users (H_store h)) (W_db w) (Realm_ID realm) (DC_UserID dc) of
            Inl err \<Rightarrow>
              if err = ErrNotFound then Some (invalid_grant hs ''Device code not valid'', w)
              else Some (internal_error hs, w)
          | Inr user \<Rightarrow>
              writeTokens h hs now realm client user session (DC_Scope dc) k False
                (US_StartedAt session * 1000000) [] jkt w))"

text \<open>
  The ladder up to and including \<^verbatim>\<open>spendDeviceCode\<close> is \<^const>\<open>deviceCodeGrant_poll\<close>; what follows reads
  the device code the ladder ended on.
\<close>

definition deviceCodeGrant ::
  "'db server \<Rightarrow> headers \<Rightarrow> time \<Rightarrow> url_values \<Rightarrow> realm \<Rightarrow> client \<Rightarrow> realm_keys \<Rightarrow> string \<Rightarrow> 'db world \<Rightarrow> 'db outcome" where
  "deviceCodeGrant h hs now form realm client k jkt w =
    (if \<not> deviceGrantEnabled client
     then Some (invalid_grant hs ''Client not allowed OAuth 2.0 Device Authorization Grant'', w)
     else if \<not> form_has form ''device_code''
     then Some (WriteOAuthError hs 400 ''invalid_request'' ''Missing parameter: device_code'', w)
     else (let (ds, p) = deviceCodeGrant_poll now (Realm_Name realm) client (values_get form ''device_code'') (W_device w);
               w = w\<lparr>W_device := ds\<rparr>
           in case p of
                PollError code desc \<Rightarrow> Some (WriteOAuthError hs 400 code desc, w)
              | PollRedeem a \<Rightarrow> completeDeviceCode h hs now realm client k (device_at ds a) jkt w
              | _ \<Rightarrow> None))"

section \<open>Token exchange, CIBA and the JWT grant\<close>

definition tokenTypeAccess :: string where
  "tokenTypeAccess = ''urn:ietf:params:oauth:token-type:access_token''"

definition tokenExchangeGrant ::
  "'db server \<Rightarrow> headers \<Rightarrow> time \<Rightarrow> url_values \<Rightarrow> realm \<Rightarrow> client \<Rightarrow> realm_keys \<Rightarrow> 'db world \<Rightarrow> 'db outcome" where
  "tokenExchangeGrant h hs now form realm client k w =
    (let refuse = (\<lambda>desc. Some (WriteOAuthError hs 400 ''invalid_request'' desc, w));
         quote = [CHR 0x27]
     in if attr (Client_Attributes client) ''standard.token.exchange.enabled'' \<noteq> ''true''
        then refuse ''Standard token exchange is not enabled for the requested client''
        else if \<not> form_has form ''subject_token''
        then refuse (''Parameter '' @ quote @ ''subject_token'' @ quote @ '' required for standard token exchange'')
        else if \<not> form_has form ''subject_token_type''
        then refuse (''Parameter '' @ quote @ ''subject_token_type'' @ quote @ '' required for standard token exchange'')
        else if values_get form ''subject_token_type'' \<noteq> tokenTypeAccess
        then refuse (''Parameter '' @ quote @ ''subject_token'' @ quote @ '' supports access tokens only'')
        else if values_get form ''requested_token_type'' \<noteq> []
             \<and> values_get form ''requested_token_type'' \<noteq> tokenTypeAccess
        then refuse ''requested_token_type unsupported''
        else (case ParseAccess (H_jose h) k (realmIssuer h (Realm_Name realm)) (values_get form ''subject_token'') now of
                Inl _ \<Rightarrow> refuse ''Invalid token''
              | Inr parsed \<Rightarrow>
                  (case SessionRepo_UserSessionByID (Store_Sessions (H_store h)) (W_db w)
                          (Realm_ID realm) (Parsed_SessionID parsed) of
                     Inl err \<Rightarrow> if err = ErrNotFound then refuse ''Invalid token'' else Some (internal_error hs, w)
                   | Inr session \<Rightarrow>
                       (case UserRepo_ByID (Store_Users (H_store h)) (W_db w) (Realm_ID realm) (US_UserID session) of
                          Inl err \<Rightarrow> if err = ErrNotFound then refuse ''Invalid token'' else Some (internal_error hs, w)
                        | Inr user \<Rightarrow>
                            (case tokenRoles (H_store h) (W_db w) realm client user (Parsed_Scope parsed) of
                               None \<Rightarrow> None
                             | Some (Inl _) \<Rightarrow> Some (internal_error hs, w)
                             | Some (Inr (realmRoles, clientRoles)) \<Rightarrow>
                                 (let accessLife = accessLifespan realm client;
                                      req = \<lparr>Req_Client = client, Req_User = user, Req_UserSession = session,
                                        Req_Scope = Parsed_Scope parsed, Req_RealmRoles = realmRoles,
                                        Req_ClientRoles = clientRoles, Req_AccessLife = accessLife,
                                        Req_RefreshLife = Realm_RefreshTokenLifespan realm,
                                        Req_IncludeIDToken = False, Req_AuthTime = zero_time, Req_Nonce = [],
                                        Req_Thumbprint = []\<rparr>
                                  in case Issue (H_jose h) \<lparr>Iss_Keys = k, Iss_Issuer = realmIssuer h (Realm_Name realm)\<rparr>
                                            now req (W_entropy w) of
                                       None \<Rightarrow> None
                                     | Some (Inl _, e) \<Rightarrow> Some (internal_error hs, w\<lparr>W_entropy := e\<rparr>)
                                     | Some (Inr ts, e) \<Rightarrow>
                                         Some (WriteJSON hs 200 (JObj
                                           [(''access_token'', JStr (Set_AccessToken ts)),
                                            (''expires_in'', JInt (whole_seconds accessLife)),
                                            (''refresh_expires_in'', JInt 0), (''token_type'', JStr ''Bearer''),
                                            (''not-before-policy'', JInt 0), (''session_state'', JStr (US_ID session)),
                                            (''scope'', JStr (Parsed_Scope parsed)),
                                            (''issued_token_type'', JStr tokenTypeAccess)]), w\<lparr>W_entropy := e\<rparr>)))))))"

definition cibaGrantEnabled :: "client \<Rightarrow> bool" where
  "cibaGrantEnabled c \<longleftrightarrow> attr (Client_Attributes c) ''oidc.ciba.grant.enabled'' = ''true''"

definition cibaGrant :: "headers \<Rightarrow> url_values \<Rightarrow> client \<Rightarrow> response" where
  "cibaGrant hs form client =
    (if \<not> cibaGrantEnabled client then invalid_grant hs ''Client not allowed OIDC CIBA Grant''
     else if \<not> form_has form ''auth_req_id''
     then WriteOAuthError hs 400 ''invalid_request'' ''Missing parameter: auth_req_id''
     else invalid_grant hs ''Invalid Auth Req ID'')"

definition scopesAllowed :: "client \<Rightarrow> string \<Rightarrow> bool" where
  "scopesAllowed client requested \<longleftrightarrow>
    (let allowed = set (''openid'' # Client_DefaultClientScopes client @ Client_OptionalClientScopes client);
         words = GoStd.fields requested
     in words \<noteq> [] \<and> list_all (\<lambda>s. s \<in> allowed) words)"

definition backchannelAuthentication :: "'db server \<Rightarrow> headers \<Rightarrow> request \<Rightarrow> 'db world \<Rightarrow> 'db outcome" where
  "backchannelAuthentication h hs r w =
    resolveRealm h hs (Rq_Realm r) w (\<lambda>realm.
    with_form hs r w (\<lambda>form.
    with_client h hs r realm form w (\<lambda>client.
      if \<not> cibaGrantEnabled client
      then Some (WriteOAuthError hs 401 ''invalid_grant'' ''Client not allowed OIDC CIBA Grant'', w)
      else if \<not> form_has form ''login_hint''
      then Some (WriteOAuthError hs 400 ''invalid_request'' ''missing parameter : login_hint'', w)
      else if \<not> form_has form ''scope''
      then Some (WriteOAuthError hs 400 ''invalid_request'' ''missing parameter : scope'', w)
      else (case UserRepo_ByUsername (Store_Users (H_store h)) (W_db w) (Realm_ID realm)
                   (values_get form ''login_hint'') of
              Inl _ \<Rightarrow> Some (WriteOAuthError hs 400 ''invalid_request'' ''invalid_user'', w)
            | Inr _ \<Rightarrow>
                if \<not> scopesAllowed client (values_get form ''scope'')
                then Some (WriteOAuthError hs 400 ''invalid_scope'' (''Invalid scopes: '' @ values_get form ''scope''), w)
                else Some (WriteOAuthError hs 503 ''server_error'' ''Failed to send authentication request'', w)))))"

definition set_assertion :: "string \<Rightarrow> json \<Rightarrow> string \<times> string \<Rightarrow> (string \<times> string) option" where
  "set_assertion k v c =
    (let n = fold_name k
     in if n = fold_name ''iss'' then map_option (\<lambda>s. (s, snd c)) (as_string (fst c) v)
        else if n = fold_name ''sub'' then map_option (\<lambda>s. (fst c, s)) (as_string (snd c) v)
        else Some c)"

definition assertionClaims :: "dpop_lib \<Rightarrow> string \<Rightarrow> (string \<times> string) option" where
  "assertionClaims D raw =
    (let parts = split_on CHR ''.'' raw
     in if length parts < 2 \<or> length parts > 3 then None
        else if parts ! 0 = [] \<or> parts ! 1 = [] then None
        else (case b64_decode (parts ! 1) of
                None \<Rightarrow> None
              | Some payload \<Rightarrow> unmarshal_bytes D set_assertion ([], []) payload))"

definition jwtBearerGrant :: "'db server \<Rightarrow> headers \<Rightarrow> url_values \<Rightarrow> client \<Rightarrow> response" where
  "jwtBearerGrant h hs form client =
    (if \<not> form_has form ''assertion'' then invalid_grant hs ''Missing parameter:assertion''
     else (case assertionClaims (H_dpop h) (values_get form ''assertion'') of
             None \<Rightarrow> invalid_grant hs ''The provided assertion is not a valid JWT''
           | Some (iss, sub) \<Rightarrow>
               if Client_PublicClient client
               then invalid_grant hs ''Public client not allowed to use authorization grant''
               else if attr (Client_Attributes client) ''oauth2.jwt.authorization.grant.enabled'' \<noteq> ''true''
               then invalid_grant hs ''JWT Authorization Grant is not supported for the requested client''
               else if iss = [] then invalid_grant hs ''Missing claim: iss''
               else if sub = [] then invalid_grant hs ''Missing claim: sub''
               else invalid_grant hs ''No Identity Provider for provided issuer''))"

section \<open>The token endpoint\<close>

definition grantDeviceCode :: string where
  "grantDeviceCode = ''urn:ietf:params:oauth:grant-type:device_code''"
definition grantCIBA :: string where "grantCIBA = ''urn:openid:params:grant-type:ciba''"
definition grantTokenExchange :: string where
  "grantTokenExchange = ''urn:ietf:params:oauth:grant-type:token-exchange''"
definition grantJWTBearer :: string where
  "grantJWTBearer = ''urn:ietf:params:oauth:grant-type:jwt-bearer''"

definition grant_types :: "string list" where
  "grant_types = [''password'', ''refresh_token'', ''client_credentials'', ''authorization_code'',
     grantDeviceCode, grantCIBA, grantTokenExchange, grantJWTBearer]"

definition token_dispatch ::
  "'db server \<Rightarrow> headers \<Rightarrow> time \<Rightarrow> url_values \<Rightarrow> realm \<Rightarrow> client \<Rightarrow> realm_keys \<Rightarrow> string \<Rightarrow> 'db world \<Rightarrow> 'db outcome" where
  "token_dispatch h hs now form realm client k jkt w =
    (let grantType = values_get form ''grant_type''
     in if grantType = ''password'' then passwordGrant h hs now form realm client k jkt w
        else if grantType = ''refresh_token'' then refreshTokenGrant h hs now form realm client k jkt w
        else if grantType = ''client_credentials'' then clientCredentialsGrant h hs now form realm client k jkt w
        else if grantType = ''authorization_code'' then authorizationCodeGrant h hs now form realm client k jkt w
        else if grantType = grantDeviceCode then deviceCodeGrant h hs now form realm client k jkt w
        else if grantType = grantCIBA then Some (cibaGrant hs form client, w)
        else if grantType = grantTokenExchange then tokenExchangeGrant h hs now form realm client k w
        else Some (jwtBearerGrant h hs form client, w))"

definition token :: "'db server \<Rightarrow> headers \<Rightarrow> time \<Rightarrow> request \<Rightarrow> 'db world \<Rightarrow> 'db outcome" where
  "token h hs now r w =
    resolveRealm h hs (Rq_Realm r) w (\<lambda>realm.
    with_form hs r w (\<lambda>form.
      let hs = header_Set (header_Set hs ''Cache-Control'' ''no-store'') ''Pragma'' ''no-cache'';
          grantType = values_get form ''grant_type''
      in if grantType = []
         then Some (WriteOAuthError hs 400 ''invalid_request'' ''Missing form parameter: grant_type'', w)
         else if grantType \<notin> set grant_types
         then Some (WriteOAuthError hs 400 ''unsupported_grant_type'' ''Unsupported grant_type'', w)
         else with_client h hs r realm form w (\<lambda>client.
           if hasDuplicate form
           then Some (WriteOAuthError hs 400 ''invalid_request'' ''duplicated parameter'', w)
           else (let (result, proofs) = verifyDPoP (H_dpop h) (W_proofs w) now (Rq_DPoP r) (Rq_Method r)
                       (requiresDPoP (Client_Attributes client))
                       (realmBase h (Realm_Name realm) @ ''/protocol/openid-connect/token'');
                     w = w\<lparr>W_proofs := proofs\<rparr>
                 in case result of
                      Inl desc \<Rightarrow> Some (WriteOAuthError hs 400 ''invalid_request'' desc, w)
                    | Inr jkt \<Rightarrow>
                        realmKeys h hs now realm w (\<lambda>k w. token_dispatch h hs now form realm client k jkt w)))))"

section \<open>Introspection, revocation and userinfo\<close>

definition introspection_json :: "introspection \<Rightarrow> json" where
  "introspection_json c = JObj (
     [(''exp'', JInt (IN_Exp c)), (''iat'', JInt (IN_Iat c)), (''jti'', JStr (IN_Jti c)), (''iss'', JStr (IN_Iss c))]
     @ omit_aud ''aud'' (IN_Aud c)
     @ [(''sub'', JStr (IN_Sub c)), (''typ'', JStr (IN_Typ c)), (''azp'', JStr (IN_Azp c)),
        (''sid'', JStr (IN_Sid c)), (''acr'', JStr (IN_Acr c))]
     @ omit_roles ''realm_access'' (IN_RealmAccess c) @ omit_resources ''resource_access'' (IN_ResourceAccess c)
     @ omit_str ''scope'' (IN_Scope c)
     @ [(''email_verified'', JBool (IN_EmailVerified c)), (''preferred_username'', JStr (IN_PreferredUsername c)), (''client_id'', JStr (IN_ClientID c)),
        (''username'', JStr (IN_Username c)), (''token_type'', JStr (IN_TokenType c)), (''active'', JBool (IN_Active c))])"

definition inactive :: json where
  "inactive = JObj [(''active'', JBool False)]"

text \<open>What the endpoint accepts as the introspected token: an access token meant for the client, or any refresh token.\<close>

definition introspected ::
  "'db server \<Rightarrow> time \<Rightarrow> realm \<Rightarrow> client \<Rightarrow> realm_keys \<Rightarrow> string \<Rightarrow> parsed option" where
  "introspected h now realm client k raw =
    (let issuer = realmIssuer h (Realm_Name realm)
     in case ParseAccess (H_jose h) k issuer raw now of
          Inl _ \<Rightarrow> (case ParseRefresh (H_jose h) k issuer raw now of Inl _ \<Rightarrow> None | Inr parsed \<Rightarrow> Some parsed)
        | Inr parsed \<Rightarrow> if Client_ClientID client \<notin> set (Parsed_Audience parsed) then None else Some parsed)"

definition introspect :: "'db server \<Rightarrow> headers \<Rightarrow> time \<Rightarrow> request \<Rightarrow> 'db world \<Rightarrow> 'db outcome" where
  "introspect h hs now r w =
    resolveRealm h hs (Rq_Realm r) w (\<lambda>realm.
    with_form hs r w (\<lambda>form.
    with_client h hs r realm form w (\<lambda>client.
      if Client_PublicClient client
      then Some (WriteOAuthError hs 403 ''invalid_request'' ''Client not allowed.'', w)
      else realmKeys h hs now realm w (\<lambda>k w.
        let answer_inactive = Some (WriteJSON hs 200 inactive, w)
        in case introspected h now realm client k (values_get form ''token'') of
             None \<Rightarrow> answer_inactive
           | Some parsed \<Rightarrow>
               (case SessionRepo_UserSessionByID (Store_Sessions (H_store h)) (W_db w)
                       (Realm_ID realm) (Parsed_SessionID parsed) of
                  Inl _ \<Rightarrow> answer_inactive
                | Inr session \<Rightarrow>
                    (case UserRepo_ByID (Store_Users (H_store h)) (W_db w) (Realm_ID realm) (US_UserID session) of
                       Inl _ \<Rightarrow> answer_inactive
                     | Inr user \<Rightarrow>
                         (case ClientRepo_ByClientID (Store_Clients (H_store h)) (W_db w)
                                 (Realm_ID realm) (Parsed_ClientID parsed) of
                            Inl _ \<Rightarrow> answer_inactive
                          | Inr subject \<Rightarrow>
                              (case tokenRoles (H_store h) (W_db w) realm subject user (Parsed_Scope parsed) of
                                 None \<Rightarrow> None
                               | Some (Inl _) \<Rightarrow> Some (internal_error hs, w)
                               | Some (Inr (realmRoles, clientRoles)) \<Rightarrow>
                                   (case Introspect \<lparr>IR_Parsed = parsed, IR_Issuer = realmIssuer h (Realm_Name realm),
                                           IR_Username = US_Username session, IR_Realm = realmRoles,
                                           IR_Clients = clientRoles, IR_EmailVerify = User_EmailVerified user\<rparr> of
                                      None \<Rightarrow> None
                                    | Some body \<Rightarrow> Some (WriteJSON hs 200 (introspection_json body), w))))))))))"

definition sessionBehindToken ::
  "'db server \<Rightarrow> time \<Rightarrow> url_values \<Rightarrow> realm \<Rightarrow> client \<Rightarrow> realm_keys \<Rightarrow> 'db world \<Rightarrow> user_session option" where
  "sessionBehindToken h now form realm client k w =
    (let raw = values_get form ''token''; issuer = realmIssuer h (Realm_Name realm)
     in if raw = [] then None
        else (case (case ParseRefresh (H_jose h) k issuer raw now of
                      Inl _ \<Rightarrow> ParseAccess (H_jose h) k issuer raw now
                    | Inr parsed \<Rightarrow> Inr parsed) of
                Inl _ \<Rightarrow> None
              | Inr parsed \<Rightarrow>
                  if Parsed_ClientID parsed \<noteq> Client_ClientID client then None
                  else (case SessionRepo_UserSessionByID (Store_Sessions (H_store h)) (W_db w)
                               (Realm_ID realm) (Parsed_SessionID parsed) of
                          Inl _ \<Rightarrow> None
                        | Inr session \<Rightarrow> Some session)))"

definition revoke :: "'db server \<Rightarrow> headers \<Rightarrow> time \<Rightarrow> request \<Rightarrow> 'db world \<Rightarrow> 'db outcome" where
  "revoke h hs now r w =
    resolveRealm h hs (Rq_Realm r) w (\<lambda>realm.
    with_form hs r w (\<lambda>form.
    with_client h hs r realm form w (\<lambda>client.
    realmKeys h hs now realm w (\<lambda>k w.
      case sessionBehindToken h now form realm client k w of
        None \<Rightarrow> Some (WriteJSON hs 200
          (JObj [(''error'', JStr ''invalid_token''), (''error_description'', JStr ''Invalid token'')]), w)
      | Some session \<Rightarrow>
          (case SessionRepo_DeleteUserSession (Store_Sessions (H_store h)) (W_db w) (Realm_ID realm) (US_ID session) of
             Inl err \<Rightarrow>
               if err \<noteq> ErrNotFound then Some (internal_error hs, w)
               else Some (\<lparr>Resp_Status = 200, Resp_Headers = SetContentSecurityPolicy hs, Resp_Challenge = None,
                      Resp_Body = BodyEmpty\<rparr>, w)
           | Inr db \<Rightarrow>
               Some (\<lparr>Resp_Status = 200, Resp_Headers = SetContentSecurityPolicy hs, Resp_Challenge = None,
                      Resp_Body = BodyEmpty\<rparr>, w\<lparr>W_db := db\<rparr>))))))"

text \<open>\<^verbatim>\<open>strings.TrimSpace\<close> on the rest of the header keeps what lies between its first and last field.\<close>

fun drop_spaces :: "(rune \<times> nat list) list \<Rightarrow> (rune \<times> nat list) list" where
  "drop_spaces [] = []"
| "drop_spaces ((c, bs) # cs) = (if is_space c then drop_spaces cs else (c, bs) # cs)"

definition trimSpace :: "string \<Rightarrow> string" where
  "trimSpace s = bytes_string (concat (map snd
     (rev (drop_spaces (rev (drop_spaces (rune_chunks (string_bytes s))))))))"

definition bearerToken :: "request \<Rightarrow> string" where
  "bearerToken r =
    (if Rq_Authorization r \<noteq> []
     then (let (after, ok) = cut_prefix (Rq_Authorization r) ''Bearer '' in if ok then trimSpace after else [])
     else if Rq_Method r = ''POST''
     then (case Rq_PostForm r of None \<Rightarrow> [] | Some form \<Rightarrow> values_get form ''access_token'')
     else [])"

definition userinfo_json :: "user \<Rightarrow> json" where
  "userinfo_json u = JObj ([(''sub'', JStr (User_ID u)), (''email_verified'', JBool (User_EmailVerified u)),
     (''preferred_username'', JStr (User_Username u))] @ omit_str ''email'' (User_Email u))"

definition userBehind :: "'db server \<Rightarrow> realm \<Rightarrow> parsed \<Rightarrow> 'db world \<Rightarrow> user st" where
  "userBehind h realm parsed w =
    bind_err (SessionRepo_UserSessionByID (Store_Sessions (H_store h)) (W_db w) (Realm_ID realm) (Parsed_SessionID parsed))
      (\<lambda>session. UserRepo_ByID (Store_Users (H_store h)) (W_db w) (Realm_ID realm) (US_UserID session))"

definition userinfo :: "'db server \<Rightarrow> headers \<Rightarrow> time \<Rightarrow> request \<Rightarrow> 'db world \<Rightarrow> 'db outcome" where
  "userinfo h hs now r w =
    resolveRealm h hs (Rq_Realm r) w (\<lambda>realm.
      let hs = SetUserinfoSecurityHeaders (header_Set (header_Set hs ''Cache-Control'' ''no-store'') ''Pragma'' ''no-cache'');
          refuse = (\<lambda>desc w. Some (WriteBearerChallenge hs 401 (Realm_Name realm) ''invalid_token'' desc, w));
          raw = bearerToken r
      in if raw = [] then Some (WriteBearerChallenge hs 401 (Realm_Name realm) [] [], w)
         else realmKeys h hs now realm w (\<lambda>k w.
           case ParseAccess (H_jose h) k (realmIssuer h (Realm_Name realm)) raw now of
             Inl _ \<Rightarrow> refuse ''Token verification failed'' w
           | Inr parsed \<Rightarrow>
               if \<not> hasScope (Parsed_Scope parsed) ''openid''
               then Some (WriteBearerChallenge hs 403 (Realm_Name realm) ''insufficient_scope'' ''Missing openid scope'', w)
               else (case ClientRepo_ByClientID (Store_Clients (H_store h)) (W_db w)
                            (Realm_ID realm) (Parsed_ClientID parsed) of
                       Inl err \<Rightarrow>
                         if err = ErrNotFound then refuse ''Token verification failed'' w else Some (internal_error hs, w)
                     | Inr client \<Rightarrow>
                         if IsLightweight client
                         then refuse ''Lightweight access token not allowed for userinfo endpoint'' w
                         else (case userBehind h realm parsed w of
                                 Inl _ \<Rightarrow> refuse ''Token verification failed'' w
                               | Inr user \<Rightarrow>
                                   (let hs = header_Set (header_Add hs ''Cache-Control'' ''no-cache'') ''X-Frame-Options'' ''SAMEORIGIN''
                                    in Some (WriteJSON hs 200 (userinfo_json user), w))))))"

end
