(* ===== verification/GrantSafety.thy ===== *)
theory GrantSafety
  imports TokenEndpoint
begin

text \<open>
  What the endpoints of \<^verbatim>\<open>internal/oidc\<close> guarantee together with the stores behind them: which requests
  spend an authorization code and which are answered with tokens, what a password attempt reveals, what
  is left of a session after its revocation, and what a client may learn of a token.
\<close>

section \<open>What a handler leaves alone\<close>

lemma writeTokens_world:
  assumes "writeTokens h hs now realm client user session scope k sa at nonce jkt w = Some (resp, w')"
  shows "(\<exists>e. w' = w\<lparr>W_entropy := e\<rparr>) \<and> (Resp_Status resp = 200 \<or> resp = internal_error hs)"
proof (cases "tokenRoles (H_store h) (W_db w) realm client user scope")
  case (Some rr)
  show ?thesis
  proof (cases rr)
    case (Inl err)
    with Some assms show ?thesis by (auto simp: writeTokens_def intro: exI [of _ "W_entropy w"])
  next
    case (Inr roles)
    with Some assms show ?thesis
      by (cases roles) (auto simp: writeTokens_def Let_def split: option.splits sum.splits prod.splits)
  qed
qed (use assms in \<open>simp add: writeTokens_def\<close>)

lemma startSession_world:
  assumes "startSession h now realm client user scope w = Some (r, w')"
  shows "W_auth w' = W_auth w \<and> W_device w' = W_device w \<and> W_proofs w' = W_proofs w \<and> W_keys w' = W_keys w"
  using assms
  by (auto simp: startSession_def Let_def split: option.splits sum.splits)

lemma serviceAccountUser_world:
  assumes "serviceAccountUser h now realm client w = Some (r, w')"
  shows "W_auth w' = W_auth w \<and> W_device w' = W_device w \<and> W_proofs w' = W_proofs w \<and> W_keys w' = W_keys w"
  using assms
  by (auto simp: serviceAccountUser_def Let_def split: option.splits sum.splits if_splits)

lemma passwordGrant_auth:
  assumes "passwordGrant h hs now form realm client k jkt w = Some (resp, w')"
  shows "W_auth w' = W_auth w"
  using assms unfolding passwordGrant_def
  by (auto simp: Let_def split: if_splits sum.splits option.splits prod.splits
      dest!: startSession_world writeTokens_world)

lemma refreshTokenGrant_auth:
  assumes "refreshTokenGrant h hs now form realm client k jkt w = Some (resp, w')"
  shows "W_auth w' = W_auth w"
  using assms unfolding refreshTokenGrant_def
  by (auto simp: Let_def split: if_splits sum.splits option.splits dest!: writeTokens_world)

lemma clientCredentialsGrant_auth:
  assumes "clientCredentialsGrant h hs now form realm client k jkt w = Some (resp, w')"
  shows "W_auth w' = W_auth w"
  using assms unfolding clientCredentialsGrant_def
  by (auto simp: Let_def split: if_splits sum.splits option.splits prod.splits
      dest!: startSession_world writeTokens_world serviceAccountUser_world)

lemma deviceCodeGrant_auth:
  assumes "deviceCodeGrant h hs now form realm client k jkt w = Some (resp, w')"
  shows "W_auth w' = W_auth w"
  using assms unfolding deviceCodeGrant_def completeDeviceCode_def
  by (auto simp: Let_def split: if_splits sum.splits option.splits prod.splits poll_state.splits
      dest!: writeTokens_world)

lemma tokenExchangeGrant_auth:
  assumes "tokenExchangeGrant h hs now form realm client k w = Some (resp, w')"
  shows "W_auth w' = W_auth w"
  using assms unfolding tokenExchangeGrant_def
  by (auto simp: Let_def split: if_splits sum.splits option.splits prod.splits)

lemmas grant_auth =
  passwordGrant_auth refreshTokenGrant_auth clientCredentialsGrant_auth deviceCodeGrant_auth tokenExchangeGrant_auth

section \<open>The authorization code\<close>

lemma spendCode_keeps:
  "spendCode s now realm code = (found, s') \<Longrightarrow> AS_codes s' = (AS_codes s)(code := None)"
  by (auto simp: spendCode_def Let_def fun_upd_idem split: option.splits if_splits)

lemma authorizationCodeGrant_auth:
  assumes "authorizationCodeGrant h hs now form realm client k jkt w = Some (resp, w')"
  shows "if form_has form ''code''
    then W_auth w' = snd (spendCode (W_auth w) now (Realm_Name realm) (values_get form ''code''))
    else W_auth w' = W_auth w"
  using assms unfolding authorizationCodeGrant_def
  by (auto simp: Let_def split: if_splits sum.splits option.splits prod.splits dest!: writeTokens_world)

lemma checkCodeVerifier_None:
  "checkCodeVerifier code form = None \<longleftrightarrow>
     (if Code_CodeChallenge code = [] then \<not> form_has form ''code_verifier''
      else form_has form ''code_verifier'' \<and> validCodeChallenge (values_get form ''code_verifier'')
        \<and> codeChallengeFor (values_get form ''code_verifier'') (Code_CodeChallengeMethod code) = Code_CodeChallenge code)"
  by (auto simp: checkCodeVerifier_def)

lemma authorizationCodeGrant_200:
  assumes "authorizationCodeGrant h hs now form realm client k jkt w = Some (resp, w')" "Resp_Status resp = 200"
  obtains code session user where
    "fst (spendCode (W_auth w) now (Realm_Name realm) (values_get form ''code'')) = Some code"
    "Code_RedirectURI code = values_get form ''redirect_uri''" "Code_ClientUUID code = Client_ID client"
    "checkCodeVerifier code form = None"
    "SessionRepo_UserSessionByID (Store_Sessions (H_store h)) (W_db w) (Realm_ID realm) (Code_SessionID code) = Inr session"
    "UserRepo_ByID (Store_Users (H_store h)) (W_db w) (Realm_ID realm) (Code_UserID code) = Inr user"
  using assms unfolding authorizationCodeGrant_def writeCodeNotValid_def invalid_grant_def
  by (auto simp: Let_def split: if_splits sum.splits option.splits prod.splits)

lemma spendCode_Some:
  "fst (spendCode s now realm c) = Some code \<Longrightarrow>
     AS_codes s c = Some code \<and> Code_Realm code = realm \<and> now \<le> Code_ExpiresAt code"
  by (auto simp: spendCode_def Let_def split: option.splits if_splits)

lemma authorizationCodeGrant_unknown:
  "form_has form ''code'' \<Longrightarrow> AS_codes (W_auth w) (values_get form ''code'') = None
     \<Longrightarrow> authorizationCodeGrant h hs now form realm client k jkt w = Some (writeCodeNotValid hs, w)"
  by (simp add: authorizationCodeGrant_def spendCode_def)

text \<open>
  C1. The code exchange. Tokens are written only for a live code of this realm, to the client the code
  was issued to, with the redirect URI of the authorization request, with a code verifier of the right
  shape that gives the stored challenge (or with none where there was no challenge), and while the
  session and the user behind the code exist. Whatever the answer was, the code is spent: the next
  exchange of it, by anybody at any time, answers that it is not valid.
\<close>

theorem code_exchange:
  fixes h :: "'db server"
  assumes "authorizationCodeGrant h hs now form realm client k jkt w = Some (resp, w')"
    and "form_has form ''code''"
  shows "(Resp_Status resp = 200 \<longrightarrow> (\<exists>code session user.
        AS_codes (W_auth w) (values_get form ''code'') = Some code
      \<and> Code_Realm code = Realm_Name realm \<and> now \<le> Code_ExpiresAt code
      \<and> Code_ClientUUID code = Client_ID client \<and> Code_RedirectURI code = values_get form ''redirect_uri''
      \<and> (if Code_CodeChallenge code = [] then \<not> form_has form ''code_verifier''
         else form_has form ''code_verifier'' \<and> validCodeChallenge (values_get form ''code_verifier'')
           \<and> codeChallengeFor (values_get form ''code_verifier'') (Code_CodeChallengeMethod code) = Code_CodeChallenge code)
      \<and> SessionRepo_UserSessionByID (Store_Sessions (H_store h)) (W_db w) (Realm_ID realm) (Code_SessionID code) = Inr session
      \<and> UserRepo_ByID (Store_Users (H_store h)) (W_db w) (Realm_ID realm) (Code_UserID code) = Inr user))
    \<and> (\<forall>hs2 now2 form2 realm2 client2 k2 jkt2 w2. W_auth w2 = W_auth w' \<longrightarrow> form_has form2 ''code''
         \<longrightarrow> values_get form2 ''code'' = values_get form ''code''
         \<longrightarrow> authorizationCodeGrant h hs2 now2 form2 realm2 client2 k2 jkt2 w2 = Some (writeCodeNotValid hs2, w2))"
proof (intro conjI impI allI)
  assume "Resp_Status resp = 200"
  with assms(1) obtain code session user where
    "fst (spendCode (W_auth w) now (Realm_Name realm) (values_get form ''code'')) = Some code"
    "Code_RedirectURI code = values_get form ''redirect_uri''" "Code_ClientUUID code = Client_ID client"
    "checkCodeVerifier code form = None"
    "SessionRepo_UserSessionByID (Store_Sessions (H_store h)) (W_db w) (Realm_ID realm) (Code_SessionID code) = Inr session"
    "UserRepo_ByID (Store_Users (H_store h)) (W_db w) (Realm_ID realm) (Code_UserID code) = Inr user"
    by (rule authorizationCodeGrant_200)
  then show "\<exists>code session user. AS_codes (W_auth w) (values_get form ''code'') = Some code
      \<and> Code_Realm code = Realm_Name realm \<and> now \<le> Code_ExpiresAt code
      \<and> Code_ClientUUID code = Client_ID client \<and> Code_RedirectURI code = values_get form ''redirect_uri''
      \<and> (if Code_CodeChallenge code = [] then \<not> form_has form ''code_verifier''
         else form_has form ''code_verifier'' \<and> validCodeChallenge (values_get form ''code_verifier'')
           \<and> codeChallengeFor (values_get form ''code_verifier'') (Code_CodeChallengeMethod code) = Code_CodeChallenge code)
      \<and> SessionRepo_UserSessionByID (Store_Sessions (H_store h)) (W_db w) (Realm_ID realm) (Code_SessionID code) = Inr session
      \<and> UserRepo_ByID (Store_Users (H_store h)) (W_db w) (Realm_ID realm) (Code_UserID code) = Inr user"
    unfolding checkCodeVerifier_None using spendCode_Some by blast
next
  fix hs2 now2 form2 realm2 client2 k2 jkt2 and w2 :: "'db world"
  assume "W_auth w2 = W_auth w'" "form_has form2 ''code''" "values_get form2 ''code'' = values_get form ''code''"
  moreover have "AS_codes (W_auth w') (values_get form ''code'') = None"
    using authorizationCodeGrant_auth [OF assms(1)] assms(2)
      spendCode_keeps [of "W_auth w" now "Realm_Name realm" "values_get form ''code''"]
    by (metis fun_upd_same prod.collapse)
  ultimately show "authorizationCodeGrant h hs2 now2 form2 realm2 client2 k2 jkt2 w2 = Some (writeCodeNotValid hs2, w2)"
    using authorizationCodeGrant_unknown by metis
qed

lemma realmKeys_cases:
  assumes "realmKeys h hs now realm w f = Some (resp, w')"
  obtains (failed) m db e where "w' = w\<lparr>W_keys := m, W_db := db, W_entropy := e\<rparr>"
  | (run) k m db e where "f k (w\<lparr>W_keys := m, W_db := db, W_entropy := e\<rparr>) = Some (resp, w')"
  using assms by (auto simp: realmKeys_def Let_def split: option.splits sum.splits prod.splits)

lemma token_dispatch_codes:
  assumes "token_dispatch h hs now form realm client k jkt w = Some (resp, w')"
    and "AS_codes (W_auth w') c \<noteq> AS_codes (W_auth w) c"
  shows "values_get form ''grant_type'' = ''authorization_code'' \<and> form_has form ''code''
    \<and> c = values_get form ''code'' \<and> AS_codes (W_auth w') c = None"
proof -
  have "W_auth w' \<noteq> W_auth w" using assms(2) by auto
  with assms(1) have g: "values_get form ''grant_type'' = ''authorization_code''"
      "authorizationCodeGrant h hs now form realm client k jkt w = Some (resp, w')"
    by (auto simp: token_dispatch_def Let_def split: if_splits dest: grant_auth)
  have f: "form_has form ''code''"
    using authorizationCodeGrant_auth [OF g(2)] \<open>W_auth w' \<noteq> W_auth w\<close> by (auto split: if_splits)
  then have "AS_codes (W_auth w') = (AS_codes (W_auth w))(values_get form ''code'' := None)"
    using authorizationCodeGrant_auth [OF g(2)]
      spendCode_keeps [of "W_auth w" now "Realm_Name realm" "values_get form ''code''"]
    by (metis prod.collapse)
  with assms(2) g(1) f show ?thesis by (auto split: if_splits)
qed

text \<open>
  C2. Nothing but a code exchange spends a code: if a token request changes what the store holds for a
  code, the client had authenticated, no parameter was repeated, the grant type was the code grant and
  the code was the one presented; and it is gone afterwards.
\<close>

theorem token_spends_only:
  assumes "token h hs now r w = Some (resp, w')"
    and "AS_codes (W_auth w') c \<noteq> AS_codes (W_auth w) c"
  shows "\<exists>realm form client. RealmRepo_ByName (Store_Realms (H_store h)) (W_db w) (Rq_Realm r) = Inr realm
    \<and> Rq_PostForm r = Some form
    \<and> authenticateClient h (W_db w) realm form (Rq_BasicAuth r) = Inr client \<and> \<not> hasDuplicate form
    \<and> values_get form ''grant_type'' = ''authorization_code'' \<and> form_has form ''code''
    \<and> c = values_get form ''code'' \<and> AS_codes (W_auth w') c = None"
proof -
  from assms obtain realm where realm: "RealmRepo_ByName (Store_Realms (H_store h)) (W_db w) (Rq_Realm r) = Inr realm"
    by (auto simp: token_def resolveRealm_def split: sum.splits if_splits)
  from assms realm obtain form where form: "Rq_PostForm r = Some form"
    by (auto simp: token_def resolveRealm_def with_form_def split: option.splits)
  from assms realm form obtain client where
    client: "authenticateClient h (W_db w) realm form (Rq_BasicAuth r) = Inr client"
    by (auto simp: token_def resolveRealm_def with_form_def with_client_def Let_def split: sum.splits if_splits)
  define hs' where "hs' = header_Set (header_Set hs ''Cache-Control'' ''no-store'') ''Pragma'' ''no-cache''"
  have "\<exists>proofs jkt. \<not> hasDuplicate form \<and> realmKeys h hs' now realm (w\<lparr>W_proofs := proofs\<rparr>)
      (\<lambda>k w. token_dispatch h hs' now form realm client k jkt w) = Some (resp, w')"
    using assms realm form client
    by (auto simp: token_def resolveRealm_def with_form_def with_client_def Let_def hs'_def
        split: sum.splits if_splits prod.splits)
  then obtain proofs jkt where dup: "\<not> hasDuplicate form"
    and run: "realmKeys h hs' now realm (w\<lparr>W_proofs := proofs\<rparr>)
      (\<lambda>k w. token_dispatch h hs' now form realm client k jkt w) = Some (resp, w')" by blast
  from run have "values_get form ''grant_type'' = ''authorization_code'' \<and> form_has form ''code''
    \<and> c = values_get form ''code'' \<and> AS_codes (W_auth w') c = None"
  proof (cases rule: realmKeys_cases)
    case failed
    with assms(2) show ?thesis by simp
  next
    case (run k m db e)
    then show ?thesis using token_dispatch_codes assms(2) by fastforce
  qed
  with realm form client dup show ?thesis by blast
qed

section \<open>The direct grant\<close>

lemma startSession_Inr:
  assumes "H_store h = sqlite_store" "startSession h now realm client user scope w = Some (Inr session, w')"
  shows "(\<exists>cs. T_user_session (W_db w') = T_user_session (W_db w) @ [session]
      \<and> T_client_session (W_db w') = T_client_session (W_db w) @ [cs]
      \<and> CS_UserSessionID cs = US_ID session \<and> CS_ClientID cs = Client_ID client \<and> CS_Scope cs = scope)
    \<and> US_UserID session = User_ID user \<and> US_RealmID session = Realm_ID realm
    \<and> (\<forall>s \<in> set (T_user_session (W_db w)). US_ID s \<noteq> US_ID session)"
proof -
  obtain sid e1 cid e2 db1 db2 cs where r:
    "session = \<lparr>US_ID = sid, US_RealmID = Realm_ID realm, US_UserID = User_ID user,
       US_Username = User_Username user, US_StartedAt = now div 1000000, US_LastRefresh = now div 1000000,
       US_ExpiresAt = now div 1000000 + quot (Realm_RefreshTokenLifespan realm) 1000000\<rparr>"
    "sessionRepo_CreateUserSession (W_db w) session = Inr db1"
    "cs = \<lparr>CS_ID = cid, CS_UserSessionID = sid, CS_ClientID = Client_ID client, CS_Scope = scope,
       CS_StartedAt = now div 1000000\<rparr>"
    "sessionRepo_CreateClientSession db1 cs = Inr db2" "W_db w' = db2"
    using assms(2) unfolding startSession_def assms(1)
    by (auto simp: Let_def sqlite_store_def sqlite_sessions_def split: option.splits sum.splits)
  have 1: "db1 = (W_db w)\<lparr>T_user_session := T_user_session (W_db w) @ [session]\<rparr>"
      "\<forall>s \<in> set (T_user_session (W_db w)). US_ID s \<noteq> US_ID session"
    using r(2) by (auto simp: sessionRepo_CreateUserSession_def split: if_splits)
  have 2: "db2 = db1\<lparr>T_client_session := T_client_session db1 @ [cs]\<rparr>"
    using r(4) by (auto simp: sessionRepo_CreateClientSession_def split: if_splits)
  have "CS_UserSessionID cs = US_ID session \<and> CS_ClientID cs = Client_ID client \<and> CS_Scope cs = scope
      \<and> US_UserID session = User_ID user \<and> US_RealmID session = Realm_ID realm"
    by (simp add: r(1,3))
  with 1 2 r(5) show ?thesis by auto
qed

lemma passwordGrant_200:
  assumes "passwordGrant h hs now form realm client k jkt w = Some (resp, w')" "Resp_Status resp = 200"
  obtains user cred session w1 e where
    "UserRepo_ByUsername (Store_Users (H_store h)) (W_db w) (Realm_ID realm) (values_get form ''username'') = Inr user"
    "UserRepo_CredentialByUser (Store_Users (H_store h)) (W_db w) (User_ID user) passwordCredentialType = Inr cred"
    "VerifyPassword (H_IDKey h) (Some cred) (values_get form ''password'') = Some (Inr ())"
    "User_Enabled user" "User_RequiredActions user = []"
    "startSession h now realm client user (grantedScope (values_get form ''scope'')) w = Some (Inr session, w1)"
    "w' = w1\<lparr>W_entropy := e\<rparr>"
  using assms unfolding passwordGrant_def writeInvalidUserCredentials_def invalid_grant_def
  by (auto simp: Let_def split: if_splits sum.splits option.splits prod.splits dest!: writeTokens_world)

text \<open>
  C3. The direct grant. An unknown user, a user without a password and a wrong password get the same
  answer and leave no trace in the state, so the answer does not tell them apart. Tokens are written
  only for an enabled user without required actions whose password was verified; the database then
  holds exactly one new user session, of that user at that realm under a new identifier, and one new
  client session in it with the granted scope.
\<close>

theorem password_grant:
  assumes "H_store h = sqlite_store" "Client_DirectAccessGrantsEnabled client"
  shows "((\<forall>user cred. userRepo_ByUsername (W_db w) (Realm_ID realm) (values_get form ''username'') = Inr user
        \<longrightarrow> userRepo_CredentialByUser (W_db w) (User_ID user) ''password'' = Inr cred
        \<longrightarrow> VerifyPassword (H_IDKey h) (Some cred) (values_get form ''password'') = Some (Inl ErrInvalidCredential))
      \<longrightarrow> passwordGrant h hs now form realm client k jkt w = Some (writeInvalidUserCredentials hs, w))
    \<and> (\<forall>resp w'. passwordGrant h hs now form realm client k jkt w = Some (resp, w') \<longrightarrow> Resp_Status resp = 200 \<longrightarrow>
        (\<exists>user cred session cs. userRepo_ByUsername (W_db w) (Realm_ID realm) (values_get form ''username'') = Inr user
          \<and> userRepo_CredentialByUser (W_db w) (User_ID user) ''password'' = Inr cred
          \<and> VerifyPassword (H_IDKey h) (Some cred) (values_get form ''password'') = Some (Inr ())
          \<and> User_Enabled user \<and> User_RequiredActions user = []
          \<and> T_user_session (W_db w') = T_user_session (W_db w) @ [session]
          \<and> T_client_session (W_db w') = T_client_session (W_db w) @ [cs]
          \<and> US_UserID session = User_ID user \<and> US_RealmID session = Realm_ID realm
          \<and> (\<forall>s \<in> set (T_user_session (W_db w)). US_ID s \<noteq> US_ID session)
          \<and> CS_UserSessionID cs = US_ID session \<and> CS_ClientID cs = Client_ID client
          \<and> CS_Scope cs = grantedScope (values_get form ''scope'')))"
proof (intro conjI impI allI)
  have u: "UserRepo_ByUsername (Store_Users (H_store h)) = userRepo_ByUsername"
    "UserRepo_CredentialByUser (Store_Users (H_store h)) = userRepo_CredentialByUser"
    using assms(1) by (simp_all add: sqlite_store_def sqlite_users_def)
  have missing: "userRepo_ByUsername db a b = Inl e \<Longrightarrow> e = ErrNotFound"
    "userRepo_CredentialByUser db a b = Inl e \<Longrightarrow> e = ErrNotFound" for db a b e
    by (auto simp: userRepo_ByUsername_def userRepo_CredentialByUser_def first_row_def split: list.splits)
  {
    assume "\<forall>user cred. userRepo_ByUsername (W_db w) (Realm_ID realm) (values_get form ''username'') = Inr user
        \<longrightarrow> userRepo_CredentialByUser (W_db w) (User_ID user) ''password'' = Inr cred
        \<longrightarrow> VerifyPassword (H_IDKey h) (Some cred) (values_get form ''password'') = Some (Inl ErrInvalidCredential)"
    then show "passwordGrant h hs now form realm client k jkt w = Some (writeInvalidUserCredentials hs, w)"
      using assms(2) u missing
      by (auto simp: passwordGrant_def passwordCredentialType_def split: sum.splits)
  next
    fix resp w'
    assume "passwordGrant h hs now form realm client k jkt w = Some (resp, w')" "Resp_Status resp = 200"
    then obtain user cred session w1 e where p:
      "userRepo_ByUsername (W_db w) (Realm_ID realm) (values_get form ''username'') = Inr user"
      "userRepo_CredentialByUser (W_db w) (User_ID user) ''password'' = Inr cred"
      "VerifyPassword (H_IDKey h) (Some cred) (values_get form ''password'') = Some (Inr ())"
      "User_Enabled user" "User_RequiredActions user = []"
      "startSession h now realm client user (grantedScope (values_get form ''scope'')) w = Some (Inr session, w1)"
      "w' = w1\<lparr>W_entropy := e\<rparr>"
      by (rule passwordGrant_200) (simp add: u passwordCredentialType_def)
    show "\<exists>user cred session cs. userRepo_ByUsername (W_db w) (Realm_ID realm) (values_get form ''username'') = Inr user
          \<and> userRepo_CredentialByUser (W_db w) (User_ID user) ''password'' = Inr cred
          \<and> VerifyPassword (H_IDKey h) (Some cred) (values_get form ''password'') = Some (Inr ())
          \<and> User_Enabled user \<and> User_RequiredActions user = []
          \<and> T_user_session (W_db w') = T_user_session (W_db w) @ [session]
          \<and> T_client_session (W_db w') = T_client_session (W_db w) @ [cs]
          \<and> US_UserID session = User_ID user \<and> US_RealmID session = Realm_ID realm
          \<and> (\<forall>s \<in> set (T_user_session (W_db w)). US_ID s \<noteq> US_ID session)
          \<and> CS_UserSessionID cs = US_ID session \<and> CS_ClientID cs = Client_ID client
          \<and> CS_Scope cs = grantedScope (values_get form ''scope'')"
      using startSession_Inr [OF assms(1) p(6)] p by auto
  }
qed

section \<open>Revocation\<close>

lemma DeleteUserSession_gone:
  assumes "sessionRepo_UserSessionByID db rid sid = Inr s" "sessionRepo_DeleteUserSession db rid sid = Inr db'"
  shows "sessionRepo_UserSessionByID db' rid sid = Inl ErrNotFound"
proof -
  have "db' = cascade_sessions (\<lambda>i. i \<in> US_ID ` set (filter (\<lambda>s. US_RealmID s = rid \<and> US_ID s = sid) (T_user_session db))) db"
    using assms(2) by (auto simp: sessionRepo_DeleteUserSession_def affectedOne_def Let_def split: if_splits)
  then have "filter (\<lambda>s. US_RealmID s = rid \<and> US_ID s = sid) (T_user_session db') = []"
    by (auto simp: cascade_sessions_def filter_empty_conv)
  then show ?thesis by (simp add: sessionRepo_UserSessionByID_def first_row_def)
qed

lemma UserSessionByID_id:
  "sessionRepo_UserSessionByID db rid sid = Inr s \<Longrightarrow> US_ID s = sid \<and> US_RealmID s = rid"
  by (auto simp: sessionRepo_UserSessionByID_def first_row_def split: list.splits)
    (metis (mono_tags) filter_eq_ConsD)+

lemma realmKeys_cached:
  "W_keys w (Realm_ID realm) = Some k \<Longrightarrow> realmKeys h hs now realm w f = f k w"
  by (simp add: realmKeys_def ForRealm_def)

lemma sqlite_session_ops [simp]:
  "SessionRepo_UserSessionByID (Store_Sessions sqlite_store) = sessionRepo_UserSessionByID"
  "SessionRepo_DeleteUserSession (Store_Sessions sqlite_store) = sessionRepo_DeleteUserSession"
  by (simp_all add: sqlite_store_def sqlite_sessions_def)

text \<open>The token a revocation names, read as a refresh token first and as an access token second.\<close>

definition presented :: "'db server \<Rightarrow> realm \<Rightarrow> realm_keys \<Rightarrow> time \<Rightarrow> string \<Rightarrow> token_error + parsed" where
  "presented h realm k now raw =
    (case ParseRefresh (H_jose h) k (realmIssuer h (Realm_Name realm)) raw now of
       Inl _ \<Rightarrow> ParseAccess (H_jose h) k (realmIssuer h (Realm_Name realm)) raw now
     | Inr parsed \<Rightarrow> Inr parsed)"

lemma revoke_gone:
  assumes "H_store h = sqlite_store"
    and "RealmRepo_ByName (Store_Realms sqlite_store) (W_db w) (Rq_Realm r) = Inr realm" "Rq_PostForm r = Some form"
    and "W_keys w (Realm_ID realm) = Some k" "presented h realm k now (values_get form ''token'') = Inr parsed"
    and "revoke h hs now r w = Some (resp, w')" "Resp_Body resp = BodyEmpty"
  shows "sessionRepo_UserSessionByID (W_db w') (Realm_ID realm) (Parsed_SessionID parsed) = Inl ErrNotFound"
proof -
  obtain client where c: "authenticateClient h (W_db w) realm form (Rq_BasicAuth r) = Inr client"
    using assms by (auto simp: revoke_def resolveRealm_def with_form_def with_client_def split: sum.splits)
  obtain session where s: "sessionBehindToken h now form realm client k w = Some session"
    using assms c
    by (auto simp: revoke_def resolveRealm_def with_form_def with_client_def realmKeys_cached split: option.splits)
  have "sessionRepo_UserSessionByID (W_db w) (Realm_ID realm) (Parsed_SessionID parsed) = Inr session"
    using s assms(1,5)
    by (auto simp: sessionBehindToken_def presented_def Let_def split: if_splits sum.splits)
  note f = this UserSessionByID_id [OF this]
  have e: "e = ErrNotFound" if "sessionRepo_DeleteUserSession db a b = Inl e" for db a b e
    using that by (auto simp: sessionRepo_DeleteUserSession_def affectedOne_def Let_def split: if_splits)
  show ?thesis
  proof (cases "sessionRepo_DeleteUserSession (W_db w) (Realm_ID realm) (US_ID session)")
    case (Inl e)
    then have "filter (\<lambda>s. US_RealmID s = Realm_ID realm \<and> US_ID s = Parsed_SessionID parsed) (T_user_session (W_db w)) = []"
      using f(2) by (auto simp: sessionRepo_DeleteUserSession_def affectedOne_def Let_def split: if_splits)
    with f(1) show ?thesis by (simp add: sessionRepo_UserSessionByID_def first_row_def)
  next
    case (Inr db)
    then have "W_db w' = db"
      using assms c s
      by (auto simp: revoke_def resolveRealm_def with_form_def with_client_def realmKeys_cached)
    then show ?thesis using DeleteUserSession_gone f Inr by metis
  qed
qed

lemma no_session_answers:
  assumes "H_store h = sqlite_store" "sessionRepo_UserSessionByID (W_db w) (Realm_ID realm) (Parsed_SessionID p) = Inl ErrNotFound"
  shows "ParseRefresh (H_jose h) k (realmIssuer h (Realm_Name realm)) (values_get form ''refresh_token'') now = Inr p \<Longrightarrow>
      \<exists>resp. refreshTokenGrant h hs now form realm client k jkt w = Some (resp, w) \<and> Resp_Status resp = 400"
    and "ParseAccess (H_jose h) k (realmIssuer h (Realm_Name realm)) (values_get form ''subject_token'') now = Inr p \<Longrightarrow>
      \<exists>resp. tokenExchangeGrant h hs now form realm client k w = Some (resp, w) \<and> Resp_Status resp = 400"
    and "userBehind h realm p w = Inl ErrNotFound"
  using assms
  by (auto simp: refreshTokenGrant_def tokenExchangeGrant_def userBehind_def writeInvalidRefreshToken_def
      writeSessionNotActive_def invalid_grant_def Let_def)

text \<open>
  C4. Revoking a token ends its session for every other token of it. After a revocation that was
  answered with success, and as long as the database is not changed, a refresh token of the same session
  is refused by the refresh grant, an access token of it by the token exchange, whichever client presents
  it and whatever else the request carries, and no user is found behind either of them; nothing is issued.
\<close>

theorem revocation_ends_session:
  assumes "H_store h = sqlite_store"
    and "RealmRepo_ByName (Store_Realms sqlite_store) (W_db w) (Rq_Realm r) = Inr realm" "Rq_PostForm r = Some form"
    and "W_keys w (Realm_ID realm) = Some k" "presented h realm k now (values_get form ''token'') = Inr parsed"
    and "revoke h hs now r w = Some (resp, w')" "Resp_Body resp = BodyEmpty"
    and "W_db w2 = W_db w'" "Parsed_SessionID p = Parsed_SessionID parsed"
  shows "(ParseRefresh (H_jose h) k (realmIssuer h (Realm_Name realm)) (values_get form2 ''refresh_token'') now2 = Inr p \<longrightarrow>
      (\<exists>resp2. refreshTokenGrant h hs2 now2 form2 realm client2 k jkt2 w2 = Some (resp2, w2) \<and> Resp_Status resp2 = 400))
    \<and> (ParseAccess (H_jose h) k (realmIssuer h (Realm_Name realm)) (values_get form2 ''subject_token'') now2 = Inr p \<longrightarrow>
      (\<exists>resp2. tokenExchangeGrant h hs2 now2 form2 realm client2 k w2 = Some (resp2, w2) \<and> Resp_Status resp2 = 400))
    \<and> userBehind h realm p w2 = Inl ErrNotFound"
proof -
  have "sessionRepo_UserSessionByID (W_db w2) (Realm_ID realm) (Parsed_SessionID p) = Inl ErrNotFound"
    using revoke_gone [OF assms(1-7)] assms(8,9) by simp
  from no_session_answers [OF assms(1) this] show ?thesis by blast
qed

section \<open>Introspection\<close>

lemma own_access_token:
  assumes "jose_ok J" "issuable i now req e" "Issue J i now req e = Some (Inr ts, e')"
  shows "(case ParseAccess J (Iss_Keys i) (Iss_Issuer i) (Set_AccessToken ts) t of
        Inl _ \<Rightarrow> True | Inr p \<Rightarrow> Client_ClientID (Req_Client req) \<notin> set (Parsed_Audience p))
    \<and> ParseRefresh J k iss (Set_AccessToken ts) t = Inl ErrInvalidToken"
proof -
  obtain jti aud jti' jti'' where v:
    "Audience (Client_ClientID (Req_Client req)) (Req_ClientRoles req) = Some aud"
    "verify J (Set_AccessToken ts) RS256 (SigningPublicKey J (Iss_Keys i)) = Inr (access_read i now req jti aud)"
    "\<forall>key. verify J (Set_AccessToken ts) HS512 key = Inl ErrInvalidToken"
    by (rule issued_set [OF assms])
  have "parseAudience None = []" by (simp add: parseAudience_def)
  then have "Client_ClientID (Req_Client req) \<notin> set (parseAudience (PC_Aud (access_read i now req jti aud)))"
    using Audience_set [OF v(1)] by (auto simp: access_read_def)
  with v(2,3) show ?thesis
    by (auto simp: ParseAccess_def ParseRefresh_def check_def Let_def)
qed

text \<open>
  A confidential client cannot introspect the access tokens issued to it: for a token the server
  issued to a client of the same name, the endpoint's answer to that client is the inactive one, at any
  time and whatever state the session is in, because the issuing client is never in the audience.
\<close>

theorem introspect_own_access_token:
  assumes "jose_ok (H_jose h)" "issuable \<lparr>Iss_Keys = k, Iss_Issuer = realmIssuer h (Realm_Name realm)\<rparr> now req e"
    and "Issue (H_jose h) \<lparr>Iss_Keys = k, Iss_Issuer = realmIssuer h (Realm_Name realm)\<rparr> now req e = Some (Inr ts, e')"
    and "RealmRepo_ByName (Store_Realms (H_store h)) (W_db w) (Rq_Realm r) = Inr realm" "Rq_PostForm r = Some form"
    and "authenticateClient h (W_db w) realm form (Rq_BasicAuth r) = Inr client" "\<not> Client_PublicClient client"
    and "Client_ClientID client = Client_ClientID (Req_Client req)"
    and "W_keys w (Realm_ID realm) = Some k" "values_get form ''token'' = Set_AccessToken ts"
  shows "introspect h hs now' r w = Some (WriteJSON hs 200 inactive, w)"
proof -
  have "introspected h now' realm client k (Set_AccessToken ts) = None"
    using own_access_token [OF assms(1-3), of now' k "realmIssuer h (Realm_Name realm)"] assms(8)
    by (auto simp: introspected_def Let_def split: sum.splits)
  then show ?thesis
    using assms(4-7,9,10)
    by (simp add: introspect_def resolveRealm_def with_form_def with_client_def realmKeys_cached)
qed

section \<open>A small server\<close>

text \<open>
  One realm with a confidential client, a user, a session and a pending code, on which the properties
  above are run.
\<close>

definition demo_realm :: realm where
  "demo_realm = \<lparr>Realm_ID = ''r1'', Realm_Name = ''demo'', Realm_Enabled = True,
     Realm_AccessTokenLifespan = 60 * second, Realm_RefreshTokenLifespan = 1800 * second, Realm_Settings = []\<rparr>"

definition demo_client :: client where
  "demo_client = zero_client\<lparr>Client_ID := ''c1'', Client_RealmID := ''r1'', Client_ClientID := ''app'',
     Client_Enabled := True, Client_Secret := ''pw'', Client_FullScopeAllowed := True,
     Client_DirectAccessGrantsEnabled := True\<rparr>"

definition demo_user :: user where
  "demo_user = zero_user\<lparr>User_ID := ''u1'', User_RealmID := ''r1'', User_Username := ''ann'', User_Enabled := True\<rparr>"

definition demo_db :: sqlite_db where
  "demo_db = empty_db\<lparr>T_realm := [demo_realm], T_client := [demo_client], T_user := [demo_user],
     T_user_session := [Req_UserSession sample_request]\<rparr>"

definition demo_server :: "sqlite_db server" where
  "demo_server = \<lparr>H_store = sqlite_store, H_issuerBase = ''http://h'', H_jose = unary_jose,
     H_x509 = sample_x509, H_dpop = sample_dpop, H_IDKey = sample_argon2, H_ToLower = id, H_URLParse = (\<lambda>_. Some [])\<rparr>"

definition demo_code :: auth_code where
  "demo_code = \<lparr>Code_Code = ''code'', Code_Realm = ''demo'', Code_ClientUUID = ''c1'',
     Code_RedirectURI = ''https://app/cb'', Code_UserID = ''u1'', Code_SessionID = ''s1'', Code_Scope = ''openid'',
     Code_Nonce = ''n'', Code_CodeChallenge = [], Code_CodeChallengeMethod = [], Code_ExpiresAt = 60 * second\<rparr>"

definition demo_world :: "sqlite_db world" where
  "demo_world = \<lparr>W_db = demo_db, W_keys = [''r1'' \<mapsto> sample_keys],
     W_auth = newAuthStore\<lparr>AS_codes := [''code'' \<mapsto> demo_code]\<rparr>, W_device = newDeviceStore,
     W_proofs = newProofStore, W_consents = newConsentStore, W_entropy = replicate 48 7, W_sent = [],
     W_registrations = Map.empty\<rparr>"

definition demo_post :: "url_values \<Rightarrow> request" where
  "demo_post form = \<lparr>Rq_Realm = ''demo'', Rq_Method = ''POST'', Rq_Query = [],
     Rq_PostForm = Some ([(''client_id'', [''app'']), (''client_secret'', [''pw''])] @ form),
     Rq_BasicAuth = None, Rq_Authorization = [], Rq_DPoP = None,
     Rq_ContentType = [], Rq_Cookies = []\<rparr>"

lemma demo_simps [simp]:
  "Realm_ID demo_realm = ''r1''" "Realm_Name demo_realm = ''demo''" "Client_ClientID demo_client = ''app''"
  "Client_ID demo_client = ''c1''" "\<not> Client_PublicClient demo_client" "Client_DirectAccessGrantsEnabled demo_client"
  "H_store demo_server = sqlite_store" "H_jose demo_server = unary_jose" "realmIssuer demo_server ''demo'' = ''http://h/realms/demo''"
  "W_db demo_world = demo_db" "W_keys demo_world = [''r1'' \<mapsto> sample_keys]" "W_entropy demo_world = replicate 48 7"
  "W_proofs demo_world = newProofStore"
  "AS_codes (W_auth demo_world) = [''code'' \<mapsto> demo_code]" "Client_Attributes demo_client = []"
  by (simp_all add: demo_realm_def demo_client_def demo_server_def demo_world_def realmIssuer_def zero_client_def)

lemma demo_realm_found: "RealmRepo_ByName (Store_Realms sqlite_store) demo_db ''demo'' = Inr demo_realm"
  by (simp add: sqlite_store_def sqlite_realms_def realmRepo_ByName_def first_row_def demo_db_def)

lemma demo_client_found: "clientRepo_ByClientID demo_db ''r1'' ''app'' = Inr demo_client"
  by (simp add: clientRepo_ByClientID_def first_row_def demo_db_def demo_client_def zero_client_def scanWithScopes_def
      loadNodes_def loadClientScopeNames_def empty_db_def)

lemma demo_authenticated:
  "authenticateClient demo_server demo_db demo_realm ([(''client_id'', [''app'']), (''client_secret'', [''pw''])] @ form) b
     = Inr demo_client"
proof -
  have "ClientRepo_ByClientID (Store_Clients sqlite_store) = clientRepo_ByClientID"
    by (simp add: sqlite_store_def sqlite_clients_def)
  moreover have "Client_Enabled demo_client" "Client_Secret demo_client = ''pw''"
    by (simp_all add: demo_client_def)
  ultimately show ?thesis
    by (simp add: authenticateClient_def clientCredentials_def values_get_def first_value_def demo_client_found)
qed

lemma demo_user_found: "UserRepo_ByID (Store_Users sqlite_store) demo_db ''r1'' ''u1'' = Inr demo_user"
  by (simp add: sqlite_store_def sqlite_users_def userRepo_ByID_def first_row_def demo_db_def demo_user_def)

lemma demo_roles: "tokenRoles sqlite_store demo_db demo_realm demo_client demo_user scope = Some (Inr ([], []))"
proof -
  have "RoleRepo_ListUserRoles (Store_Roles sqlite_store) demo_db i = Inr []" for i
    by (simp add: sqlite_store_def sqlite_roles_def roleRepo_ListUserRoles_def join_roles_def loadRoleAttributes_def
        demo_db_def empty_db_def)
  moreover obtain scopes where "ScopesInEffect (Store_ClientScopes sqlite_store) demo_db demo_client scope = Inr scopes"
    by (simp add: ScopesInEffect_def sqlite_store_def sqlite_client_scopes_def clientScopeRepo_ListClientScopes_def)
  moreover have "Client_FullScopeAllowed demo_client" by (simp add: demo_client_def)
  ultimately show ?thesis
    by (auto simp: tokenRoles_def Effective_def ExpandFrom_def ExpandFrom_loop.simps bind_run_def InScope_def Filter_def)
qed

lemma demo_writeTokens:
  "\<exists>resp w'. writeTokens demo_server hs now demo_realm demo_client demo_user session scope sample_keys sa at nonce jkt
       (demo_world\<lparr>W_auth := auth\<rparr>) = Some (resp, w') \<and> Resp_Status resp = 200"
proof -
  have "\<exists>ts e'. Issue unary_jose i now \<lparr>Req_Client = demo_client, Req_User = demo_user, Req_UserSession = session,
      Req_Scope = scope, Req_RealmRoles = [], Req_ClientRoles = [], Req_AccessLife = al, Req_RefreshLife = rl,
      Req_IncludeIDToken = b, Req_AuthTime = at, Req_Nonce = nonce, Req_Thumbprint = jkt\<rparr> (replicate 48 7)
      = Some (Inr ts, e')" for i al rl b
    by (rule unary_Issue) simp_all
  note t = this [of "\<lparr>Iss_Keys = sample_keys, Iss_Issuer = ''http://h/realms/demo''\<rparr>" "accessLifespan demo_realm demo_client"
    "Realm_RefreshTokenLifespan demo_realm" "hasScope scope ''openid''"]
  then obtain ts e' where "Issue unary_jose \<lparr>Iss_Keys = sample_keys, Iss_Issuer = ''http://h/realms/demo''\<rparr> now
      \<lparr>Req_Client = demo_client, Req_User = demo_user, Req_UserSession = session,
      Req_Scope = scope, Req_RealmRoles = [], Req_ClientRoles = [], Req_AccessLife = accessLifespan demo_realm demo_client,
      Req_RefreshLife = Realm_RefreshTokenLifespan demo_realm,
      Req_IncludeIDToken = hasScope scope ''openid'', Req_AuthTime = at, Req_Nonce = nonce, Req_Thumbprint = jkt\<rparr> (replicate 48 7)
      = Some (Inr ts, e')" by blast
  then show ?thesis by (simp add: writeTokens_def demo_roles Let_def)
qed

lemma demo_session_found: "sessionRepo_UserSessionByID demo_db ''r1'' ''s1'' = Inr (Req_UserSession sample_request)"
  by (simp add: sessionRepo_UserSessionByID_def first_row_def demo_db_def sample_request_def)

lemma demo_tokens:
  obtains ts e' jti where
    "Issue unary_jose sample_issuer 0 sample_request (replicate 48 7) = Some (Inr ts, e')"
    "ParseRefresh unary_jose sample_keys ''http://h/realms/demo'' (Set_RefreshToken ts) 0
       = Inr \<lparr>Parsed_Type = ''Refresh'', Parsed_Subject = ''u1'', Parsed_SessionID = ''s1'', Parsed_ClientID = ''app'',
          Parsed_ID = jti, Parsed_Audience = [''http://h/realms/demo''], Parsed_Scope = RefreshScope ''openid'' (Req_Client sample_request),
          Parsed_IssuedAt = 0, Parsed_ExpiresAt = 1800 * second, Parsed_Thumbprint = []\<rparr>"
    "Set_RefreshToken ts \<noteq> []"
proof -
  obtain ts e' where i: "Issue unary_jose sample_issuer 0 sample_request (replicate 48 7) = Some (Inr ts, e')"
    using sample_issue by blast
  obtain jti where v: "verify unary_jose (Set_RefreshToken ts) HS512 (HMACSecret sample_keys)
      = Inr (refresh_read sample_issuer 0 sample_request jti)"
    by (rule issued_set [OF unary_jose_ok sample_issuable i]) (simp add: sample_issuer_def)
  have "ParseRefresh unary_jose sample_keys ''http://h/realms/demo'' (Set_RefreshToken ts) 0
       = Inr \<lparr>Parsed_Type = ''Refresh'', Parsed_Subject = ''u1'', Parsed_SessionID = ''s1'', Parsed_ClientID = ''app'',
          Parsed_ID = jti, Parsed_Audience = [''http://h/realms/demo''], Parsed_Scope = RefreshScope ''openid'' (Req_Client sample_request),
          Parsed_IssuedAt = 0, Parsed_ExpiresAt = 1800 * second, Parsed_Thumbprint = []\<rparr>"
    using v by (simp add: ParseRefresh_def check_def refresh_read_def sample_issuer_def sample_request_def
        TypeRefresh_def unix_seconds_def time_of_unix_def second_def parseAudience_def thumbprint_def confirmationClaim_def)
  moreover have "Set_RefreshToken ts \<noteq> []"
    using v by (auto simp: verify_def unary_jose_def)
  ultimately show thesis using i that by blast
qed


theorem code_exchange_witness:
  "\<exists>resp w'. authorizationCodeGrant demo_server [] 0
       [(''code'', [''code'']), (''redirect_uri'', [''https://app/cb''])] demo_realm demo_client sample_keys [] demo_world
         = Some (resp, w') \<and> Resp_Status resp = 200
     \<and> authorizationCodeGrant demo_server [] 5
         [(''code'', [''code'']), (''redirect_uri'', [''https://app/cb''])] demo_realm demo_client sample_keys [] w'
         = Some (writeCodeNotValid [], w')"
proof -
  let ?f = "[(''code'', [''code'']), (''redirect_uri'', [''https://app/cb''])]"
  have f: "form_has ?f ''code''" "values_get ?f ''code'' = ''code''" "values_get ?f ''redirect_uri'' = ''https://app/cb''"
    "\<not> form_has ?f ''code_verifier''"
    by (simp_all add: form_has_def values_get_def first_value_def)
  obtain auth where s: "spendCode (W_auth demo_world) 0 ''demo'' ''code'' = (Some demo_code, auth)"
    by (simp add: spendCode_def demo_code_def second_def)
  have "\<exists>resp w'. authorizationCodeGrant demo_server [] 0 ?f demo_realm demo_client sample_keys [] demo_world
      = Some (resp, w') \<and> Resp_Status resp = 200"
    using demo_writeTokens [of "[]" 0 "Req_UserSession sample_request" "''openid''" False] f s
    by (simp add: authorizationCodeGrant_def demo_session_found demo_user_found demo_code_def checkCodeVerifier_def)
  then obtain resp w' where r: "authorizationCodeGrant demo_server [] 0 ?f demo_realm demo_client sample_keys [] demo_world
      = Some (resp, w')" "Resp_Status resp = 200" by blast
  from code_exchange [OF r(1) f(1)] f(1) have
    "authorizationCodeGrant demo_server [] 5 ?f demo_realm demo_client sample_keys [] w' = Some (writeCodeNotValid [], w')"
    by blast
  with r show ?thesis by blast
qed

theorem token_spends_only_witness:
  "\<exists>resp w' realm form. token demo_server [] 0
       (demo_post [(''grant_type'', [''authorization_code'']), (''code'', [''code''])]) demo_world = Some (resp, w')
     \<and> RealmRepo_ByName (Store_Realms sqlite_store) demo_db ''demo'' = Inr realm
     \<and> AS_codes (W_auth w') ''code'' = None \<and> \<not> hasDuplicate form"
proof -
  let ?r = "demo_post [(''grant_type'', [''authorization_code'']), (''code'', [''code''])]"
  let ?f = "[(''client_id'', [''app'']), (''client_secret'', [''pw'']), (''grant_type'', [''authorization_code'']), (''code'', [''code''])]"
  have f: "Rq_PostForm ?r = Some ?f" "Rq_Realm ?r = ''demo''" "Rq_DPoP ?r = None" "Rq_BasicAuth ?r = None"
    by (simp_all add: demo_post_def)
  have a: "authenticateClient demo_server demo_db demo_realm ?f None = Inr demo_client"
    using demo_authenticated [of "[(''grant_type'', [''authorization_code'']), (''code'', [''code''])]" None] by simp
  have g: "values_get ?f ''grant_type'' = ''authorization_code''" "values_get ?f ''code'' = ''code''"
    "values_get ?f ''redirect_uri'' = []" "form_has ?f ''code''" "\<not> hasDuplicate ?f"
    by (simp_all add: values_get_def first_value_def form_has_def hasDuplicate_def)
  have d: "verifyDPoP D s t None m (requiresDPoP (Client_Attributes demo_client)) u = (Inr [], s)" for D s t m u
    by (simp add: verifyDPoP_def requiresDPoP_def attr_def GoStd.fields_def string_bytes_def rune_chunks.simps)
  obtain auth where s: "spendCode (W_auth demo_world) 0 ''demo'' ''code'' = (Some demo_code, auth)"
      "AS_codes auth ''code'' = None"
    by (simp add: spendCode_def demo_code_def second_def)
  have w: "demo_world\<lparr>W_proofs := newProofStore\<rparr> = demo_world" by (simp add: demo_world_def)
  have "\<exists>resp w'. token demo_server [] 0 ?r demo_world = Some (resp, w') \<and> AS_codes (W_auth w') ''code'' = None"
    using a d s w
    by (simp add: token_def resolveRealm_def with_form_def with_client_def demo_realm_found f g realmKeys_cached
        token_dispatch_def authorizationCodeGrant_def grant_types_def demo_code_def)
  then obtain resp w' where r: "token demo_server [] 0 ?r demo_world = Some (resp, w')"
      "AS_codes (W_auth w') ''code'' = None" by blast
  then have "AS_codes (W_auth w') ''code'' \<noteq> AS_codes (W_auth demo_world) ''code''" by simp
  from token_spends_only [OF r(1) this] obtain realm form where
    "RealmRepo_ByName (Store_Realms sqlite_store) demo_db ''demo'' = Inr realm" "\<not> hasDuplicate form"
    by (auto simp: f)
  with r show ?thesis by blast
qed

theorem password_grant_witness:
  "passwordGrant demo_server [] 0 [(''username'', [''bob'']), (''password'', [''x''])] demo_realm demo_client sample_keys []
     demo_world = Some (writeInvalidUserCredentials [], demo_world)"
proof -
  have "userRepo_ByUsername demo_db ''r1'' ''bob'' = Inl ErrNotFound"
    by (simp add: userRepo_ByUsername_def demo_db_def demo_user_def first_row_def)
  then show ?thesis
    using password_grant [of demo_server demo_client demo_world demo_realm
        "[(''username'', [''bob'']), (''password'', [''x''])]" "[]" 0 sample_keys "[]"]
    by (simp add: values_get_def first_value_def)
qed

theorem revocation_ends_session_witness:
  "\<exists>tk resp w'. revoke demo_server [] 0 (demo_post [(''token'', [tk])]) demo_world = Some (resp, w')
     \<and> Resp_Body resp = BodyEmpty
     \<and> (\<exists>resp2. refreshTokenGrant demo_server [] 0 [(''refresh_token'', [tk])] demo_realm demo_client sample_keys [] w'
           = Some (resp2, w') \<and> Resp_Status resp2 = 400)"
proof -
  obtain ts e' jti where t: "Issue unary_jose sample_issuer 0 sample_request (replicate 48 7) = Some (Inr ts, e')"
    "ParseRefresh unary_jose sample_keys ''http://h/realms/demo'' (Set_RefreshToken ts) 0
       = Inr \<lparr>Parsed_Type = ''Refresh'', Parsed_Subject = ''u1'', Parsed_SessionID = ''s1'', Parsed_ClientID = ''app'',
          Parsed_ID = jti, Parsed_Audience = [''http://h/realms/demo''], Parsed_Scope = RefreshScope ''openid'' (Req_Client sample_request),
          Parsed_IssuedAt = 0, Parsed_ExpiresAt = 1800 * second, Parsed_Thumbprint = []\<rparr>"
    "Set_RefreshToken ts \<noteq> []" by (rule demo_tokens)
  let ?r = "demo_post [(''token'', [Set_RefreshToken ts])]"
  let ?f = "[(''client_id'', [''app'']), (''client_secret'', [''pw'']), (''token'', [Set_RefreshToken ts])]"
  have f: "Rq_PostForm ?r = Some ?f" "Rq_Realm ?r = ''demo''" "Rq_BasicAuth ?r = None"
    "values_get ?f ''token'' = Set_RefreshToken ts"
    by (simp_all add: demo_post_def values_get_def first_value_def)
  have a: "authenticateClient demo_server demo_db demo_realm ?f None = Inr demo_client"
    using demo_authenticated [of "[(''token'', [Set_RefreshToken ts])]" None] by simp
  have b: "sessionBehindToken demo_server 0 ?f demo_realm demo_client sample_keys demo_world = Some (Req_UserSession sample_request)"
    using t(2,3) f(4) by (simp add: sessionBehindToken_def demo_session_found)
  have "US_ID (Req_UserSession sample_request) = ''s1''" by (simp add: sample_request_def)
  then have "\<exists>db. sessionRepo_DeleteUserSession demo_db ''r1'' (US_ID (Req_UserSession sample_request)) = Inr db"
    by (simp add: sessionRepo_DeleteUserSession_def affectedOne_def demo_db_def sample_request_def)
  then obtain resp w' where r: "revoke demo_server [] 0 ?r demo_world = Some (resp, w')" "Resp_Body resp = BodyEmpty"
    using a b by (auto simp: revoke_def resolveRealm_def with_form_def with_client_def demo_realm_found f(1-3) realmKeys_cached)
  have p: "presented demo_server demo_realm sample_keys 0 (values_get ?f ''token'') = Inr (projr
      (ParseRefresh unary_jose sample_keys ''http://h/realms/demo'' (Set_RefreshToken ts) 0))"
    using t(2) f(4) by (simp add: presented_def)
  have "\<exists>resp2. refreshTokenGrant demo_server [] 0 [(''refresh_token'', [Set_RefreshToken ts])] demo_realm demo_client
      sample_keys [] w' = Some (resp2, w') \<and> Resp_Status resp2 = 400"
    using revocation_ends_session [OF _ _ f(1) _ p r, of w' "projr (ParseRefresh unary_jose sample_keys
        ''http://h/realms/demo'' (Set_RefreshToken ts) 0)" "[(''refresh_token'', [Set_RefreshToken ts])]" 0] t(2) f(2)
    by (simp add: demo_realm_found values_get_def first_value_def)
  with r show ?thesis by blast
qed

end
