(* ===== verification/Sha512.thy ===== *)
theory Sha512
  imports Sha256
begin

unbundle bit_operations_syntax

text \<open>
  \<^verbatim>\<open>crypto/sha512\<close> and \<^verbatim>\<open>crypto/hmac\<close> over it, on which the session hash of the browser cookies rests. As
  in the 32-bit digest, bytes are natural numbers below 256 and additions wrap, here at 64 bits.
\<close>

type_synonym w64 = "64 word"

definition rotr64 :: "nat \<Rightarrow> w64 \<Rightarrow> w64" where
  "rotr64 n x = drop_bit n x OR push_bit (64 - n) x"

definition sha512_K :: "w64 list" where
  "sha512_K =
    [4794697086780616226, 8158064640168781261, 13096744586834688815, 16840607885511220156,
     4131703408338449720, 6480981068601479193, 10538285296894168987, 12329834152419229976,
     15566598209576043074, 1334009975649890238, 2608012711638119052, 6128411473006802146,
     8268148722764581231, 9286055187155687089, 11230858885718282805, 13951009754708518548,
     16472876342353939154, 17275323862435702243, 1135362057144423861, 2597628984639134821,
     3308224258029322869, 5365058923640841347, 6679025012923562964, 8573033837759648693,
     10970295158949994411, 12119686244451234320, 12683024718118986047, 13788192230050041572,
     14330467153632333762, 15395433587784984357, 489312712824947311, 1452737877330783856,
     2861767655752347644, 3322285676063803686, 5560940570517711597, 5996557281743188959,
     7280758554555802590, 8532644243296465576, 9350256976987008742, 10552545826968843579,
     11727347734174303076, 12113106623233404929, 14000437183269869457, 14369950271660146224,
     15101387698204529176, 15463397548674623760, 17586052441742319658, 1182934255886127544,
     1847814050463011016, 2177327727835720531, 2830643537854262169, 3796741975233480872,
     4115178125766777443, 5681478168544905931, 6601373596472566643, 7507060721942968483,
     8399075790359081724, 8693463985226723168, 9568029438360202098, 10144078919501101548,
     10430055236837252648, 11840083180663258601, 13761210420658862357, 14299343276471374635,
     14566680578165727644, 15097957966210449927, 16922976911328602910, 17689382322260857208,
     500013540394364858, 748580250866718886, 1242879168328830382, 1977374033974150939,
     2944078676154940804, 3659926193048069267, 4368137639120453308, 4836135668995329356,
     5532061633213252278, 6448918945643986474, 6902733635092675308, 7801388544844847127]"

type_synonym sha512_state = "w64 \<times> w64 \<times> w64 \<times> w64 \<times> w64 \<times> w64 \<times> w64 \<times> w64"

definition sha512_init :: sha512_state where
  "sha512_init =
    (7640891576956012808, 13503953896175478587, 4354685564936845355, 11912009170470909681,
     5840696475078001361, 11170449401992604703, 2270897969802886507, 6620516959819538809)"

definition primes80 :: "int list" where
  "primes80 = small_primes @ [313, 317, 331, 337, 347, 349, 353, 359, 367, 373, 379, 383, 389, 397, 401, 409]"

text \<open>The constant \<open>k\<close> holds the first 64 bits after the point of the \<open>r\<close>-th root of \<open>p\<close>.\<close>

definition root_bits64 :: "nat \<Rightarrow> int \<Rightarrow> w64 \<Rightarrow> bool" where
  "root_bits64 r p k \<longleftrightarrow>
     list_ex (\<lambda>c. c ^ r \<le> p \<and> p < (c + 1) ^ r
         \<and> (c * 2 ^ 64 + uint k) ^ r \<le> p * 2 ^ (64 * r)
         \<and> p * 2 ^ (64 * r) < (c * 2 ^ 64 + uint k + 1) ^ r) [1, 2, 3, 4, 5, 6, 7]"

fun words64_of :: "nat list \<Rightarrow> w64 list" where
  "words64_of (a # b # c # d # e # f # g # h # bs) =
     (push_bit 32 (ucast (word_of_bytes a b c d)) OR ucast (word_of_bytes e f g h)) # words64_of bs"
| "words64_of _ = []"

definition bytes64_of :: "w64 \<Rightarrow> nat list" where
  "bytes64_of w = map (\<lambda>i. unat (ucast (drop_bit i w) :: 8 word)) [56, 48, 40, 32, 24, 16, 8, 0]"

text \<open>The message schedule, newest word first.\<close>

fun sha512_extend :: "nat \<Rightarrow> w64 list \<Rightarrow> w64 list" where
  "sha512_extend 0 ws = ws"
| "sha512_extend (Suc n) ws =
     (let x = ws ! 14; y = ws ! 1;
          s0 = rotr64 1 x XOR rotr64 8 x XOR drop_bit 7 x;
          s1 = rotr64 19 y XOR rotr64 61 y XOR drop_bit 6 y
      in sha512_extend n ((ws ! 15 + s0 + ws ! 6 + s1) # ws))"

fun sha512_round :: "w64 \<times> w64 \<Rightarrow> sha512_state \<Rightarrow> sha512_state" where
  "sha512_round (k, w) (a, b, c, d, e, f, g, h) =
     (let t1 = h + (rotr64 14 e XOR rotr64 18 e XOR rotr64 41 e) + ((e AND f) XOR (NOT e AND g)) + k + w;
          t2 = (rotr64 28 a XOR rotr64 34 a XOR rotr64 39 a) + ((a AND b) XOR (a AND c) XOR (b AND c))
      in (t1 + t2, a, b, c, d + t1, e, f, g))"

fun sha512_add :: "sha512_state \<Rightarrow> sha512_state \<Rightarrow> sha512_state" where
  "sha512_add (a, b, c, d, e, f, g, h) (a', b', c', d', e', f', g', h') =
     (a + a', b + b', c + c', d + d', e + e', f + f', g + g', h + h')"

definition sha512_block :: "nat list \<Rightarrow> sha512_state \<Rightarrow> sha512_state" where
  "sha512_block bs st =
     sha512_add st (fold sha512_round (zip sha512_K (rev (sha512_extend 64 (rev (words64_of bs))))) st)"

text \<open>The length in bits is written in the low 64 of the 128 bits kept for it.\<close>

definition sha512_pad :: "nat list \<Rightarrow> nat list" where
  "sha512_pad m =
     m @ [128] @ replicate ((239 - length m mod 128) mod 128) 0 @ replicate 8 0
       @ bytes64_of (8 * of_nat (length m))"

function sha512_blocks :: "nat list \<Rightarrow> sha512_state \<Rightarrow> sha512_state" where
  "sha512_blocks bs st =
     (if bs = [] then st else sha512_blocks (drop 128 bs) (sha512_block (take 128 bs) st))"
  by pat_completeness auto
termination sha512_blocks
  by (relation "measure (\<lambda>p. length (fst p))") (auto simp: length_greater_0_conv [symmetric] simp del: length_greater_0_conv)

declare sha512_blocks.simps [simp del]

fun sha512_output :: "sha512_state \<Rightarrow> nat list" where
  "sha512_output (a, b, c, d, e, f, g, h) = concat (map bytes64_of [a, b, c, d, e, f, g, h])"

definition sha512 :: "nat list \<Rightarrow> nat list" where
  "sha512 m = sha512_output (sha512_blocks (sha512_pad m) sha512_init)"

definition hmac_key :: "nat list \<Rightarrow> nat list" where
  "hmac_key key = (let k = (if length key > 128 then sha512 key else key) in k @ replicate (128 - length k) 0)"

definition hmac_sha512 :: "nat list \<Rightarrow> nat list \<Rightarrow> nat list" where
  "hmac_sha512 key m =
     sha512 (map (\<lambda>b. b XOR 92) (hmac_key key) @ sha512 (map (\<lambda>b. b XOR 54) (hmac_key key) @ m))"

lemma sha512_K_roots: "list_all2 (root_bits64 3) primes80 sha512_K"
  by code_simp

lemma sha512_init_roots:
  "list_all2 (root_bits64 2) (take 8 primes80)
     (case sha512_init of (a, b, c, d, e, f, g, h) \<Rightarrow> [a, b, c, d, e, f, g, h])"
  by code_simp

lemma sha512_length [simp]: "length (sha512 m) = 64"
  by (cases "sha512_blocks (sha512_pad m) sha512_init" rule: sha512_output.cases) (simp add: sha512_def bytes64_of_def)

lemma sha512_bytes: "list_all (\<lambda>b. b < 256) (sha512 m)"
  by (cases "sha512_blocks (sha512_pad m) sha512_init" rule: sha512_output.cases)
    (simp add: sha512_def bytes64_of_def unat_byte)

end
