(* ===== verification/Pages.thy ===== *)
theory Pages
  imports TokenEndpoint Sha512
begin

text \<open>
  The browser-facing writers: the redirects, cookies and theme pages of \<^verbatim>\<open>internal/httpx/errors.go\<close>, the
  page frames of \<^verbatim>\<open>internal/oidc/themepage.go\<close>, and the values of \<^verbatim>\<open>internal/oidc/authsession.go\<close> that a
  browser carries back: the \<^verbatim>\<open>client_data\<close> parameter and the session hash.
\<close>

section \<open>Headers the request decides\<close>

definition requestMediaType :: "'db server \<Rightarrow> request \<Rightarrow> string" where
  "requestMediaType h r =
    (let ct = Rq_ContentType r; (front, _, found) = cut (CHR '';'') ct
     in to_lower (H_ToLower h) (if found then front else ct))"

definition framedRequestMediaTypes :: "string list" where
  "framedRequestMediaTypes = [''application/json'', ''application/xml'', ''application/x-www-form-urlencoded'']"

definition policyRequestMediaTypes :: "string list" where
  "policyRequestMediaTypes = [''application/x-www-form-urlencoded'']"

definition setEmptyBodyRequestHeaders :: "'db server \<Rightarrow> request \<Rightarrow> headers \<Rightarrow> headers" where
  "setEmptyBodyRequestHeaders h r hs =
    (let mediaType = requestMediaType h r;
         hs = (if mediaType \<in> set framedRequestMediaTypes then hs else header_Del hs ''X-Frame-Options'')
     in if mediaType \<in> set policyRequestMediaTypes then SetContentSecurityPolicy hs else hs)"

definition noStore :: string where "noStore = ''no-store, must-revalidate, max-age=0''"

definition empty_response :: "headers \<Rightarrow> nat \<Rightarrow> response" where
  "empty_response hs status =
    \<lparr>Resp_Status = status, Resp_Headers = hs, Resp_Challenge = None, Resp_Body = BodyEmpty\<rparr>"

definition WriteAuthorizationRedirect :: "'db server \<Rightarrow> request \<Rightarrow> headers \<Rightarrow> string \<Rightarrow> response" where
  "WriteAuthorizationRedirect h r hs location =
    (let hs = setEmptyBodyRequestHeaders h r (SetSecurityHeaders (suppressDate hs))
     in empty_response (header_Set (header_Set hs ''Cache-Control'' noStore) ''Location'' location) 302)"

definition WriteLogoutRedirect :: "'db server \<Rightarrow> request \<Rightarrow> headers \<Rightarrow> string \<Rightarrow> response" where
  "WriteLogoutRedirect h r hs location =
    (let hs = setEmptyBodyRequestHeaders h r (SetSecurityHeaders (suppressDate hs))
     in empty_response (header_Set (header_Set hs ''Cache-Control'' ''no-cache'') ''Location'' location) 302)"

definition WriteLoginActionRedirect :: "headers \<Rightarrow> string \<Rightarrow> response" where
  "WriteLoginActionRedirect hs location =
    (let hs = SetContentSecurityPolicy (SetSecurityHeaders (suppressDate hs))
     in empty_response (header_Set (header_Set hs ''Cache-Control'' noStore) ''Location'' location) 302)"

definition WriteNoContent :: "'db server \<Rightarrow> request \<Rightarrow> headers \<Rightarrow> response" where
  "WriteNoContent h r hs =
    (let hs = suppressDate hs;
         hs = (if requestMediaType h r \<in> set framedRequestMediaTypes then hs else header_Del hs ''X-Frame-Options'')
     in empty_response hs 204)"

section \<open>Pages\<close>

definition writeThemeHTMLBody :: "headers \<Rightarrow> nat \<Rightarrow> string \<Rightarrow> page \<Rightarrow> response" where
  "writeThemeHTMLBody hs status cacheControl pg =
    (let hs = (if cacheControl = [] then hs else header_Set hs ''Cache-Control'' cacheControl);
         hs = header_Set (header_Set hs ''Content-Language'' ''en'') ''Content-Type'' ''text/html;charset=utf-8''
     in \<lparr>Resp_Status = status, Resp_Headers = hs, Resp_Challenge = None, Resp_Body = BodyPage pg\<rparr>)"

definition ContentSecurityPolicy :: string where
  "ContentSecurityPolicy = ''frame-src '' @ [CHR 0x27] @ ''self'' @ [CHR 0x27] @ ''; frame-ancestors '' @ [CHR 0x27]
     @ ''self'' @ [CHR 0x27] @ ''; object-src '' @ [CHR 0x27] @ ''none'' @ [CHR 0x27] @ '';''"

definition writeThemeHTMLPolicy :: "headers \<Rightarrow> nat \<Rightarrow> string \<Rightarrow> page \<Rightarrow> string \<Rightarrow> response" where
  "writeThemeHTMLPolicy hs status cacheControl pg policy =
     writeThemeHTMLBody (header_Set (SetSecurityHeaders (suppressDate hs)) ''Content-Security-Policy'' policy)
       status cacheControl pg"

definition writeThemeHTML :: "headers \<Rightarrow> nat \<Rightarrow> string \<Rightarrow> page \<Rightarrow> response" where
  "writeThemeHTML hs status cacheControl pg = writeThemeHTMLPolicy hs status cacheControl pg ContentSecurityPolicy"

definition WriteThemeErrorPage :: "headers \<Rightarrow> nat \<Rightarrow> string \<Rightarrow> theme_chrome \<Rightarrow> string \<Rightarrow> response" where
  "WriteThemeErrorPage hs status cacheControl c instruction =
     writeThemeHTML hs status cacheControl (ErrorPage c instruction)"

definition WriteThemeInfoPage :: "headers \<Rightarrow> nat \<Rightarrow> string \<Rightarrow> theme_chrome \<Rightarrow> string \<Rightarrow> string \<Rightarrow> response" where
  "WriteThemeInfoPage hs status cacheControl c title instruction =
     writeThemeHTML hs status cacheControl (InfoPage c title instruction)"

definition WriteThemeExpiredPage :: "headers \<Rightarrow> string \<Rightarrow> theme_chrome \<Rightarrow> string \<Rightarrow> string \<Rightarrow> response" where
  "WriteThemeExpiredPage hs cacheControl c restart cont =
     writeThemeHTML hs 200 cacheControl (ExpiredPage c restart cont)"

definition WriteThemePagePolicy :: "headers \<Rightarrow> nat \<Rightarrow> string \<Rightarrow> string \<Rightarrow> string \<Rightarrow> response" where
  "WriteThemePagePolicy hs status cacheControl title policy =
     writeThemeHTMLPolicy hs status cacheControl (TitlePage title) policy"

definition WriteThemePage :: "headers \<Rightarrow> nat \<Rightarrow> string \<Rightarrow> string \<Rightarrow> response" where
  "WriteThemePage hs status cacheControl title =
     WriteThemePagePolicy hs status cacheControl title ContentSecurityPolicy"

definition WriteThemeLoginPage :: "headers \<Rightarrow> theme_chrome \<Rightarrow> string \<Rightarrow> string \<Rightarrow> string \<Rightarrow> response" where
  "WriteThemeLoginPage hs c action username message =
     writeThemeHTML hs 200 noStore (LoginPage c action username message)"

definition WriteThemeUpdatePasswordPage :: "headers \<Rightarrow> string \<Rightarrow> string \<Rightarrow> response" where
  "WriteThemeUpdatePasswordPage hs action message =
     writeThemeHTML hs 200 noStore (UpdatePasswordPage action message)"

definition WriteThemeUpdateProfilePage ::
  "headers \<Rightarrow> string \<Rightarrow> string \<Rightarrow> string \<Rightarrow> string \<Rightarrow> string \<Rightarrow> response" where
  "WriteThemeUpdateProfilePage hs action email firstName lastName message =
     writeThemeHTML hs 200 noStore (UpdateProfilePage action email firstName lastName message)"

definition WriteThemeConsentPage :: "headers \<Rightarrow> string \<Rightarrow> string \<Rightarrow> string \<Rightarrow> response" where
  "WriteThemeConsentPage hs action clientID code =
     writeThemeHTML hs 200 noStore (ConsentPage action clientID code)"

definition WriteThemeDeviceCodePage :: "headers \<Rightarrow> string \<Rightarrow> theme_chrome \<Rightarrow> string \<Rightarrow> response" where
  "WriteThemeDeviceCodePage hs action c message =
     writeThemeHTML hs 200 noStore (DeviceCodePage action c message)"

text \<open>The inputs of a form-post page are in the order a Java map holds their names.\<close>

definition WriteFormPost :: "headers \<Rightarrow> string \<Rightarrow> (string \<times> string) list \<Rightarrow> string \<Rightarrow> response option" where
  "WriteFormPost hs action params replaceState =
    (case KeyOrder (map fst params) of
       None \<Rightarrow> None
     | Some names \<Rightarrow>
         (let inputs = map (\<lambda>n. (n, the (map_of params n))) names;
              hs = SetContentSecurityPolicy (SetSecurityHeaders (suppressDate hs));
              hs = header_Set (header_Set hs ''Cache-Control'' noStore) ''Content-Type'' ''text/html''
          in Some \<lparr>Resp_Status = 200, Resp_Headers = hs, Resp_Challenge = None,
                Resp_Body = BodyPage (FormPostPage action inputs replaceState)\<rparr>))"

section \<open>Cookies\<close>

record cookie =
  Cookie_Name :: string
  Cookie_Value :: string
  Cookie_Quoted :: bool
  Cookie_Path :: string
  Cookie_MaxAge :: int
  Cookie_SetMaxAge :: bool
  Cookie_Secure :: bool
  Cookie_HTTPOnly :: bool
  Cookie_SameSite :: string

definition zero_cookie :: cookie where
  "zero_cookie = \<lparr>Cookie_Name = [], Cookie_Value = [], Cookie_Quoted = False, Cookie_Path = [], Cookie_MaxAge = 0,
     Cookie_SetMaxAge = False, Cookie_Secure = False, Cookie_HTTPOnly = False, Cookie_SameSite = []\<rparr>"

definition cookie_text :: "cookie \<Rightarrow> string" where
  "cookie_text c =
    (let val = (if Cookie_Quoted c then [CHR 0x22] @ Cookie_Value c @ [CHR 0x22] else Cookie_Value c)
     in join '';'' ([Cookie_Name c @ ''='' @ val, ''Version=1'']
          @ (if Cookie_Path c = [] then [] else [''Path='' @ Cookie_Path c])
          @ (if Cookie_SetMaxAge c then [''Max-Age='' @ bytes_string (int_digits (Cookie_MaxAge c))] else [])
          @ (if Cookie_Secure c then [''Secure''] else [])
          @ (if Cookie_HTTPOnly c then [''HttpOnly''] else [])
          @ (if Cookie_SameSite c = [] then [] else [''SameSite='' @ Cookie_SameSite c])))"

definition SetKeycloakCookie :: "headers \<Rightarrow> cookie \<Rightarrow> headers" where
  "SetKeycloakCookie hs c = header_Add hs ''Set-Cookie'' (cookie_text c)"

definition authSessionCookie :: string where "authSessionCookie = ''AUTH_SESSION_ID''"
definition authHashCookie :: string where "authHashCookie = ''KC_AUTH_SESSION_HASH''"
definition restartCookie :: string where "restartCookie = ''KC_RESTART''"
definition identityCookie :: string where "identityCookie = ''KEYCLOAK_IDENTITY''"
definition sessionCookie :: string where "sessionCookie = ''KEYCLOAK_SESSION''"

definition request_cookie :: "request \<Rightarrow> string \<Rightarrow> string option" where
  "request_cookie r name = map_of (Rq_Cookies r) name"

section \<open>Values a browser carries\<close>

record client_data =
  CD_RedirectURI :: string
  CD_ResponseType :: "string option"
  CD_ResponseMode :: "string option"
  CD_State :: "string option"

definition client_data_json :: "client_data \<Rightarrow> json" where
  "client_data_json c = JObj ([(''ru'', JStr (CD_RedirectURI c))]
     @ (case CD_ResponseType c of None \<Rightarrow> [] | Some s \<Rightarrow> [(''rt'', JStr s)])
     @ (case CD_ResponseMode c of None \<Rightarrow> [] | Some s \<Rightarrow> [(''rm'', JStr s)])
     @ (case CD_State c of None \<Rightarrow> [] | Some s \<Rightarrow> [(''st'', JStr s)]))"

definition encodeClientData :: "string \<Rightarrow> string \<Rightarrow> bool \<Rightarrow> string \<Rightarrow> string \<Rightarrow> bool \<Rightarrow> string" where
  "encodeClientData redirectURI responseType hasResponseType responseMode state hasState =
    b64_encode (json_text (client_data_json
      \<lparr>CD_RedirectURI = redirectURI,
       CD_ResponseType = (if hasResponseType then Some responseType else None),
       CD_ResponseMode = (if responseMode = [] then None else Some responseMode),
       CD_State = (if hasState then Some state else None)\<rparr>))"

definition deviceClientData :: string where "deviceClientData = ''e30''"

definition responseTypeCode :: string where "responseTypeCode = ''code''"

definition tab_clientData :: "auth_tab \<Rightarrow> string" where
  "tab_clientData t =
    (if Tab_DeviceUserCode t \<noteq> [] then deviceClientData
     else if Tab_SAMLBinding t \<noteq> []
     then encodeClientData (Tab_RedirectURI t) (Tab_SAMLRequestID t) (Tab_SAMLRequestID t \<noteq> [])
            (Tab_SAMLBinding t) (Tab_State t) (Tab_HasState t)
     else encodeClientData (Tab_RedirectURI t) responseTypeCode True
            (Tab_ResponseMode t) (Tab_State t) (Tab_HasState t))"

definition pointer_string :: "json \<Rightarrow> string option option" where
  "pointer_string v = (case v of JNull \<Rightarrow> Some None | JStr s \<Rightarrow> Some (Some s) | _ \<Rightarrow> None)"

definition set_client_data :: "string \<Rightarrow> json \<Rightarrow> client_data \<Rightarrow> client_data option" where
  "set_client_data k v c =
    (let n = fold_name k
     in if n = fold_name ''ru'' then map_option (\<lambda>s. c\<lparr>CD_RedirectURI := s\<rparr>) (as_string (CD_RedirectURI c) v)
        else if n = fold_name ''rt'' then map_option (\<lambda>p. c\<lparr>CD_ResponseType := p\<rparr>) (pointer_string v)
        else if n = fold_name ''rm'' then map_option (\<lambda>p. c\<lparr>CD_ResponseMode := p\<rparr>) (pointer_string v)
        else if n = fold_name ''st'' then map_option (\<lambda>p. c\<lparr>CD_State := p\<rparr>) (pointer_string v)
        else Some c)"

definition zero_client_data :: client_data where
  "zero_client_data = \<lparr>CD_RedirectURI = [], CD_ResponseType = None, CD_ResponseMode = None, CD_State = None\<rparr>"

definition decodeClientData :: "string \<Rightarrow> client_data option" where
  "decodeClientData raw =
    (case b64_decode raw of
       None \<Rightarrow> None
     | Some decoded \<Rightarrow>
         (case json_parse decoded of
            None \<Rightarrow> None
          | Some j \<Rightarrow> unmarshal_struct set_client_data zero_client_data j))"

definition validClientData :: "string \<Rightarrow> bool" where
  "validClientData raw \<longleftrightarrow> raw = [] \<or> decodeClientData raw \<noteq> None"

definition authHashBytes :: nat where "authHashBytes = 48"

definition sessionHash :: "realm_keys \<Rightarrow> string \<Rightarrow> string" where
  "sessionHash k sessionID =
     b64_std (take authHashBytes
       (hmac_sha512 (HMACSecret k) (string_bytes (''gloak-auth-session-hash:'' @ sessionID))))"

definition executionID :: "string \<Rightarrow> string" where
  "executionID realmID =
    (let s = sha256 (string_bytes (''gloak-login-execution:'' @ realmID))
     in hex_encode (take 4 s) @ ''-'' @ hex_encode (take 2 (drop 4 s)) @ ''-'' @ hex_encode (take 2 (drop 6 s))
          @ ''-'' @ hex_encode (take 2 (drop 8 s)) @ ''-'' @ hex_encode (take 6 (drop 10 s)))"

section \<open>Page frames\<close>

definition settings_strings :: "string \<Rightarrow> string \<Rightarrow> string option option" where
  "settings_strings settings key =
    (case json_parse (string_bytes settings) of
       None \<Rightarrow> None
     | Some j \<Rightarrow>
         unmarshal_struct (\<lambda>k v c. if fold_name k = fold_name key then pointer_string v else Some c) None j)"

text \<open>
  \<^verbatim>\<open>realmDisplay\<close> decodes both names in one go: a value of the wrong type for either, or a text that is
  no JSON, leaves the defaults.
\<close>

definition realmDisplay :: "realm \<Rightarrow> string \<times> string" where
  "realmDisplay realm =
    (let dflt = (if Realm_Name realm = ''master''
                 then (''Keycloak'', ''<div class='' @ [CHR 0x22] @ ''kc-logo-text'' @ [CHR 0x22]
                        @ ''><span>Keycloak</span></div>'')
                 else ([], []))
     in if Realm_Settings realm = [] then dflt
        else (case (settings_strings (Realm_Settings realm) ''displayName'',
                    settings_strings (Realm_Settings realm) ''displayNameHtml'') of
                (Some n, Some html) \<Rightarrow>
                  (case n of None \<Rightarrow> fst dflt | Some s \<Rightarrow> s, case html of None \<Rightarrow> snd dflt | Some s \<Rightarrow> s)
              | _ \<Rightarrow> dflt))"

definition themeChrome :: "realm \<Rightarrow> theme_chrome" where
  "themeChrome realm =
    (let (displayName, displayNameHTML) = realmDisplay realm
     in \<lparr>TC_Realm = Realm_Name realm, TC_DisplayName = displayName, TC_DisplayNameHTML = displayNameHTML,
         TC_RestartParams = [], TC_BackToApplication = [], TC_AuthSessionHash = []\<rparr>)"

definition ThemeRestartParams :: "string list \<Rightarrow> string" where
  "ThemeRestartParams params = (if params = [] then [] else join ''&'' params @ ''&'')"

definition rootURLBase :: "'db server \<Rightarrow> string \<Rightarrow> string" where
  "rootURLBase h rootURL =
    (if rootURL = [] \<or> rootURL = ''${authBaseUrl}'' \<or> rootURL = ''${authAdminUrl}'' then H_issuerBase h else rootURL)"

definition clientHomeURL :: "'db server \<Rightarrow> client \<Rightarrow> string" where
  "clientHomeURL h client =
    (if Client_BaseURL client = [] then []
     else if contains (Client_BaseURL client) ''://'' then Client_BaseURL client
     else rootURLBase h (Client_RootURL client) @ Client_BaseURL client)"

definition themeChromeFor :: "'db server \<Rightarrow> realm \<Rightarrow> client \<Rightarrow> string list \<Rightarrow> theme_chrome" where
  "themeChromeFor h realm client extra =
     (themeChrome realm)\<lparr>TC_RestartParams :=
         ThemeRestartParams ((''client_id='' @ query_escape (Client_ClientID client)) # extra),
       TC_BackToApplication := clientHomeURL h client\<rparr>"

definition flowChrome :: "'db server \<Rightarrow> realm \<Rightarrow> client \<Rightarrow> string \<Rightarrow> auth_tab \<Rightarrow> theme_chrome" where
  "flowChrome h realm client hash tab =
     (themeChromeFor h realm client [''tab_id='' @ query_escape (Tab_TabID tab),
        ''client_data='' @ query_escape (tab_clientData tab)])\<lparr>TC_AuthSessionHash := hash\<rparr>"

definition writeUnparseableBody :: "headers \<Rightarrow> response" where
  "writeUnparseableBody hs =
     WriteOAuthError hs 500 ''unknown_error'' ''For more on this error consult the server log.''"

end
