(* ===== verification/Authorize.thy ===== *)
theory Authorize
  imports Pages
begin

text \<open>
  The parts of \<^verbatim>\<open>internal/oidc/authorize.go\<close> that judge an authorization request and address its answer,
  and \<^verbatim>\<open>internal/oidc/flowbinding.go\<close>, which reads the realm's browser flow out of the store. The handlers
  that use them are in \<open>Login\<close>.
\<close>

section \<open>Redirect addresses\<close>

text \<open>One pattern of \<^verbatim>\<open>matchRedirectURI\<close>'s loop.\<close>

definition match_pattern :: "string \<Rightarrow> string \<Rightarrow> bool" where
  "match_pattern pattern uri =
    (let (prefix, wildcard) = cut_suffix pattern ''*''
     in if \<not> wildcard \<or> contains pattern ''?'' then pattern = uri
        else (let bare = fst (cut (CHR ''#'') (fst (cut (CHR ''?'') uri)));
                  (root, ok) = cut_suffix prefix ''/''
              in has_prefix bare prefix \<or> ok \<and> bare = root))"

definition matchRedirectURI :: "string list \<Rightarrow> string \<Rightarrow> bool" where
  "matchRedirectURI patterns uri \<longleftrightarrow> uri \<noteq> [] \<and> list_ex (\<lambda>pattern. match_pattern pattern uri) patterns"

section \<open>Parameters\<close>

definition responseModes :: "string list" where
  "responseModes = [''query'', ''fragment'', ''form_post'', ''jwt'', ''query.jwt'', ''fragment.jwt'', ''form_post.jwt'']"

definition responseModeFormPost :: string where "responseModeFormPost = ''form_post''"

definition servableResponseModes :: "string list" where
  "servableResponseModes = [''query'', ''fragment'', responseModeFormPost]"

datatype response_flow = FlowStandard | FlowImplicit

definition classifyResponseType :: "string \<Rightarrow> response_flow option" where
  "classifyResponseType raw =
    (let tokens = set (GoStd.fields raw)
     in if tokens = {} then None
        else if ''token'' \<in> tokens \<or> ''id_token'' \<in> tokens
        then (if tokens \<subseteq> {''token'', ''id_token'', ''code''} then Some FlowImplicit else None)
        else if tokens = {''code''} \<or> tokens = {''none''} then Some FlowStandard
        else None)"

definition defaultResponseMode :: "url_values \<Rightarrow> string \<Rightarrow> string" where
  "defaultResponseMode params responseType =
    (if form_has params ''response_mode'' \<and> values_get params ''response_mode'' \<in> set responseModes
     then values_get params ''response_mode''
     else if list_ex (\<lambda>t. t = ''token'' \<or> t = ''id_token'') (GoStd.fields responseType) then ''fragment''
     else ''query'')"

definition scopesAllowed :: "client \<Rightarrow> string \<Rightarrow> bool" where
  "scopesAllowed client requested =
    (let fs = GoStd.fields requested
     in fs \<noteq> [] \<and> list_all (\<lambda>s. s = ''openid'' \<or> s \<in> set (Client_DefaultClientScopes client)
          \<or> s \<in> set (Client_OptionalClientScopes client)) fs)"

definition descMissingChallenge :: string where "descMissingChallenge = ''Missing parameter: code_challenge''"
definition descInvalidChallengeMeth :: string where
  "descInvalidChallengeMeth = ''Invalid parameter: code_challenge_method''"
definition descInvalidChallenge :: string where "descInvalidChallenge = ''Invalid parameter: code_challenge''"

definition checkPKCE :: "url_values \<Rightarrow> string option" where
  "checkPKCE params =
    (if form_has params ''code_challenge_method'' \<and> \<not> form_has params ''code_challenge'' then Some descMissingChallenge
     else if \<not> form_has params ''code_challenge'' then None
     else if form_has params ''code_challenge_method'' \<and> values_get params ''code_challenge_method'' \<noteq> ''plain''
             \<and> values_get params ''code_challenge_method'' \<noteq> ''S256''
     then Some descInvalidChallengeMeth
     else if \<not> validCodeChallenge (values_get params ''code_challenge'') then Some descInvalidChallenge
     else None)"

text \<open>\<^const>\<open>None\<close> is a body that cannot be form-decoded.\<close>

definition authorizationParams :: "request \<Rightarrow> url_values option" where
  "authorizationParams r = (if Rq_Method r = ''POST'' then Rq_PostForm r else Some (Rq_Query r))"

definition parseMaxAge :: "url_values \<Rightarrow> (int option) option" where
  "parseMaxAge params =
    (if \<not> form_has params ''max_age'' then Some None
     else (case atoi (values_get params ''max_age'') of None \<Rightarrow> None | Some n \<Rightarrow> Some (Some n)))"

section \<open>Answers\<close>

definition pageInvalidRequest :: string where "pageInvalidRequest = ''Invalid Request''"
definition pageClientNotFound :: string where "pageClientNotFound = ''Client not found.''"
definition pageClientDisabled :: string where "pageClientDisabled = ''Client disabled.''"
definition pageBearerOnly :: string where
  "pageBearerOnly = ''Bearer-only applications are not allowed to initiate browser login''"
definition pageInvalidRedirectURI :: string where "pageInvalidRedirectURI = ''Invalid parameter: redirect_uri''"

definition resolveAuthClient :: "'db server \<Rightarrow> 'db \<Rightarrow> realm \<Rightarrow> string \<Rightarrow> bool \<Rightarrow> string + client" where
  "resolveAuthClient h db realm clientID present =
    (if \<not> present then Inl pageInvalidRequest
     else (case ClientRepo_ByClientID (Store_Clients (H_store h)) db (Realm_ID realm) clientID of
             Inl _ \<Rightarrow> Inl pageClientNotFound
           | Inr client \<Rightarrow> if \<not> Client_Enabled client then Inl pageClientDisabled else Inr client))"

definition authClient :: "'db server \<Rightarrow> 'db \<Rightarrow> realm \<Rightarrow> string \<Rightarrow> client option" where
  "authClient h db realm clientID =
    (case resolveAuthClient h db realm clientID (clientID \<noteq> []) of Inl _ \<Rightarrow> None | Inr c \<Rightarrow> Some c)"

definition location_separator :: "string \<Rightarrow> string" where
  "location_separator mode = (if mode = ''fragment'' \<or> mode = ''fragment.jwt'' then ''#'' else ''?'')"

definition authorizationErrorLocation ::
  "'db server \<Rightarrow> string \<Rightarrow> string \<Rightarrow> string \<Rightarrow> string \<Rightarrow> string \<Rightarrow> string \<Rightarrow> bool \<Rightarrow> string" where
  "authorizationErrorLocation h realm redirectURI mode code description state hasState =
     redirectURI @ location_separator mode @ join ''&''
       ([''error='' @ query_escape code]
        @ (if description = [] then [] else [''error_description='' @ query_escape description])
        @ (if hasState then [''state='' @ query_escape state] else [])
        @ [''iss='' @ query_escape (realmIssuer h realm)])"

definition writeAuthorizationError ::
  "'db server \<Rightarrow> (string \<Rightarrow> response) \<Rightarrow> headers \<Rightarrow> string \<Rightarrow> string \<Rightarrow> string \<Rightarrow> string \<Rightarrow> string \<Rightarrow> string \<Rightarrow> bool
     \<Rightarrow> response option" where
  "writeAuthorizationError h redirect hs realm redirectURI mode code description state hasState =
    (if mode = responseModeFormPost
     then WriteFormPost hs redirectURI ([(''error'', code), (''iss'', realmIssuer h realm)]
            @ (if description = [] then [] else [(''error_description'', description)])
            @ (if hasState then [(''state'', state)] else [])) []
     else Some (redirect (authorizationErrorLocation h realm redirectURI mode code description state hasState)))"

definition authorizationCodeLocation :: "'db server \<Rightarrow> string \<Rightarrow> auth_tab \<Rightarrow> string \<Rightarrow> string \<Rightarrow> string" where
  "authorizationCodeLocation h realm tab sessionState code =
     Tab_RedirectURI tab @ location_separator (Tab_ResponseMode tab) @ join ''&''
       ((if Tab_HasState tab then [''state='' @ query_escape (Tab_State tab)] else [])
        @ [''session_state='' @ query_escape sessionState, ''iss='' @ query_escape (realmIssuer h realm),
           ''code='' @ query_escape code])"

definition writeAuthorizationCode ::
  "'db server \<Rightarrow> (string \<Rightarrow> response) \<Rightarrow> headers \<Rightarrow> string \<Rightarrow> auth_tab \<Rightarrow> string \<Rightarrow> string \<Rightarrow> string \<Rightarrow> response option" where
  "writeAuthorizationCode h redirect hs realm tab sessionState code replaceState =
    (if Tab_ResponseMode tab = responseModeFormPost
     then WriteFormPost hs (Tab_RedirectURI tab) ([(''code'', code), (''iss'', realmIssuer h realm),
            (''session_state'', sessionState)] @ (if Tab_HasState tab then [(''state'', Tab_State tab)] else []))
            replaceState
     else Some (redirect (authorizationCodeLocation h realm tab sessionState code)))"

section \<open>The browser flow\<close>

definition defaultBrowserFlowAlias :: string where "defaultBrowserFlowAlias = ''browser''"
definition usernamePasswordAuthenticator :: string where
  "usernamePasswordAuthenticator = ''auth-username-password-form''"
definition cookieAuthenticator :: string where "cookieAuthenticator = ''auth-cookie''"
definition requirementDisabled :: string where "requirementDisabled = ''DISABLED''"

definition browserFlowAlias :: "realm \<Rightarrow> string" where
  "browserFlowAlias realm =
    (if Realm_Settings realm = [] then defaultBrowserFlowAlias
     else (case settings_strings (Realm_Settings realm) ''browserFlow'' of
             Some (Some s) \<Rightarrow> if s = [] then defaultBrowserFlowAlias else s
           | _ \<Rightarrow> defaultBrowserFlowAlias))"

text \<open>
  The closure \<open>walk\<close>: its depth limit is the first argument, the number of levels still allowed; \<open>rows\<close>
  lists a flow's executions, \<open>known\<close> says which flows the realm has, and the set of flows seen is threaded
  through. The second function is the loop over one flow's rows.
\<close>

fun walk :: "(string \<Rightarrow> authentication_execution list st) \<Rightarrow> (string \<Rightarrow> bool) \<Rightarrow> string \<Rightarrow> nat \<Rightarrow> string \<Rightarrow> string list
    \<Rightarrow> authentication_execution option \<times> string list"
  and walk_rows :: "(string \<Rightarrow> authentication_execution list st) \<Rightarrow> (string \<Rightarrow> bool) \<Rightarrow> string \<Rightarrow> nat
    \<Rightarrow> authentication_execution list \<Rightarrow> string list \<Rightarrow> authentication_execution option \<times> string list"
where
  "walk rows known authenticator 0 flowID seen = (None, seen)"
| "walk rows known authenticator (Suc n) flowID seen =
    (if flowID \<in> set seen then (None, seen)
     else (case rows flowID of
             Inl _ \<Rightarrow> (None, flowID # seen)
           | Inr es \<Rightarrow> walk_rows rows known authenticator n es (flowID # seen)))"
| "walk_rows rows known authenticator n [] seen = (None, seen)"
| "walk_rows rows known authenticator n (e # es) seen =
    (if Exec_Authenticator e = authenticator then (Some e, seen)
     else if Exec_FlowID e \<noteq> [] \<and> known (Exec_FlowID e)
     then (case walk rows known authenticator n (Exec_FlowID e) seen of
             (Some x, seen) \<Rightarrow> (Some x, seen)
           | (None, seen) \<Rightarrow> walk_rows rows known authenticator n es seen)
     else walk_rows rows known authenticator n es seen)"

text \<open>The last of the matching top-level flows is the root.\<close>

definition root_flow :: "string \<Rightarrow> authentication_flow list \<Rightarrow> authentication_flow option" where
  "root_flow alias flows = find (\<lambda>f. Flow_TopLevel f \<and> Flow_Alias f = Some alias) (rev flows)"

definition browserFlowExecution :: "'db server \<Rightarrow> 'db \<Rightarrow> realm \<Rightarrow> string \<Rightarrow> authentication_execution option" where
  "browserFlowExecution h db realm authenticator =
    (let repo = Store_AuthenticationFlows (H_store h)
     in case FlowRepo_ListFlows repo db (Realm_ID realm) of
          Inl _ \<Rightarrow> None
        | Inr flows \<Rightarrow>
            (case root_flow (browserFlowAlias realm) flows of
               None \<Rightarrow> None
             | Some root \<Rightarrow>
                 fst (walk (FlowRepo_ListExecutions repo db (Realm_ID realm)) (\<lambda>i. i \<in> set (map Flow_ID flows))
                   authenticator (length flows + 1) (Flow_ID root) [])))"

definition loginExecutionID :: "'db server \<Rightarrow> 'db \<Rightarrow> realm \<Rightarrow> string" where
  "loginExecutionID h db realm =
    (case browserFlowExecution h db realm usernamePasswordAuthenticator of
       Some e \<Rightarrow> Exec_ID e | None \<Rightarrow> executionID (Realm_ID realm))"

definition ssoEnabled :: "'db server \<Rightarrow> 'db \<Rightarrow> realm \<Rightarrow> bool" where
  "ssoEnabled h db realm =
    (case browserFlowExecution h db realm cookieAuthenticator of
       Some e \<Rightarrow> Exec_Requirement e \<noteq> requirementDisabled | None \<Rightarrow> True)"

end
