(* ===== verification/Login.thy ===== *)
theory Login
  imports Authorize
begin

text \<open>
  The browser login: the authorization endpoint of \<^verbatim>\<open>internal/oidc/authorize.go\<close>, the single sign-on
  decision of \<^verbatim>\<open>sso.go\<close>, the login actions of \<^verbatim>\<open>loginactions.go\<close>, the required actions of
  \<^verbatim>\<open>requiredactions.go\<close>, the consent page of \<^verbatim>\<open>consent.go\<close> and the device grant's browser half in
  \<^verbatim>\<open>deviceverify.go\<close>. Sessions and tabs are addresses in the heap of \<open>AuthStore\<close>. The response headers
  written so far are an argument, since a handler sets cookies before it knows which response it ends
  with; a user struct the code updates in place is returned.
\<close>

section \<open>Authentication sessions\<close>

definition zero_tab :: auth_tab where
  "zero_tab = \<lparr>Tab_TabID = [], Tab_SessionCode = [], Tab_ClientID = [], Tab_ClientUUID = [], Tab_RedirectURI = [],
     Tab_ResponseMode = [], Tab_State = [], Tab_HasState = False, Tab_Scope = [], Tab_Nonce = [],
     Tab_CodeChallenge = [], Tab_CodeChallengeMethod = [], Tab_Username = [], Tab_Prompt = [], Tab_UserID = [],
     Tab_DeviceUserCode = [], Tab_SAMLBinding = [], Tab_SAMLRequestID = []\<rparr>"

definition zero_restart :: restart_record where
  "zero_restart = \<lparr>Rst_Realm = [], Rst_ClientID = [], Rst_RedirectURI = [], Rst_State = [], Rst_HasState = False,
     Rst_ResponseMode = [], Rst_Scope = [], Rst_Nonce = [], Rst_CodeChallenge = [], Rst_CodeChallengeMethod = [],
     Rst_DeviceUserCode = [], Rst_SAMLBinding = [], Rst_SAMLRequestID = [], Rst_ExpiresAt = zero_time\<rparr>"

definition update_tab :: "nat \<Rightarrow> (auth_tab \<Rightarrow> auth_tab) \<Rightarrow> auth_store \<Rightarrow> auth_store" where
  "update_tab a f s = s\<lparr>AS_tab_heap := (AS_tab_heap s)(a \<mapsto> f (tab_at s a))\<rparr>"

definition liveAuthSession :: "time \<Rightarrow> request \<Rightarrow> realm \<Rightarrow> 'db world \<Rightarrow> nat option \<times> 'db world" where
  "liveAuthSession now r realm w =
    (case request_cookie r authSessionCookie of
       None \<Rightarrow> (None, w)
     | Some val \<Rightarrow>
         (let (sess, s) = sessionByCookie (W_auth w) now (Realm_Name realm) val in (sess, w\<lparr>W_auth := s\<rparr>)))"

definition openTab :: "nat \<Rightarrow> 'db world \<Rightarrow> 'db world option" where
  "openTab tab w =
    (case randomBase64URL tabIDBytes (W_entropy w) of
       None \<Rightarrow> None
     | Some (tabID, e) \<Rightarrow>
         Some (w\<lparr>W_entropy := e, W_auth := update_tab tab (\<lambda>t. t\<lparr>Tab_TabID := tabID\<rparr>) (W_auth w)\<rparr>))"

definition writeRestartCookie ::
  "headers \<Rightarrow> time \<Rightarrow> realm \<Rightarrow> restart_record option \<Rightarrow> 'db world \<Rightarrow> bool \<times> headers \<times> 'db world" where
  "writeRestartCookie hs now realm restart w =
    (case restart of
       None \<Rightarrow> (True, hs, w)
     | Some rec \<Rightarrow>
         (case newRestart (W_auth w) now (W_entropy w) rec of
            None \<Rightarrow> (False, hs, w)
          | Some ((val, s), e) \<Rightarrow>
              (True, SetKeycloakCookie hs (zero_cookie\<lparr>Cookie_Name := restartCookie, Cookie_Value := val,
                 Cookie_Path := realmCookiePath (Realm_Name realm), Cookie_Secure := True, Cookie_HTTPOnly := True,
                 Cookie_SameSite := ''None''\<rparr>), w\<lparr>W_auth := s, W_entropy := e\<rparr>)))"

definition session_cookies :: "headers \<Rightarrow> realm \<Rightarrow> auth_session \<Rightarrow> headers" where
  "session_cookies hs realm sess =
    (let path = realmCookiePath (Realm_Name realm)
     in SetKeycloakCookie (SetKeycloakCookie hs
          (zero_cookie\<lparr>Cookie_Name := authSessionCookie,
             Cookie_Value := encodeAuthSessionID (Sess_RootID sess) (Sess_Secret sess), Cookie_Path := path,
             Cookie_Secure := True, Cookie_HTTPOnly := True, Cookie_SameSite := ''None''\<rparr>))
          (zero_cookie\<lparr>Cookie_Name := authHashCookie, Cookie_Value := Sess_Hash sess, Cookie_Quoted := True,
             Cookie_Path := path, Cookie_MaxAge := 60, Cookie_SetMaxAge := True, Cookie_Secure := True,
             Cookie_SameSite := ''None''\<rparr>))"

text \<open>The first component is the session, \<^const>\<open>None\<close> where the code returns an error.\<close>

definition resumeAuthSession ::
  "headers \<Rightarrow> time \<Rightarrow> realm \<Rightarrow> realm_keys \<Rightarrow> string \<Rightarrow> nat \<Rightarrow> restart_record option \<Rightarrow> 'db world
     \<Rightarrow> nat option \<times> headers \<times> 'db world" where
  "resumeAuthSession hs now realm k rootID tab restart w =
    (case openTab tab w of
       None \<Rightarrow> (None, hs, w)
     | Some w \<Rightarrow>
         (case newAuthSession (W_auth w) now (W_entropy w) (Realm_Name realm) rootID (sessionHash k rootID) tab of
            None \<Rightarrow> (None, hs, w)
          | Some ((sess, s), e) \<Rightarrow>
              (let hs = session_cookies hs realm (session_at s sess);
                   (ok, hs, w) = writeRestartCookie hs now realm restart (w\<lparr>W_auth := s, W_entropy := e\<rparr>)
               in (if ok then Some sess else None, hs, w))))"

definition beginAuthSession ::
  "headers \<Rightarrow> time \<Rightarrow> request \<Rightarrow> realm \<Rightarrow> realm_keys \<Rightarrow> nat \<Rightarrow> restart_record option \<Rightarrow> 'db world
     \<Rightarrow> nat option \<times> headers \<times> 'db world" where
  "beginAuthSession hs now r realm k tab restart w =
    (case liveAuthSession now r realm w of
       (Some sess, w) \<Rightarrow>
         (case openTab tab w of
            None \<Rightarrow> (None, hs, w)
          | Some w \<Rightarrow>
              (let w = w\<lparr>W_auth := addTab (W_auth w) now sess tab\<rparr>;
                   (ok, hs, w) = writeRestartCookie hs now realm restart w
               in (if ok then Some sess else None, hs, w)))
     | (None, w) \<Rightarrow>
         (case randomBase64URL rootIDBytes (W_entropy w) of
            None \<Rightarrow> (None, hs, w)
          | Some (rootID, e) \<Rightarrow> resumeAuthSession hs now realm k rootID tab restart (w\<lparr>W_entropy := e\<rparr>)))"

definition new_tab :: "auth_tab \<Rightarrow> 'db world \<Rightarrow> nat \<times> 'db world" where
  "new_tab t w = (let (a, s) = alloc_tab (W_auth w) t in (a, w\<lparr>W_auth := s\<rparr>))"

section \<open>The login page\<close>

definition action_url :: "'db server \<Rightarrow> string \<Rightarrow> string \<Rightarrow> string list \<Rightarrow> string" where
  "action_url h realm path params = realmBase h realm @ ''/login-actions/'' @ path @ ''?'' @ join ''&'' params"

definition url_param :: "string \<Rightarrow> string \<Rightarrow> string" where
  "url_param name val = name @ ''='' @ query_escape val"

definition tab_params :: "auth_tab \<Rightarrow> string list" where
  "tab_params t = [url_param ''client_id'' (Tab_ClientID t), url_param ''tab_id'' (Tab_TabID t),
     url_param ''client_data'' (tab_clientData t)]"

definition loginActionURL :: "'db server \<Rightarrow> 'db \<Rightarrow> realm \<Rightarrow> auth_tab \<Rightarrow> string \<Rightarrow> string" where
  "loginActionURL h db realm t sessionCode = action_url h (Realm_Name realm) ''authenticate''
     ([url_param ''session_code'' sessionCode, url_param ''execution'' (loginExecutionID h db realm)] @ tab_params t)"

definition serveLoginPage ::
  "'db server \<Rightarrow> headers \<Rightarrow> time \<Rightarrow> realm \<Rightarrow> client \<Rightarrow> nat \<Rightarrow> nat \<Rightarrow> string \<Rightarrow> string \<Rightarrow> 'db world \<Rightarrow> 'db outcome" where
  "serveLoginPage h hs now realm client sess tab username message w =
    (case rotateSessionCode (W_auth w) now (W_entropy w) sess tab username of
       None \<Rightarrow> Some (internal_error hs, w)
     | Some ((code, s), e) \<Rightarrow>
         (let t = tab_at s tab; w = w\<lparr>W_auth := s, W_entropy := e\<rparr>
          in Some (WriteThemeLoginPage hs (flowChrome h realm client (Sess_Hash (session_at s sess)) t)
               (loginActionURL h (W_db w) realm t code) username message, w)))"

definition loginActionCacheControl :: string where "loginActionCacheControl = noStore"

definition serveExpiredPage ::
  "'db server \<Rightarrow> headers \<Rightarrow> realm \<Rightarrow> client \<Rightarrow> nat \<Rightarrow> nat \<Rightarrow> 'db world \<Rightarrow> 'db outcome" where
  "serveExpiredPage h hs realm client sess tab w =
    (let t = tab_at (W_auth w) tab;
         restart = ''/realms/'' @ Realm_Name realm @ ''/login-actions/restart?''
           @ join ''&'' (tab_params t @ [''skip_logout=false'']);
         cont = action_url h (Realm_Name realm) ''authenticate''
           (url_param ''execution'' (loginExecutionID h (W_db w) realm) # tab_params t)
     in Some (WriteThemeExpiredPage hs loginActionCacheControl
          (flowChrome h realm client (Sess_Hash (session_at (W_auth w) sess)) t) restart cont, w))"

definition loginActionChrome :: "'db server \<Rightarrow> 'db \<Rightarrow> realm \<Rightarrow> url_values \<Rightarrow> theme_chrome" where
  "loginActionChrome h db realm q =
    (case authClient h db realm (values_get q ''client_id'') of
       Some client \<Rightarrow> themeChromeFor h realm client [] | None \<Rightarrow> themeChrome realm)"

definition pageLoginActionError :: string where
  "pageLoginActionError = ''An error occurred, please login again through your application.''"

definition pageRestartCookieNotFound :: string where
  "pageRestartCookieNotFound = ''Restart login cookie not found. It may have expired; it may have ''
     @ ''been deleted or cookies are disabled in your browser. If cookies are disabled then enable ''
     @ ''them. Click Back to Application to login again.''"

definition pageVerifyEmailFailed :: string where
  "pageVerifyEmailFailed = ''Failed to send email, please try again later.''"

definition writeLoginActionErrorPage :: "headers \<Rightarrow> theme_chrome \<Rightarrow> string \<Rightarrow> response" where
  "writeLoginActionErrorPage hs c instruction = WriteThemeErrorPage hs 400 loginActionCacheControl c instruction"

text \<open>\<^verbatim>\<open>decodeLoginActionBody\<close>, with the rest of the handler as its last argument.\<close>

definition decodeLoginActionBody ::
  "headers \<Rightarrow> request \<Rightarrow> 'db world \<Rightarrow> (url_values \<Rightarrow> 'db outcome) \<Rightarrow> 'db outcome" where
  "decodeLoginActionBody hs r w f =
    (case Rq_PostForm r of
       None \<Rightarrow> Some (writeUnparseableBody (header_Set hs ''Cache-Control'' loginActionCacheControl), w)
     | Some form \<Rightarrow> f form)"

section \<open>Required actions\<close>

definition updatePasswordAction :: string where "updatePasswordAction = ''UPDATE_PASSWORD''"
definition updateProfileAction :: string where "updateProfileAction = ''UPDATE_PROFILE''"
definition verifyEmailAction :: string where "verifyEmailAction = ''VERIFY_EMAIL''"
definition verifyProfileAction :: string where "verifyProfileAction = ''VERIFY_PROFILE''"
definition configureTOTPAction :: string where "configureTOTPAction = ''CONFIGURE_TOTP''"
definition webauthnRegisterAction :: string where "webauthnRegisterAction = ''webauthn-register''"
definition webauthnPasswordless :: string where "webauthnPasswordless = ''webauthn-register-passwordless''"
definition recoveryCodesAction :: string where "recoveryCodesAction = ''CONFIGURE_RECOVERY_AUTHN_CODES''"
definition executionOAuthGrant :: string where "executionOAuthGrant = ''OAUTH_GRANT''"

datatype required_action_kind = ActionSkipped | ActionSelfClears | ActionPlaceholder | ActionForm

definition requiredActionTable :: "(string \<times> required_action_kind \<times> string) list" where
  "requiredActionTable =
    [(updateProfileAction, ActionForm, ''Update Account Information''),
     (updatePasswordAction, ActionForm, ''Update password''),
     (configureTOTPAction, ActionPlaceholder, ''Mobile Authenticator Setup''),
     (webauthnRegisterAction, ActionPlaceholder, ''Passkey Registration''),
     (webauthnPasswordless, ActionPlaceholder, ''Passkey Registration''),
     (recoveryCodesAction, ActionPlaceholder, ''Recovery Authentication Codes''),
     (verifyProfileAction, ActionSelfClears, []),
     (''delete_credential'', ActionSkipped, []), (''idp_link'', ActionSkipped, []),
     (''update_user_locale'', ActionSkipped, [])]"

definition action_spec :: "string \<Rightarrow> required_action_kind \<times> string" where
  "action_spec alias = (case map_of requiredActionTable alias of None \<Rightarrow> (ActionSkipped, []) | Some p \<Rightarrow> p)"

definition clearRequiredAction :: "'db server \<Rightarrow> user \<Rightarrow> string \<Rightarrow> 'db \<Rightarrow> bool \<times> user \<times> 'db" where
  "clearRequiredAction h user alias db =
    (let updated = user\<lparr>User_RequiredActions := filter (\<lambda>a. a \<noteq> alias) (User_RequiredActions user)\<rparr>
     in case UserRepo_Update (Store_Users (H_store h)) db updated of
          Inl _ \<Rightarrow> (False, user, db) | Inr db \<Rightarrow> (True, updated, db))"

text \<open>The loop of \<^verbatim>\<open>nextRequiredAction\<close>; \<^const>\<open>None\<close> is an error of the store.\<close>

fun next_action_loop ::
  "'db server \<Rightarrow> required_action_provider list \<Rightarrow> user \<Rightarrow> 'db \<Rightarrow> string option \<times> user \<times> 'db" where
  "next_action_loop h [] user db = (Some [], user, db)"
| "next_action_loop h (p # ps) user db =
    (if \<not> RAP_Enabled p \<or> RAP_Alias p \<notin> set (User_RequiredActions user) then next_action_loop h ps user db
     else if RAP_Alias p = verifyEmailAction \<and> \<not> User_EmailVerified user then (Some verifyEmailAction, user, db)
     else if RAP_Alias p = verifyEmailAction \<or> fst (action_spec (RAP_Alias p)) = ActionSelfClears
     then (case clearRequiredAction h user (RAP_Alias p) db of
             (False, user, db) \<Rightarrow> (None, user, db)
           | (True, user, db) \<Rightarrow> next_action_loop h ps user db)
     else if fst (action_spec (RAP_Alias p)) = ActionSkipped then next_action_loop h ps user db
     else (Some (RAP_Alias p), user, db))"

definition nextRequiredAction :: "'db server \<Rightarrow> realm \<Rightarrow> user \<Rightarrow> 'db \<Rightarrow> string option \<times> user \<times> 'db" where
  "nextRequiredAction h realm user db =
    (if User_RequiredActions user = [] then (Some [], user, db)
     else (case RequiredActionRepo_ListByRealm (Store_RequiredActions (H_store h)) db (Realm_ID realm) of
             Inl _ \<Rightarrow> (None, user, db)
           | Inr providers \<Rightarrow> next_action_loop h providers user db))"

definition parsePrompt :: "string \<Rightarrow> string list" where
  "parsePrompt raw = GoStd.fields raw"

definition consentNeeded :: "consent_store \<Rightarrow> realm \<Rightarrow> client \<Rightarrow> user \<Rightarrow> string list \<Rightarrow> bool" where
  "consentNeeded c realm client user prompt =
    (Client_ConsentRequired client
     \<and> (''consent'' \<in> set prompt \<or> \<not> consent_granted c (Realm_ID realm) (User_ID user) (Client_ID client)))"

definition tabConsentNeeded :: "consent_store \<Rightarrow> realm \<Rightarrow> client \<Rightarrow> user \<Rightarrow> auth_tab \<Rightarrow> bool" where
  "tabConsentNeeded c realm client user t =
    (Tab_DeviceUserCode t \<noteq> [] \<or> consentNeeded c realm client user (parsePrompt (Tab_Prompt t)))"

text \<open>What the tab is waiting for: the empty string is nothing.\<close>

definition tabStep ::
  "'db server \<Rightarrow> realm \<Rightarrow> client \<Rightarrow> user \<Rightarrow> nat \<Rightarrow> 'db world \<Rightarrow> string option \<times> user \<times> 'db world" where
  "tabStep h realm client user tab w =
    (case nextRequiredAction h realm user (W_db w) of
       (None, user, db) \<Rightarrow> (None, user, w\<lparr>W_db := db\<rparr>)
     | (Some alias, user, db) \<Rightarrow>
         (Some (if alias \<noteq> [] then alias
                else if tabConsentNeeded (W_consents w) realm client user (tab_at (W_auth w) tab)
                then executionOAuthGrant else []),
          user, w\<lparr>W_db := db\<rparr>))"

definition writeRequiredActionRedirect ::
  "'db server \<Rightarrow> headers \<Rightarrow> realm \<Rightarrow> client \<Rightarrow> auth_tab \<Rightarrow> string \<Rightarrow> response" where
  "writeRequiredActionRedirect h hs realm client t step =
     WriteLoginActionRedirect hs (action_url h (Realm_Name realm) ''required-action''
       [url_param ''execution'' step, url_param ''client_id'' (Client_ClientID client),
        url_param ''tab_id'' (Tab_TabID t), url_param ''client_data'' (tab_clientData t)])"

definition serveConsentPage ::
  "'db server \<Rightarrow> headers \<Rightarrow> time \<Rightarrow> realm \<Rightarrow> nat \<Rightarrow> nat \<Rightarrow> client \<Rightarrow> 'db world \<Rightarrow> 'db outcome" where
  "serveConsentPage h hs now realm sess tab client w =
    (case rotateSessionCode (W_auth w) now (W_entropy w) sess tab (Tab_Username (tab_at (W_auth w) tab)) of
       None \<Rightarrow> Some (internal_error hs, w)
     | Some ((code, s), e) \<Rightarrow>
         (let t = tab_at s tab;
              action = action_url h (Realm_Name realm) ''consent''
                [url_param ''client_id'' (Client_ClientID client), url_param ''tab_id'' (Tab_TabID t),
                 url_param ''client_data'' (tab_clientData t)]
          in Some (WriteThemeConsentPage hs action (Client_ClientID client) code, w\<lparr>W_auth := s, W_entropy := e\<rparr>)))"

definition serveStep ::
  "'db server \<Rightarrow> headers \<Rightarrow> time \<Rightarrow> realm \<Rightarrow> nat \<Rightarrow> nat \<Rightarrow> client \<Rightarrow> user \<Rightarrow> string \<Rightarrow> string \<Rightarrow> 'db world \<Rightarrow> 'db outcome" where
  "serveStep h hs now realm sess tab client user step message w =
    (if step = executionOAuthGrant then serveConsentPage h hs now realm sess tab client w
     else if step = verifyEmailAction
     then Some (WriteThemeErrorPage hs 500 loginActionCacheControl
            (flowChrome h realm client (Sess_Hash (session_at (W_auth w) sess)) (tab_at (W_auth w) tab))
            pageVerifyEmailFailed, w)
     else (case rotateSessionCode (W_auth w) now (W_entropy w) sess tab (Tab_Username (tab_at (W_auth w) tab)) of
             None \<Rightarrow> Some (internal_error hs, w)
           | Some ((code, s), e) \<Rightarrow>
               (let w = w\<lparr>W_auth := s, W_entropy := e\<rparr>;
                    action = action_url h (Realm_Name realm) ''required-action''
                      ([url_param ''session_code'' code, url_param ''execution'' step] @ tab_params (tab_at s tab))
                in if step = updatePasswordAction
                   then Some (WriteThemeUpdatePasswordPage hs action
                     (if message = [] then ''You need to change your password to activate your account.'' else message), w)
                   else if step = updateProfileAction
                   then Some (WriteThemeUpdateProfilePage hs action (User_Email user) (User_FirstName user)
                     (User_LastName user)
                     (if message = [] then ''You need to update your user profile to activate your account.'' else message), w)
                   else Some (WriteThemePage hs 200 loginActionCacheControl (snd (action_spec step)), w))))"

text \<open>
  The actions with a form. Each takes what follows a success as its last argument and is \<^const>\<open>None\<close> where
  hashing the password panics.
\<close>

definition runUpdatePassword ::
  "'db server \<Rightarrow> headers \<Rightarrow> time \<Rightarrow> url_values \<Rightarrow> realm \<Rightarrow> client \<Rightarrow> nat \<Rightarrow> nat \<Rightarrow> user \<Rightarrow> 'db world
     \<Rightarrow> (user \<Rightarrow> 'db world \<Rightarrow> 'db outcome) \<Rightarrow> 'db outcome" where
  "runUpdatePassword h hs now form realm client sess tab user w f =
    (let password = values_get form ''password-new''
     in if password = []
        then serveStep h hs now realm sess tab client user updatePasswordAction ''Please specify password.'' w
        else if values_get form ''password-confirm'' \<noteq> password
        then serveStep h hs now realm sess tab client user updatePasswordAction
          (''Passwords don'' @ [CHR 0x27] @ ''t match.'') w
        else (case newPasswordCredential (H_IDKey h) (H_store h) (W_db w) now (W_entropy w) user password of
                None \<Rightarrow> None
              | Some (Inl _, e) \<Rightarrow> Some (internal_error hs, w\<lparr>W_entropy := e\<rparr>)
              | Some (Inr cred, e) \<Rightarrow>
                  (let w = w\<lparr>W_entropy := e\<rparr>
                   in case UserRepo_SetCredential (Store_Users (H_store h)) (W_db w) cred of
                        Inl _ \<Rightarrow> Some (internal_error hs, w)
                      | Inr db \<Rightarrow>
                          (case clearRequiredAction h user updatePasswordAction db of
                             (False, user, db) \<Rightarrow> Some (internal_error hs, w\<lparr>W_db := db\<rparr>)
                           | (True, user, db) \<Rightarrow> f user (w\<lparr>W_db := db\<rparr>)))))"

definition runUpdateProfile ::
  "'db server \<Rightarrow> headers \<Rightarrow> url_values \<Rightarrow> user \<Rightarrow> 'db world \<Rightarrow> (user \<Rightarrow> 'db world \<Rightarrow> 'db outcome) \<Rightarrow> 'db outcome" where
  "runUpdateProfile h hs form user w f =
    (let updated = user\<lparr>User_Email := values_get form ''email'', User_FirstName := values_get form ''firstName'',
           User_LastName := values_get form ''lastName''\<rparr>
     in case UserRepo_Update (Store_Users (H_store h)) (W_db w) updated of
          Inl _ \<Rightarrow> Some (internal_error hs, w)
        | Inr db \<Rightarrow>
            (case clearRequiredAction h updated updateProfileAction db of
               (False, user, db) \<Rightarrow> Some (internal_error hs, w\<lparr>W_db := db\<rparr>)
             | (True, user, db) \<Rightarrow> f user (w\<lparr>W_db := db\<rparr>)))"

definition runStep ::
  "'db server \<Rightarrow> headers \<Rightarrow> time \<Rightarrow> url_values \<Rightarrow> realm \<Rightarrow> client \<Rightarrow> nat \<Rightarrow> nat \<Rightarrow> user \<Rightarrow> string \<Rightarrow> 'db world
     \<Rightarrow> (user \<Rightarrow> 'db world \<Rightarrow> 'db outcome) \<Rightarrow> 'db outcome" where
  "runStep h hs now form realm client sess tab user step w f =
    (if step = updatePasswordAction then runUpdatePassword h hs now form realm client sess tab user w f
     else if step = updateProfileAction then runUpdateProfile h hs form user w f
     else serveStep h hs now realm sess tab client user step [] w)"

section \<open>Finishing a login\<close>

definition attachClientSessionTo ::
  "'db server \<Rightarrow> time \<Rightarrow> user_session \<Rightarrow> client \<Rightarrow> string \<Rightarrow> 'db world \<Rightarrow> (bool \<times> 'db world) option" where
  "attachClientSessionTo h now session client scope w =
    (case SessionRepo_ClientSession (Store_Sessions (H_store h)) (W_db w) (US_ID session) (Client_ID client) of
       Inr _ \<Rightarrow> Some (True, w)
     | Inl _ \<Rightarrow>
         (case NewID (W_entropy w) of
            None \<Rightarrow> None
          | Some (cid, e) \<Rightarrow>
              (let w = w\<lparr>W_entropy := e\<rparr>;
                   cs = \<lparr>CS_ID = cid, CS_UserSessionID = US_ID session, CS_ClientID = Client_ID client,
                     CS_Scope = scope, CS_StartedAt = now div 1000000\<rparr>
               in case SessionRepo_CreateClientSession (Store_Sessions (H_store h)) (W_db w) cs of
                    Inl _ \<Rightarrow> Some (False, w) | Inr db \<Rightarrow> Some (True, w\<lparr>W_db := db\<rparr>))))"

text \<open>The session, or \<^const>\<open>None\<close> where the code returns an error.\<close>

definition startSessionWithID ::
  "'db server \<Rightarrow> time \<Rightarrow> string \<Rightarrow> realm \<Rightarrow> client \<Rightarrow> user \<Rightarrow> string \<Rightarrow> 'db world
     \<Rightarrow> (user_session option \<times> 'db world) option" where
  "startSessionWithID h now ident realm client user scope w =
    (case SessionRepo_UserSessionByID (Store_Sessions (H_store h)) (W_db w) (Realm_ID realm) ident of
       Inr existing \<Rightarrow>
         map_option (\<lambda>(ok, w). (if ok then Some existing else None, w))
           (attachClientSessionTo h now existing client scope w)
     | Inl _ \<Rightarrow>
         (let ms = now div 1000000;
              session = \<lparr>US_ID = ident, US_RealmID = Realm_ID realm, US_UserID = User_ID user,
                US_Username = User_Username user, US_StartedAt = ms, US_LastRefresh = ms,
                US_ExpiresAt = ms + quot (Realm_RefreshTokenLifespan realm) 1000000\<rparr>
          in case SessionRepo_CreateUserSession (Store_Sessions (H_store h)) (W_db w) session of
               Inl _ \<Rightarrow> Some (None, w)
             | Inr db \<Rightarrow>
                 (case NewID (W_entropy w) of
                    None \<Rightarrow> None
                  | Some (cid, e) \<Rightarrow>
                      (let cs = \<lparr>CS_ID = cid, CS_UserSessionID = ident, CS_ClientID = Client_ID client,
                             CS_Scope = scope, CS_StartedAt = ms\<rparr>;
                           w = w\<lparr>W_db := db, W_entropy := e\<rparr>
                       in case SessionRepo_CreateClientSession (Store_Sessions (H_store h)) db cs of
                            Inl _ \<Rightarrow> Some (None, w)
                          | Inr db \<Rightarrow> Some (Some session, w\<lparr>W_db := db\<rparr>)))))"

definition clearRestartCookie :: "headers \<Rightarrow> realm \<Rightarrow> headers" where
  "clearRestartCookie hs realm = SetKeycloakCookie hs (zero_cookie\<lparr>Cookie_Name := restartCookie,
     Cookie_Path := realmCookiePath (Realm_Name realm), Cookie_MaxAge := 0, Cookie_SetMaxAge := True\<rparr>)"

text \<open>The rest of the handler gets the headers with the two cookies; an error is the 500 its callers write.\<close>

definition setLoginCookies ::
  "'db server \<Rightarrow> headers \<Rightarrow> time \<Rightarrow> realm \<Rightarrow> realm_keys \<Rightarrow> string \<Rightarrow> user \<Rightarrow> 'db world
     \<Rightarrow> (headers \<Rightarrow> 'db world \<Rightarrow> 'db outcome) \<Rightarrow> 'db outcome" where
  "setLoginCookies h hs now realm k sessionID user w f =
    (case randomBase64URL rootIDBytes (W_entropy w) of
       None \<Rightarrow> Some (internal_error hs, w)
     | Some (stateChecker, e) \<Rightarrow>
         (case NewID e of
            None \<Rightarrow> None
          | Some (jti, e) \<Rightarrow>
              (let w = w\<lparr>W_entropy := e\<rparr>; path = realmCookiePath (Realm_Name realm)
               in case IssueIdentityCookie (H_jose h) k (realmIssuer h (Realm_Name realm)) (User_ID user)
                         sessionID jti stateChecker now of
                    Inl _ \<Rightarrow> Some (internal_error hs, w)
                  | Inr identity \<Rightarrow>
                      f (SetKeycloakCookie (SetKeycloakCookie hs
                           (zero_cookie\<lparr>Cookie_Name := identityCookie, Cookie_Value := identity, Cookie_Path := path,
                              Cookie_Secure := True, Cookie_HTTPOnly := True, Cookie_SameSite := ''None''\<rparr>))
                           (zero_cookie\<lparr>Cookie_Name := sessionCookie,
                              Cookie_Value := keycloakSessionValue (sessionHash k sessionID), Cookie_Path := path,
                              Cookie_MaxAge := 36000, Cookie_SetMaxAge := True, Cookie_Secure := True,
                              Cookie_SameSite := ''None''\<rparr>)) w)))"

definition code_for_tab :: "realm \<Rightarrow> client \<Rightarrow> user \<Rightarrow> string \<Rightarrow> string \<Rightarrow> auth_tab \<Rightarrow> auth_code" where
  "code_for_tab realm client user sessionID scope t =
    \<lparr>Code_Code = [], Code_Realm = Realm_Name realm, Code_ClientUUID = Client_ID client,
     Code_RedirectURI = Tab_RedirectURI t, Code_UserID = User_ID user, Code_SessionID = sessionID,
     Code_Scope = scope, Code_Nonce = Tab_Nonce t, Code_CodeChallenge = Tab_CodeChallenge t,
     Code_CodeChallengeMethod = Tab_CodeChallengeMethod t, Code_ExpiresAt = zero_time\<rparr>"

definition loginActionReplaceState :: "'db server \<Rightarrow> realm \<Rightarrow> auth_tab \<Rightarrow> string" where
  "loginActionReplaceState h realm t = action_url h (Realm_Name realm) ''authenticate'' (tab_params t)"

definition with_response :: "response option \<Rightarrow> 'db world \<Rightarrow> 'db outcome" where
  "with_response resp w = map_option (\<lambda>x. (x, w)) resp"

definition completeLogin ::
  "'db server \<Rightarrow> headers \<Rightarrow> time \<Rightarrow> realm \<Rightarrow> client \<Rightarrow> nat \<Rightarrow> nat \<Rightarrow> user \<Rightarrow> realm_keys \<Rightarrow> 'db world \<Rightarrow> 'db outcome" where
  "completeLogin h hs now realm client sess tab user k w =
    (let t = tab_at (W_auth w) tab; rootID = Sess_RootID (session_at (W_auth w) sess);
         scope = grantedScope (Tab_Scope t)
     in case startSessionWithID h now rootID realm client user scope w of
          None \<Rightarrow> None
        | Some (None, w) \<Rightarrow> Some (internal_error hs, w)
        | Some (Some session, w) \<Rightarrow>
            (case newCode (W_auth w) now (W_entropy w) (code_for_tab realm client user (US_ID session) scope t) of
               None \<Rightarrow> Some (internal_error hs, w)
             | Some ((code, s), e) \<Rightarrow>
                 (let w = w\<lparr>W_auth := endSession s rootID, W_entropy := e\<rparr>; hs = clearRestartCookie hs realm
                  in setLoginCookies h hs now realm k (US_ID session) user w (\<lambda>hs w.
                       with_response (writeAuthorizationCode h (WriteLoginActionRedirect hs) hs (Realm_Name realm) t
                         (US_ID session) code (loginActionReplaceState h realm t)) w))))"

definition deviceErrAccessDenied :: string where "deviceErrAccessDenied = ''access_denied''"
definition deviceErrExpiredToken :: string where "deviceErrExpiredToken = ''expired_token''"

definition deviceStatusLocation :: "'db server \<Rightarrow> string \<Rightarrow> string \<Rightarrow> string" where
  "deviceStatusLocation h realm errCode =
     realmBase h realm @ ''/device/status'' @ (if errCode = [] then [] else ''?error='' @ query_escape errCode)"

definition completeDeviceApproval ::
  "'db server \<Rightarrow> headers \<Rightarrow> time \<Rightarrow> realm \<Rightarrow> client \<Rightarrow> nat \<Rightarrow> nat \<Rightarrow> user \<Rightarrow> realm_keys \<Rightarrow> 'db world \<Rightarrow> 'db outcome" where
  "completeDeviceApproval h hs now realm client sess tab user k w =
    (let t = tab_at (W_auth w) tab; rootID = Sess_RootID (session_at (W_auth w) sess);
         scope = grantedScope (Tab_Scope t)
     in case startSessionWithID h now rootID realm client user scope w of
          None \<Rightarrow> None
        | Some (None, w) \<Rightarrow> Some (internal_error hs, w)
        | Some (Some session, w) \<Rightarrow>
            (case approveDeviceCode (W_device w) now (Tab_DeviceUserCode t) (User_ID user) (US_ID session) of
               (False, ds) \<Rightarrow>
                 Some (WriteLoginActionRedirect hs (deviceStatusLocation h (Realm_Name realm) deviceErrExpiredToken),
                   w\<lparr>W_device := ds, W_auth := endSession (W_auth w) rootID\<rparr>)
             | (True, ds) \<Rightarrow>
                 (let w = w\<lparr>W_device := ds, W_auth := endSession (W_auth w) rootID\<rparr>; hs = clearRestartCookie hs realm
                  in setLoginCookies h hs now realm k (US_ID session) user w (\<lambda>hs w.
                       Some (WriteLoginActionRedirect hs (deviceStatusLocation h (Realm_Name realm) []), w)))))"

definition finishFlow ::
  "'db server \<Rightarrow> headers \<Rightarrow> time \<Rightarrow> realm \<Rightarrow> client \<Rightarrow> nat \<Rightarrow> nat \<Rightarrow> user \<Rightarrow> realm_keys \<Rightarrow> 'db world \<Rightarrow> 'db outcome" where
  "finishFlow h hs now realm client sess tab user k w =
    (let t = tab_at (W_auth w) tab
     in if Tab_SAMLBinding t \<noteq> [] then Some (WriteMessageError hs 404 ''HTTP 404 Not Found'', w)
        else if Tab_DeviceUserCode t \<noteq> [] then completeDeviceApproval h hs now realm client sess tab user k w
        else completeLogin h hs now realm client sess tab user k w)"

section \<open>The login actions\<close>

definition resolveAuthTab ::
  "time \<Rightarrow> request \<Rightarrow> realm \<Rightarrow> url_values \<Rightarrow> 'db world \<Rightarrow> (nat \<times> nat) option \<times> 'db world" where
  "resolveAuthTab now r realm q w =
    (case liveAuthSession now r realm w of
       (None, w) \<Rightarrow> (None, w)
     | (Some sess, w) \<Rightarrow>
         (let found = (if values_get q ''session_code'' \<noteq> []
                       then tabByCode (W_auth w) now sess (values_get q ''tab_id'') (values_get q ''session_code'')
                       else tabByID (W_auth w) now sess (values_get q ''tab_id''))
          in (map_option (\<lambda>tab. (sess, tab)) found, w)))"

definition restart_tab :: "client \<Rightarrow> restart_record \<Rightarrow> auth_tab" where
  "restart_tab client rec = zero_tab\<lparr>Tab_ClientID := Client_ClientID client, Tab_ClientUUID := Client_ID client,
     Tab_RedirectURI := Rst_RedirectURI rec, Tab_ResponseMode := Rst_ResponseMode rec, Tab_State := Rst_State rec,
     Tab_HasState := Rst_HasState rec, Tab_Scope := Rst_Scope rec, Tab_Nonce := Rst_Nonce rec,
     Tab_CodeChallenge := Rst_CodeChallenge rec, Tab_CodeChallengeMethod := Rst_CodeChallengeMethod rec,
     Tab_DeviceUserCode := Rst_DeviceUserCode rec, Tab_SAMLBinding := Rst_SAMLBinding rec,
     Tab_SAMLRequestID := Rst_SAMLRequestID rec\<rparr>"

definition writeRestartRedirect ::
  "'db server \<Rightarrow> headers \<Rightarrow> time \<Rightarrow> request \<Rightarrow> realm \<Rightarrow> restart_record \<Rightarrow> url_values \<Rightarrow> 'db world \<Rightarrow> 'db outcome" where
  "writeRestartRedirect h hs now r realm rec q w =
    (case authClient h (W_db w) realm (values_get q ''client_id'') of
       None \<Rightarrow> Some (writeLoginActionErrorPage hs (themeChrome realm) pageLoginActionError, w)
     | Some client \<Rightarrow>
         (let (tab, w) = new_tab (restart_tab client rec) w
          in realmKeys h hs now realm w (\<lambda>k w.
               case beginAuthSession hs now r realm k tab None w of
                 (None, hs, w) \<Rightarrow> Some (internal_error hs, w)
               | (Some _, hs, w) \<Rightarrow>
                   (let t = tab_at (W_auth w) tab
                    in Some (WriteLoginActionRedirect hs (action_url h (Realm_Name realm) ''authenticate''
                         [url_param ''client_id'' (Client_ClientID client), url_param ''tab_id'' (Tab_TabID t),
                          url_param ''client_data'' (tab_clientData t)]), w)))))"

definition clientDataTarget :: "string \<Rightarrow> client \<Rightarrow> (string \<times> string option) option" where
  "clientDataTarget raw client =
    (case decodeClientData raw of
       None \<Rightarrow> None
     | Some cd \<Rightarrow>
         if matchRedirectURI (Client_RedirectURIs client) (CD_RedirectURI cd)
         then Some (CD_RedirectURI cd, CD_State cd) else None)"

definition writeExpiredAuthentication ::
  "'db server \<Rightarrow> headers \<Rightarrow> realm \<Rightarrow> url_values \<Rightarrow> 'db world \<Rightarrow> 'db outcome option" where
  "writeExpiredAuthentication h hs realm q w =
    (case authClient h (W_db w) realm (values_get q ''client_id'') of
       None \<Rightarrow> None
     | Some client \<Rightarrow>
         (case clientDataTarget (values_get q ''client_data'') client of
            None \<Rightarrow> None
          | Some (redirectURI, state) \<Rightarrow>
              Some (with_response (writeAuthorizationError h (WriteLoginActionRedirect hs) hs (Realm_Name realm)
                redirectURI (defaultResponseMode q responseTypeCode) ''temporarily_unavailable''
                ''authentication_expired'' (case state of None \<Rightarrow> [] | Some st \<Rightarrow> st) (state \<noteq> None)) w)))"

definition writeUnusableSession ::
  "'db server \<Rightarrow> headers \<Rightarrow> time \<Rightarrow> request \<Rightarrow> realm \<Rightarrow> url_values \<Rightarrow> 'db world \<Rightarrow> 'db outcome" where
  "writeUnusableSession h hs now r realm q w =
    (case (case request_cookie r restartCookie of
             None \<Rightarrow> None | Some val \<Rightarrow> restartByCookie (W_auth w) now (Realm_Name realm) val) of
       Some rec \<Rightarrow> writeRestartRedirect h hs now r realm rec q w
     | None \<Rightarrow>
         (case (if request_cookie r identityCookie = None then None else writeExpiredAuthentication h hs realm q w) of
            Some answer \<Rightarrow> answer
          | None \<Rightarrow>
              Some (writeLoginActionErrorPage hs (loginActionChrome h (W_db w) realm q) pageRestartCookieNotFound, w)))"

definition msgInvalidCredentials :: string where "msgInvalidCredentials = ''Invalid username or password.''"
definition msgAccountDisabled :: string where "msgAccountDisabled = ''Account is disabled, contact your administrator.''"

definition verifyLoginCredentials ::
  "'db server \<Rightarrow> 'db \<Rightarrow> realm \<Rightarrow> string \<Rightarrow> string \<Rightarrow> (string + user) option" where
  "verifyLoginCredentials h db realm username password =
    (if username = [] \<or> password = [] then Some (Inl msgInvalidCredentials)
     else (case UserRepo_ByUsername (Store_Users (H_store h)) db (Realm_ID realm) (to_lower (H_ToLower h) username) of
             Inl _ \<Rightarrow> Some (Inl msgInvalidCredentials)
           | Inr user \<Rightarrow>
               (case UserRepo_CredentialByUser (Store_Users (H_store h)) db (User_ID user) passwordCredentialType of
                  Inl _ \<Rightarrow> Some (Inl msgInvalidCredentials)
                | Inr cred \<Rightarrow>
                    (case VerifyPassword (H_IDKey h) (Some cred) password of
                       None \<Rightarrow> None
                     | Some (Inl _) \<Rightarrow> Some (Inl msgInvalidCredentials)
                     | Some (Inr _) \<Rightarrow>
                         if \<not> User_Enabled user then Some (Inl msgAccountDisabled) else Some (Inr user)))))"

definition attemptLogin ::
  "'db server \<Rightarrow> headers \<Rightarrow> time \<Rightarrow> url_values \<Rightarrow> realm \<Rightarrow> client \<Rightarrow> nat \<Rightarrow> nat \<Rightarrow> 'db world \<Rightarrow> 'db outcome" where
  "attemptLogin h hs now form realm client sess tab w =
    (case verifyLoginCredentials h (W_db w) realm (values_get form ''username'') (values_get form ''password'') of
       None \<Rightarrow> None
     | Some (Inl message) \<Rightarrow> serveLoginPage h hs now realm client sess tab (values_get form ''username'') message w
     | Some (Inr user) \<Rightarrow>
         (let w = w\<lparr>W_auth := update_tab tab (\<lambda>t. t\<lparr>Tab_UserID := User_ID user\<rparr>) (W_auth w)\<rparr>
          in case tabStep h realm client user tab w of
               (None, _, w) \<Rightarrow> Some (internal_error hs, w)
             | (Some step, user, w) \<Rightarrow>
                 if step \<noteq> []
                 then Some (writeRequiredActionRedirect h hs realm client (tab_at (W_auth w) tab) step, w)
                 else realmKeys h hs now realm w (\<lambda>k w. finishFlow h hs now realm client sess tab user k w)))"

text \<open>
  What the three login actions share: the realm, the body, \<^verbatim>\<open>client_data\<close>, the tab and the client that
  owns it. \<open>find\<close> is how the endpoint looks the tab up.
\<close>

definition with_action_tab ::
  "'db server \<Rightarrow> headers \<Rightarrow> time \<Rightarrow> request
     \<Rightarrow> (realm \<Rightarrow> url_values \<Rightarrow> 'db world \<Rightarrow> (nat \<times> nat) option \<times> 'db world) \<Rightarrow> 'db world
     \<Rightarrow> (realm \<Rightarrow> url_values \<Rightarrow> client \<Rightarrow> nat \<Rightarrow> nat \<Rightarrow> 'db world \<Rightarrow> 'db outcome) \<Rightarrow> 'db outcome" where
  "with_action_tab h hs now r resolve w f =
    resolveRealm h hs (Rq_Realm r) w (\<lambda>realm.
      decodeLoginActionBody hs r w (\<lambda>form.
        let q = Rq_Query r
        in if \<not> validClientData (values_get q ''client_data'')
           then Some (writeLoginActionErrorPage hs (loginActionChrome h (W_db w) realm q) pageInvalidRequest, w)
           else (case resolve realm q w of
                   (None, w) \<Rightarrow> writeUnusableSession h hs now r realm q w
                 | (Some (sess, tab), w) \<Rightarrow>
                     (case authClient h (W_db w) realm (values_get q ''client_id'') of
                        None \<Rightarrow> Some (writeLoginActionErrorPage hs (loginActionChrome h (W_db w) realm q) pageLoginActionError, w)
                      | Some client \<Rightarrow>
                          if Client_ClientID client \<noteq> Tab_ClientID (tab_at (W_auth w) tab)
                          then Some (writeLoginActionErrorPage hs (loginActionChrome h (W_db w) realm q) pageLoginActionError, w)
                          else f realm form client sess tab w))))"

definition loginActions :: "'db server \<Rightarrow> headers \<Rightarrow> time \<Rightarrow> request \<Rightarrow> 'db world \<Rightarrow> 'db outcome" where
  "loginActions h hs now r w =
    with_action_tab h hs now r (resolveAuthTab now r) w (\<lambda>realm form client sess tab w.
      let q = Rq_Query r
      in if values_get q ''session_code'' = []
         then serveLoginPage h hs now realm client sess tab (Tab_Username (tab_at (W_auth w) tab)) [] w
         else if values_get q ''execution'' \<noteq> loginExecutionID h (W_db w) realm
         then serveExpiredPage h hs realm client sess tab w
         else attemptLogin h hs now form realm client sess tab w)"

definition resolveActionTab ::
  "time \<Rightarrow> request \<Rightarrow> realm \<Rightarrow> url_values \<Rightarrow> 'db world \<Rightarrow> (nat \<times> nat) option \<times> 'db world" where
  "resolveActionTab now r realm q w =
    (case liveAuthSession now r realm w of
       (None, w) \<Rightarrow> (None, w)
     | (Some sess, w) \<Rightarrow>
         (map_option (\<lambda>tab. (sess, tab)) (tabByID (W_auth w) now sess (values_get q ''tab_id'')), w))"

definition continueAfterStep ::
  "'db server \<Rightarrow> headers \<Rightarrow> time \<Rightarrow> realm \<Rightarrow> client \<Rightarrow> nat \<Rightarrow> nat \<Rightarrow> user \<Rightarrow> 'db world \<Rightarrow> 'db outcome" where
  "continueAfterStep h hs now realm client sess tab user w =
    (case tabStep h realm client user tab w of
       (None, _, w) \<Rightarrow> Some (internal_error hs, w)
     | (Some step, user, w) \<Rightarrow>
         if step \<noteq> [] then serveStep h hs now realm sess tab client user step [] w
         else realmKeys h hs now realm w (\<lambda>k w. finishFlow h hs now realm client sess tab user k w))"

definition requiredAction :: "'db server \<Rightarrow> headers \<Rightarrow> time \<Rightarrow> request \<Rightarrow> 'db world \<Rightarrow> 'db outcome" where
  "requiredAction h hs now r w =
    with_action_tab h hs now r (resolveActionTab now r) w (\<lambda>realm form client sess tab w.
      let q = Rq_Query r; execution = values_get q ''execution''; code = values_get q ''session_code''
      in case UserRepo_ByID (Store_Users (H_store h)) (W_db w) (Realm_ID realm) (Tab_UserID (tab_at (W_auth w) tab)) of
           Inl _ \<Rightarrow> writeUnusableSession h hs now r realm q w
         | Inr user \<Rightarrow>
             (case tabStep h realm client user tab w of
                (None, _, w) \<Rightarrow> Some (internal_error hs, w)
              | (Some step, user, w) \<Rightarrow>
                  if code = []
                  then (if step = [] \<or> execution \<noteq> [] \<and> execution \<noteq> step
                        then Some (WriteThemePage hs 200 loginActionCacheControl ''Page has expired'', w)
                        else serveStep h hs now realm sess tab client user step [] w)
                  else if step = [] \<or> execution \<noteq> step \<or> code \<noteq> Tab_SessionCode (tab_at (W_auth w) tab)
                  then Some (writeRequiredActionRedirect h hs realm client (tab_at (W_auth w) tab) step, w)
                  else if step = executionOAuthGrant then serveStep h hs now realm sess tab client user step [] w
                  else runStep h hs now form realm client sess tab user step w
                         (continueAfterStep h hs now realm client sess tab)))"

definition denyConsent ::
  "'db server \<Rightarrow> headers \<Rightarrow> time \<Rightarrow> realm \<Rightarrow> nat \<Rightarrow> nat \<Rightarrow> 'db world \<Rightarrow> 'db outcome" where
  "denyConsent h hs now realm sess tab w =
    (let t = tab_at (W_auth w) tab;
         w = w\<lparr>W_auth := endSession (W_auth w) (Sess_RootID (session_at (W_auth w) sess))\<rparr>
     in if Tab_DeviceUserCode t \<noteq> []
        then Some (WriteLoginActionRedirect hs (deviceStatusLocation h (Realm_Name realm) deviceErrAccessDenied),
               w\<lparr>W_device := snd (denyDeviceCode (W_device w) now (Tab_DeviceUserCode t))\<rparr>)
        else with_response (writeAuthorizationError h (WriteLoginActionRedirect hs) hs (Realm_Name realm)
               (Tab_RedirectURI t) (Tab_ResponseMode t) ''access_denied'' [] (Tab_State t) (Tab_HasState t)) w)"

definition consent :: "'db server \<Rightarrow> headers \<Rightarrow> time \<Rightarrow> request \<Rightarrow> 'db world \<Rightarrow> 'db outcome" where
  "consent h hs now r w =
    with_action_tab h hs now r (resolveAuthTab now r) w (\<lambda>realm form client sess tab w.
      case UserRepo_ByID (Store_Users (H_store h)) (W_db w) (Realm_ID realm) (Tab_UserID (tab_at (W_auth w) tab)) of
        Inl _ \<Rightarrow> writeUnusableSession h hs now r realm (Rq_Query r) w
      | Inr user \<Rightarrow>
          if form_has form ''cancel'' then denyConsent h hs now realm sess tab w
          else (let w = w\<lparr>W_consents := consent_grant (W_consents w) (Realm_ID realm) (User_ID user) (Client_ID client)\<rparr>
                in realmKeys h hs now realm w (\<lambda>k w. finishFlow h hs now realm client sess tab user k w)))"

section \<open>Single sign-on\<close>

record auth_request =
  AR_Params :: url_values
  AR_RedirectURI :: string
  AR_Mode :: string
  AR_State :: string
  AR_HasState :: bool

definition namedMode :: "auth_request \<Rightarrow> string" where
  "namedMode a = (if form_has (AR_Params a) ''response_mode'' then AR_Mode a else [])"

definition request_tab :: "auth_request \<Rightarrow> client \<Rightarrow> auth_tab" where
  "request_tab a client = zero_tab\<lparr>Tab_ClientID := Client_ClientID client, Tab_ClientUUID := Client_ID client,
     Tab_RedirectURI := AR_RedirectURI a, Tab_ResponseMode := namedMode a, Tab_State := AR_State a,
     Tab_HasState := AR_HasState a, Tab_Scope := values_get (AR_Params a) ''scope'',
     Tab_Nonce := values_get (AR_Params a) ''nonce'',
     Tab_CodeChallenge := values_get (AR_Params a) ''code_challenge'',
     Tab_CodeChallengeMethod := values_get (AR_Params a) ''code_challenge_method'',
     Tab_Prompt := values_get (AR_Params a) ''prompt''\<rparr>"

definition request_restart :: "auth_request \<Rightarrow> realm \<Rightarrow> client \<Rightarrow> restart_record" where
  "request_restart a realm client = zero_restart\<lparr>Rst_Realm := Realm_Name realm, Rst_ClientID := Client_ClientID client,
     Rst_RedirectURI := AR_RedirectURI a, Rst_State := AR_State a, Rst_HasState := AR_HasState a,
     Rst_ResponseMode := namedMode a, Rst_Scope := values_get (AR_Params a) ''scope'',
     Rst_Nonce := values_get (AR_Params a) ''nonce'',
     Rst_CodeChallenge := values_get (AR_Params a) ''code_challenge'',
     Rst_CodeChallengeMethod := values_get (AR_Params a) ''code_challenge_method''\<rparr>"

definition beginLoginFromParams ::
  "'db server \<Rightarrow> headers \<Rightarrow> time \<Rightarrow> request \<Rightarrow> realm \<Rightarrow> client \<Rightarrow> auth_request \<Rightarrow> 'db world \<Rightarrow> 'db outcome" where
  "beginLoginFromParams h hs now r realm client req w =
    realmKeys h hs now realm w (\<lambda>k w.
      let (tab, w) = new_tab (request_tab req client) w
      in case beginAuthSession hs now r realm k tab (Some (request_restart req realm client)) w of
           (None, hs, w) \<Rightarrow> Some (internal_error hs, w)
         | (Some sess, hs, w) \<Rightarrow> serveLoginPage h hs now realm client sess tab [] [] w)"

definition clearBrowserSessionCookies :: "headers \<Rightarrow> realm \<Rightarrow> headers" where
  "clearBrowserSessionCookies hs realm =
    (let path = realmCookiePath (Realm_Name realm)
     in SetKeycloakCookie (SetKeycloakCookie hs
          (zero_cookie\<lparr>Cookie_Name := identityCookie, Cookie_Path := path, Cookie_MaxAge := 0, Cookie_SetMaxAge := True\<rparr>))
          (zero_cookie\<lparr>Cookie_Name := sessionCookie, Cookie_Path := path, Cookie_MaxAge := 0, Cookie_SetMaxAge := True\<rparr>))"

text \<open>The session and the user the identity cookie names; the authentication time is the session's start.\<close>

definition resolveBrowserSession ::
  "'db server \<Rightarrow> headers \<Rightarrow> time \<Rightarrow> request \<Rightarrow> realm \<Rightarrow> realm_keys \<Rightarrow> 'db
     \<Rightarrow> (user_session \<times> user) option \<times> headers" where
  "resolveBrowserSession h hs now r realm k db =
    (case request_cookie r identityCookie of
       None \<Rightarrow> (None, hs)
     | Some val \<Rightarrow>
         (case ParseIdentityCookie (H_jose h) k (realmIssuer h (Realm_Name realm)) val now of
            Inl _ \<Rightarrow> (None, clearBrowserSessionCookies hs realm)
          | Inr parsed \<Rightarrow>
              (case SessionRepo_UserSessionByID (Store_Sessions (H_store h)) db (Realm_ID realm) (Parsed_SessionID parsed) of
                 Inl _ \<Rightarrow> (None, clearBrowserSessionCookies hs realm)
               | Inr session \<Rightarrow>
                   (case UserRepo_ByID (Store_Users (H_store h)) db (Realm_ID realm) (Parsed_Subject parsed) of
                      Inl _ \<Rightarrow> (None, clearBrowserSessionCookies hs realm)
                    | Inr user \<Rightarrow>
                        if \<not> User_Enabled user then (None, clearBrowserSessionCookies hs realm)
                        else (Some (session, user), hs)))))"

definition maxAgeSatisfied :: "user_session \<Rightarrow> int \<Rightarrow> time \<Rightarrow> bool" where
  "maxAgeSatisfied session maxAge now \<longleftrightarrow> whole_seconds (now - US_StartedAt session * 1000000) \<le> maxAge"

definition clearPresentedRestart :: "headers \<Rightarrow> request \<Rightarrow> realm \<Rightarrow> headers" where
  "clearPresentedRestart hs r realm = (if request_cookie r restartCookie = None then hs else clearRestartCookie hs realm)"

definition openSilentSession ::
  "headers \<Rightarrow> time \<Rightarrow> request \<Rightarrow> realm \<Rightarrow> client \<Rightarrow> realm_keys \<Rightarrow> auth_request \<Rightarrow> 'db world
     \<Rightarrow> nat option \<times> nat \<times> headers \<times> 'db world" where
  "openSilentSession hs now r realm client k req w =
    (let (tab, w) = new_tab (request_tab req client) w;
         (sess, hs, w) = beginAuthSession hs now r realm k tab None w
     in (sess, tab, hs, w))"

definition completeSSO ::
  "'db server \<Rightarrow> headers \<Rightarrow> time \<Rightarrow> request \<Rightarrow> realm \<Rightarrow> client \<Rightarrow> realm_keys \<Rightarrow> user_session \<Rightarrow> user \<Rightarrow> auth_request
     \<Rightarrow> 'db world \<Rightarrow> 'db outcome" where
  "completeSSO h hs now r realm client k session user req w =
    (let (tab, w) = new_tab (request_tab req client) w;
         restart = (if ''none'' \<in> set (parsePrompt (values_get (AR_Params req) ''prompt'')) then None
                    else Some (request_restart req realm client))
     in case resumeAuthSession hs now realm k (US_ID session) tab restart w of
          (None, hs, w) \<Rightarrow> Some (internal_error hs, w)
        | (Some _, hs, w) \<Rightarrow>
            (let hs = clearPresentedRestart hs r realm; t = tab_at (W_auth w) tab; scope = grantedScope (Tab_Scope t)
             in case attachClientSessionTo h now session client scope w of
                  None \<Rightarrow> None
                | Some (False, w) \<Rightarrow> Some (internal_error hs, w)
                | Some (True, w) \<Rightarrow>
                    (case newCode (W_auth w) now (W_entropy w) (code_for_tab realm client user (US_ID session) scope t) of
                       None \<Rightarrow> Some (internal_error hs, w)
                     | Some ((code, s), e) \<Rightarrow>
                         setLoginCookies h hs now realm k (US_ID session) user (w\<lparr>W_auth := s, W_entropy := e\<rparr>)
                           (\<lambda>hs w. with_response (writeAuthorizationCode h (WriteAuthorizationRedirect h r hs) hs
                              (Realm_Name realm) t (US_ID session) code []) w))))"

definition beginRequiredActionFromSSO ::
  "'db server \<Rightarrow> headers \<Rightarrow> time \<Rightarrow> realm \<Rightarrow> client \<Rightarrow> realm_keys \<Rightarrow> user_session \<Rightarrow> user \<Rightarrow> auth_request \<Rightarrow> string
     \<Rightarrow> 'db world \<Rightarrow> 'db outcome" where
  "beginRequiredActionFromSSO h hs now realm client k session user req step w =
    (let (tab, w) = new_tab ((request_tab req client)\<lparr>Tab_UserID := User_ID user\<rparr>) w
     in case resumeAuthSession hs now realm k (US_ID session) tab (Some (request_restart req realm client)) w of
          (None, hs, w) \<Rightarrow> Some (internal_error hs, w)
        | (Some _, hs, w) \<Rightarrow> Some (writeRequiredActionRedirect h hs realm client (tab_at (W_auth w) tab) step, w))"

definition writeRegistrationPage :: "'db server \<Rightarrow> headers \<Rightarrow> realm \<Rightarrow> client \<Rightarrow> nat option \<Rightarrow> nat \<Rightarrow> 'db world \<Rightarrow> response" where
  "writeRegistrationPage h hs realm client sess tab w =
     WriteThemeErrorPage hs 400 loginActionCacheControl
       (flowChrome h realm client (case sess of None \<Rightarrow> [] | Some a \<Rightarrow> Sess_Hash (session_at (W_auth w) a))
         (tab_at (W_auth w) tab)) ''Registration not allowed''"

text \<open>
  The decision of \<^verbatim>\<open>resolveSSO\<close> after the keys: \<open>reject\<close> writes an authorization error with the headers
  it is given. A pending required action is looked up only for a session that is fresh enough.
\<close>

definition resolveSSO ::
  "'db server \<Rightarrow> headers \<Rightarrow> time \<Rightarrow> request \<Rightarrow> realm \<Rightarrow> client \<Rightarrow> string list \<Rightarrow> auth_request
     \<Rightarrow> (headers \<Rightarrow> string \<Rightarrow> string \<Rightarrow> response option) \<Rightarrow> 'db world \<Rightarrow> 'db outcome" where
  "resolveSSO h hs now r realm client prompt req reject w =
    realmKeys h hs now realm w (\<lambda>k w.
      let maxAge = (case parseMaxAge (AR_Params req) of Some m \<Rightarrow> m | None \<Rightarrow> None);
          (found, hs) = resolveBrowserSession h hs now r realm k (W_db w);
          fresh = (case found of
                     Some (session, user) \<Rightarrow>
                       if ssoEnabled h (W_db w) realm
                          \<and> (case maxAge of None \<Rightarrow> True | Some m \<Rightarrow> maxAgeSatisfied session m now)
                       then Some (session, user) else None
                   | None \<Rightarrow> None);
          refuse = (\<lambda>code w. let (sess, tab, hs, w) = openSilentSession hs now r realm client k req w
                              in with_response (reject (clearPresentedRestart hs r realm) code []) w);
          anonymous = (\<lambda>w.
            if ''none'' \<in> set prompt then refuse ''login_required'' w
            else if ''login'' \<in> set prompt then beginLoginFromParams h hs now r realm client req w
            else if ''create'' \<in> set prompt
            then (let (sess, tab, hs, w) = openSilentSession hs now r realm client k req w
                  in Some (writeRegistrationPage h hs realm client sess tab w, w))
            else beginLoginFromParams h hs now r realm client req w)
      in case fresh of
           None \<Rightarrow> anonymous w
         | Some (session, user) \<Rightarrow>
             (case nextRequiredAction h realm user (W_db w) of
                (None, _, db) \<Rightarrow> Some (internal_error hs, w\<lparr>W_db := db\<rparr>)
              | (Some pending, user, db) \<Rightarrow>
                  (let w = w\<lparr>W_db := db\<rparr>;
                       consent = consentNeeded (W_consents w) realm client user prompt
                   in if ''login'' \<in> set prompt \<or> ''create'' \<in> set prompt \<and> ''none'' \<notin> set prompt then anonymous w
                      else if ''none'' \<in> set prompt
                      then (if pending \<noteq> [] \<or> consent then refuse ''interaction_required'' w
                            else completeSSO h hs now r realm client k session user req w)
                      else if pending \<noteq> []
                      then beginRequiredActionFromSSO h hs now realm client k session user req pending w
                      else if consent
                      then beginRequiredActionFromSSO h hs now realm client k session user req executionOAuthGrant w
                      else completeSSO h hs now r realm client k session user req w)))"

section \<open>The authorization endpoint\<close>

definition writeErrorPage :: "headers \<Rightarrow> nat \<Rightarrow> theme_chrome \<Rightarrow> string \<Rightarrow> response" where
  "writeErrorPage hs status c instruction = WriteThemeErrorPage hs status [] c instruction"

definition flow_disabled :: "client \<Rightarrow> response_flow \<Rightarrow> string option" where
  "flow_disabled client flow =
    (case flow of
       FlowImplicit \<Rightarrow> if Client_ImplicitFlowEnabled client then None
         else Some (''Client is not allowed to initiate browser login with given response_type. ''
                @ ''Implicit flow is disabled for the client.'')
     | FlowStandard \<Rightarrow> if Client_StandardFlowEnabled client then None
         else Some (''Client is not allowed to initiate browser login with given response_type. ''
                @ ''Standard flow is disabled for the client.''))"

text \<open>
  Steps 4 to 9 of the endpoint: the response mode, error code and description of the first check that
  refuses the request, or the response mode of one that passes them all.
\<close>

definition check_request :: "client \<Rightarrow> url_values \<Rightarrow> (string \<times> string \<times> string) + string" where
  "check_request client params =
    (if \<not> form_has params ''response_type''
     then Inl (defaultResponseMode params [], ''invalid_request'', ''Missing parameter: response_type'')
     else (let responseType = values_get params ''response_type''; mode = defaultResponseMode params responseType
           in case classifyResponseType responseType of
                None \<Rightarrow> Inl (mode, ''unsupported_response_type'', [])
              | Some flow \<Rightarrow>
                  if form_has params ''response_mode'' \<and> values_get params ''response_mode'' \<notin> set responseModes
                  then Inl (''query'', ''invalid_request'', ''Invalid parameter: response_mode'')
                  else (case flow_disabled client flow of
                          Some desc \<Rightarrow> Inl (mode, ''unauthorized_client'', desc)
                        | None \<Rightarrow>
                            if hasDuplicate params then Inl (mode, ''invalid_request'', ''duplicated parameter'')
                            else if form_has params ''scope'' \<and> \<not> scopesAllowed client (values_get params ''scope'')
                            then Inl (mode, ''invalid_scope'', ''Invalid scopes: '' @ values_get params ''scope'')
                            else (case checkPKCE params of
                                    Some desc \<Rightarrow> Inl (mode, ''invalid_request'', desc)
                                  | None \<Rightarrow> Inr mode))))"

definition authorize :: "'db server \<Rightarrow> headers \<Rightarrow> time \<Rightarrow> request \<Rightarrow> 'db world \<Rightarrow> 'db outcome" where
  "authorize h hs now r w =
    resolveRealm h hs (Rq_Realm r) w (\<lambda>realm.
      case authorizationParams r of
        None \<Rightarrow> Some (writeUnparseableBody hs, w)
      | Some params \<Rightarrow>
          (case resolveAuthClient h (W_db w) realm (values_get params ''client_id'') (form_has params ''client_id'') of
             Inl instruction \<Rightarrow> Some (writeErrorPage hs 400 (themeChrome realm) instruction, w)
           | Inr client \<Rightarrow>
               if Client_BearerOnly client then Some (writeErrorPage hs 403 (themeChrome realm) pageBearerOnly, w)
               else if parseMaxAge params = None
               then Some (writeErrorPage hs 400 (themeChromeFor h realm client []) pageInvalidRequest, w)
               else if \<not> matchRedirectURI (Client_RedirectURIs client) (values_get params ''redirect_uri'')
               then Some (writeErrorPage hs 400 (themeChromeFor h realm client []) pageInvalidRedirectURI, w)
               else if form_has params ''response_mode'' \<and> values_get params ''response_mode'' \<in> set responseModes
                       \<and> values_get params ''response_mode'' \<notin> set servableResponseModes
               then Some (writeErrorPage hs 400 (themeChromeFor h realm client []) pageInvalidRequest, w)
               else (let redirectURI = values_get params ''redirect_uri''; state = values_get params ''state'';
                         hasState = form_has params ''state'';
                         reject = (\<lambda>mode hs code desc. writeAuthorizationError h (WriteAuthorizationRedirect h r hs) hs
                           (Realm_Name realm) redirectURI mode code desc state hasState)
                     in case check_request client params of
                          Inl (mode, code, desc) \<Rightarrow> with_response (reject mode hs code desc) w
                        | Inr mode \<Rightarrow>
                            resolveSSO h hs now r realm client (parsePrompt (values_get params ''prompt''))
                              \<lparr>AR_Params = params, AR_RedirectURI = redirectURI, AR_Mode = mode, AR_State = state,
                               AR_HasState = hasState\<rparr> (reject mode) w)))"

section \<open>The device grant in the browser\<close>

definition msgInvalidUserCode :: string where "msgInvalidUserCode = ''Invalid code, please try again.''"

definition serveDeviceCodePage :: "headers \<Rightarrow> realm \<Rightarrow> string \<Rightarrow> response" where
  "serveDeviceCodePage hs realm message =
     WriteThemeDeviceCodePage hs (''/realms/'' @ Realm_Name realm @ ''/device'') (themeChrome realm) message"

definition beginDeviceLogin ::
  "'db server \<Rightarrow> headers \<Rightarrow> time \<Rightarrow> request \<Rightarrow> realm \<Rightarrow> client \<Rightarrow> device_code \<Rightarrow> 'db world \<Rightarrow> 'db outcome" where
  "beginDeviceLogin h hs now r realm client dc w =
    realmKeys h hs now realm w (\<lambda>k w.
      let (tab, w) = new_tab (zero_tab\<lparr>Tab_ClientID := Client_ClientID client, Tab_ClientUUID := Client_ID client,
            Tab_Scope := DC_Scope dc, Tab_DeviceUserCode := DC_UserCode dc\<rparr>) w
      in case beginAuthSession hs now r realm k tab (Some (zero_restart\<lparr>Rst_Realm := Realm_Name realm,
                 Rst_ClientID := Client_ClientID client, Rst_Scope := DC_Scope dc,
                 Rst_DeviceUserCode := DC_UserCode dc\<rparr>)) w of
           (None, hs, w) \<Rightarrow> Some (internal_error hs, w)
         | (Some _, hs, w) \<Rightarrow>
             Some (WriteAuthorizationRedirect h r hs (action_url h (Realm_Name realm) ''authenticate''
               [url_param ''client_id'' (Client_ClientID client),
                url_param ''tab_id'' (Tab_TabID (tab_at (W_auth w) tab)), ''client_data='' @ deviceClientData]), w))"

definition deviceVerification :: "'db server \<Rightarrow> headers \<Rightarrow> time \<Rightarrow> request \<Rightarrow> 'db world \<Rightarrow> 'db outcome" where
  "deviceVerification h hs now r w =
    resolveRealm h hs (Rq_Realm r) w (\<lambda>realm.
      let userCode = values_get (Rq_Query r) ''user_code''
      in if userCode = [] then Some (serveDeviceCodePage hs realm [], w)
         else (case deviceCodeByUserCode (W_device w) now (Realm_Name realm) userCode of
                 None \<Rightarrow> Some (serveDeviceCodePage hs realm msgInvalidUserCode, w)
               | Some a \<Rightarrow>
                   (case ClientRepo_ByID (Store_Clients (H_store h)) (W_db w) (Realm_ID realm)
                           (DC_ClientUUID (device_at (W_device w) a)) of
                      Inl _ \<Rightarrow> Some (serveDeviceCodePage hs realm msgInvalidUserCode, w)
                    | Inr client \<Rightarrow> beginDeviceLogin h hs now r realm client (device_at (W_device w) a) w)))"

definition deviceStatus :: "'db server \<Rightarrow> headers \<Rightarrow> request \<Rightarrow> 'db world \<Rightarrow> 'db outcome" where
  "deviceStatus h hs r w =
    resolveRealm h hs (Rq_Realm r) w (\<lambda>realm.
      let errCode = values_get (Rq_Query r) ''error'';
          (title, instruction) =
            (if errCode = []
             then (''Device Login Successful'', ''You may close this browser window and go back to your device.'')
             else if errCode = deviceErrAccessDenied
             then (''Device Login Failed'', ''Consent denied for connecting the device.'')
             else (''Device Login Failed'',
                   ''You may close this browser window and go back to your device and try connecting again.''))
      in Some (WriteThemeInfoPage hs 200 [] (themeChrome realm) title instruction, w))"

end
