(* ===== verification/LoginSafety.thy ===== *)
theory LoginSafety
  imports Login GrantSafety
begin

text \<open>
  What the browser login of \<open>Login\<close> guarantees: where a browser is sent, which requests are answered with an
  authorization code and for whom, and two behaviours that the surrounding comments do not promise.
\<close>

section \<open>Where a response sends the browser\<close>

definition location :: "headers \<Rightarrow> string option" where
  "location hs = (case map_of hs ''Location'' of Some (l # _) \<Rightarrow> Some l | _ \<Rightarrow> None)"

fun form_action :: "body \<Rightarrow> string option" where
  "form_action (BodyPage (FormPostPage action inputs replaceState)) = Some action"
| "form_action _ = None"

text \<open>The address of a redirect, or the action of the form that posts itself.\<close>

definition target :: "response \<Rightarrow> string option" where
  "target resp = (case location (Resp_Headers resp) of Some l \<Rightarrow> Some l | None \<Rightarrow> form_action (Resp_Body resp))"

lemma map_of_filter_key: "map_of (filter (\<lambda>p. fst p \<noteq> k) hs) k' = (if k' = k then None else map_of hs k')"
  by (induction hs) auto

lemma location_header [simp]:
  "location (header_Set hs k v) = (if k = ''Location'' then Some v else location hs)"
  "k \<noteq> ''Location'' \<Longrightarrow> location (header_Add hs k v) = location hs"
  "k \<noteq> ''Location'' \<Longrightarrow> location (header_Del hs k) = location hs"
  "location (suppressDate hs) = location hs"
  by (auto simp: location_def header_Set_def header_Add_def header_Del_def suppressDate_def map_of_filter_key)

lemma location_writers [simp]:
  "location (SetSecurityHeaders hs) = location hs"
  "location (SetContentSecurityPolicy hs) = location hs"
  "location (setEmptyBodyRequestHeaders h r hs) = location hs"
  "location (SetKeycloakCookie hs c) = location hs"
  by (simp_all add: SetSecurityHeaders_def securityHeaders_def SetContentSecurityPolicy_def
      setEmptyBodyRequestHeaders_def SetKeycloakCookie_def Let_def)

lemma location_cookies [simp]:
  "location (session_cookies hs realm sess) = location hs"
  "location (clearRestartCookie hs realm) = location hs"
  "location (clearPresentedRestart hs r realm) = location hs"
  "location (clearBrowserSessionCookies hs realm) = location hs"
  by (simp_all add: session_cookies_def clearRestartCookie_def clearPresentedRestart_def
      clearBrowserSessionCookies_def Let_def)

lemma target_redirect [simp]:
  "target (WriteAuthorizationRedirect h r hs l) = Some l"
  "target (WriteLoginActionRedirect hs l) = Some l"
  by (simp_all add: target_def WriteAuthorizationRedirect_def WriteLoginActionRedirect_def empty_response_def Let_def)

lemma target_json [simp]:
  "target (WriteJSON hs s j) = location hs"
  "target (WriteMessageError hs s m) = location hs"
  "target (WriteOAuthError hs s c d) = location hs"
  "target (internal_error hs) = location hs"
  "target (writeUnparseableBody hs) = location hs"
  by (simp_all add: target_def WriteJSON_def writeJSON_def WriteMessageError_def WriteOAuthError_def
      internal_error_def writeUnparseableBody_def split: option.splits)

lemma target_page [simp]:
  "form_action (BodyPage p) = None \<Longrightarrow> target (writeThemeHTML hs s c p) = location hs"
  by (simp add: target_def writeThemeHTML_def writeThemeHTMLPolicy_def writeThemeHTMLBody_def Let_def split: option.splits)

lemma target_pages [simp]:
  "target (WriteThemeErrorPage hs s c ch i) = location hs"
  "target (WriteThemeLoginPage hs ch a u m) = location hs"
  "target (WriteThemeExpiredPage hs c ch a b) = location hs"
  "target (WriteThemeConsentPage hs a b c) = location hs"
  "target (writeErrorPage hs s ch i) = location hs"
  by (simp_all add: WriteThemeErrorPage_def WriteThemeLoginPage_def WriteThemeExpiredPage_def WriteThemeConsentPage_def
      writeErrorPage_def)

lemma target_FormPost:
  "WriteFormPost hs action params rs = Some resp \<Longrightarrow> location hs = None \<Longrightarrow> target resp = Some action"
  by (auto simp: WriteFormPost_def target_def Let_def split: option.splits)

text \<open>An address that is the registered one with a query or a fragment behind it.\<close>

definition extends_uri :: "string \<Rightarrow> string \<Rightarrow> bool" where
  "extends_uri uri t \<longleftrightarrow> t = uri \<or> (\<exists>rest. t = uri @ ''?'' @ rest) \<or> (\<exists>rest. t = uri @ ''#'' @ rest)"

lemma target_AuthorizationError:
  assumes "writeAuthorizationError h (WriteAuthorizationRedirect h r hs) hs realm uri mode code desc state has = Some resp"
    and "location hs = None"
  shows "\<exists>t. target resp = Some t \<and> extends_uri uri t"
  using assms target_FormPost
  by (fastforce simp: writeAuthorizationError_def authorizationErrorLocation_def extends_uri_def location_separator_def
      split: if_splits)

lemma target_AuthorizationCode:
  assumes "writeAuthorizationCode h (WriteAuthorizationRedirect h r hs) hs realm tab ss code rs = Some resp"
    and "location hs = None"
  shows "\<exists>t. target resp = Some t \<and> extends_uri (Tab_RedirectURI tab) t"
  using assms target_FormPost
  by (fastforce simp: writeAuthorizationCode_def authorizationCodeLocation_def extends_uri_def location_separator_def
      split: if_splits)

section \<open>Opening a login session\<close>

text \<open>
  What opening or resuming a login session for a tab leaves alone: the database, the keys, the device
  codes and the consents, the address headers, and everything of the tab but its identifier. Stored codes
  can only disappear, when they have expired.
\<close>

definition opens :: "nat \<Rightarrow> headers \<times> 'db world \<Rightarrow> headers \<times> 'db world \<Rightarrow> bool" where
  "opens tab x y \<longleftrightarrow> location (fst y) = location (fst x)
     \<and> W_db (snd y) = W_db (snd x) \<and> W_keys (snd y) = W_keys (snd x) \<and> W_consents (snd y) = W_consents (snd x)
     \<and> W_device (snd y) = W_device (snd x) \<and> W_proofs (snd y) = W_proofs (snd x)
     \<and> AS_codes (W_auth (snd y)) \<subseteq>\<^sub>m AS_codes (W_auth (snd x))
     \<and> (\<exists>i. tab_at (W_auth (snd y)) tab = (tab_at (W_auth (snd x)) tab)\<lparr>Tab_TabID := i\<rparr>)"

lemma opens_refl: "opens tab x x"
  by (auto simp: opens_def intro: exI [of _ "Tab_TabID (tab_at (W_auth (snd x)) tab)"])

lemma opens_trans: "opens tab x y \<Longrightarrow> opens tab y z \<Longrightarrow> opens tab x z"
  by (auto simp: opens_def intro: map_le_trans)

lemma sweep_codes: "AS_codes (auth_sweepLocked s now) \<subseteq>\<^sub>m AS_codes s"
  by (auto simp: auth_sweepLocked_def map_le_def dom_def split: option.splits if_splits)

lemma openTab_opens: "openTab tab w = Some w' \<Longrightarrow> opens tab (hs, w) (hs, w')"
  by (auto simp: openTab_def opens_def update_tab_def tab_at_def split: option.splits)

lemma writeRestartCookie_opens:
  "writeRestartCookie hs now realm restart w = (ok, hs', w') \<Longrightarrow> opens tab (hs, w) (hs', w')"
  using sweep_codes [of "W_auth w" now]
  by (auto simp: writeRestartCookie_def newRestart_def Let_def tab_at_def auth_sweepLocked_def opens_def
      split: option.splits prod.splits intro: exI [of _ "Tab_TabID (tab_at (W_auth w) tab)"])

lemma newAuthSession_frame:
  "newAuthSession s now e realm root hash tab = Some ((sess, s'), e') \<Longrightarrow>
     AS_tab_heap s' = AS_tab_heap s \<and> AS_codes s' = AS_codes (auth_sweepLocked s now)"
  by (auto simp: newAuthSession_def Let_def auth_sweepLocked_def split: option.splits)

lemma resumeAuthSession_opens:
  assumes "resumeAuthSession hs now realm k root tab restart w = (sess, hs', w')"
  shows "opens tab (hs, w) (hs', w')"
proof (cases "openTab tab w")
  case None
  with assms show ?thesis by (auto simp: resumeAuthSession_def intro: opens_refl)
next
  case (Some w1)
  note o1 = openTab_opens [OF Some, of hs]
  show ?thesis
  proof (cases "newAuthSession (W_auth w1) now (W_entropy w1) (Realm_Name realm) root (sessionHash k root) tab")
    case None
    with Some assms o1 show ?thesis by (auto simp: resumeAuthSession_def)
  next
    case new: (Some x)
    obtain a s e where x: "x = ((a, s), e)" by (metis prod.exhaust)
    obtain ok where "writeRestartCookie (session_cookies hs realm (session_at s a)) now realm restart
        (w1\<lparr>W_auth := s, W_entropy := e\<rparr>) = (ok, hs', w')"
      using Some new x assms by (auto simp: resumeAuthSession_def Let_def split: prod.splits if_splits)
    from writeRestartCookie_opens [OF this, of tab] have
      "opens tab (session_cookies hs realm (session_at s a), w1\<lparr>W_auth := s, W_entropy := e\<rparr>) (hs', w')" .
    moreover have "opens tab (hs, w1) (session_cookies hs realm (session_at s a), w1\<lparr>W_auth := s, W_entropy := e\<rparr>)"
      using newAuthSession_frame [OF new [unfolded x]] sweep_codes [of "W_auth w1" now]
      by (auto simp: opens_def tab_at_def intro: exI [of _ "Tab_TabID (tab_at (W_auth w1) tab)"])
    ultimately show ?thesis using o1 opens_trans by blast
  qed
qed

lemma liveAuthSession_opens:
  "liveAuthSession now r realm w = (sess, w') \<Longrightarrow> opens tab (hs, w) (hs, w')"
  by (auto simp: liveAuthSession_def sessionByCookie_def opens_def tab_at_def Let_def
      split: option.splits prod.splits if_splits intro: exI [of _ "Tab_TabID (tab_at (W_auth w) tab)"])

lemma addTab_opens: "opens tab (hs, w) (hs, w\<lparr>W_auth := addTab (W_auth w) now sess tab'\<rparr>)"
  by (auto simp: addTab_def opens_def tab_at_def Let_def
      split: option.splits intro: exI [of _ "Tab_TabID (tab_at (W_auth w) tab)"])

lemma beginAuthSession_opens:
  assumes "beginAuthSession hs now r realm k tab restart w = (sess, hs', w')"
  shows "opens tab (hs, w) (hs', w')"
proof -
  obtain live w1 where l: "liveAuthSession now r realm w = (live, w1)" by fastforce
  note o1 = liveAuthSession_opens [OF l, of tab hs]
  show ?thesis
  proof (cases live)
    case None
    show ?thesis
    proof (cases "randomBase64URL rootIDBytes (W_entropy w1)")
      case n: None
      with None l assms o1 show ?thesis by (auto simp: beginAuthSession_def)
    next
      case (Some x)
      obtain rootID e where x: "x = (rootID, e)" by fastforce
      have "resumeAuthSession hs now realm k rootID tab restart (w1\<lparr>W_entropy := e\<rparr>) = (sess, hs', w')"
        using None l Some x assms by (simp add: beginAuthSession_def)
      from resumeAuthSession_opens [OF this] have "opens tab (hs, w1) (hs', w')" by (simp add: opens_def)
      with o1 show ?thesis by (rule opens_trans)
    qed
  next
    case (Some a)
    show ?thesis
    proof (cases "openTab tab w1")
      case None
      with Some l assms o1 show ?thesis by (auto simp: beginAuthSession_def)
    next
      case opened: (Some w2)
      obtain ok where "writeRestartCookie hs now realm restart (w2\<lparr>W_auth := addTab (W_auth w2) now a tab\<rparr>) = (ok, hs', w')"
        using Some l opened assms by (auto simp: beginAuthSession_def Let_def split: prod.splits)
      then show ?thesis
        by (rule opens_trans [OF opens_trans [OF opens_trans [OF o1 openTab_opens [OF opened]] addTab_opens]
              writeRestartCookie_opens])
    qed
  qed
qed

lemma new_tab_frame:
  "new_tab t w = (a, w') \<Longrightarrow> tab_at (W_auth w') a = t \<and> W_db w' = W_db w \<and> W_keys w' = W_keys w
     \<and> W_consents w' = W_consents w \<and> AS_codes (W_auth w') = AS_codes (W_auth w)"
  by (auto simp: new_tab_def alloc_tab_def tab_at_def)

lemma realmKeys_run:
  assumes "realmKeys h hs now realm w f = Some (resp, w')"
  obtains (failed) m db e where "resp = internal_error hs" "w' = w\<lparr>W_keys := m, W_db := db, W_entropy := e\<rparr>"
  | (run) k m db e where "ForRealm (H_x509 h) (H_store h) now realm (W_keys w) (W_db w) (W_entropy w) = Some (Inr k, m, db, e)"
      "f k (w\<lparr>W_keys := m, W_db := db, W_entropy := e\<rparr>) = Some (resp, w')"
  using assms by (auto simp: realmKeys_def Let_def split: option.splits sum.splits prod.splits)

lemma setLoginCookies_run:
  assumes "setLoginCookies h hs now realm k sid user w f = Some (resp, w')"
  obtains (failed) e where "resp = internal_error hs" "w' = w\<lparr>W_entropy := e\<rparr>"
  | (run) hs' e where "location hs' = location hs" "f hs' (w\<lparr>W_entropy := e\<rparr>) = Some (resp, w')"
  using assms
proof (cases "randomBase64URL rootIDBytes (W_entropy w)")
  case None
  with assms have "resp = internal_error hs" "w' = w\<lparr>W_entropy := W_entropy w\<rparr>"
    by (auto simp: setLoginCookies_def)
  then show thesis by (rule failed)
next
  case (Some x)
  obtain sc e1 where x: "x = (sc, e1)" by fastforce
  obtain jti e2 where n: "NewID e1 = Some (jti, e2)"
    using assms Some x by (auto simp: setLoginCookies_def split: option.splits)
  show thesis
  proof (cases "IssueIdentityCookie (H_jose h) k (realmIssuer h (Realm_Name realm)) (User_ID user) sid jti sc now")
    case (Inl err)
    then have "resp = internal_error hs" "w' = w\<lparr>W_entropy := e2\<rparr>"
      using assms Some x n by (auto simp: setLoginCookies_def Let_def)
    then show thesis by (rule failed)
  next
    case (Inr identity)
    then obtain c1 c2 where "f (SetKeycloakCookie (SetKeycloakCookie hs c1) c2) (w\<lparr>W_entropy := e2\<rparr>) = Some (resp, w')"
      using assms Some x n by (auto simp: setLoginCookies_def Let_def)
    then show thesis by (rule run [rotated]) simp
  qed
qed

lemma with_response_Some: "with_response x w = Some (resp, w') \<longleftrightarrow> x = Some resp \<and> w' = w"
  by (auto simp: with_response_def)

section \<open>The authorization endpoint\<close>

lemma rotateSessionCode_codes:
  "rotateSessionCode s now e sess tab u = Some ((c, s'), e') \<Longrightarrow> AS_codes s' = AS_codes s"
  by (auto simp: rotateSessionCode_def Let_def split: option.splits)

lemma serveLoginPage_target:
  "serveLoginPage h hs now realm client sess tab u m w = Some (resp, w') \<Longrightarrow>
     target resp = location hs \<and> AS_codes (W_auth w') = AS_codes (W_auth w)"
  by (auto simp: serveLoginPage_def Let_def split: option.splits prod.splits dest: rotateSessionCode_codes)

lemma beginLoginFromParams_target:
  assumes "beginLoginFromParams h hs now r realm client req w = Some (resp, w')"
  shows "target resp = location hs \<and> AS_codes (W_auth w') \<subseteq>\<^sub>m AS_codes (W_auth w)"
  using assms unfolding beginLoginFromParams_def
proof (cases rule: realmKeys_run)
  case (run k m db e)
  obtain tab w1 where t: "new_tab (request_tab req client) (w\<lparr>W_keys := m, W_db := db, W_entropy := e\<rparr>) = (tab, w1)"
    by fastforce
  obtain sess hs1 w2 where b: "beginAuthSession hs now r realm k tab (Some (request_restart req realm client)) w1 = (sess, hs1, w2)"
    by (metis prod.exhaust)
  have "location hs1 = location hs \<and> AS_codes (W_auth w2) \<subseteq>\<^sub>m AS_codes (W_auth w)"
    using beginAuthSession_opens [OF b] new_tab_frame [OF t] by (simp add: opens_def)
  with run t b show ?thesis by (auto dest: serveLoginPage_target split: option.splits)
qed simp

lemma beginRequiredActionFromSSO_target:
  assumes "beginRequiredActionFromSSO h hs now realm client k session user req step w = Some (resp, w')"
  shows "(target resp = location hs \<or> (\<exists>rest. target resp = Some (realmBase h (Realm_Name realm) @ ''/login-actions/'' @ rest)))
    \<and> AS_codes (W_auth w') \<subseteq>\<^sub>m AS_codes (W_auth w)"
proof -
  obtain tab w1 where t: "new_tab ((request_tab req client)\<lparr>Tab_UserID := User_ID user\<rparr>) w = (tab, w1)" by fastforce
  obtain sess hs1 w2 where b: "resumeAuthSession hs now realm k (US_ID session) tab (Some (request_restart req realm client)) w1
      = (sess, hs1, w2)" by (metis prod.exhaust)
  have "location hs1 = location hs \<and> AS_codes (W_auth w2) \<subseteq>\<^sub>m AS_codes (W_auth w)"
    using resumeAuthSession_opens [OF b] new_tab_frame [OF t] by (simp add: opens_def)
  with assms t b show ?thesis
    by (auto simp: beginRequiredActionFromSSO_def writeRequiredActionRedirect_def action_url_def split: option.splits)
qed

lemma attachClientSessionTo_auth:
  "attachClientSessionTo h now session client scope w = Some (ok, w') \<Longrightarrow> W_auth w' = W_auth w"
  by (auto simp: attachClientSessionTo_def Let_def split: sum.splits option.splits)

lemma completeSSO_run:
  assumes "completeSSO h hs now r realm client k session user req w = Some (resp, w')"
  obtains (failed) "target resp = location hs" "AS_codes (W_auth w') \<subseteq>\<^sub>m AS_codes (W_auth w)"
  | (code) hs' t i code s rest e where "location hs' = location hs"
      "t = (request_tab req client)\<lparr>Tab_TabID := i\<rparr>"
      "resp = internal_error hs' \<or>
         writeAuthorizationCode h (WriteAuthorizationRedirect h r hs') hs' (Realm_Name realm) t (US_ID session) code [] = Some resp"
      "AS_codes s \<subseteq>\<^sub>m AS_codes (W_auth w)"
      "newCode s now e (code_for_tab realm client user (US_ID session) (grantedScope (Tab_Scope t)) t) = Some ((code, W_auth w'), rest)"
proof -
  define restart where "restart = (if ''none'' \<in> set (parsePrompt (values_get (AR_Params req) ''prompt'')) then None
      else Some (request_restart req realm client))"
  obtain tab w1 where t: "new_tab (request_tab req client) w = (tab, w1)" by fastforce
  obtain sess hs1 w2 where b: "resumeAuthSession hs now realm k (US_ID session) tab restart w1 = (sess, hs1, w2)"
    by (metis prod.exhaust)
  note o1 = resumeAuthSession_opens [OF b, unfolded opens_def fst_conv snd_conv]
  have codes: "AS_codes (W_auth w2) \<subseteq>\<^sub>m AS_codes (W_auth w)" using o1 new_tab_frame [OF t] by simp
  have tab: "tab_at (W_auth w2) tab = (request_tab req client)\<lparr>Tab_TabID := Tab_TabID (tab_at (W_auth w2) tab)\<rparr>"
    using o1 new_tab_frame [OF t] by auto
  define scope where "scope = grantedScope (Tab_Scope (tab_at (W_auth w2) tab))"
  show thesis
  proof (cases sess)
    case None
    then have "resp = internal_error hs1" "w' = w2"
      using assms t b by (simp_all add: completeSSO_def restart_def)
    then show thesis using failed codes o1 by simp
  next
    case (Some a)
    define hs2 where "hs2 = clearPresentedRestart hs1 r realm"
    obtain ok w3 where at: "attachClientSessionTo h now session client scope w2 = Some (ok, w3)"
      using assms t b Some by (auto simp: completeSSO_def restart_def scope_def Let_def split: option.splits)
    note w3 = attachClientSessionTo_auth [OF at]
    show thesis
    proof (cases "ok \<and> newCode (W_auth w3) now (W_entropy w3) (code_for_tab realm client user (US_ID session) scope
        (tab_at (W_auth w2) tab)) \<noteq> None")
      case False
      then have "resp = internal_error hs2" "w' = w3"
        using assms t b Some at by (auto simp: completeSSO_def restart_def scope_def hs2_def Let_def
            split: bool.splits option.splits)
      then show thesis using failed codes o1 w3 by (simp add: hs2_def)
    next
      case True
      then obtain c s e where n: "newCode (W_auth w3) now (W_entropy w3) (code_for_tab realm client user (US_ID session) scope
          (tab_at (W_auth w2) tab)) = Some ((c, s), e)" by auto
      have "setLoginCookies h hs2 now realm k (US_ID session) user (w3\<lparr>W_auth := s, W_entropy := e\<rparr>)
          (\<lambda>hs w. with_response (writeAuthorizationCode h (WriteAuthorizationRedirect h r hs) hs
             (Realm_Name realm) (tab_at (W_auth w2) tab) (US_ID session) c []) w) = Some (resp, w')"
        using assms t b Some at True n by (simp add: completeSSO_def restart_def scope_def hs2_def)
      then show thesis
      proof (cases rule: setLoginCookies_run)
        case (failed e')
        show thesis
          by (rule code [of hs2, OF _ tab _ codes])
            (use failed n o1 w3 in \<open>auto simp: hs2_def scope_def\<close>)
      next
        case (run hs' e')
        show thesis
          by (rule code [of hs', OF _ tab _ codes])
            (use run n o1 w3 in \<open>auto simp: hs2_def scope_def with_response_Some\<close>)
      qed
    qed
  qed
qed

lemma openSilentSession_frame:
  assumes "openSilentSession hs now r realm client k req w = (sess, tab, hs', w')"
  shows "location hs' = location hs \<and> AS_codes (W_auth w') \<subseteq>\<^sub>m AS_codes (W_auth w)"
proof -
  obtain w1 where t: "new_tab (request_tab req client) w = (tab, w1)"
    and b: "beginAuthSession hs now r realm k tab None w1 = (sess, hs', w')"
    using assms by (auto simp: openSilentSession_def split: prod.splits)
  show ?thesis using beginAuthSession_opens [OF b] new_tab_frame [OF t] by (simp add: opens_def)
qed

text \<open>The addresses an authorization request may be answered with.\<close>

definition answer_target :: "'db server \<Rightarrow> realm \<Rightarrow> string \<Rightarrow> string option \<Rightarrow> bool" where
  "answer_target h realm uri x \<longleftrightarrow>
    (\<forall>t. x = Some t \<longrightarrow> extends_uri uri t \<or> (\<exists>rest. t = realmBase h (Realm_Name realm) @ ''/login-actions/'' @ rest))"

lemma resolveBrowserSession_location:
  "resolveBrowserSession h hs now r realm k db = (x, hs') \<Longrightarrow> location hs' = location hs"
  by (auto simp: resolveBrowserSession_def split: option.splits sum.splits if_splits)

lemma resolveSSO_run:
  fixes h :: "'db server"
  assumes "resolveSSO h hs now r realm client prompt req reject w = Some (resp, w')" "location hs = None"
    and rej: "\<forall>hs code resp. reject hs code [] = Some resp \<longrightarrow> location hs = None \<longrightarrow> answer_target h realm uri (target resp)"
  obtains (quiet) "answer_target h realm uri (target resp)" "AS_codes (W_auth w') \<subseteq>\<^sub>m AS_codes (W_auth w)"
  | (sso) k m db e hs1 session user user' db' where
      "ForRealm (H_x509 h) (H_store h) now realm (W_keys w) (W_db w) (W_entropy w) = Some (Inr k, m, db, e)"
      "resolveBrowserSession h hs now r realm k db = (Some (session, user), hs1)" "ssoEnabled h db realm"
      "\<forall>n. parseMaxAge (AR_Params req) = Some (Some n) \<longrightarrow> maxAgeSatisfied session n now"
      "nextRequiredAction h realm user db = (Some [], user', db')"
      "\<not> consentNeeded (W_consents w) realm client user' prompt" "''login'' \<notin> set prompt"
      "completeSSO h hs1 now r realm client k session user' req
         (w\<lparr>W_keys := m, W_db := db', W_entropy := e\<rparr>) = Some (resp, w')"
  using assms(1) unfolding resolveSSO_def
proof (cases rule: realmKeys_run)
  case failed
  then show thesis using quiet assms(2) by (auto simp: answer_target_def)
next
  case (run k m db e)
  define w1 where "w1 = w\<lparr>W_keys := m, W_db := db, W_entropy := e\<rparr>"
  obtain found hs1 where f: "resolveBrowserSession h hs now r realm k db = (found, hs1)" by fastforce
  have l: "location hs1 = None" using resolveBrowserSession_location [OF f] assms(2) by simp
  define refuse where "refuse = (\<lambda>code (w :: 'db world). let (sess, tab, hs, w) = openSilentSession hs1 now r realm client k req w
      in with_response (reject (clearPresentedRestart hs r realm) code []) w)"
  define anonymous where "anonymous = (\<lambda>w :: 'db world.
            if ''none'' \<in> set prompt then refuse ''login_required'' w
            else if ''login'' \<in> set prompt then beginLoginFromParams h hs1 now r realm client req w
            else if ''create'' \<in> set prompt
            then (let (sess, tab, hs, w) = openSilentSession hs1 now r realm client k req w
                  in Some (writeRegistrationPage h hs realm client sess tab w, w))
            else beginLoginFromParams h hs1 now r realm client req w)"
  have refuse: "answer_target h realm uri (target resp) \<and> AS_codes (W_auth w') \<subseteq>\<^sub>m AS_codes (W_auth v)"
    if "refuse code v = Some (resp, w')" for code v
    using that rej openSilentSession_frame l
    by (fastforce simp: refuse_def with_response_Some split: prod.splits)
  have anonymous: "answer_target h realm uri (target resp) \<and> AS_codes (W_auth w') \<subseteq>\<^sub>m AS_codes (W_auth v)"
    if "anonymous v = Some (resp, w')" for v
    using that refuse beginLoginFromParams_target openSilentSession_frame l
    by (fastforce simp: anonymous_def answer_target_def writeRegistrationPage_def split: prod.splits if_splits)
  define fresh where "fresh = (case found of
        Some (session, user) \<Rightarrow>
          if ssoEnabled h db realm
            \<and> (case (case parseMaxAge (AR_Params req) of Some m \<Rightarrow> m | None \<Rightarrow> None) of
                 None \<Rightarrow> True | Some m \<Rightarrow> maxAgeSatisfied session m now)
          then Some (session, user) else None
      | None \<Rightarrow> None)"
  have db: "W_db w1 = db" and co: "W_consents w1 = W_consents w" and au: "W_auth w1 = W_auth w" by (simp_all add: w1_def)
  have R: "(case fresh of
           None \<Rightarrow> anonymous w1
         | Some (session, user) \<Rightarrow>
             (case nextRequiredAction h realm user db of
                (None, _, db) \<Rightarrow> Some (internal_error hs1, w1\<lparr>W_db := db\<rparr>)
              | (Some pending, user, db) \<Rightarrow>
                  (let w = w1\<lparr>W_db := db\<rparr>; consent = consentNeeded (W_consents w) realm client user prompt
                   in if ''login'' \<in> set prompt \<or> ''create'' \<in> set prompt \<and> ''none'' \<notin> set prompt then anonymous w
                      else if ''none'' \<in> set prompt
                      then (if pending \<noteq> [] \<or> consent then refuse ''interaction_required'' w
                            else completeSSO h hs1 now r realm client k session user req w)
                      else if pending \<noteq> []
                      then beginRequiredActionFromSSO h hs1 now realm client k session user req pending w
                      else if consent
                      then beginRequiredActionFromSSO h hs1 now realm client k session user req executionOAuthGrant w
                      else completeSSO h hs1 now r realm client k session user req w))) = Some (resp, w')"
    using run(2) unfolding w1_def [symmetric] Let_def db f prod.case fresh_def anonymous_def refuse_def .
  show thesis
  proof (cases fresh)
    case None
    then show thesis using R anonymous [of w1] quiet au by simp
  next
    case (Some p)
    then obtain session user where p: "fresh = Some (session, user)" by (metis prod.exhaust)
    have fr: "found = Some (session, user)" "ssoEnabled h db realm"
      "\<forall>n. parseMaxAge (AR_Params req) = Some (Some n) \<longrightarrow> maxAgeSatisfied session n now"
      using p by (auto simp: fresh_def split: option.splits if_splits)
    obtain step user' db' where n: "nextRequiredAction h realm user db = (step, user', db')" by (metis prod.exhaust)
    define w2 where "w2 = w1\<lparr>W_db := db'\<rparr>"
    have w2: "W_consents w2 = W_consents w" "W_auth w2 = W_auth w"
      "w2 = w\<lparr>W_keys := m, W_db := db', W_entropy := e\<rparr>" by (simp_all add: w2_def w1_def)
    consider "step = Some []" "\<not> consentNeeded (W_consents w) realm client user' prompt" "''login'' \<notin> set prompt"
        "completeSSO h hs1 now r realm client k session user' req w2 = Some (resp, w')"
      | "resp = internal_error hs1" "w' = w2"
      | "anonymous w2 = Some (resp, w')"
      | "refuse ''interaction_required'' w2 = Some (resp, w')"
      | step where "beginRequiredActionFromSSO h hs1 now realm client k session user' req step w2 = Some (resp, w')"
    proof (cases step)
      case None
      then show ?thesis using R that(2) unfolding p option.case prod.case n w2_def by simp
    next
      case (Some pending)
      define consent where "consent = consentNeeded (W_consents w) realm client user' prompt"
      have "(if ''login'' \<in> set prompt \<or> ''create'' \<in> set prompt \<and> ''none'' \<notin> set prompt then anonymous w2
           else if ''none'' \<in> set prompt
           then (if pending \<noteq> [] \<or> consent then refuse ''interaction_required'' w2
                 else completeSSO h hs1 now r realm client k session user' req w2)
           else if pending \<noteq> []
           then beginRequiredActionFromSSO h hs1 now realm client k session user' req pending w2
           else if consent
           then beginRequiredActionFromSSO h hs1 now realm client k session user' req executionOAuthGrant w2
           else completeSSO h hs1 now r realm client k session user' req w2) = Some (resp, w')"
        using R unfolding p option.case prod.case n Some w2_def [symmetric] Let_def w2(1) consent_def .
      then show ?thesis using that(1,3,4,5) Some unfolding consent_def [symmetric] by (simp split: if_splits)
    qed
    then show thesis
    proof cases
      case 1
      then show thesis using sso [OF run(1) _ fr(2,3)] f fr(1) n w2(3) by blast
    next
      case 2
      then show thesis using quiet l w2(2) by (simp add: answer_target_def)
    next
      case 3
      then show thesis using anonymous quiet w2(2) by metis
    next
      case 4
      then show thesis using refuse quiet w2(2) by metis
    next
      case 5
      then show thesis using beginRequiredActionFromSSO_target [OF 5] quiet l w2(2) by (auto simp: answer_target_def)
    qed
  qed
qed

lemma next_action_loop_id: "next_action_loop h ps user db = (x, user', db') \<Longrightarrow> User_ID user' = User_ID user"
proof (induction h ps user db rule: next_action_loop.induct)
  case (2 h p ps user db)
  then show ?case
    by (auto simp: clearRequiredAction_def Let_def split: if_splits sum.splits prod.splits bool.splits)
qed simp

lemma nextRequiredAction_id: "nextRequiredAction h realm user db = (x, user', db') \<Longrightarrow> User_ID user' = User_ID user"
  by (auto simp: nextRequiredAction_def split: if_splits sum.splits dest: next_action_loop_id)

definition authorize_reject ::
  "'db server \<Rightarrow> request \<Rightarrow> realm \<Rightarrow> url_values \<Rightarrow> string \<Rightarrow> headers \<Rightarrow> string \<Rightarrow> string \<Rightarrow> response option" where
  "authorize_reject h r realm params mode hs code desc =
     writeAuthorizationError h (WriteAuthorizationRedirect h r hs) hs (Realm_Name realm) (values_get params ''redirect_uri'')
       mode code desc (values_get params ''state'') (form_has params ''state'')"

lemma authorize_reject_target:
  "authorize_reject h r realm params mode hs code desc = Some resp \<Longrightarrow> location hs = None
     \<Longrightarrow> answer_target h realm (values_get params ''redirect_uri'') (target resp)"
  unfolding authorize_reject_def by (auto dest: target_AuthorizationError simp: answer_target_def)

lemma authorize_reject_targets:
  "\<forall>hs code resp. authorize_reject h r realm params mode hs code [] = Some resp \<longrightarrow> location hs = None
     \<longrightarrow> answer_target h realm (values_get params ''redirect_uri'') (target resp)"
  by (blast intro: authorize_reject_target)

lemma authorize_run:
  assumes "authorize h hs now r w = Some (resp, w')" "location hs = None"
  obtains (refused) "target resp = None" "w' = w"
  | (accepted) realm params client where
      "RealmRepo_ByName (Store_Realms (H_store h)) (W_db w) (Rq_Realm r) = Inr realm" "authorizationParams r = Some params"
      "ClientRepo_ByClientID (Store_Clients (H_store h)) (W_db w) (Realm_ID realm) (values_get params ''client_id'') = Inr client"
      "Client_Enabled client" "\<not> Client_BearerOnly client"
      "matchRedirectURI (Client_RedirectURIs client) (values_get params ''redirect_uri'')"
      "answer_target h realm (values_get params ''redirect_uri'') (target resp) \<and> w' = w \<or> (\<exists>mode.
         check_request client params = Inr mode \<and>
         resolveSSO h hs now r realm client (parsePrompt (values_get params ''prompt''))
           \<lparr>AR_Params = params, AR_RedirectURI = values_get params ''redirect_uri'', AR_Mode = mode,
            AR_State = values_get params ''state'', AR_HasState = form_has params ''state''\<rparr>
           (authorize_reject h r realm params mode) w = Some (resp, w'))"
proof (cases "RealmRepo_ByName (Store_Realms (H_store h)) (W_db w) (Rq_Realm r)")
  case (Inl err)
  with assms show thesis by (intro refused) (auto simp: authorize_def resolveRealm_def split: if_splits)
next
  case realm: (Inr realm)
  show thesis
  proof (cases "authorizationParams r")
    case None
    with assms realm show thesis by (intro refused) (auto simp: authorize_def resolveRealm_def)
  next
    case params: (Some params)
    define uri where "uri = values_get params ''redirect_uri''"
    show thesis
    proof (cases "resolveAuthClient h (W_db w) realm (values_get params ''client_id'') (form_has params ''client_id'')")
      case (Inl err)
      with assms realm params show thesis by (intro refused) (auto simp: authorize_def resolveRealm_def)
    next
      case client: (Inr client)
      then have c: "ClientRepo_ByClientID (Store_Clients (H_store h)) (W_db w) (Realm_ID realm) (values_get params ''client_id'')
          = Inr client" "Client_Enabled client"
        by (auto simp: resolveAuthClient_def split: if_splits sum.splits)
      show thesis
      proof (cases "Client_BearerOnly client \<or> parseMaxAge params = None \<or> \<not> matchRedirectURI (Client_RedirectURIs client) uri
          \<or> form_has params ''response_mode'' \<and> values_get params ''response_mode'' \<in> set responseModes
             \<and> values_get params ''response_mode'' \<notin> set servableResponseModes")
        case True
        with assms realm params client show thesis
          by (intro refused) (auto simp: authorize_def resolveRealm_def uri_def split: if_splits)
      next
        case False
        show thesis
        proof (cases "check_request client params")
          case (Inl x)
          then obtain mode code desc where x: "check_request client params = Inl (mode, code, desc)" by (metis prod.exhaust)
          have "authorize_reject h r realm params mode hs code desc = Some resp" "w' = w"
            using assms realm params client False x
            by (auto simp: authorize_def resolveRealm_def uri_def authorize_reject_def with_response_Some split: if_splits)
          then have "answer_target h realm (values_get params ''redirect_uri'') (target resp) \<and> w' = w"
            using authorize_reject_target assms(2) by blast
          then show thesis using False accepted [OF realm params c] by (auto simp: uri_def)
        next
          case (Inr mode)
          have "resolveSSO h hs now r realm client (parsePrompt (values_get params ''prompt''))
              \<lparr>AR_Params = params, AR_RedirectURI = values_get params ''redirect_uri'', AR_Mode = mode,
               AR_State = values_get params ''state'', AR_HasState = form_has params ''state''\<rparr>
              (authorize_reject h r realm params mode) w = Some (resp, w')"
            using assms realm params client False Inr
            by (auto simp: authorize_def resolveRealm_def uri_def authorize_reject_def [abs_def] Let_def split: if_splits)
          then show thesis
            using False accepted [OF realm params c] Inr by (auto simp: uri_def)
        qed
      qed
    qed
  qed
qed

text \<open>
  C5. No open redirect. Whatever an authorization request asks for, the browser is sent (by a redirect or
  by a form that posts itself) only to the realm's own login actions or to the redirect URI of the
  request with a query or fragment behind it, and then only when the client the request names is
  registered and enabled in the realm and its patterns admit that URI.
\<close>

theorem authorize_target:
  assumes "authorize h hs now r w = Some (resp, w')" "location hs = None" "target resp = Some t"
  shows "\<exists>realm params client.
      RealmRepo_ByName (Store_Realms (H_store h)) (W_db w) (Rq_Realm r) = Inr realm \<and> authorizationParams r = Some params
    \<and> ClientRepo_ByClientID (Store_Clients (H_store h)) (W_db w) (Realm_ID realm) (values_get params ''client_id'') = Inr client
    \<and> Client_Enabled client \<and> \<not> Client_BearerOnly client
    \<and> matchRedirectURI (Client_RedirectURIs client) (values_get params ''redirect_uri'')
    \<and> (extends_uri (values_get params ''redirect_uri'') t
       \<or> (\<exists>rest. t = realmBase h (Realm_Name realm) @ ''/login-actions/'' @ rest))"
  using assms(1,2)
proof (cases rule: authorize_run)
  case refused
  with assms(3) show ?thesis by simp
next
  case (accepted realm params client)
  have "answer_target h realm (values_get params ''redirect_uri'') (target resp)"
    using accepted(7)
  proof (elim disjE exE conjE)
    fix mode
    define req where "req = \<lparr>AR_Params = params, AR_RedirectURI = values_get params ''redirect_uri'', AR_Mode = mode,
      AR_State = values_get params ''state'', AR_HasState = form_has params ''state''\<rparr>"
    assume "resolveSSO h hs now r realm client (parsePrompt (values_get params ''prompt''))
      \<lparr>AR_Params = params, AR_RedirectURI = values_get params ''redirect_uri'', AR_Mode = mode,
       AR_State = values_get params ''state'', AR_HasState = form_has params ''state''\<rparr>
      (authorize_reject h r realm params mode) w = Some (resp, w')"
    then have run: "resolveSSO h hs now r realm client (parsePrompt (values_get params ''prompt'')) req
      (authorize_reject h r realm params mode) w = Some (resp, w')" by (simp add: req_def)
    from run assms(2) authorize_reject_targets show ?thesis
    proof (cases rule: resolveSSO_run)
      case (sso k m db e hs1 session user user' db')
      have "location hs1 = None" using resolveBrowserSession_location [OF sso(2)] assms(2) by simp
      note none = this
      from sso(8) show ?thesis
      proof (cases rule: completeSSO_run)
        case failed
        then show ?thesis using none by (simp add: answer_target_def)
      next
        case (code hs' tab i c s rest e)
        have "Tab_RedirectURI tab = values_get params ''redirect_uri''" by (simp add: code(2) request_tab_def req_def)
        then show ?thesis using code(1,3) none by (auto simp: answer_target_def dest: target_AuthorizationCode)
      qed
    qed
  qed simp
  with accepted assms(3) show ?thesis unfolding answer_target_def by blast
qed

lemma resolveBrowserSession_found:
  assumes "resolveBrowserSession h hs now r realm k db = (Some (session, user), hs')"
  obtains val parsed where "request_cookie r identityCookie = Some val"
    "ParseIdentityCookie (H_jose h) k (realmIssuer h (Realm_Name realm)) val now = Inr parsed"
    "SessionRepo_UserSessionByID (Store_Sessions (H_store h)) db (Realm_ID realm) (Parsed_SessionID parsed) = Inr session"
    "UserRepo_ByID (Store_Users (H_store h)) db (Realm_ID realm) (Parsed_Subject parsed) = Inr user" "User_Enabled user"
  using assms by (auto simp: resolveBrowserSession_def split: option.splits sum.splits if_splits)

lemma newCode_adds:
  assumes "newCode s now e c = Some ((code, s'), e')" "AS_codes s' x = Some y" "AS_codes s x \<noteq> Some y"
  shows "x = code \<and> y = c\<lparr>Code_Code := code, Code_ExpiresAt := now + authCodeLifespan\<rparr>"
  using assms sweep_codes [of s now]
  by (auto simp: newCode_def Let_def map_le_def dom_def split: option.splits if_splits)

text \<open>
  C6. A code without a login page. An authorization request adds an authorization code only for a browser
  whose identity cookie was signed with the realm's keys and names a stored session and an enabled user,
  when single sign-on is not disabled in the realm's browser flow, the prompt does not ask for a login,
  the session is not older than the requested age and neither a required action nor a consent is pending.
  The code is that user's, in that session, for the client and redirect URI of this request, bound to its
  nonce and its PKCE challenge, and lives for a minute.
\<close>

theorem authorize_code:
  assumes "authorize h hs now r w = Some (resp, w')" "location hs = None"
    and "AS_codes (W_auth w') c = Some code" "AS_codes (W_auth w) c \<noteq> Some code"
  shows "\<exists>realm params client k m db e val parsed session user user' db'.
      RealmRepo_ByName (Store_Realms (H_store h)) (W_db w) (Rq_Realm r) = Inr realm \<and> authorizationParams r = Some params
    \<and> ClientRepo_ByClientID (Store_Clients (H_store h)) (W_db w) (Realm_ID realm) (values_get params ''client_id'') = Inr client
    \<and> Client_Enabled client \<and> matchRedirectURI (Client_RedirectURIs client) (values_get params ''redirect_uri'')
    \<and> ForRealm (H_x509 h) (H_store h) now realm (W_keys w) (W_db w) (W_entropy w) = Some (Inr k, m, db, e)
    \<and> request_cookie r identityCookie = Some val
    \<and> ParseIdentityCookie (H_jose h) k (realmIssuer h (Realm_Name realm)) val now = Inr parsed
    \<and> SessionRepo_UserSessionByID (Store_Sessions (H_store h)) db (Realm_ID realm) (Parsed_SessionID parsed) = Inr session
    \<and> UserRepo_ByID (Store_Users (H_store h)) db (Realm_ID realm) (Parsed_Subject parsed) = Inr user \<and> User_Enabled user
    \<and> ssoEnabled h db realm \<and> ''login'' \<notin> set (parsePrompt (values_get params ''prompt''))
    \<and> (\<forall>n. parseMaxAge params = Some (Some n) \<longrightarrow> maxAgeSatisfied session n now)
    \<and> nextRequiredAction h realm user db = (Some [], user', db')
    \<and> \<not> consentNeeded (W_consents w) realm client user' (parsePrompt (values_get params ''prompt''))
    \<and> code = \<lparr>Code_Code = c, Code_Realm = Realm_Name realm, Code_ClientUUID = Client_ID client,
        Code_RedirectURI = values_get params ''redirect_uri'', Code_UserID = User_ID user, Code_SessionID = US_ID session,
        Code_Scope = grantedScope (values_get params ''scope''), Code_Nonce = values_get params ''nonce'',
        Code_CodeChallenge = values_get params ''code_challenge'',
        Code_CodeChallengeMethod = values_get params ''code_challenge_method'',
        Code_ExpiresAt = now + authCodeLifespan\<rparr>"
  using assms(1,2)
proof (cases rule: authorize_run)
  case refused
  with assms(3,4) show ?thesis by simp
next
  case (accepted realm params client)
  with assms(3,4) obtain mode where run: "resolveSSO h hs now r realm client (parsePrompt (values_get params ''prompt''))
           \<lparr>AR_Params = params, AR_RedirectURI = values_get params ''redirect_uri'', AR_Mode = mode,
            AR_State = values_get params ''state'', AR_HasState = form_has params ''state''\<rparr>
           (authorize_reject h r realm params mode) w = Some (resp, w')" by auto
  from run assms(2) authorize_reject_targets show ?thesis
  proof (cases rule: resolveSSO_run)
    case quiet
    with assms(3,4) show ?thesis by (auto simp: map_le_def dom_def)
  next
    case (sso k m db e hs1 session user user' db')
    obtain val parsed where b: "request_cookie r identityCookie = Some val"
      "ParseIdentityCookie (H_jose h) k (realmIssuer h (Realm_Name realm)) val now = Inr parsed"
      "SessionRepo_UserSessionByID (Store_Sessions (H_store h)) db (Realm_ID realm) (Parsed_SessionID parsed) = Inr session"
      "UserRepo_ByID (Store_Users (H_store h)) db (Realm_ID realm) (Parsed_Subject parsed) = Inr user" "User_Enabled user"
      by (rule resolveBrowserSession_found [OF sso(2)])
    from sso(8) have "code = (code_for_tab realm client user' (US_ID session) (grantedScope (values_get params ''scope''))
        (request_tab \<lparr>AR_Params = params, AR_RedirectURI = values_get params ''redirect_uri'', AR_Mode = mode,
            AR_State = values_get params ''state'', AR_HasState = form_has params ''state''\<rparr> client))
        \<lparr>Code_Code := c, Code_ExpiresAt := now + authCodeLifespan\<rparr>"
    proof (cases rule: completeSSO_run)
      case failed
      with assms(3,4) show ?thesis by (auto simp: map_le_def dom_def)
    next
      case (code hs' t i cd s rest e)
      have "AS_codes s c \<noteq> Some code" using code(4) assms(4) by (auto simp: map_le_def dom_def)
      from newCode_adds [OF code(5) assms(3) this] show ?thesis
        by (simp add: code(2) code_for_tab_def request_tab_def)
    qed
    then have "code = \<lparr>Code_Code = c, Code_Realm = Realm_Name realm, Code_ClientUUID = Client_ID client,
        Code_RedirectURI = values_get params ''redirect_uri'', Code_UserID = User_ID user, Code_SessionID = US_ID session,
        Code_Scope = grantedScope (values_get params ''scope''), Code_Nonce = values_get params ''nonce'',
        Code_CodeChallenge = values_get params ''code_challenge'',
        Code_CodeChallengeMethod = values_get params ''code_challenge_method'',
        Code_ExpiresAt = now + authCodeLifespan\<rparr>"
      using nextRequiredAction_id [OF sso(5)] by (simp add: code_for_tab_def request_tab_def)
    then show ?thesis using accepted(1-4,6) sso(1,3-7) b by (intro exI conjI) auto
  qed
qed

section \<open>The login actions\<close>

lemma liveAuthSession_codes:
  "liveAuthSession now r realm w = (x, w') \<Longrightarrow> AS_codes (W_auth w') = AS_codes (W_auth w)"
  by (auto simp: liveAuthSession_def sessionByCookie_def Let_def split: option.splits prod.splits if_splits)

lemma resolveAuthTab_codes:
  "resolveAuthTab now r realm q w = (x, w') \<Longrightarrow> AS_codes (W_auth w') = AS_codes (W_auth w)"
  by (auto simp: resolveAuthTab_def Let_def split: option.splits prod.splits if_splits dest: liveAuthSession_codes)

lemma writeRestartRedirect_codes:
  assumes "writeRestartRedirect h hs now r realm rec q w = Some (resp, w')"
  shows "AS_codes (W_auth w') \<subseteq>\<^sub>m AS_codes (W_auth w)"
proof (cases "authClient h (W_db w) realm (values_get q ''client_id'')")
  case None
  with assms show ?thesis by (auto simp: writeRestartRedirect_def)
next
  case (Some client)
  obtain tab w1 where t: "new_tab (restart_tab client rec) w = (tab, w1)" by fastforce
  have "realmKeys h hs now realm w1 (\<lambda>k w.
      case beginAuthSession hs now r realm k tab None w of
        (None, hs, w) \<Rightarrow> Some (internal_error hs, w)
      | (Some _, hs, w) \<Rightarrow> (let t = tab_at (W_auth w) tab
          in Some (WriteLoginActionRedirect hs (action_url h (Realm_Name realm) ''authenticate''
               [url_param ''client_id'' (Client_ClientID client), url_param ''tab_id'' (Tab_TabID t),
                url_param ''client_data'' (tab_clientData t)]), w))) = Some (resp, w')"
    using assms Some t unfolding writeRestartRedirect_def by simp
  then show ?thesis
  proof (cases rule: realmKeys_run)
    case failed
    then show ?thesis using new_tab_frame [OF t] by simp
  next
    case (run k m db e)
    obtain sess hs1 w2 where b: "beginAuthSession hs now r realm k tab None (w1\<lparr>W_keys := m, W_db := db, W_entropy := e\<rparr>) = (sess, hs1, w2)"
      by (metis prod.exhaust)
    then have "w' = w2" using run(2) by (auto simp: Let_def split: option.splits)
    then show ?thesis using beginAuthSession_opens [OF b] new_tab_frame [OF t] by (simp add: opens_def)
  qed
qed

lemma writeUnusableSession_codes:
  assumes "writeUnusableSession h hs now r realm q w = Some (resp, w')"
  shows "AS_codes (W_auth w') \<subseteq>\<^sub>m AS_codes (W_auth w)"
  using assms
  by (auto simp: writeUnusableSession_def writeExpiredAuthentication_def with_response_Some
      split: option.splits if_splits prod.splits dest: writeRestartRedirect_codes)

lemma with_action_tab_run:
  assumes "with_action_tab h hs now r resolve w f = Some (resp, w')"
    and "\<forall>realm q x v. resolve realm q w = (x, v) \<longrightarrow> AS_codes (W_auth v) = AS_codes (W_auth w)"
  obtains (quiet) "AS_codes (W_auth w') \<subseteq>\<^sub>m AS_codes (W_auth w)"
  | (found) realm form client sess tab w1 where
      "RealmRepo_ByName (Store_Realms (H_store h)) (W_db w) (Rq_Realm r) = Inr realm" "Rq_PostForm r = Some form"
      "resolve realm (Rq_Query r) w = (Some (sess, tab), w1)"
      "authClient h (W_db w1) realm (values_get (Rq_Query r) ''client_id'') = Some client"
      "Client_ClientID client = Tab_ClientID (tab_at (W_auth w1) tab)"
      "f realm form client sess tab w1 = Some (resp, w')"
proof (cases "RealmRepo_ByName (Store_Realms (H_store h)) (W_db w) (Rq_Realm r)")
  case (Inl err)
  with assms(1) show thesis by (intro quiet) (auto simp: with_action_tab_def resolveRealm_def split: if_splits)
next
  case realm: (Inr realm)
  show thesis
  proof (cases "Rq_PostForm r = None \<or> \<not> validClientData (values_get (Rq_Query r) ''client_data'')")
    case True
    with assms(1) realm show thesis
      by (intro quiet) (auto simp: with_action_tab_def resolveRealm_def decodeLoginActionBody_def split: option.splits)
  next
    case False
    then obtain form where form: "Rq_PostForm r = Some form" "validClientData (values_get (Rq_Query r) ''client_data'')" by auto
    obtain x w1 where x: "resolve realm (Rq_Query r) w = (x, w1)" by fastforce
    note codes = assms(2) [rule_format, OF x]
    show thesis
    proof (cases x)
      case None
      with assms(1) realm form x have "writeUnusableSession h hs now r realm (Rq_Query r) w1 = Some (resp, w')"
        by (simp add: with_action_tab_def resolveRealm_def decodeLoginActionBody_def)
      from writeUnusableSession_codes [OF this] codes show thesis by (intro quiet) simp
    next
      case (Some p)
      then obtain sess tab where p: "resolve realm (Rq_Query r) w = (Some (sess, tab), w1)" using x by (metis prod.exhaust)
      show thesis
        using assms(1) realm form p codes quiet found [OF realm form(1) p]
        by (auto simp: with_action_tab_def resolveRealm_def decodeLoginActionBody_def Let_def split: option.splits if_splits)
    qed
  qed
qed

lemma startSessionWithID_auth:
  "startSessionWithID h now ident realm client user scope w = Some (x, w') \<Longrightarrow> W_auth w' = W_auth w"
  by (auto simp: startSessionWithID_def Let_def split: sum.splits option.splits prod.splits
      dest: attachClientSessionTo_auth)

lemma completeLogin_run:
  assumes "completeLogin h hs now realm client sess tab user k w = Some (resp, w')"
  obtains (quiet) "AS_codes (W_auth w') \<subseteq>\<^sub>m AS_codes (W_auth w)" "W_auth w' = W_auth w" "Resp_Status resp = 500"
  | (code) session w1 code s e e' where
      "startSessionWithID h now (Sess_RootID (session_at (W_auth w) sess)) realm client user
         (grantedScope (Tab_Scope (tab_at (W_auth w) tab))) w = Some (Some session, w1)"
      "newCode (W_auth w) now e (code_for_tab realm client user (US_ID session)
         (grantedScope (Tab_Scope (tab_at (W_auth w) tab))) (tab_at (W_auth w) tab)) = Some ((code, s), e')"
      "W_auth w' = endSession s (Sess_RootID (session_at (W_auth w) sess))" "W_db w' = W_db w1"
proof -
  define t where "t = tab_at (W_auth w) tab"
  define root where "root = Sess_RootID (session_at (W_auth w) sess)"
  define scope where "scope = grantedScope (Tab_Scope t)"
  obtain x w1 where st: "startSessionWithID h now root realm client user scope w = Some (x, w1)"
    using assms by (auto simp: completeLogin_def t_def root_def scope_def Let_def split: option.splits)
  note w1 = startSessionWithID_auth [OF st]
  show thesis
  proof (cases x)
    case None
    with assms st w1 show thesis
      by (intro quiet) (auto simp: completeLogin_def t_def root_def scope_def Let_def internal_error_def)
  next
    case (Some session)
    show thesis
    proof (cases "newCode (W_auth w1) now (W_entropy w1) (code_for_tab realm client user (US_ID session) scope t)")
      case None
      with assms st w1 Some show thesis
        by (intro quiet) (auto simp: completeLogin_def t_def root_def scope_def Let_def internal_error_def)
    next
      case n: (Some y)
      then obtain cd s e where y: "newCode (W_auth w1) now (W_entropy w1) (code_for_tab realm client user (US_ID session) scope t)
          = Some ((cd, s), e)" by (metis prod.exhaust)
      have "W_auth w' = endSession s root" "W_db w' = W_db w1"
        using assms st Some y
        by (auto simp: completeLogin_def t_def root_def scope_def Let_def with_response_Some elim!: setLoginCookies_run)
      then show thesis using code st Some y w1 by (simp add: t_def root_def scope_def)
    qed
  qed
qed

lemma verifyLoginCredentials_Inr:
  "verifyLoginCredentials h db realm username password = Some (Inr user) \<longleftrightarrow>
     username \<noteq> [] \<and> password \<noteq> []
     \<and> UserRepo_ByUsername (Store_Users (H_store h)) db (Realm_ID realm) (to_lower (H_ToLower h) username) = Inr user
     \<and> (\<exists>cred. UserRepo_CredentialByUser (Store_Users (H_store h)) db (User_ID user) passwordCredentialType = Inr cred
          \<and> VerifyPassword (H_IDKey h) (Some cred) password = Some (Inr ()))
     \<and> User_Enabled user"
  by (auto simp: verifyLoginCredentials_def split: sum.splits option.splits)

lemma tabStep_frame:
  "tabStep h realm client user tab w = (x, user', w') \<Longrightarrow> User_ID user' = User_ID user \<and> W_auth w' = W_auth w
     \<and> W_keys w' = W_keys w \<and> (x = Some [] \<longrightarrow> fst (nextRequiredAction h realm user (W_db w)) = Some []
          \<and> \<not> tabConsentNeeded (W_consents w) realm client user' (tab_at (W_auth w) tab))"
  by (auto simp: tabStep_def executionOAuthGrant_def split: option.splits prod.splits if_splits dest: nextRequiredAction_id)

lemma approve_deny_auth: "finishFlow h hs now realm client sess tab user k w = Some (resp, w') \<Longrightarrow>
    Tab_SAMLBinding (tab_at (W_auth w) tab) = [] \<and> Tab_DeviceUserCode (tab_at (W_auth w) tab) = []
      \<and> completeLogin h hs now realm client sess tab user k w = Some (resp, w')
    \<or> AS_codes (W_auth w') = AS_codes (W_auth w)"
  by (auto simp: finishFlow_def completeDeviceApproval_def Let_def endSession_def
      split: if_splits option.splits prod.splits bool.splits
      dest: startSessionWithID_auth elim!: setLoginCookies_run)

text \<open>What a login that mints a code has been through, from the tab on.\<close>

lemma attemptLogin_code:
  assumes "attemptLogin h hs now form realm client sess tab w = Some (resp, w')"
    and "AS_codes (W_auth w') c = Some code" "AS_codes (W_auth w) c \<noteq> Some code"
  obtains user user' w1 w2 w3 and session :: user_session where
    "verifyLoginCredentials h (W_db w) realm (values_get form ''username'') (values_get form ''password'') = Some (Inr user)"
    "tabStep h realm client user tab (w\<lparr>W_auth := update_tab tab (\<lambda>t. t\<lparr>Tab_UserID := User_ID user\<rparr>) (W_auth w)\<rparr>)
       = (Some [], user', w1)"
    "Tab_SAMLBinding (tab_at (W_auth w) tab) = []" "Tab_DeviceUserCode (tab_at (W_auth w) tab) = []"
    "code = (code_for_tab realm client user (US_ID session) (grantedScope (Tab_Scope (tab_at (W_auth w) tab)))
       (tab_at (W_auth w) tab))\<lparr>Code_Code := c, Code_ExpiresAt := now + authCodeLifespan\<rparr>"
    "AS_sessions (W_auth w') (Sess_RootID (session_at (W_auth w) sess)) = None"
    "startSessionWithID h now (Sess_RootID (session_at (W_auth w) sess)) realm client user'
       (grantedScope (Tab_Scope (tab_at (W_auth w) tab))) w2 = Some (Some session, w3)"
    "W_keys w (Realm_ID realm) \<noteq> None \<longrightarrow> W_db w2 = W_db w1" "W_db w' = W_db w3"
proof -
  obtain user where u: "verifyLoginCredentials h (W_db w) realm (values_get form ''username'') (values_get form ''password'')
      = Some (Inr user)"
    using assms by (auto simp: attemptLogin_def split: option.splits sum.splits dest: serveLoginPage_target)
  define w0 where "w0 = w\<lparr>W_auth := update_tab tab (\<lambda>t. t\<lparr>Tab_UserID := User_ID user\<rparr>) (W_auth w)\<rparr>"
  have w0: "AS_codes (W_auth w0) = AS_codes (W_auth w)" "session_at (W_auth w0) sess = session_at (W_auth w) sess"
    "tab_at (W_auth w0) tab = (tab_at (W_auth w) tab)\<lparr>Tab_UserID := User_ID user\<rparr>"
    by (simp_all add: w0_def update_tab_def session_at_def tab_at_def)
  obtain step user' w1 where st: "tabStep h realm client user tab w0 = (step, user', w1)" by (metis prod.exhaust)
  note fr = tabStep_frame [OF st]
  have "step = Some []"
    using assms u st fr w0(1) by (cases step) (auto simp: attemptLogin_def w0_def [symmetric] split: if_splits)
  then have "realmKeys h hs now realm w1 (\<lambda>k w. finishFlow h hs now realm client sess tab user' k w) = Some (resp, w')"
    using assms(1) u st by (simp add: attemptLogin_def w0_def)
  then obtain k w2 where f: "finishFlow h hs now realm client sess tab user' k w2 = Some (resp, w')" "W_auth w2 = W_auth w0"
      "W_keys w1 (Realm_ID realm) \<noteq> None \<longrightarrow> W_db w2 = W_db w1"
  proof (cases rule: realmKeys_run)
    case failed
    then show ?thesis using assms(2,3) fr w0(1) by simp
  next
    case (run k m db e)
    have "W_keys w1 (Realm_ID realm) \<noteq> None \<longrightarrow> db = W_db w1" using run(1) by (auto simp: ForRealm_def)
    then show ?thesis using that [OF run(2)] fr by simp
  qed
  have ne: "AS_codes (W_auth w') \<noteq> AS_codes (W_auth w2)" using assms(2,3) w0(1) f(2) by auto
  with approve_deny_auth [OF f(1)] have l: "completeLogin h hs now realm client sess tab user' k w2 = Some (resp, w')"
    "Tab_SAMLBinding (tab_at (W_auth w) tab) = []" "Tab_DeviceUserCode (tab_at (W_auth w) tab) = []"
    using f(2) w0(3) by auto
  from l(1) show thesis
  proof (cases rule: completeLogin_run)
    case quiet
    then show thesis using ne by simp
  next
    case (code session w3 cd s e e')
    have "AS_codes s c = Some code" using assms(2) code(3) by (simp add: endSession_def)
    moreover have "AS_codes (W_auth w2) c \<noteq> Some code" using assms(3) f(2) w0(1) by simp
    ultimately have "code = (code_for_tab realm client user (US_ID session) (grantedScope (Tab_Scope (tab_at (W_auth w) tab)))
       (tab_at (W_auth w) tab))\<lparr>Code_Code := c, Code_ExpiresAt := now + authCodeLifespan\<rparr>"
      using newCode_adds [OF code(2), of c code] f(2) w0(3) fr by (simp add: code_for_tab_def)
    moreover have "AS_sessions (W_auth w') (Sess_RootID (session_at (W_auth w) sess)) = None"
      using code(3) f(2) w0(2) by (simp add: endSession_def)
    ultimately show thesis
      by (rule that [OF u st [unfolded w0_def \<open>step = Some []\<close>] l(2,3)])
        (use code(1,4) f(2,3) fr w0 in \<open>simp_all add: w0_def\<close>)
  qed
qed

text \<open>
  C7. A code from the login form. A login action adds an authorization code only when the cookie, the tab
  and its current session code were presented, the form held the password of an enabled user, and no
  required action and no consent is pending for that user. The code is that user's, with the client,
  the redirect URI, the nonce and the PKCE challenge the tab was opened with, and the login session has
  ended: the same cookie finds no session any more.
\<close>

theorem login_code:
  assumes "loginActions h hs now r w = Some (resp, w')"
    and "AS_codes (W_auth w') c = Some code" "AS_codes (W_auth w) c \<noteq> Some code"
  shows "\<exists>realm form client sess tab w1 t user cred.
      RealmRepo_ByName (Store_Realms (H_store h)) (W_db w) (Rq_Realm r) = Inr realm \<and> Rq_PostForm r = Some form
    \<and> liveAuthSession now r realm w = (Some sess, w1)
    \<and> values_get (Rq_Query r) ''session_code'' \<noteq> []
    \<and> tabByCode (W_auth w1) now sess (values_get (Rq_Query r) ''tab_id'') (values_get (Rq_Query r) ''session_code'') = Some tab
    \<and> t = tab_at (W_auth w1) tab
    \<and> authClient h (W_db w1) realm (values_get (Rq_Query r) ''client_id'') = Some client \<and> Client_ClientID client = Tab_ClientID t
    \<and> UserRepo_ByUsername (Store_Users (H_store h)) (W_db w1) (Realm_ID realm)
        (to_lower (H_ToLower h) (values_get form ''username'')) = Inr user
    \<and> UserRepo_CredentialByUser (Store_Users (H_store h)) (W_db w1) (User_ID user) passwordCredentialType = Inr cred
    \<and> VerifyPassword (H_IDKey h) (Some cred) (values_get form ''password'') = Some (Inr ()) \<and> User_Enabled user
    \<and> fst (nextRequiredAction h realm user (W_db w1)) = Some []
    \<and> \<not> consentNeeded (W_consents w1) realm client user (parsePrompt (Tab_Prompt t))
    \<and> Code_UserID code = User_ID user \<and> Code_Realm code = Realm_Name realm \<and> Code_ClientUUID code = Client_ID client
    \<and> Code_RedirectURI code = Tab_RedirectURI t \<and> Code_Nonce code = Tab_Nonce t
    \<and> Code_CodeChallenge code = Tab_CodeChallenge t \<and> Code_CodeChallengeMethod code = Tab_CodeChallengeMethod t
    \<and> Code_ExpiresAt code = now + authCodeLifespan
    \<and> AS_sessions (W_auth w') (Sess_RootID (session_at (W_auth w1) sess)) = None"
proof -
  define q where "q = Rq_Query r"
  have res: "\<forall>realm q x v. resolveAuthTab now r realm q w = (x, v) \<longrightarrow> AS_codes (W_auth v) = AS_codes (W_auth w)"
    by (blast dest: resolveAuthTab_codes)
  from assms(1) [unfolded loginActions_def] res show ?thesis
  proof (cases rule: with_action_tab_run)
    case quiet
    with assms(2,3) show ?thesis by (auto simp: map_le_def dom_def)
  next
    case (found realm form client sess tab w1)
    have codes: "AS_codes (W_auth w1) c \<noteq> Some code" using res found(3) assms(3) by auto
    have sc: "values_get q ''session_code'' \<noteq> []"
      and at: "attemptLogin h hs now form realm client sess tab w1 = Some (resp, w')"
      using found(6) codes assms(2)
      by (auto simp: q_def Let_def serveExpiredPage_def split: if_splits dest: serveLoginPage_target)
    have live: "liveAuthSession now r realm w = (Some sess, w1)"
      "tabByCode (W_auth w1) now sess (values_get q ''tab_id'') (values_get q ''session_code'') = Some tab"
      using found(3) sc by (auto simp: resolveAuthTab_def q_def [symmetric] Let_def split: option.splits prod.splits)
    from at assms(2) codes obtain user user' w2 w3 w4 and session :: user_session where a:
      "verifyLoginCredentials h (W_db w1) realm (values_get form ''username'') (values_get form ''password'') = Some (Inr user)"
      "tabStep h realm client user tab (w1\<lparr>W_auth := update_tab tab (\<lambda>t. t\<lparr>Tab_UserID := User_ID user\<rparr>) (W_auth w1)\<rparr>)
         = (Some [], user', w2)"
      "code = (code_for_tab realm client user (US_ID session) (grantedScope (Tab_Scope (tab_at (W_auth w1) tab)))
         (tab_at (W_auth w1) tab))\<lparr>Code_Code := c, Code_ExpiresAt := now + authCodeLifespan\<rparr>"
      "AS_sessions (W_auth w') (Sess_RootID (session_at (W_auth w1) sess)) = None"
      by (rule attemptLogin_code)
    have "fst (nextRequiredAction h realm user (W_db w1)) = Some []"
      "\<not> consentNeeded (W_consents w1) realm client user (parsePrompt (Tab_Prompt (tab_at (W_auth w1) tab)))"
      using tabStep_frame [OF a(2)] by (auto simp: update_tab_def tab_at_def tabConsentNeeded_def consentNeeded_def)
    with a(1) [unfolded verifyLoginCredentials_Inr] a(3,4) found(1,2,4,5) live sc show ?thesis
      by (auto simp: q_def code_for_tab_def)
  qed
qed

text \<open>
  C8. The login form does not tell accounts apart. An empty name or an empty password (whoever has that
  name or password), an unknown name, a user without a password and a wrong password are answered with the
  same page, built from the name that was typed in and nothing else; that an account is disabled is told
  only to someone who has its password, and who left no field empty.
\<close>

theorem login_uniform:
  assumes "form_username = values_get form ''username''" "form_password = values_get form ''password''"
  shows "(form_username = [] \<or> form_password = []
        \<or> (\<forall>user cred. UserRepo_ByUsername (Store_Users (H_store h)) (W_db w) (Realm_ID realm)
            (to_lower (H_ToLower h) form_username) = Inr user
          \<longrightarrow> UserRepo_CredentialByUser (Store_Users (H_store h)) (W_db w) (User_ID user) passwordCredentialType = Inr cred
          \<longrightarrow> (\<exists>err. VerifyPassword (H_IDKey h) (Some cred) form_password = Some (Inl err)))
      \<longrightarrow> attemptLogin h hs now form realm client sess tab w
          = serveLoginPage h hs now realm client sess tab form_username msgInvalidCredentials w)
    \<and> (verifyLoginCredentials h (W_db w) realm form_username form_password = Some (Inl msgAccountDisabled)
      \<longrightarrow> form_username \<noteq> [] \<and> form_password \<noteq> []
        \<and> (\<exists>user cred. UserRepo_ByUsername (Store_Users (H_store h)) (W_db w) (Realm_ID realm)
          (to_lower (H_ToLower h) form_username) = Inr user \<and> \<not> User_Enabled user
        \<and> UserRepo_CredentialByUser (Store_Users (H_store h)) (W_db w) (User_ID user) passwordCredentialType = Inr cred
        \<and> VerifyPassword (H_IDKey h) (Some cred) form_password = Some (Inr ())))"
proof -
  have "msgInvalidCredentials \<noteq> msgAccountDisabled" by (simp add: msgInvalidCredentials_def msgAccountDisabled_def)
  then have disabled: "verifyLoginCredentials h (W_db w) realm form_username form_password = Some (Inl msgAccountDisabled)
      \<longrightarrow> form_username \<noteq> [] \<and> form_password \<noteq> []
        \<and> (\<exists>user cred. UserRepo_ByUsername (Store_Users (H_store h)) (W_db w) (Realm_ID realm)
          (to_lower (H_ToLower h) form_username) = Inr user \<and> \<not> User_Enabled user
        \<and> UserRepo_CredentialByUser (Store_Users (H_store h)) (W_db w) (User_ID user) passwordCredentialType = Inr cred
        \<and> VerifyPassword (H_IDKey h) (Some cred) form_password = Some (Inr ()))"
    by (auto simp: verifyLoginCredentials_def split: sum.splits option.splits if_splits)
  have refused: "verifyLoginCredentials h (W_db w) realm form_username form_password = Some (Inl msgInvalidCredentials)"
    if "form_username = [] \<or> form_password = []
        \<or> (\<forall>user cred. UserRepo_ByUsername (Store_Users (H_store h)) (W_db w) (Realm_ID realm)
            (to_lower (H_ToLower h) form_username) = Inr user
          \<longrightarrow> UserRepo_CredentialByUser (Store_Users (H_store h)) (W_db w) (User_ID user) passwordCredentialType = Inr cred
          \<longrightarrow> (\<exists>err. VerifyPassword (H_IDKey h) (Some cred) form_password = Some (Inl err)))"
  proof (cases "form_username = [] \<or> form_password = []")
    case True
    then show ?thesis unfolding verifyLoginCredentials_def by (rule if_P)
  next
    case False
    with that have "\<forall>user cred. UserRepo_ByUsername (Store_Users (H_store h)) (W_db w) (Realm_ID realm)
            (to_lower (H_ToLower h) form_username) = Inr user
          \<longrightarrow> UserRepo_CredentialByUser (Store_Users (H_store h)) (W_db w) (User_ID user) passwordCredentialType = Inr cred
          \<longrightarrow> (\<exists>err. VerifyPassword (H_IDKey h) (Some cred) form_password = Some (Inl err))" by blast
    then show ?thesis by (auto simp: verifyLoginCredentials_def split: sum.splits)
  qed
  have page: "attemptLogin h hs now form realm client sess tab w
      = serveLoginPage h hs now realm client sess tab form_username msgInvalidCredentials w"
    if "verifyLoginCredentials h (W_db w) realm form_username form_password = Some (Inl msgInvalidCredentials)"
    using that unfolding assms attemptLogin_def by simp
  show ?thesis by (rule conjI [OF impI]) (rule page [OF refused], assumption, rule disabled)
qed

section \<open>Two ways around the login\<close>

text \<open>
  C9. The consent endpoint does not look at required actions. For a tab whose user has a pending step
  (a password to change, say) a POST that does not cancel is answered with an authorization code for
  that user, unless the server fails: no page of the pending action has to be completed first.
\<close>

theorem consent_skips_required_actions:
  assumes "RealmRepo_ByName (Store_Realms (H_store h)) (W_db w) (Rq_Realm r) = Inr realm" "Rq_PostForm r = Some form"
    and "validClientData (values_get (Rq_Query r) ''client_data'')"
    and "resolveAuthTab now r realm (Rq_Query r) w = (Some (sess, tab), w1)"
    and "authClient h (W_db w1) realm (values_get (Rq_Query r) ''client_id'') = Some client"
    and "t = tab_at (W_auth w1) tab" "Client_ClientID client = Tab_ClientID t"
    and "Tab_SAMLBinding t = []" "Tab_DeviceUserCode t = []"
    and "UserRepo_ByID (Store_Users (H_store h)) (W_db w1) (Realm_ID realm) (Tab_UserID t) = Inr user"
    and "fst (nextRequiredAction h realm user (W_db w1)) = Some step" "step \<noteq> []"
    and "\<not> form_has form ''cancel''" "W_keys w1 (Realm_ID realm) = Some k"
    and "consent h hs now r w = Some (resp, w')" "Resp_Status resp \<noteq> 500"
  shows "\<exists>c code. AS_codes (W_auth w') c = Some code \<and> Code_UserID code = User_ID user
    \<and> Code_ClientUUID code = Client_ID client \<and> Code_RedirectURI code = Tab_RedirectURI t
    \<and> Code_ExpiresAt code = now + authCodeLifespan"
proof -
  define w2 where "w2 = w1\<lparr>W_consents := consent_grant (W_consents w1) (Realm_ID realm) (User_ID user) (Client_ID client)\<rparr>"
  have w2: "W_auth w2 = W_auth w1" "W_keys w2 (Realm_ID realm) = Some k" using assms(14) by (simp_all add: w2_def)
  have "completeLogin h hs now realm client sess tab user k w2 = Some (resp, w')"
    using assms(1-10,13,15)
    by (simp add: consent_def with_action_tab_def resolveRealm_def decodeLoginActionBody_def Let_def
        w2_def [symmetric] realmKeys_cached [OF w2(2)] finishFlow_def w2(1))
  then show ?thesis
  proof (cases rule: completeLogin_run)
    case quiet
    with assms(16) show ?thesis by simp
  next
    case (code session w3 c s e e')
    from code(2) have "AS_codes s c = Some ((code_for_tab realm client user (US_ID session)
         (grantedScope (Tab_Scope t)) t)\<lparr>Code_Code := c, Code_ExpiresAt := now + authCodeLifespan\<rparr>)"
      using assms(6) w2(1) by (auto simp: newCode_def Let_def split: option.splits)
    then show ?thesis using code(3) by (auto simp: endSession_def code_for_tab_def intro: exI [of _ c])
  qed
qed

lemma next_action_loop_sessions:
  "H_store h = sqlite_store \<Longrightarrow> next_action_loop h ps user db = (x, user', db') \<Longrightarrow> T_user_session db' = T_user_session db"
proof (induction h ps user db rule: next_action_loop.induct)
  case (2 h p ps user db)
  have "T_user_session db1 = T_user_session db" if "userRepo_Update db u = Inr db1" for u db1
    using that by (auto simp: userRepo_Update_def affectedOne_def Let_def split: if_splits)
  with 2 show ?case
    by (auto simp: clearRequiredAction_def sqlite_store_def sqlite_users_def Let_def
        split: if_splits sum.splits prod.splits bool.splits)
qed simp

lemma tabStep_sessions:
  "H_store h = sqlite_store \<Longrightarrow> tabStep h realm client user tab w = (x, user', w') \<Longrightarrow>
     T_user_session (W_db w') = T_user_session (W_db w)"
  by (auto simp: tabStep_def nextRequiredAction_def split: option.splits prod.splits if_splits sum.splits
      dest: next_action_loop_sessions)

lemma UserSessionByID_cong:
  "T_user_session db' = T_user_session db \<Longrightarrow> sessionRepo_UserSessionByID db' = sessionRepo_UserSessionByID db"
  by (simp add: sessionRepo_UserSessionByID_def fun_eq_iff)

lemma startSessionWithID_existing:
  assumes "H_store h = sqlite_store" "sessionRepo_UserSessionByID (W_db w) (Realm_ID realm) ident = Inr existing"
    and "startSessionWithID h now ident realm client user scope w = Some (Some session, w')"
  shows "session = existing \<and> T_user_session (W_db w') = T_user_session (W_db w)"
  using assms
  by (auto simp: startSessionWithID_def attachClientSessionTo_def Let_def sqlite_store_def sqlite_sessions_def
      sessionRepo_CreateClientSession_def split: sum.splits option.splits if_splits)

text \<open>
  C10. A login joins whatever session its root identifier names. When the login session's root is the
  identifier of a stored user session, which is how single sign-on leaves it, a user who then logs in
  on it gets a code of their own in that session, whoever the session belongs to; no session of the
  new user is started and the stored one is not changed.
\<close>

theorem login_joins_session:
  assumes "H_store h = sqlite_store" "loginActions h hs now r w = Some (resp, w')"
    and "AS_codes (W_auth w') c = Some code" "AS_codes (W_auth w) c \<noteq> Some code"
    and "RealmRepo_ByName (Store_Realms sqlite_store) (W_db w) (Rq_Realm r) = Inr realm"
    and "W_keys w (Realm_ID realm) = Some k" "liveAuthSession now r realm w = (Some sess, w1)"
    and "sessionRepo_UserSessionByID (W_db w) (Realm_ID realm) (Sess_RootID (session_at (W_auth w1) sess)) = Inr existing"
  shows "Code_SessionID code = US_ID existing \<and> T_user_session (W_db w') = T_user_session (W_db w)
    \<and> (\<exists>form user. Rq_PostForm r = Some form \<and> Code_UserID code = User_ID user
        \<and> userRepo_ByUsername (W_db w) (Realm_ID realm) (to_lower (H_ToLower h) (values_get form ''username'')) = Inr user)"
proof -
  have res: "\<forall>realm q x v. resolveAuthTab now r realm q w = (x, v) \<longrightarrow> AS_codes (W_auth v) = AS_codes (W_auth w)"
    by (blast dest: resolveAuthTab_codes)
  from assms(2) [unfolded loginActions_def] res show ?thesis
  proof (cases rule: with_action_tab_run)
    case quiet
    with assms(3,4) show ?thesis by (auto simp: map_le_def dom_def)
  next
    case (found realm' form client sess' tab w1')
    have r: "realm' = realm" using found(1) assms(1,5) by simp
    have live: "sess' = sess" "w1' = w1"
      using found(3) assms(7) unfolding r resolveAuthTab_def by (auto simp: Let_def split: option.splits)
    have db: "W_db w1 = W_db w" "W_keys w1 = W_keys w"
      using liveAuthSession_opens [OF assms(7), of tab hs] by (simp_all add: opens_def)
    have codes: "AS_codes (W_auth w1) c \<noteq> Some code" using res found(3) assms(4) live by auto
    have at: "attemptLogin h hs now form realm client sess tab w1 = Some (resp, w')"
      using found(6) codes assms(3) unfolding r live
      by (auto simp: Let_def serveExpiredPage_def split: if_splits dest: serveLoginPage_target)
    from at assms(3) codes obtain user user' w2 w3 w4 and session :: user_session where a:
      "verifyLoginCredentials h (W_db w1) realm (values_get form ''username'') (values_get form ''password'') = Some (Inr user)"
      "tabStep h realm client user tab (w1\<lparr>W_auth := update_tab tab (\<lambda>t. t\<lparr>Tab_UserID := User_ID user\<rparr>) (W_auth w1)\<rparr>)
         = (Some [], user', w2)"
      "code = (code_for_tab realm client user (US_ID session) (grantedScope (Tab_Scope (tab_at (W_auth w1) tab)))
         (tab_at (W_auth w1) tab))\<lparr>Code_Code := c, Code_ExpiresAt := now + authCodeLifespan\<rparr>"
      "startSessionWithID h now (Sess_RootID (session_at (W_auth w1) sess)) realm client user'
         (grantedScope (Tab_Scope (tab_at (W_auth w1) tab))) w3 = Some (Some session, w4)"
      "W_keys w1 (Realm_ID realm) \<noteq> None \<longrightarrow> W_db w3 = W_db w2" "W_db w' = W_db w4"
      by (rule attemptLogin_code)
    have s: "T_user_session (W_db w3) = T_user_session (W_db w)"
      using tabStep_sessions [OF assms(1) a(2)] a(5) db assms(6) by simp
    have "session = existing \<and> T_user_session (W_db w4) = T_user_session (W_db w3)"
      by (rule startSessionWithID_existing [OF assms(1) _ a(4)]) (use assms(8) UserSessionByID_cong [OF s] in simp)
    moreover have "userRepo_ByUsername (W_db w) (Realm_ID realm) (to_lower (H_ToLower h) (values_get form ''username'')) = Inr user"
      using a(1) assms(1) db by (simp add: verifyLoginCredentials_Inr sqlite_store_def sqlite_users_def)
    ultimately show ?thesis using a(3,6) s found(2) by (simp add: code_for_tab_def)
  qed
qed

section \<open>A shop and two customers\<close>

text \<open>
  The small server of \<open>GrantSafety\<close> with a client for the browser and a second user, and a browser that
  has a login session open under the identifier of the first user's session.
\<close>

definition shop_client :: client where
  "shop_client = demo_client\<lparr>Client_RedirectURIs := [''https://app/cb''], Client_StandardFlowEnabled := True\<rparr>"

definition bob :: user where
  "bob = zero_user\<lparr>User_ID := ''u2'', User_RealmID := ''r1'', User_Username := ''bob'', User_Enabled := True\<rparr>"

definition bob_password :: credential where
  "bob_password = password_credential ''k2'' ''u2'' 0 [] (map of_nat (string_bytes ''pw''))"

definition shop_db :: sqlite_db where
  "shop_db = demo_db\<lparr>T_client := [shop_client], T_user := [demo_user, bob], T_credential := [bob_password]\<rparr>"

definition shop_tab :: auth_tab where
  "shop_tab = zero_tab\<lparr>Tab_TabID := ''t1'', Tab_SessionCode := ''sc'', Tab_ClientID := ''app'', Tab_ClientUUID := ''c1'',
     Tab_RedirectURI := ''https://app/cb''\<rparr>"

definition shop_session :: auth_session where
  "shop_session = \<lparr>Sess_RootID = ''s1'', Sess_Realm = ''demo'', Sess_Secret = ''x'', Sess_Hash = [],
     Sess_Tabs = [''t1'' \<mapsto> 0], Sess_ExpiresAt = 60 * second\<rparr>"

definition shop_auth :: "auth_tab \<Rightarrow> auth_store" where
  "shop_auth t = newAuthStore\<lparr>AS_sessions := [''s1'' \<mapsto> 7], AS_session_heap := [7 \<mapsto> shop_session],
     AS_tab_heap := [0 \<mapsto> t], AS_next := 8\<rparr>"

definition shop_world :: "auth_tab \<Rightarrow> sqlite_db \<Rightarrow> sqlite_db world" where
  "shop_world t db = demo_world\<lparr>W_db := db, W_auth := shop_auth t, W_entropy := replicate 200 7\<rparr>"

definition shop_request :: "url_values \<Rightarrow> url_values \<Rightarrow> request" where
  "shop_request q form = \<lparr>Rq_Realm = ''demo'', Rq_Method = ''POST'', Rq_Query = q, Rq_PostForm = Some form,
     Rq_BasicAuth = None, Rq_Authorization = [], Rq_DPoP = None, Rq_ContentType = [],
     Rq_Cookies = [(''AUTH_SESSION_ID'', encodeAuthSessionID ''s1'' ''x'')]\<rparr>"

lemma shop_simps [simp]:
  "W_db (shop_world t db) = db" "W_auth (shop_world t db) = shop_auth t" "W_keys (shop_world t db) = [''r1'' \<mapsto> sample_keys]"
  "W_entropy (shop_world t db) = replicate 200 7" "W_consents (shop_world t db) = newConsentStore"
  "Rq_Query (shop_request q form) = q" "Rq_PostForm (shop_request q form) = Some form" "Rq_Realm (shop_request q form) = ''demo''"
  "Client_ID shop_client = ''c1''" "Client_ClientID shop_client = ''app''" "Client_Enabled shop_client"
  "\<not> Client_ConsentRequired shop_client" "\<not> Client_BearerOnly shop_client" "Client_StandardFlowEnabled shop_client"
  "Client_RedirectURIs shop_client = [''https://app/cb'']"
  "User_ID bob = ''u2''" "User_Enabled bob" "User_RequiredActions bob = []"
  by (simp_all add: shop_world_def shop_request_def shop_client_def bob_def demo_world_def)
    (simp_all add: demo_client_def zero_client_def zero_user_def)

lemma shop_auth_simps [simp]:
  "AS_sessions (shop_auth t) = [''s1'' \<mapsto> 7]" "AS_codes (shop_auth t) = Map.empty"
  "session_at (shop_auth t) 7 = shop_session" "tab_at (shop_auth t) 0 = t"
  by (simp_all add: shop_auth_def newAuthStore_def session_at_def tab_at_def)

lemma shop_cookie: "request_cookie (shop_request q form) authSessionCookie = Some (encodeAuthSessionID ''s1'' ''x'')"
  by (simp add: request_cookie_def shop_request_def authSessionCookie_def)

lemma shop_live:
  "liveAuthSession 0 (shop_request q form) demo_realm (shop_world t db) = (Some 7, shop_world t db)"
proof -
  have "decodeAuthSessionID (encodeAuthSessionID ''s1'' ''x'') = Some (''s1'', ''x'')"
    unfolding decode_encodeAuthSessionID_iff by simp
  then have "sessionByCookie (shop_auth t) 0 ''demo'' (encodeAuthSessionID ''s1'' ''x'') = (Some 7, shop_auth t)"
    by (simp add: sessionByCookie_def shop_session_def second_def)
  then show ?thesis by (simp add: liveAuthSession_def shop_cookie shop_world_def)
qed

lemma shop_realm: "RealmRepo_ByName (Store_Realms sqlite_store) shop_db ''demo'' = Inr demo_realm"
  using demo_realm_found by (simp add: sqlite_store_def sqlite_realms_def realmRepo_ByName_def shop_db_def)

lemma shop_authClient: "authClient demo_server shop_db demo_realm ''app'' = Some shop_client"
proof -
  have "clientRepo_ByClientID shop_db ''r1'' ''app'' = Inr shop_client"
    by (simp add: clientRepo_ByClientID_def first_row_def shop_db_def demo_db_def shop_client_def demo_client_def
        zero_client_def scanWithScopes_def loadNodes_def loadClientScopeNames_def empty_db_def)
  then show ?thesis
    by (simp add: authClient_def resolveAuthClient_def sqlite_store_def sqlite_clients_def)
qed

lemma shop_bob: "userRepo_ByUsername shop_db ''r1'' ''bob'' = Inr bob"
  by (simp add: userRepo_ByUsername_def shop_db_def demo_user_def bob_def zero_user_def first_row_def)

lemma shop_password: "userRepo_CredentialByUser shop_db ''u2'' passwordCredentialType = Inr bob_password"
  by (simp add: userRepo_CredentialByUser_def shop_db_def bob_password_def password_credential_def by_priority_def first_row_def)

lemma shop_verify:
  "VerifyPassword sample_argon2 (Some bob_password) ''pw'' = Some (Inr ())"
  "VerifyPassword sample_argon2 (Some bob_password) ''no'' = Some (Inl ErrInvalidCredential)"
  by (simp_all add: VerifyPassword_def bob_password_def hash_arguments_password_credential sample_argon2_def)
    (simp_all add: password_credential_def string_bytes_def)

lemma to_lower_bob: "to_lower id ''bob'' = ''bob''"
  by code_simp

lemma shop_ops:
  "UserRepo_ByUsername (Store_Users sqlite_store) = userRepo_ByUsername"
  "UserRepo_CredentialByUser (Store_Users sqlite_store) = userRepo_CredentialByUser"
  "UserRepo_ByID (Store_Users sqlite_store) = userRepo_ByID"
  "H_IDKey demo_server = sample_argon2" "H_ToLower demo_server = id"
  by (simp_all add: sqlite_store_def sqlite_users_def demo_server_def)

lemma shop_credentials:
  "verifyLoginCredentials demo_server shop_db demo_realm ''bob'' ''pw'' = Some (Inr bob)"
  by (simp add: verifyLoginCredentials_def shop_ops to_lower_bob shop_bob shop_password shop_verify)

lemma randomBase64URL_returns: "n \<le> length e \<Longrightarrow> \<exists>x. randomBase64URL n e = Some (x, drop n e)"
  by (simp add: randomBase64URL_def rand_read_def)

lemma setLoginCookies_returns:
  assumes "H_jose h = unary_jose" "34 \<le> length (W_entropy w)"
  obtains hs' e where "setLoginCookies h hs now realm k sid user w = (\<lambda>f. f hs' (w\<lparr>W_entropy := e\<rparr>))"
proof -
  obtain sc where sc: "randomBase64URL rootIDBytes (W_entropy w) = Some (sc, drop 18 (W_entropy w))"
    using randomBase64URL_returns [of 18 "W_entropy w"] assms(2) by (auto simp: rootIDBytes_def)
  obtain jti e where n: "NewID (drop 18 (W_entropy w)) = Some (jti, e)"
    using NewID_returns [of "drop 18 (W_entropy w)"] assms(2) by fastforce
  obtain raw where "IssueIdentityCookie unary_jose k (realmIssuer h (Realm_Name realm)) (User_ID user) sid jti sc now = Inr raw"
    by (simp add: IssueIdentityCookie_def HMACSigner_def unary_jose_def)
  then show thesis
    by (intro that [OF ext]) (use assms(1) sc n in \<open>simp add: setLoginCookies_def Let_def\<close>)
qed

lemma newCode_returns:
  assumes "16 \<le> length e"
  shows "\<exists>code s'. newCode s now e c = Some ((code, s'), drop 16 e) \<and> AS_codes s' code \<noteq> None"
  using assms by (auto simp: newCode_def uuidShaped_def rand_read_def Let_def)

lemma completeLogin_returns:
  assumes "H_jose h = unary_jose" "Tab_ResponseMode (tab_at (W_auth w) tab) = []"
    and "startSessionWithID h now (Sess_RootID (session_at (W_auth w) sess)) realm client user
      (grantedScope (Tab_Scope (tab_at (W_auth w) tab))) w = Some (Some session, w1)" "50 \<le> length (W_entropy w1)"
  shows "\<exists>resp w' c code. completeLogin h hs now realm client sess tab user k w = Some (resp, w')
    \<and> Resp_Status resp = 302 \<and> AS_codes (W_auth w') c = Some code"
proof -
  define t where "t = tab_at (W_auth w) tab"
  obtain c s where n: "newCode (W_auth w1) now (W_entropy w1) (code_for_tab realm client user (US_ID session)
      (grantedScope (Tab_Scope t)) t) = Some ((c, s), drop 16 (W_entropy w1))"
    and c: "AS_codes s c \<noteq> None"
    using newCode_returns [of "W_entropy w1" "W_auth w1" now] assms(4) by fastforce
  define w2 where "w2 = w1\<lparr>W_auth := endSession s (Sess_RootID (session_at (W_auth w) sess)), W_entropy := drop 16 (W_entropy w1)\<rparr>"
  have "34 \<le> length (W_entropy w2)" using assms(4) by (simp add: w2_def)
  then obtain hs' e where "setLoginCookies h (clearRestartCookie hs realm) now realm k (US_ID session) user w2
      = (\<lambda>f. f hs' (w2\<lparr>W_entropy := e\<rparr>))"
    by (rule setLoginCookies_returns [OF assms(1)])
  then have "completeLogin h hs now realm client sess tab user k w =
      Some (WriteLoginActionRedirect hs' (authorizationCodeLocation h (Realm_Name realm) t (US_ID session) c), w2\<lparr>W_entropy := e\<rparr>)"
    using assms(2,3) n unfolding w2_def
    by (simp add: completeLogin_def t_def writeAuthorizationCode_def responseModeFormPost_def with_response_def)
  moreover obtain code where "AS_codes (W_auth (w2\<lparr>W_entropy := e\<rparr>)) c = Some code" using c by (auto simp: w2_def endSession_def)
  moreover have "Resp_Status (WriteLoginActionRedirect hs' l) = 302" for l
    by (simp add: WriteLoginActionRedirect_def empty_response_def)
  ultimately show ?thesis by blast
qed

lemma shop_session_found: "T_user_session db = T_user_session demo_db \<Longrightarrow>
    sessionRepo_UserSessionByID db ''r1'' ''s1'' = Inr (Req_UserSession sample_request)"
  using demo_session_found UserSessionByID_cong [of db demo_db] by simp

lemma shop_start:
  assumes "W_db w = db" "T_user_session db = T_user_session demo_db" "T_client_session db = []" "T_client db = [shop_client]"
    "16 \<le> length (W_entropy w)"
  obtains session w' where "startSessionWithID demo_server now ''s1'' demo_realm shop_client user scope w = Some (Some session, w')"
    "length (W_entropy w') = length (W_entropy w) - 16"
proof -
  obtain cid e where n: "NewID (W_entropy w) = Some (cid, drop 16 (W_entropy w))" using NewID_returns assms(5) by blast
  show thesis
    using assms n that
    by (simp add: startSessionWithID_def attachClientSessionTo_def shop_session_found sqlite_store_def sqlite_sessions_def
        sessionRepo_ClientSession_def sessionRepo_CreateClientSession_def first_row_def has_client_def demo_db_def
        sample_request_def)
qed

definition shop_query :: url_values where
  "shop_query = [(''session_code'', [''sc'']), (''tab_id'', [''t1'']), (''client_id'', [''app'']),
     (''execution'', [loginExecutionID demo_server shop_db demo_realm])]"

definition shop_login :: request where
  "shop_login = shop_request shop_query [(''username'', [''bob'']), (''password'', [''pw''])]"

lemma shop_query_values [simp]:
  "values_get shop_query ''session_code'' = ''sc''" "values_get shop_query ''tab_id'' = ''t1''"
  "values_get shop_query ''client_id'' = ''app''" "values_get shop_query ''client_data'' = []"
  "values_get shop_query ''execution'' = loginExecutionID demo_server shop_db demo_realm"
  by (simp_all add: shop_query_def values_get_def first_value_def)

lemma shop_resolve:
  assumes "Tab_SessionCode t = ''sc''"
  shows "resolveAuthTab 0 (shop_request shop_query form) demo_realm shop_query (shop_world t db)
    = (Some (7, 0), shop_world t db)"
  using assms shop_live [of shop_query form t db]
  by (simp add: resolveAuthTab_def tabByCode_def shop_session_def second_def)

lemma shop_login_run:
  obtains resp w' c code where "loginActions demo_server [] 0 shop_login (shop_world shop_tab shop_db) = Some (resp, w')"
    "AS_codes (W_auth w') c = Some code"
proof -
  let ?w = "shop_world shop_tab shop_db"
  let ?w1 = "?w\<lparr>W_auth := update_tab 0 (\<lambda>t. t\<lparr>Tab_UserID := ''u2''\<rparr>) (shop_auth shop_tab)\<rparr>"
  have t: "tab_at (W_auth ?w1) 0 = shop_tab\<lparr>Tab_UserID := ''u2''\<rparr>" "session_at (W_auth ?w1) 7 = shop_session"
    by (simp_all add: update_tab_def tab_at_def session_at_def shop_auth_def)
  have tab: "Tab_SessionCode shop_tab = ''sc''" "Tab_ResponseMode shop_tab = []" "Tab_DeviceUserCode shop_tab = []"
    "Tab_SAMLBinding shop_tab = []" "Tab_ClientID shop_tab = ''app''" "Sess_RootID shop_session = ''s1''"
    by (simp_all add: shop_tab_def zero_tab_def shop_session_def)
  obtain session w2 where "startSessionWithID demo_server 0 ''s1'' demo_realm shop_client bob
      (grantedScope (Tab_Scope (shop_tab\<lparr>Tab_UserID := ''u2''\<rparr>))) ?w1 = Some (Some session, w2)"
      "length (W_entropy w2) = length (W_entropy ?w1) - 16"
    by (rule shop_start [of ?w1 shop_db]) (simp_all add: shop_db_def demo_db_def empty_db_def)
  then obtain resp w' c code where l: "completeLogin demo_server [] 0 demo_realm shop_client 7 0 bob sample_keys ?w1
      = Some (resp, w')" "AS_codes (W_auth w') c = Some code"
    using completeLogin_returns [of demo_server ?w1 0 0 7 demo_realm shop_client bob session w2 "[]" sample_keys] t tab by force
  have "attemptLogin demo_server [] 0 [(''username'', [''bob'']), (''password'', [''pw''])] demo_realm shop_client 7 0 ?w
      = Some (resp, w')"
    using l(1) t tab
    by (simp add: attemptLogin_def values_get_def first_value_def shop_credentials tabStep_def nextRequiredAction_def
        tabConsentNeeded_def consentNeeded_def realmKeys_cached finishFlow_def)
  then have "loginActions demo_server [] 0 shop_login ?w = Some (resp, w')"
    using shop_resolve [OF tab(1), of "[(''username'', [''bob'']), (''password'', [''pw''])]" shop_db] tab
    by (simp add: loginActions_def with_action_tab_def resolveRealm_def decodeLoginActionBody_def shop_login_def
        shop_realm shop_authClient validClientData_def)
  from this l(2) show thesis by (rule that)
qed

lemma shop_tab_found:
  assumes "Tab_SessionCode t = ''sc''" "tabByCode (shop_auth t) 0 7 ''t1'' ''sc'' = Some tab"
  shows "tab = 0"
  using assms by (simp add: tabByCode_def shop_session_def second_def split: if_splits)

theorem login_code_witness:
  "\<exists>resp w' c code. loginActions demo_server [] 0 shop_login (shop_world shop_tab shop_db) = Some (resp, w')
     \<and> AS_codes (W_auth w') c = Some code \<and> Code_RedirectURI code = ''https://app/cb''
     \<and> AS_sessions (W_auth w') ''s1'' = None"
proof -
  let ?w = "shop_world shop_tab shop_db"
  obtain resp w' c code where l: "loginActions demo_server [] 0 shop_login ?w = Some (resp, w')"
    "AS_codes (W_auth w') c = Some code" by (rule shop_login_run)
  have live: "liveAuthSession 0 shop_login demo_realm ?w = (Some 7, ?w)" unfolding shop_login_def by (rule shop_live)
  have tab: "Tab_SessionCode shop_tab = ''sc''" "Tab_RedirectURI shop_tab = ''https://app/cb''" "Sess_RootID shop_session = ''s1''"
    by (simp_all add: shop_tab_def shop_session_def)
  have "AS_codes (W_auth ?w) c \<noteq> Some code" by simp
  from login_code [OF l this] obtain tab where
    "tabByCode (shop_auth shop_tab) 0 7 ''t1'' ''sc'' = Some tab"
    "Code_RedirectURI code = Tab_RedirectURI (tab_at (shop_auth shop_tab) tab)" "AS_sessions (W_auth w') ''s1'' = None"
    using live tab(3) by (auto simp: shop_login_def shop_realm)
  then show ?thesis using l tab(2) shop_tab_found [OF tab(1)] by auto
qed

theorem login_joins_session_witness:
  "\<exists>resp w' c code. loginActions demo_server [] 0 shop_login (shop_world shop_tab shop_db) = Some (resp, w')
     \<and> AS_codes (W_auth w') c = Some code \<and> Code_UserID code = ''u2'' \<and> Code_SessionID code = ''s1''
     \<and> (\<exists>session. sessionRepo_UserSessionByID (W_db w') ''r1'' ''s1'' = Inr session \<and> US_UserID session = ''u1'')"
proof -
  let ?w = "shop_world shop_tab shop_db"
  let ?s = "Req_UserSession sample_request"
  obtain resp w' c code where l: "loginActions demo_server [] 0 shop_login ?w = Some (resp, w')"
    "AS_codes (W_auth w') c = Some code" by (rule shop_login_run)
  have live: "liveAuthSession 0 shop_login demo_realm ?w = (Some 7, ?w)" unfolding shop_login_def by (rule shop_live)
  have s: "sessionRepo_UserSessionByID shop_db ''r1'' ''s1'' = Inr ?s"
    by (rule shop_session_found) (simp add: shop_db_def)
  have j: "Code_SessionID code = US_ID ?s \<and> T_user_session (W_db w') = T_user_session shop_db
      \<and> (\<exists>form user. Rq_PostForm shop_login = Some form \<and> Code_UserID code = User_ID user
        \<and> userRepo_ByUsername shop_db ''r1'' (to_lower id (values_get form ''username'')) = Inr user)"
    using login_joins_session [OF _ l, of demo_realm sample_keys 7 ?w ?s] live s shop_realm
    by (simp add: shop_session_def shop_ops) (simp add: shop_login_def)
  then have "Code_UserID code = ''u2''"
    by (auto simp: shop_login_def values_get_def first_value_def to_lower_bob shop_bob)
  moreover have "US_ID ?s = ''s1''" "US_UserID ?s = ''u1''" by (simp_all add: sample_request_def)
  ultimately show ?thesis using l j s UserSessionByID_cong [of "W_db w'" shop_db] by auto
qed

theorem login_uniform_witness:
  "attemptLogin demo_server [] 0 [(''username'', [''bob'']), (''password'', [''no''])] demo_realm shop_client 7 0
     (shop_world shop_tab shop_db)
   = serveLoginPage demo_server [] 0 demo_realm shop_client 7 0 ''bob'' msgInvalidCredentials (shop_world shop_tab shop_db)
   \<and> attemptLogin demo_server [] 0 [(''username'', [''bob''])] demo_realm shop_client 7 0 (shop_world shop_tab shop_db)
   = serveLoginPage demo_server [] 0 demo_realm shop_client 7 0 ''bob'' msgInvalidCredentials (shop_world shop_tab shop_db)"
  using login_uniform [of "''bob''" "[(''username'', [''bob'']), (''password'', [''no''])]" "''no''" demo_server
      "shop_world shop_tab shop_db" demo_realm "[]" 0 shop_client 7 0]
    login_uniform [of "''bob''" "[(''username'', [''bob''])]" "[]" demo_server
      "shop_world shop_tab shop_db" demo_realm "[]" 0 shop_client 7 0]
  by (simp add: values_get_def first_value_def shop_ops to_lower_bob shop_bob shop_password shop_verify)

definition busy_bob :: user where
  "busy_bob = bob\<lparr>User_RequiredActions := [''UPDATE_PASSWORD'']\<rparr>"

definition busy_db :: sqlite_db where
  "busy_db = shop_db\<lparr>T_user := [busy_bob], T_required_action := [\<lparr>RAP_ID = ''a1'', RAP_RealmID = ''r1'',
     RAP_Alias = ''UPDATE_PASSWORD'', RAP_Name = None, RAP_ProviderID = ''UPDATE_PASSWORD'', RAP_Enabled = True,
     RAP_DefaultAction = False, RAP_Priority = 30, RAP_Config = []\<rparr>]\<rparr>"

theorem consent_skips_required_actions_witness:
  "\<exists>resp w' c code. consent demo_server [] 0 (shop_request shop_query []) (shop_world (shop_tab\<lparr>Tab_UserID := ''u2''\<rparr>) busy_db)
       = Some (resp, w') \<and> AS_codes (W_auth w') c = Some code \<and> Code_UserID code = ''u2''
     \<and> fst (nextRequiredAction demo_server demo_realm busy_bob busy_db) = Some ''UPDATE_PASSWORD''"
proof -
  let ?t = "shop_tab\<lparr>Tab_UserID := ''u2''\<rparr>"
  let ?w = "shop_world ?t busy_db"
  let ?w1 = "?w\<lparr>W_consents := consent_grant newConsentStore ''r1'' ''u2'' ''c1''\<rparr>"
  have tab: "Tab_SessionCode ?t = ''sc''" "Tab_ResponseMode ?t = []" "Tab_DeviceUserCode ?t = []"
    "Tab_SAMLBinding ?t = []" "Tab_ClientID ?t = ''app''" "Sess_RootID shop_session = ''s1''"
    by (simp_all add: shop_tab_def zero_tab_def shop_session_def)
  have user: "User_ID busy_bob = ''u2''" "userRepo_ByID busy_db ''r1'' ''u2'' = Inr busy_bob"
    by (simp_all add: busy_bob_def userRepo_ByID_def busy_db_def first_row_def) (simp_all add: bob_def zero_user_def)
  have step: "fst (nextRequiredAction demo_server demo_realm busy_bob busy_db) = Some ''UPDATE_PASSWORD''"
    by (simp add: nextRequiredAction_def sqlite_store_def sqlite_required_actions_def requiredActionRepo_ListByRealm_def
        busy_db_def busy_bob_def priority_order_def verifyEmailAction_def action_spec_def requiredActionTable_def
        updateProfileAction_def updatePasswordAction_def)
  have realm: "RealmRepo_ByName (Store_Realms sqlite_store) busy_db ''demo'' = Inr demo_realm"
    using shop_realm by (simp add: sqlite_store_def sqlite_realms_def realmRepo_ByName_def busy_db_def)
  have client: "authClient demo_server busy_db demo_realm ''app'' = Some shop_client"
    using shop_authClient
    by (simp add: authClient_def resolveAuthClient_def sqlite_store_def sqlite_clients_def busy_db_def
        clientRepo_ByClientID_def scanWithScopes_def loadNodes_def loadClientScopeNames_def)
  obtain session w2 where "startSessionWithID demo_server 0 ''s1'' demo_realm shop_client busy_bob
      (grantedScope (Tab_Scope ?t)) ?w1 = Some (Some session, w2)" "length (W_entropy w2) = length (W_entropy ?w1) - 16"
    by (rule shop_start [of ?w1 busy_db]) (simp_all add: busy_db_def shop_db_def demo_db_def empty_db_def)
  then obtain resp w' where l: "completeLogin demo_server [] 0 demo_realm shop_client 7 0 busy_bob sample_keys ?w1
      = Some (resp, w')" "Resp_Status resp = 302"
    using completeLogin_returns [of demo_server ?w1 0 0 7 demo_realm shop_client busy_bob session w2 "[]" sample_keys] tab
    by force
  have f: "\<not> form_has [] ''cancel''" "values_get [] ''x'' = []" by (simp_all add: form_has_def values_get_def)
  have c: "consent demo_server [] 0 (shop_request shop_query []) ?w = Some (resp, w')"
    using l(1) shop_resolve [OF tab(1), of "[]" busy_db] tab user f
    by (simp add: consent_def with_action_tab_def resolveRealm_def decodeLoginActionBody_def realm client validClientData_def
        shop_ops realmKeys_cached finishFlow_def)
  have "\<exists>cd code. AS_codes (W_auth w') cd = Some code \<and> Code_UserID code = User_ID busy_bob
      \<and> Code_ClientUUID code = Client_ID shop_client \<and> Code_RedirectURI code = Tab_RedirectURI ?t
      \<and> Code_ExpiresAt code = 0 + authCodeLifespan"
    by (rule consent_skips_required_actions [of demo_server ?w "shop_request shop_query []" demo_realm "[]" 0 7 0 ?w
          shop_client ?t busy_bob "''UPDATE_PASSWORD''" sample_keys "[]" resp])
      (use c l(2) step tab user f realm client shop_resolve [OF tab(1), of "[]" busy_db] in
        \<open>simp_all add: validClientData_def shop_ops\<close>)
  then show ?thesis using c step user by auto
qed

definition shop_auth_request :: "url_values \<Rightarrow> string \<Rightarrow> request" where
  "shop_auth_request q cookie = \<lparr>Rq_Realm = ''demo'', Rq_Method = ''GET'',
     Rq_Query = [(''client_id'', [''app'']), (''redirect_uri'', [''https://app/cb''])] @ q, Rq_PostForm = None,
     Rq_BasicAuth = None, Rq_Authorization = [], Rq_DPoP = None, Rq_ContentType = [],
     Rq_Cookies = [(''KEYCLOAK_IDENTITY'', cookie)]\<rparr>"

lemma shop_match: "matchRedirectURI [''https://app/cb''] ''https://app/cb''"
  by (simp add: matchRedirectURI_def match_pattern_def cut_suffix_def)

theorem authorize_target_witness:
  "\<exists>resp w' t. authorize demo_server [] 0 (shop_auth_request [] []) (shop_world shop_tab shop_db) = Some (resp, w')
     \<and> target resp = Some t
     \<and> (extends_uri ''https://app/cb'' t \<or> (\<exists>rest. t = ''http://h/realms/demo/login-actions/'' @ rest))"
proof -
  let ?r = "shop_auth_request [] []"
  let ?p = "[(''client_id'', [''app'']), (''redirect_uri'', [''https://app/cb''])]"
  have v: "values_get ?p ''client_id'' = ''app''" "values_get ?p ''redirect_uri'' = ''https://app/cb''"
    "form_has ?p ''client_id''" "\<not> form_has ?p ''response_type''" "\<not> form_has ?p ''response_mode''"
    "\<not> form_has ?p ''max_age''" "\<not> form_has ?p ''state''"
    by (simp_all add: values_get_def first_value_def form_has_def)
  have p: "authorizationParams ?r = Some ?p" "Rq_Realm ?r = ''demo''"
    by (simp_all add: authorizationParams_def shop_auth_request_def)
  have c: "resolveAuthClient demo_server shop_db demo_realm ''app'' True = Inr shop_client"
    using shop_authClient by (auto simp: authClient_def split: sum.splits)
  have q: "check_request shop_client ?p = Inl (defaultResponseMode ?p [], ''invalid_request'', ''Missing parameter: response_type'')"
    using v by (simp add: check_request_def)
  have m: "defaultResponseMode ?p [] \<noteq> responseModeFormPost"
    using v by (simp add: defaultResponseMode_def responseModeFormPost_def GoStd.fields_def string_bytes_def rune_chunks.simps)
  obtain l where a: "authorize demo_server [] 0 ?r (shop_world shop_tab shop_db)
      = Some (WriteAuthorizationRedirect demo_server ?r [] l, shop_world shop_tab shop_db)"
    using v p c q m shop_realm shop_match
    by (simp add: authorize_def resolveRealm_def parseMaxAge_def writeAuthorizationError_def with_response_def)
  have "location [] = None" "realmBase demo_server ''demo'' = ''http://h/realms/demo''"
    by (simp_all add: location_def realmBase_def demo_server_def)
  from authorize_target [OF a this(1) target_redirect(1)] this(2) show ?thesis
    using a p v shop_realm by auto
qed

lemma resumeAuthSession_returns:
  assumes "72 \<le> length (W_entropy w)"
  obtains sess hs' w' where "resumeAuthSession hs now realm k root tab None w = (Some sess, hs', w')"
    "W_db w' = W_db w" "length (W_entropy w') = length (W_entropy w) - 72"
proof -
  obtain i where i: "randomBase64URL tabIDBytes (W_entropy w) = Some (i, drop 8 (W_entropy w))"
    using randomBase64URL_returns [of 8 "W_entropy w"] assms by (auto simp: tabIDBytes_def)
  obtain x where "randomBase64URL 64 (drop 8 (W_entropy w)) = Some (x, drop 64 (drop 8 (W_entropy w)))"
    using randomBase64URL_returns [of 64 "drop 8 (W_entropy w)"] assms by fastforce
  then have x: "randomBase64URL cookieSecretBytes (drop 8 (W_entropy w)) = Some (x, drop 72 (W_entropy w))"
    by (simp add: cookieSecretBytes_def)
  obtain hs' w' where r: "resumeAuthSession hs now realm k root tab None w = (Some (AS_next (W_auth w)), hs', w')"
    "W_db w' = W_db w" "W_entropy w' = drop 72 (W_entropy w)"
    using i x by (simp add: resumeAuthSession_def openTab_def newAuthSession_def writeRestartCookie_def Let_def
        auth_sweepLocked_def update_tab_def)
  show thesis by (rule that [OF r(1,2)]) (simp add: r(3))
qed

lemma completeSSO_returns:
  assumes "H_jose h = unary_jose" "''none'' \<in> set (parsePrompt (values_get (AR_Params req) ''prompt''))"
    and "\<not> form_has (AR_Params req) ''response_mode''" "138 \<le> length (W_entropy w)"
    and "\<forall>v scope. W_db v = W_db w \<longrightarrow> 16 \<le> length (W_entropy v) \<longrightarrow> (\<exists>v'. attachClientSessionTo h now session client scope v
      = Some (True, v') \<and> length (W_entropy v') = length (W_entropy v) - 16)"
  shows "\<exists>resp w' c code. completeSSO h hs now r realm client k session user req w = Some (resp, w')
    \<and> AS_codes (W_auth w') c = Some code"
proof -
  obtain tab w1 where t: "new_tab (request_tab req client) w = (tab, w1)" by fastforce
  have w1: "W_db w1 = W_db w" "W_entropy w1 = W_entropy w" using t by (auto simp: new_tab_def alloc_tab_def)
  obtain sess hs1 w2 where r: "resumeAuthSession hs now realm k (US_ID session) tab None w1 = (Some sess, hs1, w2)"
    "W_db w2 = W_db w" "length (W_entropy w2) = length (W_entropy w) - 72"
    by (rule resumeAuthSession_returns [of w1]) (use assms(4) w1 in auto)
  define tb where "tb = tab_at (W_auth w2) tab"
  have mode: "Tab_ResponseMode tb = []"
    using resumeAuthSession_opens [OF r(1)] new_tab_frame [OF t] assms(3)
    by (auto simp: opens_def tb_def request_tab_def namedMode_def)
  obtain w3 where at: "attachClientSessionTo h now session client (grantedScope (Tab_Scope tb)) w2 = Some (True, w3)"
    "length (W_entropy w3) = length (W_entropy w) - 88"
    using assms(5) [rule_format, of w2 "grantedScope (Tab_Scope tb)"] r assms(4) by fastforce
  obtain c s where n: "newCode (W_auth w3) now (W_entropy w3) (code_for_tab realm client user (US_ID session)
      (grantedScope (Tab_Scope tb)) tb) = Some ((c, s), drop 16 (W_entropy w3))" and c: "AS_codes s c \<noteq> None"
    using newCode_returns [of "W_entropy w3" "W_auth w3" now] at(2) assms(4) by fastforce
  define w4 where "w4 = w3\<lparr>W_auth := s, W_entropy := drop 16 (W_entropy w3)\<rparr>"
  have "34 \<le> length (W_entropy w4)" using assms(4) at(2) by (simp add: w4_def)
  then obtain hs' e where "setLoginCookies h (clearPresentedRestart hs1 r realm) now realm k (US_ID session) user w4
      = (\<lambda>f. f hs' (w4\<lparr>W_entropy := e\<rparr>))"
    by (rule setLoginCookies_returns [OF assms(1)])
  then have "completeSSO h hs now r realm client k session user req w = Some (WriteAuthorizationRedirect h r hs'
      (authorizationCodeLocation h (Realm_Name realm) tb (US_ID session) c), w4\<lparr>W_entropy := e\<rparr>)"
    using assms(2) t r(1) at(1) n mode unfolding tb_def w4_def
    by (simp add: completeSSO_def writeAuthorizationCode_def responseModeFormPost_def with_response_def)
  moreover obtain code where "AS_codes (W_auth (w4\<lparr>W_entropy := e\<rparr>)) c = Some code" using c by (auto simp: w4_def)
  ultimately show ?thesis by blast
qed

lemma shop_attach:
  assumes "W_db w = shop_db" "16 \<le> length (W_entropy w)" "US_ID session = ''s1''"
  shows "\<exists>w'. attachClientSessionTo demo_server now session shop_client scope w = Some (True, w')
    \<and> length (W_entropy w') = length (W_entropy w) - 16"
proof -
  obtain cid where n: "NewID (W_entropy w) = Some (cid, drop 16 (W_entropy w))" using NewID_returns assms(2) by blast
  show ?thesis
    using assms n
    by (simp add: attachClientSessionTo_def sqlite_store_def sqlite_sessions_def shop_db_def empty_db_def
        sessionRepo_ClientSession_def sessionRepo_CreateClientSession_def first_row_def has_client_def demo_db_def
        sample_request_def)
qed

lemma shop_identity:
  obtains raw parsed where "ParseIdentityCookie unary_jose sample_keys ''http://h/realms/demo'' raw 0 = Inr parsed"
    "Parsed_SessionID parsed = ''s1''" "Parsed_Subject parsed = ''u1''"
proof -
  obtain raw where raw: "IssueIdentityCookie unary_jose sample_keys ''http://h/realms/demo'' ''u1'' ''s1'' ''j'' ''c'' 0 = Inr raw"
    by (simp add: IssueIdentityCookie_def HMACSigner_def unary_jose_def)
  have "list_all valid_utf8 [''http://h/realms/demo'', ''u1'', ''s1'', ''j'', ''c'']"
    by (simp add: valid_utf8_ascii ascii_def)
  moreover have "int64 (unix_seconds 0)" "int64 (unix_seconds (0 + IdentityCookieLifespan))"
    by (simp_all add: int64_def unix_seconds_def IdentityCookieLifespan_def second_def)
  ultimately have "verify unary_jose raw HS512 (HMACSecret sample_keys)
      = Inr (cookie_read ''http://h/realms/demo'' ''u1'' ''s1'' ''j'' 0)"
    by (rule issued_cookie [OF unary_jose_ok raw])
  then have "\<exists>parsed. ParseIdentityCookie unary_jose sample_keys ''http://h/realms/demo'' raw 0 = Inr parsed
      \<and> Parsed_SessionID parsed = ''s1'' \<and> Parsed_Subject parsed = ''u1''"
    by (simp add: ParseIdentityCookie_def check_def cookie_read_def unix_seconds_def time_of_unix_def
        IdentityCookieLifespan_def second_def)
  then show thesis using that by blast
qed

lemma shop_fields: "GoStd.fields ''code'' = [''code'']" "GoStd.fields ''none'' = [''none'']"
  by (simp_all add: GoStd.fields_def string_bytes_def rune_chunks_ascii is_space_def bytes_string_def
      char_of_def bit_0)

lemma shop_world_same [simp]: "(shop_world t db)\<lparr>W_db := db\<rparr> = shop_world t db"
  by (simp add: shop_world_def)

lemma shop_sso: "ssoEnabled demo_server shop_db demo_realm"
  by (simp add: ssoEnabled_def browserFlowExecution_def sqlite_store_def sqlite_flows_def flowRepo_ListFlows_def shop_db_def
      demo_db_def empty_db_def root_flow_def)

theorem authorize_code_witness:
  "\<exists>cookie resp w' c code. authorize demo_server [] 0
       (shop_auth_request [(''response_type'', [''code'']), (''prompt'', [''none''])] cookie) (shop_world shop_tab shop_db) = Some (resp, w')
     \<and> AS_codes (W_auth w') c = Some code \<and> Code_UserID code = ''u1'' \<and> Code_SessionID code = ''s1''"
proof -
  obtain raw parsed where i: "ParseIdentityCookie unary_jose sample_keys ''http://h/realms/demo'' raw 0 = Inr parsed"
    "Parsed_SessionID parsed = ''s1''" "Parsed_Subject parsed = ''u1''" by (rule shop_identity)
  let ?w = "shop_world shop_tab shop_db"
  let ?r = "shop_auth_request [(''response_type'', [''code'']), (''prompt'', [''none''])] raw"
  let ?p = "[(''client_id'', [''app'']), (''redirect_uri'', [''https://app/cb'']), (''response_type'', [''code'']), (''prompt'', [''none''])]"
  let ?s = "Req_UserSession sample_request"
  let ?req = "\<lparr>AR_Params = ?p, AR_RedirectURI = ''https://app/cb'', AR_Mode = ''query'', AR_State = [], AR_HasState = False\<rparr>"
  have v: "values_get ?p ''client_id'' = ''app''" "values_get ?p ''redirect_uri'' = ''https://app/cb''"
    "values_get ?p ''response_type'' = ''code''" "values_get ?p ''prompt'' = ''none''" "values_get ?p ''state'' = []"
    "form_has ?p ''client_id''" "form_has ?p ''response_type''" "\<not> form_has ?p ''response_mode''"
    "\<not> form_has ?p ''max_age''" "\<not> form_has ?p ''state''" "\<not> form_has ?p ''scope''" "\<not> hasDuplicate ?p"
    "\<not> form_has ?p ''code_challenge''" "\<not> form_has ?p ''code_challenge_method''"
    by (simp_all add: values_get_def first_value_def form_has_def hasDuplicate_def)
  have p: "authorizationParams ?r = Some ?p" "Rq_Realm ?r = ''demo''" "request_cookie ?r identityCookie = Some raw"
    by (simp_all add: authorizationParams_def shop_auth_request_def request_cookie_def identityCookie_def)
  have c: "resolveAuthClient demo_server shop_db demo_realm ''app'' True = Inr shop_client"
    using shop_authClient by (auto simp: authClient_def split: sum.splits)
  have q: "check_request shop_client ?p = Inr ''query''"
    using v by (simp add: check_request_def defaultResponseMode_def classifyResponseType_def shop_fields flow_disabled_def checkPKCE_def)
  have ann: "userRepo_ByID shop_db ''r1'' ''u1'' = Inr demo_user" "User_Enabled demo_user" "User_RequiredActions demo_user = []"
    "User_ID demo_user = ''u1''" "US_ID ?s = ''s1''"
    by (simp_all add: userRepo_ByID_def shop_db_def first_row_def demo_user_def zero_user_def sample_request_def)
  have b: "resolveBrowserSession demo_server [] 0 ?r demo_realm sample_keys shop_db = (Some (?s, demo_user), [])"
    using p(3) i ann shop_session_found [of shop_db] by (simp add: resolveBrowserSession_def shop_ops shop_db_def)
  obtain resp w' cd code where l: "completeSSO demo_server [] 0 ?r demo_realm shop_client sample_keys ?s demo_user ?req ?w = Some (resp, w')"
    "AS_codes (W_auth w') cd = Some code"
    using completeSSO_returns [of demo_server ?req ?w 0 ?s shop_client "[]" ?r demo_realm sample_keys demo_user] v shop_attach ann
    by (auto simp: parsePrompt_def shop_fields)
  have "resolveSSO demo_server [] 0 ?r demo_realm shop_client [''none''] ?req reject ?w = Some (resp, w')" for reject
    using l(1) b shop_sso ann(3) v(9)
    by (simp add: resolveSSO_def realmKeys_cached parseMaxAge_def nextRequiredAction_def consentNeeded_def)
  then have a: "authorize demo_server [] 0 ?r ?w = Some (resp, w')"
    using v p c q shop_realm shop_match
    by (simp add: authorize_def resolveRealm_def parseMaxAge_def parsePrompt_def shop_fields)
  have "location [] = None" "AS_codes (W_auth ?w) cd \<noteq> Some code" by (simp_all add: location_def)
  from authorize_code [OF a this(1) l(2) this(2)] have "Code_UserID code = ''u1'' \<and> Code_SessionID code = ''s1''"
    using p i ann shop_realm shop_session_found [of shop_db]
    by (auto simp: ForRealm_def shop_ops shop_db_def)
  with a l(2) show ?thesis by blast
qed

end
