(* ===== verification/FlowSearch.thy ===== *)
theory FlowSearch
  imports Authorize GrantSafety
begin

text \<open>
  What the search of \<^verbatim>\<open>internal/oidc/flowbinding.go\<close> finds. A flow's execution rows may point at other
  flows and nothing in the schema stops a cycle; the walk is bounded by a depth and by the set of flows
  seen. The bound never cuts it short: the search is complete for every flow graph.
\<close>

definition flow_rows :: "(string \<Rightarrow> authentication_execution list st) \<Rightarrow> string \<Rightarrow> authentication_execution list" where
  "flow_rows rows f = (case rows f of Inl _ \<Rightarrow> [] | Inr es \<Rightarrow> es)"

definition subflow :: "(string \<Rightarrow> bool) \<Rightarrow> authentication_execution \<Rightarrow> string \<Rightarrow> bool" where
  "subflow known e g \<longleftrightarrow> Exec_FlowID e = g \<and> g \<noteq> [] \<and> known g"

definition flow_edges :: "(string \<Rightarrow> authentication_execution list st) \<Rightarrow> (string \<Rightarrow> bool) \<Rightarrow> (string \<times> string) set" where
  "flow_edges rows known = {(f, g). \<exists>e \<in> set (flow_rows rows f). subflow known e g}"

text \<open>A flow all of whose rows have been looked at, with \<open>seen\<close> the flows visited.\<close>

definition explored ::
  "(string \<Rightarrow> authentication_execution list st) \<Rightarrow> (string \<Rightarrow> bool) \<Rightarrow> string \<Rightarrow> authentication_execution list \<Rightarrow> string set \<Rightarrow> bool" where
  "explored rows known a es seen \<longleftrightarrow>
    (\<forall>e \<in> set es. Exec_Authenticator e \<noteq> a \<and> (\<forall>g. subflow known e g \<longrightarrow> g \<in> seen))"

lemma explored_mono: "explored rows known a es seen \<Longrightarrow> seen \<subseteq> seen' \<Longrightarrow> explored rows known a es seen'"
  unfolding explored_def by blast

lemma explored_Cons:
  "explored rows known a (e # es) seen \<longleftrightarrow>
     Exec_Authenticator e \<noteq> a \<and> (\<forall>g. subflow known e g \<longrightarrow> g \<in> seen) \<and> explored rows known a es seen"
  by (auto simp: explored_def)

section \<open>A row that is found\<close>

lemma walk_found:
  "fst (walk rows known a n f seen) = Some e \<Longrightarrow>
     \<exists>g. (f, g) \<in> (flow_edges rows known)\<^sup>* \<and> e \<in> set (flow_rows rows g) \<and> Exec_Authenticator e = a"
  "fst (walk_rows rows known a n es seen) = Some e \<Longrightarrow> set es \<subseteq> set (flow_rows rows f) \<Longrightarrow>
     \<exists>g. (f, g) \<in> (flow_edges rows known)\<^sup>* \<and> e \<in> set (flow_rows rows g) \<and> Exec_Authenticator e = a"
proof (induction rows known a n f seen and rows known a n es seen arbitrary: and f rule: walk_walk_rows.induct)
  case (2 rows known a n f seen)
  then show ?case
    by (auto simp: flow_rows_def split: if_splits sum.splits)
next
  case (4 rows known a n d es seen)
  then have d: "d \<in> set (flow_rows rows f)" by simp
  show ?case
  proof (cases "Exec_Authenticator d = a")
    case True
    with 4(4) d show ?thesis by auto
  next
    case ne: False
    show ?thesis
    proof (cases "Exec_FlowID d \<noteq> [] \<and> known (Exec_FlowID d)")
      case True
      then have edge: "(f, Exec_FlowID d) \<in> flow_edges rows known"
        using d by (auto simp: flow_edges_def subflow_def)
      obtain found s' where w: "walk rows known a n (Exec_FlowID d) seen = (found, s')" by fastforce
      show ?thesis
      proof (cases found)
        case None
        then show ?thesis using 4(2) [OF ne True] 4(4,5) ne True w by (auto simp del: not_Cons_self)
      next
        case (Some x)
        with 4(4) ne True w have "x = e" by simp
        then show ?thesis using 4(1) [OF ne True] w Some edge by (metis converse_rtrancl_into_rtrancl fst_conv)
      qed
    next
      case False
      then have "fst (walk_rows rows known a n es seen) = Some e" using 4(4) ne by auto
      then show ?thesis using 4(3) [OF ne False] 4(5) by simp
    qed
  qed
qed auto

section \<open>A search that finds nothing\<close>

lemma walk_exhausts:
  "walk rows known a n f seen = (None, seen') \<Longrightarrow> f \<in> K \<Longrightarrow> finite K \<Longrightarrow> {g. known g} \<subseteq> K \<Longrightarrow> set seen \<subseteq> K
     \<Longrightarrow> card (K - set seen) \<le> n
     \<Longrightarrow> set seen \<subseteq> set seen' \<and> set seen' \<subseteq> K \<and> f \<in> set seen'
       \<and> (\<forall>g \<in> set seen' - set seen. explored rows known a (flow_rows rows g) (set seen'))"
  "walk_rows rows known a n es seen = (None, seen') \<Longrightarrow> finite K \<Longrightarrow> {g. known g} \<subseteq> K \<Longrightarrow> set seen \<subseteq> K
     \<Longrightarrow> card (K - set seen) \<le> n
     \<Longrightarrow> set seen \<subseteq> set seen' \<and> set seen' \<subseteq> K \<and> explored rows known a es (set seen')
       \<and> (\<forall>g \<in> set seen' - set seen. explored rows known a (flow_rows rows g) (set seen'))"
proof (induction rows known a n f seen and rows known a n es seen arbitrary: seen' and seen' rule: walk_walk_rows.induct)
  case (1 rows known a f seen)
  then have "K - set seen = {}" by simp
  with 1 show ?case by auto
next
  case (2 rows known a n f seen)
  show ?case
  proof (cases "f \<in> set seen")
    case True
    with 2 show ?thesis by auto
  next
    case f: False
    show ?thesis
    proof (cases "rows f")
      case (Inl err)
      with 2 f show ?thesis by (auto simp: explored_def flow_rows_def)
    next
      case (Inr es)
      have "K - set (f # seen) = (K - set seen) - {f}" by auto
      then have "card (K - set (f # seen)) \<le> n"
        using 2(3,4,7) f by (simp add: card_Diff_singleton)
      with 2 f Inr have "set (f # seen) \<subseteq> set seen' \<and> set seen' \<subseteq> K \<and> explored rows known a es (set seen')
          \<and> (\<forall>g \<in> set seen' - set (f # seen). explored rows known a (flow_rows rows g) (set seen'))"
        by simp
      then show ?thesis using Inr by (auto simp: flow_rows_def)
    qed
  qed
next
  case (3 rows known a n seen)
  then show ?case by (simp add: explored_def)
next
  case (4 rows known a n d es seen)
  then have ne: "Exec_Authenticator d \<noteq> a" by (auto split: if_splits)
  show ?case
  proof (cases "Exec_FlowID d \<noteq> [] \<and> known (Exec_FlowID d)")
    case True
    obtain s1 where w: "walk rows known a n (Exec_FlowID d) seen = (None, s1)"
        "walk_rows rows known a n es s1 = (None, seen')"
      using 4(4) ne True by (auto split: prod.splits option.splits)
    have 1: "set seen \<subseteq> set s1 \<and> set s1 \<subseteq> K \<and> Exec_FlowID d \<in> set s1
        \<and> (\<forall>g \<in> set s1 - set seen. explored rows known a (flow_rows rows g) (set s1))"
      using 4(1) [OF ne True w(1)] 4(5-8) True by blast
    have "card (K - set s1) \<le> card (K - set seen)" using 1 4(5) by (intro card_mono) auto
    then have 2: "set s1 \<subseteq> set seen' \<and> set seen' \<subseteq> K \<and> explored rows known a es (set seen')
        \<and> (\<forall>g \<in> set seen' - set s1. explored rows known a (flow_rows rows g) (set seen'))"
      using 4(2) [OF ne True w(1) [symmetric] refl w(2)] 4(5,6,8) 1 by simp
    have "explored rows known a (flow_rows rows g) (set seen')" if "g \<in> set seen' - set seen" for g
      using that 1 2 by (cases "g \<in> set s1") (auto intro: explored_mono)
    with 1 2 ne show ?thesis by (auto simp: explored_Cons subflow_def)
  next
    case False
    with 4 ne show ?thesis by (auto simp: explored_Cons subflow_def)
  qed
qed

lemma explored_unreachable:
  assumes "(f, g) \<in> (flow_edges rows known)\<^sup>*" "f \<in> S" "\<forall>x \<in> S. explored rows known a (flow_rows rows x) S"
  shows "g \<in> S"
  using assms(1,2)
proof (induction rule: rtrancl_induct)
  case (step y z)
  with assms(3) show ?case unfolding flow_edges_def explored_def by blast
qed

lemma root_flow_listed: "root_flow alias flows = Some root \<Longrightarrow> root \<in> set flows"
  by (metis find_Some_iff length_rev nth_mem root_flow_def set_rev)

text \<open>
  C21. The search for an authenticator in the realm's browser flow always ends, also on flows that contain
  each other, and is exact: it returns a row with the authenticator from a flow reachable from the realm's
  browser flow, and returns nothing only when no reachable flow has such a row.
\<close>

theorem browserFlowExecution_reachable:
  assumes "FlowRepo_ListFlows (Store_AuthenticationFlows (H_store h)) db (Realm_ID realm) = Inr flows"
    and "root_flow (browserFlowAlias realm) flows = Some root"
    and "rows = FlowRepo_ListExecutions (Store_AuthenticationFlows (H_store h)) db (Realm_ID realm)"
    and "edges = flow_edges rows (\<lambda>i. i \<in> Flow_ID ` set flows)"
  shows "case browserFlowExecution h db realm a of
      Some e \<Rightarrow> \<exists>f. (Flow_ID root, f) \<in> edges\<^sup>* \<and> e \<in> set (flow_rows rows f) \<and> Exec_Authenticator e = a
    | None \<Rightarrow> \<forall>f e. (Flow_ID root, f) \<in> edges\<^sup>* \<longrightarrow> e \<in> set (flow_rows rows f) \<longrightarrow> Exec_Authenticator e \<noteq> a"
proof -
  define known where "known = (\<lambda>i. i \<in> Flow_ID ` set flows)"
  define K where "K = Flow_ID ` set flows"
  obtain found seen where w: "walk rows known a (length flows + 1) (Flow_ID root) [] = (found, seen)" by fastforce
  have b: "browserFlowExecution h db realm a = found"
    using w assms(1-3) by (simp add: browserFlowExecution_def known_def)
  have k: "edges = flow_edges rows known" using assms(4) by (simp add: known_def)
  show ?thesis
  proof (cases found)
    case (Some e)
    then show ?thesis using walk_found(1) [of rows known a "length flows + 1" "Flow_ID root" "[]" e] w b k by simp
  next
    case None
    have "Flow_ID root \<in> K" using root_flow_listed [OF assms(2)] by (simp add: K_def)
    moreover have "{g. known g} \<subseteq> K" by (auto simp: K_def known_def)
    moreover have "card (K - set []) \<le> length flows + 1"
      using card_image_le [of "set flows" Flow_ID] card_length [of flows] by (simp add: K_def)
    ultimately have "Flow_ID root \<in> set seen \<and> (\<forall>g \<in> set seen. explored rows known a (flow_rows rows g) (set seen))"
      using walk_exhausts(1) [OF w [unfolded None], of K] by (simp add: K_def)
    then have "Exec_Authenticator e \<noteq> a" if "(Flow_ID root, f) \<in> edges\<^sup>*" "e \<in> set (flow_rows rows f)" for f e
      using explored_unreachable [of "Flow_ID root" f rows known "set seen" a] that k
      unfolding explored_def by blast
    then show ?thesis using b None by simp
  qed
qed

section \<open>Two flows that contain each other\<close>

definition loop_flow :: "string \<Rightarrow> string \<Rightarrow> bool \<Rightarrow> authentication_flow" where
  "loop_flow ident alias topLevel = \<lparr>Flow_ID = ident, Flow_RealmID = ''r1'', Flow_Alias = Some alias, Flow_Description = [],
     Flow_ProviderID = ''basic-flow'', Flow_TopLevel = topLevel, Flow_BuiltIn = False, Flow_Ordinal = 0\<rparr>"

definition loop_row :: "string \<Rightarrow> string \<Rightarrow> string \<Rightarrow> string \<Rightarrow> int \<Rightarrow> authentication_execution" where
  "loop_row ident parent a sub prio = \<lparr>Exec_ID = ident, Exec_RealmID = ''r1'', Exec_ParentFlowID = parent,
     Exec_Authenticator = a, Exec_FlowID = sub, Exec_ConfigID = [], Exec_Requirement = ''REQUIRED'', Exec_Priority = prio\<rparr>"

definition loop_db :: sqlite_db where
  "loop_db = empty_db\<lparr>T_flow := [loop_flow ''f1'' ''browser'' True, loop_flow ''f2'' ''forms'' False],
     T_execution := [loop_row ''e1'' ''f1'' [] ''f2'' 1, loop_row ''e2'' ''f2'' [] ''f1'' 1,
       loop_row ''e3'' ''f2'' ''auth-username-password-form'' [] 2]\<rparr>"

lemma loop_rows [simp]:
  "flowRepo_ListExecutions loop_db ''r1'' ''f1'' = Inr [loop_row ''e1'' ''f1'' [] ''f2'' 1]"
  "flowRepo_ListExecutions loop_db ''r1'' ''f2'' =
     Inr [loop_row ''e2'' ''f2'' [] ''f1'' 1, loop_row ''e3'' ''f2'' ''auth-username-password-form'' [] 2]"
  by (simp_all add: flowRepo_ListExecutions_def loop_db_def loop_row_def priority_order_def)

lemma loop_flows:
  "FlowRepo_ListFlows (Store_AuthenticationFlows (H_store demo_server)) loop_db (Realm_ID demo_realm)
      = Inr [loop_flow ''f1'' ''browser'' True, loop_flow ''f2'' ''forms'' False]"
  "root_flow (browserFlowAlias demo_realm) [loop_flow ''f1'' ''browser'' True, loop_flow ''f2'' ''forms'' False]
      = Some (loop_flow ''f1'' ''browser'' True)"
  "FlowRepo_ListExecutions (Store_AuthenticationFlows sqlite_store) = flowRepo_ListExecutions"
  by (simp_all add: sqlite_store_def sqlite_flows_def flowRepo_ListFlows_def loop_db_def loop_flow_def
      root_flow_def browserFlowAlias_def demo_realm_def defaultBrowserFlowAlias_def)

theorem browserFlowExecution_reachable_witness:
  "\<exists>f e. browserFlowExecution demo_server loop_db demo_realm ''auth-username-password-form'' = Some e
     \<and> Exec_ID e = ''e3'' \<and> e \<in> set (flow_rows (flowRepo_ListExecutions loop_db ''r1'') f)
     \<and> (''f1'', f) \<in> (flow_edges (flowRepo_ListExecutions loop_db ''r1'') (\<lambda>i. i \<in> {''f1'', ''f2''}))\<^sup>*
     \<and> browserFlowExecution demo_server loop_db demo_realm ''auth-cookie'' = None"
proof -
  have i: "Flow_ID (loop_flow a b c) = a" "Exec_FlowID (loop_row a b' x y z) = y" "Exec_Authenticator (loop_row a b' x y z) = x"
    "Exec_ID (loop_row a b' x y z) = a" for a b c b' x y z
    by (simp_all add: loop_flow_def loop_row_def)
  have "browserFlowExecution demo_server loop_db demo_realm ''auth-username-password-form''
      = Some (loop_row ''e3'' ''f2'' ''auth-username-password-form'' [] 2)"
    "browserFlowExecution demo_server loop_db demo_realm ''auth-cookie'' = None"
    by (simp_all only: browserFlowExecution_def Let_def loop_flows sum.case option.case)
      (simp_all add: i loop_flows(3))
  then show ?thesis
    using browserFlowExecution_reachable [OF loop_flows(1,2) refl refl, of "''auth-username-password-form''"]
    by (auto simp: loop_flows(3) i)
qed

end
