(* ===== verification/Logout.thy ===== *)
theory Logout
  imports Login
begin

text \<open>
  The logout endpoint of \<^verbatim>\<open>internal/oidc/logout.go\<close> and the notifications of \<^verbatim>\<open>channellogout.go\<close>. A
  logout token that is handed to the HTTP client is recorded in \<open>W_sent\<close> with the address it goes to; the
  code discards the outcome of the call. Both channels read an address with \<^verbatim>\<open>url.Parse\<close>, the server's
  \<open>H_URLParse\<close>: \<^verbatim>\<open>http.NewRequestWithContext\<close>, whose method and context are fixed here, returns an error
  exactly for an address that does not parse.
\<close>

definition logoutConfirmPageTitle :: string where "logoutConfirmPageTitle = ''Logging out''"
definition logoutSuccessPageTitle :: string where "logoutSuccessPageTitle = ''You are logged out''"
definition logoutCacheControl :: string where "logoutCacheControl = ''no-cache''"
definition descInvalidRefreshToken :: string where "descInvalidRefreshToken = ''Invalid refresh token''"
definition descRefreshTokenClient :: string where
  "descRefreshTokenClient = ''Invalid refresh token. Token client and authorized client don'' @ [CHR 0x27] @ ''t match''"
definition postLogoutRedirectAttribute :: string where "postLogoutRedirectAttribute = ''post.logout.redirect.uris''"

definition pageInvalidIDTokenHint :: string where "pageInvalidIDTokenHint = ''Invalid parameter: id_token_hint''"
definition pageInvalidLogoutRedirect :: string where "pageInvalidLogoutRedirect = ''Invalid redirect uri''"
definition pageMissingIDTokenHint :: string where "pageMissingIDTokenHint = ''Missing parameters: id_token_hint''"

definition backchannelLogoutURLAttribute :: string where "backchannelLogoutURLAttribute = ''backchannel.logout.url''"
definition backchannelLogoutSessionAttribute :: string where
  "backchannelLogoutSessionAttribute = ''backchannel.logout.session.required''"
definition frontchannelLogoutURLAttribute :: string where "frontchannelLogoutURLAttribute = ''frontchannel.logout.url''"
definition frontchannelLogoutPageTitle :: string where "frontchannelLogoutPageTitle = logoutConfirmPageTitle"

section \<open>Channels\<close>

text \<open>The clients to notify: those of the back channel and those of the front channel.\<close>

definition back_client :: "client \<Rightarrow> bool" where
  "back_client c \<longleftrightarrow> attr (Client_Attributes c) backchannelLogoutURLAttribute \<noteq> []"

definition front_client :: "client \<Rightarrow> bool" where
  "front_client c \<longleftrightarrow> Client_FrontchannelLogout c \<and> attr (Client_Attributes c) frontchannelLogoutURLAttribute \<noteq> []"

fun collect_targets :: "'db server \<Rightarrow> 'db \<Rightarrow> string \<Rightarrow> client list \<Rightarrow> client list \<times> client list" where
  "collect_targets h db sessionID [] = ([], [])"
| "collect_targets h db sessionID (c # cs) =
    (let (back, front) = collect_targets h db sessionID cs
     in if \<not> back_client c \<and> \<not> front_client c then (back, front)
        else (case SessionRepo_ClientSession (Store_Sessions (H_store h)) db sessionID (Client_ID c) of
                Inl _ \<Rightarrow> (back, front)
              | Inr _ \<Rightarrow> (if back_client c then c # back else back, if front_client c then c # front else front)))"

definition channelLogoutTargets :: "'db server \<Rightarrow> 'db \<Rightarrow> string \<Rightarrow> string \<Rightarrow> client list \<times> client list" where
  "channelLogoutTargets h db realmID sessionID =
    (if sessionID = [] then ([], [])
     else (case ClientRepo_ListByRealm (Store_Clients (H_store h)) db realmID of
             Inl _ \<Rightarrow> ([], []) | Inr clients \<Rightarrow> collect_targets h db sessionID clients))"

definition postLogoutToken :: "'db server \<Rightarrow> string \<Rightarrow> string \<Rightarrow> 'db world \<Rightarrow> 'db world" where
  "postLogoutToken h endpoint logoutToken w =
    (case H_URLParse h endpoint of
       None \<Rightarrow> w
     | Some _ \<Rightarrow> w\<lparr>W_sent := W_sent w @ [(endpoint, logoutToken)]\<rparr>)"

fun notifyBackchannel ::
  "'db server \<Rightarrow> time \<Rightarrow> realm_keys \<Rightarrow> realm \<Rightarrow> string \<Rightarrow> string \<Rightarrow> client list \<Rightarrow> 'db world \<Rightarrow> 'db world option" where
  "notifyBackchannel h now k realm sessionID userID [] w = Some w"
| "notifyBackchannel h now k realm sessionID userID (c # cs) w =
    (case IssueLogout (H_jose h) \<lparr>Iss_Keys = k, Iss_Issuer = realmIssuer h (Realm_Name realm)\<rparr> now
            \<lparr>LR_ClientID = Client_ClientID c, LR_UserID = userID, LR_SessionID = sessionID,
             LR_SessionRequired = (attr (Client_Attributes c) backchannelLogoutSessionAttribute = ''true'')\<rparr> (W_entropy w) of
       None \<Rightarrow> None
     | Some (r, e) \<Rightarrow>
         (let w = w\<lparr>W_entropy := e\<rparr>;
              w = (case r of Inl _ \<Rightarrow> w
                   | Inr logoutToken \<Rightarrow> postLogoutToken h (attr (Client_Attributes c) backchannelLogoutURLAttribute) logoutToken w)
          in notifyBackchannel h now k realm sessionID userID cs w))"

definition frontchannelHosts :: "'db server \<Rightarrow> client list \<Rightarrow> string list" where
  "frontchannelHosts h clients =
     List.map_filter (\<lambda>c. case H_URLParse h (attr (Client_Attributes c) frontchannelLogoutURLAttribute) of
         None \<Rightarrow> None | Some host \<Rightarrow> if host = [] then None else Some host) clients"

definition FrameSrcPolicy :: "string list \<Rightarrow> string" where
  "FrameSrcPolicy hosts =
    (if hosts = [] then ContentSecurityPolicy
     else ''frame-src '' @ [CHR 0x27] @ ''self'' @ [CHR 0x27] @ '' '' @ concat (map (\<lambda>h. h @ '' '') hosts)
       @ ''; frame-ancestors '' @ [CHR 0x27] @ ''self'' @ [CHR 0x27] @ ''; object-src '' @ [CHR 0x27] @ ''none''
       @ [CHR 0x27] @ '';'')"

section \<open>The endpoint\<close>

definition logoutParams :: "request \<Rightarrow> url_values option" where
  "logoutParams r = (if Rq_Method r = ''POST'' then Rq_PostForm r else Some (Rq_Query r))"

definition logoutTarget :: "url_values \<Rightarrow> string \<times> bool" where
  "logoutTarget params = (let t = values_get params ''post_logout_redirect_uri'' in (t, t \<noteq> []))"

definition logoutLocation :: "string \<Rightarrow> url_values \<Rightarrow> string" where
  "logoutLocation t params =
    (let state = values_get params ''state''
     in if state = [] then t
        else t @ (if contains t ''?'' then ''&'' else ''?'') @ ''state='' @ query_escape state)"

definition postLogoutPatterns :: "client \<Rightarrow> string list" where
  "postLogoutPatterns client =
    (case map_of (Client_Attributes client) postLogoutRedirectAttribute of
       None \<Rightarrow> Client_RedirectURIs client
     | Some raw \<Rightarrow>
         if raw = [] \<or> raw = ''+'' then Client_RedirectURIs client
         else if raw = ''-'' then [] else split_string ''##'' raw)"

definition writeLogoutErrorPage :: "headers \<Rightarrow> theme_chrome \<Rightarrow> string \<Rightarrow> response" where
  "writeLogoutErrorPage hs c instruction = WriteThemeErrorPage hs 400 logoutCacheControl c instruction"

definition logoutTargetInstruction :: "parsed option \<Rightarrow> url_values \<Rightarrow> string" where
  "logoutTargetInstruction hint params =
    (if hint = None \<and> values_get params ''client_id'' = [] then pageMissingIDTokenHint else pageInvalidLogoutRedirect)"

definition logoutPageChrome :: "'db server \<Rightarrow> realm \<Rightarrow> client option \<Rightarrow> theme_chrome" where
  "logoutPageChrome h realm client =
    (case client of None \<Rightarrow> themeChrome realm | Some c \<Rightarrow> themeChromeFor h realm c [])"

text \<open>No hint is \<open>Some None\<close>; \<^const>\<open>None\<close> is a hint that is refused.\<close>

definition resolveLogoutHint :: "'db server \<Rightarrow> realm_keys \<Rightarrow> realm \<Rightarrow> url_values \<Rightarrow> parsed option option" where
  "resolveLogoutHint h k realm params =
    (let raw = values_get params ''id_token_hint''; clientID = values_get params ''client_id''
     in if raw = [] then Some None
        else (case ParseID (H_jose h) k (realmIssuer h (Realm_Name realm)) raw of
                Inl _ \<Rightarrow> None
              | Inr parsed \<Rightarrow>
                  if clientID \<noteq> [] \<and> clientID \<noteq> Parsed_ClientID parsed then None else Some (Some parsed)))"

definition logoutClient :: "'db server \<Rightarrow> 'db \<Rightarrow> realm \<Rightarrow> parsed option \<Rightarrow> string \<Rightarrow> client option" where
  "logoutClient h db realm hint clientID =
    (let clientID = (case hint of Some parsed \<Rightarrow> Parsed_ClientID parsed | None \<Rightarrow> clientID)
     in if clientID = [] then None
        else (case ClientRepo_ByClientID (Store_Clients (H_store h)) db (Realm_ID realm) clientID of
                Inl _ \<Rightarrow> None | Inr client \<Rightarrow> Some client))"

definition confirmBeforeRedirect :: "'db server \<Rightarrow> time \<Rightarrow> request \<Rightarrow> realm \<Rightarrow> realm_keys \<Rightarrow> 'db \<Rightarrow> bool" where
  "confirmBeforeRedirect h now r realm k db =
    (case request_cookie r identityCookie of
       None \<Rightarrow> False
     | Some val \<Rightarrow>
         (case ParseIdentityCookie (H_jose h) k (realmIssuer h (Realm_Name realm)) val now of
            Inl _ \<Rightarrow> False
          | Inr parsed \<Rightarrow>
              (case SessionRepo_UserSessionByID (Store_Sessions (H_store h)) db (Realm_ID realm) (Parsed_SessionID parsed) of
                 Inl _ \<Rightarrow> False | Inr _ \<Rightarrow> True)))"

definition logout_endSession :: "'db server \<Rightarrow> realm \<Rightarrow> string \<Rightarrow> 'db world \<Rightarrow> 'db world" where
  "logout_endSession h realm sessionID w =
    (if sessionID = [] then w
     else (case SessionRepo_DeleteUserSession (Store_Sessions (H_store h)) (W_db w) (Realm_ID realm) sessionID of
             Inl _ \<Rightarrow> w | Inr db \<Rightarrow> w\<lparr>W_db := db\<rparr>))"

text \<open>What a verified hint does before the answer: notify and delete. \<^const>\<open>None\<close> is a panic.\<close>

definition end_hinted ::
  "'db server \<Rightarrow> time \<Rightarrow> realm_keys \<Rightarrow> realm \<Rightarrow> parsed option \<Rightarrow> 'db world \<Rightarrow> (client list \<times> 'db world) option" where
  "end_hinted h now k realm hint w =
    (case hint of
       None \<Rightarrow> Some ([], w)
     | Some p \<Rightarrow>
         (let (back, front) = channelLogoutTargets h (W_db w) (Realm_ID realm) (Parsed_SessionID p)
          in case notifyBackchannel h now k realm (Parsed_SessionID p) (Parsed_Subject p) back w of
               None \<Rightarrow> None
             | Some w \<Rightarrow> Some (front, logout_endSession h realm (Parsed_SessionID p) w)))"

definition logoutFrontChannel ::
  "'db server \<Rightarrow> headers \<Rightarrow> time \<Rightarrow> request \<Rightarrow> realm \<Rightarrow> url_values \<Rightarrow> 'db world \<Rightarrow> 'db outcome" where
  "logoutFrontChannel h hs now r realm params w =
    realmKeys h hs now realm w (\<lambda>k w.
      case resolveLogoutHint h k realm params of
        None \<Rightarrow> Some (writeLogoutErrorPage hs (themeChrome realm) pageInvalidIDTokenHint, w)
      | Some hint \<Rightarrow>
          (let (t, hasTarget) = logoutTarget params;
               client = logoutClient h (W_db w) realm hint (values_get params ''client_id'')
           in if hasTarget \<and> (case client of None \<Rightarrow> True | Some c \<Rightarrow> \<not> matchRedirectURI (postLogoutPatterns c) t)
              then Some (writeLogoutErrorPage hs (logoutPageChrome h realm client) (logoutTargetInstruction hint params), w)
              else if hint = None \<and> confirmBeforeRedirect h now r realm k (W_db w)
              then Some (WriteThemePage hs 200 logoutCacheControl logoutConfirmPageTitle, w)
              else (case end_hinted h now k realm hint w of
                      None \<Rightarrow> None
                    | Some (front, w) \<Rightarrow>
                        if front \<noteq> []
                        then Some (WriteThemePagePolicy hs 200 logoutCacheControl frontchannelLogoutPageTitle
                               (FrameSrcPolicy (frontchannelHosts h front)), w)
                        else if \<not> hasTarget
                        then Some (WriteThemePage hs 200 logoutCacheControl
                               (if hint = None then logoutConfirmPageTitle else logoutSuccessPageTitle), w)
                        else Some (WriteLogoutRedirect h r hs (logoutLocation t params), w))))"

definition logoutByRefreshToken ::
  "'db server \<Rightarrow> headers \<Rightarrow> time \<Rightarrow> request \<Rightarrow> realm \<Rightarrow> url_values \<Rightarrow> 'db world \<Rightarrow> 'db outcome" where
  "logoutByRefreshToken h hs now r realm params w =
    with_client h hs r realm params w (\<lambda>client.
      realmKeys h hs now realm w (\<lambda>k w.
        case ParseRefresh (H_jose h) k (realmIssuer h (Realm_Name realm)) (values_get params ''refresh_token'') now of
          Inl _ \<Rightarrow> Some (WriteOAuthError hs 400 ''invalid_grant'' descInvalidRefreshToken, w)
        | Inr parsed \<Rightarrow>
            if Parsed_ClientID parsed \<noteq> Client_ClientID client
            then Some (WriteOAuthError hs 400 ''invalid_grant'' descRefreshTokenClient, w)
            else (let (back, front) = channelLogoutTargets h (W_db w) (Realm_ID realm) (Parsed_SessionID parsed)
                  in case notifyBackchannel h now k realm (Parsed_SessionID parsed) (Parsed_Subject parsed) back w of
                       None \<Rightarrow> None
                     | Some w \<Rightarrow>
                         (let done_hs = header_Set (SetContentSecurityPolicy hs) ''Cache-Control'' logoutCacheControl
                          in case SessionRepo_DeleteUserSession (Store_Sessions (H_store h)) (W_db w) (Realm_ID realm)
                                   (Parsed_SessionID parsed) of
                               Inl err \<Rightarrow>
                                 if err = ErrNotFound then Some (WriteNoContent h r done_hs, w) else Some (internal_error hs, w)
                             | Inr db \<Rightarrow> Some (WriteNoContent h r done_hs, w\<lparr>W_db := db\<rparr>)))))"

definition logout :: "'db server \<Rightarrow> headers \<Rightarrow> time \<Rightarrow> request \<Rightarrow> 'db world \<Rightarrow> 'db outcome" where
  "logout h hs now r w =
    resolveRealm h hs (Rq_Realm r) w (\<lambda>realm.
      case logoutParams r of
        None \<Rightarrow> Some (writeUnparseableBody hs, w)
      | Some params \<Rightarrow>
          if Rq_Method r = ''POST'' \<and> values_get params ''refresh_token'' \<noteq> []
          then logoutByRefreshToken h hs now r realm params w
          else logoutFrontChannel h hs now r realm params w)"

end
