(* ===== verification/SessionSpec.thy ===== *)
theory SessionSpec
  imports Sqlite
begin

text \<open>
  What the session repository of \<^verbatim>\<open>store.go\<close> promises, as two finite maps: the user sessions by identifier
  and the client sessions by user session and client. The writes and the reads of the interface are given
  on these maps, the contract is a locale, and the tables of \<^verbatim>\<open>sqlite.go\<close> are proved to meet it.
\<close>

section \<open>The abstract repository\<close>

record session_spec =
  SP_users :: "string \<rightharpoonup> user_session"
  SP_clients :: "string \<times> string \<rightharpoonup> client_session"
  SP_has_realm :: "string \<Rightarrow> bool"
  SP_has_user :: "string \<Rightarrow> bool"
  SP_has_client :: "string \<Rightarrow> bool"

datatype session_write =
    CreateUser user_session
  | Touch string int
  | DeleteOne string string
  | DeleteOfUser string string
  | CreateClient client_session

datatype session_read =
    FindUser string string
  | FindClient string string
  | OfRealm string
  | OfUser string string
  | OfClient string string
  | ClientsOf string

datatype session_answer =
    AUser user_session
  | AClient client_session
  | AUsers "user_session list"
  | AClients "client_session list"

definition spec_end :: "(user_session \<Rightarrow> bool) \<Rightarrow> session_spec \<Rightarrow> session_spec" where
  "spec_end P sp = sp
    \<lparr>SP_users := (\<lambda>i. case SP_users sp i of Some s \<Rightarrow> if P s then None else Some s | None \<Rightarrow> None),
     SP_clients := (\<lambda>(i, c). case SP_users sp i of
        Some s \<Rightarrow> if P s then None else SP_clients sp (i, c) | None \<Rightarrow> SP_clients sp (i, c))\<rparr>"

definition spec_find :: "string \<Rightarrow> string \<Rightarrow> session_spec \<Rightarrow> user_session st" where
  "spec_find realmID ident sp =
    (case SP_users sp ident of
       None \<Rightarrow> Inl ErrNotFound | Some s \<Rightarrow> if US_RealmID s = realmID then Inr s else Inl ErrNotFound)"

fun spec_write :: "session_write \<Rightarrow> session_spec \<Rightarrow> session_spec st" where
  "spec_write (CreateUser m) sp =
    (if SP_users sp (US_ID m) \<noteq> None then Inl ErrConflict
     else if \<not> (SP_has_realm sp (US_RealmID m) \<and> SP_has_user sp (US_UserID m)) then Inl ErrStore
     else Inr (sp\<lparr>SP_users := (SP_users sp)(US_ID m \<mapsto> m)\<rparr>))"
| "spec_write (Touch ident lastRefresh) sp =
    (case SP_users sp ident of
       None \<Rightarrow> Inl ErrNotFound
     | Some s \<Rightarrow> Inr (sp\<lparr>SP_users := (SP_users sp)(ident \<mapsto> s\<lparr>US_LastRefresh := lastRefresh\<rparr>)\<rparr>))"
| "spec_write (DeleteOne realmID ident) sp =
    (case spec_find realmID ident sp of
       Inl e \<Rightarrow> Inl e | Inr s \<Rightarrow> Inr (spec_end (\<lambda>s. US_RealmID s = realmID \<and> US_ID s = ident) sp))"
| "spec_write (DeleteOfUser realmID userID) sp =
    Inr (spec_end (\<lambda>s. US_RealmID s = realmID \<and> US_UserID s = userID) sp)"
| "spec_write (CreateClient m) sp =
    (if (\<exists>c \<in> ran (SP_clients sp). CS_ID c = CS_ID m) \<or> SP_clients sp (CS_UserSessionID m, CS_ClientID m) \<noteq> None
     then Inl ErrConflict
     else if SP_users sp (CS_UserSessionID m) = None \<or> \<not> SP_has_client sp (CS_ClientID m) then Inl ErrStore
     else Inr (sp\<lparr>SP_clients := (SP_clients sp)((CS_UserSessionID m, CS_ClientID m) \<mapsto> m)\<rparr>))"

text \<open>The listings are in the order of the identifiers.\<close>

definition listing :: "('a \<Rightarrow> string) \<Rightarrow> 'a set \<Rightarrow> 'a list" where
  "listing f A = map (the_inv_into A f) (sorted_list_of_set (f ` A))"

definition spec_list :: "(user_session \<Rightarrow> bool) \<Rightarrow> session_spec \<Rightarrow> user_session list" where
  "spec_list P sp = listing US_ID {s \<in> ran (SP_users sp). P s}"

fun spec_read :: "session_read \<Rightarrow> session_spec \<Rightarrow> session_answer st" where
  "spec_read (FindUser realmID ident) sp = map_sum id AUser (spec_find realmID ident sp)"
| "spec_read (FindClient sid cid) sp =
    (case SP_clients sp (sid, cid) of None \<Rightarrow> Inl ErrNotFound | Some c \<Rightarrow> Inr (AClient c))"
| "spec_read (OfRealm realmID) sp = Inr (AUsers (spec_list (\<lambda>s. US_RealmID s = realmID) sp))"
| "spec_read (OfUser realmID userID) sp =
    Inr (AUsers (spec_list (\<lambda>s. US_RealmID s = realmID \<and> US_UserID s = userID) sp))"
| "spec_read (OfClient realmID cid) sp =
    Inr (AUsers (spec_list (\<lambda>s. US_RealmID s = realmID \<and> SP_clients sp (US_ID s, cid) \<noteq> None) sp))"
| "spec_read (ClientsOf sid) sp =
    Inr (AClients (listing CS_ID {c \<in> ran (SP_clients sp). CS_UserSessionID c = sid}))"

section \<open>The interface\<close>

fun repo_write :: "'db session_repo \<Rightarrow> session_write \<Rightarrow> 'db \<Rightarrow> 'db st" where
  "repo_write repo (CreateUser m) db = SessionRepo_CreateUserSession repo db m"
| "repo_write repo (Touch ident t) db = SessionRepo_TouchUserSession repo db ident t"
| "repo_write repo (DeleteOne realmID ident) db = SessionRepo_DeleteUserSession repo db realmID ident"
| "repo_write repo (DeleteOfUser realmID userID) db = SessionRepo_DeleteUserSessions repo db realmID userID"
| "repo_write repo (CreateClient m) db = SessionRepo_CreateClientSession repo db m"

fun repo_read :: "'db session_repo \<Rightarrow> session_read \<Rightarrow> 'db \<Rightarrow> session_answer st" where
  "repo_read repo (FindUser realmID ident) db = map_sum id AUser (SessionRepo_UserSessionByID repo db realmID ident)"
| "repo_read repo (FindClient sid cid) db = map_sum id AClient (SessionRepo_ClientSession repo db sid cid)"
| "repo_read repo (OfRealm realmID) db = map_sum id AUsers (SessionRepo_ListUserSessionsByRealm repo db realmID)"
| "repo_read repo (OfUser realmID userID) db =
    map_sum id AUsers (SessionRepo_ListUserSessionsByUser repo db realmID userID)"
| "repo_read repo (OfClient realmID cid) db =
    map_sum id AUsers (SessionRepo_ListUserSessionsByClient repo db realmID cid)"
| "repo_read repo (ClientsOf sid) db = map_sum id AClients (SessionRepo_ListClientSessions repo db sid)"

text \<open>A sequence of writes, with the error of each; a write that fails leaves the state as it was.\<close>

fun run_writes :: "('w \<Rightarrow> 'db \<Rightarrow> 'db st) \<Rightarrow> 'w list \<Rightarrow> 'db \<Rightarrow> store_error option list \<times> 'db" where
  "run_writes f [] db = ([], db)"
| "run_writes f (a # as) db =
    (case f a db of
       Inl e \<Rightarrow> (let (es, db') = run_writes f as db in (Some e # es, db'))
     | Inr db1 \<Rightarrow> (let (es, db') = run_writes f as db1 in (None # es, db')))"

locale session_contract =
  fixes repo :: "'db session_repo"
    and inv :: "'db \<Rightarrow> bool"
    and abs :: "'db \<Rightarrow> session_spec"
  assumes write_spec: "inv db \<Longrightarrow> map_sum id abs (repo_write repo op db) = spec_write op (abs db)"
    and write_inv: "inv db \<Longrightarrow> repo_write repo op db = Inr db' \<Longrightarrow> inv db'"
    and read_spec: "inv db \<Longrightarrow> repo_read repo q db = spec_read q (abs db)"
    and keyed: "inv db \<Longrightarrow> SP_users (abs db) i = Some s \<Longrightarrow> US_ID s = i"
begin

lemma write_cases:
  assumes "inv db"
  obtains (failed) e where "repo_write repo op db = Inl e" "spec_write op (abs db) = Inl e"
  | (written) db' where "repo_write repo op db = Inr db'" "spec_write op (abs db) = Inr (abs db')" "inv db'"
  using write_spec [OF assms, of op] write_inv [OF assms, of op]
  by (cases "repo_write repo op db") auto

lemma run_refines:
  "inv db \<Longrightarrow> run_writes spec_write ops (abs db)
      = map_prod id abs (run_writes (repo_write repo) ops db)
    \<and> inv (snd (run_writes (repo_write repo) ops db))"
proof (induction ops arbitrary: db)
  case (Cons op ops)
  show ?case
    by (cases rule: write_cases [OF Cons.prems, of op]) (use Cons in \<open>auto simp: split_beta\<close>)
qed simp

lemma find_spec: "inv db \<Longrightarrow> SessionRepo_UserSessionByID repo db realmID ident = spec_find realmID ident (abs db)"
  using read_spec [of db "FindUser realmID ident"]
  by (cases "spec_find realmID ident (abs db)"; cases "SessionRepo_UserSessionByID repo db realmID ident"; simp)

lemma client_spec: "inv db \<Longrightarrow> SessionRepo_ClientSession repo db sid cid
    = (case SP_clients (abs db) (sid, cid) of None \<Rightarrow> Inl ErrNotFound | Some c \<Rightarrow> Inr c)"
  using read_spec [of db "FindClient sid cid"]
  by (cases "SP_clients (abs db) (sid, cid)"; cases "SessionRepo_ClientSession repo db sid cid"; simp)

text \<open>Deleting a session: it and its client sessions are gone, everything else is as it was.\<close>

lemma delete_spec:
  assumes "inv db" "SessionRepo_DeleteUserSession repo db realmID ident = Inr db'"
  shows "inv db'" "abs db' = spec_end (\<lambda>s. US_RealmID s = realmID \<and> US_ID s = ident) (abs db)"
    "\<exists>s. SP_users (abs db) ident = Some s \<and> US_RealmID s = realmID"
  using write_spec [OF assms(1), of "DeleteOne realmID ident"] write_inv [OF assms(1), of "DeleteOne realmID ident"] assms(2)
  by (auto simp: spec_find_def split: sum.splits option.splits if_splits)

lemma delete_error:
  assumes "inv db" "SessionRepo_DeleteUserSession repo db realmID ident = Inl e"
  shows "e = ErrNotFound" "SessionRepo_UserSessionByID repo db realmID ident = Inl ErrNotFound"
  using write_spec [OF assms(1), of "DeleteOne realmID ident"] assms
  by (auto simp: find_spec spec_find_def split: sum.splits option.splits if_splits)

lemma delete_gone:
  assumes "inv db" "SessionRepo_DeleteUserSession repo db realmID ident = Inr db'"
  shows "SessionRepo_UserSessionByID repo db' r ident = Inl ErrNotFound"
    "SessionRepo_ClientSession repo db' ident cid = Inl ErrNotFound"
  using delete_spec [OF assms] keyed [OF assms(1)]
  by (auto simp: find_spec client_spec spec_find_def spec_end_def split: option.splits)

lemma delete_keeps:
  assumes "inv db" "SessionRepo_DeleteUserSession repo db realmID ident = Inr db'"
  shows "i \<noteq> ident \<or> r \<noteq> realmID \<Longrightarrow>
      SessionRepo_UserSessionByID repo db' r i = SessionRepo_UserSessionByID repo db r i"
    "i \<noteq> ident \<Longrightarrow> SessionRepo_ClientSession repo db' i cid = SessionRepo_ClientSession repo db i cid"
  using delete_spec [OF assms(1,2)] keyed [OF assms(1)] assms(1)
  by (auto simp: find_spec client_spec spec_find_def spec_end_def split: option.splits)

end

section \<open>The tables\<close>

definition wf_sessions :: "sqlite_db \<Rightarrow> bool" where
  "wf_sessions db \<longleftrightarrow> distinct (map US_ID (T_user_session db)) \<and> distinct (map CS_ID (T_client_session db))
    \<and> distinct (map (\<lambda>c. (CS_UserSessionID c, CS_ClientID c)) (T_client_session db))
    \<and> (\<forall>c \<in> set (T_client_session db). CS_UserSessionID c \<in> US_ID ` set (T_user_session db))"

definition by_key :: "('a \<Rightarrow> 'k) \<Rightarrow> 'a list \<Rightarrow> 'k \<rightharpoonup> 'a" where
  "by_key f xs = map_of (map (\<lambda>x. (f x, x)) xs)"

definition abs_sessions :: "sqlite_db \<Rightarrow> session_spec" where
  "abs_sessions db =
    \<lparr>SP_users = by_key US_ID (T_user_session db),
     SP_clients = by_key (\<lambda>c. (CS_UserSessionID c, CS_ClientID c)) (T_client_session db),
     SP_has_realm = has_realm db, SP_has_user = has_user db, SP_has_client = has_client db\<rparr>"

lemma by_key_Some: "distinct (map f xs) \<Longrightarrow> by_key f xs k = Some x \<longleftrightarrow> x \<in> set xs \<and> f x = k"
  by (auto simp: by_key_def map_of_eq_Some_iff comp_def)

lemma by_key_None: "by_key f xs k = None \<longleftrightarrow> k \<notin> f ` set xs"
  by (simp add: by_key_def map_of_eq_None_iff image_image)

lemma ran_by_key: "distinct (map f xs) \<Longrightarrow> ran (by_key f xs) = set xs"
  by (auto simp: ran_def by_key_Some)

lemma by_key_snoc: "f m \<notin> f ` set xs \<Longrightarrow> by_key f (xs @ [m]) = (by_key f xs)(f m \<mapsto> m)"
  using by_key_None [of f xs "f m"] by (auto simp: by_key_def map_add_def fun_eq_iff split: option.splits)

lemma by_key_simps: "by_key f [] k = None" "by_key f (x # xs) = (by_key f xs)(f x \<mapsto> x)"
  by (simp_all add: by_key_def)

lemma filter_by_key:
  "distinct (map f xs) \<Longrightarrow> filter (\<lambda>x. P x \<and> f x = k) xs
    = (case by_key f xs k of None \<Rightarrow> [] | Some x \<Rightarrow> if P x then [x] else [])"
proof (induction xs)
  case (Cons x xs)
  then show ?case
    using by_key_None [of f xs "f x"] by (cases "f x = k") (auto simp: by_key_simps)
qed (simp add: by_key_simps)

lemma by_key_filter:
  "distinct (map f xs) \<Longrightarrow> by_key f (filter P xs) k
    = (case by_key f xs k of Some x \<Rightarrow> if P x then Some x else None | None \<Rightarrow> None)"
proof (induction xs)
  case (Cons x xs)
  moreover have "by_key f (filter P xs) (f x) = None" using Cons.prems by (auto simp: by_key_None)
  ultimately show ?case by (auto simp: by_key_def split: option.splits)
qed (simp add: by_key_def)

lemma sort_key_listing:
  assumes "distinct (map f xs)"
  shows "sort_key f xs = listing f (set xs)"
proof -
  have "sorted_list_of_set (f ` set xs) = sort (map f xs)"
    using assms by (metis distinct_remdups_id list.set_map sorted_list_of_set_sort_remdups)
  also have "\<dots> = map f (sort_key f xs)"
    by (rule properties_for_sort) simp_all
  finally show ?thesis
    using assms by (auto simp: listing_def distinct_map the_inv_into_f_f intro!: map_idI [symmetric])
qed

lemma abs_sessions_simps [simp]:
  "SP_users (abs_sessions db) = by_key US_ID (T_user_session db)"
  "SP_clients (abs_sessions db) = by_key (\<lambda>c. (CS_UserSessionID c, CS_ClientID c)) (T_client_session db)"
  "SP_has_realm (abs_sessions db) = has_realm db" "SP_has_user (abs_sessions db) = has_user db"
  "SP_has_client (abs_sessions db) = has_client db"
  by (simp_all add: abs_sessions_def)

lemma wf_sessionsD:
  assumes "wf_sessions db"
  shows "distinct (map US_ID (T_user_session db))" "distinct (map CS_ID (T_client_session db))"
    "distinct (map (\<lambda>c. (CS_UserSessionID c, CS_ClientID c)) (T_client_session db))"
  using assms by (simp_all add: wf_sessions_def)

lemma wf_sessions_same_ids:
  assumes "map US_ID us = map US_ID (T_user_session db)"
  shows "wf_sessions (db\<lparr>T_user_session := us\<rparr>) = wf_sessions db"
proof -
  have "US_ID ` set us = US_ID ` set (T_user_session db)" using assms by (metis list.set_map)
  with assms show ?thesis by (simp add: wf_sessions_def)
qed

text \<open>Dropping the sessions that satisfy a condition, with the cascade, drops them from the maps.\<close>

lemma cascade_spec:
  assumes "wf_sessions db" and hit_def: "hit = filter P (T_user_session db)"
  shows "abs_sessions (cascade_sessions (\<lambda>i. i \<in> US_ID ` set hit) db) = spec_end P (abs_sessions db)"
    "wf_sessions (cascade_sessions (\<lambda>i. i \<in> US_ID ` set hit) db)"
proof -
  note d = wf_sessionsD [OF assms(1)]
  have g: "US_ID s \<in> US_ID ` set hit \<longleftrightarrow> P s" if "s \<in> set (T_user_session db)" for s
    using that d(1) by (auto simp: hit_def distinct_map inj_on_def)
  have i: "i \<in> US_ID ` set hit \<longleftrightarrow> (case by_key US_ID (T_user_session db) i of Some s \<Rightarrow> P s | None \<Rightarrow> False)" for i
    using g by (auto simp: hit_def by_key_None by_key_Some [OF d(1)] split: option.splits)
  have u: "by_key US_ID (filter (\<lambda>s. US_ID s \<notin> US_ID ` set hit) (T_user_session db)) k
      = (case by_key US_ID (T_user_session db) k of Some s \<Rightarrow> if P s then None else Some s | None \<Rightarrow> None)" for k
    by (cases "by_key US_ID (T_user_session db) k") (simp_all add: by_key_filter [OF d(1)] i iffD1 [OF by_key_Some [OF d(1)]])
  have c: "by_key (\<lambda>c. (CS_UserSessionID c, CS_ClientID c))
        (filter (\<lambda>c. CS_UserSessionID c \<notin> US_ID ` set hit) (T_client_session db)) (k, l)
      = (case by_key US_ID (T_user_session db) k of
           Some s \<Rightarrow> if P s then None else by_key (\<lambda>c. (CS_UserSessionID c, CS_ClientID c)) (T_client_session db) (k, l)
         | None \<Rightarrow> by_key (\<lambda>c. (CS_UserSessionID c, CS_ClientID c)) (T_client_session db) (k, l))" for k l
    using i [of k] iffD1 [OF by_key_Some [OF d(3)], of "(k, l)"]
    by (cases "by_key (\<lambda>c. (CS_UserSessionID c, CS_ClientID c)) (T_client_session db) (k, l)")
      (auto simp: by_key_filter [OF d(3)] split: option.splits)
  show "abs_sessions (cascade_sessions (\<lambda>i. i \<in> US_ID ` set hit) db) = spec_end P (abs_sessions db)"
    using u c by (auto simp: abs_sessions_def spec_end_def cascade_sessions_def fun_eq_iff has_realm_def has_user_def
        has_client_def split: option.split)
  have "distinct (map f (filter Q xs))" if "distinct (map f xs)" for f :: "'b \<Rightarrow> 'c" and Q xs
    using that by (auto simp: distinct_map inj_on_def)
  then show "wf_sessions (cascade_sessions (\<lambda>i. i \<in> US_ID ` set hit) db)"
    using assms(1) by (auto simp: wf_sessions_def cascade_sessions_def distinct_map inj_on_def)
qed

lemma bex_key: "(\<exists>x \<in> A. f x = k) \<longleftrightarrow> k \<in> f ` A"
  by auto

lemma abs_sessions_append:
  "US_ID m \<notin> US_ID ` set (T_user_session db) \<Longrightarrow>
    abs_sessions (db\<lparr>T_user_session := T_user_session db @ [m]\<rparr>)
      = (abs_sessions db)\<lparr>SP_users := (by_key US_ID (T_user_session db))(US_ID m \<mapsto> m)\<rparr>"
  "(CS_UserSessionID c, CS_ClientID c) \<notin> (\<lambda>c. (CS_UserSessionID c, CS_ClientID c)) ` set (T_client_session db) \<Longrightarrow>
    abs_sessions (db\<lparr>T_client_session := T_client_session db @ [c]\<rparr>)
      = (abs_sessions db)\<lparr>SP_clients := (by_key (\<lambda>c. (CS_UserSessionID c, CS_ClientID c)) (T_client_session db))
          ((CS_UserSessionID c, CS_ClientID c) \<mapsto> c)\<rparr>"
  by (simp_all add: abs_sessions_def by_key_snoc by_key_snoc [where f = "\<lambda>c. (CS_UserSessionID c, CS_ClientID c)"]
      has_realm_def [abs_def] has_user_def [abs_def] has_client_def [abs_def])

lemma write_user:
  assumes "wf_sessions db"
  shows "map_sum id abs_sessions (sessionRepo_CreateUserSession db m) = spec_write (CreateUser m) (abs_sessions db)"
    "sessionRepo_CreateUserSession db m = Inr db' \<Longrightarrow> wf_sessions db'"
  using assms
  by (simp_all add: sessionRepo_CreateUserSession_def bex_key by_key_None abs_sessions_append wf_sessions_def
      split: if_splits) auto

lemma write_client:
  assumes "wf_sessions db"
  shows "map_sum id abs_sessions (sessionRepo_CreateClientSession db m) = spec_write (CreateClient m) (abs_sessions db)"
    "sessionRepo_CreateClientSession db m = Inr db' \<Longrightarrow> wf_sessions db'"
proof -
  have e: "(\<exists>c \<in> A. CS_ID c = CS_ID m \<or> (CS_UserSessionID c = CS_UserSessionID m \<and> CS_ClientID c = CS_ClientID m))
    \<longleftrightarrow> CS_ID m \<in> CS_ID ` A \<or> (CS_UserSessionID m, CS_ClientID m) \<in> (\<lambda>c. (CS_UserSessionID c, CS_ClientID c)) ` A" for A
    by (auto simp: image_iff) metis+
  show "map_sum id abs_sessions (sessionRepo_CreateClientSession db m) = spec_write (CreateClient m) (abs_sessions db)"
    using assms by (simp add: sessionRepo_CreateClientSession_def e bex_key by_key_None abs_sessions_append
        ran_by_key [OF wf_sessionsD(3)])
  show "sessionRepo_CreateClientSession db m = Inr db' \<Longrightarrow> wf_sessions db'"
    using assms by (simp add: sessionRepo_CreateClientSession_def e bex_key wf_sessions_def split: if_splits) auto
qed

lemma write_touch:
  assumes "wf_sessions db"
  shows "map_sum id abs_sessions (sessionRepo_TouchUserSession db i t) = spec_write (Touch i t) (abs_sessions db)"
    "sessionRepo_TouchUserSession db i t = Inr db' \<Longrightarrow> wf_sessions db'"
proof -
  let ?f = "\<lambda>s. if US_ID s = i then s\<lparr>US_LastRefresh := t\<rparr> else s"
  note d = wf_sessionsD(1) [OF assms]
  have m: "map US_ID (map ?f (T_user_session db)) = map US_ID (T_user_session db)" by simp
  have "by_key US_ID (map ?f xs) = (by_key US_ID xs)(i \<mapsto> s\<lparr>US_LastRefresh := t\<rparr>)"
    if "by_key US_ID xs i = Some s" "distinct (map US_ID xs)" for xs s
    using that
  proof (induction xs)
    case (Cons x xs)
    then have "US_ID x \<notin> US_ID ` set xs" by simp
    then have "\<forall>s \<in> set xs. US_ID s \<noteq> i" if "US_ID x = i" using that by (metis imageI)
    then have "map ?f xs = xs" if "US_ID x = i" using that by (simp add: map_idI)
    with Cons show ?case by (cases "US_ID x = i") (auto simp: by_key_simps fun_upd_twist)
  qed (simp add: by_key_simps)
  moreover have "filter (\<lambda>s. US_ID s = i) (T_user_session db) = [] \<longleftrightarrow> by_key US_ID (T_user_session db) i = None"
    by (auto simp: by_key_None filter_empty_conv)
  ultimately show "map_sum id abs_sessions (sessionRepo_TouchUserSession db i t) = spec_write (Touch i t) (abs_sessions db)"
    using d by (auto simp: sessionRepo_TouchUserSession_def affectedOne_def abs_sessions_def has_realm_def [abs_def]
        has_user_def [abs_def] has_client_def [abs_def] split: option.splits)
  show "sessionRepo_TouchUserSession db i t = Inr db' \<Longrightarrow> wf_sessions db'"
    using assms wf_sessions_same_ids [OF m] by (auto simp: sessionRepo_TouchUserSession_def store_simps)
qed

lemma delete_hit:
  assumes "wf_sessions db"
  shows "map_sum id abs_sessions (sessionRepo_DeleteUserSession db r i) = spec_write (DeleteOne r i) (abs_sessions db)"
proof -
  have "length (filter (\<lambda>s. US_RealmID s = r \<and> US_ID s = i) (T_user_session db)) = 0
      \<longleftrightarrow> spec_find r i (abs_sessions db) = Inl ErrNotFound"
    using filter_by_key [OF wf_sessionsD(1) [OF assms], of "\<lambda>s. US_RealmID s = r" i]
    by (simp add: spec_find_def split: option.splits)
  moreover have "spec_find r i sp = Inl e \<Longrightarrow> e = ErrNotFound" for sp e
    by (auto simp: spec_find_def split: option.splits if_splits)
  ultimately show ?thesis
    by (auto simp: sessionRepo_DeleteUserSession_def affectedOne_def Let_def cascade_spec(1) [OF assms refl]
        simp del: set_filter length_0_conv split: sum.splits)
qed

lemma list_sorted:
  "wf_sessions db \<Longrightarrow> sort_key US_ID (filter P (T_user_session db)) = spec_list P (abs_sessions db)"
  using wf_sessionsD(1) [of db]
  by (subst sort_key_listing) (auto simp: spec_list_def ran_by_key distinct_map inj_on_def)

lemma find_user:
  assumes "wf_sessions db"
  shows "sessionRepo_UserSessionByID db r i = spec_find r i (abs_sessions db)"
  using filter_by_key [OF wf_sessionsD(1) [OF assms], of "\<lambda>s. US_RealmID s = r" i]
  by (simp add: sessionRepo_UserSessionByID_def spec_find_def first_row_def split: option.splits)

lemma find_client:
  assumes "wf_sessions db"
  shows "sessionRepo_ClientSession db i cid
    = (case SP_clients (abs_sessions db) (i, cid) of None \<Rightarrow> Inl ErrNotFound | Some c \<Rightarrow> Inr c)"
  using filter_by_key [OF wf_sessionsD(3) [OF assms], of "\<lambda>_. True" "(i, cid)"]
  by (simp add: sessionRepo_ClientSession_def first_row_def split: option.splits)

lemma joined_once:
  assumes "wf_sessions db"
  shows "concat (map (\<lambda>s. map (\<lambda>_. s) (filter (\<lambda>c. CS_UserSessionID c = US_ID s \<and> CS_ClientID c = cid)
      (T_client_session db))) xs)
    = filter (\<lambda>s. by_key (\<lambda>c. (CS_UserSessionID c, CS_ClientID c)) (T_client_session db) (US_ID s, cid) \<noteq> None) xs"
  using filter_by_key [OF wf_sessionsD(3) [OF assms], of "\<lambda>_. True" "(_, cid)"]
  by (induction xs) (auto split: option.splits)

lemma read_spec_sqlite:
  assumes "wf_sessions db"
  shows "repo_read sqlite_sessions q db = spec_read q (abs_sessions db)"
proof (cases q)
  case (ClientsOf sid)
  have "distinct (map CS_ID (filter (\<lambda>c. CS_UserSessionID c = sid) (T_client_session db)))"
    using wf_sessionsD(2) [OF assms] by (auto simp: distinct_map inj_on_def)
  from sort_key_listing [OF this] ClientsOf show ?thesis
    by (simp add: sqlite_sessions_def sessionRepo_ListClientSessions_def ran_by_key [OF wf_sessionsD(3) [OF assms]])
qed (use assms in \<open>auto simp: sqlite_sessions_def find_user find_client list_sorted joined_once filter_filter
    sessionRepo_ListUserSessionsByRealm_def sessionRepo_ListUserSessionsByUser_def
    sessionRepo_ListUserSessionsByClient_def simp del: not_None_eq split: option.splits\<close>)

interpretation sqs: session_contract sqlite_sessions wf_sessions abs_sessions
proof
  fix db db' op
  assume wf: "wf_sessions db"
  show "map_sum id abs_sessions (repo_write sqlite_sessions op db) = spec_write op (abs_sessions db)"
    by (cases op) (use wf in \<open>auto simp: sqlite_sessions_def write_user(1) write_client(1) write_touch(1) delete_hit
      sessionRepo_DeleteUserSessions_def cascade_spec(1) [OF wf refl] Let_def
      simp del: spec_write.simps(1,2,3,5) set_filter\<close>)
  show "repo_write sqlite_sessions op db = Inr db' \<Longrightarrow> wf_sessions db'"
    by (cases op) (use wf in \<open>auto simp: sqlite_sessions_def sessionRepo_DeleteUserSession_def sessionRepo_DeleteUserSessions_def
      Let_def store_simps cascade_spec(2) [OF wf refl] simp del: set_filter dest: write_user(2) write_client(2) write_touch(2)\<close>)
qed (auto simp: read_spec_sqlite by_key_Some [OF wf_sessionsD(1)])

section \<open>The refinement\<close>

text \<open>
  C28. The session tables refine two finite maps. Any sequence of writes of the session repository, run on
  tables whose keys are unique, fails at the same writes and with the same errors as the sequence run on
  the maps; and any read after it, the six of the interface, answers what the maps answer: a lookup finds
  the session in its realm only, a deleted session takes its client sessions with it, and every listing
  is the sessions that qualify, once each, in the order of their identifiers.
\<close>

theorem session_tables_refine:
  assumes "wf_sessions db"
    and "run_writes (repo_write sqlite_sessions) ops db = (errs, db')"
    and "run_writes spec_write ops (abs_sessions db) = (errs', sp)"
  shows "errs = errs' \<and> repo_read sqlite_sessions q db' = spec_read q sp"
  using sqs.run_refines [OF assms(1), of ops] sqs.read_spec [of db' q] assms(2,3) by auto

definition some_session :: "string \<Rightarrow> user_session" where
  "some_session i = \<lparr>US_ID = i, US_RealmID = ''r'', US_UserID = ''u'', US_Username = ''ann'', US_StartedAt = 0,
     US_LastRefresh = 0, US_ExpiresAt = 60\<rparr>"

definition two_sessions :: sqlite_db where
  "two_sessions = empty_db\<lparr>T_user_session := [some_session ''b'', some_session ''a'']\<rparr>"

theorem session_tables_refine_witness:
  "\<exists>errs sp. run_writes spec_write [Touch ''a'' 5, DeleteOne ''r'' ''b'', DeleteOne ''r'' ''b''] (abs_sessions two_sessions)
      = (errs, sp) \<and> errs = [None, None, Some ErrNotFound]
    \<and> spec_read (OfRealm ''r'') sp = Inr (AUsers [(some_session ''a'')\<lparr>US_LastRefresh := 5\<rparr>])"
proof -
  let ?ops = "[Touch ''a'' 5, DeleteOne ''r'' ''b'', DeleteOne ''r'' ''b'']"
  let ?db = "empty_db\<lparr>T_user_session := [(some_session ''a'')\<lparr>US_LastRefresh := 5\<rparr>]\<rparr>"
  have wf: "wf_sessions two_sessions" by (simp add: wf_sessions_def two_sessions_def empty_db_def some_session_def)
  have run: "run_writes (repo_write sqlite_sessions) ?ops two_sessions = ([None, None, Some ErrNotFound], ?db)"
    by (simp add: sqlite_sessions_def two_sessions_def sessionRepo_TouchUserSession_def sessionRepo_DeleteUserSession_def
        affectedOne_def cascade_sessions_def some_session_def empty_db_def)
  obtain errs sp where "run_writes spec_write ?ops (abs_sessions two_sessions) = (errs, sp)" by fastforce
  moreover from session_tables_refine [OF wf run this, of "OfRealm ''r''"]
  have "errs = [None, None, Some ErrNotFound]" "repo_read sqlite_sessions (OfRealm ''r'') ?db = spec_read (OfRealm ''r'') sp"
    by simp_all
  moreover have "repo_read sqlite_sessions (OfRealm ''r'') ?db = Inr (AUsers [(some_session ''a'')\<lparr>US_LastRefresh := 5\<rparr>])"
    by (simp add: sqlite_sessions_def sessionRepo_ListUserSessionsByRealm_def some_session_def)
  ultimately show ?thesis by metis
qed

end
