(* ===== verification/KeyFrame.thy ===== *)
theory KeyFrame
  imports TokenEndpoint
begin

text \<open>
  What a handler may change before it decides anything: loading a realm's keys can write the key table, fill
  the cache and use up randomness. Everything else of the server is as it was.
\<close>

section \<open>The key table\<close>

definition only_keys :: "sqlite_db \<Rightarrow> sqlite_db \<Rightarrow> bool" where
  "only_keys db db' \<longleftrightarrow> (\<exists>ks. db' = db\<lparr>T_realm_key := ks\<rparr>)"

lemma only_keys_refl [simp]: "only_keys db db"
  by (auto simp: only_keys_def intro: exI [of _ "T_realm_key db"])

lemma only_keys_trans: "only_keys a b \<Longrightarrow> only_keys b c \<Longrightarrow> only_keys a c"
  by (auto simp: only_keys_def)

lemma keyRepo_Create_frame: "keyRepo_Create db row = Inr db' \<Longrightarrow> only_keys db db'"
  by (auto simp: keyRepo_Create_def only_keys_def split: if_splits)

lemma create_rows_frame: "create_rows X sqlite_store realm k rows db = (res, db') \<Longrightarrow> only_keys db db'"
  by (induction rows arbitrary: db)
    (auto dest: keyRepo_Create_frame intro: only_keys_trans split: sum.splits if_splits option.splits)

lemma ForRealm_frame:
  "ForRealm X sqlite_store now realm m db e = Some (res, m', db', e') \<Longrightarrow> only_keys db db'"
  by (auto simp: ForRealm_def Let_def create_def addAES_def dest: keyRepo_Create_frame create_rows_frame
      split: option.splits sum.splits if_splits prod.splits)

lemma only_keys_reads:
  assumes "only_keys db db'"
  shows "clientRepo_ByClientID db' = clientRepo_ByClientID db" "clientRepo_ListByRealm db' = clientRepo_ListByRealm db"
    "T_user_session db' = T_user_session db" "T_client_session db' = T_client_session db" "T_client db' = T_client db"
    "realmRepo_ByName db' = realmRepo_ByName db"
proof -
  obtain ks where d: "db' = db\<lparr>T_realm_key := ks\<rparr>" using assms by (auto simp: only_keys_def)
  have "scanWithScopes db' = scanWithScopes db" by (simp add: d fun_eq_iff scanWithScopes_def loadNodes_def
      loadClientScopeNames_def Let_def)
  then show "clientRepo_ByClientID db' = clientRepo_ByClientID db" "clientRepo_ListByRealm db' = clientRepo_ListByRealm db"
    "T_user_session db' = T_user_session db" "T_client_session db' = T_client_session db" "T_client db' = T_client db"
    "realmRepo_ByName db' = realmRepo_ByName db"
    by (simp_all add: d fun_eq_iff clientRepo_ByClientID_def clientRepo_ListByRealm_def realmRepo_ByName_def)
qed

section \<open>The server\<close>

definition quiet :: "sqlite_db world \<Rightarrow> sqlite_db world \<Rightarrow> bool" where
  "quiet w w' \<longleftrightarrow> (\<exists>m db e. only_keys (W_db w) db \<and> w' = w\<lparr>W_keys := m, W_db := db, W_entropy := e\<rparr>)"

lemma quietI: "only_keys (W_db w) db \<Longrightarrow> quiet w (w\<lparr>W_keys := m, W_db := db, W_entropy := e\<rparr>)"
  by (auto simp: quiet_def)

lemma quiet_refl [simp]: "quiet w w"
  using quietI [of w "W_db w" "W_entropy w" "W_keys w"] by simp

lemma quiet_entropy [simp]: "quiet w (w\<lparr>W_entropy := e\<rparr>)"
  using quietI [of w "W_db w" e "W_keys w"] by simp

lemma quiet_trans: "quiet a b \<Longrightarrow> quiet b c \<Longrightarrow> quiet a c"
proof -
  assume "quiet a b" "quiet b c"
  then obtain m db e m' db' e' where "only_keys (W_db a) db" "b = a\<lparr>W_keys := m, W_db := db, W_entropy := e\<rparr>"
      "only_keys (W_db b) db'" "c = b\<lparr>W_keys := m', W_db := db', W_entropy := e'\<rparr>" by (auto simp: quiet_def)
  then show "quiet a c" using quietI [of a db' e' m'] by (auto intro: only_keys_trans)
qed

lemma quietD:
  assumes "quiet w w'"
  shows "only_keys (W_db w) (W_db w')" "W_sent w' = W_sent w" "W_registrations w' = W_registrations w"
    "W_auth w' = W_auth w" "W_device w' = W_device w" "W_consents w' = W_consents w"
  using assms by (auto simp: quiet_def)

lemma sqlite_client_ops [simp]:
  "ClientRepo_ByClientID (Store_Clients sqlite_store) = clientRepo_ByClientID"
  "ClientRepo_ListByRealm (Store_Clients sqlite_store) = clientRepo_ListByRealm"
  "ClientRepo_ByClientID sqlite_clients = clientRepo_ByClientID"
  "ClientRepo_ListByRealm sqlite_clients = clientRepo_ListByRealm"
  "SessionRepo_ClientSession (Store_Sessions sqlite_store) = sessionRepo_ClientSession"
  by (simp_all add: sqlite_store_def sqlite_clients_def sqlite_sessions_def)

lemma realmKeys_run_sqlite:
  assumes "realmKeys h hs now realm w f = Some (resp, w')" "H_store h = sqlite_store"
  obtains (failed) "resp = internal_error hs" "quiet w w'"
  | (run) k m db e w1 where
      "ForRealm (H_x509 h) sqlite_store now realm (W_keys w) (W_db w) (W_entropy w) = Some (Inr k, m, db, e)"
      "w1 = w\<lparr>W_keys := m, W_db := db, W_entropy := e\<rparr>" "quiet w w1" "f k w1 = Some (resp, w')"
  using assms by (auto simp: realmKeys_def Let_def dest!: ForRealm_frame intro: quietI split: option.splits sum.splits prod.splits)

text \<open>The keys a handler gets for a realm, and the server once they are loaded.\<close>

definition load_keys :: "sqlite_db server \<Rightarrow> time \<Rightarrow> realm \<Rightarrow> sqlite_db world \<Rightarrow> (realm_keys \<times> sqlite_db world) option" where
  "load_keys h now realm w =
    (case ForRealm (H_x509 h) sqlite_store now realm (W_keys w) (W_db w) (W_entropy w) of
       Some (Inr k, m, db, e) \<Rightarrow> Some (k, w\<lparr>W_keys := m, W_db := db, W_entropy := e\<rparr>) | _ \<Rightarrow> None)"

lemma load_keys_quiet: "load_keys h now realm w = Some (k, w') \<Longrightarrow> quiet w w'"
  by (auto simp: load_keys_def intro: quietI dest!: ForRealm_frame split: option.splits sum.splits)

lemma load_keys_cached: "W_keys w (Realm_ID realm) = Some k \<Longrightarrow> load_keys h now realm w = Some (k, w)"
  by (simp add: load_keys_def ForRealm_def)

lemma load_keys_caches: "load_keys h now realm w = Some (k, w') \<Longrightarrow> W_keys w' (Realm_ID realm) = Some k"
  by (auto simp: load_keys_def ForRealm_def Let_def split: option.splits sum.splits prod.splits if_splits)

text \<open>The server after the keys of some realms were loaded, one after another.\<close>

definition keys_loaded :: "sqlite_db server \<Rightarrow> sqlite_db world \<Rightarrow> sqlite_db world \<Rightarrow> bool" where
  "keys_loaded h = (\<lambda>a b. \<exists>now realm k. load_keys h now realm a = Some (k, b))\<^sup>*\<^sup>*"

lemma keys_loaded_refl [simp]: "keys_loaded h w w"
  by (simp add: keys_loaded_def)

lemma keys_loaded_load:
  "keys_loaded h w w1 \<Longrightarrow> load_keys h now realm w1 = Some (k, w2) \<Longrightarrow> keys_loaded h w w2"
  unfolding keys_loaded_def by (rule rtranclp.rtrancl_into_rtrancl) blast+

lemma keys_loaded_trans: "keys_loaded h a b \<Longrightarrow> keys_loaded h b c \<Longrightarrow> keys_loaded h a c"
  unfolding keys_loaded_def by (rule rtranclp_trans)

lemma realmKeys_load:
  assumes "realmKeys h hs now realm w f = Some (resp, w')" "H_store h = sqlite_store"
  obtains (failed) "resp = internal_error hs" "quiet w w'"
  | (run) k w1 where "load_keys h now realm w = Some (k, w1)" "f k w1 = Some (resp, w')"
  using assms
  by (auto simp: realmKeys_def load_keys_def Let_def dest!: ForRealm_frame intro: quietI
      split: option.splits sum.splits prod.splits)

end
