(* ===== verification/LogoutSafety.thy ===== *)
theory LogoutSafety
  imports Logout LoginSafety SessionSpec KeyFrame
begin

text \<open>
  What a logout does and does not: where the browser may be sent, which requests can end a session, and who
  is told. The store is the tables of \<open>Sqlite\<close>, through the contract of \<open>SessionSpec\<close>.
\<close>

section \<open>Notifications\<close>

text \<open>A notification of a client: posted to its address, and signed by the realm for it and for the user.\<close>

definition notifies ::
  "'db server \<Rightarrow> time \<Rightarrow> realm_keys \<Rightarrow> realm \<Rightarrow> string \<Rightarrow> string \<Rightarrow> client \<Rightarrow> string \<times> string \<Rightarrow> bool" where
  "notifies h now k realm sessionID userID c p \<longleftrightarrow>
     fst p = attr (Client_Attributes c) backchannelLogoutURLAttribute
   \<and> (\<exists>claims. RSASignerTyped (H_jose h) k LogoutHeaderType (logout_json claims) = Some (snd p)
        \<and> LO_Iss claims = realmIssuer h (Realm_Name realm) \<and> LO_Aud claims = Client_ClientID c \<and> LO_Sub claims = userID
        \<and> LO_Typ claims = TypeLogout \<and> LO_Exp claims = unix_seconds (now + LogoutLife)
        \<and> LO_Sid claims = (if attr (Client_Attributes c) backchannelLogoutSessionAttribute = ''true'' then sessionID else []))"

lemma IssueLogout_run:
  assumes "IssueLogout (H_jose h) \<lparr>Iss_Keys = k, Iss_Issuer = realmIssuer h (Realm_Name realm)\<rparr> now
      \<lparr>LR_ClientID = Client_ClientID c, LR_UserID = userID, LR_SessionID = sessionID,
       LR_SessionRequired = (attr (Client_Attributes c) backchannelLogoutSessionAttribute = ''true'')\<rparr> e = Some (Inr raw, e')"
  shows "notifies h now k realm sessionID userID c (attr (Client_Attributes c) backchannelLogoutURLAttribute, raw)"
proof -
  obtain jti where "RSASignerTyped (H_jose h) k LogoutHeaderType (logout_json
      \<lparr>LO_Exp = unix_seconds (now + LogoutLife), LO_Iat = unix_seconds now, LO_Jti = jti,
       LO_Iss = realmIssuer h (Realm_Name realm), LO_Aud = Client_ClientID c, LO_Sub = userID, LO_Typ = TypeLogout,
       LO_Sid = (if attr (Client_Attributes c) backchannelLogoutSessionAttribute = ''true'' then sessionID else []),
       LO_Events = [BackchannelLogoutEvent]\<rparr>) = Some raw"
    using assms by (auto simp: IssueLogout_def Let_def split: option.splits cong: if_cong)
  then show ?thesis unfolding notifies_def by fastforce
qed

text \<open>The clients of a list whose back-channel address parses.\<close>

definition addressable :: "'db server \<Rightarrow> client list \<Rightarrow> client list" where
  "addressable h cs = filter (\<lambda>c. H_URLParse h (attr (Client_Attributes c) backchannelLogoutURLAttribute) \<noteq> None) cs"

text \<open>
  Who is told: a part of the addressable clients, in their order and each at most once, and all of them
  when the realm's key signs.
\<close>

definition tells ::
  "'db server \<Rightarrow> time \<Rightarrow> realm_keys \<Rightarrow> realm \<Rightarrow> string \<Rightarrow> string \<Rightarrow> client list \<Rightarrow> (string \<times> string) list \<Rightarrow> bool" where
  "tells h now k realm sessionID userID cs sent \<longleftrightarrow> (\<exists>told \<in> set (subseqs (addressable h cs)).
     list_all2 (notifies h now k realm sessionID userID) told sent
   \<and> ((\<forall>j. RSASignerTyped (H_jose h) k LogoutHeaderType j \<noteq> None) \<longrightarrow> told = addressable h cs))"

lemma tells_unsigned:
  assumes "tells h now k realm sessionID userID cs sent" "\<not> (\<forall>j. RSASignerTyped (H_jose h) k LogoutHeaderType j \<noteq> None)"
  shows "tells h now k realm sessionID userID (c # cs) sent"
proof -
  have "set (subseqs (addressable h cs)) \<subseteq> set (subseqs (addressable h (c # cs)))"
    by (simp add: addressable_def Let_def)
  then show ?thesis using assms unfolding tells_def by blast
qed

lemma tells_unaddressable:
  assumes "tells h now k realm sessionID userID cs sent"
    "H_URLParse h (attr (Client_Attributes c) backchannelLogoutURLAttribute) = None"
  shows "tells h now k realm sessionID userID (c # cs) sent"
  using assms unfolding tells_def addressable_def by simp

lemma tells_told:
  assumes "tells h now k realm sessionID userID cs sent" "notifies h now k realm sessionID userID c p"
    "H_URLParse h (attr (Client_Attributes c) backchannelLogoutURLAttribute) = Some host"
  shows "tells h now k realm sessionID userID (c # cs) (p # sent)"
proof -
  obtain told where "told \<in> set (subseqs (addressable h cs))" "list_all2 (notifies h now k realm sessionID userID) told sent"
      "(\<forall>j. RSASignerTyped (H_jose h) k LogoutHeaderType j \<noteq> None) \<longrightarrow> told = addressable h cs"
    using assms(1) unfolding tells_def by blast
  moreover have "addressable h (c # cs) = c # addressable h cs" using assms(3) by (simp add: addressable_def)
  ultimately show ?thesis using assms(2) unfolding tells_def by (intro bexI [of _ "c # told"]) (auto simp: Let_def)
qed

lemma notifyBackchannel_run:
  "notifyBackchannel h now k realm sessionID userID cs w = Some w' \<Longrightarrow>
    \<exists>e sent. w' = w\<lparr>W_entropy := e, W_sent := W_sent w @ sent\<rparr> \<and> tells h now k realm sessionID userID cs sent"
proof (induction cs arbitrary: w)
  case Nil
  then show ?case by (intro exI [of _ "W_entropy w"] exI [of _ "[]"]) (simp add: tells_def addressable_def)
next
  case (Cons c cs)
  let ?r = "\<lparr>LR_ClientID = Client_ClientID c, LR_UserID = userID, LR_SessionID = sessionID,
    LR_SessionRequired = (attr (Client_Attributes c) backchannelLogoutSessionAttribute = ''true'')\<rparr>"
  obtain res e where i: "IssueLogout (H_jose h) \<lparr>Iss_Keys = k, Iss_Issuer = realmIssuer h (Realm_Name realm)\<rparr> now ?r (W_entropy w)
      = Some (res, e)"
    using Cons.prems by (auto split: option.splits)
  show ?case
  proof (cases res)
    case (Inl x)
    with Cons.prems i have "notifyBackchannel h now k realm sessionID userID cs (w\<lparr>W_entropy := e\<rparr>) = Some w'" by simp
    from Cons.IH [OF this] obtain e' sent where "w' = w\<lparr>W_entropy := e', W_sent := W_sent w @ sent\<rparr>"
      "tells h now k realm sessionID userID cs sent" by auto
    moreover have "\<not> (\<forall>j. RSASignerTyped (H_jose h) k LogoutHeaderType j \<noteq> None)"
      using i Inl by (auto simp: IssueLogout_def Let_def split: option.splits)
    ultimately show ?thesis by (intro exI [of _ e'] exI [of _ sent]) (simp add: tells_unsigned)
  next
    case (Inr raw)
    let ?url = "attr (Client_Attributes c) backchannelLogoutURLAttribute"
    show ?thesis
    proof (cases "H_URLParse h ?url")
      case None
      with Inr Cons.prems i have "notifyBackchannel h now k realm sessionID userID cs (w\<lparr>W_entropy := e\<rparr>) = Some w'"
        by (simp add: postLogoutToken_def)
      from Cons.IH [OF this] obtain e' sent where "w' = w\<lparr>W_entropy := e', W_sent := W_sent w @ sent\<rparr>"
        "tells h now k realm sessionID userID cs sent" by auto
      with None show ?thesis by (intro exI [of _ e'] exI [of _ sent]) (simp add: tells_unaddressable)
    next
      case (Some host)
      with Inr Cons.prems i have "notifyBackchannel h now k realm sessionID userID cs
          (w\<lparr>W_entropy := e, W_sent := W_sent w @ [(?url, raw)]\<rparr>) = Some w'"
        by (simp add: postLogoutToken_def)
      from Cons.IH [OF this] obtain e' sent where "w' = w\<lparr>W_entropy := e', W_sent := W_sent w @ (?url, raw) # sent\<rparr>"
        "tells h now k realm sessionID userID cs sent" by auto
      with IssueLogout_run [OF i [unfolded Inr]] Some show ?thesis
        by (intro exI [of _ e'] exI [of _ "(?url, raw) # sent"]) (simp add: tells_told)
    qed
  qed
qed

lemma collect_targets_back:
  "fst (collect_targets h db sid cs) =
    filter (\<lambda>c. back_client c \<and> (\<exists>s. SessionRepo_ClientSession (Store_Sessions (H_store h)) db sid (Client_ID c) = Inr s)) cs"
  by (induction cs) (auto simp: split_beta split: sum.splits)

section \<open>The two families\<close>

lemma target_logout [simp]:
  "target (WriteLogoutRedirect h r hs l) = Some l"
  "target (WriteThemePagePolicy hs s c t p) = location hs"
  "target (WriteThemePage hs s c t) = location hs"
  "target (WriteNoContent h r (header_Set (SetContentSecurityPolicy hs) ''Cache-Control'' c)) = location hs"
  by (simp_all add: target_def WriteLogoutRedirect_def WriteThemePage_def WriteThemePagePolicy_def
      WriteNoContent_def empty_response_def writeThemeHTMLPolicy_def writeThemeHTMLBody_def Let_def split: option.splits)

lemma target_logout_error [simp]: "target (writeLogoutErrorPage hs ch i) = location hs"
  by (simp add: writeLogoutErrorPage_def)

lemma status_logout [simp]:
  "Resp_Status (WriteLogoutRedirect h r hs l) = 302"
  "Resp_Status (WriteThemePagePolicy hs s c t p) = s"
  "Resp_Status (WriteThemePage hs s c t) = s"
  "Resp_Status (WriteNoContent h r hs') = 204"
  by (simp_all add: WriteLogoutRedirect_def WriteThemePage_def WriteThemePagePolicy_def WriteNoContent_def
      empty_response_def writeThemeHTMLPolicy_def writeThemeHTMLBody_def Let_def)

text \<open>A target that was sent is one the client of the request admits.\<close>

definition admitted :: "sqlite_db \<Rightarrow> realm \<Rightarrow> parsed option \<Rightarrow> url_values \<Rightarrow> bool" where
  "admitted db realm hint params \<longleftrightarrow> (values_get params ''post_logout_redirect_uri'' \<noteq> [] \<longrightarrow>
     (\<exists>client. clientRepo_ByClientID db (Realm_ID realm)
          (case hint of Some p \<Rightarrow> Parsed_ClientID p | None \<Rightarrow> values_get params ''client_id'') = Inr client
        \<and> matchRedirectURI (postLogoutPatterns client) (values_get params ''post_logout_redirect_uri'')))"

text \<open>The session of a token, ended after its clients were told.\<close>

definition ends ::
  "sqlite_db server \<Rightarrow> time \<Rightarrow> realm_keys \<Rightarrow> realm \<Rightarrow> parsed \<Rightarrow> sqlite_db world \<Rightarrow> sqlite_db world \<Rightarrow> bool" where
  "ends h now k realm p w w' \<longleftrightarrow> (\<exists>w2.
     notifyBackchannel h now k realm (Parsed_SessionID p) (Parsed_Subject p)
       (fst (channelLogoutTargets h (W_db w) (Realm_ID realm) (Parsed_SessionID p))) w = Some w2
   \<and> W_sent w' = W_sent w2
   \<and> (W_db w' = W_db w2 \<and> (Parsed_SessionID p = [] \<or>
         (\<exists>e. sessionRepo_DeleteUserSession (W_db w2) (Realm_ID realm) (Parsed_SessionID p) = Inl e))
      \<or> sessionRepo_DeleteUserSession (W_db w2) (Realm_ID realm) (Parsed_SessionID p) = Inr (W_db w')))"

lemma logoutClient_Some:
  assumes "logoutClient h db' realm hint cid = Some c" "H_store h = sqlite_store" "only_keys db db'"
  shows "clientRepo_ByClientID db (Realm_ID realm) (case hint of Some p \<Rightarrow> Parsed_ClientID p | None \<Rightarrow> cid) = Inr c"
  using assms by (auto simp: logoutClient_def only_keys_reads Let_def split: option.splits sum.splits if_splits)

lemma end_hinted_run:
  assumes "H_store h = sqlite_store" "end_hinted h now k realm hint w = Some (front, w')"
  shows "case hint of None \<Rightarrow> w' = w | Some p \<Rightarrow> ends h now k realm p w w'"
  using assms
  by (auto simp: end_hinted_def ends_def logout_endSession_def split_beta Let_def split: option.splits sum.splits if_splits)

lemma logoutFrontChannel_run:
  assumes "logoutFrontChannel h hs now r realm params w = Some (resp, w')" "H_store h = sqlite_store"
  obtains (page) "quiet w w'" "target resp = location hs"
  | (run) k m db e hint w1 where
      "ForRealm (H_x509 h) sqlite_store now realm (W_keys w) (W_db w) (W_entropy w) = Some (Inr k, m, db, e)"
      "w1 = w\<lparr>W_keys := m, W_db := db, W_entropy := e\<rparr>" "quiet w w1"
      "resolveLogoutHint h k realm params = Some hint" "admitted (W_db w) realm hint params"
      "case hint of None \<Rightarrow> w' = w1 | Some p \<Rightarrow> ends h now k realm p w1 w'"
      "Resp_Status resp \<in> {200, 302}"
      "target resp = location hs \<or> values_get params ''post_logout_redirect_uri'' \<noteq> []
         \<and> target resp = Some (logoutLocation (values_get params ''post_logout_redirect_uri'') params)"
  using assms unfolding logoutFrontChannel_def
proof (cases rule: realmKeys_run_sqlite)
  case failed
  then show thesis by (intro page) simp_all
next
  case (run k m db e w1)
  let ?t = "values_get params ''post_logout_redirect_uri''"
  show thesis
  proof (cases "resolveLogoutHint h k realm params")
    case None
    with run show thesis by (intro page) auto
  next
    case (Some hint)
    have a: "admitted (W_db w) realm hint params"
      if "\<not> (?t \<noteq> [] \<and> (case logoutClient h (W_db w1) realm hint (values_get params ''client_id'') of
                 None \<Rightarrow> True | Some c \<Rightarrow> \<not> matchRedirectURI (postLogoutPatterns c) ?t))"
      using that logoutClient_Some [OF _ assms(2) quietD(1) [OF run(3)]]
      by (fastforce simp: admitted_def split: option.splits)
    show thesis
      using run(4) Some a end_hinted_run [OF assms(2), of now k realm hint w1] page run(1,2,3) that(2)
      by (auto simp: logoutTarget_def Let_def split: if_splits option.splits)
  qed
qed

lemma DeleteUserSession_error: "sessionRepo_DeleteUserSession db r i = Inl e \<Longrightarrow> e = ErrNotFound"
  by (auto simp: sessionRepo_DeleteUserSession_def affectedOne_def Let_def split: if_splits)

lemma logoutByRefreshToken_run:
  assumes "logoutByRefreshToken h hs now r realm params w = Some (resp, w')" "H_store h = sqlite_store"
  obtains (page) "quiet w w'" "target resp = location hs"
  | (run) client k m db e p w1 where
      "authenticateClient h (W_db w) realm params (Rq_BasicAuth r) = Inr client"
      "ForRealm (H_x509 h) sqlite_store now realm (W_keys w) (W_db w) (W_entropy w) = Some (Inr k, m, db, e)"
      "w1 = w\<lparr>W_keys := m, W_db := db, W_entropy := e\<rparr>" "quiet w w1"
      "ParseRefresh (H_jose h) k (realmIssuer h (Realm_Name realm)) (values_get params ''refresh_token'') now = Inr p"
      "Parsed_ClientID p = Client_ClientID client" "ends h now k realm p w1 w'"
      "Resp_Status resp = 204" "target resp = location hs"
proof (cases "authenticateClient h (W_db w) realm params (Rq_BasicAuth r)")
  case (Inl x)
  with assms show thesis by (intro page) (auto simp: logoutByRefreshToken_def with_client_def)
next
  case (Inr client)
  with assms(1) have "realmKeys h hs now realm w (\<lambda>k w.
        case ParseRefresh (H_jose h) k (realmIssuer h (Realm_Name realm)) (values_get params ''refresh_token'') now of
          Inl _ \<Rightarrow> Some (WriteOAuthError hs 400 ''invalid_grant'' descInvalidRefreshToken, w)
        | Inr parsed \<Rightarrow>
            if Parsed_ClientID parsed \<noteq> Client_ClientID client
            then Some (WriteOAuthError hs 400 ''invalid_grant'' descRefreshTokenClient, w)
            else (let (back, front) = channelLogoutTargets h (W_db w) (Realm_ID realm) (Parsed_SessionID parsed)
                  in case notifyBackchannel h now k realm (Parsed_SessionID parsed) (Parsed_Subject parsed) back w of
                       None \<Rightarrow> None
                     | Some w \<Rightarrow>
                         (let done_hs = header_Set (SetContentSecurityPolicy hs) ''Cache-Control'' logoutCacheControl
                          in case SessionRepo_DeleteUserSession (Store_Sessions (H_store h)) (W_db w) (Realm_ID realm)
                                   (Parsed_SessionID parsed) of
                               Inl err \<Rightarrow>
                                 if err = ErrNotFound then Some (WriteNoContent h r done_hs, w) else Some (internal_error hs, w)
                             | Inr db \<Rightarrow> Some (WriteNoContent h r done_hs, w\<lparr>W_db := db\<rparr>)))) = Some (resp, w')"
    by (simp add: logoutByRefreshToken_def with_client_def)
  then show thesis using assms(2)
  proof (cases rule: realmKeys_run_sqlite)
    case failed
    then show thesis by (intro page) simp_all
  next
    case (run k m db e w1)
    show thesis
      using run(4) page that(2) [OF Inr run(1-3)] run(3) assms(2)
      by (auto simp: split_beta Let_def ends_def split: sum.splits if_splits option.splits dest: DeleteUserSession_error)
  qed
qed

lemma logout_run:
  assumes "logout h hs now r w = Some (resp, w')" "H_store h = sqlite_store"
  obtains (page) "quiet w w'" "target resp = location hs"
  | (hint) realm params k m db e hint w1 where
      "RealmRepo_ByName (Store_Realms sqlite_store) (W_db w) (Rq_Realm r) = Inr realm" "logoutParams r = Some params"
      "ForRealm (H_x509 h) sqlite_store now realm (W_keys w) (W_db w) (W_entropy w) = Some (Inr k, m, db, e)"
      "w1 = w\<lparr>W_keys := m, W_db := db, W_entropy := e\<rparr>" "quiet w w1"
      "resolveLogoutHint h k realm params = Some hint" "admitted (W_db w) realm hint params"
      "case hint of None \<Rightarrow> w' = w1 | Some p \<Rightarrow> ends h now k realm p w1 w'"
      "Resp_Status resp \<in> {200, 302}"
      "target resp = location hs \<or> values_get params ''post_logout_redirect_uri'' \<noteq> []
         \<and> target resp = Some (logoutLocation (values_get params ''post_logout_redirect_uri'') params)"
  | (refresh) realm params client k m db e p w1 where
      "RealmRepo_ByName (Store_Realms sqlite_store) (W_db w) (Rq_Realm r) = Inr realm" "logoutParams r = Some params"
      "Rq_Method r = ''POST''" "values_get params ''refresh_token'' \<noteq> []"
      "authenticateClient h (W_db w) realm params (Rq_BasicAuth r) = Inr client"
      "ForRealm (H_x509 h) sqlite_store now realm (W_keys w) (W_db w) (W_entropy w) = Some (Inr k, m, db, e)"
      "w1 = w\<lparr>W_keys := m, W_db := db, W_entropy := e\<rparr>" "quiet w w1"
      "ParseRefresh (H_jose h) k (realmIssuer h (Realm_Name realm)) (values_get params ''refresh_token'') now = Inr p"
      "Parsed_ClientID p = Client_ClientID client" "ends h now k realm p w1 w'"
      "Resp_Status resp = 204" "target resp = location hs"
proof (cases "RealmRepo_ByName (Store_Realms sqlite_store) (W_db w) (Rq_Realm r)")
  case (Inl x)
  with assms show thesis by (intro page) (auto simp: logout_def resolveRealm_def split: if_splits)
next
  case (Inr realm)
  show thesis
  proof (cases "logoutParams r")
    case None
    with Inr assms show thesis by (intro page) (auto simp: logout_def resolveRealm_def)
  next
    case (Some params)
    show thesis
    proof (cases "Rq_Method r = ''POST'' \<and> values_get params ''refresh_token'' \<noteq> []")
      case True
      with Inr Some assms have "logoutByRefreshToken h hs now r realm params w = Some (resp, w')"
        by (simp add: logout_def resolveRealm_def)
      then show thesis using assms(2)
      proof (cases rule: logoutByRefreshToken_run)
        case run
        with True show thesis by (intro refresh [OF Inr Some]) auto
      qed (rule page)
    next
      case False
      with Inr Some assms have "logoutFrontChannel h hs now r realm params w = Some (resp, w')"
        by (auto simp: logout_def resolveRealm_def)
      then show thesis using assms(2)
      proof (cases rule: logoutFrontChannel_run)
        case run
        then show thesis by (intro hint [OF Inr Some])
      qed (rule page)
    qed
  qed
qed

section \<open>Where the browser is sent\<close>

text \<open>
  C11. A logout is no open redirect. Whatever a logout request asks for, the browser is sent only to the
  \<^verbatim>\<open>post_logout_redirect_uri\<close> of the request, with its \<^verbatim>\<open>state\<close> behind it and nothing else, and only when
  that address is admitted by the patterns of the client that the request identifies: the client of the
  verified \<^verbatim>\<open>id_token_hint\<close>, or the one of \<^verbatim>\<open>client_id\<close> when no hint was sent.
\<close>

theorem logout_target:
  assumes "logout h hs now r w = Some (resp, w')" "H_store h = sqlite_store" "location hs = None" "target resp = Some t"
  shows "\<exists>realm params k m db e hint client.
      RealmRepo_ByName (Store_Realms sqlite_store) (W_db w) (Rq_Realm r) = Inr realm \<and> logoutParams r = Some params
    \<and> ForRealm (H_x509 h) sqlite_store now realm (W_keys w) (W_db w) (W_entropy w) = Some (Inr k, m, db, e)
    \<and> resolveLogoutHint h k realm params = Some hint
    \<and> clientRepo_ByClientID (W_db w) (Realm_ID realm)
        (case hint of Some p \<Rightarrow> Parsed_ClientID p | None \<Rightarrow> values_get params ''client_id'') = Inr client
    \<and> matchRedirectURI (postLogoutPatterns client) (values_get params ''post_logout_redirect_uri'')
    \<and> (t = values_get params ''post_logout_redirect_uri''
       \<or> (\<exists>sep \<in> {''?'', ''&''}. t = values_get params ''post_logout_redirect_uri'' @ sep @ ''state=''
            @ query_escape (values_get params ''state'')))"
  using assms(1,2)
proof (cases rule: logout_run)
  case (hint realm params k m db e hint w1)
  from hint(10) assms(3,4) have t: "values_get params ''post_logout_redirect_uri'' \<noteq> []"
    "t = logoutLocation (values_get params ''post_logout_redirect_uri'') params" by auto
  moreover from t hint(7) obtain client where "clientRepo_ByClientID (W_db w) (Realm_ID realm)
        (case hint of Some p \<Rightarrow> Parsed_ClientID p | None \<Rightarrow> values_get params ''client_id'') = Inr client"
      "matchRedirectURI (postLogoutPatterns client) (values_get params ''post_logout_redirect_uri'')"
    by (auto simp: admitted_def)
  ultimately show ?thesis using hint(1-3,6) by (auto simp: logoutLocation_def Let_def)
qed (use assms(3,4) in simp_all)

section \<open>Who can end a session\<close>

lemma quiet_sessions:
  assumes "quiet w w'"
  shows "wf_sessions (W_db w') = wf_sessions (W_db w)"
    "sessionRepo_UserSessionByID (W_db w') = sessionRepo_UserSessionByID (W_db w)"
    "sessionRepo_ClientSession (W_db w') = sessionRepo_ClientSession (W_db w)"
  using only_keys_reads [OF quietD(1) [OF assms]]
  by (simp_all add: wf_sessions_def fun_eq_iff sessionRepo_UserSessionByID_def sessionRepo_ClientSession_def)

lemma sqlite_sessions_sel:
  "SessionRepo_UserSessionByID sqlite_sessions = sessionRepo_UserSessionByID"
  "SessionRepo_DeleteUserSession sqlite_sessions = sessionRepo_DeleteUserSession"
  "SessionRepo_ClientSession sqlite_sessions = sessionRepo_ClientSession"
  by (simp_all add: sqlite_sessions_def)

lemmas sqlite_delete_gone = sqs.delete_gone [unfolded sqlite_sessions_sel]
lemmas sqlite_delete_keeps = sqs.delete_keeps [unfolded sqlite_sessions_sel]
lemmas sqlite_delete_error = sqs.delete_error [unfolded sqlite_sessions_sel]

lemma ends_db:
  assumes "ends h now k realm p w w'"
  shows "W_db w' = W_db w \<and> (Parsed_SessionID p = [] \<or>
         (\<exists>e. sessionRepo_DeleteUserSession (W_db w) (Realm_ID realm) (Parsed_SessionID p) = Inl e))
      \<or> sessionRepo_DeleteUserSession (W_db w) (Realm_ID realm) (Parsed_SessionID p) = Inr (W_db w')"
  using assms notifyBackchannel_run by (fastforce simp: ends_def)

lemma ends_sessions:
  assumes "ends h now k realm p w w'" "wf_sessions (W_db w)"
  shows "Parsed_SessionID p \<noteq> [] \<Longrightarrow>
      sessionRepo_UserSessionByID (W_db w') (Realm_ID realm) (Parsed_SessionID p) = Inl ErrNotFound"
    "i \<noteq> Parsed_SessionID p \<or> rid \<noteq> Realm_ID realm \<Longrightarrow>
      sessionRepo_UserSessionByID (W_db w') rid i = sessionRepo_UserSessionByID (W_db w) rid i"
    "sessionRepo_UserSessionByID (W_db w') rid i \<noteq> sessionRepo_UserSessionByID (W_db w) rid i \<Longrightarrow>
      i = Parsed_SessionID p \<and> rid = Realm_ID realm \<and> sessionRepo_UserSessionByID (W_db w') rid i = Inl ErrNotFound"
proof -
  note d = ends_db [OF assms(1)]
  show "sessionRepo_UserSessionByID (W_db w') (Realm_ID realm) (Parsed_SessionID p) = Inl ErrNotFound"
    if "Parsed_SessionID p \<noteq> []"
    using d assms(2) that by (auto dest: sqlite_delete_gone(1) sqlite_delete_error(2))
  show k: "sessionRepo_UserSessionByID (W_db w') rid i = sessionRepo_UserSessionByID (W_db w) rid i"
    if "i \<noteq> Parsed_SessionID p \<or> rid \<noteq> Realm_ID realm" for rid i
    using d sqlite_delete_keeps(1) [OF assms(2) _ that] by auto
  show "i = Parsed_SessionID p \<and> rid = Realm_ID realm \<and> sessionRepo_UserSessionByID (W_db w') rid i = Inl ErrNotFound"
    if "sessionRepo_UserSessionByID (W_db w') rid i \<noteq> sessionRepo_UserSessionByID (W_db w) rid i"
    using d k [of i rid] that sqlite_delete_gone(1) [OF assms(2)] by auto
qed

text \<open>
  C12. Only the bearer of a session's token ends it. When a logout request changes what is found of any
  session, the session is gone, it is the one that a token of the request names, in the realm of the
  request, and that token is either an ID token of the realm sent as the hint, with no client beside it
  that disagrees, or a refresh token posted by the authenticated client it was issued to. In particular
  a request that is refused, and one that is asked to confirm, ends nothing.
\<close>

theorem logout_authority:
  assumes "logout h hs now r w = Some (resp, w')" "H_store h = sqlite_store" "wf_sessions (W_db w)"
    and "sessionRepo_UserSessionByID (W_db w') rid sid \<noteq> sessionRepo_UserSessionByID (W_db w) rid sid"
  shows "\<exists>realm params k m db e p.
      RealmRepo_ByName (Store_Realms sqlite_store) (W_db w) (Rq_Realm r) = Inr realm \<and> logoutParams r = Some params
    \<and> ForRealm (H_x509 h) sqlite_store now realm (W_keys w) (W_db w) (W_entropy w) = Some (Inr k, m, db, e)
    \<and> rid = Realm_ID realm \<and> sid = Parsed_SessionID p
    \<and> sessionRepo_UserSessionByID (W_db w') rid sid = Inl ErrNotFound \<and> Resp_Status resp \<in> {200, 204, 302}
    \<and> (ParseID (H_jose h) k (realmIssuer h (Realm_Name realm)) (values_get params ''id_token_hint'') = Inr p
         \<and> values_get params ''client_id'' \<in> {[], Parsed_ClientID p}
       \<or> Rq_Method r = ''POST''
         \<and> ParseRefresh (H_jose h) k (realmIssuer h (Realm_Name realm)) (values_get params ''refresh_token'') now = Inr p
         \<and> (\<exists>client. authenticateClient h (W_db w) realm params (Rq_BasicAuth r) = Inr client
              \<and> Parsed_ClientID p = Client_ClientID client))"
  using assms(1,2)
proof (cases rule: logout_run)
  case page
  with assms(4) show ?thesis by (simp add: quiet_sessions)
next
  case (hint realm params k m db e hint w1)
  obtain p where p: "hint = Some p" "ends h now k realm p w1 w'"
  proof (cases hint)
    case None
    with hint(5,8) assms(4) show thesis by (simp add: quiet_sessions)
  qed (use hint(8) in auto)
  have "sid = Parsed_SessionID p \<and> rid = Realm_ID realm \<and> sessionRepo_UserSessionByID (W_db w') rid sid = Inl ErrNotFound"
    using ends_sessions(3) [OF p(2)] assms(3,4) hint(5) by (simp add: quiet_sessions)
  moreover have "ParseID (H_jose h) k (realmIssuer h (Realm_Name realm)) (values_get params ''id_token_hint'') = Inr p
      \<and> values_get params ''client_id'' \<in> {[], Parsed_ClientID p}"
    using hint(6) p(1) by (auto simp: resolveLogoutHint_def Let_def split: if_splits sum.splits)
  ultimately show ?thesis using hint(1-3,9) by blast
next
  case (refresh realm params client k m db e p w1)
  have "sid = Parsed_SessionID p \<and> rid = Realm_ID realm \<and> sessionRepo_UserSessionByID (W_db w') rid sid = Inl ErrNotFound"
    using ends_sessions(3) [OF refresh(11)] assms(3,4) refresh(8) by (simp add: quiet_sessions)
  then show ?thesis using refresh(1-3,5,6,9,10,12) by blast
qed

section \<open>Who is told\<close>

lemma hinted_run:
  assumes "H_store h = sqlite_store"
    and "RealmRepo_ByName (Store_Realms sqlite_store) (W_db w) (Rq_Realm r) = Inr realm" "logoutParams r = Some params"
    and "\<not> (Rq_Method r = ''POST'' \<and> values_get params ''refresh_token'' \<noteq> [])"
    and "W_keys w (Realm_ID realm) = Some k" "values_get params ''id_token_hint'' \<noteq> []"
    and "ParseID (H_jose h) k (realmIssuer h (Realm_Name realm)) (values_get params ''id_token_hint'') = Inr p"
    and "logout h hs now r w = Some (resp, w')" "Resp_Status resp \<noteq> 400"
  shows "ends h now k realm p w w'"
proof -
  have run: "logoutFrontChannel h hs now r realm params w = Some (resp, w')"
    using assms by (auto simp: logout_def resolveRealm_def)
  have e: "Resp_Status (writeLogoutErrorPage hs ch i) = 400" for ch i
    by (simp add: writeLogoutErrorPage_def WriteThemeErrorPage_def writeThemeHTML_def writeThemeHTMLPolicy_def
        writeThemeHTMLBody_def Let_def)
  have "resolveLogoutHint h k realm params = Some (Some p)"
    using run assms e by (auto simp: logoutFrontChannel_def realmKeys_cached resolveLogoutHint_def Let_def split: if_splits)
  with run assms(5,9) obtain front where "end_hinted h now k realm (Some p) w = Some (front, w')"
    by (auto simp: logoutFrontChannel_def realmKeys_cached Let_def split_beta e split: if_splits option.splits)
  from end_hinted_run [OF assms(1) this] show ?thesis by simp
qed

text \<open>The clients a logout with this hint has to tell.\<close>

definition notified :: "sqlite_db server \<Rightarrow> sqlite_db world \<Rightarrow> parsed \<Rightarrow> client list \<Rightarrow> client list" where
  "notified h w p clients = filter (\<lambda>c. back_client c
     \<and> (\<exists>s. sessionRepo_ClientSession (W_db w) (Parsed_SessionID p) (Client_ID c) = Inr s)
     \<and> H_URLParse h (attr (Client_Attributes c) backchannelLogoutURLAttribute) \<noteq> None) clients"

text \<open>
  C13. A hinted logout ends one session and tells everyone in it. When a request with a verified
  \<^verbatim>\<open>id_token_hint\<close> that names a session is not refused (the keys of the realm being loaded and its clients
  listed), the session of the hint is gone, every other session is as it was, and
  the logout tokens handed to the HTTP client go to clients of the realm that registered a back-channel
  address which parses and took part in the session: at most one to each, in the order the clients are
  listed, to that address, signed by the realm for that client and for the user of the hint, and naming the
  session when the client asks for it. No such client is left out, provided the realm's key signs (a token
  that cannot be signed is skipped). Clients that did not take part are not told, and neither is one whose
  address does not parse.
\<close>

theorem logout_notifies:
  assumes "H_store h = sqlite_store" "wf_sessions (W_db w)"
    and "RealmRepo_ByName (Store_Realms sqlite_store) (W_db w) (Rq_Realm r) = Inr realm" "logoutParams r = Some params"
    and "\<not> (Rq_Method r = ''POST'' \<and> values_get params ''refresh_token'' \<noteq> [])"
    and "W_keys w (Realm_ID realm) = Some k" "values_get params ''id_token_hint'' \<noteq> []"
    and "ParseID (H_jose h) k (realmIssuer h (Realm_Name realm)) (values_get params ''id_token_hint'') = Inr p"
    and "Parsed_SessionID p \<noteq> []" "clientRepo_ListByRealm (W_db w) (Realm_ID realm) = Inr clients"
    and "logout h hs now r w = Some (resp, w')" "Resp_Status resp \<noteq> 400"
  shows "sessionRepo_UserSessionByID (W_db w') (Realm_ID realm) (Parsed_SessionID p) = Inl ErrNotFound
    \<and> (\<forall>rid i. i \<noteq> Parsed_SessionID p \<longrightarrow>
         sessionRepo_UserSessionByID (W_db w') rid i = sessionRepo_UserSessionByID (W_db w) rid i)
    \<and> (\<exists>sent told. W_sent w' = W_sent w @ sent
         \<and> list_all2 (notifies h now k realm (Parsed_SessionID p) (Parsed_Subject p)) told sent
         \<and> told \<in> set (subseqs (notified h w p clients))
         \<and> ((\<forall>j. RSASignerTyped (H_jose h) k LogoutHeaderType j \<noteq> None) \<longrightarrow> told = notified h w p clients))"
proof -
  note run = hinted_run [OF assms(1,3-8,11,12)]
  have "fst (channelLogoutTargets h (W_db w) (Realm_ID realm) (Parsed_SessionID p))
      = filter (\<lambda>c. back_client c \<and> (\<exists>s. sessionRepo_ClientSession (W_db w) (Parsed_SessionID p) (Client_ID c) = Inr s)) clients"
    using assms(1,9,10) by (simp add: channelLogoutTargets_def collect_targets_back)
  with run obtain w2 where "notifyBackchannel h now k realm (Parsed_SessionID p) (Parsed_Subject p)
      (filter (\<lambda>c. back_client c \<and> (\<exists>s. sessionRepo_ClientSession (W_db w) (Parsed_SessionID p) (Client_ID c) = Inr s)) clients)
      w = Some w2" "W_sent w' = W_sent w2"
    by (auto simp: ends_def)
  with notifyBackchannel_run [OF this(1)] obtain sent where "W_sent w' = W_sent w @ sent"
      "tells h now k realm (Parsed_SessionID p) (Parsed_Subject p)
        (filter (\<lambda>c. back_client c \<and> (\<exists>s. sessionRepo_ClientSession (W_db w) (Parsed_SessionID p) (Client_ID c) = Inr s)) clients)
        sent" by auto
  then have "\<exists>sent told. W_sent w' = W_sent w @ sent
         \<and> list_all2 (notifies h now k realm (Parsed_SessionID p) (Parsed_Subject p)) told sent
         \<and> told \<in> set (subseqs (notified h w p clients))
         \<and> ((\<forall>j. RSASignerTyped (H_jose h) k LogoutHeaderType j \<noteq> None) \<longrightarrow> told = notified h w p clients)"
    unfolding tells_def addressable_def filter_filter notified_def by (auto simp: conj_ac)
  with ends_sessions(1,2) [OF run assms(2)] assms(9) show ?thesis by simp
qed

section \<open>A sample logout\<close>

definition bye_client :: client where
  "bye_client = shop_client\<lparr>Client_Attributes := [(''backchannel.logout.url'', ''https://app/bye'')]\<rparr>"

definition bye_db :: sqlite_db where
  "bye_db = demo_db\<lparr>T_client := [bye_client],
     T_client_session := [\<lparr>CS_ID = ''cs1'', CS_UserSessionID = ''s1'', CS_ClientID = ''c1'', CS_Scope = [], CS_StartedAt = 0\<rparr>]\<rparr>"

definition bye_world :: "sqlite_db world" where
  "bye_world = demo_world\<lparr>W_db := bye_db\<rparr>"

definition bye_request :: "url_values \<Rightarrow> request" where
  "bye_request q = \<lparr>Rq_Realm = ''demo'', Rq_Method = ''GET'', Rq_Query = q, Rq_PostForm = None, Rq_BasicAuth = None,
     Rq_Authorization = [], Rq_DPoP = None, Rq_ContentType = [], Rq_Cookies = []\<rparr>"

lemma bye_simps [simp]:
  "W_db bye_world = bye_db" "W_keys bye_world = [''r1'' \<mapsto> sample_keys]" "W_sent bye_world = []"
  "W_entropy bye_world = replicate 48 7"
  "logoutParams (bye_request q) = Some q" "Rq_Method (bye_request q) = ''GET''" "Rq_Realm (bye_request q) = ''demo''"
  "request_cookie (bye_request q) n = None"
  by (simp_all add: bye_world_def demo_world_def bye_request_def logoutParams_def request_cookie_def)

lemma bye_lookups:
  "RealmRepo_ByName (Store_Realms sqlite_store) bye_db ''demo'' = Inr demo_realm"
  "clientRepo_ByClientID bye_db ''r1'' ''app'' = Inr bye_client"
  "clientRepo_ListByRealm bye_db ''r1'' = Inr [bye_client]"
  "wf_sessions bye_db"
  "sessionRepo_UserSessionByID bye_db ''r1'' ''s1'' = Inr (Req_UserSession sample_request)"
  "\<exists>s. sessionRepo_ClientSession bye_db ''s1'' ''c1'' = Inr s"
  "back_client bye_client" "\<not> front_client bye_client" "Client_ID bye_client = ''c1''"
  "postLogoutPatterns bye_client = [''https://app/cb'']"
proof -
  show "RealmRepo_ByName (Store_Realms sqlite_store) bye_db ''demo'' = Inr demo_realm"
    using demo_realm_found by (simp add: sqlite_store_def sqlite_realms_def realmRepo_ByName_def bye_db_def)
  have scan: "scanWithScopes bye_db bye_client = bye_client" "Client_RealmID bye_client = ''r1''" "Client_ClientID bye_client = ''app''"
    by (simp_all add: bye_db_def demo_db_def bye_client_def shop_client_def demo_client_def zero_client_def scanWithScopes_def
        loadNodes_def loadClientScopeNames_def empty_db_def)
  then show "clientRepo_ByClientID bye_db ''r1'' ''app'' = Inr bye_client" "clientRepo_ListByRealm bye_db ''r1'' = Inr [bye_client]"
    by (simp_all add: clientRepo_ByClientID_def clientRepo_ListByRealm_def first_row_def)
      (simp_all add: bye_db_def)
  show "wf_sessions bye_db"
    "sessionRepo_UserSessionByID bye_db ''r1'' ''s1'' = Inr (Req_UserSession sample_request)"
    "\<exists>s. sessionRepo_ClientSession bye_db ''s1'' ''c1'' = Inr s"
    by (simp_all add: wf_sessions_def bye_db_def demo_db_def sessionRepo_UserSessionByID_def sessionRepo_ClientSession_def
        first_row_def sample_request_def)
  show "back_client bye_client" "\<not> front_client bye_client" "Client_ID bye_client = ''c1''"
    "postLogoutPatterns bye_client = [''https://app/cb'']"
    by (simp_all add: back_client_def front_client_def bye_client_def attr_def backchannelLogoutURLAttribute_def
        frontchannelLogoutURLAttribute_def postLogoutPatterns_def postLogoutRedirectAttribute_def)
qed

lemma bye_hint:
  obtains tk p where "ParseID unary_jose sample_keys ''http://h/realms/demo'' tk = Inr p" "Parsed_SessionID p = ''s1''"
    "Parsed_ClientID p = ''app''" "Parsed_Subject p = ''u1''" "tk \<noteq> []"
proof -
  obtain ts e' where i: "Issue unary_jose sample_issuer 0 sample_request (replicate 48 7) = Some (Inr ts, e')"
    using sample_issue by blast
  obtain jti where v: "verify unary_jose (Set_IDToken ts) RS256 (SigningPublicKey unary_jose sample_keys)
      = Inr (id_read sample_issuer 0 sample_request jti)"
    by (rule issued_set [OF unary_jose_ok sample_issuable i]) (simp add: sample_issuer_def sample_request_def)
  have "Set_IDToken ts \<noteq> []" using v by (auto simp: verify_def unary_jose_def)
  moreover have "\<exists>p. ParseID unary_jose sample_keys ''http://h/realms/demo'' (Set_IDToken ts) = Inr p
      \<and> Parsed_SessionID p = ''s1'' \<and> Parsed_ClientID p = ''app'' \<and> Parsed_Subject p = ''u1''"
    using v by (simp add: ParseID_def id_read_def sample_issuer_def sample_request_def)
  ultimately show thesis using that by blast
qed

lemma sample_RSASigner: "\<forall>j. RSASignerTyped unary_jose sample_keys LogoutHeaderType j \<noteq> None"
  by (simp add: RSASignerTyped_def unary_jose_def)

lemma bye_logout:
  assumes "ParseID unary_jose sample_keys ''http://h/realms/demo'' tk = Inr p" "Parsed_SessionID p = ''s1''" "tk \<noteq> []"
  shows "\<exists>resp w'. logout demo_server [] 0 (bye_request [(''id_token_hint'', [tk])]) bye_world = Some (resp, w')
    \<and> Resp_Status resp = 200"
proof -
  let ?q = "[(''id_token_hint'', [tk])]"
  have v: "values_get ?q ''id_token_hint'' = tk" "values_get ?q ''client_id'' = []" "values_get ?q ''refresh_token'' = []"
    "values_get ?q ''post_logout_redirect_uri'' = []"
    by (simp_all add: values_get_def first_value_def)
  obtain s where s: "sessionRepo_ClientSession bye_db ''s1'' ''c1'' = Inr s" using bye_lookups(6) by blast
  have t: "channelLogoutTargets demo_server bye_db ''r1'' ''s1'' = ([bye_client], [])"
    using bye_lookups(3,7,8,9) s by (simp add: channelLogoutTargets_def)
  obtain jti where n: "NewID (replicate 48 7) = Some (jti, drop 16 (replicate 48 7))"
    using NewID_returns [of "replicate 48 7"] by auto
  have "\<exists>w2. notifyBackchannel demo_server 0 sample_keys demo_realm ''s1'' (Parsed_Subject p) [bye_client] bye_world = Some w2"
    using sample_RSASigner by (auto simp: IssueLogout_def n Let_def split: option.splits)
  then show ?thesis
    using assms v t bye_lookups(1)
    by (auto simp: logout_def resolveRealm_def logoutFrontChannel_def realmKeys_cached resolveLogoutHint_def logoutTarget_def
        end_hinted_def)
qed

text \<open>The client of the session is told, and the session is gone.\<close>

theorem logout_notifies_witness:
  "\<exists>tk resp w' raw. logout demo_server [] 0 (bye_request [(''id_token_hint'', [tk])]) bye_world = Some (resp, w')
    \<and> sessionRepo_UserSessionByID (W_db w') ''r1'' ''s1'' = Inl ErrNotFound \<and> W_sent w' = [(''https://app/bye'', raw)]"
proof -
  obtain tk p where tk: "ParseID unary_jose sample_keys ''http://h/realms/demo'' tk = Inr p" "Parsed_SessionID p = ''s1''"
    "Parsed_ClientID p = ''app''" "Parsed_Subject p = ''u1''" "tk \<noteq> []" by (rule bye_hint)
  let ?q = "[(''id_token_hint'', [tk])]"
  obtain resp w' where run: "logout demo_server [] 0 (bye_request ?q) bye_world = Some (resp, w')" "Resp_Status resp = 200"
    using bye_logout [OF tk(1,2,5)] by blast
  have v: "values_get ?q ''id_token_hint'' = tk" by (simp add: values_get_def first_value_def)
  have "notified demo_server bye_world p [bye_client] = [bye_client]"
    using bye_lookups(6,7,9) tk(2) by (simp add: notified_def demo_server_def)
  with logout_notifies [of demo_server bye_world "bye_request ?q" demo_realm ?q sample_keys p "[bye_client]" "[]" 0 resp w']
    bye_lookups(1,3,4) tk run v sample_RSASigner
  have "sessionRepo_UserSessionByID (W_db w') ''r1'' ''s1'' = Inl ErrNotFound"
    "\<exists>sent. W_sent w' = sent \<and> list_all2 (notifies demo_server 0 sample_keys demo_realm ''s1'' ''u1'') [bye_client] sent"
    by auto
  moreover have "attr (Client_Attributes bye_client) backchannelLogoutURLAttribute = ''https://app/bye''"
    by (simp add: bye_client_def attr_def backchannelLogoutURLAttribute_def)
  ultimately have "\<exists>raw. W_sent w' = [(''https://app/bye'', raw)]"
    by (auto simp: list_all2_Cons1 notifies_def)
  with run \<open>sessionRepo_UserSessionByID (W_db w') ''r1'' ''s1'' = Inl ErrNotFound\<close> show ?thesis by blast
qed

theorem logout_authority_witness:
  "\<exists>tk resp w' p. logout demo_server [] 0 (bye_request [(''id_token_hint'', [tk])]) bye_world = Some (resp, w')
    \<and> Parsed_SessionID p = ''s1'' \<and> ParseID unary_jose sample_keys ''http://h/realms/demo'' tk = Inr p"
proof -
  obtain tk p where tk: "ParseID unary_jose sample_keys ''http://h/realms/demo'' tk = Inr p" "Parsed_SessionID p = ''s1''"
    "Parsed_ClientID p = ''app''" "Parsed_Subject p = ''u1''" "tk \<noteq> []" by (rule bye_hint)
  let ?q = "[(''id_token_hint'', [tk])]"
  obtain resp w' where run: "logout demo_server [] 0 (bye_request ?q) bye_world = Some (resp, w')" "Resp_Status resp = 200"
    using bye_logout [OF tk(1,2,5)] by blast
  have v: "values_get ?q ''id_token_hint'' = tk" by (simp add: values_get_def first_value_def)
  have "ends demo_server 0 sample_keys demo_realm p bye_world w'"
    by (rule hinted_run [of _ _ "bye_request ?q" _ ?q _ _ "[]" 0 resp]) (use tk v run bye_lookups(1) in simp_all)
  from ends_sessions(1) [OF this] tk(2) bye_lookups(4,5)
  have "sessionRepo_UserSessionByID (W_db w') ''r1'' ''s1'' \<noteq> sessionRepo_UserSessionByID (W_db bye_world) ''r1'' ''s1''" by simp
  from logout_authority [OF run(1) _ _ this] bye_lookups(1,4) v
  have "\<exists>p. Parsed_SessionID p = ''s1'' \<and> ParseID unary_jose sample_keys ''http://h/realms/demo'' tk = Inr p"
    by (auto simp: ForRealm_def)
  with run show ?thesis by blast
qed

theorem logout_target_witness:
  "\<exists>resp w' t. logout demo_server [] 0 (bye_request [(''client_id'', [''app'']), (''post_logout_redirect_uri'', [''https://app/cb''])])
      bye_world = Some (resp, w') \<and> target resp = Some t
      \<and> (\<exists>client. clientRepo_ByClientID bye_db ''r1'' ''app'' = Inr client
           \<and> matchRedirectURI (postLogoutPatterns client) ''https://app/cb'')"
proof -
  let ?q = "[(''client_id'', [''app'']), (''post_logout_redirect_uri'', [''https://app/cb''])]"
  have v: "values_get ?q ''id_token_hint'' = []" "values_get ?q ''client_id'' = ''app''" "values_get ?q ''refresh_token'' = []"
    "values_get ?q ''post_logout_redirect_uri'' = ''https://app/cb''" "values_get ?q ''state'' = []"
    by (simp_all add: values_get_def first_value_def)
  have "\<exists>resp w'. logout demo_server [] 0 (bye_request ?q) bye_world = Some (resp, w') \<and> target resp = Some ''https://app/cb''"
    using v bye_lookups(1,2,10) shop_match
    by (simp add: logout_def resolveRealm_def logoutFrontChannel_def realmKeys_cached resolveLogoutHint_def logoutTarget_def
        logoutClient_def confirmBeforeRedirect_def end_hinted_def logoutLocation_def)
  then obtain resp w' where run: "logout demo_server [] 0 (bye_request ?q) bye_world = Some (resp, w')"
    "target resp = Some ''https://app/cb''" by blast
  from logout_target [OF run(1) _ _ run(2)] v bye_lookups(1)
  have "\<exists>client. clientRepo_ByClientID bye_db ''r1'' ''app'' = Inr client
      \<and> matchRedirectURI (postLogoutPatterns client) ''https://app/cb''"
    by (auto simp: location_def resolveLogoutHint_def)
  with run show ?thesis by blast
qed

end
