(* ===== verification/Registration.thy ===== *)
theory Registration
  imports Pages
begin

text \<open>
  Dynamic client registration: \<^verbatim>\<open>registration.go\<close> and \<^verbatim>\<open>registrationstore.go\<close> of \<^verbatim>\<open>internal/oidc\<close>, the scopes a
  client inherits (\<^verbatim>\<open>internal/bootstrap/clientscopes.go\<close>) and the issuer a token claims before it is verified
  (\<^verbatim>\<open>internal/token/parse.go\<close>). The body of a request is an argument of the handlers that read one, and so
  is the client of the path. A client's attributes are never the nil map: every client of the program is
  created with one.
\<close>

section \<open>Constants\<close>

definition registrationProvider :: string where "registrationProvider = ''openid-connect''"
definition descTrustedHosts :: string where
  "descTrustedHosts = ''Policy '' @ [CHR 0x27] @ ''Trusted Hosts'' @ [CHR 0x27]
     @ '' rejected request to client-registration service. Details: Host not trusted.''"
definition descForbidden :: string where "descForbidden = ''Forbidden''"
definition descFailedDecode :: string where "descFailedDecode = ''Failed decode token''"
definition descInvalidTokenType :: string where "descInvalidTokenType = ''Invalid type of token''"
definition descNotAuthorizedView :: string where
  "descNotAuthorizedView = ''Not authorized to view client. Not valid token or client credentials provided.''"
definition descNotAuthorizedUpdate :: string where
  "descNotAuthorizedUpdate = ''Not authorized to update client. Maybe missing token or bad token type.''"
definition descClientNotFound :: string where "descClientNotFound = ''Client not found''"
definition descCannotParseJSON :: string where "descCannotParseJSON = ''Cannot parse the JSON''"
definition descUnsupportedMediaType :: string where
  "descUnsupportedMediaType = ''The content-type header value did not match the value in @Consumes''"
definition descClientIdentifierIncluded :: string where "descClientIdentifierIncluded = ''Client Identifier included''"
definition descClientIdentifierModified :: string where "descClientIdentifierModified = ''Client Identifier modified''"
definition descClientMetadataInvalid :: string where "descClientMetadataInvalid = ''Client metadata invalid''"

definition errInsufficientScope :: string where "errInsufficientScope = ''insufficient_scope''"
definition errInvalidToken :: string where "errInvalidToken = ''invalid_token''"
definition errInvalidClientMeta :: string where "errInvalidClientMeta = ''invalid_client_metadata''"

definition registrationRoleCreate :: string where "registrationRoleCreate = ''create-client''"
definition registrationRoleManage :: string where "registrationRoleManage = ''manage-clients''"
definition registrationRoleView :: string where "registrationRoleView = ''view-clients''"

definition authMethodSecretBasic :: string where "authMethodSecretBasic = ''client_secret_basic''"
definition authMethodSecretPost :: string where "authMethodSecretPost = ''client_secret_post''"
definition authMethodSecretJWT :: string where "authMethodSecretJWT = ''client_secret_jwt''"
definition authMethodTLS :: string where "authMethodTLS = ''tls_client_auth''"
definition authMethodPrivateJWT :: string where "authMethodPrivateJWT = ''private_key_jwt''"
definition authMethodNone :: string where "authMethodNone = ''none''"
definition authenticatorSecret :: string where "authenticatorSecret = ''client-secret''"
definition authenticatorSecretJWT :: string where "authenticatorSecretJWT = ''client-secret-jwt''"
definition authenticatorX509 :: string where "authenticatorX509 = ''client-x509''"
definition authenticatorJWT :: string where "authenticatorJWT = ''client-jwt''"
definition authenticatorNone :: string where "authenticatorNone = ''none''"

definition attrSecretMethod :: string where "attrSecretMethod = ''client.secret.authentication.allowed.method''"
definition attrUseRefreshTokens :: string where "attrUseRefreshTokens = ''use.refresh.tokens''"
definition attrSecretCreated :: string where "attrSecretCreated = ''client.secret.creation.time''"
definition attrRealmClient :: string where "attrRealmClient = ''realm_client''"
definition attrPostLogoutURIs :: string where "attrPostLogoutURIs = ''post.logout.redirect.uris''"
definition attrTLSBound :: string where "attrTLSBound = ''tls.client.certificate.bound.access.tokens''"
definition attrRequirePAR :: string where "attrRequirePAR = ''require.pushed.authorization.requests''"
definition attrBackchannelSess :: string where "attrBackchannelSess = ''backchannel.logout.session.required''"
definition attrBackchannelRevo :: string where "attrBackchannelRevo = ''backchannel.logout.revoke.offline.tokens''"
definition attrFrontchannelSess :: string where "attrFrontchannelSess = ''frontchannel.logout.session.required''"
definition attrDeviceGrant :: string where "attrDeviceGrant = ''oauth2.device.authorization.grant.enabled''"
definition attrCIBAGrant :: string where "attrCIBAGrant = ''oidc.ciba.grant.enabled''"
definition attrExchangeGrant :: string where "attrExchangeGrant = ''standard.token.exchange.enabled''"
definition attrJWTBearerGrant :: string where "attrJWTBearerGrant = ''oauth2.jwt.authorization.grant.enabled''"

definition grantTypeAuthorizationCode :: string where "grantTypeAuthorizationCode = ''authorization_code''"
definition grantTypeImplicit :: string where "grantTypeImplicit = ''implicit''"
definition grantTypePassword :: string where "grantTypePassword = ''password''"
definition grantTypeClientCredentials :: string where "grantTypeClientCredentials = ''client_credentials''"

section \<open>Which registration access token is current\<close>

definition newRegistrationStore :: registration_store where
  "newRegistrationStore = Map.empty"

definition registrationKey :: "string \<Rightarrow> string \<Rightarrow> string" where
  "registrationKey realmID clientUUID = realmID @ [CHR 0x00] @ clientUUID"

definition registrations_issue :: "registration_store \<Rightarrow> string \<Rightarrow> string \<Rightarrow> string \<Rightarrow> registration_store" where
  "registrations_issue s realmID clientUUID jti = s(registrationKey realmID clientUUID \<mapsto> jti)"

definition registrations_holds :: "registration_store \<Rightarrow> string \<Rightarrow> string \<Rightarrow> string \<Rightarrow> bool" where
  "registrations_holds s realmID clientUUID jti \<longleftrightarrow>
     jti \<noteq> [] \<and> (case s (registrationKey realmID clientUUID) of None \<Rightarrow> [] | Some j \<Rightarrow> j) = jti"

definition registrations_forget :: "registration_store \<Rightarrow> string \<Rightarrow> string \<Rightarrow> registration_store" where
  "registrations_forget s realmID clientUUID = s(registrationKey realmID clientUUID := None)"

section \<open>The request\<close>

text \<open>\<^verbatim>\<open>strings.TrimSpace\<close>.\<close>

definition trim_space :: "string \<Rightarrow> string" where
  "trim_space s =
    (let space = (\<lambda>(c, bs). is_space c)
     in bytes_string (concat (map snd (rev (dropWhile space (rev (dropWhile space (rune_chunks (string_bytes s)))))))))"

text \<open>
  A slice being decoded: its elements, those a shorter array left behind its end included, and its length.
  An array decoded into a slice overwrites from the front, and \<^verbatim>\<open>null\<close> leaves the element it meets as it is.
\<close>

type_synonym slice = "string list \<times> nat"

definition slice_value :: "slice \<Rightarrow> string list" where
  "slice_value s = take (snd s) (fst s)"

fun slice_elems :: "string list \<Rightarrow> json list \<Rightarrow> string list option" where
  "slice_elems old [] = Some old"
| "slice_elems old (v # vs) =
    (case as_string (if old = [] then [] else hd old) v of
       None \<Rightarrow> None | Some s \<Rightarrow> map_option ((#) s) (slice_elems (tl old) vs))"

definition as_slice :: "slice option \<Rightarrow> json \<Rightarrow> slice option option" where
  "as_slice old v = (case v of
       JNull \<Rightarrow> Some None
     | JArr [] \<Rightarrow> Some (Some ([], 0))
     | JArr vs \<Rightarrow>
         map_option (\<lambda>xs. Some (xs, length vs)) (slice_elems (case old of None \<Rightarrow> [] | Some s \<Rightarrow> fst s) vs)
     | _ \<Rightarrow> None)"

definition as_string_ptr :: "json \<Rightarrow> string option option" where
  "as_string_ptr v = (case v of JNull \<Rightarrow> Some None | JStr s \<Rightarrow> Some (Some s) | _ \<Rightarrow> None)"

definition as_bool_ptr :: "json \<Rightarrow> bool option option" where
  "as_bool_ptr v = (case v of JNull \<Rightarrow> Some None | JBool b \<Rightarrow> Some (Some b) | _ \<Rightarrow> None)"

record registration_request =
  RR_ClientID :: "string option"
  RR_ClientName :: "string option"
  RR_ClientURI :: "string option"
  RR_RedirectURIs :: "slice option"
  RR_PostLogoutRedirectURIs :: "slice option"
  RR_GrantTypes :: "slice option"
  RR_ResponseTypes :: "slice option"
  RR_TokenEndpointAuthMethod :: "string option"
  RR_SubjectType :: "string option"
  RR_DPoPBoundAccessTokens :: "bool option"
  RR_TLSClientCertificateBoundAccessTokens :: "bool option"
  RR_RequirePushedAuthorizationRequests :: "bool option"
  RR_BackchannelLogoutSessionRequired :: "bool option"
  RR_FrontchannelLogoutSessionRequired :: "bool option"

definition zero_registration :: registration_request where
  "zero_registration = \<lparr>RR_ClientID = None, RR_ClientName = None, RR_ClientURI = None, RR_RedirectURIs = None,
     RR_PostLogoutRedirectURIs = None, RR_GrantTypes = None, RR_ResponseTypes = None, RR_TokenEndpointAuthMethod = None,
     RR_SubjectType = None, RR_DPoPBoundAccessTokens = None, RR_TLSClientCertificateBoundAccessTokens = None,
     RR_RequirePushedAuthorizationRequests = None, RR_BackchannelLogoutSessionRequired = None,
     RR_FrontchannelLogoutSessionRequired = None\<rparr>"

definition set_registration :: "string \<Rightarrow> json \<Rightarrow> registration_request \<Rightarrow> registration_request option" where
  "set_registration k v c =
    (let n = fold_name k
     in if n = fold_name ''client_id'' then map_option (\<lambda>x. c\<lparr>RR_ClientID := x\<rparr>) (as_string_ptr v)
        else if n = fold_name ''client_name'' then map_option (\<lambda>x. c\<lparr>RR_ClientName := x\<rparr>) (as_string_ptr v)
        else if n = fold_name ''client_uri'' then map_option (\<lambda>x. c\<lparr>RR_ClientURI := x\<rparr>) (as_string_ptr v)
        else if n = fold_name ''redirect_uris''
        then map_option (\<lambda>x. c\<lparr>RR_RedirectURIs := x\<rparr>) (as_slice (RR_RedirectURIs c) v)
        else if n = fold_name ''post_logout_redirect_uris''
        then map_option (\<lambda>x. c\<lparr>RR_PostLogoutRedirectURIs := x\<rparr>) (as_slice (RR_PostLogoutRedirectURIs c) v)
        else if n = fold_name ''grant_types'' then map_option (\<lambda>x. c\<lparr>RR_GrantTypes := x\<rparr>) (as_slice (RR_GrantTypes c) v)
        else if n = fold_name ''response_types''
        then map_option (\<lambda>x. c\<lparr>RR_ResponseTypes := x\<rparr>) (as_slice (RR_ResponseTypes c) v)
        else if n = fold_name ''token_endpoint_auth_method''
        then map_option (\<lambda>x. c\<lparr>RR_TokenEndpointAuthMethod := x\<rparr>) (as_string_ptr v)
        else if n = fold_name ''subject_type'' then map_option (\<lambda>x. c\<lparr>RR_SubjectType := x\<rparr>) (as_string_ptr v)
        else if n = fold_name ''dpop_bound_access_tokens''
        then map_option (\<lambda>x. c\<lparr>RR_DPoPBoundAccessTokens := x\<rparr>) (as_bool_ptr v)
        else if n = fold_name ''tls_client_certificate_bound_access_tokens''
        then map_option (\<lambda>x. c\<lparr>RR_TLSClientCertificateBoundAccessTokens := x\<rparr>) (as_bool_ptr v)
        else if n = fold_name ''require_pushed_authorization_requests''
        then map_option (\<lambda>x. c\<lparr>RR_RequirePushedAuthorizationRequests := x\<rparr>) (as_bool_ptr v)
        else if n = fold_name ''backchannel_logout_session_required''
        then map_option (\<lambda>x. c\<lparr>RR_BackchannelLogoutSessionRequired := x\<rparr>) (as_bool_ptr v)
        else if n = fold_name ''frontchannel_logout_session_required''
        then map_option (\<lambda>x. c\<lparr>RR_FrontchannelLogoutSessionRequired := x\<rparr>) (as_bool_ptr v)
        else Some c)"

fun set_registrations :: "(string \<times> json) list \<Rightarrow> registration_request \<Rightarrow> registration_request option" where
  "set_registrations [] c = Some c"
| "set_registrations ((k, v) # ps) c =
    (case set_registration k v c of None \<Rightarrow> None | Some c' \<Rightarrow> set_registrations ps c')"

text \<open>
  \<^verbatim>\<open>json.Decoder.Decode\<close>: the first value of the body. What follows an object is not read; what follows
  \<^verbatim>\<open>null\<close>, which leaves the struct as it was, has to be white space or the end.
\<close>

definition decode_first :: "string \<Rightarrow> registration_request option" where
  "decode_first body =
    (let bs = string_bytes body
     in case parse_value (Suc (2 * length bs)) maxNestingDepth bs of
          Some (JObj ps, _) \<Rightarrow> set_registrations ps zero_registration
        | Some (JNull, rest) \<Rightarrow>
            if rest = [] \<or> skip_space rest \<noteq> rest then Some zero_registration else None
        | _ \<Rightarrow> None)"

definition registrationConsumes :: "'db server \<Rightarrow> string \<Rightarrow> bool" where
  "registrationConsumes h v \<longleftrightarrow> v = [] \<or>
    (let (front, _, found) = cut (CHR '';'') v
     in to_lower (H_ToLower h) (trim_space (if found then front else v)) \<in> {''application/json'', ''*/*''})"

definition decodeRegistration ::
  "'db server \<Rightarrow> headers \<Rightarrow> request \<Rightarrow> string \<Rightarrow> 'db world \<Rightarrow> (registration_request \<Rightarrow> 'db outcome) \<Rightarrow> 'db outcome" where
  "decodeRegistration h hs r body w f =
    (if \<not> registrationConsumes h (Rq_ContentType r)
     then Some (WriteMessageError hs 415 descUnsupportedMediaType, w)
     else (case decode_first body of
             None \<Rightarrow> Some (WriteOAuthError hs 400 ''invalid_request'' descCannotParseJSON, w)
           | Some rep \<Rightarrow> f rep))"

definition registrationBearer :: "request \<Rightarrow> string" where
  "registrationBearer r =
    (let (raw, ok) = cut_prefix (Rq_Authorization r) ''Bearer '' in if ok then trim_space raw else [])"

section \<open>The caller\<close>

record registration_caller =
  RC_anonymous :: bool
  RC_admin :: bool
  RC_holder :: bool
  RC_grants :: "string set"
  RC_presented :: string

definition anonymous_caller :: registration_caller where
  "anonymous_caller = \<lparr>RC_anonymous = True, RC_admin = False, RC_holder = False, RC_grants = {}, RC_presented = []\<rparr>"

definition mayCreate :: "registration_caller \<Rightarrow> bool" where
  "mayCreate c \<longleftrightarrow> registrationRoleCreate \<in> RC_grants c \<or> registrationRoleManage \<in> RC_grants c"

definition mayRead :: "registration_caller \<Rightarrow> bool" where
  "mayRead c \<longleftrightarrow> RC_holder c \<or> registrationRoleView \<in> RC_grants c \<or> registrationRoleManage \<in> RC_grants c"

definition mayWrite :: "registration_caller \<Rightarrow> bool" where
  "mayWrite c \<longleftrightarrow> RC_holder c \<or> registrationRoleManage \<in> RC_grants c"

definition writeRegistrationRefusal :: "headers \<Rightarrow> registration_caller \<Rightarrow> bool \<Rightarrow> response" where
  "writeRegistrationRefusal hs c item =
    (if RC_anonymous c \<and> \<not> item then WriteOAuthError hs 403 errInsufficientScope descTrustedHosts
     else if RC_anonymous c then WriteOAuthError hs 401 errInvalidToken descNotAuthorizedView
     else WriteOAuthError hs 403 errInsufficientScope descForbidden)"

text \<open>The issuer of a token that nobody has verified yet; the decoded struct has the one field.\<close>

fun iss_field :: "string \<Rightarrow> (string \<times> json) list \<Rightarrow> string option" where
  "iss_field iss [] = Some iss"
| "iss_field iss ((k, v) # ps) =
    (if fold_name k = fold_name ''iss''
     then (case as_string iss v of None \<Rightarrow> None | Some s \<Rightarrow> iss_field s ps)
     else iss_field iss ps)"

definition UnverifiedIssuer :: "string \<Rightarrow> token_error + string" where
  "UnverifiedIssuer raw =
    (case split_string ''.'' raw of
       [_, payload, _] \<Rightarrow>
         (case b64_decode payload of
            None \<Rightarrow> Inl ErrInvalidToken
          | Some bs \<Rightarrow>
              (case json_parse bs of
                 Some (JObj ps) \<Rightarrow>
                   (case iss_field [] ps of
                      None \<Rightarrow> Inl ErrInvalidToken
                    | Some iss \<Rightarrow> if iss = [] then Inl ErrInvalidToken else Inr iss)
               | _ \<Rightarrow> Inl ErrInvalidToken))
     | _ \<Rightarrow> Inl ErrInvalidToken)"

definition MasterRealmName :: string where "MasterRealmName = ''master''"

definition AdminContainerFor :: "string \<Rightarrow> string" where
  "AdminContainerFor realm = (if realm = MasterRealmName then ''master-realm'' else ''realm-management'')"

definition container_name :: "string \<Rightarrow> string \<Rightarrow> string option" where
  "container_name authRealm targetRealm =
    (if authRealm = MasterRealmName \<and> targetRealm = MasterRealmName then Some (AdminContainerFor MasterRealmName)
     else if authRealm = MasterRealmName then Some (targetRealm @ ''-realm'')
     else if authRealm = targetRealm then Some (AdminContainerFor targetRealm)
     else None)"

text \<open>\<^const>\<open>None\<close> is a role walk that does not return.\<close>

definition registrationGrants ::
  "'db server \<Rightarrow> 'db \<Rightarrow> realm \<Rightarrow> string \<Rightarrow> user \<Rightarrow> (string set st) option" where
  "registrationGrants h db authRealm targetRealm user =
    (case container_name (Realm_Name authRealm) targetRealm of
       None \<Rightarrow> Some (Inr {})
     | Some name \<Rightarrow>
         (case ClientRepo_ByClientID (Store_Clients (H_store h)) db (Realm_ID authRealm) name of
            Inl err \<Rightarrow> if err = ErrNotFound then Some (Inr {}) else Some (Inl err)
          | Inr container \<Rightarrow>
              bind_run (Effective (Store_Roles (H_store h)) db (User_ID user)) (\<lambda>effective.
                Some (Inr (Role_Name ` set (filter (\<lambda>role. Role_ClientID role = Client_ID container) effective))))))"

definition registrationAdmin ::
  "'db server \<Rightarrow> headers \<Rightarrow> time \<Rightarrow> request \<Rightarrow> string \<Rightarrow> 'db world \<Rightarrow> (registration_caller \<Rightarrow> 'db world \<Rightarrow> 'db outcome)
     \<Rightarrow> 'db outcome" where
  "registrationAdmin h hs now r raw w f =
    (let refuse = (\<lambda>desc w. Some (WriteOAuthError hs 401 errInvalidToken desc, w))
     in case UnverifiedIssuer raw of
          Inl _ \<Rightarrow> refuse descFailedDecode w
        | Inr iss \<Rightarrow>
            (let (name, ok) = cut_prefix iss (H_issuerBase h @ ''/realms/'')
             in if \<not> ok \<or> name = [] \<or> contains name ''/'' then refuse descFailedDecode w
                else (case RealmRepo_ByName (Store_Realms (H_store h)) (W_db w) name of
                        Inl _ \<Rightarrow> refuse descFailedDecode w
                      | Inr authRealm \<Rightarrow>
                          realmKeys h hs now authRealm w (\<lambda>ak w.
                            let authIssuer = realmIssuer h (Realm_Name authRealm)
                            in case ParseAccess (H_jose h) ak authIssuer raw now of
                                 Inl _ \<Rightarrow>
                                   (case ParseRefresh (H_jose h) ak authIssuer raw now of
                                      Inr _ \<Rightarrow> refuse descInvalidTokenType w
                                    | Inl _ \<Rightarrow> refuse descFailedDecode w)
                               | Inr parsed \<Rightarrow>
                                   (case SessionRepo_UserSessionByID (Store_Sessions (H_store h)) (W_db w)
                                           (Realm_ID authRealm) (Parsed_SessionID parsed) of
                                      Inl _ \<Rightarrow> refuse descFailedDecode w
                                    | Inr session \<Rightarrow>
                                        (case UserRepo_ByID (Store_Users (H_store h)) (W_db w) (Realm_ID authRealm) (US_UserID session) of
                                           Inl _ \<Rightarrow> refuse descFailedDecode w
                                         | Inr user \<Rightarrow>
                                             if \<not> User_Enabled user then refuse descFailedDecode w
                                             else (case registrationGrants h (W_db w) authRealm (Rq_Realm r) user of
                                                     None \<Rightarrow> None
                                                   | Some (Inl _) \<Rightarrow> Some (internal_error hs, w)
                                                   | Some (Inr grants) \<Rightarrow>
                                                       f \<lparr>RC_anonymous = False, RC_admin = True, RC_holder = False,
                                                          RC_grants = grants, RC_presented = raw\<rparr> w)))))))"

definition registrationCaller ::
  "'db server \<Rightarrow> headers \<Rightarrow> time \<Rightarrow> request \<Rightarrow> realm \<Rightarrow> client option \<Rightarrow> 'db world
     \<Rightarrow> (registration_caller \<Rightarrow> 'db world \<Rightarrow> 'db outcome) \<Rightarrow> 'db outcome" where
  "registrationCaller h hs now r realm client w f =
    (let raw = registrationBearer r
     in if raw = [] then f anonymous_caller w
        else realmKeys h hs now realm w (\<lambda>k w.
          case ParseRegistration (H_jose h) k (realmIssuer h (Realm_Name realm)) raw of
            Inr jti \<Rightarrow>
              (let held = (case client of
                     None \<Rightarrow> False | Some c \<Rightarrow> registrations_holds (W_registrations w) (Realm_ID realm) (Client_ID c) jti)
               in f \<lparr>RC_anonymous = \<not> held, RC_admin = False, RC_holder = held, RC_grants = {}, RC_presented = raw\<rparr> w)
          | Inl _ \<Rightarrow> registrationAdmin h hs now r raw w f))"

definition authorizeRegistered ::
  "'db server \<Rightarrow> headers \<Rightarrow> time \<Rightarrow> request \<Rightarrow> string \<Rightarrow> realm \<Rightarrow> bool \<Rightarrow> 'db world
     \<Rightarrow> (client \<Rightarrow> registration_caller \<Rightarrow> 'db world \<Rightarrow> 'db outcome) \<Rightarrow> 'db outcome" where
  "authorizeRegistered h hs now r clientID realm write w f =
    (let found = ClientRepo_ByClientID (Store_Clients (H_store h)) (W_db w) (Realm_ID realm) clientID
     in case found of
          Inl err \<Rightarrow>
            if err \<noteq> ErrNotFound then Some (internal_error hs, w)
            else registrationCaller h hs now r realm None w (\<lambda>caller w.
              if \<not> (if write then mayWrite caller else mayRead caller)
              then Some (if RC_anonymous caller \<and> write
                         then WriteOAuthError hs 401 errInvalidToken descNotAuthorizedUpdate
                         else writeRegistrationRefusal hs caller True, w)
              else Some (WriteOAuthError hs 404 ''invalid_request'' descClientNotFound, w))
        | Inr client \<Rightarrow>
            registrationCaller h hs now r realm (Some client) w (\<lambda>caller w.
              if \<not> (if write then mayWrite caller else mayRead caller)
              then Some (if RC_anonymous caller \<and> write
                         then WriteOAuthError hs 401 errInvalidToken descNotAuthorizedUpdate
                         else writeRegistrationRefusal hs caller True, w)
              else f client caller w))"

section \<open>What a request makes of a client\<close>

definition smap_set :: "string smap \<Rightarrow> string \<Rightarrow> string \<Rightarrow> string smap" where
  "smap_set m k v = (k, v) # filter (\<lambda>p. fst p \<noteq> k) m"

definition smap_delete :: "string smap \<Rightarrow> string \<Rightarrow> string smap" where
  "smap_delete m k = filter (\<lambda>p. fst p \<noteq> k) m"

definition set_attr :: "string \<Rightarrow> string \<Rightarrow> client \<Rightarrow> client" where
  "set_attr k v c = c\<lparr>Client_Attributes := smap_set (Client_Attributes c) k v\<rparr>"

definition del_attr :: "string \<Rightarrow> client \<Rightarrow> client" where
  "del_attr k c = c\<lparr>Client_Attributes := smap_delete (Client_Attributes c) k\<rparr>"

definition boolAttribute :: "bool \<Rightarrow> string" where
  "boolAttribute v = (if v then ''true'' else ''false'')"

definition deref :: "string option \<Rightarrow> string" where
  "deref s = (case s of None \<Rightarrow> [] | Some x \<Rightarrow> x)"

definition derefSlice :: "slice option \<Rightarrow> string list" where
  "derefSlice s = (case s of None \<Rightarrow> [] | Some x \<Rightarrow> slice_value x)"

definition methodCarriesSecret :: "string \<Rightarrow> bool" where
  "methodCarriesSecret m \<longleftrightarrow> m = authMethodSecretBasic \<or> m = authMethodSecretPost \<or> m = authMethodSecretJWT"

definition registrationAuthMethod :: "client \<Rightarrow> string" where
  "registrationAuthMethod c =
    (let t = Client_ClientAuthenticatorType c
     in if t = authenticatorNone then authMethodNone
        else if t = authenticatorSecretJWT then authMethodSecretJWT
        else if t = authenticatorX509 then authMethodTLS
        else if t = authenticatorJWT then authMethodPrivateJWT
        else (let m = attr (Client_Attributes c) attrSecretMethod in if m \<noteq> [] then m else authMethodSecretBasic))"

definition clientCarriesSecret :: "client \<Rightarrow> bool" where
  "clientCarriesSecret c \<longleftrightarrow> methodCarriesSecret (registrationAuthMethod c)"

text \<open>\<^const>\<open>None\<close> is the refusal \<^verbatim>\<open>Client metadata invalid\<close>.\<close>

definition applyRegistrationAuthMethod :: "client \<Rightarrow> string option \<Rightarrow> client option" where
  "applyRegistrationAuthMethod c m =
    (let c = del_attr attrSecretMethod c
     in case m of
          None \<Rightarrow> Some (c\<lparr>Client_ClientAuthenticatorType := authenticatorSecret, Client_PublicClient := False\<rparr>)
        | Some v \<Rightarrow>
            if v = authMethodSecretBasic \<or> v = authMethodSecretPost
            then Some (set_attr attrSecretMethod v
                   (c\<lparr>Client_ClientAuthenticatorType := authenticatorSecret, Client_PublicClient := False\<rparr>))
            else if v = authMethodSecretJWT
            then Some (c\<lparr>Client_ClientAuthenticatorType := authenticatorSecretJWT, Client_PublicClient := False\<rparr>)
            else if v = authMethodTLS
            then Some (c\<lparr>Client_ClientAuthenticatorType := authenticatorX509, Client_PublicClient := False\<rparr>)
            else if v = authMethodNone
            then Some (c\<lparr>Client_ClientAuthenticatorType := authenticatorNone, Client_PublicClient := True\<rparr>)
            else None)"

definition applyRegistrationFlows :: "client \<Rightarrow> registration_request \<Rightarrow> client" where
  "applyRegistrationFlows c rep =
    (let c = c\<lparr>Client_StandardFlowEnabled := True, Client_ImplicitFlowEnabled := False,
               Client_DirectAccessGrantsEnabled := False, Client_ServiceAccountsEnabled := False\<rparr>;
         responses = derefSlice (RR_ResponseTypes rep);
         c = (if responses \<noteq> []
              then c\<lparr>Client_StandardFlowEnabled := ''code'' \<in> set responses \<or> ''none'' \<in> set responses,
                     Client_ImplicitFlowEnabled := ''id_token'' \<in> set responses \<or> ''token'' \<in> set responses\<rparr>
              else c)
     in case RR_GrantTypes rep of
          None \<Rightarrow>
            del_attr attrJWTBearerGrant (del_attr attrExchangeGrant (del_attr attrCIBAGrant
              (del_attr attrDeviceGrant (del_attr attrUseRefreshTokens c))))
        | Some s \<Rightarrow>
            (let types = slice_value s;
                 c = (if types \<noteq> []
                      then c\<lparr>Client_StandardFlowEnabled := grantTypeAuthorizationCode \<in> set types,
                             Client_ImplicitFlowEnabled := grantTypeImplicit \<in> set types\<rparr>
                      else c);
                 c = c\<lparr>Client_DirectAccessGrantsEnabled := grantTypePassword \<in> set types,
                       Client_ServiceAccountsEnabled := grantTypeClientCredentials \<in> set types\<rparr>
             in set_attr attrJWTBearerGrant (boolAttribute (grantJWTBearer \<in> set types))
                  (set_attr attrExchangeGrant (boolAttribute (grantTokenExchange \<in> set types))
                    (set_attr attrCIBAGrant (boolAttribute (grantCIBA \<in> set types))
                      (set_attr attrDeviceGrant (boolAttribute (grantDeviceCode \<in> set types))
                        (set_attr attrUseRefreshTokens (boolAttribute (''refresh_token'' \<in> set types)) c))))))"

text \<open>
  The flags and attributes of a request, and the secret a client without one is given. The outer
  \<^const>\<open>None\<close> is a source of randomness that ends, the inner one the refusal.
\<close>

definition applyRegistration ::
  "time \<Rightarrow> client \<Rightarrow> registration_request \<Rightarrow> entropy \<Rightarrow> (client option \<times> entropy) option" where
  "applyRegistration now c rep e =
    (let c = c\<lparr>Client_Name := deref (RR_ClientName rep), Client_BaseURL := deref (RR_ClientURI rep),
               Client_RedirectURIs := derefSlice (RR_RedirectURIs rep)\<rparr>;
         c = (case RR_PostLogoutRedirectURIs rep of
                Some s \<Rightarrow> set_attr attrPostLogoutURIs (join ''##'' (slice_value s)) c
              | None \<Rightarrow> del_attr attrPostLogoutURIs c)
     in case applyRegistrationAuthMethod c (RR_TokenEndpointAuthMethod rep) of
          None \<Rightarrow> Some (None, e)
        | Some c \<Rightarrow>
            (let c = applyRegistrationFlows c rep;
                 c = set_attr attrDPoPBound (boolAttribute (RR_DPoPBoundAccessTokens rep = Some True)) c;
                 c = set_attr attrTLSBound (boolAttribute (RR_TLSClientCertificateBoundAccessTokens rep = Some True)) c;
                 c = set_attr attrRequirePAR (boolAttribute (RR_RequirePushedAuthorizationRequests rep = Some True)) c;
                 c = set_attr attrBackchannelSess ''true'' c;
                 c = set_attr attrBackchannelRevo ''false'' c;
                 c = set_attr attrFrontchannelSess (boolAttribute (RR_FrontchannelLogoutSessionRequired rep = Some True)) c;
                 c = set_attr attrRealmClient ''false'' c
             in if Client_Secret c = [] \<and> \<not> Client_PublicClient c \<and> clientCarriesSecret c
                then (case NewSecret e of
                        None \<Rightarrow> None
                      | Some (secret, e) \<Rightarrow>
                          Some (Some (set_attr attrSecretCreated (bytes_string (int_digits (unix_seconds now)))
                            (c\<lparr>Client_Secret := secret\<rparr>)), e))
                else Some (Some c, e)))"

section \<open>Inherited client scopes\<close>

definition ScopeMatchesProtocol :: "client_scope \<Rightarrow> string \<Rightarrow> bool" where
  "ScopeMatchesProtocol sc protocol \<longleftrightarrow> protocol \<noteq> [] \<and> Scope_Protocol sc = protocol"

definition inheritedNames :: "'db store \<Rightarrow> 'db \<Rightarrow> string \<Rightarrow> string \<Rightarrow> bool \<Rightarrow> string list st" where
  "inheritedNames s db realmID protocol defaultScope =
    bind_err (ClientScopeRepo_ListRealmDefaults (Store_ClientScopes s) db realmID defaultScope) (\<lambda>scopes.
      Inr (map Scope_Name (filter (\<lambda>sc. ScopeMatchesProtocol sc protocol) scopes)))"

text \<open>A client of this endpoint names no scopes of its own.\<close>

definition InheritClientScopes :: "'db store \<Rightarrow> 'db \<Rightarrow> string \<Rightarrow> client \<Rightarrow> client st" where
  "InheritClientScopes s db realmID c =
    bind_err (inheritedNames s db realmID (Client_Protocol c) True) (\<lambda>defaults.
    bind_err (inheritedNames s db realmID (Client_Protocol c) False) (\<lambda>optionals.
      Inr (c\<lparr>Client_DefaultClientScopes := defaults, Client_OptionalClientScopes := optionals\<rparr>)))"

section \<open>The representation\<close>

definition registrationGrantTypes :: "client \<Rightarrow> string list" where
  "registrationGrantTypes c =
     (if Client_StandardFlowEnabled c then [grantTypeAuthorizationCode] else [])
     @ (if Client_ImplicitFlowEnabled c then [grantTypeImplicit] else [])
     @ (if Client_DirectAccessGrantsEnabled c then [grantTypePassword] else [])
     @ (if Client_ServiceAccountsEnabled c then [grantTypeClientCredentials] else [])
     @ (if attr (Client_Attributes c) attrDeviceGrant = ''true'' then [grantDeviceCode] else [])
     @ (if attr (Client_Attributes c) attrCIBAGrant = ''true'' then [grantCIBA] else [])
     @ (if attr (Client_Attributes c) attrUseRefreshTokens \<noteq> ''false'' then [''refresh_token''] else [])
     @ (if attr (Client_Attributes c) attrExchangeGrant = ''true'' then [grantTokenExchange] else [])
     @ (if attr (Client_Attributes c) attrJWTBearerGrant = ''true'' then [grantJWTBearer] else [])"

definition registrationResponseTypes :: "client \<Rightarrow> string list" where
  "registrationResponseTypes c =
     (if Client_StandardFlowEnabled c then [''code'', ''none''] else [])
     @ (if Client_ImplicitFlowEnabled c then [''id_token'', ''id_token token''] else [])
     @ (if Client_StandardFlowEnabled c \<and> Client_ImplicitFlowEnabled c
        then [''code id_token'', ''code token'', ''code id_token token''] else [])"

definition registrationPostLogoutURIs :: "client \<Rightarrow> string list" where
  "registrationPostLogoutURIs c =
    (case map_of (Client_Attributes c) attrPostLogoutURIs of
       None \<Rightarrow> Client_RedirectURIs c
     | Some raw \<Rightarrow> if raw = [] \<or> raw = ''+'' then Client_RedirectURIs c else split_string ''##'' raw)"

definition registrationURI :: "'db server \<Rightarrow> string \<Rightarrow> string \<Rightarrow> string" where
  "registrationURI h realm clientID =
     realmBase h realm @ ''/clients-registrations/'' @ registrationProvider @ ''/'' @ clientID"

record oidc_client =
  OC_RedirectURIs :: "string list"
  OC_TokenEndpointAuthMethod :: string
  OC_GrantTypes :: "string list"
  OC_ResponseTypes :: "string list"
  OC_ClientID :: string
  OC_ClientSecret :: string
  OC_ClientName :: string
  OC_ClientURI :: string
  OC_Scope :: string
  OC_SubjectType :: string
  OC_RequestURIs :: "string list"
  OC_TLSClientCertificateBoundAccessTokens :: bool
  OC_DPoPBoundAccessTokens :: bool
  OC_PostLogoutRedirectURIs :: "string list"
  OC_ClientIDIssuedAt :: "int option"
  OC_ClientSecretExpiresAt :: "int option"
  OC_RegistrationClientURI :: string
  OC_RegistrationAccessToken :: string
  OC_BackchannelLogoutSessionRequired :: bool
  OC_RequirePushedAuthorizationRequests :: bool
  OC_FrontchannelLogoutSessionRequired :: bool

definition json_strings :: "string list \<Rightarrow> json" where
  "json_strings xs = JArr (map JStr xs)"

definition omit_int :: "string \<Rightarrow> int option \<Rightarrow> (string \<times> json) list" where
  "omit_int k v = (case v of None \<Rightarrow> [] | Some n \<Rightarrow> [(k, JInt n)])"

definition oidc_client_json :: "oidc_client \<Rightarrow> json" where
  "oidc_client_json b = JObj (
     [(''redirect_uris'', json_strings (OC_RedirectURIs b)),
      (''token_endpoint_auth_method'', JStr (OC_TokenEndpointAuthMethod b)),
      (''grant_types'', json_strings (OC_GrantTypes b)), (''response_types'', json_strings (OC_ResponseTypes b)),
      (''client_id'', JStr (OC_ClientID b))]
     @ omit_str ''client_secret'' (OC_ClientSecret b) @ omit_str ''client_name'' (OC_ClientName b)
     @ omit_str ''client_uri'' (OC_ClientURI b)
     @ [(''scope'', JStr (OC_Scope b)), (''subject_type'', JStr (OC_SubjectType b)),
        (''request_uris'', json_strings (OC_RequestURIs b)),
        (''tls_client_certificate_bound_access_tokens'', JBool (OC_TLSClientCertificateBoundAccessTokens b)),
        (''dpop_bound_access_tokens'', JBool (OC_DPoPBoundAccessTokens b)),
        (''post_logout_redirect_uris'', json_strings (OC_PostLogoutRedirectURIs b))]
     @ omit_int ''client_id_issued_at'' (OC_ClientIDIssuedAt b)
     @ omit_int ''client_secret_expires_at'' (OC_ClientSecretExpiresAt b)
     @ [(''registration_client_uri'', JStr (OC_RegistrationClientURI b))]
     @ omit_str ''registration_access_token'' (OC_RegistrationAccessToken b)
     @ [(''backchannel_logout_session_required'', JBool (OC_BackchannelLogoutSessionRequired b)),
        (''require_pushed_authorization_requests'', JBool (OC_RequirePushedAuthorizationRequests b)),
        (''frontchannel_logout_session_required'', JBool (OC_FrontchannelLogoutSessionRequired b))])"

definition registrationBody :: "'db server \<Rightarrow> realm \<Rightarrow> client \<Rightarrow> string \<Rightarrow> oidc_client" where
  "registrationBody h realm c rat =
    (let m = registrationAuthMethod c
     in \<lparr>OC_RedirectURIs = Client_RedirectURIs c, OC_TokenEndpointAuthMethod = m,
         OC_GrantTypes = registrationGrantTypes c, OC_ResponseTypes = registrationResponseTypes c,
         OC_ClientID = Client_ClientID c,
         OC_ClientSecret = (if methodCarriesSecret m \<and> \<not> Client_PublicClient c then Client_Secret c else []),
         OC_ClientName = Client_Name c, OC_ClientURI = Client_BaseURL c,
         OC_Scope = join '' '' (Client_OptionalClientScopes c), OC_SubjectType = ''public'', OC_RequestURIs = [],
         OC_TLSClientCertificateBoundAccessTokens = (attr (Client_Attributes c) attrTLSBound = ''true''),
         OC_DPoPBoundAccessTokens = (attr (Client_Attributes c) attrDPoPBound = ''true''),
         OC_PostLogoutRedirectURIs = registrationPostLogoutURIs c, OC_ClientIDIssuedAt = None,
         OC_ClientSecretExpiresAt = (if methodCarriesSecret m then Some 0 else None),
         OC_RegistrationClientURI = registrationURI h (Realm_Name realm) (Client_ClientID c),
         OC_RegistrationAccessToken = rat, OC_BackchannelLogoutSessionRequired = False,
         OC_RequirePushedAuthorizationRequests = (attr (Client_Attributes c) attrRequirePAR = ''true''),
         OC_FrontchannelLogoutSessionRequired = (attr (Client_Attributes c) attrFrontchannelSess \<noteq> ''false'')\<rparr>)"

definition WriteJSONCharset :: "headers \<Rightarrow> nat \<Rightarrow> json \<Rightarrow> response" where
  "WriteJSONCharset hs status j = writeJSON hs status ''application/json;charset=UTF-8'' j"

section \<open>The handlers\<close>

text \<open>The token, or the signing error; \<^const>\<open>None\<close> is a source of randomness that ends.\<close>

definition mintRegistrationToken ::
  "'db server \<Rightarrow> time \<Rightarrow> realm \<Rightarrow> client \<Rightarrow> realm_keys \<Rightarrow> 'db world \<Rightarrow> ((token_error + string) \<times> 'db world) option" where
  "mintRegistrationToken h now realm c k w =
    (case NewID (W_entropy w) of
       None \<Rightarrow> None
     | Some (jti, e) \<Rightarrow>
         (let w = w\<lparr>W_entropy := e\<rparr>
          in case IssueRegistration (H_jose h) k (realmIssuer h (Realm_Name realm)) jti now of
               Inl err \<Rightarrow> Some (Inl err, w)
             | Inr rat \<Rightarrow>
                 Some (Inr rat, w\<lparr>W_registrations :=
                   registrations_issue (W_registrations w) (Realm_ID realm) (Client_ID c) jti\<rparr>)))"

definition new_registered :: "string \<Rightarrow> string \<Rightarrow> client" where
  "new_registered ident realmID = zero_client\<lparr>Client_ID := ident, Client_RealmID := realmID, Client_ClientID := ident,
     Client_Enabled := True, Client_Protocol := ''openid-connect'', Client_FullScopeAllowed := True,
     Client_NodeReRegistrationTimeout := - 1\<rparr>"

text \<open>What the create does once the caller is judged: mint, fill in, store, answer.\<close>

definition create_registered ::
  "'db server \<Rightarrow> headers \<Rightarrow> time \<Rightarrow> realm \<Rightarrow> registration_request \<Rightarrow> realm_keys \<Rightarrow> 'db world \<Rightarrow> 'db outcome" where
  "create_registered h hs now realm rep k w =
    (case NewID (W_entropy w) of
       None \<Rightarrow> None
     | Some (ident, e) \<Rightarrow>
         (case applyRegistration now (new_registered ident (Realm_ID realm)) rep e of
            None \<Rightarrow> None
          | Some (None, e) \<Rightarrow>
              Some (WriteOAuthError hs 400 errInvalidClientMeta descClientMetadataInvalid, w\<lparr>W_entropy := e\<rparr>)
          | Some (Some client, e) \<Rightarrow>
              (let w = w\<lparr>W_entropy := e\<rparr>
               in case InheritClientScopes (H_store h) (W_db w) (Realm_ID realm) client of
                    Inl _ \<Rightarrow> Some (internal_error hs, w)
                  | Inr client \<Rightarrow>
                      (case ClientRepo_Create (Store_Clients (H_store h)) (W_db w) client of
                         Inl _ \<Rightarrow> Some (internal_error hs, w)
                       | Inr db \<Rightarrow>
                           (case mintRegistrationToken h now realm client k (w\<lparr>W_db := db\<rparr>) of
                              None \<Rightarrow> None
                            | Some (Inl _, w) \<Rightarrow> Some (internal_error hs, w)
                            | Some (Inr rat, w) \<Rightarrow>
                                (let body = (registrationBody h realm client rat)\<lparr>OC_ClientIDIssuedAt := Some (unix_seconds now)\<rparr>;
                                     hs = header_Set hs ''Location'' (registrationURI h (Realm_Name realm) (Client_ClientID client))
                                 in Some (WriteJSONCharset hs 201 (oidc_client_json body), w)))))))"

definition registerClient ::
  "'db server \<Rightarrow> headers \<Rightarrow> time \<Rightarrow> request \<Rightarrow> string \<Rightarrow> 'db world \<Rightarrow> 'db outcome" where
  "registerClient h hs now r body w =
    resolveRealm h hs (Rq_Realm r) w (\<lambda>realm.
      decodeRegistration h hs r body w (\<lambda>rep.
        registrationCaller h hs now r realm None w (\<lambda>caller w.
          if \<not> mayCreate caller then Some (writeRegistrationRefusal hs caller False, w)
          else if RR_ClientID rep \<noteq> None
          then Some (WriteOAuthError hs 400 errInvalidClientMeta descClientIdentifierIncluded, w)
          else realmKeys h hs now realm w (create_registered h hs now realm rep))))"

definition readRegisteredClient ::
  "'db server \<Rightarrow> headers \<Rightarrow> time \<Rightarrow> request \<Rightarrow> string \<Rightarrow> 'db world \<Rightarrow> 'db outcome" where
  "readRegisteredClient h hs now r clientID w =
    resolveRealm h hs (Rq_Realm r) w (\<lambda>realm.
      authorizeRegistered h hs now r clientID realm False w (\<lambda>client caller w.
        Some (WriteJSONCharset hs 200 (oidc_client_json
          (registrationBody h realm client (if RC_holder caller then RC_presented caller else []))), w)))"

definition update_registered ::
  "'db server \<Rightarrow> headers \<Rightarrow> time \<Rightarrow> realm \<Rightarrow> client \<Rightarrow> registration_request \<Rightarrow> realm_keys \<Rightarrow> 'db world \<Rightarrow> 'db outcome" where
  "update_registered h hs now realm client rep k w =
    (case applyRegistration now client rep (W_entropy w) of
       None \<Rightarrow> None
     | Some (None, e) \<Rightarrow>
         Some (WriteOAuthError hs 400 errInvalidClientMeta descClientMetadataInvalid, w\<lparr>W_entropy := e\<rparr>)
     | Some (Some client, e) \<Rightarrow>
         (let w = w\<lparr>W_entropy := e\<rparr>
          in case ClientRepo_Update (Store_Clients (H_store h)) (W_db w) client of
               Inl _ \<Rightarrow> Some (internal_error hs, w)
             | Inr db \<Rightarrow>
                 (case mintRegistrationToken h now realm client k (w\<lparr>W_db := db\<rparr>) of
                    None \<Rightarrow> None
                  | Some (Inl _, w) \<Rightarrow> Some (internal_error hs, w)
                  | Some (Inr rat, w) \<Rightarrow>
                      Some (WriteJSONCharset hs 200 (oidc_client_json (registrationBody h realm client rat)), w))))"

definition updateRegisteredClient ::
  "'db server \<Rightarrow> headers \<Rightarrow> time \<Rightarrow> request \<Rightarrow> string \<Rightarrow> string \<Rightarrow> 'db world \<Rightarrow> 'db outcome" where
  "updateRegisteredClient h hs now r clientID body w =
    resolveRealm h hs (Rq_Realm r) w (\<lambda>realm.
      decodeRegistration h hs r body w (\<lambda>rep.
        authorizeRegistered h hs now r clientID realm True w (\<lambda>client caller w.
          if RR_ClientID rep \<noteq> Some (Client_ClientID client)
          then Some (WriteOAuthError hs 400 errInvalidClientMeta descClientIdentifierModified, w)
          else realmKeys h hs now realm w (update_registered h hs now realm client rep))))"

definition deleteRegisteredClient ::
  "'db server \<Rightarrow> headers \<Rightarrow> time \<Rightarrow> request \<Rightarrow> string \<Rightarrow> 'db world \<Rightarrow> 'db outcome" where
  "deleteRegisteredClient h hs now r clientID w =
    resolveRealm h hs (Rq_Realm r) w (\<lambda>realm.
      authorizeRegistered h hs now r clientID realm True w (\<lambda>client caller w.
        case ClientRepo_Delete (Store_Clients (H_store h)) (W_db w) (Realm_ID realm) (Client_ID client) of
          Inl _ \<Rightarrow> Some (internal_error hs, w)
        | Inr db \<Rightarrow>
            Some (WriteNoContent h r hs, w\<lparr>W_db := db,
              W_registrations := registrations_forget (W_registrations w) (Realm_ID realm) (Client_ID client)\<rparr>)))"

lemma trim_space_ascii:
  assumes "list_all (\<lambda>c. of_char c < (128::nat) \<and> \<not> is_space (of_char c)) s"
  shows "trim_space s = s"
proof -
  have c: "rune_chunks (string_bytes s) = map (\<lambda>b. (b, [b])) (string_bytes s)"
    using assms by (intro rune_chunks_ascii) (simp add: string_bytes_def list_all_iff)
  have "dropWhile P (map f xs) = map f xs" if "\<forall>x \<in> set xs. \<not> P (f x)" for P :: "nat \<times> nat list \<Rightarrow> bool" and f and xs :: "nat list"
    using that by (cases xs) auto
  note d = this [of _ "\<lambda>(c, bs). is_space c" "\<lambda>b. (b, [b])"]
  have n: "\<forall>b \<in> set (string_bytes s). \<not> is_space b" using assms by (auto simp: string_bytes_def list_all_iff)
  then have "dropWhile (\<lambda>(c, bs). is_space c) (rune_chunks (string_bytes s)) = rune_chunks (string_bytes s)"
    "dropWhile (\<lambda>(c, bs). is_space c) (rev (rune_chunks (string_bytes s))) = rev (rune_chunks (string_bytes s))"
    unfolding c rev_map by (intro d; simp)+
  then show ?thesis by (simp add: trim_space_def rune_chunks_concat)
qed

end
