(* ===== verification/RegistrationSafety.thy ===== *)
theory RegistrationSafety
  imports Registration GrantSafety KeyFrame
begin

text \<open>
  What dynamic client registration guarantees: who can create, change or delete a client, what becomes of a
  registration access token when it is used, and what a registered client is.
\<close>

section \<open>The caller\<close>

text \<open>
  The bearer of an access token whose realm, session and enabled user are stored and whose user has a role of
  that name on the client that administers the realm of the request. The server is the one in which the keys
  of the realm of the request are loaded.
\<close>

definition bearer_role :: "sqlite_db server \<Rightarrow> time \<Rightarrow> request \<Rightarrow> sqlite_db world \<Rightarrow> string \<Rightarrow> bool" where
  "bearer_role h now r w role \<longleftrightarrow> (\<exists>name authRealm k w1 parsed session user grants.
     UnverifiedIssuer (registrationBearer r) = Inr (H_issuerBase h @ ''/realms/'' @ name)
   \<and> realmRepo_ByName (W_db w) name = Inr authRealm \<and> load_keys h now authRealm w = Some (k, w1)
   \<and> ParseAccess (H_jose h) k (realmIssuer h (Realm_Name authRealm)) (registrationBearer r) now = Inr parsed
   \<and> sessionRepo_UserSessionByID (W_db w1) (Realm_ID authRealm) (Parsed_SessionID parsed) = Inr session
   \<and> UserRepo_ByID (Store_Users sqlite_store) (W_db w1) (Realm_ID authRealm) (US_UserID session) = Inr user
   \<and> User_Enabled user \<and> registrationGrants h (W_db w1) authRealm (Rq_Realm r) user = Some (Inr grants) \<and> role \<in> grants)"

definition caller_role :: "sqlite_db server \<Rightarrow> time \<Rightarrow> request \<Rightarrow> realm \<Rightarrow> sqlite_db world \<Rightarrow> string \<Rightarrow> bool" where
  "caller_role h now r realm w role \<longleftrightarrow> (\<exists>k w1. load_keys h now realm w = Some (k, w1) \<and> bearer_role h now r w1 role)"

text \<open>The bearer of the current registration access token of the client.\<close>

definition caller_holds :: "sqlite_db server \<Rightarrow> time \<Rightarrow> request \<Rightarrow> realm \<Rightarrow> sqlite_db world \<Rightarrow> client \<Rightarrow> bool" where
  "caller_holds h now r realm w c \<longleftrightarrow> (\<exists>k w1 jti. load_keys h now realm w = Some (k, w1)
   \<and> ParseRegistration (H_jose h) k (realmIssuer h (Realm_Name realm)) (registrationBearer r) = Inr jti
   \<and> W_registrations w (registrationKey (Realm_ID realm) (Client_ID c)) = Some jti)"

lemma cut_prefix_True: "cut_prefix s p = (t, True) \<Longrightarrow> s = p @ t"
  by (metis append_take_drop_id cut_prefix_def has_prefix_def prod.inject)

lemma sqlite_realm_ops [simp]: "RealmRepo_ByName (Store_Realms sqlite_store) = realmRepo_ByName"
  by (simp add: sqlite_store_def sqlite_realms_def)

lemma registrationAdmin_run:
  assumes "registrationAdmin h hs now r raw w f = Some (resp, w')" "H_store h = sqlite_store" "raw = registrationBearer r"
  obtains (refused) "quiet w w'" "Resp_Status resp \<in> {401, 500}"
  | (run) caller w1 where "quiet w w1" "f caller w1 = Some (resp, w')" "\<not> RC_holder caller" "\<not> RC_anonymous caller"
      "\<forall>role \<in> RC_grants caller. bearer_role h now r w role" "keys_loaded h w w1"
proof (cases "UnverifiedIssuer raw")
  case (Inl x)
  with assms(1) show thesis by (intro refused) (auto simp: registrationAdmin_def)
next
  case (Inr iss)
  obtain name ok where c: "cut_prefix iss (H_issuerBase h @ ''/realms/'') = (name, ok)" by fastforce
  show thesis
  proof (cases "\<not> ok \<or> name = [] \<or> contains name ''/'' \<or> (\<exists>x. realmRepo_ByName (W_db w) name = Inl x)")
    case True
    with Inr c assms(1,2) show thesis by (intro refused) (auto simp: registrationAdmin_def split: if_splits)
  next
    case False
    then obtain authRealm where a: "realmRepo_ByName (W_db w) name = Inr authRealm"
      by (cases "realmRepo_ByName (W_db w) name") auto
    let ?iss = "realmIssuer h (Realm_Name authRealm)"
    let ?refuse = "\<lambda>desc w. Some (WriteOAuthError hs 401 errInvalidToken desc, w)"
    have "realmKeys h hs now authRealm w (\<lambda>ak w.
        case ParseAccess (H_jose h) ak ?iss raw now of
          Inl _ \<Rightarrow> (case ParseRefresh (H_jose h) ak ?iss raw now of
              Inr _ \<Rightarrow> ?refuse descInvalidTokenType w | Inl _ \<Rightarrow> ?refuse descFailedDecode w)
        | Inr parsed \<Rightarrow>
            (case SessionRepo_UserSessionByID (Store_Sessions (H_store h)) (W_db w) (Realm_ID authRealm)
                    (Parsed_SessionID parsed) of
               Inl _ \<Rightarrow> ?refuse descFailedDecode w
             | Inr session \<Rightarrow>
                 (case UserRepo_ByID (Store_Users (H_store h)) (W_db w) (Realm_ID authRealm) (US_UserID session) of
                    Inl _ \<Rightarrow> ?refuse descFailedDecode w
                  | Inr user \<Rightarrow>
                      if \<not> User_Enabled user then ?refuse descFailedDecode w
                      else (case registrationGrants h (W_db w) authRealm (Rq_Realm r) user of
                              None \<Rightarrow> None
                            | Some (Inl _) \<Rightarrow> Some (internal_error hs, w)
                            | Some (Inr grants) \<Rightarrow>
                                f \<lparr>RC_anonymous = False, RC_admin = True, RC_holder = False,
                                   RC_grants = grants, RC_presented = raw\<rparr> w)))) = Some (resp, w')"
      using assms(1,2) Inr c a False by (simp add: registrationAdmin_def Let_def)
    then show thesis using assms(2)
    proof (cases rule: realmKeys_load)
      case failed
      then show thesis by (intro refused) simp_all
    next
      case (run k w1)
      have "cut_prefix iss (H_issuerBase h @ ''/realms/'') = (name, True)" using c False by simp
      from cut_prefix_True [OF this] Inr assms(3)
      have iss: "UnverifiedIssuer (registrationBearer r) = Inr (H_issuerBase h @ ''/realms/'' @ name)" by simp
      have b: "bearer_role h now r w role"
        if "ParseAccess (H_jose h) k ?iss raw now = Inr parsed"
          "sessionRepo_UserSessionByID (W_db w1) (Realm_ID authRealm) (Parsed_SessionID parsed) = Inr session"
          "UserRepo_ByID (Store_Users sqlite_store) (W_db w1) (Realm_ID authRealm) (US_UserID session) = Inr user"
          "User_Enabled user" "registrationGrants h (W_db w1) authRealm (Rq_Realm r) user = Some (Inr grants)" "role \<in> grants"
        for parsed session user grants role
        using that run(1) a iss assms(3) unfolding bearer_role_def by blast
      have q: "quiet w w1" "keys_loaded h w w1"
        by (rule load_keys_quiet [OF run(1)], rule keys_loaded_load [OF keys_loaded_refl run(1)])
      from run(2) b refused q that(2) [OF q(1)] assms(2) show thesis
        by (auto split: sum.splits if_splits option.splits)
    qed
  qed
qed

lemma registrationCaller_run:
  assumes "registrationCaller h hs now r realm client w f = Some (resp, w')" "H_store h = sqlite_store"
  obtains (refused) "quiet w w'" "Resp_Status resp \<in> {401, 500}"
  | (run) caller w1 where "quiet w w1" "f caller w1 = Some (resp, w')"
      "RC_holder caller \<longrightarrow> (\<exists>c. client = Some c \<and> caller_holds h now r realm w c)"
      "\<forall>role \<in> RC_grants caller. caller_role h now r realm w role" "keys_loaded h w w1"
proof (cases "registrationBearer r = []")
  case True
  with assms(1) show thesis by (intro run [of w anonymous_caller]) (auto simp: registrationCaller_def anonymous_caller_def)
next
  case False
  with assms(1) have "realmKeys h hs now realm w (\<lambda>k w.
      case ParseRegistration (H_jose h) k (realmIssuer h (Realm_Name realm)) (registrationBearer r) of
        Inr jti \<Rightarrow>
          (let held = (case client of
                 None \<Rightarrow> False | Some c \<Rightarrow> registrations_holds (W_registrations w) (Realm_ID realm) (Client_ID c) jti)
           in f \<lparr>RC_anonymous = \<not> held, RC_admin = False, RC_holder = held, RC_grants = {},
                 RC_presented = registrationBearer r\<rparr> w)
      | Inl _ \<Rightarrow> registrationAdmin h hs now r (registrationBearer r) w f) = Some (resp, w')"
    by (simp add: registrationCaller_def Let_def)
  then show thesis using assms(2)
  proof (cases rule: realmKeys_load)
    case failed
    then show thesis by (intro refused) simp_all
  next
    case (run k w1)
    note q = load_keys_quiet [OF run(1)] and l = keys_loaded_load [OF keys_loaded_refl run(1)]
    show thesis
    proof (cases "ParseRegistration (H_jose h) k (realmIssuer h (Realm_Name realm)) (registrationBearer r)")
      case (Inr jti)
      have h: "caller_holds h now r realm w c" if "registrations_holds (W_registrations w1) (Realm_ID realm) (Client_ID c) jti" for c
        using that run(1) Inr quietD(3) [OF q]
        by (auto simp: caller_holds_def registrations_holds_def split: option.splits)
      with Inr run(2) l show thesis
        by (intro that(2) [OF q]) (auto simp: Let_def split: option.splits)
    next
      case (Inl x)
      with run(2) have "registrationAdmin h hs now r (registrationBearer r) w1 f = Some (resp, w')" by simp
      then show thesis using assms(2) refl
      proof (cases rule: registrationAdmin_run)
        case refused
        with q show thesis by (intro that(1)) (auto intro: quiet_trans)
      next
        case (run caller w2)
        with q \<open>load_keys h now realm w = Some (k, w1)\<close> show thesis
          by (intro that(2) [OF quiet_trans]) (auto simp: caller_role_def intro: keys_loaded_trans [OF l])
      qed
    qed
  qed
qed

lemma authorizeRegistered_run:
  assumes "authorizeRegistered h hs now r clientID realm write w f = Some (resp, w')" "H_store h = sqlite_store"
  obtains (refused) "quiet w w'" "Resp_Status resp \<notin> {200, 201, 204}"
  | (run) client caller w1 where "clientRepo_ByClientID (W_db w) (Realm_ID realm) clientID = Inr client" "quiet w w1"
      "f client caller w1 = Some (resp, w')"
      "caller_holds h now r realm w client \<or> caller_role h now r realm w registrationRoleManage
        \<or> \<not> write \<and> caller_role h now r realm w registrationRoleView" "keys_loaded h w w1"
proof -
  have refusals: "Resp_Status (writeRegistrationRefusal hs c i) = (if RC_anonymous c \<and> i then 401 else 403)" for c i
    by (simp add: writeRegistrationRefusal_def)
  show thesis
  proof (cases "clientRepo_ByClientID (W_db w) (Realm_ID realm) clientID")
    case (Inl err)
    show thesis
    proof (cases "err = ErrNotFound")
      case True
      with Inl assms have "registrationCaller h hs now r realm None w (\<lambda>caller w.
              if \<not> (if write then mayWrite caller else mayRead caller)
              then Some (if RC_anonymous caller \<and> write
                         then WriteOAuthError hs 401 errInvalidToken descNotAuthorizedUpdate
                         else writeRegistrationRefusal hs caller True, w)
              else Some (WriteOAuthError hs 404 ''invalid_request'' descClientNotFound, w)) = Some (resp, w')"
        by (simp add: authorizeRegistered_def)
      then show thesis using assms(2)
      proof (cases rule: registrationCaller_run)
        case (run caller w1)
        then show thesis by (intro refused) (auto simp: refusals split: if_splits)
      qed (use refused in auto)
    next
      case False
      with Inl assms refused show thesis by (auto simp: authorizeRegistered_def)
    qed
  next
    case (Inr client)
    with assms have "registrationCaller h hs now r realm (Some client) w (\<lambda>caller w.
              if \<not> (if write then mayWrite caller else mayRead caller)
              then Some (if RC_anonymous caller \<and> write
                         then WriteOAuthError hs 401 errInvalidToken descNotAuthorizedUpdate
                         else writeRegistrationRefusal hs caller True, w)
              else f client caller w) = Some (resp, w')"
      by (simp add: authorizeRegistered_def)
    then show thesis using assms(2)
    proof (cases rule: registrationCaller_run)
      case (run caller w1)
      show thesis
      proof (cases "if write then mayWrite caller else mayRead caller")
        case True
        with run show thesis
          by (intro that(2) [OF Inr run(1)]) (auto simp: mayWrite_def mayRead_def split: if_splits)
      next
        case False
        with run show thesis by (intro refused) (auto simp: refusals split: if_splits)
      qed
    qed (use refused in auto)
  qed
qed

section \<open>What a request makes of a client\<close>

lemma map_of_filter_ne: "map_of (filter (\<lambda>p. fst p \<noteq> k) hs) k' = (if k' = k then None else map_of hs k')"
  by (induction hs) auto

lemma attr_simps [simp]:
  "map_of (Client_Attributes (set_attr k v c)) k' = (if k' = k then Some v else map_of (Client_Attributes c) k')"
  "map_of (Client_Attributes (del_attr k c)) k' = (if k' = k then None else map_of (Client_Attributes c) k')"
  "attr (Client_Attributes (set_attr k v c)) k' = (if k' = k then v else attr (Client_Attributes c) k')"
  "attr (Client_Attributes (del_attr k c)) k' = (if k' = k then [] else attr (Client_Attributes c) k')"
  by (auto simp: set_attr_def del_attr_def smap_set_def smap_delete_def attr_def map_of_filter_ne)

lemma set_attr_simps [simp]:
  "Client_ID (set_attr k v c) = Client_ID c" "Client_RealmID (set_attr k v c) = Client_RealmID c"
  "Client_ClientID (set_attr k v c) = Client_ClientID c" "Client_PublicClient (set_attr k v c) = Client_PublicClient c"
  "Client_Secret (set_attr k v c) = Client_Secret c" "Client_RedirectURIs (set_attr k v c) = Client_RedirectURIs c"
  "Client_ClientAuthenticatorType (set_attr k v c) = Client_ClientAuthenticatorType c"
  "Client_StandardFlowEnabled (set_attr k v c) = Client_StandardFlowEnabled c"
  "Client_ImplicitFlowEnabled (set_attr k v c) = Client_ImplicitFlowEnabled c"
  "Client_DirectAccessGrantsEnabled (set_attr k v c) = Client_DirectAccessGrantsEnabled c"
  "Client_ServiceAccountsEnabled (set_attr k v c) = Client_ServiceAccountsEnabled c"
  "Client_Name (set_attr k v c) = Client_Name c" "Client_BaseURL (set_attr k v c) = Client_BaseURL c"
  by (simp_all add: set_attr_def)

lemma del_attr_simps [simp]:
  "Client_ID (del_attr k c) = Client_ID c" "Client_RealmID (del_attr k c) = Client_RealmID c"
  "Client_ClientID (del_attr k c) = Client_ClientID c" "Client_PublicClient (del_attr k c) = Client_PublicClient c"
  "Client_Secret (del_attr k c) = Client_Secret c" "Client_RedirectURIs (del_attr k c) = Client_RedirectURIs c"
  "Client_ClientAuthenticatorType (del_attr k c) = Client_ClientAuthenticatorType c"
  "Client_StandardFlowEnabled (del_attr k c) = Client_StandardFlowEnabled c"
  "Client_ImplicitFlowEnabled (del_attr k c) = Client_ImplicitFlowEnabled c"
  "Client_DirectAccessGrantsEnabled (del_attr k c) = Client_DirectAccessGrantsEnabled c"
  "Client_ServiceAccountsEnabled (del_attr k c) = Client_ServiceAccountsEnabled c"
  "Client_Name (del_attr k c) = Client_Name c" "Client_BaseURL (del_attr k c) = Client_BaseURL c"
  by (simp_all add: del_attr_def)

lemmas registration_consts = authenticatorNone_def authenticatorSecret_def authenticatorSecretJWT_def authenticatorX509_def
  authenticatorJWT_def authMethodNone_def authMethodSecretBasic_def authMethodSecretPost_def authMethodSecretJWT_def
  authMethodTLS_def authMethodPrivateJWT_def

lemmas registration_attrs = attrSecretMethod_def attrUseRefreshTokens_def attrSecretCreated_def attrRealmClient_def
  attrPostLogoutURIs_def attrDPoPBound_def attrTLSBound_def attrRequirePAR_def attrBackchannelSess_def
  attrBackchannelRevo_def attrFrontchannelSess_def attrDeviceGrant_def attrCIBAGrant_def attrExchangeGrant_def
  attrJWTBearerGrant_def

lemma flows_keep [simp]:
  "Client_ID (applyRegistrationFlows c rep) = Client_ID c" "Client_RealmID (applyRegistrationFlows c rep) = Client_RealmID c"
  "Client_ClientID (applyRegistrationFlows c rep) = Client_ClientID c"
  "Client_PublicClient (applyRegistrationFlows c rep) = Client_PublicClient c"
  "Client_Secret (applyRegistrationFlows c rep) = Client_Secret c"
  "Client_RedirectURIs (applyRegistrationFlows c rep) = Client_RedirectURIs c"
  "Client_ClientAuthenticatorType (applyRegistrationFlows c rep) = Client_ClientAuthenticatorType c"
  "attr (Client_Attributes (applyRegistrationFlows c rep)) attrSecretMethod = attr (Client_Attributes c) attrSecretMethod"
  "map_of (Client_Attributes (applyRegistrationFlows c rep)) attrPostLogoutURIs = map_of (Client_Attributes c) attrPostLogoutURIs"
  by (simp_all add: applyRegistrationFlows_def Let_def split: option.split) (simp_all add: registration_attrs)

text \<open>A registered client is public exactly when it has no authenticator, and has a secret when it needs one.\<close>

definition wf_registered :: "client \<Rightarrow> bool" where
  "wf_registered c \<longleftrightarrow>
     registrationAuthMethod c \<in> {authMethodSecretBasic, authMethodSecretPost, authMethodSecretJWT, authMethodTLS, authMethodNone}
   \<and> (Client_PublicClient c \<longleftrightarrow> registrationAuthMethod c = authMethodNone)
   \<and> (methodCarriesSecret (registrationAuthMethod c) \<longrightarrow> Client_Secret c \<noteq> [])"

lemma authenticators_distinct [simp]:
  "authenticatorSecret \<noteq> authenticatorNone" "authenticatorSecret \<noteq> authenticatorSecretJWT"
  "authenticatorSecret \<noteq> authenticatorX509" "authenticatorSecret \<noteq> authenticatorJWT"
  "authenticatorSecretJWT \<noteq> authenticatorNone" "authenticatorX509 \<noteq> authenticatorNone"
  "authenticatorX509 \<noteq> authenticatorSecretJWT"
  by (simp_all add: registration_consts)

lemma methods_distinct [simp]:
  "authMethodSecretBasic \<noteq> authMethodNone" "authMethodSecretPost \<noteq> authMethodNone" "authMethodSecretJWT \<noteq> authMethodNone"
  "authMethodTLS \<noteq> authMethodNone" "authMethodSecretJWT \<noteq> authMethodSecretBasic" "authMethodSecretJWT \<noteq> authMethodSecretPost"
  "authMethodTLS \<noteq> authMethodSecretBasic" "authMethodTLS \<noteq> authMethodSecretPost" "authMethodTLS \<noteq> authMethodSecretJWT"
  "authMethodNone \<noteq> authMethodSecretBasic" "authMethodNone \<noteq> authMethodSecretPost" "authMethodNone \<noteq> authMethodSecretJWT"
  "authMethodNone \<noteq> authMethodTLS" "authMethodSecretBasic \<noteq> []" "authMethodSecretPost \<noteq> []"
  by (simp_all add: registration_consts)

lemma attrs_distinct [simp]: "attrPostLogoutURIs \<noteq> attrSecretMethod" by (simp add: registration_attrs)

lemma applyRegistrationAuthMethod_all:
  assumes "applyRegistrationAuthMethod c m = Some c'"
  shows "Client_ID c' = Client_ID c \<and> Client_RealmID c' = Client_RealmID c \<and> Client_ClientID c' = Client_ClientID c
    \<and> Client_Secret c' = Client_Secret c \<and> Client_RedirectURIs c' = Client_RedirectURIs c
    \<and> registrationAuthMethod c' = (case m of None \<Rightarrow> authMethodSecretBasic | Some v \<Rightarrow> v)
    \<and> registrationAuthMethod c' \<in> {authMethodSecretBasic, authMethodSecretPost, authMethodSecretJWT, authMethodTLS, authMethodNone}
    \<and> (Client_PublicClient c' \<longleftrightarrow> registrationAuthMethod c' = authMethodNone)
    \<and> map_of (Client_Attributes c') attrPostLogoutURIs = map_of (Client_Attributes c) attrPostLogoutURIs"
proof -
  let ?c = "\<lambda>t p. (del_attr attrSecretMethod c)\<lparr>Client_ClientAuthenticatorType := t, Client_PublicClient := p\<rparr>"
  consider (secret) "m = None" | (named) v where "m = Some v" "v = authMethodSecretBasic \<or> v = authMethodSecretPost"
    | (jwt) "m = Some authMethodSecretJWT" | (tls) "m = Some authMethodTLS" | (public) "m = Some authMethodNone"
  proof (cases m)
    case (Some v)
    then have "v \<in> {authMethodSecretBasic, authMethodSecretPost, authMethodSecretJWT, authMethodTLS, authMethodNone}"
      using assms unfolding applyRegistrationAuthMethod_def Let_def by (auto split: if_splits)
    with Some named jwt tls public show thesis by blast
  qed (rule secret)
  then show ?thesis
  proof cases
    case secret
    then have "c' = ?c authenticatorSecret False" using assms by (simp add: applyRegistrationAuthMethod_def)
    with secret show ?thesis by (simp add: registrationAuthMethod_def)
  next
    case (named v)
    then have "c' = set_attr attrSecretMethod v (?c authenticatorSecret False)"
      using assms by (simp add: applyRegistrationAuthMethod_def)
    with named show ?thesis by (elim disjE) (simp_all add: registrationAuthMethod_def)
  next
    case jwt
    then have "c' = ?c authenticatorSecretJWT False" using assms by (simp add: applyRegistrationAuthMethod_def)
    with jwt show ?thesis by (simp add: registrationAuthMethod_def)
  next
    case tls
    then have "c' = ?c authenticatorX509 False" using assms by (simp add: applyRegistrationAuthMethod_def)
    with tls show ?thesis by (simp add: registrationAuthMethod_def)
  next
    case public
    then have "c' = ?c authenticatorNone True" using assms by (simp add: applyRegistrationAuthMethod_def)
    with public show ?thesis by (simp add: registrationAuthMethod_def)
  qed
qed

text \<open>The attributes a request sets after the flows do not touch the authentication method.\<close>

lemma method_frame:
  "k \<noteq> attrSecretMethod \<Longrightarrow> registrationAuthMethod (set_attr k v c) = registrationAuthMethod c"
  "registrationAuthMethod (c\<lparr>Client_Secret := s\<rparr>) = registrationAuthMethod c"
  "registrationAuthMethod (applyRegistrationFlows c rep) = registrationAuthMethod c"
  by (simp_all add: registrationAuthMethod_def Let_def)

lemma late_attrs [simp]:
  "attrDPoPBound \<noteq> attrSecretMethod" "attrTLSBound \<noteq> attrSecretMethod" "attrRequirePAR \<noteq> attrSecretMethod"
  "attrBackchannelSess \<noteq> attrSecretMethod" "attrBackchannelRevo \<noteq> attrSecretMethod"
  "attrFrontchannelSess \<noteq> attrSecretMethod" "attrRealmClient \<noteq> attrSecretMethod" "attrSecretCreated \<noteq> attrSecretMethod"
  by (simp_all add: registration_attrs)

lemma applyRegistration_Some:
  assumes "applyRegistration now c rep e = Some (Some c', e')"
  shows "Client_ID c' = Client_ID c \<and> Client_RealmID c' = Client_RealmID c \<and> Client_ClientID c' = Client_ClientID c
    \<and> wf_registered c'"
proof -
  let ?c = "c\<lparr>Client_Name := deref (RR_ClientName rep), Client_BaseURL := deref (RR_ClientURI rep),
               Client_RedirectURIs := derefSlice (RR_RedirectURIs rep)\<rparr>"
  let ?c1 = "case RR_PostLogoutRedirectURIs rep of
                Some s \<Rightarrow> set_attr attrPostLogoutURIs (join ''##'' (slice_value s)) ?c
              | None \<Rightarrow> del_attr attrPostLogoutURIs ?c"
  obtain c2 where c2: "applyRegistrationAuthMethod ?c1 (RR_TokenEndpointAuthMethod rep) = Some c2"
    using assms by (cases "applyRegistrationAuthMethod ?c1 (RR_TokenEndpointAuthMethod rep)") (auto simp: applyRegistration_def)
  define c3 where "c3 = set_attr attrRealmClient ''false''
    (set_attr attrFrontchannelSess (boolAttribute (RR_FrontchannelLogoutSessionRequired rep = Some True))
    (set_attr attrBackchannelRevo ''false'' (set_attr attrBackchannelSess ''true''
    (set_attr attrRequirePAR (boolAttribute (RR_RequirePushedAuthorizationRequests rep = Some True))
    (set_attr attrTLSBound (boolAttribute (RR_TLSClientCertificateBoundAccessTokens rep = Some True))
    (set_attr attrDPoPBound (boolAttribute (RR_DPoPBoundAccessTokens rep = Some True))
      (applyRegistrationFlows c2 rep)))))))"
  have c1: "Client_ID ?c1 = Client_ID c" "Client_RealmID ?c1 = Client_RealmID c" "Client_ClientID ?c1 = Client_ClientID c"
    by (simp_all split: option.split)
  have c3: "Client_ID c3 = Client_ID c" "Client_RealmID c3 = Client_RealmID c" "Client_ClientID c3 = Client_ClientID c"
      "registrationAuthMethod c3 = registrationAuthMethod c2" "Client_PublicClient c3 = Client_PublicClient c2"
    using applyRegistrationAuthMethod_all [OF c2] c1 by (simp_all add: c3_def method_frame)
  have m: "registrationAuthMethod c2 \<in> {authMethodSecretBasic, authMethodSecretPost, authMethodSecretJWT, authMethodTLS, authMethodNone}"
      "Client_PublicClient c2 \<longleftrightarrow> registrationAuthMethod c2 = authMethodNone"
    using applyRegistrationAuthMethod_all [OF c2] by blast+
  have "(if Client_Secret c3 = [] \<and> \<not> Client_PublicClient c3 \<and> clientCarriesSecret c3
         then (case NewSecret e of None \<Rightarrow> None
               | Some (secret, e) \<Rightarrow> Some (Some (set_attr attrSecretCreated (bytes_string (int_digits (unix_seconds now)))
                   (c3\<lparr>Client_Secret := secret\<rparr>)), e))
         else Some (Some c3, e)) = Some (Some c', e')"
    using assms unfolding applyRegistration_def Let_def c2 option.case c3_def .
  then consider (kept) "c' = c3" "\<not> (Client_Secret c3 = [] \<and> \<not> Client_PublicClient c3 \<and> clientCarriesSecret c3)"
    | (minted) secret v where "NewSecret e = Some (secret, e')" "c' = set_attr attrSecretCreated v (c3\<lparr>Client_Secret := secret\<rparr>)"
    by (auto split: if_splits option.splits)
  then show ?thesis
  proof cases
    case kept
    with c3 m show ?thesis by (auto simp: wf_registered_def clientCarriesSecret_def methodCarriesSecret_def)
  next
    case minted
    have "secret \<noteq> []" using NewSecret_shape [OF minted(1)] by auto
    with c3 m minted(2) show ?thesis by (simp add: wf_registered_def method_frame)
  qed
qed

section \<open>The tables\<close>

text \<open>The columns of the client table: scopes, nodes and the authorization settings have tables of their own.\<close>

definition client_row :: "client \<Rightarrow> client" where
  "client_row c = c\<lparr>Client_DefaultClientScopes := [], Client_OptionalClientScopes := [], Client_RegisteredNodes := [],
     Client_AuthorizationServicesEnabled := False\<rparr>"

lemma client_row_sel [simp]:
  "Client_ID (client_row c) = Client_ID c" "Client_RealmID (client_row c) = Client_RealmID c"
  "Client_ClientID (client_row c) = Client_ClientID c" "wf_registered (client_row c) = wf_registered c"
  by (simp_all add: client_row_def wf_registered_def registrationAuthMethod_def Let_def)

lemma clientRepo_Create_rows:
  "clientRepo_Create db m = Inr db' \<Longrightarrow> T_client db' = T_client db @ [client_row m] \<and> (\<forall>c \<in> set (T_client db). Client_ID c \<noteq> Client_ID m)"
  by (auto simp: clientRepo_Create_def client_row_def attachClientScopes_def split: if_splits)

lemma clientRepo_Update_rows:
  "clientRepo_Update db m = Inr db' \<Longrightarrow> T_client db' =
     map (\<lambda>c. if Client_RealmID c = Client_RealmID m \<and> Client_ID c = Client_ID m then client_row m else c) (T_client db)"
  by (auto simp: clientRepo_Update_def client_row_def affectedOne_def Let_def split: if_splits)

lemma clientRepo_Delete_rows:
  "clientRepo_Delete db realmID ident = Inr db' \<Longrightarrow>
     T_client db' = filter (\<lambda>c. Client_ID c \<noteq> ident) (T_client db) \<and> (\<exists>c \<in> set (T_client db). Client_RealmID c = realmID \<and> Client_ID c = ident)"
  by (auto simp: clientRepo_Delete_def affectedOne_def cascade_clients_def Let_def image_iff filter_empty_conv
      intro!: filter_cong split: if_splits)

lemma mintRegistrationToken_db: "mintRegistrationToken h now realm c k w = Some (res, w') \<Longrightarrow> W_db w' = W_db w"
  by (auto simp: mintRegistrationToken_def Let_def split: option.splits sum.splits)

lemma sqlite_client_writes [simp]:
  "ClientRepo_Create (Store_Clients sqlite_store) = clientRepo_Create"
  "ClientRepo_Update (Store_Clients sqlite_store) = clientRepo_Update"
  "ClientRepo_Delete (Store_Clients sqlite_store) = clientRepo_Delete"
  "ClientRepo_Create sqlite_clients = clientRepo_Create" "ClientRepo_Update sqlite_clients = clientRepo_Update"
  "ClientRepo_Delete sqlite_clients = clientRepo_Delete"
  by (simp_all add: sqlite_store_def sqlite_clients_def)

lemma InheritClientScopes_Inr:
  "InheritClientScopes s db rid c = Inr c' \<Longrightarrow> client_row c' = client_row c \<and> Client_ID c' = Client_ID c \<and> Client_RealmID c' = Client_RealmID c"
  by (auto simp: InheritClientScopes_def client_row_def bind_err_Inr_iff)

lemma create_registered_run:
  assumes "create_registered h hs now realm rep k w = Some (resp, w')" "H_store h = sqlite_store"
  shows "T_client (W_db w') = T_client (W_db w) \<or> (\<exists>c. T_client (W_db w') = T_client (W_db w) @ [client_row c] \<and> wf_registered c
    \<and> Client_RealmID c = Realm_ID realm \<and> (\<forall>c' \<in> set (T_client (W_db w)). Client_ID c' \<noteq> Client_ID c))"
proof (rule disjCI)
  assume changed: "\<not> (\<exists>c. T_client (W_db w') = T_client (W_db w) @ [client_row c] \<and> wf_registered c
    \<and> Client_RealmID c = Realm_ID realm \<and> (\<forall>c' \<in> set (T_client (W_db w)). Client_ID c' \<noteq> Client_ID c))"
  show "T_client (W_db w') = T_client (W_db w)"
  proof (rule ccontr)
    assume n: "T_client (W_db w') \<noteq> T_client (W_db w)"
    then obtain ident e c1 e1 c2 db res where
      c1: "applyRegistration now (new_registered ident (Realm_ID realm)) rep e = Some (Some c1, e1)"
      and c2: "InheritClientScopes sqlite_store (W_db w) (Realm_ID realm) c1 = Inr c2"
      and db: "clientRepo_Create (W_db w) c2 = Inr db"
      and mint: "mintRegistrationToken h now realm c2 k (w\<lparr>W_entropy := e1, W_db := db\<rparr>) = Some (res, w')"
      using assms by (auto simp: create_registered_def Let_def split: option.splits prod.splits sum.splits)
    have "T_client (W_db w') = T_client (W_db w) @ [client_row c1]" "wf_registered c1" "Client_RealmID c1 = Realm_ID realm"
        "\<forall>c' \<in> set (T_client (W_db w)). Client_ID c' \<noteq> Client_ID c1"
      using InheritClientScopes_Inr [OF c2] applyRegistration_Some [OF c1] clientRepo_Create_rows [OF db]
        mintRegistrationToken_db [OF mint] by (simp_all add: new_registered_def)
    with changed show False by blast
  qed
qed

lemma update_registered_run:
  assumes "update_registered h hs now realm c0 rep k w = Some (resp, w')" "H_store h = sqlite_store"
  shows "T_client (W_db w') = T_client (W_db w) \<or> (\<exists>c. wf_registered c \<and> Client_ID c = Client_ID c0
    \<and> Client_RealmID c = Client_RealmID c0 \<and> Client_ClientID c = Client_ClientID c0
    \<and> T_client (W_db w') = map (\<lambda>x. if Client_RealmID x = Client_RealmID c0 \<and> Client_ID x = Client_ID c0 then client_row c else x)
         (T_client (W_db w)))"
proof (rule disjCI, rule ccontr)
  assume unchanged: "\<not> (\<exists>c. wf_registered c \<and> Client_ID c = Client_ID c0
    \<and> Client_RealmID c = Client_RealmID c0 \<and> Client_ClientID c = Client_ClientID c0
    \<and> T_client (W_db w') = map (\<lambda>x. if Client_RealmID x = Client_RealmID c0 \<and> Client_ID x = Client_ID c0 then client_row c else x)
         (T_client (W_db w)))" and "T_client (W_db w') \<noteq> T_client (W_db w)"
  then obtain c1 e1 db res where
    c1: "applyRegistration now c0 rep (W_entropy w) = Some (Some c1, e1)"
    and db: "clientRepo_Update (W_db w) c1 = Inr db"
    and mint: "mintRegistrationToken h now realm c1 k (w\<lparr>W_entropy := e1, W_db := db\<rparr>) = Some (res, w')"
    using assms by (auto simp: update_registered_def Let_def split: option.splits prod.splits sum.splits)
  have "wf_registered c1" "Client_ID c1 = Client_ID c0" "Client_RealmID c1 = Client_RealmID c0"
      "Client_ClientID c1 = Client_ClientID c0"
    using applyRegistration_Some [OF c1] by simp_all
  with unchanged clientRepo_Update_rows [OF db] mintRegistrationToken_db [OF mint] show False by auto
qed

section \<open>A request\<close>

text \<open>The four routes of the registration endpoint, with the body and the client of the path they are given.\<close>

datatype registration_op = Register string | ReadClient string | UpdateClient string string | DeleteClient string

definition serve_registration ::
  "'db server \<Rightarrow> headers \<Rightarrow> time \<Rightarrow> request \<Rightarrow> registration_op \<Rightarrow> 'db world \<Rightarrow> 'db outcome" where
  "serve_registration h hs now r op w = (case op of
       Register body \<Rightarrow> registerClient h hs now r body w
     | ReadClient clientID \<Rightarrow> readRegisteredClient h hs now r clientID w
     | UpdateClient clientID body \<Rightarrow> updateRegisteredClient h hs now r clientID body w
     | DeleteClient clientID \<Rightarrow> deleteRegisteredClient h hs now r clientID w)"

lemma resolveRealm_sqlite:
  assumes "resolveRealm h hs name w f = Some (resp, w')" "H_store h = sqlite_store"
  obtains "w' = w" "Resp_Status resp \<in> {404, 500}"
  | realm where "realmRepo_ByName (W_db w) name = Inr realm" "f realm = Some (resp, w')"
  using assms by (auto simp: resolveRealm_def split: sum.splits if_splits)

lemma decodeRegistration_run:
  assumes "decodeRegistration h hs r body w f = Some (resp, w')"
  obtains "w' = w" "Resp_Status resp \<in> {400, 415}" | rep where "f rep = Some (resp, w')"
  using assms by (auto simp: decodeRegistration_def split: if_splits option.splits)

lemma ByClientID_row:
  "clientRepo_ByClientID db rid cid = Inr c \<Longrightarrow> Client_RealmID c = rid \<and> Client_ClientID c = cid"
  by (auto simp: clientRepo_ByClientID_def bind_err_Inr_iff first_row_def scanWithScopes_def loadNodes_def loadClientScopeNames_def Let_def filter_eq_Cons_iff
      split: list.splits)

lemma quiet_rows: "quiet w w' \<Longrightarrow> T_client (W_db w') = T_client (W_db w)"
  by (metis only_keys_reads(5) quietD(1))

lemma quiet_load: "quiet w w1 \<Longrightarrow> load_keys h now realm w1 = Some (k, w2) \<Longrightarrow> quiet w w2"
  using quiet_trans load_keys_quiet by blast

text \<open>Every request either leaves the client table and the registration tokens alone or reaches the write it asks for.\<close>

lemma registerClient_run:
  assumes "registerClient h hs now r body w = Some (resp, w')" "H_store h = sqlite_store"
  obtains (refused) "quiet w w'" "Resp_Status resp \<notin> {200, 201}"
  | (run) realm rep k w1 where "realmRepo_ByName (W_db w) (Rq_Realm r) = Inr realm"
      "caller_role h now r realm w registrationRoleCreate \<or> caller_role h now r realm w registrationRoleManage"
      "quiet w w1" "W_keys w1 (Realm_ID realm) = Some k" "create_registered h hs now realm rep k w1 = Some (resp, w')"
      "keys_loaded h w w1"
  using assms(1) [unfolded registerClient_def] assms(2)
proof (cases rule: resolveRealm_sqlite)
  case 1
  then show thesis by (intro refused) auto
next
  case (2 realm)
  note realm = 2(1)
  from 2(2) show thesis
  proof (cases rule: decodeRegistration_run)
    case 1
    then show thesis by (intro refused) auto
  next
    case (2 rep)
    from 2 assms(2) show thesis
    proof (cases rule: registrationCaller_run)
      case refused
      then show thesis by (intro that(1)) auto
    next
      case (run caller w1)
      note 2 = run
      show thesis
      proof (cases "mayCreate caller \<and> RR_ClientID rep = None")
        case False
        with 2 show thesis by (intro that(1)) (auto simp: writeRegistrationRefusal_def split: if_splits)
      next
        case True
        then have role: "caller_role h now r realm w registrationRoleCreate \<or> caller_role h now r realm w registrationRoleManage"
          using 2(4) by (auto simp: mayCreate_def)
        from True 2(2) have "realmKeys h hs now realm w1 (create_registered h hs now realm rep) = Some (resp, w')" by simp
        then show thesis using assms(2)
        proof (cases rule: realmKeys_load)
          case failed
          with 2(1) show thesis by (intro that(1)) (auto intro: quiet_trans)
        next
          case (run k w2)
          show thesis
            by (rule that(2) [OF realm role quiet_load [OF 2(1) run(1)] load_keys_caches [OF run(1)] run(2)
                keys_loaded_load [OF 2(5) run(1)]])
        qed
      qed
    qed
  qed
qed

lemma updateRegisteredClient_run:
  assumes "updateRegisteredClient h hs now r cid body w = Some (resp, w')" "H_store h = sqlite_store"
  obtains (refused) "quiet w w'" "Resp_Status resp \<notin> {200, 201}"
  | (run) realm c0 rep k w1 where "realmRepo_ByName (W_db w) (Rq_Realm r) = Inr realm"
      "clientRepo_ByClientID (W_db w) (Realm_ID realm) cid = Inr c0"
      "caller_holds h now r realm w c0 \<or> caller_role h now r realm w registrationRoleManage"
      "quiet w w1" "W_keys w1 (Realm_ID realm) = Some k" "update_registered h hs now realm c0 rep k w1 = Some (resp, w')"
      "keys_loaded h w w1"
  using assms(1) [unfolded updateRegisteredClient_def] assms(2)
proof (cases rule: resolveRealm_sqlite)
  case 1
  then show thesis by (intro refused) auto
next
  case (2 realm)
  note realm = 2(1)
  from 2(2) show thesis
  proof (cases rule: decodeRegistration_run)
    case 1
    then show thesis by (intro refused) auto
  next
    case (2 rep)
    from 2 assms(2) show thesis
    proof (cases rule: authorizeRegistered_run)
      case refused
      then show thesis by (intro that(1)) auto
    next
      case (run c0 caller w1)
      note 2 = run
      show thesis
      proof (cases "RR_ClientID rep = Some (Client_ClientID c0)")
        case False
        with 2 show thesis by (intro that(1)) auto
      next
        case True
        with 2(3) have "realmKeys h hs now realm w1 (update_registered h hs now realm c0 rep) = Some (resp, w')" by simp
        then show thesis using assms(2)
        proof (cases rule: realmKeys_load)
          case failed
          with 2(2) show thesis by (intro that(1)) (auto intro: quiet_trans)
        next
          case (run k w2)
          from 2(4) have "caller_holds h now r realm w c0 \<or> caller_role h now r realm w registrationRoleManage" by simp
          then show thesis
            by (rule that(2) [OF realm 2(1) _ quiet_load [OF 2(2) run(1)] load_keys_caches [OF run(1)] run(2)
                keys_loaded_load [OF 2(5) run(1)]])
        qed
      qed
    qed
  qed
qed

lemma deleteRegisteredClient_run:
  assumes "deleteRegisteredClient h hs now r cid w = Some (resp, w')" "H_store h = sqlite_store"
  obtains (refused) "quiet w w'" "Resp_Status resp \<notin> {200, 201}"
  | (run) realm c0 where "realmRepo_ByName (W_db w) (Rq_Realm r) = Inr realm"
      "clientRepo_ByClientID (W_db w) (Realm_ID realm) cid = Inr c0"
      "caller_holds h now r realm w c0 \<or> caller_role h now r realm w registrationRoleManage"
      "Resp_Status resp = 204" "T_client (W_db w') = filter (\<lambda>x. Client_ID x \<noteq> Client_ID c0) (T_client (W_db w))"
  using assms(1) [unfolded deleteRegisteredClient_def] assms(2)
proof (cases rule: resolveRealm_sqlite)
  case 1
  then show thesis by (intro refused) auto
next
  case (2 realm)
  note realm = 2(1)
  from 2(2) assms(2) show thesis
  proof (cases rule: authorizeRegistered_run)
    case refused
    then show thesis by (intro that(1)) auto
  next
    case (run c0 caller w1)
    note 2 = run
    show thesis
    proof (cases "clientRepo_Delete (W_db w1) (Realm_ID realm) (Client_ID c0)")
      case (Inl x)
      with 2 assms(2) show thesis by (intro that(1)) auto
    next
      case (Inr db)
      with 2 assms(2) show thesis
        by (intro that(2) [OF realm 2(1)])
          (auto simp: clientRepo_Delete_rows [OF Inr] quiet_rows [OF 2(2)] WriteNoContent_def empty_response_def Let_def)
    qed
  qed
qed

lemma readRegisteredClient_run:
  assumes "readRegisteredClient h hs now r cid w = Some (resp, w')" "H_store h = sqlite_store"
  shows "quiet w w'"
  using assms(1) [unfolded readRegisteredClient_def] assms(2)
proof (cases rule: resolveRealm_sqlite)
  case (2 realm)
  from 2(2) assms(2) show ?thesis by (cases rule: authorizeRegistered_run) auto
qed simp

section \<open>What the endpoint guarantees\<close>

text \<open>The rows of the client table under an identifier, its primary key.\<close>

definition client_rows :: "sqlite_db world \<Rightarrow> string \<Rightarrow> client list" where
  "client_rows w i = filter (\<lambda>c. Client_ID c = i) (T_client (W_db w))"

lemma client_rows_update:
  "Client_ID c = j \<Longrightarrow> i \<noteq> j \<Longrightarrow> filter (\<lambda>c. Client_ID c = i)
     (map (\<lambda>x. if Client_RealmID x = rid \<and> Client_ID x = j then c else x) cs) = filter (\<lambda>c. Client_ID c = i) cs"
  by (induction cs) auto

text \<open>
  C14. Who can change a client through dynamic registration. When a request changes what the client table
  holds under an identifier, either it created a client there, and its bearer is an enabled user whose session
  is stored and who has \<^verbatim>\<open>create-client\<close> or \<^verbatim>\<open>manage-clients\<close> on the client that administers the realm of the
  request; or the client named by the path is the one under that identifier, in that realm, the request was an
  update or a delete, and its bearer has \<^verbatim>\<open>manage-clients\<close> or presents the registration access token that is
  current for this very client.
\<close>

theorem registration_authority:
  assumes "H_store h = sqlite_store" "serve_registration h hs now r op w = Some (resp, w')"
    "client_rows w' i \<noteq> client_rows w i"
  shows "\<exists>realm. realmRepo_ByName (W_db w) (Rq_Realm r) = Inr realm \<and>
    ((\<exists>body. op = Register body) \<and> client_rows w i = []
        \<and> (caller_role h now r realm w registrationRoleCreate \<or> caller_role h now r realm w registrationRoleManage)
     \<or> (\<exists>cid c. (op = DeleteClient cid \<or> (\<exists>body. op = UpdateClient cid body))
          \<and> clientRepo_ByClientID (W_db w) (Realm_ID realm) cid = Inr c \<and> Client_ID c = i
          \<and> (caller_holds h now r realm w c \<or> caller_role h now r realm w registrationRoleManage)))"
proof -
  have n: "\<not> quiet w w'" using assms(3) quiet_rows by (auto simp: client_rows_def)
  show ?thesis
  proof (cases op)
    case (Register body)
    with assms(2) have "registerClient h hs now r body w = Some (resp, w')" by (simp add: serve_registration_def)
    then show ?thesis using assms(1)
    proof (cases rule: registerClient_run)
      case (run realm rep k w1)
      obtain c where "T_client (W_db w') = T_client (W_db w) @ [client_row c]" "\<forall>c' \<in> set (T_client (W_db w)). Client_ID c' \<noteq> Client_ID c"
        using create_registered_run [OF run(5) assms(1)] quiet_rows [OF run(3)] assms(3) by (auto simp: client_rows_def)
      with assms(3) have "client_rows w i = []" by (auto simp: client_rows_def filter_empty_conv split: if_splits)
      with run Register show ?thesis by blast
    qed (use n in simp)
  next
    case (ReadClient cid)
    with assms(1,2) n readRegisteredClient_run show ?thesis by (fastforce simp: serve_registration_def)
  next
    case (UpdateClient cid body)
    with assms(2) have "updateRegisteredClient h hs now r cid body w = Some (resp, w')" by (simp add: serve_registration_def)
    then show ?thesis using assms(1)
    proof (cases rule: updateRegisteredClient_run)
      case (run realm c0 rep k w1)
      have "Client_ID c0 = i"
      proof (rule ccontr)
        assume "Client_ID c0 \<noteq> i"
        moreover obtain c where "Client_ID c = Client_ID c0" "T_client (W_db w') =
            map (\<lambda>x. if Client_RealmID x = Client_RealmID c0 \<and> Client_ID x = Client_ID c0 then client_row c else x) (T_client (W_db w))"
          using update_registered_run [OF run(6) assms(1)] quiet_rows [OF run(4)] assms(3) by (auto simp: client_rows_def)
        ultimately show False using assms(3) client_rows_update [of "client_row c" "Client_ID c0" i] by (simp add: client_rows_def)
      qed
      with run UpdateClient show ?thesis by blast
    qed (use n in simp)
  next
    case (DeleteClient cid)
    with assms(2) have "deleteRegisteredClient h hs now r cid w = Some (resp, w')" by (simp add: serve_registration_def)
    then show ?thesis using assms(1)
    proof (cases rule: deleteRegisteredClient_run)
      case (run realm c0)
      have "Client_ID c0 = i" using run(5) assms(3) by (auto simp: client_rows_def filter_filter intro: filter_cong)
      with run DeleteClient show ?thesis by blast
    qed (use n in simp)
  qed
qed

text \<open>
  C15. What a registered client is. A row of the client table that a request adds or changes belongs to the
  realm of the request, authenticates in one of the five ways the endpoint offers, is public exactly when that
  way is \<^verbatim>\<open>none\<close>, and has a secret when its way needs one, whatever the client was before.
\<close>

theorem registration_type:
  assumes "H_store h = sqlite_store" "serve_registration h hs now r op w = Some (resp, w')"
    "c \<in> set (T_client (W_db w'))" "c \<notin> set (T_client (W_db w))"
  shows "wf_registered c \<and> (\<exists>realm. realmRepo_ByName (W_db w) (Rq_Realm r) = Inr realm \<and> Client_RealmID c = Realm_ID realm)"
proof -
  have n: "\<not> quiet w w'" using assms(3,4) quiet_rows by metis
  show ?thesis
  proof (cases op)
    case (Register body)
    with assms(2) have "registerClient h hs now r body w = Some (resp, w')" by (simp add: serve_registration_def)
    then show ?thesis using assms(1)
    proof (cases rule: registerClient_run)
      case (run realm rep k w1)
      with create_registered_run [OF run(5) assms(1)] quiet_rows [OF run(3)] assms(3,4) show ?thesis by auto
    qed (use n in simp)
  next
    case (ReadClient cid)
    with assms(1,2) n readRegisteredClient_run show ?thesis by (fastforce simp: serve_registration_def)
  next
    case (UpdateClient cid body)
    with assms(2) have "updateRegisteredClient h hs now r cid body w = Some (resp, w')" by (simp add: serve_registration_def)
    then show ?thesis using assms(1)
    proof (cases rule: updateRegisteredClient_run)
      case (run realm c0 rep k w1)
      with update_registered_run [OF run(6) assms(1)] quiet_rows [OF run(4)] ByClientID_row [OF run(2)] assms(3,4)
      show ?thesis by (auto split: if_splits)
    qed (use n in simp)
  next
    case (DeleteClient cid)
    with assms(2) have "deleteRegisteredClient h hs now r cid w = Some (resp, w')" by (simp add: serve_registration_def)
    then show ?thesis using assms(1)
      by (cases rule: deleteRegisteredClient_run) (use n assms(3,4) in auto)
  qed
qed

text \<open>Randomness is read from the front.\<close>

lemma NewID_reads: "NewID e = Some (i, e') \<Longrightarrow> \<exists>b. e = b @ e'"
  by (auto simp: NewID_def rand_read_def Let_def split: option.splits if_splits) (metis append_take_drop_id)

lemma rand_read_reads: "rand_read n e = Some (b, e') \<Longrightarrow> e = b @ e'"
  by (auto simp: rand_read_def split: if_splits)

lemma NewSecret_loop_reads: "NewSecret_loop out e = Some (i, e') \<Longrightarrow> \<exists>b. e = b @ e'"
proof (induction out e rule: NewSecret_loop.induct)
  case (1 out e)
  show ?case
  proof (cases "length out < secretLength")
    case True
    then obtain buf e1 where r: "rand_read secretLength e = Some (buf, e1)"
        "NewSecret_loop (NewSecret_draw out buf) e1 = Some (i, e')"
      using 1(2) by (subst (asm) NewSecret_loop.simps) (auto split: option.splits)
    from 1(1) [OF True r(1) refl r(2)] rand_read_reads [OF r(1)] show ?thesis by auto
  next
    case False
    with 1(2) show ?thesis by (subst (asm) NewSecret_loop.simps) simp
  qed
qed

lemma NewSecret_reads: "NewSecret e = Some (i, e') \<Longrightarrow> \<exists>b. e = b @ e'"
  unfolding NewSecret_def by (rule NewSecret_loop_reads)

lemma applyRegistration_reads:
  assumes "applyRegistration now c rep e = Some (res, e')"
  shows "\<exists>b. e = b @ e'"
proof -
  from assms have "e' = e \<or> (\<exists>secret. NewSecret e = Some (secret, e'))"
    unfolding applyRegistration_def Let_def by (auto split: option.splits if_splits)
  then show ?thesis using NewSecret_reads by (metis append_Nil)
qed

lemma mintRegistrationToken_run:
  assumes "mintRegistrationToken h now realm c k w = Some (Inr rat, w')"
  obtains jti where "NewID (W_entropy w) = Some (jti, W_entropy w')" "W_db w' = W_db w" "W_keys w' = W_keys w"
    "IssueRegistration (H_jose h) k (realmIssuer h (Realm_Name realm)) jti now = Inr rat"
    "W_registrations w' (registrationKey (Realm_ID realm) (Client_ID c)) = Some jti"
  using assms
  by (auto simp: mintRegistrationToken_def Let_def registrations_issue_def split: option.splits sum.splits prod.splits)

text \<open>
  An identifier drawn by a request: once the keys the request needs are loaded, the last randomness it reads
  is what the identifier is made of.
\<close>

definition drawn :: "sqlite_db server \<Rightarrow> sqlite_db world \<Rightarrow> string \<Rightarrow> sqlite_db world \<Rightarrow> bool" where
  "drawn h w i w' \<longleftrightarrow> (\<exists>w1 read e. keys_loaded h w w1 \<and> W_entropy w1 = read @ e \<and> NewID e = Some (i, W_entropy w'))"

text \<open>
  The response of a write of the client \<open>c\<close>: the representation of the stored client, and a token minted for it
  whose identifier was drawn and is the only one that is accepted from then on.
\<close>

definition answers_with ::
  "sqlite_db server \<Rightarrow> time \<Rightarrow> realm \<Rightarrow> realm_keys \<Rightarrow> client \<Rightarrow> response \<Rightarrow> sqlite_db world \<Rightarrow> sqlite_db world \<Rightarrow> bool" where
  "answers_with h now realm k c resp w w' \<longleftrightarrow> (\<exists>b jti.
     Resp_Body resp = BodyJSON (oidc_client_json b) \<and> c \<in> set (T_client (W_db w')) \<and> Client_RealmID c = Realm_ID realm
   \<and> Client_ClientID c = OC_ClientID b \<and> drawn h w jti w'
   \<and> IssueRegistration (H_jose h) k (realmIssuer h (Realm_Name realm)) jti now = Inr (OC_RegistrationAccessToken b)
   \<and> (\<forall>now' r'. caller_holds h now' r' realm w' c \<longleftrightarrow>
        ParseRegistration (H_jose h) k (realmIssuer h (Realm_Name realm)) (registrationBearer r') = Inr jti))"

lemma answers_with_minted:
  assumes "mintRegistrationToken h now realm c k w2 = Some (Inr rat, w')" "W_keys w2 (Realm_ID realm) = Some k"
    "client_row c \<in> set (T_client (W_db w2))" "Client_RealmID c = Realm_ID realm"
    "Resp_Body resp = BodyJSON (oidc_client_json b)" "OC_ClientID b = Client_ClientID c" "OC_RegistrationAccessToken b = rat"
    "keys_loaded h w w1" "W_entropy w1 = read @ W_entropy w2"
  shows "W_keys w' (Realm_ID realm) = Some k \<and> answers_with h now realm k (client_row c) resp w w'"
proof -
  from assms(1) obtain jti where m: "NewID (W_entropy w2) = Some (jti, W_entropy w')" "W_db w' = W_db w2"
      "W_keys w' = W_keys w2"
      "IssueRegistration (H_jose h) k (realmIssuer h (Realm_Name realm)) jti now = Inr rat"
      "W_registrations w' (registrationKey (Realm_ID realm) (Client_ID c)) = Some jti"
    by (rule mintRegistrationToken_run)
  have keys: "W_keys w' (Realm_ID realm) = Some k" using m(3) assms(2) by simp
  have "drawn h w jti w'" unfolding drawn_def using assms(8,9) m(1) by blast
  moreover have "caller_holds h now' r' realm w' (client_row c) \<longleftrightarrow>
        ParseRegistration (H_jose h) k (realmIssuer h (Realm_Name realm)) (registrationBearer r') = Inr jti" for now' r'
    using m(5) by (auto simp: caller_holds_def load_keys_cached [OF keys])
  ultimately show ?thesis using keys m(2,4) assms(3-7) unfolding answers_with_def by auto
qed

lemma body_sel [simp]:
  "OC_ClientID (registrationBody h realm c rat) = Client_ClientID c" "OC_RegistrationAccessToken (registrationBody h realm c rat) = rat"
  "Resp_Body (WriteJSONCharset hs n j) = BodyJSON j" "Resp_Status (WriteJSONCharset hs n j) = n"
  by (simp_all add: registrationBody_def Let_def WriteJSONCharset_def writeJSON_def)

lemma create_registered_answers:
  assumes "create_registered h hs now realm rep k w1 = Some (resp, w')" "H_store h = sqlite_store" "Resp_Status resp = 201"
    "W_keys w1 (Realm_ID realm) = Some k" "keys_loaded h w w1"
  shows "\<exists>c. W_keys w' (Realm_ID realm) = Some k \<and> answers_with h now realm k c resp w w'
    \<and> (\<forall>c' \<in> set (T_client (W_db w1)). Client_ID c' \<noteq> Client_ID c)"
proof -
  obtain ident e c1 e1 c2 db rat where
    e: "NewID (W_entropy w1) = Some (ident, e)"
    and c1: "applyRegistration now (new_registered ident (Realm_ID realm)) rep e = Some (Some c1, e1)"
    and c2: "InheritClientScopes sqlite_store (W_db w1) (Realm_ID realm) c1 = Inr c2"
    and db: "clientRepo_Create (W_db w1) c2 = Inr db"
    and mint: "mintRegistrationToken h now realm c2 k (w1\<lparr>W_entropy := e1, W_db := db\<rparr>) = Some (Inr rat, w')"
    and body: "Resp_Body resp = BodyJSON (oidc_client_json ((registrationBody h realm c2 rat)\<lparr>OC_ClientIDIssuedAt := Some (unix_seconds now)\<rparr>))"
    using assms(1-3) by (auto simp: create_registered_def Let_def split: option.splits prod.splits sum.splits)
  have row: "Client_RealmID c2 = Realm_ID realm" "client_row c2 \<in> set (T_client db)"
    "\<forall>c' \<in> set (T_client (W_db w1)). Client_ID c' \<noteq> Client_ID c2"
    using InheritClientScopes_Inr [OF c2] applyRegistration_Some [OF c1] clientRepo_Create_rows [OF db]
    by (simp_all add: new_registered_def)
  obtain read where "W_entropy w1 = read @ e1" using NewID_reads [OF e] applyRegistration_reads [OF c1] by auto
  then have "W_keys w' (Realm_ID realm) = Some k \<and> answers_with h now realm k (client_row c2) resp w w'"
    using answers_with_minted [OF mint _ _ _ body _ _ assms(5)] row assms(4) by simp
  with row(3) show ?thesis by (intro exI [of _ "client_row c2"]) simp
qed

lemma clientRepo_Update_stored: "clientRepo_Update db m = Inr db' \<Longrightarrow> client_row m \<in> set (T_client db')"
  by (auto simp: clientRepo_Update_def client_row_def affectedOne_def Let_def filter_empty_conv image_iff split: if_splits)

lemma update_registered_answers:
  assumes "update_registered h hs now realm c0 rep k w1 = Some (resp, w')" "H_store h = sqlite_store" "Resp_Status resp = 200"
    "W_keys w1 (Realm_ID realm) = Some k" "Client_RealmID c0 = Realm_ID realm" "keys_loaded h w w1"
  shows "\<exists>c. W_keys w' (Realm_ID realm) = Some k \<and> answers_with h now realm k c resp w w' \<and> Client_ID c = Client_ID c0"
proof -
  obtain c1 e1 db rat where
    c1: "applyRegistration now c0 rep (W_entropy w1) = Some (Some c1, e1)"
    and db: "clientRepo_Update (W_db w1) c1 = Inr db"
    and mint: "mintRegistrationToken h now realm c1 k (w1\<lparr>W_entropy := e1, W_db := db\<rparr>) = Some (Inr rat, w')"
    and body: "Resp_Body resp = BodyJSON (oidc_client_json (registrationBody h realm c1 rat))"
    using assms(1-3) by (auto simp: update_registered_def Let_def split: option.splits prod.splits sum.splits)
  obtain read where "W_entropy w1 = read @ e1" using applyRegistration_reads [OF c1] by auto
  then have "W_keys w' (Realm_ID realm) = Some k \<and> answers_with h now realm k (client_row c1) resp w w'"
    using answers_with_minted [OF mint _ _ _ body _ _ assms(6)] assms(4,5) applyRegistration_Some [OF c1] clientRepo_Update_stored [OF db]
    by simp
  with applyRegistration_Some [OF c1] show ?thesis by (intro exI [of _ "client_row c1"]) simp
qed

text \<open>
  C16. Registration access tokens are rotated. A create answered with 201 and an update answered with 200 answer
  with the representation of one client: the one the create added, whose identifier no client had, and the one
  the path of the update names. With it comes a registration token signed with the realm's key, and the
  identifier in that token is fresh: it is made from the last randomness the request read, after everything
  else it drew. From then on this client is held by the bearers of a token with that identifier and by nobody
  else: a token the client had before, with another identifier, opens nothing any more.
\<close>

theorem registration_token_rotates:
  assumes "H_store h = sqlite_store" "serve_registration h hs now r op w = Some (resp, w')"
    "Resp_Status resp = 201 \<and> (\<exists>body. op = Register body) \<or> Resp_Status resp = 200 \<and> (\<exists>cid body. op = UpdateClient cid body)"
  shows "\<exists>realm k c. realmRepo_ByName (W_db w) (Rq_Realm r) = Inr realm \<and> W_keys w' (Realm_ID realm) = Some k
    \<and> (case op of
         Register _ \<Rightarrow> \<forall>c' \<in> set (T_client (W_db w)). Client_ID c' \<noteq> Client_ID c
       | UpdateClient cid _ \<Rightarrow>
           \<exists>c0. clientRepo_ByClientID (W_db w) (Realm_ID realm) cid = Inr c0 \<and> Client_ID c = Client_ID c0
       | _ \<Rightarrow> False)
    \<and> answers_with h now realm k c resp w w'"
  using assms(3)
proof (elim disjE conjE exE)
  fix body assume op: "op = Register body" and s: "Resp_Status resp = 201"
  from assms(2) op have "registerClient h hs now r body w = Some (resp, w')" by (simp add: serve_registration_def)
  then show ?thesis using assms(1)
  proof (cases rule: registerClient_run)
    case (run realm rep k w1)
    from create_registered_answers [OF run(5) assms(1) s run(4,6)] quiet_rows [OF run(3)] run(1) op
    show ?thesis by auto
  qed (use s in simp)
next
  fix cid body assume op: "op = UpdateClient cid body" and s: "Resp_Status resp = 200"
  from assms(2) op have "updateRegisteredClient h hs now r cid body w = Some (resp, w')" by (simp add: serve_registration_def)
  then show ?thesis using assms(1)
  proof (cases rule: updateRegisteredClient_run)
    case (run realm c0 rep k w1)
    from update_registered_answers [OF run(6) assms(1) s run(5) _ run(7)] ByClientID_row [OF run(2)] run(1,2) op
    show ?thesis by auto
  qed (use s in simp)
qed

section \<open>Witnesses\<close>

text \<open>A client that updates itself with its registration token.\<close>

definition app_body :: string where
  "app_body = ''{'' @ [CHR 0x22] @ ''client_id'' @ [CHR 0x22] @ '':'' @ [CHR 0x22] @ ''app'' @ [CHR 0x22] @ ''}''"

definition app_request :: "string \<Rightarrow> request" where
  "app_request rat = (demo_post [])\<lparr>Rq_Authorization := ''Bearer '' @ rat\<rparr>"

definition app_world :: "sqlite_db world" where
  "app_world = demo_world\<lparr>W_registrations := [registrationKey ''r1'' ''c1'' \<mapsto> ''j'']\<rparr>"

lemma app_token:
  obtains rat where "registrationBearer (app_request rat) = rat" "rat \<noteq> []"
    "ParseRegistration unary_jose sample_keys ''http://h/realms/demo'' rat = Inr ''j''"
proof -
  obtain rat where i: "IssueRegistration unary_jose sample_keys ''http://h/realms/demo'' ''j'' 0 = Inr rat"
    by (simp add: IssueRegistration_def HMACSigner_def unary_jose_def)
  then obtain n where rat: "rat = jws_tag HS512 # replicate n CHR ''x''"
    by (auto simp: IssueRegistration_def HMACSigner_def unary_jose_def)
  have "trim_space rat = rat"
    unfolding rat by (intro trim_space_ascii) (simp add: jws_tag_def is_space_def list_all_iff)
  then have "registrationBearer (app_request rat) = rat"
    by (simp add: registrationBearer_def app_request_def cut_prefix_def has_prefix_def)
  moreover have "ParseRegistration unary_jose sample_keys ''http://h/realms/demo'' rat = Inr ''j''"
    using issued_registration [OF unary_jose_ok i]
    by (simp add: ParseRegistration_def registration_read_def valid_utf8_ascii ascii_def int64_def unix_seconds_def second_def)
  ultimately show thesis using that rat by blast
qed


lemma app_text: "string_bytes app_body = json_text (JObj [(''client_id'', JStr ''app'')])"
  by code_simp

lemma decode_app: "decode_first app_body = Some (zero_registration\<lparr>RR_ClientID := Some ''app''\<rparr>)"
proof -
  let ?j = "JObj [(''client_id'', JStr ''app'')]"
  have "parse_value (Suc (2 * length (json_text ?j))) maxNestingDepth (json_text ?j @ []) = Some (?j, [])"
    by (rule reads_backD [OF json_reads_back]) (simp_all add: valid_utf8_ascii ascii_def maxNestingDepth_def)
  then have "parse_value (Suc (2 * length (string_bytes app_body))) maxNestingDepth (string_bytes app_body) = Some (?j, [])"
    unfolding app_text append_Nil2 .
  then show ?thesis unfolding decode_first_def Let_def by (simp add: set_registration_def as_string_ptr_def)
qed

lemma app_simps [simp]:
  "W_db app_world = demo_db" "W_keys app_world = [''r1'' \<mapsto> sample_keys]" "W_entropy app_world = replicate 48 7"
  "W_registrations app_world = [registrationKey ''r1'' ''c1'' \<mapsto> ''j'']"
  "Rq_Realm (app_request rat) = ''demo''" "Rq_ContentType (app_request rat) = []"
  by (simp_all add: app_world_def demo_world_def app_request_def demo_post_def)

lemma app_applied:
  "\<exists>c. applyRegistration 0 demo_client (zero_registration\<lparr>RR_ClientID := Some ''app''\<rparr>) e = Some (Some c, e)
    \<and> Client_ClientAuthenticatorType c = authenticatorSecret"
  by (simp add: applyRegistration_def applyRegistrationAuthMethod_def zero_registration_def Let_def demo_client_def zero_client_def)

lemma app_update:
  assumes "registrationBearer (app_request rat) = rat" "rat \<noteq> []"
    "ParseRegistration unary_jose sample_keys ''http://h/realms/demo'' rat = Inr ''j''"
  shows "\<exists>resp w' c. serve_registration demo_server [] 0 (app_request rat) (UpdateClient ''app'' app_body) app_world = Some (resp, w')
    \<and> Resp_Status resp = 200 \<and> T_client (W_db w') = [client_row c] \<and> Client_ID c = ''c1'' \<and> c \<noteq> demo_client
    \<and> client_row c \<noteq> demo_client"
proof -
  let ?rep = "zero_registration\<lparr>RR_ClientID := Some ''app''\<rparr>"
  obtain c where c: "applyRegistration 0 demo_client ?rep (replicate 48 7) = Some (Some c, replicate 48 7)"
    "Client_ClientAuthenticatorType c = authenticatorSecret" using app_applied by blast
  note keep = applyRegistration_Some [OF c(1)]
  have a: "Client_ClientAuthenticatorType (client_row c) = Client_ClientAuthenticatorType c"
    "Client_ClientAuthenticatorType demo_client \<noteq> authenticatorSecret"
    by (simp_all add: client_row_def demo_client_def zero_client_def authenticatorSecret_def)
  have diff: "c \<noteq> demo_client" "client_row c \<noteq> demo_client"
    using c(2) a by (metis)+
  have rows: "T_client demo_db = [demo_client]" "Client_RealmID demo_client = ''r1''" by (simp_all add: demo_db_def demo_client_def)
  obtain db where db: "clientRepo_Update demo_db c = Inr db"
    using keep rows by (auto simp: clientRepo_Update_def affectedOne_def Let_def)
  have t: "T_client db = [client_row c]" using clientRepo_Update_rows [OF db] keep rows by simp
  obtain jti where n: "NewID (replicate 48 7) = Some (jti, drop 16 (replicate 48 7))" using NewID_returns [of "replicate 48 7"] by auto
  obtain rat' where i: "IssueRegistration unary_jose sample_keys ''http://h/realms/demo'' jti 0 = Inr rat'"
    by (simp add: IssueRegistration_def HMACSigner_def unary_jose_def)
  have "\<exists>resp w'. update_registered demo_server [] 0 demo_realm demo_client ?rep sample_keys app_world = Some (resp, w')
      \<and> Resp_Status resp = 200 \<and> W_db w' = db"
    using c(1) db n i by (simp add: update_registered_def mintRegistrationToken_def)
  moreover have "updateRegisteredClient demo_server [] 0 (app_request rat) ''app'' app_body app_world
      = update_registered demo_server [] 0 demo_realm demo_client ?rep sample_keys app_world"
    using assms demo_realm_found demo_client_found
    by (simp add: updateRegisteredClient_def resolveRealm_def decodeRegistration_def registrationConsumes_def decode_app
        authorizeRegistered_def registrationCaller_def realmKeys_cached Let_def registrations_holds_def mayWrite_def)
  ultimately show ?thesis using t keep diff by (auto simp: serve_registration_def)
qed

theorem registration_authority_witness:
  "\<exists>rat resp w'. serve_registration demo_server [] 0 (app_request rat) (UpdateClient ''app'' app_body) app_world = Some (resp, w')
    \<and> client_rows w' ''c1'' \<noteq> client_rows app_world ''c1''
    \<and> (\<exists>c. Client_ID c = ''c1'' \<and> (caller_holds demo_server 0 (app_request rat) demo_realm app_world c
         \<or> caller_role demo_server 0 (app_request rat) demo_realm app_world registrationRoleManage))"
proof -
  obtain rat where rat: "registrationBearer (app_request rat) = rat" "rat \<noteq> []"
    "ParseRegistration unary_jose sample_keys ''http://h/realms/demo'' rat = Inr ''j''" by (rule app_token)
  obtain resp w' c where run: "serve_registration demo_server [] 0 (app_request rat) (UpdateClient ''app'' app_body) app_world = Some (resp, w')"
    "T_client (W_db w') = [client_row c]" "Client_ID c = ''c1''" "client_row c \<noteq> demo_client" using app_update [OF rat] by blast
  have d: "client_rows w' ''c1'' \<noteq> client_rows app_world ''c1''"
    using run by (simp add: client_rows_def demo_db_def)
  from registration_authority [OF _ run(1) d] demo_realm_found
  show ?thesis using run(1) d by auto
qed

theorem registration_type_witness:
  "\<exists>rat resp w' c. serve_registration demo_server [] 0 (app_request rat) (UpdateClient ''app'' app_body) app_world = Some (resp, w')
    \<and> c \<in> set (T_client (W_db w')) \<and> c \<notin> set (T_client (W_db app_world)) \<and> wf_registered c"
proof -
  obtain rat where rat: "registrationBearer (app_request rat) = rat" "rat \<noteq> []"
    "ParseRegistration unary_jose sample_keys ''http://h/realms/demo'' rat = Inr ''j''" by (rule app_token)
  obtain resp w' c where run: "serve_registration demo_server [] 0 (app_request rat) (UpdateClient ''app'' app_body) app_world = Some (resp, w')"
    "T_client (W_db w') = [client_row c]" "client_row c \<noteq> demo_client" using app_update [OF rat] by blast
  then have m: "client_row c \<in> set (T_client (W_db w'))" "client_row c \<notin> set (T_client (W_db app_world))"
    by (simp_all add: demo_db_def)
  have "wf_registered (client_row c)" using registration_type [OF _ run(1) m] by simp
  with run(1) m show ?thesis by blast
qed

theorem registration_token_rotates_witness:
  "\<exists>rat resp w'. serve_registration demo_server [] 0 (app_request rat) (UpdateClient ''app'' app_body) app_world = Some (resp, w')
    \<and> Resp_Status resp = 200
    \<and> (\<exists>k c. Client_ID c = ''c1'' \<and> answers_with demo_server 0 demo_realm k c resp app_world w')"
proof -
  obtain rat where rat: "registrationBearer (app_request rat) = rat" "rat \<noteq> []"
    "ParseRegistration unary_jose sample_keys ''http://h/realms/demo'' rat = Inr ''j''" by (rule app_token)
  obtain resp w' where run: "serve_registration demo_server [] 0 (app_request rat) (UpdateClient ''app'' app_body) app_world = Some (resp, w')"
    "Resp_Status resp = 200" using app_update [OF rat] by blast
  from registration_token_rotates [OF _ run(1)] run(2) demo_realm_found demo_client_found
  have "\<exists>k c. Client_ID c = ''c1'' \<and> answers_with demo_server 0 demo_realm k c resp app_world w'"
    by (auto simp: demo_client_def)
  then show ?thesis using run by blast
qed

end
