(* ===== verification/AdminAuth.thy ===== *)
theory AdminAuth
  imports Registration
begin

text \<open>
  Who may call the Admin REST interface: \<^verbatim>\<open>internal/admin/auth.go\<close> and the route guards of
  \<^verbatim>\<open>internal/admin/router.go\<close> the role endpoints use. A caller is resolved from its token through its session
  to its user, and its rights are the names of the roles it has on the one client that administers the realm
  of the request. The sets the code memoises on the caller are computed where they are asked for. The parts of
  the path other than the realm are arguments of the guards and handlers that read them.
\<close>

section \<open>Answers\<close>

definition writeUnauthorized :: "headers \<Rightarrow> response" where
  "writeUnauthorized hs = WriteMessageError hs 401 ''HTTP 401 Unauthorized''"

definition writeForbidden :: "headers \<Rightarrow> response" where
  "writeForbidden hs = WriteMessageError hs 403 ''HTTP 403 Forbidden''"

definition writeRealmNotFound :: "headers \<Rightarrow> response" where
  "writeRealmNotFound hs = WriteMessageError hs 404 ''Realm not found.''"

definition writeUserNotFound :: "headers \<Rightarrow> response" where
  "writeUserNotFound hs = WriteMessageError hs 404 ''User not found''"

definition writeGroupNotFound :: "headers \<Rightarrow> response" where
  "writeGroupNotFound hs = WriteMessageError hs 404 ''Could not find group by id''"

definition writeMappingClientNotFound :: "headers \<Rightarrow> response" where
  "writeMappingClientNotFound hs = WriteMessageError hs 404 ''Client not found''"

definition writeRoleIDNotFound :: "headers \<Rightarrow> response" where
  "writeRoleIDNotFound hs = WriteMessageError hs 404 ''Could not find role with id''"

section \<open>The caller\<close>

record caller =
  Cl_user :: user
  Cl_adminGrants :: "string list"
  Cl_authRealm :: realm
  Cl_effective :: "role list"
  Cl_held :: "role list"
  Cl_container :: "client option"

definition caller_has :: "caller \<Rightarrow> string \<Rightarrow> bool" where
  "caller_has c role \<longleftrightarrow> role \<in> set (Cl_adminGrants c)"

definition hasAny :: "caller \<Rightarrow> string list \<Rightarrow> bool" where
  "hasAny c roles \<longleftrightarrow> list_ex (caller_has c) roles"

definition masterContainerFor :: "string \<Rightarrow> string" where
  "masterContainerFor realm = (if realm = MasterRealmName then ''master-realm'' else realm @ ''-realm'')"

definition containerRoleNames :: "client option \<Rightarrow> role list \<Rightarrow> string list" where
  "containerRoleNames container roles = (case container of
       None \<Rightarrow> []
     | Some c \<Rightarrow> map Role_Name (filter (\<lambda>role. Role_ClientID role = Client_ID c) roles))"

definition adminRoleNames :: "realm \<Rightarrow> client option \<Rightarrow> role list \<Rightarrow> string list" where
  "adminRoleNames authRealm container roles =
    (let out = containerRoleNames container roles
     in if Realm_Name authRealm \<noteq> MasterRealmName then out
        else out @ map Role_Name (filter (\<lambda>role. Role_ClientID role = []
               \<and> (Role_Name role = ''admin'' \<or> Role_Name role = ''create-realm'')) roles))"

definition caller_names :: "caller \<Rightarrow> string list" where
  "caller_names c = adminRoleNames (Cl_authRealm c) (Cl_container c) (Cl_held c)"

definition hasAnyHeld :: "caller \<Rightarrow> string list \<Rightarrow> bool" where
  "hasAnyHeld c roles \<longleftrightarrow> list_ex (\<lambda>role. role \<in> set (caller_names c)) roles"

definition implication_table :: "(string \<times> string list) list" where
  "implication_table =
    [(''manage-realm'', [''view-realm'', ''manage-organizations'']),
     (''manage-clients'', [''view-clients'', ''create-client'', ''manage-authorization'', ''query-groups'',
        ''query-organizations'', ''query-realms'', ''query-users'']),
     (''manage-users'', [''view-users'', ''query-clients'', ''query-organizations'', ''query-realms'']),
     (''manage-organizations'', [''view-organizations'']),
     (''manage-authorization'', [''view-authorization'']),
     (''manage-events'', [''view-events'']),
     (''manage-identity-providers'', [''view-identity-providers'']),
     (''view-clients'', [''view-authorization'', ''query-clients'']),
     (''view-users'', [''query-users'', ''query-groups'']),
     (''view-organizations'', [''query-organizations''])]"

definition adminRoleImplications :: "string \<Rightarrow> string list" where
  "adminRoleImplications name = (case map_of implication_table name of None \<Rightarrow> [] | Some ns \<Rightarrow> ns)"

text \<open>
  \<^verbatim>\<open>implies\<close> with the names its recursion has still to visit as a stack: a name already granted is skipped,
  another is granted and what it confers is visited before the rest.
\<close>

lemma implications_finite: "finite {n. adminRoleImplications n \<noteq> []}"
proof (rule finite_subset)
  show "{n. adminRoleImplications n \<noteq> []} \<subseteq> fst ` set implication_table"
  proof
    fix n assume "n \<in> {n. adminRoleImplications n \<noteq> []}"
    then have "map_of implication_table n \<noteq> None" by (auto simp: adminRoleImplications_def split: option.splits)
    then show "n \<in> fst ` set implication_table" by (simp add: map_of_eq_None_iff)
  qed
qed simp

function caller_implies :: "string list \<Rightarrow> string list \<Rightarrow> string list" where
  "caller_implies granted [] = granted"
| "caller_implies granted (name # rest) =
    (if name \<in> set granted then caller_implies granted rest
     else caller_implies (name # granted) (adminRoleImplications name @ rest))"
  by pat_completeness auto
termination
proof (relation "measures [\<lambda>(g, ns). card ({n. adminRoleImplications n \<noteq> []} - set g), \<lambda>(g, ns). length ns]",
    goal_cases)
  case (3 granted name rest)
  let ?U = "{n. adminRoleImplications n \<noteq> []}"
  show ?case
  proof (cases "adminRoleImplications name = []")
    case True
    then have "?U - set (name # granted) = ?U - set granted" by auto
    with True show ?thesis by simp
  next
    case False
    with 3 have "?U - set (name # granted) \<subset> ?U - set granted" by auto
    then have "card (?U - set (name # granted)) < card (?U - set granted)"
      by (intro psubset_card_mono) (auto simp: implications_finite)
    then show ?thesis by simp
  qed
qed simp_all

definition caller_grants :: "caller \<Rightarrow> string list" where
  "caller_grants c = caller_implies [] (caller_names c)"

definition adminRealmOf :: "string \<Rightarrow> string \<Rightarrow> string" where
  "adminRealmOf realmName clientID =
    (if clientID = AdminContainerFor realmName then realmName
     else (let (owner, ok) = cut_suffix clientID ''-realm'' in if ok \<and> owner \<noteq> [] then owner else []))"

definition containerFor :: "'db server \<Rightarrow> 'db \<Rightarrow> realm \<Rightarrow> string \<Rightarrow> client option st" where
  "containerFor h db authRealm targetRealm =
    (let look = (\<lambda>name. case ClientRepo_ByClientID (Store_Clients (H_store h)) db (Realm_ID authRealm) name of
           Inl err \<Rightarrow> if err = ErrNotFound then Inr None else Inl err
         | Inr c \<Rightarrow> Inr (Some c))
     in if Realm_Name authRealm = MasterRealmName then look (masterContainerFor targetRealm)
        else if Realm_Name authRealm = targetRealm then look (AdminContainerFor targetRealm)
        else Inr None)"

definition foreignGrants :: "caller \<Rightarrow> client option \<Rightarrow> string list" where
  "foreignGrants c container = (case container of
       None \<Rightarrow> []
     | Some cl \<Rightarrow> map Role_Name (filter (\<lambda>role. Role_ClientID role = Client_ID cl) (Cl_held c)))"

definition mayGrantRole :: "'db server \<Rightarrow> 'db \<Rightarrow> realm \<Rightarrow> caller \<Rightarrow> role \<Rightarrow> bool st" where
  "mayGrantRole h db realm c role =
    (if Role_ClientID role = []
     then if Role_Name role \<in> set (caller_grants c) then Inr True
          else Inr (Role_Name role \<noteq> ''admin'' \<and> Role_Name role \<noteq> ''create-realm'')
     else bind_err (ClientRepo_ByID (Store_Clients (H_store h)) db (Realm_ID realm) (Role_ClientID role)) (\<lambda>container.
       let owner = adminRealmOf (Realm_Name realm) (Client_ClientID container)
       in if owner = [] then Inr True
          else if owner = Realm_Name realm then Inr (Role_Name role \<in> set (caller_grants c))
          else bind_err (containerFor h db (Cl_authRealm c) owner) (\<lambda>ownerContainer.
            Inr (Role_Name role \<in> set (foreignGrants c ownerContainer)))))"

section \<open>Resolving the caller\<close>

definition admin_bearerToken :: "request \<Rightarrow> string" where
  "admin_bearerToken r = (let (after, ok) = cut_prefix (Rq_Authorization r) ''Bearer '' in if ok then trim_space after else [])"

definition authenticate ::
  "'db server \<Rightarrow> headers \<Rightarrow> time \<Rightarrow> string \<Rightarrow> 'db world \<Rightarrow> (realm \<Rightarrow> user \<Rightarrow> parsed \<Rightarrow> 'db world \<Rightarrow> 'db outcome) \<Rightarrow> 'db outcome" where
  "authenticate h hs now raw w f =
    (let refuse = (\<lambda>w. Some (writeUnauthorized hs, w))
     in case UnverifiedIssuer raw of
          Inl _ \<Rightarrow> refuse w
        | Inr iss \<Rightarrow>
            (let (name, ok) = cut_prefix iss (H_issuerBase h @ ''/realms/'')
             in if \<not> ok \<or> name = [] \<or> contains name ''/'' then refuse w
                else (case RealmRepo_ByName (Store_Realms (H_store h)) (W_db w) name of
                        Inl _ \<Rightarrow> refuse w
                      | Inr authRealm \<Rightarrow>
                          realmKeys h hs now authRealm w (\<lambda>k w.
                            case ParseAccess (H_jose h) k (realmIssuer h (Realm_Name authRealm)) raw now of
                              Inl _ \<Rightarrow> refuse w
                            | Inr parsed \<Rightarrow>
                                (case SessionRepo_UserSessionByID (Store_Sessions (H_store h)) (W_db w)
                                        (Realm_ID authRealm) (Parsed_SessionID parsed) of
                                   Inl _ \<Rightarrow> refuse w
                                 | Inr session \<Rightarrow>
                                     (case UserRepo_ByID (Store_Users (H_store h)) (W_db w) (Realm_ID authRealm) (US_UserID session) of
                                        Inl _ \<Rightarrow> refuse w
                                      | Inr user \<Rightarrow> if \<not> User_Enabled user then refuse w else f authRealm user parsed w))))))"

definition inTokenScope ::
  "'db server \<Rightarrow> headers \<Rightarrow> realm \<Rightarrow> parsed \<Rightarrow> role list \<Rightarrow> 'db world \<Rightarrow> (role list \<Rightarrow> 'db outcome) \<Rightarrow> 'db outcome" where
  "inTokenScope h hs authRealm parsed held w f =
    (case ClientRepo_ByClientID (Store_Clients (H_store h)) (W_db w) (Realm_ID authRealm) (Parsed_ClientID parsed) of
       Inl err \<Rightarrow> if err = ErrNotFound then Some (writeUnauthorized hs, w) else Some (internal_error hs, w)
     | Inr client \<Rightarrow>
         (case ScopesInEffect (Store_ClientScopes (H_store h)) (W_db w) client (Parsed_Scope parsed) of
            Inl _ \<Rightarrow> Some (internal_error hs, w)
          | Inr scopes \<Rightarrow>
              (case InScope (Store_Roles (H_store h)) (W_db w) client scopes of
                 None \<Rightarrow> None
               | Some (Inl _) \<Rightarrow> Some (internal_error hs, w)
               | Some (Inr inScope) \<Rightarrow> f (Filter held inScope))))"

definition resolveCaller ::
  "'db server \<Rightarrow> headers \<Rightarrow> time \<Rightarrow> request \<Rightarrow> realm option \<Rightarrow> 'db world \<Rightarrow> (caller \<Rightarrow> 'db world \<Rightarrow> 'db outcome) \<Rightarrow> 'db outcome" where
  "resolveCaller h hs now r realm w f =
    (let raw = admin_bearerToken r
     in if raw = [] then Some (writeUnauthorized hs, w)
        else authenticate h hs now raw w (\<lambda>authRealm user parsed w.
          case Effective (Store_Roles (H_store h)) (W_db w) (User_ID user) of
            None \<Rightarrow> None
          | Some (Inl _) \<Rightarrow> Some (internal_error hs, w)
          | Some (Inr held) \<Rightarrow>
              inTokenScope h hs authRealm parsed held w (\<lambda>effective.
                case (case realm of None \<Rightarrow> Inr None | Some rl \<Rightarrow> containerFor h (W_db w) authRealm (Realm_Name rl)) of
                  Inl _ \<Rightarrow> Some (internal_error hs, w)
                | Inr container \<Rightarrow>
                    f \<lparr>Cl_user = user, Cl_adminGrants = adminRoleNames authRealm container effective,
                       Cl_authRealm = authRealm, Cl_effective = effective, Cl_held = held, Cl_container = container\<rparr> w)))"

section \<open>The guards\<close>

definition admin_resolveRealm ::
  "'db server \<Rightarrow> headers \<Rightarrow> string \<Rightarrow> 'db world \<Rightarrow> (realm \<Rightarrow> 'db outcome) \<Rightarrow> 'db outcome" where
  "admin_resolveRealm h hs name w f =
    (case RealmRepo_ByName (Store_Realms (H_store h)) (W_db w) name of
       Inl err \<Rightarrow> if err = ErrNotFound then Some (writeRealmNotFound hs, w) else Some (internal_error hs, w)
     | Inr realm \<Rightarrow> f realm)"

record req_context =
  RQ_realm :: realm
  RQ_caller :: caller
  RQ_subject :: "user option"

definition usersReadRoles :: "string list" where "usersReadRoles = [''view-users'', ''query-users'', ''manage-users'']"
definition userMappingsReadRoles :: "string list" where "userMappingsReadRoles = [''view-users'', ''manage-users'']"
definition userMappingsWriteRole :: string where "userMappingsWriteRole = ''manage-users''"
definition userMappingsWriteRoles :: "string list" where "userMappingsWriteRoles = [userMappingsWriteRole]"

type_synonym 'db route = "req_context \<Rightarrow> 'db world \<Rightarrow> 'db outcome"

definition resolved ::
  "'db server \<Rightarrow> headers \<Rightarrow> time \<Rightarrow> request \<Rightarrow> 'db world \<Rightarrow> (realm \<Rightarrow> caller \<Rightarrow> 'db world \<Rightarrow> 'db outcome) \<Rightarrow> 'db outcome" where
  "resolved h hs now r w f =
    admin_resolveRealm h hs (Rq_Realm r) w (\<lambda>realm. resolveCaller h hs now r (Some realm) w (f realm))"

definition guardAnyRejecting ::
  "'db server \<Rightarrow> headers \<Rightarrow> time \<Rightarrow> request \<Rightarrow> string list \<Rightarrow> response \<Rightarrow> 'db route \<Rightarrow> 'db world \<Rightarrow> 'db outcome" where
  "guardAnyRejecting h hs now r roles reject f w =
    resolved h hs now r w (\<lambda>realm c w.
      if \<not> hasAny c roles then Some (reject, w)
      else f \<lparr>RQ_realm = realm, RQ_caller = c, RQ_subject = None\<rparr> w)"

definition guardRejecting ::
  "'db server \<Rightarrow> headers \<Rightarrow> time \<Rightarrow> request \<Rightarrow> string \<Rightarrow> response \<Rightarrow> 'db route \<Rightarrow> 'db world \<Rightarrow> 'db outcome" where
  "guardRejecting h hs now r role reject = guardAnyRejecting h hs now r [role] reject"

definition guard :: "'db server \<Rightarrow> headers \<Rightarrow> time \<Rightarrow> request \<Rightarrow> string \<Rightarrow> 'db route \<Rightarrow> 'db world \<Rightarrow> 'db outcome" where
  "guard h hs now r role = guardRejecting h hs now r role (writeForbidden hs)"

definition guardAny :: "'db server \<Rightarrow> headers \<Rightarrow> time \<Rightarrow> request \<Rightarrow> string list \<Rightarrow> 'db route \<Rightarrow> 'db world \<Rightarrow> 'db outcome" where
  "guardAny h hs now r roles = guardAnyRejecting h hs now r roles (writeForbidden hs)"

definition userFromPath ::
  "'db server \<Rightarrow> headers \<Rightarrow> string \<Rightarrow> req_context \<Rightarrow> 'db world \<Rightarrow> (user \<Rightarrow> 'db outcome) \<Rightarrow> 'db outcome" where
  "userFromPath h hs userID rc w f = (case RQ_subject rc of
       Some user \<Rightarrow> f user
     | None \<Rightarrow>
         (case UserRepo_ByID (Store_Users (H_store h)) (W_db w) (Realm_ID (RQ_realm rc)) userID of
            Inl err \<Rightarrow> if err = ErrNotFound then Some (writeUserNotFound hs, w) else Some (internal_error hs, w)
          | Inr user \<Rightarrow> f user))"

definition mappingClientFromPath ::
  "'db server \<Rightarrow> headers \<Rightarrow> string \<Rightarrow> req_context \<Rightarrow> 'db world \<Rightarrow> (client \<Rightarrow> 'db outcome) \<Rightarrow> 'db outcome" where
  "mappingClientFromPath h hs clientUUID rc w f =
    (case ClientRepo_ByID (Store_Clients (H_store h)) (W_db w) (Realm_ID (RQ_realm rc)) clientUUID of
       Inl err \<Rightarrow> if err = ErrNotFound then Some (writeMappingClientNotFound hs, w) else Some (internal_error hs, w)
     | Inr c \<Rightarrow> f c)"

definition guardUserSubjectResolving ::
  "'db server \<Rightarrow> headers \<Rightarrow> time \<Rightarrow> request \<Rightarrow> string \<Rightarrow> 'db route \<Rightarrow> 'db world \<Rightarrow> 'db outcome" where
  "guardUserSubjectResolving h hs now r userID f =
    guardAnyRejecting h hs now r usersReadRoles (writeForbidden hs) (\<lambda>rc w.
      userFromPath h hs userID rc w (\<lambda>user. f (rc\<lparr>RQ_subject := Some user\<rparr>) w))"

definition guardUserSubject ::
  "'db server \<Rightarrow> headers \<Rightarrow> time \<Rightarrow> request \<Rightarrow> string \<Rightarrow> string list \<Rightarrow> 'db route \<Rightarrow> 'db world \<Rightarrow> 'db outcome" where
  "guardUserSubject h hs now r userID fine f =
    guardUserSubjectResolving h hs now r userID (\<lambda>rc w.
      if \<not> hasAny (RQ_caller rc) fine then Some (writeForbidden hs, w) else f rc w)"

definition guardUserSubjectClient ::
  "'db server \<Rightarrow> headers \<Rightarrow> time \<Rightarrow> request \<Rightarrow> string \<Rightarrow> string \<Rightarrow> string list \<Rightarrow> 'db route \<Rightarrow> 'db world \<Rightarrow> 'db outcome" where
  "guardUserSubjectClient h hs now r userID clientUUID fine f w =
    resolved h hs now r w (\<lambda>realm c w.
      case UserRepo_ByID (Store_Users (H_store h)) (W_db w) (Realm_ID realm) userID of
        Inl err \<Rightarrow>
          if err = ErrNotFound
          then Some (if \<not> hasAny c usersReadRoles then writeForbidden hs else writeUserNotFound hs, w)
          else Some (internal_error hs, w)
      | Inr user \<Rightarrow>
          (let rc = \<lparr>RQ_realm = realm, RQ_caller = c, RQ_subject = Some user\<rparr>
           in mappingClientFromPath h hs clientUUID rc w (\<lambda>_.
                if \<not> hasAny c fine then Some (writeForbidden hs, w) else f rc w)))"

text \<open>\<open>groupByID\<close> is \<^verbatim>\<open>Groups().ByID\<close> of the store.\<close>

definition guardGroupResolving ::
  "('db \<Rightarrow> string \<Rightarrow> string \<Rightarrow> group st) \<Rightarrow> 'db server \<Rightarrow> headers \<Rightarrow> time \<Rightarrow> request \<Rightarrow> string
     \<Rightarrow> (group \<Rightarrow> 'db route) \<Rightarrow> 'db world \<Rightarrow> 'db outcome" where
  "guardGroupResolving groupByID h hs now r groupID f w =
    resolved h hs now r w (\<lambda>realm c w.
      case groupByID (W_db w) (Realm_ID realm) groupID of
        Inl err \<Rightarrow> if err = ErrNotFound then Some (writeGroupNotFound hs, w) else Some (internal_error hs, w)
      | Inr g \<Rightarrow> f g \<lparr>RQ_realm = realm, RQ_caller = c, RQ_subject = None\<rparr> w)"

definition guardGroup ::
  "('db \<Rightarrow> string \<Rightarrow> string \<Rightarrow> group st) \<Rightarrow> 'db server \<Rightarrow> headers \<Rightarrow> time \<Rightarrow> request \<Rightarrow> string \<Rightarrow> string list
     \<Rightarrow> (group \<Rightarrow> 'db route) \<Rightarrow> 'db world \<Rightarrow> 'db outcome" where
  "guardGroup groupByID h hs now r groupID fine f =
    guardGroupResolving groupByID h hs now r groupID (\<lambda>g rc w.
      if \<not> hasAny (RQ_caller rc) fine then Some (writeForbidden hs, w) else f g rc w)"

definition guardGroupClient ::
  "('db \<Rightarrow> string \<Rightarrow> string \<Rightarrow> group st) \<Rightarrow> 'db server \<Rightarrow> headers \<Rightarrow> time \<Rightarrow> request \<Rightarrow> string \<Rightarrow> string \<Rightarrow> string list
     \<Rightarrow> (group \<Rightarrow> 'db route) \<Rightarrow> 'db world \<Rightarrow> 'db outcome" where
  "guardGroupClient groupByID h hs now r groupID clientUUID fine f =
    guardGroupResolving groupByID h hs now r groupID (\<lambda>g rc w.
      mappingClientFromPath h hs clientUUID rc w (\<lambda>_.
        if \<not> hasAny (RQ_caller rc) fine then Some (writeForbidden hs, w) else f g rc w))"

text \<open>
  The organizations of a realm: \<open>Orgs_ByID\<close> is \<^verbatim>\<open>Organizations().ByID\<close> of the store, and \<open>Orgs_Enabled\<close> is
  \<^verbatim>\<open>organizationsEnabled\<close>, the flag among the settings of the realm.
\<close>

record organization_domain =
  Domain_Name :: string
  Domain_Verified :: bool

record organization_attribute =
  OrgAttr_Name :: string
  OrgAttr_Values :: "string list"

record organization =
  Org_ID :: string
  Org_RealmID :: string
  Org_Name :: string
  Org_Alias :: string
  Org_Enabled :: bool
  Org_Description :: "string option"
  Org_RedirectURL :: string
  Org_Domains :: "organization_domain list"
  Org_Attributes :: "organization_attribute list"

record 'db organizations =
  Orgs_Enabled :: "realm \<Rightarrow> bool"
  Orgs_ByID :: "'db \<Rightarrow> string \<Rightarrow> string \<Rightarrow> organization st"

definition organizationReadRoles :: "string list" where
  "organizationReadRoles = [''view-organizations'', ''manage-organizations'', ''manage-realm'']"

definition organizationWriteRoles :: "string list" where
  "organizationWriteRoles = [''manage-organizations'', ''manage-realm'']"

definition writeOrganizationNotFound :: "headers \<Rightarrow> response" where
  "writeOrganizationNotFound hs = WriteAdminError hs 404 ''Organization not found.''"

definition writeOrganizationsNotEnabled :: "headers \<Rightarrow> response" where
  "writeOrganizationsNotEnabled hs = WriteAdminError hs 404 ''Organizations not enabled for this realm.''"

definition writeOrganizationGroupNotFound :: "headers \<Rightarrow> response" where
  "writeOrganizationGroupNotFound hs = WriteAdminError hs 404 ''Group does not exist''"

definition guardOrganizations ::
  "'db organizations \<Rightarrow> 'db server \<Rightarrow> headers \<Rightarrow> time \<Rightarrow> request \<Rightarrow> string list \<Rightarrow> 'db route \<Rightarrow> 'db world \<Rightarrow> 'db outcome" where
  "guardOrganizations orgs h hs now r roles f =
    guardAny h hs now r roles (\<lambda>rc w.
      if \<not> Orgs_Enabled orgs (RQ_realm rc) then Some (writeOrganizationsNotEnabled hs, w) else f rc w)"

definition organizationFromPath ::
  "'db organizations \<Rightarrow> headers \<Rightarrow> string \<Rightarrow> req_context \<Rightarrow> 'db world \<Rightarrow> (organization \<Rightarrow> 'db outcome) \<Rightarrow> 'db outcome" where
  "organizationFromPath orgs hs orgID rc w f =
    (case Orgs_ByID orgs (W_db w) (Realm_ID (RQ_realm rc)) orgID of
       Inl err \<Rightarrow> if err = ErrNotFound then Some (writeOrganizationNotFound hs, w) else Some (internal_error hs, w)
     | Inr o' \<Rightarrow> f o')"

definition guardOrganization ::
  "'db organizations \<Rightarrow> 'db server \<Rightarrow> headers \<Rightarrow> time \<Rightarrow> request \<Rightarrow> string \<Rightarrow> string list
     \<Rightarrow> (organization \<Rightarrow> 'db route) \<Rightarrow> 'db world \<Rightarrow> 'db outcome" where
  "guardOrganization orgs h hs now r orgID roles f =
    guardOrganizations orgs h hs now r roles (\<lambda>rc w. organizationFromPath orgs hs orgID rc w (\<lambda>o'. f o' rc w))"

definition organizationGroupFromPath ::
  "('db \<Rightarrow> string \<Rightarrow> string \<Rightarrow> group st) \<Rightarrow> headers \<Rightarrow> string \<Rightarrow> organization \<Rightarrow> req_context \<Rightarrow> 'db world
     \<Rightarrow> (group \<Rightarrow> 'db outcome) \<Rightarrow> 'db outcome" where
  "organizationGroupFromPath groupByID hs groupID o' rc w f =
    (case groupByID (W_db w) (Realm_ID (RQ_realm rc)) groupID of
       Inl err \<Rightarrow> if err = ErrNotFound then Some (writeOrganizationGroupNotFound hs, w) else Some (internal_error hs, w)
     | Inr g \<Rightarrow>
         if Group_OrganizationID g \<noteq> Org_ID o'
         then Some (WriteAdminError hs 400 ''Group does not belong to the organization'', w)
         else f g)"

text \<open>For the routes that write; the guard sends a GET of the group \<^verbatim>\<open>group-by-path\<close> elsewhere.\<close>

definition guardOrganizationGroupOf ::
  "('db \<Rightarrow> string \<Rightarrow> string \<Rightarrow> group st) \<Rightarrow> 'db organizations \<Rightarrow> 'db server \<Rightarrow> headers \<Rightarrow> time \<Rightarrow> request \<Rightarrow> string \<Rightarrow> string
     \<Rightarrow> string list \<Rightarrow> (organization \<Rightarrow> group \<Rightarrow> 'db route) \<Rightarrow> 'db world \<Rightarrow> 'db outcome" where
  "guardOrganizationGroupOf groupByID orgs h hs now r orgID groupID roles f =
    guardOrganization orgs h hs now r orgID organizationReadRoles (\<lambda>o' rc w.
      organizationGroupFromPath groupByID hs groupID o' rc w (\<lambda>g.
        if \<not> hasAny (RQ_caller rc) roles then Some (writeForbidden hs, w) else f o' g rc w))"

definition guardOrganizationGroup ::
  "('db \<Rightarrow> string \<Rightarrow> string \<Rightarrow> group st) \<Rightarrow> 'db organizations \<Rightarrow> 'db server \<Rightarrow> headers \<Rightarrow> time \<Rightarrow> request \<Rightarrow> string \<Rightarrow> string
     \<Rightarrow> string list \<Rightarrow> (group \<Rightarrow> 'db route) \<Rightarrow> 'db world \<Rightarrow> 'db outcome" where
  "guardOrganizationGroup groupByID orgs h hs now r orgID groupID roles f =
    guardOrganizationGroupOf groupByID orgs h hs now r orgID groupID roles (\<lambda>_ g. f g)"

definition guardByRoleContainer ::
  "'db server \<Rightarrow> headers \<Rightarrow> time \<Rightarrow> request \<Rightarrow> string \<Rightarrow> string list \<Rightarrow> string list \<Rightarrow> (role \<Rightarrow> 'db route) \<Rightarrow> 'db world \<Rightarrow> 'db outcome" where
  "guardByRoleContainer h hs now r roleID realmRoles clientRoles f w =
    resolved h hs now r w (\<lambda>realm c w.
      case RoleRepo_ByID (Store_Roles (H_store h)) (W_db w) (Realm_ID realm) roleID of
        Inl err \<Rightarrow> if err = ErrNotFound then Some (writeRoleIDNotFound hs, w) else Some (internal_error hs, w)
      | Inr role \<Rightarrow>
          if \<not> hasAny c (if Role_ClientID role \<noteq> [] then clientRoles else realmRoles) then Some (writeForbidden hs, w)
          else f role \<lparr>RQ_realm = realm, RQ_caller = c, RQ_subject = None\<rparr> w)"

section \<open>What a caller may hand out\<close>

definition confers :: "(string \<times> string) set" where
  "confers = {(n, m). m \<in> set (adminRoleImplications n)}"

lemma implies_closure: "set (caller_implies granted ns) \<subseteq> confers\<^sup>* `` (set granted \<union> set ns)"
proof (induction granted ns rule: caller_implies.induct)
  case (2 granted name rest)
  have sub: "confers\<^sup>* `` (set (name # granted) \<union> set (adminRoleImplications name @ rest))
      \<subseteq> confers\<^sup>* `` (set granted \<union> set (name # rest))"
    by (auto simp: confers_def intro: converse_rtrancl_into_rtrancl)
  show ?case
  proof (cases "name \<in> set granted")
    case True
    with 2(1) show ?thesis by auto
  next
    case False
    from order_trans [OF 2(2) [OF False] sub] False show ?thesis by (simp del: set_simps set_append)
  qed
qed auto

lemma implies_grows: "set granted \<union> set ns \<subseteq> set (caller_implies granted ns)"
  by (induction granted ns rule: caller_implies.induct) auto

text \<open>What has been visited is closed but for what is still on the stack.\<close>

lemma implies_closed:
  "confers `` set granted \<subseteq> set granted \<union> set ns \<Longrightarrow> confers `` set (caller_implies granted ns) \<subseteq> set (caller_implies granted ns)"
proof (induction granted ns rule: caller_implies.induct)
  case (2 granted name rest)
  show ?case
  proof (cases "name \<in> set granted")
    case True
    with 2(1,3) show ?thesis by auto
  next
    case False
    have "confers `` set (name # granted) \<subseteq> set (name # granted) \<union> set (adminRoleImplications name @ rest)"
      using 2(3) by (auto simp: confers_def)
    with False 2(2) show ?thesis by simp
  qed
qed simp

lemma caller_grants_closure: "set (caller_grants c) = confers\<^sup>* `` set (caller_names c)"
proof
  show "set (caller_grants c) \<subseteq> confers\<^sup>* `` set (caller_names c)"
    using implies_closure [of "[]" "caller_names c"] by (simp add: caller_grants_def)
  have "confers `` set (caller_grants c) \<subseteq> set (caller_grants c)"
    unfolding caller_grants_def by (rule implies_closed) simp
  then have "confers\<^sup>* `` set (caller_grants c) = set (caller_grants c)" by (rule Image_closed_trancl)
  moreover have "set (caller_names c) \<subseteq> set (caller_grants c)"
    using implies_grows [of "[]" "caller_names c"] by (simp add: caller_grants_def)
  ultimately show "confers\<^sup>* `` set (caller_names c) \<subseteq> set (caller_grants c)" by blast
qed

end
