(* ===== verification/AdminRoles.thy ===== *)
theory AdminRoles
  imports AdminAuth
begin

text \<open>
  The role endpoints of the Admin REST interface: \<^verbatim>\<open>internal/admin/roles.go\<close>, \<^verbatim>\<open>rolemappings.go\<close>,
  \<^verbatim>\<open>groupmappings.go\<close> and the representations of \<^verbatim>\<open>representation.go\<close> they send and read. A handler takes the
  parts of the path and the body it reads as arguments; \<open>route_*\<close> is a handler behind the guard the router
  registers it with.
\<close>

section \<open>Representations\<close>

record role_representation =
  RP_ID :: string
  RP_Name :: string
  RP_Description :: string
  RP_Composite :: bool
  RP_ClientRole :: bool
  RP_ContainerID :: string
  RP_Attributes :: "string list smap option"

definition zero_role_representation :: role_representation where
  "zero_role_representation = \<lparr>RP_ID = [], RP_Name = [], RP_Description = [], RP_Composite = False,
     RP_ClientRole = False, RP_ContainerID = [], RP_Attributes = None\<rparr>"

definition roleRepresentationOf :: "role \<Rightarrow> string \<Rightarrow> bool \<Rightarrow> role_representation" where
  "roleRepresentationOf r containerID brief =
    \<lparr>RP_ID = Role_ID r, RP_Name = Role_Name r, RP_Description = Role_Description r, RP_Composite = Role_Composite r,
     RP_ClientRole = (Role_ClientID r \<noteq> []), RP_ContainerID = containerID,
     RP_Attributes = (if brief then None else Some (Role_Attributes r))\<rparr>"

text \<open>\<^verbatim>\<open>encoding/json\<close> writes the keys of a map in order.\<close>

definition role_representation_json :: "role_representation \<Rightarrow> json" where
  "role_representation_json rep = JObj (
     [(''id'', JStr (RP_ID rep)), (''name'', JStr (RP_Name rep))] @ omit_str ''description'' (RP_Description rep)
     @ [(''composite'', JBool (RP_Composite rep)), (''clientRole'', JBool (RP_ClientRole rep)),
        (''containerId'', JStr (RP_ContainerID rep))]
     @ (case RP_Attributes rep of
          None \<Rightarrow> []
        | Some m \<Rightarrow> [(''attributes'', JObj (map (\<lambda>(k, vs). (k, json_strings vs)) (sort_key fst m)))]))"

definition briefRoles :: "url_values \<Rightarrow> bool" where
  "briefRoles q \<longleftrightarrow> values_get q ''briefRepresentation'' \<noteq> ''false''"

definition writeAdminJSON :: "headers \<Rightarrow> json \<Rightarrow> response" where
  "writeAdminJSON hs body = WriteJSONCharset (header_Set hs ''Cache-Control'' ''no-cache'') 200 body"

section \<open>Bodies\<close>

text \<open>
  The value \<^verbatim>\<open>json.Decoder.Decode\<close> reads: what follows an object or an array is not looked at, what follows
  another value has to be white space or the end.
\<close>

definition next_json :: "string \<Rightarrow> json option" where
  "next_json body =
    (let bs = string_bytes body
     in case parse_value (Suc (2 * length bs)) maxNestingDepth bs of
          None \<Rightarrow> None
        | Some (v, rest) \<Rightarrow>
            (case v of
               JObj _ \<Rightarrow> Some v
             | JArr _ \<Rightarrow> Some v
             | _ \<Rightarrow> if rest = [] \<or> skip_space rest \<noteq> rest then Some v else None))"

definition as_bool :: "bool \<Rightarrow> json \<Rightarrow> bool option" where
  "as_bool old v = (case v of JBool b \<Rightarrow> Some b | JNull \<Rightarrow> Some old | _ \<Rightarrow> None)"

fun as_string_lists :: "string list smap \<Rightarrow> (string \<times> json) list \<Rightarrow> string list smap option" where
  "as_string_lists m [] = Some m"
| "as_string_lists m ((k, v) # ps) =
    (case v of
       JNull \<Rightarrow> as_string_lists ((k, []) # filter (\<lambda>p. fst p \<noteq> k) m) ps
     | JArr vs \<Rightarrow>
         (case slice_elems [] vs of
            None \<Rightarrow> None
          | Some xs \<Rightarrow> as_string_lists ((k, xs) # filter (\<lambda>p. fst p \<noteq> k) m) ps)
     | _ \<Rightarrow> None)"

definition as_attributes :: "string list smap option \<Rightarrow> json \<Rightarrow> string list smap option option" where
  "as_attributes old v = (case v of
       JNull \<Rightarrow> Some None
     | JObj ps \<Rightarrow> map_option Some (as_string_lists (case old of None \<Rightarrow> [] | Some m \<Rightarrow> m) ps)
     | _ \<Rightarrow> None)"

definition set_role_field :: "string \<Rightarrow> json \<Rightarrow> role_representation \<Rightarrow> role_representation option" where
  "set_role_field k v c =
    (let n = fold_name k
     in if n = fold_name ''id'' then map_option (\<lambda>x. c\<lparr>RP_ID := x\<rparr>) (as_string (RP_ID c) v)
        else if n = fold_name ''name'' then map_option (\<lambda>x. c\<lparr>RP_Name := x\<rparr>) (as_string (RP_Name c) v)
        else if n = fold_name ''description'' then map_option (\<lambda>x. c\<lparr>RP_Description := x\<rparr>) (as_string (RP_Description c) v)
        else if n = fold_name ''composite'' then map_option (\<lambda>x. c\<lparr>RP_Composite := x\<rparr>) (as_bool (RP_Composite c) v)
        else if n = fold_name ''clientRole'' then map_option (\<lambda>x. c\<lparr>RP_ClientRole := x\<rparr>) (as_bool (RP_ClientRole c) v)
        else if n = fold_name ''containerId'' then map_option (\<lambda>x. c\<lparr>RP_ContainerID := x\<rparr>) (as_string (RP_ContainerID c) v)
        else if n = fold_name ''attributes'' then map_option (\<lambda>x. c\<lparr>RP_Attributes := x\<rparr>) (as_attributes (RP_Attributes c) v)
        else Some c)"

fun set_role_fields :: "(string \<times> json) list \<Rightarrow> role_representation \<Rightarrow> role_representation option" where
  "set_role_fields [] c = Some c"
| "set_role_fields ((k, v) # ps) c = (case set_role_field k v c of None \<Rightarrow> None | Some c' \<Rightarrow> set_role_fields ps c')"

definition as_role :: "json \<Rightarrow> role_representation option" where
  "as_role v = (case v of
       JNull \<Rightarrow> Some zero_role_representation
     | JObj ps \<Rightarrow> set_role_fields ps zero_role_representation
     | _ \<Rightarrow> None)"

fun as_roles :: "json list \<Rightarrow> role_representation list option" where
  "as_roles [] = Some []"
| "as_roles (v # vs) = (case as_role v of None \<Rightarrow> None | Some rep \<Rightarrow> map_option ((#) rep) (as_roles vs))"

definition decode_role_list :: "string \<Rightarrow> role_representation list option" where
  "decode_role_list body = (case next_json body of Some JNull \<Rightarrow> Some [] | Some (JArr vs) \<Rightarrow> as_roles vs | _ \<Rightarrow> None)"

definition decodeRoleList ::
  "headers \<Rightarrow> string \<Rightarrow> 'db world \<Rightarrow> (role_representation list \<Rightarrow> 'db outcome) \<Rightarrow> 'db outcome" where
  "decodeRoleList hs body w f = (case decode_role_list body of
       None \<Rightarrow> Some (WriteOAuthError hs 400 ''unknown_error'' ''Cannot parse the JSON'', w)
     | Some reps \<Rightarrow> f reps)"

definition decodeRole :: "headers \<Rightarrow> string \<Rightarrow> 'db world \<Rightarrow> (role_representation \<Rightarrow> 'db outcome) \<Rightarrow> 'db outcome" where
  "decodeRole hs body w f = (case Option.bind (next_json body) as_role of
       None \<Rightarrow> Some (WriteOAuthError hs 400 ''invalid_request'' ''Cannot parse the JSON'', w)
     | Some rep \<Rightarrow> f rep)"

section \<open>Roles\<close>

definition writeRoleNotFound :: "headers \<Rightarrow> response" where
  "writeRoleNotFound hs = WriteMessageError hs 404 ''Could not find role''"

definition writeCompositeRoleNotFound :: "headers \<Rightarrow> response" where
  "writeCompositeRoleNotFound hs = WriteMessageError hs 404 ''Could not find composite role''"

definition writeRoleHasNoName :: "headers \<Rightarrow> response" where
  "writeRoleHasNoName hs = WriteMessageError hs 400 ''role has no name''"

definition writeRoleConflict :: "headers \<Rightarrow> string \<Rightarrow> response" where
  "writeRoleConflict hs name = WriteAdminError hs 409 (''Role with name '' @ name @ '' already exists'')"

definition writeClientNotFound :: "headers \<Rightarrow> response" where
  "writeClientNotFound hs = WriteMessageError hs 404 ''Could not find client''"

definition filterRoles :: "'db server \<Rightarrow> role list \<Rightarrow> string \<Rightarrow> role list" where
  "filterRoles h roles search =
    (if search = [] then roles
     else (let lower = to_lower (H_ToLower h); needle = lower search
           in filter (\<lambda>r. contains (lower (Role_Name r)) needle \<or> contains (lower (Role_Description r)) needle) roles))"

definition page_bound :: "url_values \<Rightarrow> string \<Rightarrow> int" where
  "page_bound q name = (case atoi (values_get q name) of None \<Rightarrow> - 1 | Some v \<Rightarrow> if v < 0 then - 1 else v)"

definition pageRoles :: "role list \<Rightarrow> url_values \<Rightarrow> role list" where
  "pageRoles roles q =
    (if values_get q ''search'' = [] \<and> \<not> (form_has q ''first'' \<and> form_has q ''max'') then roles
     else (let first = page_bound q ''first''; mx = page_bound q ''max''
           in if 0 \<le> first \<and> int (length roles) \<le> first then []
              else (let out = (if 0 \<le> first then drop (nat first) roles else roles)
                    in if 0 \<le> mx \<and> mx < int (length out) then take (nat mx) out else out)))"

definition writeRoleList :: "headers \<Rightarrow> request \<Rightarrow> role list \<Rightarrow> string \<Rightarrow> response" where
  "writeRoleList hs r roles containerID =
    WriteJSONCharset (header_Set hs ''Cache-Control'' ''no-cache'') 200
      (JArr (map (\<lambda>role. role_representation_json (roleRepresentationOf role containerID (briefRoles (Rq_Query r))))
        (pageRoles roles (Rq_Query r))))"

definition listRealmRoles :: "'db server \<Rightarrow> headers \<Rightarrow> request \<Rightarrow> 'db route" where
  "listRealmRoles h hs r rc w =
    (case RoleRepo_ListRealmRoles (Store_Roles (H_store h)) (W_db w) (Realm_ID (RQ_realm rc)) of
       Inl _ \<Rightarrow> Some (internal_error hs, w)
     | Inr roles \<Rightarrow>
         Some (writeRoleList hs r (filterRoles h roles (values_get (Rq_Query r) ''search'')) (Realm_ID (RQ_realm rc)), w))"

definition realmRole ::
  "'db server \<Rightarrow> headers \<Rightarrow> string \<Rightarrow> req_context \<Rightarrow> 'db world \<Rightarrow> (role \<Rightarrow> 'db outcome) \<Rightarrow> 'db outcome" where
  "realmRole h hs roleName rc w f =
    (case RoleRepo_ByName (Store_Roles (H_store h)) (W_db w) (Realm_ID (RQ_realm rc)) [] roleName of
       Inl err \<Rightarrow> if err = ErrNotFound then Some (writeRoleNotFound hs, w) else Some (internal_error hs, w)
     | Inr role \<Rightarrow> f role)"

definition readRealmRole :: "'db server \<Rightarrow> headers \<Rightarrow> string \<Rightarrow> 'db route" where
  "readRealmRole h hs roleName rc w = realmRole h hs roleName rc w (\<lambda>role.
     Some (writeAdminJSON hs (role_representation_json (roleRepresentationOf role (Realm_ID (RQ_realm rc)) False)), w))"

text \<open>What the two creates share: the role, its storing and the address of the answer.\<close>

definition store_role ::
  "'db server \<Rightarrow> headers \<Rightarrow> string \<Rightarrow> string \<Rightarrow> string \<Rightarrow> role_representation \<Rightarrow> 'db world \<Rightarrow> 'db outcome" where
  "store_role h hs realmID clientID location rep w =
    (if RP_Name rep = [] then Some (writeRoleHasNoName hs, w)
     else (case NewID (W_entropy w) of
             None \<Rightarrow> None
           | Some (ident, e) \<Rightarrow>
               (let w = w\<lparr>W_entropy := e\<rparr>;
                    m = \<lparr>Role_ID = ident, Role_RealmID = realmID, Role_ClientID = clientID, Role_Name = RP_Name rep,
                         Role_Description = RP_Description rep, Role_Composite = False,
                         Role_Attributes = (case RP_Attributes rep of None \<Rightarrow> [] | Some a \<Rightarrow> a)\<rparr>
                in case RoleRepo_Create (Store_Roles (H_store h)) (W_db w) m of
                     Inl err \<Rightarrow> if err = ErrConflict then Some (writeRoleConflict hs (RP_Name rep), w) else Some (internal_error hs, w)
                   | Inr db \<Rightarrow>
                       Some (empty_response (header_Set (header_Set hs ''Location'' (location @ ''/roles/'' @ RP_Name rep))
                               ''Content-Length'' ''0'') 201, w\<lparr>W_db := db\<rparr>))))"

definition createRealmRole :: "'db server \<Rightarrow> headers \<Rightarrow> string \<Rightarrow> 'db route" where
  "createRealmRole h hs body rc w = decodeRole hs body w (\<lambda>rep.
     store_role h hs (Realm_ID (RQ_realm rc)) [] (H_issuerBase h @ ''/admin/realms/'' @ Realm_Name (RQ_realm rc)) rep w)"

definition applyRoleUpdate :: "'db server \<Rightarrow> headers \<Rightarrow> request \<Rightarrow> string \<Rightarrow> role \<Rightarrow> 'db world \<Rightarrow> 'db outcome" where
  "applyRoleUpdate h hs r body current w = decodeRole hs body w (\<lambda>rep.
     if RP_Name rep = [] then Some (writeRoleHasNoName hs, w)
     else (let updated = current\<lparr>Role_Name := RP_Name rep, Role_Description := RP_Description rep,
                 Role_Attributes := (case RP_Attributes rep of None \<Rightarrow> [] | Some a \<Rightarrow> a)\<rparr>
           in case RoleRepo_Update (Store_Roles (H_store h)) (W_db w) updated of
                Inl err \<Rightarrow> if err = ErrConflict then Some (writeRoleConflict hs (RP_Name rep), w) else Some (internal_error hs, w)
              | Inr db \<Rightarrow> Some (WriteNoContent h r hs, w\<lparr>W_db := db\<rparr>)))"

definition updateRealmRole :: "'db server \<Rightarrow> headers \<Rightarrow> request \<Rightarrow> string \<Rightarrow> string \<Rightarrow> 'db route" where
  "updateRealmRole h hs r roleName body rc w = realmRole h hs roleName rc w (\<lambda>current. applyRoleUpdate h hs r body current w)"

definition delete_role :: "'db server \<Rightarrow> headers \<Rightarrow> request \<Rightarrow> req_context \<Rightarrow> role \<Rightarrow> 'db world \<Rightarrow> 'db outcome" where
  "delete_role h hs r rc role w =
    (case RoleRepo_Delete (Store_Roles (H_store h)) (W_db w) (Realm_ID (RQ_realm rc)) (Role_ID role) of
       Inl _ \<Rightarrow> Some (internal_error hs, w)
     | Inr db \<Rightarrow> Some (WriteNoContent h r (header_Set hs ''Cache-Control'' ''no-cache''), w\<lparr>W_db := db\<rparr>))"

definition deleteRealmRole :: "'db server \<Rightarrow> headers \<Rightarrow> request \<Rightarrow> string \<Rightarrow> 'db route" where
  "deleteRealmRole h hs r roleName rc w = realmRole h hs roleName rc w (\<lambda>role. delete_role h hs r rc role w)"

definition clientRoleContainer ::
  "'db server \<Rightarrow> headers \<Rightarrow> string \<Rightarrow> req_context \<Rightarrow> 'db world \<Rightarrow> (client \<Rightarrow> 'db outcome) \<Rightarrow> 'db outcome" where
  "clientRoleContainer h hs clientUUID rc w f =
    (case ClientRepo_ByID (Store_Clients (H_store h)) (W_db w) (Realm_ID (RQ_realm rc)) clientUUID of
       Inl err \<Rightarrow> if err = ErrNotFound then Some (writeClientNotFound hs, w) else Some (internal_error hs, w)
     | Inr c \<Rightarrow> f c)"

definition isAdminContainerName :: "string \<Rightarrow> string \<Rightarrow> bool" where
  "isAdminContainerName realmName clientID \<longleftrightarrow> clientID = AdminContainerFor realmName \<or> snd (cut_suffix clientID ''-realm'')"

definition ownedByRealmOwnClient :: "'db server \<Rightarrow> 'db \<Rightarrow> realm \<Rightarrow> role \<Rightarrow> bool st" where
  "ownedByRealmOwnClient h db realm role =
    (if Role_ClientID role = [] then Inr False
     else bind_err (ClientRepo_ByID (Store_Clients (H_store h)) db (Realm_ID realm) (Role_ClientID role)) (\<lambda>c.
       Inr (isAdminContainerName (Realm_Name realm) (Client_ClientID c))))"

definition listClientRoles :: "'db server \<Rightarrow> headers \<Rightarrow> request \<Rightarrow> string \<Rightarrow> 'db route" where
  "listClientRoles h hs r clientUUID rc w = clientRoleContainer h hs clientUUID rc w (\<lambda>c.
     case RoleRepo_ListClientRoles (Store_Roles (H_store h)) (W_db w) (Realm_ID (RQ_realm rc)) (Client_ID c) of
       Inl _ \<Rightarrow> Some (internal_error hs, w)
     | Inr roles \<Rightarrow>
         Some (writeRoleList hs r (filterRoles h roles (values_get (Rq_Query r) ''search'')) (Client_ID c), w))"

definition clientRole ::
  "'db server \<Rightarrow> headers \<Rightarrow> string \<Rightarrow> string \<Rightarrow> req_context \<Rightarrow> 'db world \<Rightarrow> (client \<Rightarrow> role \<Rightarrow> 'db outcome) \<Rightarrow> 'db outcome" where
  "clientRole h hs clientUUID roleName rc w f = clientRoleContainer h hs clientUUID rc w (\<lambda>c.
     case RoleRepo_ByName (Store_Roles (H_store h)) (W_db w) (Realm_ID (RQ_realm rc)) (Client_ID c) roleName of
       Inl err \<Rightarrow> if err = ErrNotFound then Some (writeRoleNotFound hs, w) else Some (internal_error hs, w)
     | Inr role \<Rightarrow> f c role)"

definition readClientRole :: "'db server \<Rightarrow> headers \<Rightarrow> string \<Rightarrow> string \<Rightarrow> 'db route" where
  "readClientRole h hs clientUUID roleName rc w = clientRole h hs clientUUID roleName rc w (\<lambda>c role.
     Some (writeAdminJSON hs (role_representation_json (roleRepresentationOf role (Client_ID c) False)), w))"

definition createClientRole :: "'db server \<Rightarrow> headers \<Rightarrow> string \<Rightarrow> string \<Rightarrow> 'db route" where
  "createClientRole h hs clientUUID body rc w = clientRoleContainer h hs clientUUID rc w (\<lambda>c.
     if Client_ClientID c = Realm_Name (RQ_realm rc) @ ''-realm'' then Some (writeForbidden hs, w)
     else decodeRole hs body w (\<lambda>rep.
       store_role h hs (Realm_ID (RQ_realm rc)) (Client_ID c)
         (H_issuerBase h @ ''/admin/realms/'' @ Realm_Name (RQ_realm rc) @ ''/clients/'' @ Client_ID c) rep w))"

definition updateClientRole :: "'db server \<Rightarrow> headers \<Rightarrow> request \<Rightarrow> string \<Rightarrow> string \<Rightarrow> string \<Rightarrow> 'db route" where
  "updateClientRole h hs r clientUUID roleName body rc w =
    clientRole h hs clientUUID roleName rc w (\<lambda>_ role. applyRoleUpdate h hs r body role w)"

definition deleteClientRole :: "'db server \<Rightarrow> headers \<Rightarrow> request \<Rightarrow> string \<Rightarrow> string \<Rightarrow> 'db route" where
  "deleteClientRole h hs r clientUUID roleName rc w =
    clientRole h hs clientUUID roleName rc w (\<lambda>_ role. delete_role h hs r rc role w)"

section \<open>Composites\<close>

type_synonym 'db role_locator = "req_context \<Rightarrow> 'db world \<Rightarrow> (role \<Rightarrow> 'db outcome) \<Rightarrow> 'db outcome"

definition clientRoleLocator :: "'db server \<Rightarrow> headers \<Rightarrow> string \<Rightarrow> string \<Rightarrow> 'db role_locator" where
  "clientRoleLocator h hs clientUUID roleName rc w f = clientRole h hs clientUUID roleName rc w (\<lambda>_ role. f role)"

definition byIDLocator :: "role \<Rightarrow> 'db role_locator" where
  "byIDLocator role rc w f = f role"

definition mapping_container :: "string \<Rightarrow> role \<Rightarrow> string" where
  "mapping_container realmID role = (if Role_ClientID role \<noteq> [] then Role_ClientID role else realmID)"

definition listComposites :: "'db server \<Rightarrow> headers \<Rightarrow> 'db role_locator \<Rightarrow> (role \<Rightarrow> bool) \<Rightarrow> 'db route" where
  "listComposites h hs locate keep rc w = locate rc w (\<lambda>role.
     case RoleRepo_ListComposites (Store_Roles (H_store h)) (W_db w) (Role_ID role) of
       Inl _ \<Rightarrow> Some (internal_error hs, w)
     | Inr children \<Rightarrow>
         Some (writeAdminJSON hs (JArr (map (\<lambda>c. role_representation_json
             (roleRepresentationOf c (mapping_container (Realm_ID (RQ_realm rc)) c) True)) (filter keep children))), w))"

definition onlyRealmRoles :: "role \<Rightarrow> bool" where
  "onlyRealmRoles c \<longleftrightarrow> Role_ClientID c = []"

definition onlyThisClientsRoles :: "string \<Rightarrow> role \<Rightarrow> bool" where
  "onlyThisClientsRoles targetClientUUID c \<longleftrightarrow> Role_ClientID c = targetClientUUID"

definition manageRoleForContainer :: "role \<Rightarrow> string" where
  "manageRoleForContainer role = (if Role_ClientID role \<noteq> [] then ''manage-clients'' else ''manage-realm'')"

definition requiresChildManageRole :: "caller \<Rightarrow> role \<Rightarrow> bool" where
  "requiresChildManageRole c child \<longleftrightarrow> caller_has c (manageRoleForContainer child)"

definition mayAttachChild :: "'db server \<Rightarrow> 'db \<Rightarrow> req_context \<Rightarrow> role \<Rightarrow> bool st" where
  "mayAttachChild h db rc child =
    (if \<not> requiresChildManageRole (RQ_caller rc) child then Inr False
     else mayGrantRole h db (RQ_realm rc) (RQ_caller rc) child)"

definition syncCompositeFlag :: "'db server \<Rightarrow> 'db \<Rightarrow> role \<Rightarrow> 'db st" where
  "syncCompositeFlag h db role =
    bind_err (RoleRepo_ListComposites (Store_Roles (H_store h)) db (Role_ID role)) (\<lambda>children.
      if Role_Composite role = (children \<noteq> []) then Inr db
      else RoleRepo_Update (Store_Roles (H_store h)) db (role\<lparr>Role_Composite := (children \<noteq> [])\<rparr>))"

text \<open>The first refusal of a batch, in the order of its entries.\<close>

fun composite_refusal ::
  "'db server \<Rightarrow> headers \<Rightarrow> 'db \<Rightarrow> req_context \<Rightarrow> (role \<Rightarrow> bool st) option \<Rightarrow> role_representation list \<Rightarrow> response option" where
  "composite_refusal h hs db rc checkChild [] = None"
| "composite_refusal h hs db rc checkChild (rep # reps) =
    (case RoleRepo_ByID (Store_Roles (H_store h)) db (Realm_ID (RQ_realm rc)) (RP_ID rep) of
       Inl err \<Rightarrow> Some (if err = ErrNotFound then writeCompositeRoleNotFound hs else internal_error hs)
     | Inr child \<Rightarrow>
         (case checkChild of
            None \<Rightarrow> composite_refusal h hs db rc checkChild reps
          | Some chk \<Rightarrow>
              (case chk child of
                 Inl _ \<Rightarrow> Some (internal_error hs)
               | Inr allowed \<Rightarrow> if \<not> allowed then Some (writeForbidden hs) else composite_refusal h hs db rc checkChild reps)))"

text \<open>The writes of a batch one after another, up to the first that fails: the database and whether all succeeded.\<close>

fun apply_each :: "('db \<Rightarrow> string \<Rightarrow> string \<Rightarrow> 'db st) \<Rightarrow> string \<Rightarrow> string list \<Rightarrow> 'db \<Rightarrow> 'db \<times> bool" where
  "apply_each write holder [] db = (db, True)"
| "apply_each write holder (i # is) db =
    (case write db holder i of Inl _ \<Rightarrow> (db, False) | Inr db' \<Rightarrow> apply_each write holder is db')"

definition eachComposite ::
  "'db server \<Rightarrow> headers \<Rightarrow> request \<Rightarrow> string \<Rightarrow> 'db role_locator \<Rightarrow> ('db \<Rightarrow> req_context \<Rightarrow> role \<Rightarrow> bool st) option
     \<Rightarrow> ('db \<Rightarrow> string \<Rightarrow> string \<Rightarrow> 'db st) \<Rightarrow> 'db route" where
  "eachComposite h hs r body locate checkChild write rc w = locate rc w (\<lambda>role.
     case ownedByRealmOwnClient h (W_db w) (RQ_realm rc) role of
       Inl _ \<Rightarrow> Some (internal_error hs, w)
     | Inr refused \<Rightarrow>
         if refused then Some (writeForbidden hs, w)
         else decodeRoleList hs body w (\<lambda>reps.
           case composite_refusal h hs (W_db w) rc (map_option (\<lambda>c. c (W_db w) rc) checkChild) reps of
             Some resp \<Rightarrow> Some (resp, w)
           | None \<Rightarrow>
               (let (db, ok) = apply_each write (Role_ID role) (map RP_ID reps) (W_db w)
                in if \<not> ok
                   then Some (internal_error hs, w\<lparr>W_db := (case syncCompositeFlag h db role of Inl _ \<Rightarrow> db | Inr db' \<Rightarrow> db')\<rparr>)
                   else (case syncCompositeFlag h db role of
                           Inl _ \<Rightarrow> Some (internal_error hs, w\<lparr>W_db := db\<rparr>)
                         | Inr db' \<Rightarrow> Some (WriteNoContent h r hs, w\<lparr>W_db := db'\<rparr>)))))"

definition add_composite :: "'db server \<Rightarrow> 'db \<Rightarrow> string \<Rightarrow> string \<Rightarrow> 'db st" where
  "add_composite h db roleID childID =
    (case RoleRepo_AddComposite (Store_Roles (H_store h)) db roleID childID of
       Inl err \<Rightarrow> if err = ErrConflict then Inr db else Inl err | Inr db' \<Rightarrow> Inr db')"

definition addComposites :: "'db server \<Rightarrow> headers \<Rightarrow> request \<Rightarrow> string \<Rightarrow> 'db role_locator \<Rightarrow> 'db route" where
  "addComposites h hs r body locate = eachComposite h hs r body locate (Some (mayAttachChild h)) (add_composite h)"

definition removeComposites :: "'db server \<Rightarrow> headers \<Rightarrow> request \<Rightarrow> string \<Rightarrow> 'db role_locator \<Rightarrow> 'db route" where
  "removeComposites h hs r body locate =
    eachComposite h hs r body locate None (RoleRepo_RemoveComposite (Store_Roles (H_store h)))"

definition roleGroups :: "headers \<Rightarrow> 'db role_locator \<Rightarrow> 'db route" where
  "roleGroups hs locate rc w = locate rc w (\<lambda>_. Some (writeAdminJSON hs (JArr []), w))"

section \<open>Roles by identifier\<close>

definition readRoleByID :: "'db server \<Rightarrow> headers \<Rightarrow> role \<Rightarrow> 'db route" where
  "readRoleByID h hs role rc w =
     Some (writeAdminJSON hs (role_representation_json
       (roleRepresentationOf role (mapping_container (Realm_ID (RQ_realm rc)) role) False)), w)"

definition updateRoleByID :: "'db server \<Rightarrow> headers \<Rightarrow> request \<Rightarrow> string \<Rightarrow> role \<Rightarrow> 'db route" where
  "updateRoleByID h hs r body role rc w = applyRoleUpdate h hs r body role w"

definition deleteRoleByID :: "'db server \<Rightarrow> headers \<Rightarrow> request \<Rightarrow> role \<Rightarrow> 'db route" where
  "deleteRoleByID h hs r role rc w = delete_role h hs r rc role w"

definition addCompositesByID :: "'db server \<Rightarrow> headers \<Rightarrow> request \<Rightarrow> string \<Rightarrow> role \<Rightarrow> 'db route" where
  "addCompositesByID h hs r body role = addComposites h hs r body (byIDLocator role)"

definition removeCompositesByID :: "'db server \<Rightarrow> headers \<Rightarrow> request \<Rightarrow> string \<Rightarrow> role \<Rightarrow> 'db route" where
  "removeCompositesByID h hs r body role = removeComposites h hs r body (byIDLocator role)"

section \<open>Role mappings\<close>

definition writeMappingRoleNotFound :: "headers \<Rightarrow> response" where
  "writeMappingRoleNotFound hs = WriteMessageError hs 404 ''Role not found''"

definition realmRolesOnly :: "role list \<Rightarrow> role list" where
  "realmRolesOnly roles = filter (\<lambda>r. Role_ClientID r = []) roles"

definition rolesOfClient :: "role list \<Rightarrow> string \<Rightarrow> role list" where
  "rolesOfClient roles clientID = filter (\<lambda>r. Role_ClientID r = clientID) roles"

definition roles_without :: "role list \<Rightarrow> role list \<Rightarrow> role list" where
  "roles_without roles exclude = filter (\<lambda>r. Role_ID r \<notin> Role_ID ` set exclude) roles"

definition mappingListOf :: "role list \<Rightarrow> string \<Rightarrow> bool \<Rightarrow> role_representation list" where
  "mappingListOf roles realmID brief = map (\<lambda>role. roleRepresentationOf role (mapping_container realmID role) brief) roles"

definition writeMappingList :: "headers \<Rightarrow> role list \<Rightarrow> string \<Rightarrow> bool \<Rightarrow> response" where
  "writeMappingList hs roles realmID brief =
     writeAdminJSON hs (JArr (map role_representation_json (mappingListOf roles realmID brief)))"

fun grantable_roles :: "(role \<Rightarrow> bool st) \<Rightarrow> role list \<Rightarrow> role list st" where
  "grantable_roles may [] = Inr []"
| "grantable_roles may (role # roles) =
    bind_err (may role) (\<lambda>allowed.
    bind_err (grantable_roles may roles) (\<lambda>out. Inr (if allowed then role # out else out)))"

definition grantable :: "'db server \<Rightarrow> 'db \<Rightarrow> req_context \<Rightarrow> role list \<Rightarrow> role list st" where
  "grantable h db rc roles =
    (if \<not> caller_has (RQ_caller rc) userMappingsWriteRole then Inr []
     else grantable_roles (mayGrantRole h db (RQ_realm rc) (RQ_caller rc)) roles)"

text \<open>
  The reads answer with a selection of roles: of those assigned to the holder directly, of those in effect, or
  of those the caller could assign.
\<close>

definition write_roles :: "headers \<Rightarrow> req_context \<Rightarrow> bool \<Rightarrow> role list st \<Rightarrow> 'db world \<Rightarrow> 'db outcome" where
  "write_roles hs rc brief res w = (case res of
       Inl _ \<Rightarrow> Some (internal_error hs, w)
     | Inr roles \<Rightarrow> Some (writeMappingList hs roles (Realm_ID (RQ_realm rc)) brief, w))"

definition listRealmMappings :: "'db server \<Rightarrow> headers \<Rightarrow> string \<Rightarrow> 'db route" where
  "listRealmMappings h hs userID rc w = userFromPath h hs userID rc w (\<lambda>user.
     write_roles hs rc True (bind_err (RoleRepo_ListUserRoles (Store_Roles (H_store h)) (W_db w) (User_ID user)) (\<lambda>direct.
       Inr (realmRolesOnly direct))) w)"

definition write_effective :: "headers \<Rightarrow> request \<Rightarrow> req_context \<Rightarrow> (role list \<Rightarrow> role list) \<Rightarrow> role list st option \<Rightarrow> 'db world \<Rightarrow> 'db outcome" where
  "write_effective hs r rc keep res w = (case res of
       None \<Rightarrow> None
     | Some effective \<Rightarrow> write_roles hs rc (briefRoles (Rq_Query r)) (bind_err effective (\<lambda>roles. Inr (keep roles))) w)"

definition compositeRealmMappings :: "'db server \<Rightarrow> headers \<Rightarrow> request \<Rightarrow> string \<Rightarrow> 'db route" where
  "compositeRealmMappings h hs r userID rc w = userFromPath h hs userID rc w (\<lambda>user.
     write_effective hs r rc realmRolesOnly (Effective (Store_Roles (H_store h)) (W_db w) (User_ID user)) w)"

definition availableRealmMappings :: "'db server \<Rightarrow> headers \<Rightarrow> string \<Rightarrow> 'db route" where
  "availableRealmMappings h hs userID rc w = userFromPath h hs userID rc w (\<lambda>user.
     write_roles hs rc True
       (bind_err (RoleRepo_ListRealmRoles (Store_Roles (H_store h)) (W_db w) (Realm_ID (RQ_realm rc))) (\<lambda>all.
        bind_err (RoleRepo_ListUserRoles (Store_Roles (H_store h)) (W_db w) (User_ID user)) (\<lambda>direct.
          grantable h (W_db w) rc (roles_without all direct)))) w)"

definition clientMappingSubject ::
  "'db server \<Rightarrow> headers \<Rightarrow> string \<Rightarrow> string \<Rightarrow> req_context \<Rightarrow> 'db world \<Rightarrow> (user \<Rightarrow> client \<Rightarrow> 'db outcome) \<Rightarrow> 'db outcome" where
  "clientMappingSubject h hs userID clientUUID rc w f = userFromPath h hs userID rc w (\<lambda>user.
     mappingClientFromPath h hs clientUUID rc w (\<lambda>c. f user c))"

definition listClientMappings :: "'db server \<Rightarrow> headers \<Rightarrow> string \<Rightarrow> string \<Rightarrow> 'db route" where
  "listClientMappings h hs userID clientUUID rc w = clientMappingSubject h hs userID clientUUID rc w (\<lambda>user c.
     write_roles hs rc True (bind_err (RoleRepo_ListUserRoles (Store_Roles (H_store h)) (W_db w) (User_ID user)) (\<lambda>direct.
       Inr (rolesOfClient direct (Client_ID c)))) w)"

definition compositeClientMappings :: "'db server \<Rightarrow> headers \<Rightarrow> request \<Rightarrow> string \<Rightarrow> string \<Rightarrow> 'db route" where
  "compositeClientMappings h hs r userID clientUUID rc w = clientMappingSubject h hs userID clientUUID rc w (\<lambda>user c.
     write_effective hs r rc (\<lambda>roles. rolesOfClient roles (Client_ID c))
       (Effective (Store_Roles (H_store h)) (W_db w) (User_ID user)) w)"

definition availableClientMappings :: "'db server \<Rightarrow> headers \<Rightarrow> string \<Rightarrow> string \<Rightarrow> 'db route" where
  "availableClientMappings h hs userID clientUUID rc w = clientMappingSubject h hs userID clientUUID rc w (\<lambda>user c.
     write_roles hs rc True
       (bind_err (RoleRepo_ListClientRoles (Store_Roles (H_store h)) (W_db w) (Realm_ID (RQ_realm rc)) (Client_ID c)) (\<lambda>all.
        bind_err (RoleRepo_ListUserRoles (Store_Roles (H_store h)) (W_db w) (User_ID user)) (\<lambda>direct.
          grantable h (W_db w) rc (roles_without all direct)))) w)"

fun mapping_refusal ::
  "'db server \<Rightarrow> headers \<Rightarrow> 'db \<Rightarrow> req_context \<Rightarrow> (role \<Rightarrow> bool) \<Rightarrow> role_representation list \<Rightarrow> response option" where
  "mapping_refusal h hs db rc accepts [] = None"
| "mapping_refusal h hs db rc accepts (rep # reps) =
    (case RoleRepo_ByID (Store_Roles (H_store h)) db (Realm_ID (RQ_realm rc)) (RP_ID rep) of
       Inl err \<Rightarrow> Some (if err = ErrNotFound then writeMappingRoleNotFound hs else internal_error hs)
     | Inr role \<Rightarrow>
         if \<not> accepts role \<or> Role_Name role \<noteq> RP_Name rep then Some (writeMappingRoleNotFound hs)
         else (case mayGrantRole h db (RQ_realm rc) (RQ_caller rc) role of
                 Inl _ \<Rightarrow> Some (internal_error hs)
               | Inr allowed \<Rightarrow> if \<not> allowed then Some (writeForbidden hs) else mapping_refusal h hs db rc accepts reps))"

definition eachMapping ::
  "'db server \<Rightarrow> headers \<Rightarrow> request \<Rightarrow> string \<Rightarrow> string \<Rightarrow> (role \<Rightarrow> bool) \<Rightarrow> ('db \<Rightarrow> string \<Rightarrow> string \<Rightarrow> 'db st) \<Rightarrow> 'db route" where
  "eachMapping h hs r body holderID accepts write rc w = decodeRoleList hs body w (\<lambda>reps.
     case mapping_refusal h hs (W_db w) rc accepts reps of
       Some resp \<Rightarrow> Some (resp, w)
     | None \<Rightarrow>
         (let (db, ok) = apply_each write holderID (map RP_ID reps) (W_db w)
          in Some (if ok then WriteNoContent h r hs else internal_error hs, w\<lparr>W_db := db\<rparr>)))"

definition assign_to_user :: "'db server \<Rightarrow> 'db \<Rightarrow> string \<Rightarrow> string \<Rightarrow> 'db st" where
  "assign_to_user h db userID roleID =
    (case RoleRepo_AssignToUser (Store_Roles (H_store h)) db userID roleID of
       Inl err \<Rightarrow> if err = ErrConflict then Inr db else Inl err | Inr db' \<Rightarrow> Inr db')"

definition remove_from_user :: "'db server \<Rightarrow> 'db \<Rightarrow> string \<Rightarrow> string \<Rightarrow> 'db st" where
  "remove_from_user h db userID roleID =
    (case RoleRepo_RemoveFromUser (Store_Roles (H_store h)) db userID roleID of
       Inl err \<Rightarrow> if err = ErrNotFound then Inr db else Inl err | Inr db' \<Rightarrow> Inr db')"

definition eachRealmMapping ::
  "'db server \<Rightarrow> headers \<Rightarrow> request \<Rightarrow> string \<Rightarrow> string \<Rightarrow> ('db \<Rightarrow> string \<Rightarrow> string \<Rightarrow> 'db st) \<Rightarrow> 'db route" where
  "eachRealmMapping h hs r userID body write rc w = userFromPath h hs userID rc w (\<lambda>user.
     eachMapping h hs r body (User_ID user) (\<lambda>role. Role_ClientID role = []) write rc w)"

definition eachClientMapping ::
  "'db server \<Rightarrow> headers \<Rightarrow> request \<Rightarrow> string \<Rightarrow> string \<Rightarrow> string \<Rightarrow> ('db \<Rightarrow> string \<Rightarrow> string \<Rightarrow> 'db st) \<Rightarrow> 'db route" where
  "eachClientMapping h hs r userID clientUUID body write rc w = clientMappingSubject h hs userID clientUUID rc w (\<lambda>user c.
     eachMapping h hs r body (User_ID user) (\<lambda>role. Role_ClientID role = Client_ID c) write rc w)"

definition assignRealmMappings :: "'db server \<Rightarrow> headers \<Rightarrow> request \<Rightarrow> string \<Rightarrow> string \<Rightarrow> 'db route" where
  "assignRealmMappings h hs r userID body = eachRealmMapping h hs r userID body (assign_to_user h)"

definition removeRealmMappings :: "'db server \<Rightarrow> headers \<Rightarrow> request \<Rightarrow> string \<Rightarrow> string \<Rightarrow> 'db route" where
  "removeRealmMappings h hs r userID body = eachRealmMapping h hs r userID body (remove_from_user h)"

definition assignClientMappings :: "'db server \<Rightarrow> headers \<Rightarrow> request \<Rightarrow> string \<Rightarrow> string \<Rightarrow> string \<Rightarrow> 'db route" where
  "assignClientMappings h hs r userID clientUUID body = eachClientMapping h hs r userID clientUUID body (assign_to_user h)"

definition removeClientMappings :: "'db server \<Rightarrow> headers \<Rightarrow> request \<Rightarrow> string \<Rightarrow> string \<Rightarrow> string \<Rightarrow> 'db route" where
  "removeClientMappings h hs r userID clientUUID body = eachClientMapping h hs r userID clientUUID body (remove_from_user h)"

section \<open>The combined view\<close>

record client_mappings_entry =
  CM_ClientID :: string
  CM_ID :: string
  CM_Client :: string
  CM_Mappings :: "role_representation list"

definition mappings_json :: "role_representation list \<Rightarrow> client_mappings_entry list \<Rightarrow> json" where
  "mappings_json realmMappings clientMappings = JObj (
     (if realmMappings = [] then [] else [(''realmMappings'', JArr (map role_representation_json realmMappings))])
     @ (if clientMappings = [] then []
        else [(''clientMappings'', JObj (map (\<lambda>e. (CM_ClientID e, JObj
               [(''id'', JStr (CM_ID e)), (''client'', JStr (CM_Client e)),
                (''mappings'', JArr (map role_representation_json (CM_Mappings e)))])) clientMappings))]))"

fun mapping_entries ::
  "'db server \<Rightarrow> 'db \<Rightarrow> req_context \<Rightarrow> role list \<Rightarrow> string list \<Rightarrow> client_mappings_entry list st" where
  "mapping_entries h db rc direct [] = Inr []"
| "mapping_entries h db rc direct (uuid # uuids) =
    bind_err (ClientRepo_ByID (Store_Clients (H_store h)) db (Realm_ID (RQ_realm rc)) uuid) (\<lambda>c.
    bind_err (mapping_entries h db rc direct uuids) (\<lambda>es.
      Inr (\<lparr>CM_ClientID = Client_ClientID c, CM_ID = Client_ID c, CM_Client = Client_ClientID c,
            CM_Mappings = mappingListOf (rolesOfClient direct uuid) (Realm_ID (RQ_realm rc)) True\<rparr> # es)))"

text \<open>\<^const>\<open>None\<close> is the key order of more entries than its table can hold, which never returns.\<close>

definition clientMappingsOf :: "'db server \<Rightarrow> 'db \<Rightarrow> req_context \<Rightarrow> role list \<Rightarrow> (client_mappings_entry list st) option" where
  "clientMappingsOf h db rc direct =
    (let uuids = remdups (map Role_ClientID (filter (\<lambda>r. Role_ClientID r \<noteq> []) direct))
     in if uuids = [] then Some (Inr [])
        else bind_run (Some (mapping_entries h db rc direct uuids)) (\<lambda>es.
          case KeyOrder (map CM_ClientID es) of
            None \<Rightarrow> None
          | Some ids \<Rightarrow> Some (Inr (List.map_filter (\<lambda>i. find (\<lambda>e. CM_ClientID e = i) es) ids))))"

definition write_mappings :: "'db server \<Rightarrow> headers \<Rightarrow> role list st \<Rightarrow> 'db route" where
  "write_mappings h hs res rc w = (case res of
       Inl _ \<Rightarrow> Some (internal_error hs, w)
     | Inr direct \<Rightarrow>
         (case clientMappingsOf h (W_db w) rc direct of
            None \<Rightarrow> None
          | Some (Inl _) \<Rightarrow> Some (internal_error hs, w)
          | Some (Inr clients) \<Rightarrow>
              Some (writeAdminJSON hs (mappings_json
                (mappingListOf (realmRolesOnly direct) (Realm_ID (RQ_realm rc)) True) clients), w)))"

definition allMappings :: "'db server \<Rightarrow> headers \<Rightarrow> string \<Rightarrow> 'db route" where
  "allMappings h hs userID rc w = userFromPath h hs userID rc w (\<lambda>user.
     write_mappings h hs (RoleRepo_ListUserRoles (Store_Roles (H_store h)) (W_db w) (User_ID user)) rc w)"

section \<open>Role mappings of a group\<close>

definition listGroupRealmMappings :: "'db server \<Rightarrow> headers \<Rightarrow> group \<Rightarrow> 'db route" where
  "listGroupRealmMappings h hs g rc w =
     write_roles hs rc True (bind_err (RoleRepo_ListGroupRoles (Store_Roles (H_store h)) (W_db w) (Group_ID g)) (\<lambda>direct.
       Inr (realmRolesOnly direct))) w"

definition compositeGroupRealmMappings :: "'db server \<Rightarrow> headers \<Rightarrow> request \<Rightarrow> group \<Rightarrow> 'db route" where
  "compositeGroupRealmMappings h hs r g rc w =
     write_effective hs r rc realmRolesOnly (EffectiveForGroup (Store_Roles (H_store h)) (W_db w) (Group_ID g)) w"

definition availableGroupRealmMappings :: "'db server \<Rightarrow> headers \<Rightarrow> group \<Rightarrow> 'db route" where
  "availableGroupRealmMappings h hs g rc w =
     write_roles hs rc True
       (bind_err (RoleRepo_ListRealmRoles (Store_Roles (H_store h)) (W_db w) (Realm_ID (RQ_realm rc))) (\<lambda>all.
        bind_err (RoleRepo_ListGroupRoles (Store_Roles (H_store h)) (W_db w) (Group_ID g)) (\<lambda>direct.
          grantable h (W_db w) rc (roles_without all direct)))) w"

definition listGroupClientMappings :: "'db server \<Rightarrow> headers \<Rightarrow> string \<Rightarrow> group \<Rightarrow> 'db route" where
  "listGroupClientMappings h hs clientUUID g rc w = mappingClientFromPath h hs clientUUID rc w (\<lambda>c.
     write_roles hs rc True (bind_err (RoleRepo_ListGroupRoles (Store_Roles (H_store h)) (W_db w) (Group_ID g)) (\<lambda>direct.
       Inr (rolesOfClient direct (Client_ID c)))) w)"

definition compositeGroupClientMappings :: "'db server \<Rightarrow> headers \<Rightarrow> request \<Rightarrow> string \<Rightarrow> group \<Rightarrow> 'db route" where
  "compositeGroupClientMappings h hs r clientUUID g rc w = mappingClientFromPath h hs clientUUID rc w (\<lambda>c.
     write_effective hs r rc (\<lambda>roles. rolesOfClient roles (Client_ID c))
       (EffectiveForGroup (Store_Roles (H_store h)) (W_db w) (Group_ID g)) w)"

definition availableGroupClientMappings :: "'db server \<Rightarrow> headers \<Rightarrow> string \<Rightarrow> group \<Rightarrow> 'db route" where
  "availableGroupClientMappings h hs clientUUID g rc w = mappingClientFromPath h hs clientUUID rc w (\<lambda>c.
     write_roles hs rc True
       (bind_err (RoleRepo_ListClientRoles (Store_Roles (H_store h)) (W_db w) (Realm_ID (RQ_realm rc)) (Client_ID c)) (\<lambda>all.
        bind_err (RoleRepo_ListGroupRoles (Store_Roles (H_store h)) (W_db w) (Group_ID g)) (\<lambda>direct.
          grantable h (W_db w) rc (roles_without all (rolesOfClient direct (Client_ID c)))))) w)"

definition allGroupMappings :: "'db server \<Rightarrow> headers \<Rightarrow> group \<Rightarrow> 'db route" where
  "allGroupMappings h hs g rc w =
     write_mappings h hs (RoleRepo_ListGroupRoles (Store_Roles (H_store h)) (W_db w) (Group_ID g)) rc w"

definition assignGroupRealmMappings :: "'db server \<Rightarrow> headers \<Rightarrow> request \<Rightarrow> string \<Rightarrow> group \<Rightarrow> 'db route" where
  "assignGroupRealmMappings h hs r body g =
     eachMapping h hs r body (Group_ID g) (\<lambda>role. Role_ClientID role = []) (RoleRepo_AssignToGroup (Store_Roles (H_store h)))"

definition removeGroupRealmMappings :: "'db server \<Rightarrow> headers \<Rightarrow> request \<Rightarrow> string \<Rightarrow> group \<Rightarrow> 'db route" where
  "removeGroupRealmMappings h hs r body g =
     eachMapping h hs r body (Group_ID g) (\<lambda>role. Role_ClientID role = []) (RoleRepo_RemoveFromGroup (Store_Roles (H_store h)))"

definition assignGroupClientMappings :: "'db server \<Rightarrow> headers \<Rightarrow> request \<Rightarrow> string \<Rightarrow> string \<Rightarrow> group \<Rightarrow> 'db route" where
  "assignGroupClientMappings h hs r clientUUID body g rc w = mappingClientFromPath h hs clientUUID rc w (\<lambda>c.
     eachMapping h hs r body (Group_ID g) (\<lambda>role. Role_ClientID role = Client_ID c)
       (RoleRepo_AssignToGroup (Store_Roles (H_store h))) rc w)"

definition removeGroupClientMappings :: "'db server \<Rightarrow> headers \<Rightarrow> request \<Rightarrow> string \<Rightarrow> string \<Rightarrow> group \<Rightarrow> 'db route" where
  "removeGroupClientMappings h hs r clientUUID body g rc w = mappingClientFromPath h hs clientUUID rc w (\<lambda>c.
     eachMapping h hs r body (Group_ID g) (\<lambda>role. Role_ClientID role = Client_ID c)
       (RoleRepo_RemoveFromGroup (Store_Roles (H_store h))) rc w)"

section \<open>The routes that write\<close>

text \<open>The handlers that write, each behind the guard of its route. The group mappings are registered twice.\<close>

definition route_createRealmRole ::
  "'db server \<Rightarrow> headers \<Rightarrow> time \<Rightarrow> request \<Rightarrow> string \<Rightarrow> 'db world \<Rightarrow> 'db outcome" where
  "route_createRealmRole h hs now r body =
     guard h hs now r ''manage-realm'' (createRealmRole h hs body)"

definition route_updateRealmRole ::
  "'db server \<Rightarrow> headers \<Rightarrow> time \<Rightarrow> request \<Rightarrow> string \<Rightarrow> string \<Rightarrow> 'db world \<Rightarrow> 'db outcome" where
  "route_updateRealmRole h hs now r roleName body =
     guard h hs now r ''manage-realm'' (updateRealmRole h hs r roleName body)"

definition route_deleteRealmRole ::
  "'db server \<Rightarrow> headers \<Rightarrow> time \<Rightarrow> request \<Rightarrow> string \<Rightarrow> 'db world \<Rightarrow> 'db outcome" where
  "route_deleteRealmRole h hs now r roleName =
     guard h hs now r ''manage-realm'' (deleteRealmRole h hs r roleName)"

definition route_createClientRole ::
  "'db server \<Rightarrow> headers \<Rightarrow> time \<Rightarrow> request \<Rightarrow> string \<Rightarrow> string \<Rightarrow> 'db world \<Rightarrow> 'db outcome" where
  "route_createClientRole h hs now r clientUUID body =
     guard h hs now r ''manage-clients'' (createClientRole h hs clientUUID body)"

definition route_updateClientRole ::
  "'db server \<Rightarrow> headers \<Rightarrow> time \<Rightarrow> request \<Rightarrow> string \<Rightarrow> string \<Rightarrow> string \<Rightarrow> 'db world \<Rightarrow> 'db outcome" where
  "route_updateClientRole h hs now r clientUUID roleName body =
     guard h hs now r ''manage-clients'' (updateClientRole h hs r clientUUID roleName body)"

definition route_deleteClientRole ::
  "'db server \<Rightarrow> headers \<Rightarrow> time \<Rightarrow> request \<Rightarrow> string \<Rightarrow> string \<Rightarrow> 'db world \<Rightarrow> 'db outcome" where
  "route_deleteClientRole h hs now r clientUUID roleName =
     guard h hs now r ''manage-clients'' (deleteClientRole h hs r clientUUID roleName)"

definition route_addRealmComposites ::
  "'db server \<Rightarrow> headers \<Rightarrow> time \<Rightarrow> request \<Rightarrow> string \<Rightarrow> string \<Rightarrow> 'db world \<Rightarrow> 'db outcome" where
  "route_addRealmComposites h hs now r roleName body =
     guard h hs now r ''manage-realm'' (addComposites h hs r body (realmRole h hs roleName))"

definition route_removeRealmComposites ::
  "'db server \<Rightarrow> headers \<Rightarrow> time \<Rightarrow> request \<Rightarrow> string \<Rightarrow> string \<Rightarrow> 'db world \<Rightarrow> 'db outcome" where
  "route_removeRealmComposites h hs now r roleName body =
     guard h hs now r ''manage-realm'' (removeComposites h hs r body (realmRole h hs roleName))"

definition route_addClientComposites ::
  "'db server \<Rightarrow> headers \<Rightarrow> time \<Rightarrow> request \<Rightarrow> string \<Rightarrow> string \<Rightarrow> string \<Rightarrow> 'db world \<Rightarrow> 'db outcome" where
  "route_addClientComposites h hs now r clientUUID roleName body =
     guard h hs now r ''manage-clients'' (addComposites h hs r body (clientRoleLocator h hs clientUUID roleName))"

definition route_removeClientComposites ::
  "'db server \<Rightarrow> headers \<Rightarrow> time \<Rightarrow> request \<Rightarrow> string \<Rightarrow> string \<Rightarrow> string \<Rightarrow> 'db world \<Rightarrow> 'db outcome" where
  "route_removeClientComposites h hs now r clientUUID roleName body =
     guard h hs now r ''manage-clients'' (removeComposites h hs r body (clientRoleLocator h hs clientUUID roleName))"

definition route_updateRoleByID ::
  "'db server \<Rightarrow> headers \<Rightarrow> time \<Rightarrow> request \<Rightarrow> string \<Rightarrow> string \<Rightarrow> 'db world \<Rightarrow> 'db outcome" where
  "route_updateRoleByID h hs now r roleID body =
     guardByRoleContainer h hs now r roleID [''manage-realm''] [''manage-clients''] (updateRoleByID h hs r body)"

definition route_deleteRoleByID ::
  "'db server \<Rightarrow> headers \<Rightarrow> time \<Rightarrow> request \<Rightarrow> string \<Rightarrow> 'db world \<Rightarrow> 'db outcome" where
  "route_deleteRoleByID h hs now r roleID =
     guardByRoleContainer h hs now r roleID [''manage-realm''] [''manage-clients''] (deleteRoleByID h hs r)"

definition route_addCompositesByID ::
  "'db server \<Rightarrow> headers \<Rightarrow> time \<Rightarrow> request \<Rightarrow> string \<Rightarrow> string \<Rightarrow> 'db world \<Rightarrow> 'db outcome" where
  "route_addCompositesByID h hs now r roleID body =
     guardByRoleContainer h hs now r roleID [''manage-realm''] [''manage-clients''] (addCompositesByID h hs r body)"

definition route_removeCompositesByID ::
  "'db server \<Rightarrow> headers \<Rightarrow> time \<Rightarrow> request \<Rightarrow> string \<Rightarrow> string \<Rightarrow> 'db world \<Rightarrow> 'db outcome" where
  "route_removeCompositesByID h hs now r roleID body =
     guardByRoleContainer h hs now r roleID [''manage-realm''] [''manage-clients''] (removeCompositesByID h hs r body)"

definition route_assignRealmMappings ::
  "'db server \<Rightarrow> headers \<Rightarrow> time \<Rightarrow> request \<Rightarrow> string \<Rightarrow> string \<Rightarrow> 'db world \<Rightarrow> 'db outcome" where
  "route_assignRealmMappings h hs now r userID body =
     guardUserSubject h hs now r userID userMappingsWriteRoles (assignRealmMappings h hs r userID body)"

definition route_removeRealmMappings ::
  "'db server \<Rightarrow> headers \<Rightarrow> time \<Rightarrow> request \<Rightarrow> string \<Rightarrow> string \<Rightarrow> 'db world \<Rightarrow> 'db outcome" where
  "route_removeRealmMappings h hs now r userID body =
     guardUserSubject h hs now r userID userMappingsWriteRoles (removeRealmMappings h hs r userID body)"

definition route_assignClientMappings ::
  "'db server \<Rightarrow> headers \<Rightarrow> time \<Rightarrow> request \<Rightarrow> string \<Rightarrow> string \<Rightarrow> string \<Rightarrow> 'db world \<Rightarrow> 'db outcome" where
  "route_assignClientMappings h hs now r userID clientUUID body =
     guardUserSubjectClient h hs now r userID clientUUID userMappingsWriteRoles
       (assignClientMappings h hs r userID clientUUID body)"

definition route_removeClientMappings ::
  "'db server \<Rightarrow> headers \<Rightarrow> time \<Rightarrow> request \<Rightarrow> string \<Rightarrow> string \<Rightarrow> string \<Rightarrow> 'db world \<Rightarrow> 'db outcome" where
  "route_removeClientMappings h hs now r userID clientUUID body =
     guardUserSubjectClient h hs now r userID clientUUID userMappingsWriteRoles
       (removeClientMappings h hs r userID clientUUID body)"

definition route_assignGroupRealmMappings ::
  "('db \<Rightarrow> string \<Rightarrow> string \<Rightarrow> group st) \<Rightarrow> 'db server \<Rightarrow> headers \<Rightarrow> time \<Rightarrow> request \<Rightarrow> string \<Rightarrow> string \<Rightarrow> 'db world \<Rightarrow> 'db outcome" where
  "route_assignGroupRealmMappings groupByID h hs now r groupID body =
     guardGroup groupByID h hs now r groupID userMappingsWriteRoles (assignGroupRealmMappings h hs r body)"

definition route_removeGroupRealmMappings ::
  "('db \<Rightarrow> string \<Rightarrow> string \<Rightarrow> group st) \<Rightarrow> 'db server \<Rightarrow> headers \<Rightarrow> time \<Rightarrow> request \<Rightarrow> string \<Rightarrow> string \<Rightarrow> 'db world \<Rightarrow> 'db outcome" where
  "route_removeGroupRealmMappings groupByID h hs now r groupID body =
     guardGroup groupByID h hs now r groupID userMappingsWriteRoles (removeGroupRealmMappings h hs r body)"

definition route_assignGroupClientMappings ::
  "('db \<Rightarrow> string \<Rightarrow> string \<Rightarrow> group st) \<Rightarrow> 'db server \<Rightarrow> headers \<Rightarrow> time \<Rightarrow> request \<Rightarrow> string \<Rightarrow> string \<Rightarrow> string \<Rightarrow> 'db world \<Rightarrow> 'db outcome" where
  "route_assignGroupClientMappings groupByID h hs now r groupID clientUUID body =
     guardGroupClient groupByID h hs now r groupID clientUUID userMappingsWriteRoles
       (assignGroupClientMappings h hs r clientUUID body)"

definition route_removeGroupClientMappings ::
  "('db \<Rightarrow> string \<Rightarrow> string \<Rightarrow> group st) \<Rightarrow> 'db server \<Rightarrow> headers \<Rightarrow> time \<Rightarrow> request \<Rightarrow> string \<Rightarrow> string \<Rightarrow> string \<Rightarrow> 'db world \<Rightarrow> 'db outcome" where
  "route_removeGroupClientMappings groupByID h hs now r groupID clientUUID body =
     guardGroupClient groupByID h hs now r groupID clientUUID userMappingsWriteRoles
       (removeGroupClientMappings h hs r clientUUID body)"

definition route_assignOrgGroupRealmMappings ::
  "('db \<Rightarrow> string \<Rightarrow> string \<Rightarrow> group st) \<Rightarrow> 'db organizations \<Rightarrow> 'db server \<Rightarrow> headers \<Rightarrow> time \<Rightarrow> request \<Rightarrow> string \<Rightarrow> string \<Rightarrow> string \<Rightarrow> 'db world \<Rightarrow> 'db outcome" where
  "route_assignOrgGroupRealmMappings groupByID orgs h hs now r orgID groupID body =
     guardOrganizationGroup groupByID orgs h hs now r orgID groupID organizationWriteRoles
       (assignGroupRealmMappings h hs r body)"

definition route_removeOrgGroupRealmMappings ::
  "('db \<Rightarrow> string \<Rightarrow> string \<Rightarrow> group st) \<Rightarrow> 'db organizations \<Rightarrow> 'db server \<Rightarrow> headers \<Rightarrow> time \<Rightarrow> request \<Rightarrow> string \<Rightarrow> string \<Rightarrow> string \<Rightarrow> 'db world \<Rightarrow> 'db outcome" where
  "route_removeOrgGroupRealmMappings groupByID orgs h hs now r orgID groupID body =
     guardOrganizationGroup groupByID orgs h hs now r orgID groupID organizationWriteRoles
       (removeGroupRealmMappings h hs r body)"

definition route_assignOrgGroupClientMappings ::
  "('db \<Rightarrow> string \<Rightarrow> string \<Rightarrow> group st) \<Rightarrow> 'db organizations \<Rightarrow> 'db server \<Rightarrow> headers \<Rightarrow> time \<Rightarrow> request \<Rightarrow> string \<Rightarrow> string \<Rightarrow> string \<Rightarrow> string \<Rightarrow> 'db world \<Rightarrow> 'db outcome" where
  "route_assignOrgGroupClientMappings groupByID orgs h hs now r orgID groupID clientUUID body =
     guardOrganizationGroup groupByID orgs h hs now r orgID groupID organizationWriteRoles
       (assignGroupClientMappings h hs r clientUUID body)"

definition route_removeOrgGroupClientMappings ::
  "('db \<Rightarrow> string \<Rightarrow> string \<Rightarrow> group st) \<Rightarrow> 'db organizations \<Rightarrow> 'db server \<Rightarrow> headers \<Rightarrow> time \<Rightarrow> request \<Rightarrow> string \<Rightarrow> string \<Rightarrow> string \<Rightarrow> string \<Rightarrow> 'db world \<Rightarrow> 'db outcome" where
  "route_removeOrgGroupClientMappings groupByID orgs h hs now r orgID groupID clientUUID body =
     guardOrganizationGroup groupByID orgs h hs now r orgID groupID organizationWriteRoles
       (removeGroupClientMappings h hs r clientUUID body)"

lemmas routes = route_createRealmRole_def route_updateRealmRole_def route_deleteRealmRole_def route_createClientRole_def
  route_updateClientRole_def route_deleteClientRole_def route_addRealmComposites_def
  route_removeRealmComposites_def route_addClientComposites_def route_removeClientComposites_def
  route_updateRoleByID_def route_deleteRoleByID_def route_addCompositesByID_def
  route_removeCompositesByID_def route_assignRealmMappings_def route_removeRealmMappings_def
  route_assignClientMappings_def route_removeClientMappings_def route_assignGroupRealmMappings_def
  route_removeGroupRealmMappings_def route_assignGroupClientMappings_def
  route_removeGroupClientMappings_def route_assignOrgGroupRealmMappings_def
  route_removeOrgGroupRealmMappings_def route_assignOrgGroupClientMappings_def
  route_removeOrgGroupClientMappings_def

text \<open>
  A request to one of these routes: every POST, PUT and DELETE route whose handler is in \<^verbatim>\<open>roles.go\<close>,
  \<^verbatim>\<open>rolemappings.go\<close> or \<^verbatim>\<open>groupmappings.go\<close>.
\<close>

datatype role_op =
    CreateRealmRole string | UpdateRealmRole string string
  | DeleteRealmRole string | CreateClientRole string string
  | UpdateClientRole string string string | DeleteClientRole string string
  | AddRealmComposites string string | RemoveRealmComposites string string
  | AddClientComposites string string string | RemoveClientComposites string string string
  | UpdateRoleByID string string | DeleteRoleByID string
  | AddCompositesByID string string | RemoveCompositesByID string string
  | AssignRealm string string | RemoveRealm string string
  | AssignClient string string string | RemoveClient string string string
  | AssignGroupRealm string string | RemoveGroupRealm string string
  | AssignGroupClient string string string | RemoveGroupClient string string string
  | AssignOrgGroupRealm string string string | RemoveOrgGroupRealm string string string
  | AssignOrgGroupClient string string string string | RemoveOrgGroupClient string string string string

definition serve_role_op ::
  "('db \<Rightarrow> string \<Rightarrow> string \<Rightarrow> group st) \<Rightarrow> 'db organizations \<Rightarrow> 'db server \<Rightarrow> headers \<Rightarrow> time \<Rightarrow> request \<Rightarrow> role_op
     \<Rightarrow> 'db world \<Rightarrow> 'db outcome" where
  "serve_role_op groupByID orgs h hs now r op = (case op of
       CreateRealmRole body \<Rightarrow> route_createRealmRole h hs now r body
     | UpdateRealmRole roleName body \<Rightarrow> route_updateRealmRole h hs now r roleName body
     | DeleteRealmRole roleName \<Rightarrow> route_deleteRealmRole h hs now r roleName
     | CreateClientRole clientUUID body \<Rightarrow> route_createClientRole h hs now r clientUUID body
     | UpdateClientRole clientUUID roleName body \<Rightarrow> route_updateClientRole h hs now r clientUUID roleName body
     | DeleteClientRole clientUUID roleName \<Rightarrow> route_deleteClientRole h hs now r clientUUID roleName
     | AddRealmComposites roleName body \<Rightarrow> route_addRealmComposites h hs now r roleName body
     | RemoveRealmComposites roleName body \<Rightarrow> route_removeRealmComposites h hs now r roleName body
     | AddClientComposites clientUUID roleName body \<Rightarrow> route_addClientComposites h hs now r clientUUID roleName body
     | RemoveClientComposites clientUUID roleName body \<Rightarrow> route_removeClientComposites h hs now r clientUUID roleName body
     | UpdateRoleByID roleID body \<Rightarrow> route_updateRoleByID h hs now r roleID body
     | DeleteRoleByID roleID \<Rightarrow> route_deleteRoleByID h hs now r roleID
     | AddCompositesByID roleID body \<Rightarrow> route_addCompositesByID h hs now r roleID body
     | RemoveCompositesByID roleID body \<Rightarrow> route_removeCompositesByID h hs now r roleID body
     | AssignRealm userID body \<Rightarrow> route_assignRealmMappings h hs now r userID body
     | RemoveRealm userID body \<Rightarrow> route_removeRealmMappings h hs now r userID body
     | AssignClient userID clientUUID body \<Rightarrow> route_assignClientMappings h hs now r userID clientUUID body
     | RemoveClient userID clientUUID body \<Rightarrow> route_removeClientMappings h hs now r userID clientUUID body
     | AssignGroupRealm groupID body \<Rightarrow> route_assignGroupRealmMappings groupByID h hs now r groupID body
     | RemoveGroupRealm groupID body \<Rightarrow> route_removeGroupRealmMappings groupByID h hs now r groupID body
     | AssignGroupClient groupID clientUUID body \<Rightarrow> route_assignGroupClientMappings groupByID h hs now r groupID clientUUID body
     | RemoveGroupClient groupID clientUUID body \<Rightarrow> route_removeGroupClientMappings groupByID h hs now r groupID clientUUID body
     | AssignOrgGroupRealm orgID groupID body \<Rightarrow> route_assignOrgGroupRealmMappings groupByID orgs h hs now r orgID groupID body
     | RemoveOrgGroupRealm orgID groupID body \<Rightarrow> route_removeOrgGroupRealmMappings groupByID orgs h hs now r orgID groupID body
     | AssignOrgGroupClient orgID groupID clientUUID body \<Rightarrow> route_assignOrgGroupClientMappings groupByID orgs h hs now r orgID groupID clientUUID body
     | RemoveOrgGroupClient orgID groupID clientUUID body \<Rightarrow> route_removeOrgGroupClientMappings groupByID orgs h hs now r orgID groupID clientUUID body)"

end
