(* ===== verification/AdminSafety.thy ===== *)
theory AdminSafety
  imports AdminRoles GroupStore KeyFrame GrantSafety
begin

text \<open>
  What the Admin REST interface guarantees about roles: who is a caller, which requests can hand out a role
  and which roles, how the offer of the interface agrees with what it accepts, and how far a rename reaches.
\<close>

section \<open>The caller\<close>

text \<open>
  The request is made by this caller: the access token verifies in the realm that issued it, its session and
  enabled user are stored there, and its rights are the roles the user holds within the scope of the token's
  client, on the client that administers the realm of the request. The last argument is the server once the
  keys of the issuing realm are loaded.
\<close>

definition calls_as :: "sqlite_db server \<Rightarrow> time \<Rightarrow> request \<Rightarrow> realm \<Rightarrow> sqlite_db world \<Rightarrow> caller \<Rightarrow> sqlite_db world \<Rightarrow> bool" where
  "calls_as h now r realm w c w1 \<longleftrightarrow> (\<exists>name k parsed session client scopes inScope.
     UnverifiedIssuer (admin_bearerToken r) = Inr (H_issuerBase h @ ''/realms/'' @ name) \<and> name \<noteq> [] \<and> \<not> contains name ''/''
   \<and> realmRepo_ByName (W_db w) name = Inr (Cl_authRealm c) \<and> load_keys h now (Cl_authRealm c) w = Some (k, w1)
   \<and> ParseAccess (H_jose h) k (realmIssuer h (Realm_Name (Cl_authRealm c))) (admin_bearerToken r) now = Inr parsed
   \<and> sessionRepo_UserSessionByID (W_db w1) (Realm_ID (Cl_authRealm c)) (Parsed_SessionID parsed) = Inr session
   \<and> UserRepo_ByID (Store_Users sqlite_store) (W_db w1) (Realm_ID (Cl_authRealm c)) (US_UserID session) = Inr (Cl_user c)
   \<and> User_Enabled (Cl_user c)
   \<and> Effective sqlite_roles (W_db w1) (User_ID (Cl_user c)) = Some (Inr (Cl_held c))
   \<and> clientRepo_ByClientID (W_db w1) (Realm_ID (Cl_authRealm c)) (Parsed_ClientID parsed) = Inr client
   \<and> ScopesInEffect sqlite_client_scopes (W_db w1) client (Parsed_Scope parsed) = Inr scopes
   \<and> InScope sqlite_roles (W_db w1) client scopes = Some (Inr inScope) \<and> Cl_effective c = Filter (Cl_held c) inScope
   \<and> containerFor h (W_db w1) (Cl_authRealm c) (Realm_Name realm) = Inr (Cl_container c)
   \<and> Cl_adminGrants c = adminRoleNames (Cl_authRealm c) (Cl_container c) (Cl_effective c))"

lemma cut_prefix_append [simp]: "cut_prefix (p @ t) p = (t, True)"
  by (simp add: cut_prefix_def has_prefix_def)

lemma cut_prefix_split: "cut_prefix s p = (t, True) \<Longrightarrow> s = p @ t"
  by (metis append_take_drop_id cut_prefix_def has_prefix_def prod.inject)

lemma sqlite_reads [simp]:
  "RealmRepo_ByName (Store_Realms sqlite_store) = realmRepo_ByName"
  "RoleRepo_ByID sqlite_roles = roleRepo_ByID" "RoleRepo_ByName sqlite_roles = roleRepo_ByName"
  "RoleRepo_Update sqlite_roles = roleRepo_Update" "RoleRepo_Delete sqlite_roles = roleRepo_Delete"
  "RoleRepo_Create sqlite_roles = roleRepo_Create" "RoleRepo_AssignToUser sqlite_roles = roleRepo_AssignToUser"
  "RoleRepo_RemoveFromUser sqlite_roles = roleRepo_RemoveFromUser"
  "RoleRepo_AssignToGroup sqlite_roles = roleRepo_AssignToGroup" "RoleRepo_RemoveFromGroup sqlite_roles = roleRepo_RemoveFromGroup"
  "RoleRepo_AddComposite sqlite_roles = roleRepo_AddComposite" "RoleRepo_RemoveComposite sqlite_roles = roleRepo_RemoveComposite"
  "RoleRepo_ListRealmRoles sqlite_roles = roleRepo_ListRealmRoles" "RoleRepo_ListComposites sqlite_roles = roleRepo_ListComposites"
  by (simp_all add: sqlite_store_def sqlite_realms_def sqlite_roles_def)

lemma calls_as_quiet: "calls_as h now r realm w c w1 \<Longrightarrow> quiet w w1"
  unfolding calls_as_def using load_keys_quiet by blast

text \<open>A run of the resolution either refuses without a change or goes on for such a caller.\<close>

lemma authenticate_run:
  assumes "authenticate h hs now raw w f = Some (resp, w')" "H_store h = sqlite_store"
  obtains (refused) "quiet w w'" "Resp_Status resp \<in> {401, 500}"
  | (run) name authRealm k w1 parsed session user where "UnverifiedIssuer raw = Inr (H_issuerBase h @ ''/realms/'' @ name)"
      "name \<noteq> []" "\<not> contains name ''/''" "realmRepo_ByName (W_db w) name = Inr authRealm"
      "load_keys h now authRealm w = Some (k, w1)"
      "ParseAccess (H_jose h) k (realmIssuer h (Realm_Name authRealm)) raw now = Inr parsed"
      "sessionRepo_UserSessionByID (W_db w1) (Realm_ID authRealm) (Parsed_SessionID parsed) = Inr session"
      "UserRepo_ByID (Store_Users sqlite_store) (W_db w1) (Realm_ID authRealm) (US_UserID session) = Inr user"
      "User_Enabled user" "f authRealm user parsed w1 = Some (resp, w')"
proof (cases "UnverifiedIssuer raw")
  case (Inl x)
  with assms(1) show thesis by (intro refused) (auto simp: authenticate_def writeUnauthorized_def)
next
  case (Inr iss)
  obtain name ok where c: "cut_prefix iss (H_issuerBase h @ ''/realms/'') = (name, ok)" by fastforce
  show thesis
  proof (cases "\<not> ok \<or> name = [] \<or> contains name ''/'' \<or> (\<exists>x. realmRepo_ByName (W_db w) name = Inl x)")
    case True
    with Inr c assms(1,2) show thesis
      by (intro refused) (auto simp: authenticate_def writeUnauthorized_def split: if_splits)
  next
    case False
    then obtain authRealm where a: "realmRepo_ByName (W_db w) name = Inr authRealm"
      by (cases "realmRepo_ByName (W_db w) name") auto
    have "cut_prefix iss (H_issuerBase h @ ''/realms/'') = (name, True)" using c False by simp
    from cut_prefix_split [OF this] Inr have iss: "UnverifiedIssuer raw = Inr (H_issuerBase h @ ''/realms/'' @ name)" by simp
    let ?refuse = "\<lambda>w. Some (writeUnauthorized hs, w)"
    have "realmKeys h hs now authRealm w (\<lambda>k w.
        case ParseAccess (H_jose h) k (realmIssuer h (Realm_Name authRealm)) raw now of
          Inl _ \<Rightarrow> ?refuse w
        | Inr parsed \<Rightarrow>
            (case SessionRepo_UserSessionByID (Store_Sessions (H_store h)) (W_db w) (Realm_ID authRealm) (Parsed_SessionID parsed) of
               Inl _ \<Rightarrow> ?refuse w
             | Inr session \<Rightarrow>
                 (case UserRepo_ByID (Store_Users (H_store h)) (W_db w) (Realm_ID authRealm) (US_UserID session) of
                    Inl _ \<Rightarrow> ?refuse w
                  | Inr user \<Rightarrow> if \<not> User_Enabled user then ?refuse w else f authRealm user parsed w))) = Some (resp, w')"
      using assms(1,2) Inr c a False by (simp add: authenticate_def Let_def)
    then show thesis using assms(2)
    proof (cases rule: realmKeys_load)
      case failed
      then show thesis by (intro refused) simp_all
    next
      case (run k w1)
      have q: "quiet w w1" by (rule load_keys_quiet [OF run(1)])
      from run(2) refused q that(2) [OF iss _ _ a run(1)] False assms(2) show thesis
        by (auto simp: writeUnauthorized_def split: sum.splits if_splits)
    qed
  qed
qed

lemma resolveCaller_run:
  assumes "resolveCaller h hs now r (Some realm) w f = Some (resp, w')" "H_store h = sqlite_store"
  obtains (refused) "quiet w w'" "Resp_Status resp \<in> {401, 500}"
  | (run) c w1 where "calls_as h now r realm w c w1" "f c w1 = Some (resp, w')"
proof (cases "admin_bearerToken r = []")
  case True
  with assms(1) show thesis by (intro refused) (auto simp: resolveCaller_def writeUnauthorized_def)
next
  case False
  with assms(1) have "authenticate h hs now (admin_bearerToken r) w (\<lambda>authRealm user parsed w.
          case Effective (Store_Roles (H_store h)) (W_db w) (User_ID user) of
            None \<Rightarrow> None
          | Some (Inl _) \<Rightarrow> Some (internal_error hs, w)
          | Some (Inr held) \<Rightarrow>
              inTokenScope h hs authRealm parsed held w (\<lambda>effective.
                case containerFor h (W_db w) authRealm (Realm_Name realm) of
                  Inl _ \<Rightarrow> Some (internal_error hs, w)
                | Inr container \<Rightarrow>
                    f \<lparr>Cl_user = user, Cl_adminGrants = adminRoleNames authRealm container effective,
                       Cl_authRealm = authRealm, Cl_effective = effective, Cl_held = held, Cl_container = container\<rparr> w))
        = Some (resp, w')"
    unfolding resolveCaller_def Let_def option.case by simp
  then show thesis using assms(2)
  proof (cases rule: authenticate_run)
    case refused
    then show thesis by (intro that(1))
  next
    case (run name authRealm k w1 parsed session user)
    have q: "quiet w w1" by (rule load_keys_quiet [OF run(5)])
    obtain e where e: "Effective sqlite_roles (W_db w1) (User_ID user) = Some e"
      using run(10) assms(2) by (cases "Effective sqlite_roles (W_db w1) (User_ID user)") auto
    show thesis
    proof (cases e)
      case (Inl x)
      with e run(10) assms(2) q show thesis by (intro that(1)) auto
    next
      case (Inr held)
      have s: "inTokenScope h hs authRealm parsed held w1 (\<lambda>effective.
                case containerFor h (W_db w1) authRealm (Realm_Name realm) of
                  Inl _ \<Rightarrow> Some (internal_error hs, w1)
                | Inr container \<Rightarrow>
                    f \<lparr>Cl_user = user, Cl_adminGrants = adminRoleNames authRealm container effective,
                       Cl_authRealm = authRealm, Cl_effective = effective, Cl_held = held, Cl_container = container\<rparr> w1)
        = Some (resp, w')"
        using run(10) e Inr assms(2) by simp
      show thesis
      proof (cases "Resp_Status resp \<in> {401, 500} \<and> w' = w1")
        case True
        with q show thesis by (intro that(1)) auto
      next
        case False
        obtain client scopes inScope container where t:
          "clientRepo_ByClientID (W_db w1) (Realm_ID authRealm) (Parsed_ClientID parsed) = Inr client"
          "ScopesInEffect sqlite_client_scopes (W_db w1) client (Parsed_Scope parsed) = Inr scopes"
          "InScope sqlite_roles (W_db w1) client scopes = Some (Inr inScope)"
          "containerFor h (W_db w1) authRealm (Realm_Name realm) = Inr container"
          "f \<lparr>Cl_user = user, Cl_adminGrants = adminRoleNames authRealm container (Filter held inScope),
              Cl_authRealm = authRealm, Cl_effective = Filter held inScope, Cl_held = held, Cl_container = container\<rparr> w1
             = Some (resp, w')"
          using s False assms(2)
          by (auto simp: inTokenScope_def writeUnauthorized_def split: sum.splits option.splits if_splits)
        let ?c = "\<lparr>Cl_user = user, Cl_adminGrants = adminRoleNames authRealm container (Filter held inScope),
              Cl_authRealm = authRealm, Cl_effective = Filter held inScope, Cl_held = held, Cl_container = container\<rparr>"
        have "calls_as h now r realm w ?c w1" unfolding calls_as_def using run t e Inr by auto
        then show thesis using t(5) by (rule that(2))
      qed
    qed
  qed
qed

text \<open>And the caller of a request is the one the resolution finds.\<close>

lemma resolveCaller_calls:
  assumes "calls_as h now r realm w c w1" "H_store h = sqlite_store"
  shows "resolveCaller h hs now r (Some realm) w f = f c w1"
proof -
  obtain name k parsed session client scopes inScope where c:
    "UnverifiedIssuer (admin_bearerToken r) = Inr (H_issuerBase h @ ''/realms/'' @ name)" "name \<noteq> []" "\<not> contains name ''/''"
    "realmRepo_ByName (W_db w) name = Inr (Cl_authRealm c)" "load_keys h now (Cl_authRealm c) w = Some (k, w1)"
    "ParseAccess (H_jose h) k (realmIssuer h (Realm_Name (Cl_authRealm c))) (admin_bearerToken r) now = Inr parsed"
    "sessionRepo_UserSessionByID (W_db w1) (Realm_ID (Cl_authRealm c)) (Parsed_SessionID parsed) = Inr session"
    "UserRepo_ByID (Store_Users sqlite_store) (W_db w1) (Realm_ID (Cl_authRealm c)) (US_UserID session) = Inr (Cl_user c)"
    "User_Enabled (Cl_user c)" "Effective sqlite_roles (W_db w1) (User_ID (Cl_user c)) = Some (Inr (Cl_held c))"
    "clientRepo_ByClientID (W_db w1) (Realm_ID (Cl_authRealm c)) (Parsed_ClientID parsed) = Inr client"
    "ScopesInEffect sqlite_client_scopes (W_db w1) client (Parsed_Scope parsed) = Inr scopes"
    "InScope sqlite_roles (W_db w1) client scopes = Some (Inr inScope)" "Cl_effective c = Filter (Cl_held c) inScope"
    "containerFor h (W_db w1) (Cl_authRealm c) (Realm_Name realm) = Inr (Cl_container c)"
    "Cl_adminGrants c = adminRoleNames (Cl_authRealm c) (Cl_container c) (Cl_effective c)"
    using assms(1) unfolding calls_as_def by blast
  have raw: "admin_bearerToken r \<noteq> []" using c(1) by (auto simp: UnverifiedIssuer_def split_string.simps)
  have keys: "realmKeys h hs now (Cl_authRealm c) w g = g k w1" for g
    using c(5) assms(2) by (auto simp: realmKeys_def load_keys_def split: option.splits sum.splits)
  let ?c = "\<lparr>Cl_user = Cl_user c, Cl_adminGrants = adminRoleNames (Cl_authRealm c) (Cl_container c) (Filter (Cl_held c) inScope),
     Cl_authRealm = Cl_authRealm c, Cl_effective = Filter (Cl_held c) inScope, Cl_held = Cl_held c, Cl_container = Cl_container c\<rparr>"
  have "cut_prefix (H_issuerBase h @ ''/realms/'' @ name) (H_issuerBase h @ ''/realms/'') = (name, True)"
    using cut_prefix_append [of "H_issuerBase h @ ''/realms/''" name] by simp
  then have "resolveCaller h hs now r (Some realm) w f = f ?c w1"
    using c(1-4,6-13,15) raw keys assms(2) by (simp add: resolveCaller_def authenticate_def inTokenScope_def)
  also have "?c = c" using c(14,16) by simp
  finally show ?thesis .
qed

section \<open>Guards\<close>

lemma resolved_run:
  assumes "resolved h hs now r w f = Some (resp, w')" "H_store h = sqlite_store"
  obtains (refused) "quiet w w'" "Resp_Status resp \<in> {401, 404, 500}"
  | (run) realm c w1 where "realmRepo_ByName (W_db w) (Rq_Realm r) = Inr realm" "calls_as h now r realm w c w1"
      "quiet w w1" "f realm c w1 = Some (resp, w')"
proof (cases "realmRepo_ByName (W_db w) (Rq_Realm r)")
  case (Inl x)
  with assms show thesis
    by (intro refused) (auto simp: resolved_def admin_resolveRealm_def writeRealmNotFound_def split: if_splits)
next
  case (Inr realm)
  with assms have "resolveCaller h hs now r (Some realm) w (f realm) = Some (resp, w')"
    by (simp add: resolved_def admin_resolveRealm_def)
  then show thesis using assms(2)
  proof (cases rule: resolveCaller_run)
    case (run c w1)
    then show thesis using that(2) [OF Inr] calls_as_quiet by blast
  qed (use refused in auto)
qed

lemma resolved_calls:
  "realmRepo_ByName (W_db w) (Rq_Realm r) = Inr realm \<Longrightarrow> calls_as h now r realm w c w1 \<Longrightarrow> H_store h = sqlite_store
    \<Longrightarrow> resolved h hs now r w f = f realm c w1"
  by (simp add: resolved_def admin_resolveRealm_def resolveCaller_calls)

text \<open>
  Every guard lets a handler run only for a caller with one of the roles of its route; what it has changed by
  then is nothing but the cached keys.
\<close>

lemma guardAnyRejecting_run:
  assumes "guardAnyRejecting h hs now r roles reject f w = Some (resp, w')" "H_store h = sqlite_store"
  obtains (refused) "quiet w w'"
  | (run) realm c w1 where "realmRepo_ByName (W_db w) (Rq_Realm r) = Inr realm" "calls_as h now r realm w c w1"
      "quiet w w1" "hasAny c roles" "f \<lparr>RQ_realm = realm, RQ_caller = c, RQ_subject = None\<rparr> w1 = Some (resp, w')"
  using assms(1) [unfolded guardAnyRejecting_def] assms(2)
  by (cases rule: resolved_run) (auto intro: refused run split: if_splits)

lemma guard_run:
  assumes "guard h hs now r role f w = Some (resp, w')" "H_store h = sqlite_store"
  obtains (refused) "quiet w w'"
  | (run) realm c w1 where "realmRepo_ByName (W_db w) (Rq_Realm r) = Inr realm" "calls_as h now r realm w c w1"
      "quiet w w1" "caller_has c role" "f \<lparr>RQ_realm = realm, RQ_caller = c, RQ_subject = None\<rparr> w1 = Some (resp, w')"
  using assms(1) [unfolded guard_def guardRejecting_def] assms(2)
  by (cases rule: guardAnyRejecting_run) (auto intro: refused run simp: hasAny_def)

lemma guardUserSubject_run:
  assumes "guardUserSubject h hs now r userID fine f w = Some (resp, w')" "H_store h = sqlite_store"
  obtains (refused) "quiet w w'"
  | (run) realm c w1 user where "realmRepo_ByName (W_db w) (Rq_Realm r) = Inr realm" "calls_as h now r realm w c w1"
      "quiet w w1" "hasAny c fine" "f \<lparr>RQ_realm = realm, RQ_caller = c, RQ_subject = Some user\<rparr> w1 = Some (resp, w')"
  using assms(1) [unfolded guardUserSubject_def guardUserSubjectResolving_def] assms(2)
proof (cases rule: guardAnyRejecting_run)
  case (run realm c w1)
  with refused that(2) show thesis by (auto simp: userFromPath_def split: sum.splits if_splits)
qed (rule refused)

lemma guardUserSubjectClient_run:
  assumes "guardUserSubjectClient h hs now r userID clientUUID fine f w = Some (resp, w')" "H_store h = sqlite_store"
  obtains (refused) "quiet w w'"
  | (run) realm c w1 user where "realmRepo_ByName (W_db w) (Rq_Realm r) = Inr realm" "calls_as h now r realm w c w1"
      "quiet w w1" "hasAny c fine" "f \<lparr>RQ_realm = realm, RQ_caller = c, RQ_subject = Some user\<rparr> w1 = Some (resp, w')"
  using assms(1) [unfolded guardUserSubjectClient_def] assms(2)
proof (cases rule: resolved_run)
  case (run realm c w1)
  with refused that(2) show thesis by (auto simp: mappingClientFromPath_def Let_def split: sum.splits if_splits)
qed (rule refused)

lemma guardGroup_run:
  assumes "guardGroup g h hs now r groupID fine f w = Some (resp, w')" "H_store h = sqlite_store"
  obtains (refused) "quiet w w'"
  | (run) realm c w1 gr where "realmRepo_ByName (W_db w) (Rq_Realm r) = Inr realm" "calls_as h now r realm w c w1"
      "quiet w w1" "hasAny c fine" "f gr \<lparr>RQ_realm = realm, RQ_caller = c, RQ_subject = None\<rparr> w1 = Some (resp, w')"
  using assms(1) [unfolded guardGroup_def guardGroupResolving_def] assms(2)
proof (cases rule: resolved_run)
  case (run realm c w1)
  with refused that(2) show thesis by (auto split: sum.splits if_splits)
qed (rule refused)

lemma guardGroupClient_run:
  assumes "guardGroupClient g h hs now r groupID clientUUID fine f w = Some (resp, w')" "H_store h = sqlite_store"
  obtains (refused) "quiet w w'"
  | (run) realm c w1 gr where "realmRepo_ByName (W_db w) (Rq_Realm r) = Inr realm" "calls_as h now r realm w c w1"
      "quiet w w1" "hasAny c fine" "f gr \<lparr>RQ_realm = realm, RQ_caller = c, RQ_subject = None\<rparr> w1 = Some (resp, w')"
  using assms(1) [unfolded guardGroupClient_def guardGroupResolving_def] assms(2)
proof (cases rule: resolved_run)
  case (run realm c w1)
  with refused that(2) show thesis by (auto simp: mappingClientFromPath_def split: sum.splits if_splits)
qed (rule refused)

lemma guardOrganizationGroup_run:
  assumes "guardOrganizationGroup groupByID orgs h hs now r orgID groupID fine f w = Some (resp, w')" "H_store h = sqlite_store"
  obtains (refused) "quiet w w'"
  | (run) realm c w1 gr org where "realmRepo_ByName (W_db w) (Rq_Realm r) = Inr realm" "calls_as h now r realm w c w1"
      "quiet w w1" "hasAny c fine" "f gr \<lparr>RQ_realm = realm, RQ_caller = c, RQ_subject = None\<rparr> w1 = Some (resp, w')"
      "Orgs_Enabled orgs realm" "Orgs_ByID orgs (W_db w1) (Realm_ID realm) orgID = Inr org"
      "groupByID (W_db w1) (Realm_ID realm) groupID = Inr gr" "Group_OrganizationID gr = Org_ID org"
  using assms(1) [unfolded guardOrganizationGroup_def guardOrganizationGroupOf_def guardOrganization_def guardOrganizations_def
      guardAny_def] assms(2)
proof (cases rule: guardAnyRejecting_run)
  case (run realm c w1)
  with refused that(2) show thesis
    by (auto simp: organizationFromPath_def organizationGroupFromPath_def split: sum.splits if_splits)
qed (rule refused)

lemma guardByRoleContainer_run:
  assumes "guardByRoleContainer h hs now r roleID realmRoles clientRoles f w = Some (resp, w')" "H_store h = sqlite_store"
  obtains (refused) "quiet w w'"
  | (run) realm c w1 role where "realmRepo_ByName (W_db w) (Rq_Realm r) = Inr realm" "calls_as h now r realm w c w1"
      "quiet w w1" "hasAny c (if Role_ClientID role \<noteq> [] then clientRoles else realmRoles)"
      "f role \<lparr>RQ_realm = realm, RQ_caller = c, RQ_subject = None\<rparr> w1 = Some (resp, w')"
      "roleRepo_ByID (W_db w1) (Realm_ID realm) roleID = Inr role"
  using assms(1) [unfolded guardByRoleContainer_def] assms(2)
proof (cases rule: resolved_run)
  case (run realm c w1)
  with refused that(2) assms(2) show thesis by (auto split: sum.splits if_splits)
qed (rule refused)

section \<open>Handing out roles\<close>

text \<open>Who a role can be handed to, and which roles have been handed to whom.\<close>

datatype role_holder = HUser string | HGroup string | HRole string

definition handed :: "sqlite_db \<Rightarrow> (role_holder \<times> string) set" where
  "handed db = {(HUser u, i) |u i. (u, i) \<in> set (T_user_role db)} \<union> {(HGroup g, i) |g i. (g, i) \<in> set (T_group_role db)}
     \<union> {(HRole p, i) |p i. (p, i) \<in> set (T_composite db)}"

lemma handed_quiet: "quiet w w' \<Longrightarrow> handed (W_db w') = handed (W_db w)"
  by (auto dest!: quietD(1) simp: only_keys_def handed_def)

lemma handed_assign:
  "roleRepo_AssignToUser db u i = Inr db' \<Longrightarrow> handed db' \<subseteq> insert (HUser u, i) (handed db)"
  "roleRepo_AssignToGroup db g i = Inr db' \<Longrightarrow> handed db' \<subseteq> insert (HGroup g, i) (handed db)"
  "roleRepo_AddComposite db p i = Inr db' \<Longrightarrow> handed db' \<subseteq> insert (HRole p, i) (handed db)"
  by (auto simp: roleRepo_AssignToUser_def roleRepo_AssignToGroup_def roleRepo_AddComposite_def handed_def
      insert_pair_def insert_pair_ignore_def split: if_splits)

lemma handed_mono:
  "set (T_user_role db') \<subseteq> set (T_user_role db) \<Longrightarrow> set (T_group_role db') \<subseteq> set (T_group_role db)
    \<Longrightarrow> set (T_composite db') \<subseteq> set (T_composite db) \<Longrightarrow> handed db' \<subseteq> handed db"
  by (auto simp: handed_def)

lemma handed_remove:
  "roleRepo_RemoveFromUser db u i = Inr db' \<Longrightarrow> handed db' \<subseteq> handed db"
  "roleRepo_RemoveFromGroup db u i = Inr db' \<Longrightarrow> handed db' \<subseteq> handed db"
  "roleRepo_RemoveComposite db u i = Inr db' \<Longrightarrow> handed db' \<subseteq> handed db"
  by (rule handed_mono; clarsimp simp: roleRepo_RemoveFromUser_def roleRepo_RemoveFromGroup_def
      roleRepo_RemoveComposite_def affectedOne_def split: if_splits)+

lemma affectedOne_same: "affectedOne n db = Inr db' \<Longrightarrow> db' = db"
  by (simp add: affectedOne_def split: if_splits)

lemma handed_Create: "roleRepo_Create db m = Inr db' \<Longrightarrow> handed db' \<subseteq> handed db"
  unfolding roleRepo_Create_def by (rule handed_mono) (auto split: if_splits)

lemma handed_Update: "roleRepo_Update db m = Inr db' \<Longrightarrow> handed db' \<subseteq> handed db"
  unfolding roleRepo_Update_def Let_def
  by (split if_split_asm) (simp, drule affectedOne_same, rule handed_mono, simp_all)

lemma handed_cascade: "handed (cascade_roles gone (db\<lparr>T_role := rs\<rparr>)) \<subseteq> handed db"
  by (rule handed_mono) (auto simp: cascade_roles_def)

lemma handed_Delete:
  assumes "roleRepo_Delete db realmID i = Inr db'"
  shows "handed db' \<subseteq> handed db"
proof -
  obtain gone rs where "db' = cascade_roles gone (db\<lparr>T_role := rs\<rparr>)"
    using affectedOne_same [OF assms [unfolded roleRepo_Delete_def Let_def]] that by blast
  then show ?thesis using handed_cascade by simp
qed

lemmas handed_roles = handed_Create handed_Update handed_Delete

lemma apply_each_handed:
  assumes "\<And>db i db'. write db x i = Inr db' \<Longrightarrow> handed db' \<subseteq> insert (H, i) (handed db)"
  shows "handed (fst (apply_each write x is db)) \<subseteq> handed db \<union> {H} \<times> set is"
proof (induction "is" arbitrary: db)
  case (Cons i "is")
  show ?case
  proof (cases "write db x i")
    case (Inr db')
    with assms [OF Inr] Cons [of db'] show ?thesis by auto
  qed auto
qed simp

lemma apply_each_shrinks:
  assumes "\<And>db i db'. write db x i = Inr db' \<Longrightarrow> handed db' \<subseteq> handed db"
  shows "handed (fst (apply_each write x is db)) \<subseteq> handed db"
proof (induction "is" arbitrary: db)
  case (Cons i "is")
  show ?case
  proof (cases "write db x i")
    case (Inr db')
    with assms [OF Inr] Cons [of db'] show ?thesis by auto
  qed simp
qed simp

text \<open>
  The realm a role administers, if it is one of the roles that administer a realm: a role of the client that
  administers the realm itself, of a client that administers another, or one of the two of the master realm.
\<close>

definition administers :: "sqlite_db \<Rightarrow> realm \<Rightarrow> role \<Rightarrow> string option" where
  "administers db realm role =
    (if Role_ClientID role = []
     then if Role_Name role = ''admin'' \<or> Role_Name role = ''create-realm'' then Some (Realm_Name realm) else None
     else (case clientRepo_ByID db (Realm_ID realm) (Role_ClientID role) of
             Inl _ \<Rightarrow> None
           | Inr c \<Rightarrow> (let owner = adminRealmOf (Realm_Name realm) (Client_ClientID c) in if owner = [] then None else Some owner)))"

text \<open>
  A caller is entitled to a role that administers no realm. Of one that does, it has to hold a role itself:
  for the realm of the request one of the caller's own container, or the master realm's, that confers the role;
  for another realm the role of the same name on the client that administers that realm where the caller lives.
\<close>

definition entitled :: "sqlite_db server \<Rightarrow> sqlite_db \<Rightarrow> realm \<Rightarrow> caller \<Rightarrow> role \<Rightarrow> bool" where
  "entitled h db realm c role \<longleftrightarrow> (case administers db realm role of
       None \<Rightarrow> True
     | Some owner \<Rightarrow>
         (\<exists>q \<in> set (Cl_held c).
            if owner = Realm_Name realm
            then (Role_Name q, Role_Name role) \<in> confers\<^sup>* \<and> adminRoleNames (Cl_authRealm c) (Cl_container c) [q] \<noteq> []
            else Role_Name q = Role_Name role
               \<and> (\<exists>oc. containerFor h db (Cl_authRealm c) owner = Inr (Some oc) \<and> Role_ClientID q = Client_ID oc)))"

lemma caller_namesE:
  assumes "n \<in> set (caller_names c)"
  obtains q where "q \<in> set (Cl_held c)" "Role_Name q = n" "adminRoleNames (Cl_authRealm c) (Cl_container c) [q] \<noteq> []"
  using assms unfolding caller_names_def adminRoleNames_def containerRoleNames_def
  by (auto simp: Let_def split: option.splits if_splits)

lemma caller_grantsE:
  assumes "n \<in> set (caller_grants c)"
  obtains q where "q \<in> set (Cl_held c)" "(Role_Name q, n) \<in> confers\<^sup>*" "adminRoleNames (Cl_authRealm c) (Cl_container c) [q] \<noteq> []"
  using assms unfolding caller_grants_closure by (auto elim: caller_namesE)

lemma mayGrantRole_entitled:
  assumes "mayGrantRole h db realm c role = Inr True" "H_store h = sqlite_store"
  shows "entitled h db realm c role"
proof (cases "Role_ClientID role = []")
  case True
  show ?thesis
  proof (cases "Role_Name role = ''admin'' \<or> Role_Name role = ''create-realm''")
    case admin: True
    with True assms have "Role_Name role \<in> set (caller_grants c)" by (auto simp: mayGrantRole_def split: if_splits)
    with admin True show ?thesis unfolding entitled_def administers_def by (fastforce elim: caller_grantsE)
  qed (simp add: entitled_def administers_def True)
next
  case False
  then obtain cl where cl: "clientRepo_ByID db (Realm_ID realm) (Role_ClientID role) = Inr cl"
    using assms by (cases "clientRepo_ByID db (Realm_ID realm) (Role_ClientID role)") (auto simp: mayGrantRole_def)
  define owner where "owner = adminRealmOf (Realm_Name realm) (Client_ClientID cl)"
  have a: "administers db realm role = (if owner = [] then None else Some owner)"
    using False cl by (simp add: administers_def owner_def Let_def)
  consider "owner = []" | "owner = Realm_Name realm" "owner \<noteq> []" | "owner \<noteq> Realm_Name realm" "owner \<noteq> []" by blast
  then show ?thesis
  proof cases
    case 2
    have "Role_Name role \<in> set (caller_grants c)"
      using assms False cl 2 by (simp add: mayGrantRole_def Let_def flip: owner_def)
    with 2 a show ?thesis unfolding entitled_def by (auto elim: caller_grantsE)
  next
    case 3
    have "bind_err (containerFor h db (Cl_authRealm c) owner) (\<lambda>oc. Inr (Role_Name role \<in> set (foreignGrants c oc))) = Inr True"
      using assms False cl 3 by (simp add: mayGrantRole_def Let_def flip: owner_def)
    then obtain oc where "containerFor h db (Cl_authRealm c) owner = Inr oc" "Role_Name role \<in> set (foreignGrants c oc)"
      by (cases "containerFor h db (Cl_authRealm c) owner") auto
    with 3 a show ?thesis unfolding entitled_def by (auto simp: foreignGrants_def split: option.splits)
  qed (simp add: a entitled_def)
qed

text \<open>
  Who may write the mappings of a user or a group: a caller who manages users; and those of a group that belongs
  to an organization of the realm, while organizations are enabled there, also a caller who manages organizations
  or the realm.
\<close>

definition organization_group ::
  "(sqlite_db \<Rightarrow> string \<Rightarrow> string \<Rightarrow> group st) \<Rightarrow> sqlite_db organizations \<Rightarrow> sqlite_db \<Rightarrow> realm \<Rightarrow> string \<Rightarrow> bool" where
  "organization_group groupByID orgs db realm g \<longleftrightarrow> Orgs_Enabled orgs realm \<and> (\<exists>orgID org groupID group.
     Orgs_ByID orgs db (Realm_ID realm) orgID = Inr org \<and> groupByID db (Realm_ID realm) groupID = Inr group
   \<and> Group_OrganizationID group = Org_ID org \<and> Group_ID group = g)"

definition may_map ::
  "(sqlite_db \<Rightarrow> string \<Rightarrow> string \<Rightarrow> group st) \<Rightarrow> sqlite_db organizations \<Rightarrow> sqlite_db \<Rightarrow> realm \<Rightarrow> caller \<Rightarrow> role_holder \<Rightarrow> bool" where
  "may_map groupByID orgs db realm c x \<longleftrightarrow> (case x of
       HUser _ \<Rightarrow> caller_has c ''manage-users''
     | HGroup g \<Rightarrow> caller_has c ''manage-users''
         \<or> organization_group groupByID orgs db realm g
           \<and> (caller_has c ''manage-organizations'' \<or> caller_has c ''manage-realm'')
     | HRole _ \<Rightarrow> False)"

text \<open>
  A caller may hand a role of the realm to a user or a group if it may write the mappings there, and attach it to
  a role if it manages the kind of both and the other does not itself administer a realm; in each case it is
  entitled to it.
\<close>

definition may_hand ::
  "(sqlite_db \<Rightarrow> string \<Rightarrow> string \<Rightarrow> group st) \<Rightarrow> sqlite_db organizations \<Rightarrow> sqlite_db server \<Rightarrow> sqlite_db \<Rightarrow> realm \<Rightarrow> caller
     \<Rightarrow> role_holder \<Rightarrow> string \<Rightarrow> bool" where
  "may_hand groupByID orgs h db realm c x i \<longleftrightarrow> (\<exists>role. roleRepo_ByID db (Realm_ID realm) i = Inr role \<and> entitled h db realm c role
     \<and> (case x of
          HRole p \<Rightarrow> caller_has c (manageRoleForContainer role)
            \<and> (\<exists>parent. parent \<in> set (loadRoleAttributes db (T_role db)) \<and> Role_ID parent = p
                 \<and> Role_RealmID parent = Realm_ID realm \<and> caller_has c (manageRoleForContainer parent)
                 \<and> ownedByRealmOwnClient h db realm parent = Inr False)
        | _ \<Rightarrow> may_map groupByID orgs db realm c x))"

lemma mapping_refusal_None:
  assumes "mapping_refusal h hs db rc accepts reps = None" "H_store h = sqlite_store" "i \<in> RP_ID ` set reps"
  obtains role where "roleRepo_ByID db (Realm_ID (RQ_realm rc)) i = Inr role"
    "mayGrantRole h db (RQ_realm rc) (RQ_caller rc) role = Inr True" "accepts role"
  using assms by (induction reps) (auto split: sum.splits if_splits)

lemma composite_refusal_None:
  assumes "composite_refusal h hs db rc (Some chk) reps = None" "H_store h = sqlite_store" "i \<in> RP_ID ` set reps"
  obtains child where "roleRepo_ByID db (Realm_ID (RQ_realm rc)) i = Inr child" "chk child = Inr True"
  using assms by (induction reps) (auto split: sum.splits if_splits)

lemma eachMapping_run:
  assumes "eachMapping h hs r body x accepts upd rc w = Some (resp, w')"
  obtains (same) "w' = w"
  | (run) reps ok where "mapping_refusal h hs (W_db w) rc accepts reps = None"
      "apply_each upd x (map RP_ID reps) (W_db w) = (W_db w', ok)"
proof (cases "w' = w")
  case False
  then obtain reps where r: "decode_role_list body = Some reps" "mapping_refusal h hs (W_db w) rc accepts reps = None"
    using assms by (cases "decode_role_list body") (auto simp: eachMapping_def decodeRoleList_def split: option.splits)
  obtain db ok where "apply_each upd x (map RP_ID reps) (W_db w) = (db, ok)" by fastforce
  with r assms show thesis by (intro run [OF r(2), of ok]) (auto simp: eachMapping_def decodeRoleList_def)
qed (rule same)

lemma eachMapping_hands:
  assumes "eachMapping h hs r body x accepts upd rc w = Some (resp, w')" "H_store h = sqlite_store"
    "\<And>db i db'. upd db x i = Inr db' \<Longrightarrow> handed db' \<subseteq> insert (H, i) (handed db)"
    "(y, i) \<in> handed (W_db w')" "(y, i) \<notin> handed (W_db w)"
    "may_map groupByID orgs (W_db w) (RQ_realm rc) (RQ_caller rc) H"
  shows "may_hand groupByID orgs h (W_db w) (RQ_realm rc) (RQ_caller rc) y i"
  using assms(1)
proof (cases rule: eachMapping_run)
  case (run reps ok)
  have "handed (W_db w') \<subseteq> handed (W_db w) \<union> {H} \<times> set (map RP_ID reps)"
    using apply_each_handed [of upd x H "map RP_ID reps" "W_db w", OF assms(3)] run(2) by simp
  with assms(4,5) have y: "y = H" "i \<in> RP_ID ` set reps" by auto
  obtain role where role: "roleRepo_ByID (W_db w) (Realm_ID (RQ_realm rc)) i = Inr role"
      "mayGrantRole h (W_db w) (RQ_realm rc) (RQ_caller rc) role = Inr True"
    by (rule mapping_refusal_None [OF run(1) assms(2) y(2)])
  show ?thesis unfolding may_hand_def
    using role(1) mayGrantRole_entitled [OF role(2) assms(2)] assms(6) y(1) by (cases H) (auto simp: may_map_def)
qed (use assms(4,5) in simp)

lemma eachMapping_takes:
  assumes "eachMapping h hs r body x accepts upd rc w = Some (resp, w')"
    "\<And>db i db'. upd db x i = Inr db' \<Longrightarrow> handed db' \<subseteq> handed db"
  shows "handed (W_db w') \<subseteq> handed (W_db w)"
  using assms(1)
proof (cases rule: eachMapping_run)
  case (run reps ok)
  then show ?thesis using apply_each_shrinks [of upd x "map RP_ID reps" "W_db w", OF assms(2)] by simp
qed simp

lemma syncCompositeFlag_handed:
  "syncCompositeFlag h db role = Inr db' \<Longrightarrow> H_store h = sqlite_store \<Longrightarrow> handed db' \<subseteq> handed db"
  by (simp add: syncCompositeFlag_def roleRepo_ListComposites_def handed_Update split: if_splits)

text \<open>Apart from its flag a batch of composites writes what its entries say.\<close>

lemma eachComposite_run:
  assumes "eachComposite h hs r body locate checkChild write rc w = Some (resp, w')" "H_store h = sqlite_store"
    "\<forall>f. locate rc w f = Some (resp, w') \<longrightarrow> w' \<noteq> w \<longrightarrow> (\<exists>role. P role \<and> f role = Some (resp, w'))"
  obtains (same) "w' = w"
  | (run) role reps where "P role" "ownedByRealmOwnClient h (W_db w) (RQ_realm rc) role = Inr False"
      "composite_refusal h hs (W_db w) rc (map_option (\<lambda>c. c (W_db w) rc) checkChild) reps = None"
      "handed (W_db w') \<subseteq> handed (fst (apply_each write (Role_ID role) (map RP_ID reps) (W_db w)))"
      "W_db w' = (case syncCompositeFlag h (fst (apply_each write (Role_ID role) (map RP_ID reps) (W_db w))) role of
         Inl _ \<Rightarrow> fst (apply_each write (Role_ID role) (map RP_ID reps) (W_db w)) | Inr db \<Rightarrow> db)"
proof (cases "w' = w")
  case False
  from assms(3) [rule_format, OF assms(1) [unfolded eachComposite_def] False] obtain role where
    p: "P role" and served: "(case ownedByRealmOwnClient h (W_db w) (RQ_realm rc) role of
       Inl _ \<Rightarrow> Some (internal_error hs, w)
     | Inr refused \<Rightarrow>
         if refused then Some (writeForbidden hs, w)
         else decodeRoleList hs body w (\<lambda>reps.
           case composite_refusal h hs (W_db w) rc (map_option (\<lambda>c. c (W_db w) rc) checkChild) reps of
             Some resp \<Rightarrow> Some (resp, w)
           | None \<Rightarrow>
               (let (db, ok) = apply_each write (Role_ID role) (map RP_ID reps) (W_db w)
                in if \<not> ok
                   then Some (internal_error hs, w\<lparr>W_db := (case syncCompositeFlag h db role of Inl _ \<Rightarrow> db | Inr db' \<Rightarrow> db')\<rparr>)
                   else (case syncCompositeFlag h db role of
                           Inl _ \<Rightarrow> Some (internal_error hs, w\<lparr>W_db := db\<rparr>)
                         | Inr db' \<Rightarrow> Some (WriteNoContent h r hs, w\<lparr>W_db := db'\<rparr>))))) = Some (resp, w')"
    by blast
  obtain reps where reps: "composite_refusal h hs (W_db w) rc (map_option (\<lambda>c. c (W_db w) rc) checkChild) reps = None"
      "ownedByRealmOwnClient h (W_db w) (RQ_realm rc) role = Inr False"
      "(let (db, ok) = apply_each write (Role_ID role) (map RP_ID reps) (W_db w)
                in if \<not> ok
                   then Some (internal_error hs, w\<lparr>W_db := (case syncCompositeFlag h db role of Inl _ \<Rightarrow> db | Inr db' \<Rightarrow> db')\<rparr>)
                   else (case syncCompositeFlag h db role of
                           Inl _ \<Rightarrow> Some (internal_error hs, w\<lparr>W_db := db\<rparr>)
                         | Inr db' \<Rightarrow> Some (WriteNoContent h r hs, w\<lparr>W_db := db'\<rparr>))) = Some (resp, w')"
    using served False by (auto simp: decodeRoleList_def split: sum.splits option.splits if_splits simp del: Let_def)
  obtain db ok where a: "apply_each write (Role_ID role) (map RP_ID reps) (W_db w) = (db, ok)" by fastforce
  have w: "W_db w' = (case syncCompositeFlag h db role of Inl _ \<Rightarrow> db | Inr db' \<Rightarrow> db')"
    using reps(3) a by (auto split: sum.splits if_splits)
  then have "handed (W_db w') \<subseteq> handed db"
    using syncCompositeFlag_handed [OF _ assms(2), of db role] by (auto split: sum.splits)
  moreover have "fst (apply_each write (Role_ID role) (map RP_ID reps) (W_db w)) = db" using a by simp
  ultimately show thesis using run [OF p reps(2,1)] w by metis
qed (rule same)

lemma add_composite_handed:
  "add_composite h db p i = Inr db' \<Longrightarrow> H_store h = sqlite_store \<Longrightarrow> handed db' \<subseteq> insert (HRole p, i) (handed db)"
  using handed_assign(3) by (fastforce simp: add_composite_def split: sum.splits if_splits)

lemma assign_to_user_handed:
  "assign_to_user h db u i = Inr db' \<Longrightarrow> H_store h = sqlite_store \<Longrightarrow> handed db' \<subseteq> insert (HUser u, i) (handed db)"
  using handed_assign(1) by (fastforce simp: assign_to_user_def split: sum.splits if_splits)

lemma remove_from_user_handed:
  "remove_from_user h db u i = Inr db' \<Longrightarrow> H_store h = sqlite_store \<Longrightarrow> handed db' \<subseteq> handed db"
  using handed_remove(1) by (fastforce simp: remove_from_user_def split: sum.splits if_splits)

text \<open>A locator finds a role of the realm.\<close>

definition locates :: "sqlite_db server \<Rightarrow> req_context \<Rightarrow> sqlite_db world \<Rightarrow> role \<Rightarrow> bool" where
  "locates h rc w role \<longleftrightarrow> role \<in> set (loadRoleAttributes (W_db w) (T_role (W_db w))) \<and> Role_RealmID role = Realm_ID (RQ_realm rc)
     \<and> caller_has (RQ_caller rc) (manageRoleForContainer role)"

lemma addComposites_hands:
  assumes "addComposites h hs r body locate rc w = Some (resp, w')" "H_store h = sqlite_store"
    "\<forall>f. locate rc w f = Some (resp, w') \<longrightarrow> w' \<noteq> w \<longrightarrow> (\<exists>role. locates h rc w role \<and> f role = Some (resp, w'))"
    "(y, i) \<in> handed (W_db w')" "(y, i) \<notin> handed (W_db w)"
  shows "may_hand groupByID orgs h (W_db w) (RQ_realm rc) (RQ_caller rc) y i"
  using assms(1) [unfolded addComposites_def] assms(2,3)
proof (cases rule: eachComposite_run)
  case (run role reps)
  have "handed (W_db w') \<subseteq> handed (W_db w) \<union> {HRole (Role_ID role)} \<times> set (map RP_ID reps)"
    using apply_each_handed [of "add_composite h" "Role_ID role" "HRole (Role_ID role)" "map RP_ID reps" "W_db w"]
      add_composite_handed assms(2) run(4) by blast
  with assms(4,5) have y: "y = HRole (Role_ID role)" "i \<in> RP_ID ` set reps" by auto
  from run(3) have "composite_refusal h hs (W_db w) rc (Some (mayAttachChild h (W_db w) rc)) reps = None" by simp
  then obtain child where c: "roleRepo_ByID (W_db w) (Realm_ID (RQ_realm rc)) i = Inr child" "mayAttachChild h (W_db w) rc child = Inr True"
    using assms(2) y(2) by (rule composite_refusal_None)
  then have "caller_has (RQ_caller rc) (manageRoleForContainer child)"
    "mayGrantRole h (W_db w) (RQ_realm rc) (RQ_caller rc) child = Inr True"
    by (auto simp: mayAttachChild_def requiresChildManageRole_def split: if_splits)
  with c(1) mayGrantRole_entitled [OF _ assms(2)] run(1,2) y(1) show ?thesis
    unfolding may_hand_def locates_def by auto
qed (use assms(4,5) in simp)

lemma removeComposites_takes:
  assumes "removeComposites h hs r body locate rc w = Some (resp, w')" "H_store h = sqlite_store"
    "\<forall>f. locate rc w f = Some (resp, w') \<longrightarrow> w' \<noteq> w \<longrightarrow> (\<exists>role. locates h rc w role \<and> f role = Some (resp, w'))"
  shows "handed (W_db w') \<subseteq> handed (W_db w)"
  using assms(1) [unfolded removeComposites_def] assms(2,3)
proof (cases rule: eachComposite_run)
  case (run role reps)
  then show ?thesis
    using apply_each_shrinks [of "roleRepo_RemoveComposite" "Role_ID role" "map RP_ID reps" "W_db w"]
      handed_remove(3) assms(2) by auto
qed simp

lemma first_row_Inr: "first_row xs = Inr x \<Longrightarrow> x \<in> set xs"
  by (cases xs) (auto simp: first_row_def)

lemma role_reads:
  "roleRepo_ByName db realmID clientID name = Inr role \<Longrightarrow> role \<in> set (loadRoleAttributes db (T_role db))
     \<and> Role_RealmID role = realmID \<and> Role_ClientID role = clientID \<and> Role_Name role = name"
  "roleRepo_ByID db realmID i = Inr role \<Longrightarrow> role \<in> set (loadRoleAttributes db (T_role db))
     \<and> Role_RealmID role = realmID \<and> Role_ID role = i"
  by (auto simp: roleRepo_ByName_def roleRepo_ByID_def loadRoleAttributes_def dest!: first_row_Inr)

lemma realmRole_locates:
  assumes "realmRole h hs roleName rc w f = Some (resp, w')" "H_store h = sqlite_store" "w' \<noteq> w"
    "caller_has (RQ_caller rc) ''manage-realm''"
  shows "\<exists>role. locates h rc w role \<and> f role = Some (resp, w')"
  using assms role_reads(1)
  by (fastforce simp: realmRole_def locates_def manageRoleForContainer_def split: sum.splits if_splits)

lemma clientRepo_ByID_stored:
  assumes "clientRepo_ByID db realmID i = Inr cl"
  shows "Client_ID cl = i" "Client_RealmID cl = realmID" "\<exists>row \<in> set (T_client db). Client_ID row = i"
proof -
  obtain row where row: "row \<in> set (T_client db)" "Client_RealmID row = realmID" "Client_ID row = i" "cl = scanWithScopes db row"
    using assms by (auto simp: clientRepo_ByID_def bind_err_Inr_iff dest!: first_row_Inr)
  then show "Client_ID cl = i" "Client_RealmID cl = realmID" "\<exists>row \<in> set (T_client db). Client_ID row = i"
    by (auto simp: scanWithScopes_def loadNodes_def loadClientScopeNames_def Let_def)
qed

lemma clientRole_locates:
  assumes "clientRoleLocator h hs clientUUID roleName rc w f = Some (resp, w')" "H_store h = sqlite_store" "w' \<noteq> w"
    "caller_has (RQ_caller rc) ''manage-clients''" "\<forall>c \<in> set (T_client (W_db w)). Client_ID c \<noteq> []"
  shows "\<exists>role. locates h rc w role \<and> f role = Some (resp, w')"
proof -
  obtain cl role where c: "clientRepo_ByID (W_db w) (Realm_ID (RQ_realm rc)) clientUUID = Inr cl"
      "roleRepo_ByName (W_db w) (Realm_ID (RQ_realm rc)) (Client_ID cl) roleName = Inr role" "f role = Some (resp, w')"
    using assms(1-3) by (auto simp: clientRoleLocator_def clientRole_def clientRoleContainer_def split: sum.splits if_splits)
  have "Client_ID cl \<noteq> []" using c(1) clientRepo_ByID_stored assms(5) by fastforce
  with role_reads(1) [OF c(2)] c(3) assms(4) show ?thesis
    by (intro exI [of _ role]) (simp add: locates_def manageRoleForContainer_def)
qed

lemma store_role_takes:
  assumes "store_role h hs realmID clientID loc rep w = Some (resp, w')" "H_store h = sqlite_store"
  shows "handed (W_db w') \<subseteq> handed (W_db w)"
proof -
  have "W_db w' = W_db w \<or> (\<exists>m. roleRepo_Create (W_db w) m = Inr (W_db w'))"
    using assms by (auto simp: store_role_def Let_def split: if_splits option.splits sum.splits)
  then show ?thesis using handed_Create by auto
qed

lemma applyRoleUpdate_takes:
  "applyRoleUpdate h hs r body role w = Some (resp, w') \<Longrightarrow> H_store h = sqlite_store \<Longrightarrow> handed (W_db w') \<subseteq> handed (W_db w)"
  by (auto simp: applyRoleUpdate_def decodeRole_def Let_def dest: handed_Update [THEN subsetD] split: if_splits option.splits sum.splits)

lemma delete_role_takes:
  "delete_role h hs r rc role w = Some (resp, w') \<Longrightarrow> H_store h = sqlite_store \<Longrightarrow> handed (W_db w') \<subseteq> handed (W_db w)"
  by (auto simp: delete_role_def dest: handed_Delete [THEN subsetD] split: sum.splits)

lemmas role_takes = store_role_takes applyRoleUpdate_takes delete_role_takes

lemma role_handlers_take:
  assumes "H_store h = sqlite_store"
  shows "createRealmRole h hs body rc w = Some (resp, w') \<Longrightarrow> handed (W_db w') \<subseteq> handed (W_db w)"
    "updateRealmRole h hs r roleName body rc w = Some (resp, w') \<Longrightarrow> handed (W_db w') \<subseteq> handed (W_db w)"
    "deleteRealmRole h hs r roleName rc w = Some (resp, w') \<Longrightarrow> handed (W_db w') \<subseteq> handed (W_db w)"
    "createClientRole h hs clientUUID body rc w = Some (resp, w') \<Longrightarrow> handed (W_db w') \<subseteq> handed (W_db w)"
    "updateClientRole h hs r clientUUID roleName body rc w = Some (resp, w') \<Longrightarrow> handed (W_db w') \<subseteq> handed (W_db w)"
    "deleteClientRole h hs r clientUUID roleName rc w = Some (resp, w') \<Longrightarrow> handed (W_db w') \<subseteq> handed (W_db w)"
    "updateRoleByID h hs r body role rc w = Some (resp, w') \<Longrightarrow> handed (W_db w') \<subseteq> handed (W_db w)"
    "deleteRoleByID h hs r role rc w = Some (resp, w') \<Longrightarrow> handed (W_db w') \<subseteq> handed (W_db w)"
  subgoal by (auto simp: createRealmRole_def decodeRole_def split: option.splits dest: role_takes(1) [OF _ assms, THEN subsetD])
  subgoal by (auto simp: updateRealmRole_def realmRole_def split: sum.splits if_splits dest: role_takes(2) [OF _ assms, THEN subsetD])
  subgoal by (auto simp: deleteRealmRole_def realmRole_def split: sum.splits if_splits dest: role_takes(3) [OF _ assms, THEN subsetD])
  subgoal by (auto simp: createClientRole_def clientRoleContainer_def decodeRole_def
      split: sum.splits if_splits option.splits dest: role_takes(1) [OF _ assms, THEN subsetD])
  subgoal by (auto simp: updateClientRole_def clientRole_def clientRoleContainer_def
      split: sum.splits if_splits dest: role_takes(2) [OF _ assms, THEN subsetD])
  subgoal by (auto simp: deleteClientRole_def clientRole_def clientRoleContainer_def
      split: sum.splits if_splits dest: role_takes(3) [OF _ assms, THEN subsetD])
  subgoal by (auto simp: updateRoleByID_def dest: role_takes(2) [OF _ assms, THEN subsetD])
  subgoal by (auto simp: deleteRoleByID_def dest: role_takes(3) [OF _ assms, THEN subsetD])
  done

text \<open>Whatever a handler hands out its caller may hand out; and the request that reached it had such a caller.\<close>

definition hands ::
  "(sqlite_db \<Rightarrow> string \<Rightarrow> string \<Rightarrow> group st) \<Rightarrow> sqlite_db organizations \<Rightarrow> sqlite_db server \<Rightarrow> realm \<Rightarrow> caller \<Rightarrow> sqlite_db world \<Rightarrow> sqlite_db world \<Rightarrow> bool" where
  "hands groupByID orgs h realm c w w' \<longleftrightarrow> (\<forall>x i. (x, i) \<in> handed (W_db w') - handed (W_db w) \<longrightarrow> may_hand groupByID orgs h (W_db w) realm c x i)"

definition handed_by ::
  "(sqlite_db \<Rightarrow> string \<Rightarrow> string \<Rightarrow> group st) \<Rightarrow> sqlite_db organizations \<Rightarrow> sqlite_db server \<Rightarrow> time \<Rightarrow> request \<Rightarrow> sqlite_db world \<Rightarrow> sqlite_db world \<Rightarrow> bool" where
  "handed_by groupByID orgs h now r w w' \<longleftrightarrow> handed (W_db w') \<subseteq> handed (W_db w)
     \<or> (\<exists>realm c w1. realmRepo_ByName (W_db w) (Rq_Realm r) = Inr realm \<and> calls_as h now r realm w c w1
          \<and> hands groupByID orgs h realm c w1 w')"

lemma hands_takes: "handed (W_db w') \<subseteq> handed (W_db w) \<Longrightarrow> hands groupByID orgs h realm c w w'"
  by (auto simp: hands_def)

lemma handed_byI:
  assumes "realmRepo_ByName (W_db w) (Rq_Realm r) = Inr realm" "calls_as h now r realm w c w1" "hands groupByID orgs h realm c w1 w'"
  shows "handed_by groupByID orgs h now r w w'"
  using assms by (auto simp: handed_by_def)

lemma handed_by_quiet: "quiet w w' \<Longrightarrow> handed_by groupByID orgs h now r w w'"
  by (simp add: handed_by_def handed_quiet)

lemma quiet_clients: "quiet w w1 \<Longrightarrow> T_client (W_db w1) = T_client (W_db w)"
  using only_keys_reads(5) quietD(1) by blast

lemma guard_hands:
  assumes "guard h hs now r role f w = Some (resp, w')" "H_store h = sqlite_store"
    "\<And>rc w1. f rc w1 = Some (resp, w') \<Longrightarrow> caller_has (RQ_caller rc) role \<Longrightarrow> T_client (W_db w1) = T_client (W_db w)
       \<Longrightarrow> hands groupByID orgs h (RQ_realm rc) (RQ_caller rc) w1 w'"
  shows "handed_by groupByID orgs h now r w w'"
  using assms(1,2)
proof (cases rule: guard_run)
  case (run realm c w1)
  from assms(3) [OF run(5)] run(4) quiet_clients [OF run(3)] show ?thesis by (intro handed_byI [OF run(1,2)]) simp
qed (rule handed_by_quiet)

lemma guardByRoleContainer_hands:
  assumes "guardByRoleContainer h hs now r roleID [''manage-realm''] [''manage-clients''] f w = Some (resp, w')"
    "H_store h = sqlite_store"
    "\<And>role rc w1. f role rc w1 = Some (resp, w') \<Longrightarrow> locates h rc w1 role \<Longrightarrow> hands groupByID orgs h (RQ_realm rc) (RQ_caller rc) w1 w'"
  shows "handed_by groupByID orgs h now r w w'"
  using assms(1,2)
proof (cases rule: guardByRoleContainer_run)
  case (run realm c w1 role)
  then have "locates h \<lparr>RQ_realm = realm, RQ_caller = c, RQ_subject = None\<rparr> w1 role"
    using role_reads(2) by (auto simp: locates_def manageRoleForContainer_def hasAny_def split: if_splits)
  from assms(3) [OF run(5) this] show ?thesis by (intro handed_byI [OF run(1,2)]) simp
qed (rule handed_by_quiet)

lemma manages_users: "hasAny c userMappingsWriteRoles \<longleftrightarrow> caller_has c ''manage-users''"
  by (simp add: hasAny_def userMappingsWriteRoles_def userMappingsWriteRole_def)

lemma guardUserSubject_hands:
  assumes "guardUserSubject h hs now r userID userMappingsWriteRoles f w = Some (resp, w')" "H_store h = sqlite_store"
    "\<And>rc w1. f rc w1 = Some (resp, w') \<Longrightarrow> caller_has (RQ_caller rc) ''manage-users'' \<Longrightarrow> hands groupByID orgs h (RQ_realm rc) (RQ_caller rc) w1 w'"
  shows "handed_by groupByID orgs h now r w w'"
  using assms(1,2)
proof (cases rule: guardUserSubject_run)
  case (run realm c w1 user)
  from assms(3) [OF run(5)] run(4) show ?thesis by (intro handed_byI [OF run(1,2)]) (simp add: manages_users)
qed (rule handed_by_quiet)

lemma guardUserSubjectClient_hands:
  assumes "guardUserSubjectClient h hs now r userID clientUUID userMappingsWriteRoles f w = Some (resp, w')"
    "H_store h = sqlite_store"
    "\<And>rc w1. f rc w1 = Some (resp, w') \<Longrightarrow> caller_has (RQ_caller rc) ''manage-users'' \<Longrightarrow> hands groupByID orgs h (RQ_realm rc) (RQ_caller rc) w1 w'"
  shows "handed_by groupByID orgs h now r w w'"
  using assms(1,2)
proof (cases rule: guardUserSubjectClient_run)
  case (run realm c w1 user)
  from assms(3) [OF run(5)] run(4) show ?thesis by (intro handed_byI [OF run(1,2)]) (simp add: manages_users)
qed (rule handed_by_quiet)

lemma guardGroup_hands:
  assumes "guardGroup g h hs now r groupID userMappingsWriteRoles f w = Some (resp, w')" "H_store h = sqlite_store"
    "\<And>gr rc w1. f gr rc w1 = Some (resp, w') \<Longrightarrow> may_map groupByID orgs (W_db w1) (RQ_realm rc) (RQ_caller rc) (HGroup (Group_ID gr))
       \<Longrightarrow> hands groupByID orgs h (RQ_realm rc) (RQ_caller rc) w1 w'"
  shows "handed_by groupByID orgs h now r w w'"
  using assms(1,2)
proof (cases rule: guardGroup_run)
  case (run realm c w1 gr)
  from assms(3) [OF run(5)] run(4) show ?thesis by (intro handed_byI [OF run(1,2)]) (simp add: manages_users may_map_def)
qed (rule handed_by_quiet)

lemma guardGroupClient_hands:
  assumes "guardGroupClient g h hs now r groupID clientUUID userMappingsWriteRoles f w = Some (resp, w')"
    "H_store h = sqlite_store"
    "\<And>gr rc w1. f gr rc w1 = Some (resp, w') \<Longrightarrow> may_map groupByID orgs (W_db w1) (RQ_realm rc) (RQ_caller rc) (HGroup (Group_ID gr))
       \<Longrightarrow> hands groupByID orgs h (RQ_realm rc) (RQ_caller rc) w1 w'"
  shows "handed_by groupByID orgs h now r w w'"
  using assms(1,2)
proof (cases rule: guardGroupClient_run)
  case (run realm c w1 gr)
  from assms(3) [OF run(5)] run(4) show ?thesis by (intro handed_byI [OF run(1,2)]) (simp add: manages_users may_map_def)
qed (rule handed_by_quiet)

lemma guardOrganizationGroup_hands:
  assumes "guardOrganizationGroup groupByID orgs h hs now r orgID groupID organizationWriteRoles f w = Some (resp, w')"
    "H_store h = sqlite_store"
    "\<And>gr rc w1. f gr rc w1 = Some (resp, w') \<Longrightarrow> may_map groupByID orgs (W_db w1) (RQ_realm rc) (RQ_caller rc) (HGroup (Group_ID gr))
       \<Longrightarrow> hands groupByID orgs h (RQ_realm rc) (RQ_caller rc) w1 w'"
  shows "handed_by groupByID orgs h now r w w'"
  using assms(1,2)
proof (cases rule: guardOrganizationGroup_run)
  case (run realm c w1 gr org)
  have "organization_group groupByID orgs (W_db w1) realm (Group_ID gr)"
    unfolding organization_group_def using run(6-9) by blast
  moreover have "caller_has c ''manage-organizations'' \<or> caller_has c ''manage-realm''"
    using run(4) by (simp add: hasAny_def organizationWriteRoles_def)
  ultimately have "may_map groupByID orgs (W_db w1) realm c (HGroup (Group_ID gr))" by (simp add: may_map_def)
  with assms(3) [OF run(5)] show ?thesis by (intro handed_byI [OF run(1,2)]) simp
qed (rule handed_by_quiet)

lemma locator_hands:
  assumes "H_store h = sqlite_store"
  shows "addComposites h hs r body locate rc w = Some (resp, w')
      \<Longrightarrow> \<forall>f. locate rc w f = Some (resp, w') \<longrightarrow> w' \<noteq> w \<longrightarrow> (\<exists>role. locates h rc w role \<and> f role = Some (resp, w'))
      \<Longrightarrow> hands groupByID orgs h (RQ_realm rc) (RQ_caller rc) w w'"
    "removeComposites h hs r body locate rc w = Some (resp, w')
      \<Longrightarrow> \<forall>f. locate rc w f = Some (resp, w') \<longrightarrow> w' \<noteq> w \<longrightarrow> (\<exists>role. locates h rc w role \<and> f role = Some (resp, w'))
      \<Longrightarrow> hands groupByID orgs h (RQ_realm rc) (RQ_caller rc) w w'"
  subgoal premises p unfolding hands_def using addComposites_hands [OF p(1) assms p(2)] by blast
  subgoal premises p by (rule hands_takes, rule removeComposites_takes [OF p(1) assms p(2)])
  done

lemma mapping_hands:
  assumes "eachMapping h hs r body x accepts upd rc w = Some (resp, w')" "H_store h = sqlite_store"
    "\<And>db i db'. upd db x i = Inr db' \<Longrightarrow> handed db' \<subseteq> insert (H, i) (handed db)"
    "may_map groupByID orgs (W_db w) (RQ_realm rc) (RQ_caller rc) H"
  shows "hands groupByID orgs h (RQ_realm rc) (RQ_caller rc) w w'"
  using eachMapping_hands [OF assms(1-3) _ _ assms(4)] by (auto simp: hands_def)

lemma from_path:
  "userFromPath h hs userID rc w f = Some (resp, w') \<Longrightarrow> w' = w \<or> (\<exists>user. f user = Some (resp, w'))"
  "mappingClientFromPath h hs clientUUID rc w g = Some (resp, w') \<Longrightarrow> w' = w \<or> (\<exists>c. g c = Some (resp, w'))"
  "clientMappingSubject h hs userID clientUUID rc w k = Some (resp, w') \<Longrightarrow> w' = w \<or> (\<exists>user c. k user c = Some (resp, w'))"
  by (auto simp: userFromPath_def mappingClientFromPath_def clientMappingSubject_def split: option.splits sum.splits if_splits)

lemma user_mappings_hand:
  assumes "H_store h = sqlite_store" "caller_has (RQ_caller rc) ''manage-users''"
  shows "assignRealmMappings h hs r userID body rc w = Some (resp, w') \<Longrightarrow> hands groupByID orgs h (RQ_realm rc) (RQ_caller rc) w w'"
    "assignClientMappings h hs r userID clientUUID body rc w = Some (resp, w') \<Longrightarrow> hands groupByID orgs h (RQ_realm rc) (RQ_caller rc) w w'"
    "removeRealmMappings h hs r userID body rc w = Some (resp, w') \<Longrightarrow> hands groupByID orgs h (RQ_realm rc) (RQ_caller rc) w w'"
    "removeClientMappings h hs r userID clientUUID body rc w = Some (resp, w') \<Longrightarrow> hands groupByID orgs h (RQ_realm rc) (RQ_caller rc) w w'"
proof -
  have a: "eachMapping h hs r body u acc (assign_to_user h) rc w = Some (resp, w') \<Longrightarrow> hands groupByID orgs h (RQ_realm rc) (RQ_caller rc) w w'" for u acc
    using mapping_hands [of h hs r body u acc "assign_to_user h" rc w resp w' "HUser u", OF _ assms(1)]
      assign_to_user_handed [OF _ assms(1)] assms(2) by (auto simp: may_map_def)
  have b: "eachMapping h hs r body u acc (remove_from_user h) rc w = Some (resp, w') \<Longrightarrow> hands groupByID orgs h (RQ_realm rc) (RQ_caller rc) w w'" for u acc
    using eachMapping_takes [of h hs r body u acc "remove_from_user h" rc w resp w'] remove_from_user_handed [OF _ assms(1)]
    by (intro hands_takes) blast
  show "assignRealmMappings h hs r userID body rc w = Some (resp, w') \<Longrightarrow> hands groupByID orgs h (RQ_realm rc) (RQ_caller rc) w w'"
    "assignClientMappings h hs r userID clientUUID body rc w = Some (resp, w') \<Longrightarrow> hands groupByID orgs h (RQ_realm rc) (RQ_caller rc) w w'"
    "removeRealmMappings h hs r userID body rc w = Some (resp, w') \<Longrightarrow> hands groupByID orgs h (RQ_realm rc) (RQ_caller rc) w w'"
    "removeClientMappings h hs r userID clientUUID body rc w = Some (resp, w') \<Longrightarrow> hands groupByID orgs h (RQ_realm rc) (RQ_caller rc) w w'"
    unfolding assignRealmMappings_def assignClientMappings_def removeRealmMappings_def removeClientMappings_def
      eachRealmMapping_def eachClientMapping_def
    by (auto dest!: from_path intro: a b simp: hands_takes)
qed

lemma group_mappings_hand:
  assumes "H_store h = sqlite_store" "may_map groupByID orgs (W_db w) (RQ_realm rc) (RQ_caller rc) (HGroup (Group_ID g))"
  shows "assignGroupRealmMappings h hs r body g rc w = Some (resp, w') \<Longrightarrow> hands groupByID orgs h (RQ_realm rc) (RQ_caller rc) w w'"
    "assignGroupClientMappings h hs r clientUUID body g rc w = Some (resp, w') \<Longrightarrow> hands groupByID orgs h (RQ_realm rc) (RQ_caller rc) w w'"
    "removeGroupRealmMappings h hs r body g rc w = Some (resp, w') \<Longrightarrow> hands groupByID orgs h (RQ_realm rc) (RQ_caller rc) w w'"
    "removeGroupClientMappings h hs r clientUUID body g rc w = Some (resp, w') \<Longrightarrow> hands groupByID orgs h (RQ_realm rc) (RQ_caller rc) w w'"
proof -
  have a: "eachMapping h hs r body (Group_ID g) acc roleRepo_AssignToGroup rc w = Some (resp, w') \<Longrightarrow> hands groupByID orgs h (RQ_realm rc) (RQ_caller rc) w w'" for acc
    using mapping_hands [of h hs r body "Group_ID g" acc roleRepo_AssignToGroup rc w resp w' "HGroup (Group_ID g)", OF _ assms(1) _ assms(2)]
      handed_assign(2) by blast
  have b: "eachMapping h hs r body u acc roleRepo_RemoveFromGroup rc w = Some (resp, w') \<Longrightarrow> hands groupByID orgs h (RQ_realm rc) (RQ_caller rc) w w'" for u acc
    using eachMapping_takes [of h hs r body u acc roleRepo_RemoveFromGroup rc w resp w'] handed_remove(2)
    by (intro hands_takes) blast
  have s: "RoleRepo_AssignToGroup (Store_Roles (H_store h)) = roleRepo_AssignToGroup"
    "RoleRepo_RemoveFromGroup (Store_Roles (H_store h)) = roleRepo_RemoveFromGroup" using assms(1) by simp_all
  show "assignGroupRealmMappings h hs r body g rc w = Some (resp, w') \<Longrightarrow> hands groupByID orgs h (RQ_realm rc) (RQ_caller rc) w w'"
    "assignGroupClientMappings h hs r clientUUID body g rc w = Some (resp, w') \<Longrightarrow> hands groupByID orgs h (RQ_realm rc) (RQ_caller rc) w w'"
    "removeGroupRealmMappings h hs r body g rc w = Some (resp, w') \<Longrightarrow> hands groupByID orgs h (RQ_realm rc) (RQ_caller rc) w w'"
    "removeGroupClientMappings h hs r clientUUID body g rc w = Some (resp, w') \<Longrightarrow> hands groupByID orgs h (RQ_realm rc) (RQ_caller rc) w w'"
    unfolding assignGroupRealmMappings_def assignGroupClientMappings_def removeGroupRealmMappings_def
      removeGroupClientMappings_def s
    by (auto dest!: from_path intro: a b simp: hands_takes)
qed

lemmas role_handlers_hand = role_handlers_take [THEN hands_takes]

lemma composites_hand:
  assumes st: "H_store h = sqlite_store"
  shows "addComposites h hs r body (realmRole h hs roleName) rc w = Some (resp, w')
      \<Longrightarrow> caller_has (RQ_caller rc) ''manage-realm'' \<Longrightarrow> hands groupByID orgs h (RQ_realm rc) (RQ_caller rc) w w'"
    "removeComposites h hs r body (realmRole h hs roleName) rc w = Some (resp, w')
      \<Longrightarrow> caller_has (RQ_caller rc) ''manage-realm'' \<Longrightarrow> hands groupByID orgs h (RQ_realm rc) (RQ_caller rc) w w'"
    "addComposites h hs r body (clientRoleLocator h hs clientUUID roleName) rc w = Some (resp, w')
      \<Longrightarrow> caller_has (RQ_caller rc) ''manage-clients'' \<Longrightarrow> \<forall>c \<in> set (T_client (W_db w)). Client_ID c \<noteq> []
      \<Longrightarrow> hands groupByID orgs h (RQ_realm rc) (RQ_caller rc) w w'"
    "removeComposites h hs r body (clientRoleLocator h hs clientUUID roleName) rc w = Some (resp, w')
      \<Longrightarrow> caller_has (RQ_caller rc) ''manage-clients'' \<Longrightarrow> \<forall>c \<in> set (T_client (W_db w)). Client_ID c \<noteq> []
      \<Longrightarrow> hands groupByID orgs h (RQ_realm rc) (RQ_caller rc) w w'"
    "addCompositesByID h hs r body role rc w = Some (resp, w') \<Longrightarrow> locates h rc w role \<Longrightarrow> hands groupByID orgs h (RQ_realm rc) (RQ_caller rc) w w'"
    "removeCompositesByID h hs r body role rc w = Some (resp, w') \<Longrightarrow> locates h rc w role \<Longrightarrow> hands groupByID orgs h (RQ_realm rc) (RQ_caller rc) w w'"
  subgoal premises p by (rule locator_hands(1) [OF st p(1)], use realmRole_locates [OF _ st _ p(2)] in blast)
  subgoal premises p by (rule locator_hands(2) [OF st p(1)], use realmRole_locates [OF _ st _ p(2)] in blast)
  subgoal premises p by (rule locator_hands(1) [OF st p(1)], use clientRole_locates [OF _ st _ p(2,3)] in blast)
  subgoal premises p by (rule locator_hands(2) [OF st p(1)], use clientRole_locates [OF _ st _ p(2,3)] in blast)
  subgoal premises p by (rule locator_hands(1) [OF st p(1) [unfolded addCompositesByID_def]], use p(2) in \<open>simp add: byIDLocator_def, blast\<close>)
  subgoal premises p by (rule locator_hands(2) [OF st p(1) [unfolded removeCompositesByID_def]], use p(2) in \<open>simp add: byIDLocator_def, blast\<close>)
  done

lemmas guards_hand = guard_hands guardByRoleContainer_hands guardUserSubject_hands guardUserSubjectClient_hands
  guardGroup_hands guardGroupClient_hands guardOrganizationGroup_hands

lemma serve_role_op_hands:
  assumes "serve_role_op groupByID orgs h hs now r op w = Some (resp, w')" and st: "H_store h = sqlite_store"
    and ids: "\<forall>c \<in> set (T_client (W_db w)). Client_ID c \<noteq> []"
  shows "handed_by groupByID orgs h now r w w'"
  by (cases op; use assms(1) [unfolded serve_role_op_def routes] in \<open>simp only: role_op.case\<close>; erule guards_hand [OF _ st];
      (erule role_handlers_hand [OF st] user_mappings_hand [OF st, rotated] group_mappings_hand [OF st, rotated]
         composites_hand [OF st]; simp add: ids)?)

text \<open>
  C17. Who can hand out a role. When a request to a writing route of the roles, the composites or the role mappings
  adds an entry by which a user, a group or a composite role has a role, the request came from an enabled user
  with a live session and a valid access token, and the role belongs to the realm of the request. For a user the
  caller manages users; for a group it manages users, or the group belongs to an organization of the realm and
  the caller manages organizations or the realm; for a composite it manages the kind of both roles, the parent
  not itself administering a realm. And if the role is one that administers a realm, the caller holds a role that
  confers it: for the request's realm one on the caller's own administrative client in the closure of the
  implications, for another realm the very same role there. This is about the entry and the role it names. It
  does not say that the caller holds what the role contains: the check does not look inside a composite role
  that administers nothing itself. Nor is it about what a role given earlier comes to mean when it is renamed.
  The stored clients have identifiers, as every client the program creates has.
\<close>

theorem role_handing_authority:
  assumes "serve_role_op groupByID orgs h hs now r op w = Some (resp, w')" "H_store h = sqlite_store"
    "\<forall>c \<in> set (T_client (W_db w)). Client_ID c \<noteq> []" "(x, i) \<in> handed (W_db w') - handed (W_db w)"
  shows "\<exists>realm c w1. realmRepo_ByName (W_db w) (Rq_Realm r) = Inr realm \<and> calls_as h now r realm w c w1
    \<and> may_hand groupByID orgs h (W_db w1) realm c x i"
proof -
  obtain realm c w1 where c: "realmRepo_ByName (W_db w) (Rq_Realm r) = Inr realm" "calls_as h now r realm w c w1"
      "hands groupByID orgs h realm c w1 w'"
    using serve_role_op_hands [OF assms(1-3)] assms(4) by (auto simp: handed_by_def)
  have "(x, i) \<in> handed (W_db w') - handed (W_db w1)"
    using assms(4) handed_quiet [OF calls_as_quiet [OF c(2)]] by simp
  with c show ?thesis by (auto simp: hands_def)
qed

section \<open>An administrator at work\<close>

text \<open>
  A realm with its administrative client: a user who manages users and clients there. The token library of the
  example writes the compact form, the payload between two dots.
\<close>

definition compact_jose :: jose where
  "compact_jose = \<lparr>J_sign = (\<lambda>alg ty kid key j. Some (''h.'' @ b64_encode (json_text j) @ ''.s'')),
     J_verify = (\<lambda>alg key raw. case split_string ''.'' raw of
        [_, payload, _] \<Rightarrow> Option.bind (b64_decode payload) json_parse | _ \<Rightarrow> None),
     J_public = id\<rparr>"

definition ops_claims :: json where
  "ops_claims = JObj [(''exp'', JInt 60), (''iss'', JStr ''http://h/realms/demo''), (''typ'', JStr ''Bearer''),
     (''azp'', JStr ''app''), (''sid'', JStr ''s1'')]"

definition ops_token :: string where
  "ops_token = ''h.'' @ b64_encode (json_text ops_claims) @ ''.s''"

definition ops_container :: client where
  "ops_container = demo_client\<lparr>Client_ID := ''m1'', Client_ClientID := ''realm-management''\<rparr>"

definition ops_role :: "string \<Rightarrow> string \<Rightarrow> string \<Rightarrow> role" where
  "ops_role i client name = \<lparr>Role_ID = i, Role_RealmID = ''r1'', Role_ClientID = client, Role_Name = name,
     Role_Description = [], Role_Composite = False, Role_Attributes = []\<rparr>"

definition ops_db :: sqlite_db where
  "ops_db = demo_db\<lparr>T_client := [demo_client, ops_container],
     T_role := [ops_role ''mu'' ''m1'' ''manage-users'', ops_role ''mc'' ''m1'' ''manage-clients'', ops_role ''st'' [] ''staff''],
     T_user_role := [(''u1'', ''mu''), (''u1'', ''mc'')]\<rparr>"

definition ops_server :: "sqlite_db server" where
  "ops_server = demo_server\<lparr>H_jose := compact_jose\<rparr>"

definition ops_world :: "sqlite_db world" where
  "ops_world = demo_world\<lparr>W_db := ops_db\<rparr>"

definition ops_request :: request where
  "ops_request = (demo_post [])\<lparr>Rq_Authorization := ''Bearer '' @ ops_token\<rparr>"

definition ops_caller :: caller where
  "ops_caller = \<lparr>Cl_user = demo_user, Cl_adminGrants = [''manage-clients'', ''manage-users''], Cl_authRealm = demo_realm,
     Cl_effective = [ops_role ''mc'' ''m1'' ''manage-clients'', ops_role ''mu'' ''m1'' ''manage-users''],
     Cl_held = [ops_role ''mc'' ''m1'' ''manage-clients'', ops_role ''mu'' ''m1'' ''manage-users''],
     Cl_container = Some ops_container\<rparr>"

lemma split_at_char:
  "c \<notin> set a \<Longrightarrow> split_string [c] (a @ c # b) = a # split_string [c] b"
  by (induction a) (auto simp: split_string.simps [of _ "_ # _"] has_prefix_def)

lemma split_no_char: "c \<notin> set a \<Longrightarrow> split_string [c] a = [a]"
  by (induction a) (auto simp: split_string.simps [of _ "[]"] split_string.simps [of _ "_ # _"] has_prefix_def)

lemma ops_bytes: "list_all (\<lambda>b. b < 256) (json_text ops_claims)"
  by code_simp

lemma b64_no_dot: "list_all (\<lambda>b. b < 256) bs \<Longrightarrow> CHR ''.'' \<notin> set (b64_encode bs)"
proof
  assume "list_all (\<lambda>b. b < 256) bs" and d: "CHR ''.'' \<in> set (b64_encode bs)"
  then obtain vs where "b64_encode bs = map b64_char vs" "list_all (\<lambda>v. v < 64) vs" using b64_encode_chars by blast
  with d obtain v where v: "v < 64" "CHR ''.'' = b64_char v" by (auto simp: list_all_iff)
  from v(2) have "of_char (CHR ''.'') = (of_char (b64_char v) :: nat)" by simp
  then show False using of_char_b64_char [OF v(1)] v(1) by (auto simp: b64_code_def split: if_splits)
qed

lemma ops_payload: "split_string ''.'' ops_token = [''h'', b64_encode (json_text ops_claims), ''s'']"
  using split_at_char [of "CHR ''.''" "''h''"] split_at_char [OF b64_no_dot [OF ops_bytes], of "''s''"]
    split_no_char [of "CHR ''.''" "''s''"] by (simp add: ops_token_def)

lemma ops_ascii: "list_all (\<lambda>c. of_char c < (128::nat) \<and> \<not> is_space (of_char c)) ops_token"
proof -
  obtain vs where "b64_encode (json_text ops_claims) = map b64_char vs" "list_all (\<lambda>v. v < 64) vs"
    using b64_encode_chars [OF ops_bytes] by blast
  moreover have "b64_code v < 128 \<and> \<not> is_space (b64_code v)" if "v < 64" for v
    using that by (auto simp: b64_code_def is_space_def)
  ultimately show ?thesis by (auto simp: ops_token_def list_all_iff of_char_b64_char is_space_def)
qed

lemma ops_bearer: "admin_bearerToken ops_request = ops_token"
  using trim_space_ascii [OF ops_ascii] by (simp add: admin_bearerToken_def ops_request_def cut_prefix_def has_prefix_def)

lemma ops_parse: "json_parse (json_text ops_claims) = Some ops_claims"
  by (rule json_roundtrip) (simp_all add: ops_claims_def valid_utf8_ascii ascii_def maxNestingDepth_def)

lemma ops_read:
  "Option.bind (b64_decode (b64_encode (json_text ops_claims))) json_parse = Some ops_claims"
  using b64_roundtrip [OF ops_bytes] ops_parse by simp

lemma ops_issuer: "UnverifiedIssuer ops_token = Inr ''http://h/realms/demo''"
proof -
  obtain ps where ps: "ops_claims = JObj ps" "iss_field [] ps = Some ''http://h/realms/demo''"
    by (simp add: ops_claims_def fold_name_def fold_rune_def runes_ascii ascii_def string_bytes_def as_string_def)
  have "(case ops_claims of JObj ps \<Rightarrow> (case iss_field [] ps of
       None \<Rightarrow> Inl ErrInvalidToken | Some iss \<Rightarrow> if iss = [] then Inl ErrInvalidToken else Inr iss)
     | _ \<Rightarrow> Inl ErrInvalidToken) = Inr ''http://h/realms/demo''"
    unfolding ps(1) json.case ps(2) option.case by simp
  then show ?thesis unfolding UnverifiedIssuer_def ops_payload list.case b64_roundtrip [OF ops_bytes] option.case ops_parse .
qed

lemma ops_access:
  obtains parsed where "ParseAccess compact_jose sample_keys ''http://h/realms/demo'' ops_token 0 = Inr parsed"
    "Parsed_SessionID parsed = ''s1''" "Parsed_ClientID parsed = ''app''"
proof -
  have "J_verify compact_jose alg key ops_token = Some ops_claims" for alg key
    unfolding compact_jose_def by (simp add: ops_payload ops_read)
  moreover have "unmarshal_claims ops_claims
      = Some (zero_claims\<lparr>PC_Exp := 60, PC_Iss := ''http://h/realms/demo'', PC_Typ := ''Bearer'', PC_Azp := ''app'', PC_Sid := ''s1''\<rparr>)"
    by (simp add: ops_claims_def unmarshal_claims_def set_claim_def fold_name_def fold_rune_def runes_ascii ascii_def string_bytes_def
        as_string_def as_int64_def zero_claims_def)
  ultimately have "\<exists>parsed. ParseAccess compact_jose sample_keys ''http://h/realms/demo'' ops_token 0 = Inr parsed
      \<and> Parsed_SessionID parsed = ''s1'' \<and> Parsed_ClientID parsed = ''app''"
    by (simp add: ParseAccess_def verify_def check_def TypeAccess_def zero_claims_def time_of_unix_def second_def)
  then show thesis using that by blast
qed

lemma ops_simps [simp]:
  "H_store ops_server = sqlite_store" "H_jose ops_server = compact_jose" "H_issuerBase ops_server = ''http://h''"
  "realmIssuer ops_server ''demo'' = ''http://h/realms/demo''"
  "W_db ops_world = ops_db" "W_keys ops_world = [''r1'' \<mapsto> sample_keys]" "Rq_Realm ops_request = ''demo''"
  "Client_ID ops_container = ''m1''" "Client_ClientID ops_container = ''realm-management''"
  by (simp_all add: ops_server_def demo_server_def realmIssuer_def ops_world_def demo_world_def ops_request_def demo_post_def
      ops_container_def)

lemma ops_found:
  "realmRepo_ByName ops_db ''demo'' = Inr demo_realm" "clientRepo_ByClientID ops_db ''r1'' ''app'' = Inr demo_client"
  "clientRepo_ByClientID ops_db ''r1'' ''realm-management'' = Inr ops_container"
  "clientRepo_ByID ops_db ''r1'' ''m1'' = Inr ops_container"
  "sessionRepo_UserSessionByID ops_db ''r1'' ''s1'' = Inr (Req_UserSession sample_request)"
  "UserRepo_ByID (Store_Users sqlite_store) ops_db ''r1'' ''u1'' = Inr demo_user"
  by (simp_all add: realmRepo_ByName_def clientRepo_ByClientID_def clientRepo_ByID_def sessionRepo_UserSessionByID_def
      sqlite_store_def sqlite_users_def userRepo_ByID_def first_row_def ops_db_def demo_db_def demo_user_def sample_request_def
      demo_client_def ops_container_def zero_client_def scanWithScopes_def loadNodes_def loadClientScopeNames_def empty_db_def)

lemma ops_effective: "Effective sqlite_roles ops_db ''u1''
    = Some (Inr [ops_role ''mc'' ''m1'' ''manage-clients'', ops_role ''mu'' ''m1'' ''manage-users''])"
  by (simp add: Effective_def ExpandFrom_def ExpandFrom_loop_eqs roleRepo_ListUserRoles_def
        roleRepo_ListComposites_def join_roles_def loadRoleAttributes_def role_attributes_def
        ops_db_def demo_db_def empty_db_def ops_role_def)

lemma ops_calls: "calls_as ops_server 0 ops_request demo_realm ops_world ops_caller ops_world"
proof -
  obtain parsed where p: "ParseAccess compact_jose sample_keys ''http://h/realms/demo'' ops_token 0 = Inr parsed"
    "Parsed_SessionID parsed = ''s1''" "Parsed_ClientID parsed = ''app''" by (rule ops_access)
  have c: "Cl_authRealm ops_caller = demo_realm" "Cl_user ops_caller = demo_user" "User_ID demo_user = ''u1''" "User_Enabled demo_user"
    "Cl_held ops_caller = [ops_role ''mc'' ''m1'' ''manage-clients'', ops_role ''mu'' ''m1'' ''manage-users'']"
    "Cl_effective ops_caller = Cl_held ops_caller" "Cl_container ops_caller = Some ops_container"
    "US_UserID (Req_UserSession sample_request) = ''u1''"
    by (simp_all add: ops_caller_def demo_user_def sample_request_def)
  have "InScope sqlite_roles ops_db demo_client scopes = Some (Inr (\<lambda>_. True))" for scopes
    by (simp add: InScope_def demo_client_def)
  moreover obtain scopes where "ScopesInEffect sqlite_client_scopes ops_db demo_client (Parsed_Scope parsed) = Inr scopes"
    by (simp add: ScopesInEffect_def clientScopeRepo_ListClientScopes_def)
  moreover have "containerFor ops_server ops_db demo_realm ''demo'' = Inr (Some ops_container)"
    using ops_found(3) by (simp add: containerFor_def MasterRealmName_def AdminContainerFor_def)
  moreover have "Cl_adminGrants ops_caller = adminRoleNames demo_realm (Some ops_container) (Cl_held ops_caller)"
    by (simp add: ops_caller_def adminRoleNames_def containerRoleNames_def MasterRealmName_def ops_role_def)
  moreover have "load_keys ops_server 0 demo_realm ops_world = Some (sample_keys, ops_world)"
    by (rule load_keys_cached) simp
  ultimately show ?thesis
    unfolding calls_as_def ops_bearer c(1,2)
    by (intro exI [of _ "''demo''"] exI [of _ sample_keys] exI [of _ parsed] exI [of _ "Req_UserSession sample_request"]
        exI [of _ demo_client] exI [of _ scopes] exI [of _ "\<lambda>_. True"])
      (simp add: ops_issuer ops_found ops_effective p c Filter_def contains_def has_prefix_def)
qed

text \<open>No realm of the example has organizations.\<close>

definition ops_orgs :: "sqlite_db organizations" where
  "ops_orgs = \<lparr>Orgs_Enabled = (\<lambda>_. False), Orgs_ByID = (\<lambda>_ _ _. Inl ErrNotFound)\<rparr>"

text \<open>The administrator gives itself the ordinary role \<^verbatim>\<open>staff\<close>.\<close>

definition quoted :: "string \<Rightarrow> string" where
  "quoted s = [CHR 0x22] @ s @ [CHR 0x22]"

definition staff_body :: string where
  "staff_body = ''[{'' @ quoted ''id'' @ '':'' @ quoted ''st'' @ '','' @ quoted ''name'' @ '':'' @ quoted ''staff'' @ ''}]''"

lemma next_json_text:
  assumes "string_bytes body = json_text j" "json_ok j" "json_plain j" "json_depth j \<le> maxNestingDepth"
    "(\<exists>ps. j = JObj ps) \<or> (\<exists>vs. j = JArr vs)"
  shows "next_json body = Some j"
proof -
  have "parse_value (Suc (2 * length (json_text j))) maxNestingDepth (json_text j @ []) = Some (j, [])"
    by (rule reads_backD [OF json_reads_back [OF assms(3,2)] assms(4)]) simp_all
  with assms(1,5) show ?thesis by (auto simp: next_json_def Let_def)
qed

lemmas field_names = fold_name_def fold_rune_def runes_ascii ascii_def string_bytes_def

lemma decode_staff: "decode_role_list staff_body = Some [zero_role_representation\<lparr>RP_ID := ''st'', RP_Name := ''staff''\<rparr>]"
proof -
  have "next_json staff_body = Some (JArr [JObj [(''id'', JStr ''st''), (''name'', JStr ''staff'')]])"
  proof (rule next_json_text)
    show "string_bytes staff_body = json_text (JArr [JObj [(''id'', JStr ''st''), (''name'', JStr ''staff'')]])" by code_simp
  qed (simp_all add: valid_utf8_ascii ascii_def maxNestingDepth_def)
  then show ?thesis
    by (simp add: decode_role_list_def as_role_def set_role_field_def field_names as_string_def zero_role_representation_def)
qed

lemma ops_assign_handler:
  "\<exists>resp w'. assignRealmMappings ops_server [] ops_request ''u1'' staff_body
      \<lparr>RQ_realm = demo_realm, RQ_caller = ops_caller, RQ_subject = Some demo_user\<rparr> ops_world = Some (resp, w')
    \<and> Resp_Status resp = 204 \<and> W_db w' = ops_db\<lparr>T_user_role := [(''u1'', ''mu''), (''u1'', ''mc''), (''u1'', ''st'')]\<rparr>"
proof -
  let ?rc = "\<lparr>RQ_realm = demo_realm, RQ_caller = ops_caller, RQ_subject = Some demo_user\<rparr>"
  have role: "roleRepo_ByID ops_db ''r1'' ''st'' = Inr (ops_role ''st'' [] ''staff'')"
    by (simp add: roleRepo_ByID_def first_row_def loadRoleAttributes_def role_attributes_def ops_db_def demo_db_def empty_db_def ops_role_def)
  have "mapping_refusal ops_server [] ops_db ?rc (\<lambda>role. Role_ClientID role = [])
      [zero_role_representation\<lparr>RP_ID := ''st'', RP_Name := ''staff''\<rparr>] = None"
    by (simp add: role mayGrantRole_def) (simp add: ops_role_def)
  moreover have "assign_to_user ops_server ops_db ''u1'' ''st''
      = Inr (ops_db\<lparr>T_user_role := [(''u1'', ''mu''), (''u1'', ''mc''), (''u1'', ''st'')]\<rparr>)"
    by (simp add: assign_to_user_def roleRepo_AssignToUser_def insert_pair_def has_user_def has_role_def ops_db_def demo_db_def
        demo_user_def ops_role_def)
  moreover have "User_ID demo_user = ''u1''" by (simp add: demo_user_def)
  ultimately show ?thesis
    by (simp add: assignRealmMappings_def eachRealmMapping_def userFromPath_def eachMapping_def decodeRoleList_def decode_staff
        WriteNoContent_def empty_response_def Let_def)
qed

lemma ops_assign:
  "\<exists>resp w'. serve_role_op groupRepo_ByID ops_orgs ops_server [] 0 ops_request (AssignRealm ''u1'' staff_body) ops_world = Some (resp, w')
    \<and> Resp_Status resp = 204 \<and> W_db w' = ops_db\<lparr>T_user_role := [(''u1'', ''mu''), (''u1'', ''mc''), (''u1'', ''st'')]\<rparr>"
proof -
  have g: "hasAny ops_caller usersReadRoles" "hasAny ops_caller userMappingsWriteRoles"
    by (simp_all add: hasAny_def caller_has_def ops_caller_def usersReadRoles_def userMappingsWriteRoles_def userMappingsWriteRole_def)
  have "resolved ops_server [] 0 ops_request ops_world f = f demo_realm ops_caller ops_world" for f
    by (rule resolved_calls [OF _ ops_calls]) (simp_all add: ops_found)
  then show ?thesis using g ops_found(6) ops_assign_handler
    by (simp add: serve_role_op_def routes guardUserSubject_def guardUserSubjectResolving_def guardAnyRejecting_def userFromPath_def)
qed

theorem role_handing_authority_witness:
  "\<exists>resp w'. serve_role_op groupRepo_ByID ops_orgs ops_server [] 0 ops_request (AssignRealm ''u1'' staff_body) ops_world = Some (resp, w')
    \<and> (HUser ''u1'', ''st'') \<in> handed (W_db w') - handed (W_db ops_world)
    \<and> (\<exists>c w1. calls_as ops_server 0 ops_request demo_realm ops_world c w1 \<and> may_hand groupRepo_ByID ops_orgs ops_server (W_db w1) demo_realm c (HUser ''u1'') ''st'')"
proof -
  obtain resp w' where run: "serve_role_op groupRepo_ByID ops_orgs ops_server [] 0 ops_request (AssignRealm ''u1'' staff_body) ops_world = Some (resp, w')"
    "W_db w' = ops_db\<lparr>T_user_role := [(''u1'', ''mu''), (''u1'', ''mc''), (''u1'', ''st'')]\<rparr>" using ops_assign by blast
  have n: "(HUser ''u1'', ''st'') \<in> handed (W_db w') - handed (W_db ops_world)"
    by (simp add: run(2) handed_def) (simp add: ops_db_def)
  have ids: "\<forall>c \<in> set (T_client (W_db ops_world)). Client_ID c \<noteq> []" by (simp add: ops_db_def)
  from role_handing_authority [OF run(1) _ ids n] ops_found(1) run(1) n show ?thesis by auto
qed

end
