(* ===== verification/AdminOffer.thy ===== *)
theory AdminOffer
  imports AdminSafety
begin

text \<open>
  The offer of the role mapping endpoints against what they accept, and what a rename of an administrative role
  does to the rights of its holders.
\<close>

section \<open>What is offered is what is accepted\<close>

lemma grantable_roles_filter:
  "\<forall>x \<in> set roles. may x = Inr (ok x) \<Longrightarrow> grantable_roles may roles = Inr (filter ok roles)"
  by (induction roles) auto

lemma first_row_filter_unique:
  assumes "distinct (map f xs)" "x \<in> set xs" "P x" "\<And>y. P y \<Longrightarrow> f y = f x"
  shows "filter P xs = [x]"
  using assms
proof (induction xs)
  case (Cons y ys)
  show ?case
  proof (cases "P y")
    case True
    with Cons.prems have "f y = f x" by blast
    with Cons.prems(1,2) have "y = x" by force
    moreover have "\<not> P z" if "z \<in> set ys" for z
      using Cons.prems(1) Cons.prems(4) [of z] that \<open>y = x\<close> by (metis distinct.simps(2) imageI list.map(2) list.set_map)
    then have "filter P ys = []" by (simp add: filter_empty_conv)
    ultimately show ?thesis using Cons.prems(3) by simp
  next
    case False
    then have m: "x \<in> set ys" "distinct (map f ys)" using Cons.prems(1-3) by auto
    have "filter P ys = [x]" by (rule Cons.IH [OF m(2,1) Cons.prems(3,4)])
    with False show ?thesis by simp
  qed
qed simp

lemma roleRepo_ByID_stored:
  assumes "distinct (map Role_ID (T_role db))" "role \<in> set (loadRoleAttributes db (T_role db))"
  shows "roleRepo_ByID db (Role_RealmID role) (Role_ID role) = Inr role"
proof -
  obtain x where x: "x \<in> set (T_role db)" "role = x\<lparr>Role_Attributes := role_attributes db (Role_ID x)\<rparr>"
    using assms(2) by (auto simp: loadRoleAttributes_def)
  have "filter (\<lambda>r. Role_RealmID r = Role_RealmID role \<and> Role_ID r = Role_ID role) (T_role db) = [x]"
    by (rule first_row_filter_unique [OF assms(1)]) (simp_all add: x)
  then show ?thesis using x(2) by (simp add: roleRepo_ByID_def loadRoleAttributes_def first_row_def)
qed

lemma realm_roles_listed:
  "role \<in> set (loadRoleAttributes db (sort_key Role_Name
       (filter (\<lambda>r. Role_RealmID r = realmID \<and> Role_ClientID r = []) (T_role db))))
     \<longleftrightarrow> role \<in> set (loadRoleAttributes db (T_role db)) \<and> Role_RealmID role = realmID \<and> Role_ClientID role = []"
  by (auto simp: loadRoleAttributes_def)

lemma mayGrantRole_realm: "Role_ClientID role = [] \<Longrightarrow> mayGrantRole h db realm c role = Inr (mayGrantRole h db realm c role = Inr True)"
  by (simp add: mayGrantRole_def)

text \<open>
  C19. The list of realm roles the interface offers for a user is exact. A caller who does not manage users (and
  so is refused by the route that assigns) is offered nothing. Otherwise a role is offered precisely when the user
  does not have it and a request to assign it, alone, by its identifier and name, succeeds and leaves the user
  with it. The user is the stored one the guard resolved, and identifiers of roles are unique, their primary key.
\<close>

theorem offer_exact:
  assumes "H_store h = sqlite_store" "distinct (map Role_ID (T_role (W_db w)))"
    "RQ_subject rc = Some user" "has_user (W_db w) (User_ID user)" "decode_role_list body = Some [rep]"
  shows "\<exists>offered. availableRealmMappings h hs userID rc w
        = Some (writeMappingList hs offered (Realm_ID (RQ_realm rc)) True, w)
    \<and> (\<not> caller_has (RQ_caller rc) ''manage-users'' \<longrightarrow> offered = [])
    \<and> ((\<exists>role \<in> set offered. Role_ID role = RP_ID rep \<and> Role_Name role = RP_Name rep)
       \<longleftrightarrow> caller_has (RQ_caller rc) ''manage-users'' \<and> (User_ID user, RP_ID rep) \<notin> set (T_user_role (W_db w))
         \<and> (\<exists>resp w'. assignRealmMappings h hs r userID body rc w = Some (resp, w') \<and> Resp_Status resp = 204
              \<and> (User_ID user, RP_ID rep) \<in> set (T_user_role (W_db w'))))"
proof (cases "caller_has (RQ_caller rc) ''manage-users''")
  case False
  then have "availableRealmMappings h hs userID rc w = Some (writeMappingList hs [] (Realm_ID (RQ_realm rc)) True, w)"
    using assms(1,3) by (simp add: availableRealmMappings_def userFromPath_def write_roles_def roleRepo_ListRealmRoles_def
        roleRepo_ListUserRoles_def grantable_def userMappingsWriteRole_def)
  with False show ?thesis by (intro exI [of _ "[]"]) simp
next
  case manages: True
  let ?db = "W_db w" and ?rid = "Realm_ID (RQ_realm rc)"
  let ?may = "\<lambda>role. mayGrantRole h ?db (RQ_realm rc) (RQ_caller rc) role"
  let ?all = "loadRoleAttributes ?db (sort_key Role_Name
       (filter (\<lambda>r. Role_RealmID r = ?rid \<and> Role_ClientID r = []) (T_role ?db)))"
  define offered where "offered = filter (\<lambda>role. ?may role = Inr True) (roles_without ?all (join_roles ?db (T_user_role ?db) (User_ID user)))"
  have "grantable_roles ?may (roles_without ?all (join_roles ?db (T_user_role ?db) (User_ID user))) = Inr offered"
    unfolding offered_def using mayGrantRole_realm
    by (intro grantable_roles_filter) (auto simp: roles_without_def realm_roles_listed)
  then have a: "availableRealmMappings h hs userID rc w = Some (writeMappingList hs offered ?rid True, w)"
    using assms(1,3) manages by (simp add: availableRealmMappings_def userFromPath_def write_roles_def roleRepo_ListRealmRoles_def
        roleRepo_ListUserRoles_def grantable_def userMappingsWriteRole_def)
  have off: "role \<in> set offered \<longleftrightarrow> role \<in> set (loadRoleAttributes ?db (T_role ?db)) \<and> Role_RealmID role = ?rid \<and> Role_ClientID role = []
      \<and> ?may role = Inr True \<and> (User_ID user, Role_ID role) \<notin> set (T_user_role ?db)" for role
    by (auto simp: offered_def roles_without_def realm_roles_listed join_roles_def loadRoleAttributes_def image_iff)
  have run: "assignRealmMappings h hs r userID body rc w = eachMapping h hs r body (User_ID user) (\<lambda>role. Role_ClientID role = [])
      (assign_to_user h) rc w"
    using assms(3) by (simp add: assignRealmMappings_def eachRealmMapping_def userFromPath_def)
  have "(\<exists>role \<in> set offered. Role_ID role = RP_ID rep \<and> Role_Name role = RP_Name rep)
       \<longleftrightarrow> (User_ID user, RP_ID rep) \<notin> set (T_user_role ?db)
         \<and> mapping_refusal h hs ?db rc (\<lambda>role. Role_ClientID role = []) [rep] = None"
    (is "?offer \<longleftrightarrow> ?free \<and> ?accepted")
  proof
    assume ?offer
    then obtain role where role: "role \<in> set offered" "Role_ID role = RP_ID rep" "Role_Name role = RP_Name rep" by blast
    then have "roleRepo_ByID ?db ?rid (RP_ID rep) = Inr role"
      using roleRepo_ByID_stored [OF assms(2), of role] by (simp add: off)
    with role assms(1) show "?free \<and> ?accepted" by (simp add: off)
  next
    assume f: "?free \<and> ?accepted"
    then obtain role where "roleRepo_ByID ?db ?rid (RP_ID rep) = Inr role" "Role_ClientID role = []"
        "Role_Name role = RP_Name rep" "?may role = Inr True"
      using assms(1) by (auto split: sum.splits if_splits)
    with role_reads(2) f show ?offer by (fastforce simp: off)
  qed
  moreover have "?accepted \<longleftrightarrow> (\<exists>resp w'. assignRealmMappings h hs r userID body rc w = Some (resp, w') \<and> Resp_Status resp = 204
              \<and> (User_ID user, RP_ID rep) \<in> set (T_user_role (W_db w')))" if ?free
  proof
    assume acc: ?accepted
    then obtain role where "roleRepo_ByID ?db ?rid (RP_ID rep) = Inr role" using assms(1) by (auto split: sum.splits)
    from role_reads(2) [OF this] have "has_role ?db (RP_ID rep)" by (force simp: has_role_def loadRoleAttributes_def)
    with that assms(1,4) have "assign_to_user h ?db (User_ID user) (RP_ID rep)
        = Inr (?db\<lparr>T_user_role := T_user_role ?db @ [(User_ID user, RP_ID rep)]\<rparr>)"
      by (simp add: assign_to_user_def roleRepo_AssignToUser_def insert_pair_def)
    with acc assms(5) show "\<exists>resp w'. assignRealmMappings h hs r userID body rc w = Some (resp, w') \<and> Resp_Status resp = 204
              \<and> (User_ID user, RP_ID rep) \<in> set (T_user_role (W_db w'))"
      unfolding run by (simp add: eachMapping_def decodeRoleList_def WriteNoContent_def empty_response_def Let_def)
  next
    assume "\<exists>resp w'. assignRealmMappings h hs r userID body rc w = Some (resp, w') \<and> Resp_Status resp = 204
              \<and> (User_ID user, RP_ID rep) \<in> set (T_user_role (W_db w'))"
    with that assms(5) show ?accepted unfolding run by (auto simp: eachMapping_def decodeRoleList_def split: option.splits)
  qed
  ultimately show ?thesis using a manages by blast
qed

section \<open>Renaming\<close>

text \<open>What the resolution of a caller reads besides the roles is not in the tables a role is written to.\<close>

lemma role_tables_reads:
  assumes "db' = db\<lparr>T_role := rs, T_role_attribute := as\<rparr>"
  shows "realmRepo_ByName db' = realmRepo_ByName db" "sessionRepo_UserSessionByID db' = sessionRepo_UserSessionByID db"
    "UserRepo_ByID (Store_Users sqlite_store) db' = UserRepo_ByID (Store_Users sqlite_store) db"
    "clientRepo_ByClientID db' = clientRepo_ByClientID db"
    "ScopesInEffect sqlite_client_scopes db' = ScopesInEffect sqlite_client_scopes db"
    "H_store h = sqlite_store \<Longrightarrow> containerFor h db' = containerFor h db"
proof -
  have "scanWithScopes db' = scanWithScopes db"
    by (simp add: assms fun_eq_iff scanWithScopes_def loadNodes_def loadClientScopeNames_def Let_def)
  then show c: "clientRepo_ByClientID db' = clientRepo_ByClientID db"
    by (simp add: assms fun_eq_iff clientRepo_ByClientID_def)
  show "realmRepo_ByName db' = realmRepo_ByName db" "sessionRepo_UserSessionByID db' = sessionRepo_UserSessionByID db"
    "UserRepo_ByID (Store_Users sqlite_store) db' = UserRepo_ByID (Store_Users sqlite_store) db"
    "ScopesInEffect sqlite_client_scopes db' = ScopesInEffect sqlite_client_scopes db"
    by (simp_all add: assms fun_eq_iff realmRepo_ByName_def sessionRepo_UserSessionByID_def sqlite_store_def sqlite_users_def
        userRepo_ByID_def ScopesInEffect_def clientScopeRepo_ListClientScopes_def)
  show "H_store h = sqlite_store \<Longrightarrow> containerFor h db' = containerFor h db"
    by (simp add: fun_eq_iff containerFor_def c)
qed

lemma rename_keeps:
  assumes "db' = db\<lparr>T_role := map f (T_role db), T_role_attribute := as\<rparr>"
    "\<And>r. r \<in> set (T_role db) \<Longrightarrow> Role_ID (f r) = Role_ID r \<and> Role_RealmID (f r) = Role_RealmID r \<and> Role_ClientID (f r) = Role_ClientID r
        \<and> Role_Composite (f r) = Role_Composite r"
  shows "wf_roles db' = wf_roles db" "flags_synced db' = flags_synced db" "holds db' u = holds db u"
    "in_token_scope db' c scopes i = in_token_scope db c scopes i"
proof -
  have ids: "map Role_ID (map f (T_role db)) = map Role_ID (T_role db)" using assms(2) by simp
  then show "wf_roles db' = wf_roles db" unfolding assms(1) by (intro wf_roles_same_ids)
  show "flags_synced db' = flags_synced db" using assms by (simp add: flags_synced_def)
  show "holds db' u = holds db u" by (simp add: assms(1) holds_def reach_def)
  have "Role_ID ` {r \<in> f ` set (T_role db). Role_RealmID r = x \<and> Role_ClientID r = y}
      = Role_ID ` {r \<in> set (T_role db). Role_RealmID r = x \<and> Role_ClientID r = y}" for x y
    using assms(2) by (force simp: image_iff)
  then show "in_token_scope db' c scopes i = in_token_scope db c scopes i"
    by (simp add: assms(1) in_token_scope_def scope_roots_def reach_def)
qed

text \<open>
  After a rename the same token resolves to the same user, who holds the renamed role: whatever the old name
  gave is gone and whatever the new one gives is there.
\<close>

lemma calls_as_renamed:
  assumes "calls_as h now r realm w c w" "H_store h = sqlite_store" "wf_roles (W_db w)" "flags_synced (W_db w)"
    "role \<in> set (Cl_effective c)" "Cl_container c = Some cl" "Role_ClientID role = Client_ID cl"
    "db' = (W_db w)\<lparr>T_role := map f (T_role (W_db w)), T_role_attribute := as\<rparr>"
    "\<And>q. q \<in> set (T_role (W_db w)) \<Longrightarrow> Role_ID (f q) = Role_ID q \<and> Role_RealmID (f q) = Role_RealmID q \<and> Role_ClientID (f q) = Role_ClientID q
        \<and> Role_Composite (f q) = Role_Composite q" "\<And>q. Role_ID q = Role_ID role \<Longrightarrow> Role_Name (f q) = name"
  shows "\<exists>c'. calls_as h now r realm (w\<lparr>W_db := db'\<rparr>) c' (w\<lparr>W_db := db'\<rparr>) \<and> caller_has c' name"
proof -
  let ?w = "w\<lparr>W_db := db'\<rparr>" and ?u = "User_ID (Cl_user c)"
  obtain rname k parsed session client scopes inScope where c:
    "UnverifiedIssuer (admin_bearerToken r) = Inr (H_issuerBase h @ ''/realms/'' @ rname)" "rname \<noteq> []" "\<not> contains rname ''/''"
    "realmRepo_ByName (W_db w) rname = Inr (Cl_authRealm c)" "load_keys h now (Cl_authRealm c) w = Some (k, w)"
    "ParseAccess (H_jose h) k (realmIssuer h (Realm_Name (Cl_authRealm c))) (admin_bearerToken r) now = Inr parsed"
    "sessionRepo_UserSessionByID (W_db w) (Realm_ID (Cl_authRealm c)) (Parsed_SessionID parsed) = Inr session"
    "UserRepo_ByID (Store_Users sqlite_store) (W_db w) (Realm_ID (Cl_authRealm c)) (US_UserID session) = Inr (Cl_user c)"
    "User_Enabled (Cl_user c)" "Effective sqlite_roles (W_db w) ?u = Some (Inr (Cl_held c))"
    "clientRepo_ByClientID (W_db w) (Realm_ID (Cl_authRealm c)) (Parsed_ClientID parsed) = Inr client"
    "ScopesInEffect sqlite_client_scopes (W_db w) client (Parsed_Scope parsed) = Inr scopes"
    "InScope sqlite_roles (W_db w) client scopes = Some (Inr inScope)" "Cl_effective c = Filter (Cl_held c) inScope"
    "containerFor h (W_db w) (Cl_authRealm c) (Realm_Name realm) = Inr (Cl_container c)"
    using assms(1) unfolding calls_as_def by blast
  note keep = rename_keeps [OF assms(8,9)] and reads = role_tables_reads [OF assms(8)]
  have wf: "wf_roles db'" "flags_synced db'" using keep(1,2) assms(3,4) by simp_all
  obtain held where held: "Effective sqlite_roles db' ?u = Some (Inr held)" "set held \<subseteq> set (stored_roles db')"
      "Role_ID ` set held = holds (W_db w) ?u" using effective_ids [OF wf] keep(3) by metis
  obtain ok where ok: "InScope sqlite_roles db' client scopes = Some (Inr ok)"
      "\<And>q. ok q \<longleftrightarrow> in_token_scope (W_db w) client (set scopes) (Role_ID q)"
    using in_scope_ids [OF wf, of client scopes] keep(4) by metis
  have "load_keys h now (Cl_authRealm c) ?w = Some (k, ?w)"
    using load_keys_caches [OF c(5)] by (intro load_keys_cached) simp
  then have calls: "calls_as h now r realm ?w (c\<lparr>Cl_held := held, Cl_effective := Filter held ok,
      Cl_adminGrants := adminRoleNames (Cl_authRealm c) (Cl_container c) (Filter held ok)\<rparr>) ?w"
    unfolding calls_as_def using c held(1) ok(1) reads assms(2) by auto
  have e: "role \<in> set (Cl_held c)" "inScope role" using assms(5) c(14) by (simp_all add: Filter_def)
  have "Role_ID role \<in> holds (W_db w) ?u" using effective_ids [OF assms(3,4), of ?u] c(10) e(1) by auto
  then obtain q where q: "q \<in> set held" "Role_ID q = Role_ID role" using held(3) by (metis imageE)
  have "ok q" using in_scope_ids [OF assms(3,4), of client scopes] c(13) e(2) ok(2) q(2) by (metis option.inject sum.inject(2))
  moreover have "Role_Name q = name \<and> Role_ClientID q = Client_ID cl"
  proof -
    obtain x where x: "x \<in> set (T_role (W_db w))" "Role_ID x = Role_ID role" "Role_Name q = Role_Name (f x)" "Role_ClientID q = Role_ClientID x"
      using q held(2) assms(8,9) by (auto simp: stored_roles_def loadRoleAttributes_def)
    have "role \<in> set (stored_roles (W_db w))" using effective_ids [OF assms(3,4), of ?u] c(10) e(1) by auto
    then have "Role_ClientID x = Role_ClientID role"
      using x(1,2) assms(3) by (auto simp: stored_roles_def loadRoleAttributes_def wf_roles_def distinct_map dest: inj_onD)
    with x assms(7,10) show ?thesis by simp
  qed
  ultimately have "name \<in> set (adminRoleNames (Cl_authRealm c) (Cl_container c) (Filter held ok))"
    using q(1) assms(6) by (force simp: adminRoleNames_def containerRoleNames_def Filter_def Let_def)
  then show ?thesis using calls by (intro exI [of _ "c\<lparr>Cl_held := held, Cl_effective := Filter held ok,
      Cl_adminGrants := adminRoleNames (Cl_authRealm c) (Cl_container c) (Filter held ok)\<rparr>"]) (simp add: caller_has_def)
qed

text \<open>
  C20. A rename can raise the renamer. The endpoint that renames a client role asks for \<^verbatim>\<open>manage-clients\<close> and
  does not ask whether the client administers the realm: a caller who lives in the realm, manages clients and
  holds any role of the administrative client turns it into a role of any name that is free there, with an
  answer of 204, and from then on the token it already has carries that right.
\<close>

theorem rename_confers:
  assumes "H_store h = sqlite_store" "wf_roles (W_db w)" "flags_synced (W_db w)"
    "realmRepo_ByName (W_db w) (Rq_Realm r) = Inr realm" "calls_as h now r realm w c w" "caller_has c ''manage-clients''"
    "Cl_container c = Some cl" "clientRepo_ByID (W_db w) (Realm_ID realm) (Client_ID cl) = Inr cl"
    "role \<in> set (Cl_effective c)" "roleRepo_ByName (W_db w) (Realm_ID realm) (Client_ID cl) (Role_Name role) = Inr role"
    "Option.bind (next_json body) as_role = Some rep" "RP_Name rep \<noteq> []"
    "\<forall>q \<in> set (T_role (W_db w)). Role_RealmID q = Realm_ID realm \<longrightarrow> Role_ClientID q = Client_ID cl \<longrightarrow> Role_Name q \<noteq> RP_Name rep"
  shows "\<exists>resp w' c'. serve_role_op groupByID orgs h hs now r (UpdateClientRole (Client_ID cl) (Role_Name role) body) w = Some (resp, w')
    \<and> Resp_Status resp = 204 \<and> calls_as h now r realm w' c' w' \<and> caller_has c' (RP_Name rep)"
proof -
  note found = role_reads(1) [OF assms(10)]
  define m where "m = role\<lparr>Role_Name := RP_Name rep, Role_Description := RP_Description rep,
      Role_Attributes := (case RP_Attributes rep of None \<Rightarrow> [] | Some a \<Rightarrow> a)\<rparr>"
  define f where "f = (\<lambda>q :: role. if Role_ID q = Role_ID m
      then q\<lparr>Role_Name := Role_Name m, Role_Description := Role_Description m, Role_Composite := Role_Composite m\<rparr> else q)"
  let ?db = "(W_db w)\<lparr>T_role := map f (T_role (W_db w)),
      T_role_attribute := filter (\<lambda>p. fst p \<noteq> Role_ID m) (T_role_attribute (W_db w)) @ insertRoleAttributes m\<rparr>"
  obtain x where x: "x \<in> set (T_role (W_db w))" "Role_ID x = Role_ID role" "Role_RealmID x = Role_RealmID role"
      "Role_ClientID x = Role_ClientID role" "Role_Composite x = Role_Composite role"
    using found by (auto simp: loadRoleAttributes_def)
  have uniq: "q = x" if "q \<in> set (T_role (W_db w))" "Role_ID q = Role_ID role" for q
    using that x(1,2) assms(2) inj_onD [of Role_ID "set (T_role (W_db w))" q x] by (simp add: wf_roles_def distinct_map)
  have m: "Role_ID m = Role_ID role" "Role_Name m = RP_Name rep" "Role_Composite m = Role_Composite role" by (simp_all add: m_def)
  have free: "\<not> (\<exists>r \<in> set (T_role (W_db w)). \<exists>q \<in> set (T_role (W_db w)). Role_ID r = Role_ID m \<and> Role_ID q \<noteq> Role_ID m
      \<and> Role_RealmID q = Role_RealmID r \<and> Role_ClientID q = Role_ClientID r \<and> Role_Name q = Role_Name m)"
    using uniq x(3,4) found assms(13) m by metis
  have "filter (\<lambda>r. Role_ID r = Role_ID m) (T_role (W_db w)) \<noteq> []" using x(1,2) m(1) by (auto simp: filter_empty_conv)
  with free have u: "roleRepo_Update (W_db w) m = Inr ?db"
    unfolding roleRepo_Update_def Let_def f_def by (simp only: if_False) (simp add: affectedOne_Inr)
  have keep: "Role_ID (f q) = Role_ID q \<and> Role_RealmID (f q) = Role_RealmID q \<and> Role_ClientID (f q) = Role_ClientID q
      \<and> Role_Composite (f q) = Role_Composite q" if "q \<in> set (T_role (W_db w))" for q
    using uniq [OF that] x(5) m by (auto simp: f_def)
  have "Role_ClientID role = Client_ID cl" using found by simp
  from calls_as_renamed [OF assms(5,1,2,3,9,7) this refl keep, of "RP_Name rep"] obtain c' where
    "calls_as h now r realm (w\<lparr>W_db := ?db\<rparr>) c' (w\<lparr>W_db := ?db\<rparr>)" "caller_has c' (RP_Name rep)"
    by (auto simp: f_def m)
  moreover have "applyRoleUpdate h hs r body role w = Some (WriteNoContent h r hs, w\<lparr>W_db := ?db\<rparr>)"
    using u assms(1,11,12) unfolding applyRoleUpdate_def decodeRole_def m_def by (simp add: Let_def)
  then have "serve_role_op groupByID orgs h hs now r (UpdateClientRole (Client_ID cl) (Role_Name role) body) w
      = Some (WriteNoContent h r hs, w\<lparr>W_db := ?db\<rparr>)"
    using assms(1,6,8,10) resolved_calls [OF assms(4,5,1)]
    by (simp add: serve_role_op_def routes guard_def guardRejecting_def guardAnyRejecting_def hasAny_def updateClientRole_def
        clientRole_def clientRoleContainer_def)
  ultimately show ?thesis by (auto simp: WriteNoContent_def empty_response_def Let_def)
qed

section \<open>Witnesses\<close>

lemma ops_wf: "wf_roles ops_db" "flags_synced ops_db"
  by (simp_all add: ops_db_def demo_db_def empty_db_def wf_roles_def flags_synced_def has_role_def has_user_def ops_role_def demo_user_def)

theorem offer_exact_witness:
  "\<exists>offered. availableRealmMappings ops_server [] ''u1'' \<lparr>RQ_realm = demo_realm, RQ_caller = ops_caller, RQ_subject = Some demo_user\<rparr> ops_world
        = Some (writeMappingList [] offered ''r1'' True, ops_world)
    \<and> (\<exists>role \<in> set offered. Role_ID role = ''st'' \<and> Role_Name role = ''staff'')"
proof -
  let ?rc = "\<lparr>RQ_realm = demo_realm, RQ_caller = ops_caller, RQ_subject = Some demo_user\<rparr>"
  have h: "distinct (map Role_ID (T_role (W_db ops_world)))" "has_user (W_db ops_world) (User_ID demo_user)"
    "caller_has (RQ_caller ?rc) ''manage-users''" "RQ_subject ?rc = Some demo_user"
    by (simp_all add: ops_db_def ops_role_def demo_db_def has_user_def caller_has_def ops_caller_def)
  obtain offered where o: "availableRealmMappings ops_server [] ''u1'' ?rc ops_world = Some (writeMappingList [] offered ''r1'' True, ops_world)"
    "(\<exists>role \<in> set offered. Role_ID role = ''st'' \<and> Role_Name role = ''staff'')
       \<longleftrightarrow> caller_has ops_caller ''manage-users'' \<and> (''u1'', ''st'') \<notin> set (T_user_role ops_db)
         \<and> (\<exists>resp w'. assignRealmMappings ops_server [] ops_request ''u1'' staff_body ?rc ops_world = Some (resp, w')
              \<and> Resp_Status resp = 204 \<and> (''u1'', ''st'') \<in> set (T_user_role (W_db w')))"
    using offer_exact [OF _ h(1,4,2) decode_staff, of ops_server "[]" "''u1''" ops_request]
    by (auto simp: zero_role_representation_def demo_user_def)
  have "\<exists>resp w'. assignRealmMappings ops_server [] ops_request ''u1'' staff_body ?rc ops_world = Some (resp, w')
              \<and> Resp_Status resp = 204 \<and> (''u1'', ''st'') \<in> set (T_user_role (W_db w'))"
    using ops_assign_handler by fastforce
  moreover have "(''u1'', ''st'') \<notin> set (T_user_role ops_db)" by (simp add: ops_db_def)
  ultimately show ?thesis using o h(3) by auto
qed

definition rename_body :: string where
  "rename_body = ''{'' @ quoted ''name'' @ '':'' @ quoted ''manage-realm'' @ ''}''"

lemma decode_rename: "Option.bind (next_json rename_body) as_role = Some (zero_role_representation\<lparr>RP_Name := ''manage-realm''\<rparr>)"
proof -
  have "next_json rename_body = Some (JObj [(''name'', JStr ''manage-realm'')])"
  proof (rule next_json_text)
    show "string_bytes rename_body = json_text (JObj [(''name'', JStr ''manage-realm'')])" by code_simp
  qed (simp_all add: valid_utf8_ascii ascii_def maxNestingDepth_def)
  then show ?thesis by (simp add: as_role_def set_role_field_def field_names as_string_def zero_role_representation_def)
qed

theorem rename_confers_witness:
  "\<exists>resp w' c'. serve_role_op groupRepo_ByID ops_orgs ops_server [] 0 ops_request (UpdateClientRole ''m1'' ''manage-users'' rename_body) ops_world
        = Some (resp, w')
    \<and> Resp_Status resp = 204 \<and> \<not> caller_has ops_caller ''manage-realm''
    \<and> calls_as ops_server 0 ops_request demo_realm ops_world ops_caller ops_world
    \<and> calls_as ops_server 0 ops_request demo_realm w' c' w' \<and> caller_has c' ''manage-realm''"
proof -
  let ?role = "ops_role ''mu'' ''m1'' ''manage-users''"
  have r: "caller_has ops_caller ''manage-clients''" "\<not> caller_has ops_caller ''manage-realm''" "?role \<in> set (Cl_effective ops_caller)"
    "Cl_container ops_caller = Some ops_container" "Role_Name ?role = ''manage-users''"
    by (simp_all add: caller_has_def ops_caller_def ops_role_def)
  have f: "roleRepo_ByName (W_db ops_world) (Realm_ID demo_realm) (Client_ID ops_container) (Role_Name ?role) = Inr ?role"
    by (simp add: roleRepo_ByName_def first_row_def loadRoleAttributes_def role_attributes_def ops_db_def demo_db_def empty_db_def ops_role_def)
  have free: "\<forall>q \<in> set (T_role (W_db ops_world)). Role_RealmID q = Realm_ID demo_realm \<longrightarrow> Role_ClientID q = Client_ID ops_container
      \<longrightarrow> Role_Name q \<noteq> RP_Name (zero_role_representation\<lparr>RP_Name := ''manage-realm''\<rparr>)"
    by (simp add: ops_db_def ops_role_def)
  show ?thesis
    using rename_confers [OF _ _ _ _ ops_calls r(1) r(4) _ r(3) f decode_rename _ free, of groupRepo_ByID ops_orgs "[]"]
      ops_wf ops_found(1,4) r(2,5) ops_calls by simp
qed

end
