(* ===== verification/AdminInvariant.thy ===== *)
theory AdminInvariant
  imports AdminSafety
begin

text \<open>
  The invariant of the role tables and that every request to the role endpoints keeps it: the identifiers are
  unique and every row that names a role names one that is there, a name is unique within its container, and
  the composite flag of a role says whether it has a child.
\<close>

definition names_unique :: "sqlite_db \<Rightarrow> bool" where
  "names_unique db \<longleftrightarrow> (\<forall>q \<in> set (T_role db). \<forall>r \<in> set (T_role db). Role_RealmID q = Role_RealmID r
     \<longrightarrow> Role_ClientID q = Role_ClientID r \<longrightarrow> Role_Name q = Role_Name r \<longrightarrow> Role_ID q = Role_ID r)"

lemma names_uniqueD:
  "names_unique db \<Longrightarrow> q \<in> set (T_role db) \<Longrightarrow> r \<in> set (T_role db) \<Longrightarrow> Role_RealmID q = Role_RealmID r
    \<Longrightarrow> Role_ClientID q = Role_ClientID r \<Longrightarrow> Role_Name q = Role_Name r \<Longrightarrow> Role_ID q = Role_ID r"
  unfolding names_unique_def by blast

lemma names_unique_cong: "T_role db' = T_role db \<Longrightarrow> names_unique db' = names_unique db"
  by (simp only: names_unique_def)

definition roles_ok :: "sqlite_db \<Rightarrow> bool" where
  "roles_ok db \<longleftrightarrow> wf_roles db \<and> names_unique db \<and> flags_synced db"

lemma roles_ok_quiet:
  assumes "quiet w w'"
  shows "roles_ok (W_db w') = roles_ok (W_db w)"
proof -
  obtain ks where "W_db w' = (W_db w)\<lparr>T_realm_key := ks\<rparr>" using quietD(1) [OF assms] by (auto simp: only_keys_def)
  then show ?thesis by (simp add: roles_ok_def wf_roles_def names_unique_cong [of "(W_db w)\<lparr>T_realm_key := ks\<rparr>" "W_db w"] flags_synced_def has_role_def
      has_user_def has_group_def has_client_def has_scope_def)
qed

section \<open>Single writes\<close>

lemma Create_tables:
  assumes "roleRepo_Create db m = Inr db'"
  shows "T_role db' = T_role db @ [m\<lparr>Role_Attributes := []\<rparr>]" "T_composite db' = T_composite db"
    "\<forall>r \<in> set (T_role db). Role_ID r \<noteq> Role_ID m
       \<and> \<not> (Role_RealmID r = Role_RealmID m \<and> Role_ClientID r = Role_ClientID m \<and> Role_Name r = Role_Name m)"
proof -
  let ?taken = "\<exists>r \<in> set (T_role db). Role_ID r = Role_ID m
      \<or> (Role_RealmID r = Role_RealmID m \<and> Role_ClientID r = Role_ClientID m \<and> Role_Name r = Role_Name m)"
  have n: "\<not> ?taken"
  proof
    assume c: ?taken
    have "roleRepo_Create db m = Inl ErrConflict" unfolding roleRepo_Create_def by (rule if_P [OF c])
    with assms show False by simp
  qed
  have "db' = db\<lparr>T_role := T_role db @ [m\<lparr>Role_Attributes := []\<rparr>],
      T_role_attribute := T_role_attribute db @ insertRoleAttributes m\<rparr>"
    using assms unfolding roleRepo_Create_def if_not_P [OF n] by (simp split: if_splits)
  then show "T_role db' = T_role db @ [m\<lparr>Role_Attributes := []\<rparr>]" "T_composite db' = T_composite db" by simp_all
  show "\<forall>r \<in> set (T_role db). Role_ID r \<noteq> Role_ID m
       \<and> \<not> (Role_RealmID r = Role_RealmID m \<and> Role_ClientID r = Role_ClientID m \<and> Role_Name r = Role_Name m)" using n by blast
qed

lemma Create_ok:
  assumes "roleRepo_Create db m = Inr db'" "roles_ok db" "\<not> Role_Composite m"
  shows "roles_ok db'"
proof -
  note t = Create_tables [OF assms(1)]
  have ok: "wf_roles db" "names_unique db" "flags_synced db" using assms(2) by (simp_all add: roles_ok_def)
  have "Role_ID m \<noteq> p" if "(p, c) \<in> set (T_composite db)" for p c
    using ok(1) that t(3) by (fastforce simp: wf_roles_def has_role_def)
  then have "Role_ID m \<notin> fst ` set (T_composite db)" by (metis imageE prod.collapse)
  then have "flags_synced db'" using ok(3) assms(3) by (simp add: flags_synced_def t(1,2))
  moreover have "names_unique db'" unfolding names_unique_def
  proof (intro ballI impI)
    fix q r assume q: "q \<in> set (T_role db')" "r \<in> set (T_role db')" "Role_RealmID q = Role_RealmID r"
      "Role_ClientID q = Role_ClientID r" "Role_Name q = Role_Name r"
    have in_old: "x \<in> set (T_role db) \<or> x = m\<lparr>Role_Attributes := []\<rparr>" if "x \<in> set (T_role db')" for x using that by (auto simp: t(1))
    from in_old [OF q(1)] in_old [OF q(2)] show "Role_ID q = Role_ID r"
    proof (elim disjE)
      assume "q \<in> set (T_role db)" "r \<in> set (T_role db)"
      then show ?thesis using names_uniqueD [OF ok(2)] q(3-5) by blast
    qed (use t(3) q(3-5) in auto)
  qed
  ultimately show ?thesis using roleRepo_Create_wf [OF ok(1) assms(1)] by (simp add: roles_ok_def)
qed

text \<open>An update of a stored role whose flag says whether it has a child.\<close>

lemma Update_ok:
  assumes "roleRepo_Update db m = Inr db'" "wf_roles db" "names_unique db"
    "\<forall>q \<in> set (T_role db). Role_ID q \<noteq> Role_ID m \<longrightarrow> (Role_Composite q \<longleftrightarrow> Role_ID q \<in> fst ` set (T_composite db))"
    "Role_Composite m \<longleftrightarrow> Role_ID m \<in> fst ` set (T_composite db)"
  shows "roles_ok db'"
proof -
  define f where "f = (\<lambda>r :: role. if Role_ID r = Role_ID m then r\<lparr>Role_Name := Role_Name m, Role_Description := Role_Description m,
      Role_Composite := Role_Composite m\<rparr> else r)"
  have free: "\<not> (\<exists>r \<in> set (T_role db). \<exists>q \<in> set (T_role db). Role_ID r = Role_ID m \<and> Role_ID q \<noteq> Role_ID m
      \<and> Role_RealmID q = Role_RealmID r \<and> Role_ClientID q = Role_ClientID r \<and> Role_Name q = Role_Name m)"
    and t: "T_role db' = map f (T_role db)" "T_composite db' = T_composite db"
    using assms(1) unfolding roleRepo_Update_def Let_def f_def [symmetric] by (split if_split_asm; clarsimp simp: affectedOne_Inr)+
  have s: "Role_ID (f r) = Role_ID r" "Role_RealmID (f r) = Role_RealmID r" "Role_ClientID (f r) = Role_ClientID r"
    "Role_Name (f r) = (if Role_ID r = Role_ID m then Role_Name m else Role_Name r)"
    "Role_Composite (f r) = (if Role_ID r = Role_ID m then Role_Composite m else Role_Composite r)" for r
    by (simp_all add: f_def)
  have "flags_synced db'" unfolding flags_synced_def t set_map ball_simps s using assms(4,5) by metis
  moreover have "names_unique db'"
    unfolding names_unique_def t(1) set_map ball_simps s using assms(3) free unfolding names_unique_def by metis
  ultimately show ?thesis using roleRepo_Update_wf [OF assms(2,1)] by (simp add: roles_ok_def)
qed

lemma Delete_names:
  assumes "roleRepo_Delete db realmID i = Inr db'" "r \<in> set (T_role db')"
  shows "\<exists>q \<in> set (T_role db). Role_ID q = Role_ID r \<and> Role_RealmID q = Role_RealmID r \<and> Role_ClientID q = Role_ClientID r
      \<and> Role_Name q = Role_Name r"
proof -
  define f where "f = (\<lambda>r :: role. if (Role_ID r, i) \<in> set (T_composite db)
      \<and> \<not> (\<exists>(p, c) \<in> set (T_composite db). p = Role_ID r \<and> c \<noteq> i) then r\<lparr>Role_Composite := False\<rparr> else r)"
  have "set (T_role db') \<subseteq> f ` set (T_role db)"
    using assms(1) unfolding roleRepo_Delete_def Let_def f_def [symmetric] by (auto simp: affectedOne_Inr cascade_roles_def)
  then obtain q where "q \<in> set (T_role db)" "r = f q" using assms(2) by blast
  then show ?thesis by (intro bexI [of _ q]) (simp_all add: f_def)
qed

lemma Delete_ok:
  assumes "roleRepo_Delete db realmID i = Inr db'" "roles_ok db"
  shows "roles_ok db'"
proof -
  have "names_unique db'" unfolding names_unique_def
  proof (intro ballI impI)
    fix q r assume q: "q \<in> set (T_role db')" "r \<in> set (T_role db')" "Role_RealmID q = Role_RealmID r"
      "Role_ClientID q = Role_ClientID r" "Role_Name q = Role_Name r"
    obtain q' r' where o: "q' \<in> set (T_role db)" "Role_ID q' = Role_ID q" "Role_RealmID q' = Role_RealmID q"
        "Role_ClientID q' = Role_ClientID q" "Role_Name q' = Role_Name q"
        "r' \<in> set (T_role db)" "Role_ID r' = Role_ID r" "Role_RealmID r' = Role_RealmID r"
        "Role_ClientID r' = Role_ClientID r" "Role_Name r' = Role_Name r"
      using Delete_names [OF assms(1) q(1)] Delete_names [OF assms(1) q(2)] by blast
    have "Role_ID q' = Role_ID r'"
      by (rule names_uniqueD [of db]) (use assms(2) o q(3-5) in \<open>simp_all add: roles_ok_def\<close>)
    then show "Role_ID q = Role_ID r" using o(2,7) by simp
  qed
  then show ?thesis using roleRepo_Delete_wf [OF _ assms(1)] roleRepo_Delete_flags [OF _ assms(1)] assms(2) by (simp add: roles_ok_def)
qed

lemma same_roles_ok:
  assumes "T_role db' = T_role db" "T_composite db' = T_composite db" "roles_ok db" "wf_roles db'"
  shows "roles_ok db'"
  using assms names_unique_cong [OF assms(1)] by (simp add: roles_ok_def flags_synced_def)

lemma mappings_ok:
  assumes "roles_ok db"
  shows "roleRepo_AssignToUser db u i = Inr db' \<Longrightarrow> roles_ok db'" "roleRepo_RemoveFromUser db u i = Inr db' \<Longrightarrow> roles_ok db'"
    "roleRepo_AssignToGroup db u i = Inr db' \<Longrightarrow> roles_ok db'" "roleRepo_RemoveFromGroup db u i = Inr db' \<Longrightarrow> roles_ok db'"
proof -
  have wf: "wf_roles db" using assms by (simp add: roles_ok_def)
  show "roles_ok db'" if r: "roleRepo_AssignToUser db u i = Inr db'"
    by (rule same_roles_ok [OF _ _ assms insert_pair_wf(2) [OF wf r]]) (use r in \<open>auto simp: roleRepo_AssignToUser_def bind_err_Inr_iff\<close>)
  show "roles_ok db'" if r: "roleRepo_RemoveFromUser db u i = Inr db'"
    by (rule same_roles_ok [OF _ _ assms remove_pair_wf(2) [OF wf r]]) (use r in \<open>auto simp: roleRepo_RemoveFromUser_def affectedOne_Inr\<close>)
  show "roles_ok db'" if r: "roleRepo_AssignToGroup db u i = Inr db'"
    by (rule same_roles_ok [OF _ _ assms insert_pair_wf(3) [OF wf r]]) (use r in \<open>auto simp: roleRepo_AssignToGroup_def bind_err_Inr_iff\<close>)
  show "roles_ok db'" if r: "roleRepo_RemoveFromGroup db u i = Inr db'"
    by (rule same_roles_ok [OF _ _ assms remove_pair_wf(3) [OF wf r]]) (use r in \<open>auto simp: roleRepo_RemoveFromGroup_def\<close>)
qed

section \<open>Batches\<close>

lemma apply_each_ok:
  assumes "\<And>db i db'. upd db x i = Inr db' \<Longrightarrow> P db \<Longrightarrow> P db'" "P db"
  shows "P (fst (apply_each upd x is db))"
  using assms(2)
proof (induction "is" arbitrary: db)
  case (Cons i "is")
  then show ?case using assms(1) by (cases "upd db x i") auto
qed simp

lemma eachMapping_ok:
  assumes "eachMapping h hs r body x accepts upd rc w = Some (resp, w')" "roles_ok (W_db w)"
    "\<And>db i db'. upd db x i = Inr db' \<Longrightarrow> roles_ok db \<Longrightarrow> roles_ok db'"
  shows "roles_ok (W_db w')"
  using assms(1)
proof (cases rule: eachMapping_run)
  case (run reps ok)
  then show ?thesis using apply_each_ok [of upd x roles_ok "W_db w" "map RP_ID reps", OF assms(3,2)] by simp
qed (use assms(2) in simp)

text \<open>Within a batch of composites only the flag of its parent can be out of step.\<close>

definition awaits_sync :: "role list \<Rightarrow> string \<Rightarrow> sqlite_db \<Rightarrow> bool" where
  "awaits_sync roles p db \<longleftrightarrow> T_role db = roles \<and> wf_roles db \<and> names_unique db
     \<and> (\<forall>q \<in> set (T_role db). Role_ID q \<noteq> p \<longrightarrow> (Role_Composite q \<longleftrightarrow> Role_ID q \<in> fst ` set (T_composite db)))"

lemma composites_await:
  "roleRepo_AddComposite db p i = Inr db' \<Longrightarrow> awaits_sync roles p db \<Longrightarrow> awaits_sync roles p db'"
  "roleRepo_RemoveComposite db p i = Inr db' \<Longrightarrow> awaits_sync roles p db \<Longrightarrow> awaits_sync roles p db'"
proof -
  have n: "names_unique (db\<lparr>T_composite := t\<rparr>) = names_unique db" for t by (rule names_unique_cong) simp
  show "awaits_sync roles p db'" if r: "roleRepo_AddComposite db p i = Inr db'" and a: "awaits_sync roles p db"
  proof -
    have wf: "wf_roles db'" using insert_pair_wf(1) [OF _ r] a by (simp add: awaits_sync_def)
    obtain t where t: "db' = db\<lparr>T_composite := t\<rparr>" "set t = insert (p, i) (set (T_composite db))"
      using r by (auto simp: roleRepo_AddComposite_def bind_err_Inr_iff insert_pair_def split: if_splits)
    have m: "(q \<in> fst ` insert (p, i) S) = (q \<in> fst ` S)" if "q \<noteq> p" for q and S :: "(string \<times> string) set" using that by auto
    from a wf show ?thesis unfolding awaits_sync_def t by (simp add: n t(2) m)
  qed
  show "awaits_sync roles p db'" if r: "roleRepo_RemoveComposite db p i = Inr db'" and a: "awaits_sync roles p db"
  proof -
    have wf: "wf_roles db'" using remove_pair_wf(1) [OF _ r] a by (simp add: awaits_sync_def)
    have t: "db' = db\<lparr>T_composite := filter (\<lambda>x. x \<noteq> (p, i)) (T_composite db)\<rparr>" using r by (simp add: roleRepo_RemoveComposite_def)
    have m: "(q \<in> fst ` {x \<in> S. x \<noteq> (p, i)}) = (q \<in> fst ` S)" if "q \<noteq> p" for q and S :: "(string \<times> string) set"
      using that by force
    from a wf show ?thesis unfolding awaits_sync_def t by (simp add: n m)
  qed
qed

lemma add_composite_awaits:
  "add_composite h db p i = Inr db' \<Longrightarrow> H_store h = sqlite_store \<Longrightarrow> awaits_sync roles p db \<Longrightarrow> awaits_sync roles p db'"
  using composites_await(1) by (fastforce simp: add_composite_def split: sum.splits if_splits)

lemma sync_ok:
  assumes "awaits_sync roles (Role_ID role) db" "H_store h = sqlite_store" "role \<in> set (loadRoleAttributes db0 roles)"
  shows "\<exists>db'. syncCompositeFlag h db role = Inr db' \<and> roles_ok db'"
proof -
  have a: "T_role db = roles" "wf_roles db" "names_unique db"
    "\<forall>q \<in> set (T_role db). Role_ID q \<noteq> Role_ID role \<longrightarrow> (Role_Composite q \<longleftrightarrow> Role_ID q \<in> fst ` set (T_composite db))"
    using assms(1) by (simp_all add: awaits_sync_def)
  let ?ch = "join_roles db (T_composite db) (Role_ID role)" and ?flag = "Role_ID role \<in> fst ` set (T_composite db)"
  have ids: "Role_ID ` set ?ch = {i. (Role_ID role, i) \<in> set (T_composite db)}"
    by (rule join_roles_ids) (use a(2) in \<open>auto simp: wf_roles_def\<close>)
  have "(?ch \<noteq> []) = (Role_ID ` set ?ch \<noteq> {})" by simp
  also have "\<dots> = ?flag" unfolding ids by force
  finally have ch: "(?ch \<noteq> []) = ?flag" .
  have sync: "syncCompositeFlag h db role
      = (if Role_Composite role = ?flag then Inr db else roleRepo_Update db (role\<lparr>Role_Composite := ?flag\<rparr>))"
    unfolding ch [symmetric] using assms(2) by (simp add: syncCompositeFlag_def roleRepo_ListComposites_def)
  obtain x where x: "x \<in> set (T_role db)" "Role_ID x = Role_ID role" "Role_RealmID x = Role_RealmID role"
      "Role_ClientID x = Role_ClientID role" "Role_Name x = Role_Name role" "Role_Composite x = Role_Composite role"
    using assms(3) a(1) by (auto simp: loadRoleAttributes_def)
  have uniq: "q = x" if "q \<in> set (T_role db)" "Role_ID q = Role_ID role" for q
    using that x(1,2) a(2) inj_onD [of Role_ID "set (T_role db)" q x] by (simp add: wf_roles_def distinct_map)
  show ?thesis
  proof (cases "Role_Composite role = ?flag")
    case True
    then have "flags_synced db" unfolding flags_synced_def using a(4) uniq x(2,6) by metis
    moreover have "syncCompositeFlag h db role = Inr db" using True sync by simp
    ultimately show ?thesis using a(2,3) by (simp add: roles_ok_def)
  next
    case False
    let ?m = "role\<lparr>Role_Composite := ?flag\<rparr>"
    have free: "\<not> (\<exists>r \<in> set (T_role db). \<exists>q \<in> set (T_role db). Role_ID r = Role_ID ?m \<and> Role_ID q \<noteq> Role_ID ?m
      \<and> Role_RealmID q = Role_RealmID r \<and> Role_ClientID q = Role_ClientID r \<and> Role_Name q = Role_Name ?m)"
    proof clarsimp
      fix r q assume r: "r \<in> set (T_role db)" "Role_ID r = Role_ID role" and q: "q \<in> set (T_role db)" "Role_ID q \<noteq> Role_ID role"
        "Role_RealmID q = Role_RealmID r" "Role_ClientID q = Role_ClientID r" "Role_Name q = Role_Name role"
      from uniq [OF r] q x names_uniqueD [OF a(3) q(1) x(1)] show False by simp
    qed
    have "filter (\<lambda>r. Role_ID r = Role_ID ?m) (T_role db) \<noteq> []" using x(1,2) by (auto simp: filter_empty_conv)
    then obtain db' where u: "roleRepo_Update db ?m = Inr db'"
      unfolding roleRepo_Update_def Let_def if_not_P [OF free] by (simp add: affectedOne_Inr)
    have "roles_ok db'" by (rule Update_ok [OF u a(2,3)]) (use a(4) in simp_all)
    moreover have "syncCompositeFlag h db role = roleRepo_Update db ?m" unfolding sync by (rule if_not_P [OF False])
    ultimately show ?thesis using u by simp
  qed
qed

lemma eachComposite_ok:
  assumes "eachComposite h hs r body locate checkChild upd rc w = Some (resp, w')" "H_store h = sqlite_store" "roles_ok (W_db w)"
    "\<forall>f. locate rc w f = Some (resp, w') \<longrightarrow> w' \<noteq> w
       \<longrightarrow> (\<exists>role. role \<in> set (loadRoleAttributes (W_db w) (T_role (W_db w))) \<and> f role = Some (resp, w'))"
    "\<And>p db i db'. upd db p i = Inr db' \<Longrightarrow> awaits_sync (T_role (W_db w)) p db \<Longrightarrow> awaits_sync (T_role (W_db w)) p db'"
  shows "roles_ok (W_db w')"
  using assms(1,2,4)
proof (cases rule: eachComposite_run)
  case (run role reps)
  let ?db = "fst (apply_each upd (Role_ID role) (map RP_ID reps) (W_db w))"
  have "awaits_sync (T_role (W_db w)) (Role_ID role) (W_db w)"
    using assms(3) by (simp add: awaits_sync_def roles_ok_def flags_synced_def)
  then have "awaits_sync (T_role (W_db w)) (Role_ID role) ?db"
    by (rule apply_each_ok [where P = "awaits_sync (T_role (W_db w)) (Role_ID role)" and upd = upd and x = "Role_ID role", rotated])
      (rule assms(5))
  from sync_ok [OF this assms(2) run(1)] obtain db' where "syncCompositeFlag h ?db role = Inr db'" "roles_ok db'" by blast
  then show ?thesis using run(5) by (simp only: sum.case)
qed (use assms(3) in simp)

section \<open>Handlers\<close>

lemma store_role_ok:
  assumes "store_role h hs realmID clientID loc rep w = Some (resp, w')" "H_store h = sqlite_store" "roles_ok (W_db w)"
  shows "roles_ok (W_db w')"
proof -
  have "W_db w' = W_db w \<or> (\<exists>m. roleRepo_Create (W_db w) m = Inr (W_db w') \<and> \<not> Role_Composite m)"
    using assms(1,2) by (fastforce simp: store_role_def Let_def split: if_splits option.splits sum.splits)
  then show ?thesis using Create_ok assms(3) by metis
qed

lemma applyRoleUpdate_ok:
  assumes "applyRoleUpdate h hs r body role w = Some (resp, w')" "H_store h = sqlite_store" "roles_ok (W_db w)"
    "role \<in> set (loadRoleAttributes (W_db w) (T_role (W_db w)))"
  shows "roles_ok (W_db w')"
proof -
  have "W_db w' = W_db w \<or> (\<exists>m. roleRepo_Update (W_db w) m = Inr (W_db w') \<and> Role_ID m = Role_ID role \<and> Role_Composite m = Role_Composite role)"
  proof (cases "\<exists>rep. Option.bind (next_json body) as_role = Some rep \<and> RP_Name rep \<noteq> []")
    case True
    then obtain rep where rep: "Option.bind (next_json body) as_role = Some rep" "RP_Name rep \<noteq> []" by blast
    let ?m = "role\<lparr>Role_Name := RP_Name rep, Role_Description := RP_Description rep,
        Role_Attributes := (case RP_Attributes rep of None \<Rightarrow> [] | Some a \<Rightarrow> a)\<rparr>"
    show ?thesis
    proof (cases "roleRepo_Update (W_db w) ?m")
      case (Inl e)
      then show ?thesis using assms(1,2) rep unfolding applyRoleUpdate_def decodeRole_def by (simp add: Let_def split: if_splits)
    next
      case (Inr db)
      then have "W_db w' = db" using assms(1,2) rep unfolding applyRoleUpdate_def decodeRole_def by (auto simp: Let_def)
      with Inr show ?thesis by (intro disjI2 exI [of _ ?m]) simp
    qed
  next
    case False
    then show ?thesis using assms(1) unfolding applyRoleUpdate_def decodeRole_def by (simp split: option.splits if_splits)
  qed
  moreover have "Role_Composite role \<longleftrightarrow> Role_ID role \<in> fst ` set (T_composite (W_db w))"
  proof -
    obtain x where "x \<in> set (T_role (W_db w))" "Role_ID x = Role_ID role" "Role_Composite x = Role_Composite role"
      using assms(4) by (auto simp: loadRoleAttributes_def)
    with assms(3) show ?thesis unfolding roles_ok_def flags_synced_def by metis
  qed
  moreover have "wf_roles (W_db w)" "names_unique (W_db w)"
    "\<forall>q \<in> set (T_role (W_db w)). Role_Composite q \<longleftrightarrow> Role_ID q \<in> fst ` set (T_composite (W_db w))"
    using assms(3) by (simp_all add: roles_ok_def flags_synced_def)
  ultimately show ?thesis using assms(3) Update_ok by metis
qed

lemma delete_role_ok:
  assumes "delete_role h hs r rc role w = Some (resp, w')" "H_store h = sqlite_store" "roles_ok (W_db w)"
  shows "roles_ok (W_db w')"
  using assms Delete_ok by (auto simp: delete_role_def split: sum.splits)

text \<open>A locator finds a stored role or leaves everything alone.\<close>

lemma realmRole_finds:
  assumes "realmRole h hs roleName rc w f = Some (resp, w')" "H_store h = sqlite_store"
  shows "w' = w \<or> (\<exists>role. role \<in> set (loadRoleAttributes (W_db w) (T_role (W_db w))) \<and> f role = Some (resp, w'))"
  using assms role_reads(1) by (fastforce simp: realmRole_def split: sum.splits if_splits)

lemma clientRole_finds:
  assumes "clientRole h hs clientUUID roleName rc w f = Some (resp, w')" "H_store h = sqlite_store"
  shows "w' = w \<or> (\<exists>c role. role \<in> set (loadRoleAttributes (W_db w) (T_role (W_db w))) \<and> f c role = Some (resp, w'))"
  using assms role_reads(1) by (fastforce simp: clientRole_def clientRoleContainer_def split: sum.splits if_splits)

lemma role_handlers_ok:
  assumes st: "H_store h = sqlite_store" and ok: "roles_ok (W_db w)"
  shows "createRealmRole h hs body rc w = Some (resp, w') \<Longrightarrow> roles_ok (W_db w')"
    "updateRealmRole h hs r roleName body rc w = Some (resp, w') \<Longrightarrow> roles_ok (W_db w')"
    "deleteRealmRole h hs r roleName rc w = Some (resp, w') \<Longrightarrow> roles_ok (W_db w')"
    "createClientRole h hs clientUUID body rc w = Some (resp, w') \<Longrightarrow> roles_ok (W_db w')"
    "updateClientRole h hs r clientUUID roleName body rc w = Some (resp, w') \<Longrightarrow> roles_ok (W_db w')"
    "deleteClientRole h hs r clientUUID roleName rc w = Some (resp, w') \<Longrightarrow> roles_ok (W_db w')"
  subgoal using store_role_ok [OF _ st ok] ok by (auto simp: createRealmRole_def decodeRole_def split: option.splits)
  subgoal unfolding updateRealmRole_def using realmRole_finds [OF _ st] applyRoleUpdate_ok [OF _ st ok] ok by blast
  subgoal unfolding deleteRealmRole_def using realmRole_finds [OF _ st] delete_role_ok [OF _ st ok] ok by blast
  subgoal using store_role_ok [OF _ st ok] ok by (auto simp: createClientRole_def clientRoleContainer_def decodeRole_def
      split: option.splits sum.splits if_splits)
  subgoal unfolding updateClientRole_def using clientRole_finds [OF _ st] applyRoleUpdate_ok [OF _ st ok] ok by blast
  subgoal unfolding deleteClientRole_def using clientRole_finds [OF _ st] delete_role_ok [OF _ st ok] ok by blast
  done

lemma composites_ok:
  assumes st: "H_store h = sqlite_store" and ok: "roles_ok (W_db w)"
    and loc: "\<forall>f. locate rc w f = Some (resp, w') \<longrightarrow> w' \<noteq> w
       \<longrightarrow> (\<exists>role. role \<in> set (loadRoleAttributes (W_db w) (T_role (W_db w))) \<and> f role = Some (resp, w'))"
  shows "addComposites h hs r body locate rc w = Some (resp, w') \<Longrightarrow> roles_ok (W_db w')"
    "removeComposites h hs r body locate rc w = Some (resp, w') \<Longrightarrow> roles_ok (W_db w')"
  subgoal premises p
    by (rule eachComposite_ok [OF p [unfolded addComposites_def] st ok loc]) (rule add_composite_awaits [OF _ st])
  subgoal premises p
    by (rule eachComposite_ok [OF p [unfolded removeComposites_def] st ok loc]) (use st composites_await(2) in simp)
  done

lemma role_composites_ok:
  assumes st: "H_store h = sqlite_store" and ok: "roles_ok (W_db w)"
  shows "addComposites h hs r body (realmRole h hs roleName) rc w = Some (resp, w') \<Longrightarrow> roles_ok (W_db w')"
    "removeComposites h hs r body (realmRole h hs roleName) rc w = Some (resp, w') \<Longrightarrow> roles_ok (W_db w')"
    "addComposites h hs r body (clientRoleLocator h hs clientUUID roleName) rc w = Some (resp, w') \<Longrightarrow> roles_ok (W_db w')"
    "removeComposites h hs r body (clientRoleLocator h hs clientUUID roleName) rc w = Some (resp, w') \<Longrightarrow> roles_ok (W_db w')"
proof -
  have rl: "\<forall>f. realmRole h hs roleName rc w f = Some (resp, w') \<longrightarrow> w' \<noteq> w
       \<longrightarrow> (\<exists>role. role \<in> set (loadRoleAttributes (W_db w) (T_role (W_db w))) \<and> f role = Some (resp, w'))"
    using realmRole_finds [OF _ st] by blast
  have cl: "\<forall>f. clientRoleLocator h hs clientUUID roleName rc w f = Some (resp, w') \<longrightarrow> w' \<noteq> w
       \<longrightarrow> (\<exists>role. role \<in> set (loadRoleAttributes (W_db w) (T_role (W_db w))) \<and> f role = Some (resp, w'))"
    unfolding clientRoleLocator_def using clientRole_finds [OF _ st] by blast
  show "addComposites h hs r body (realmRole h hs roleName) rc w = Some (resp, w') \<Longrightarrow> roles_ok (W_db w')"
    "removeComposites h hs r body (realmRole h hs roleName) rc w = Some (resp, w') \<Longrightarrow> roles_ok (W_db w')"
    by (rule composites_ok [where locate = "realmRole h hs roleName", OF st ok rl]; assumption)+
  show "addComposites h hs r body (clientRoleLocator h hs clientUUID roleName) rc w = Some (resp, w') \<Longrightarrow> roles_ok (W_db w')"
    "removeComposites h hs r body (clientRoleLocator h hs clientUUID roleName) rc w = Some (resp, w') \<Longrightarrow> roles_ok (W_db w')"
    by (rule composites_ok [where locate = "clientRoleLocator h hs clientUUID roleName", OF st ok cl]; assumption)+
qed

lemma byID_ok:
  assumes st: "H_store h = sqlite_store" and ok: "roles_ok (W_db w)"
    and stored: "role \<in> set (loadRoleAttributes (W_db w) (T_role (W_db w)))"
  shows "updateRoleByID h hs r body role rc w = Some (resp, w') \<Longrightarrow> roles_ok (W_db w')"
    "deleteRoleByID h hs r role rc w = Some (resp, w') \<Longrightarrow> roles_ok (W_db w')"
    "addCompositesByID h hs r body role rc w = Some (resp, w') \<Longrightarrow> roles_ok (W_db w')"
    "removeCompositesByID h hs r body role rc w = Some (resp, w') \<Longrightarrow> roles_ok (W_db w')"
proof -
  have l: "\<forall>f. byIDLocator role rc w f = Some (resp, w') \<longrightarrow> w' \<noteq> w
       \<longrightarrow> (\<exists>role. role \<in> set (loadRoleAttributes (W_db w) (T_role (W_db w))) \<and> f role = Some (resp, w'))"
    using stored by (auto simp: byIDLocator_def)
  note c = composites_ok [where locate = "byIDLocator role", OF st ok l]
  show "updateRoleByID h hs r body role rc w = Some (resp, w') \<Longrightarrow> roles_ok (W_db w')"
    "deleteRoleByID h hs r role rc w = Some (resp, w') \<Longrightarrow> roles_ok (W_db w')"
    using applyRoleUpdate_ok [OF _ st ok stored] delete_role_ok [OF _ st ok] by (auto simp: updateRoleByID_def deleteRoleByID_def)
  show "addCompositesByID h hs r body role rc w = Some (resp, w') \<Longrightarrow> roles_ok (W_db w')"
    "removeCompositesByID h hs r body role rc w = Some (resp, w') \<Longrightarrow> roles_ok (W_db w')"
    unfolding addCompositesByID_def removeCompositesByID_def by (rule c; assumption)+
qed

lemma assign_to_user_ok: "assign_to_user h db u i = Inr db' \<Longrightarrow> H_store h = sqlite_store \<Longrightarrow> roles_ok db \<Longrightarrow> roles_ok db'"
  by (cases "roleRepo_AssignToUser db u i") (auto simp: assign_to_user_def intro: mappings_ok(1) split: if_splits)

lemma remove_from_user_ok: "remove_from_user h db u i = Inr db' \<Longrightarrow> H_store h = sqlite_store \<Longrightarrow> roles_ok db \<Longrightarrow> roles_ok db'"
  by (cases "roleRepo_RemoveFromUser db u i") (auto simp: remove_from_user_def intro: mappings_ok(2) split: if_splits)

lemma mapping_handlers_ok:
  assumes st: "H_store h = sqlite_store" and ok: "roles_ok (W_db w)"
  shows "assignRealmMappings h hs r userID body rc w = Some (resp, w') \<Longrightarrow> roles_ok (W_db w')"
    "assignClientMappings h hs r userID clientUUID body rc w = Some (resp, w') \<Longrightarrow> roles_ok (W_db w')"
    "removeRealmMappings h hs r userID body rc w = Some (resp, w') \<Longrightarrow> roles_ok (W_db w')"
    "removeClientMappings h hs r userID clientUUID body rc w = Some (resp, w') \<Longrightarrow> roles_ok (W_db w')"
    "assignGroupRealmMappings h hs r body g rc w = Some (resp, w') \<Longrightarrow> roles_ok (W_db w')"
    "assignGroupClientMappings h hs r clientUUID body g rc w = Some (resp, w') \<Longrightarrow> roles_ok (W_db w')"
    "removeGroupRealmMappings h hs r body g rc w = Some (resp, w') \<Longrightarrow> roles_ok (W_db w')"
    "removeGroupClientMappings h hs r clientUUID body g rc w = Some (resp, w') \<Longrightarrow> roles_ok (W_db w')"
proof -
  note u = eachMapping_ok [where upd = "assign_to_user h", OF _ ok assign_to_user_ok [OF _ st]]
    eachMapping_ok [where upd = "remove_from_user h", OF _ ok remove_from_user_ok [OF _ st]]
  have s: "RoleRepo_AssignToGroup (Store_Roles (H_store h)) = roleRepo_AssignToGroup"
    "RoleRepo_RemoveFromGroup (Store_Roles (H_store h)) = roleRepo_RemoveFromGroup" using st by simp_all
  note g = eachMapping_ok [where upd = roleRepo_AssignToGroup, OF _ ok mappings_ok(3) [rotated]]
    eachMapping_ok [where upd = roleRepo_RemoveFromGroup, OF _ ok mappings_ok(4) [rotated]]
  show "assignRealmMappings h hs r userID body rc w = Some (resp, w') \<Longrightarrow> roles_ok (W_db w')"
    "assignClientMappings h hs r userID clientUUID body rc w = Some (resp, w') \<Longrightarrow> roles_ok (W_db w')"
    "removeRealmMappings h hs r userID body rc w = Some (resp, w') \<Longrightarrow> roles_ok (W_db w')"
    "removeClientMappings h hs r userID clientUUID body rc w = Some (resp, w') \<Longrightarrow> roles_ok (W_db w')"
    unfolding assignRealmMappings_def assignClientMappings_def removeRealmMappings_def removeClientMappings_def
      eachRealmMapping_def eachClientMapping_def
    by (auto dest!: from_path intro: u simp: ok)
  show "assignGroupRealmMappings h hs r body g rc w = Some (resp, w') \<Longrightarrow> roles_ok (W_db w')"
    "assignGroupClientMappings h hs r clientUUID body g rc w = Some (resp, w') \<Longrightarrow> roles_ok (W_db w')"
    "removeGroupRealmMappings h hs r body g rc w = Some (resp, w') \<Longrightarrow> roles_ok (W_db w')"
    "removeGroupClientMappings h hs r clientUUID body g rc w = Some (resp, w') \<Longrightarrow> roles_ok (W_db w')"
    unfolding assignGroupRealmMappings_def assignGroupClientMappings_def removeGroupRealmMappings_def
      removeGroupClientMappings_def s
    by (auto dest!: from_path intro: g simp: ok)
qed

section \<open>The endpoints\<close>

lemma guardByRoleContainer_stored:
  assumes "guardByRoleContainer h hs now r roleID realmRoles clientRoles f w = Some (resp, w')" "H_store h = sqlite_store"
  obtains (refused) "quiet w w'"
  | (run) rc w1 role where "quiet w w1" "f role rc w1 = Some (resp, w')" "role \<in> set (loadRoleAttributes (W_db w1) (T_role (W_db w1)))"
  using assms(1,2)
proof (cases rule: guardByRoleContainer_run)
  case (run realm c w1 role)
  show thesis by (rule that(2) [OF run(3,5)]) (use role_reads(2) [OF run(6)] in simp)
qed (rule refused)

text \<open>
  C18. The role tables stay well formed. Whatever request the role endpoints serve, refused or failing half way
  through a batch or not, if identifiers and names were unique, every mapping named a role that exists and every
  composite flag said whether the role has a child, all of that still holds afterwards.
\<close>

theorem role_endpoints_keep_roles_ok:
  assumes "serve_role_op groupByID orgs h hs now r op w = Some (resp, w')" and st: "H_store h = sqlite_store" and ok: "roles_ok (W_db w)"
  shows "roles_ok (W_db w')"
proof -
  have q: "roles_ok (W_db w1)" if "quiet w w1" for w1 using roles_ok_quiet [OF that] ok by simp
  note handlers = role_handlers_ok [OF st q] role_composites_ok [OF st q] mapping_handlers_ok [OF st q] byID_ok [OF st q]
  show ?thesis
    by (cases op; use assms(1) [unfolded serve_role_op_def routes] in \<open>simp only: role_op.case\<close>;
        (erule guard_run [OF _ st] guardByRoleContainer_stored [OF _ st] guardUserSubject_run [OF _ st]
           guardUserSubjectClient_run [OF _ st] guardGroup_run [OF _ st] guardGroupClient_run [OF _ st]
           guardOrganizationGroup_run [OF _ st]);
        (erule q | rule handlers; assumption))
qed

theorem role_endpoints_keep_roles_ok_witness:
  "\<exists>resp w'. serve_role_op groupRepo_ByID ops_orgs ops_server [] 0 ops_request (AssignRealm ''u1'' staff_body) ops_world = Some (resp, w')
    \<and> roles_ok ops_db \<and> roles_ok (W_db w') \<and> W_db w' \<noteq> ops_db"
proof -
  obtain resp w' where run: "serve_role_op groupRepo_ByID ops_orgs ops_server [] 0 ops_request (AssignRealm ''u1'' staff_body) ops_world = Some (resp, w')"
    "W_db w' = ops_db\<lparr>T_user_role := [(''u1'', ''mu''), (''u1'', ''mc''), (''u1'', ''st'')]\<rparr>" using ops_assign by blast
  have "T_user_role (W_db w') \<noteq> T_user_role ops_db" using run(2) by (simp add: ops_db_def)
  then have n: "W_db w' \<noteq> ops_db" by metis
  have "wf_roles ops_db" "flags_synced ops_db" "names_unique ops_db"
    by (simp_all add: ops_db_def demo_db_def empty_db_def wf_roles_def flags_synced_def names_unique_def has_role_def has_user_def
        ops_role_def demo_user_def)
  then have ok: "roles_ok (W_db ops_world)" by (simp add: roles_ok_def)
  show ?thesis using role_endpoints_keep_roles_ok [OF run(1) _ ok] run(1) ok n by auto
qed

end
