(* ===== verification/Spec2Isabelle.thy ===== *)
theory Spec2Isabelle
  imports JavaMap Model Store Sqlite Roles Ber GroupStore AuthStore DeviceStore Token GrantSafety LoginSafety FlowSearch LogoutSafety RegistrationSafety AdminOffer AdminInvariant
begin

text \<open>
  Gloak re-implements the Keycloak identity server in Go (\<^verbatim>\<open>src/\<close>). This library models the part of it that
  decides who gets a token and with which roles: the OpenID Connect protocol endpoints, the browser login, the
  role endpoints of the Admin interface, the stores behind them and the libraries of the repository they are
  built on, and proves what makes each of them correct.

  \<^bold>\<open>The program.\<close> A request reaches \<^verbatim>\<open>internal/oidc\<close> through \<^verbatim>\<open>router.go\<close>. The handler resolves the realm in the
  store, loads the realm's signing keys (\<^verbatim>\<open>internal/keys\<close>), reads and writes the repositories of
  \<^verbatim>\<open>internal/store\<close>, keeps its own in-memory stores (login sessions and authorization codes, device codes,
  used DPoP proofs, consents, registration access tokens), mints or verifies tokens with \<^verbatim>\<open>internal/token\<close>,
  computes the roles a token carries with \<^verbatim>\<open>internal/roles\<close>, checks passwords with \<^verbatim>\<open>internal/auth\<close>, and
  writes one response with \<^verbatim>\<open>internal/httpx\<close>. Where Keycloak's output depends on the iteration order of a
  Java hash table, \<^verbatim>\<open>internal/javamap\<close> reproduces it; \<^verbatim>\<open>internal/keystore\<close> reads uploaded key stores.

  \<^bold>\<open>How the program is read.\<close> A Go struct is a record with the struct's fields, an interface a record of its
  methods over an abstract database type, a fallible call a sum with the error on the left. A handler maps the
  server's configuration (\<^typ>\<open>'db server\<close>), the response headers set so far, the instant, the request and the
  server's state (\<^typ>\<open>'db world\<close>) to \<^const>\<open>Some\<close> of a response and the next state; \<^const>\<open>None\<close> is a panic or a
  call that never returns. A helper of the code that writes a response and makes its caller return takes the
  rest of the handler as its last argument. One request is served at one instant. Integers whose width matters
  are words (\<open>JavaMap\<close>, \<open>Ber\<close>, the hash functions, the argon2 parameters of \<open>Password\<close>).

  \<^bold>\<open>The theories\<close>, each with the sources it models:
  \<^item> \<open>Prelude\<close>: shared types, errors, lemma collections, generic lemmas.
  \<^item> \<open>GoStd\<close>, \<open>Json\<close>, \<open>Sha256\<close>, \<open>Sha512\<close>: what the code uses of Go's standard library (UTF-8, UTF-16,
    \<^verbatim>\<open>strings\<close>, Base64, hexadecimal, \<^verbatim>\<open>net/url\<close> escaping, \<^verbatim>\<open>encoding/json\<close>, the digests and HMAC).
  \<^item> \<open>Model\<close>: \<^verbatim>\<open>internal/model/model.go\<close>, the data the packages share, identifiers and secrets.
  \<^item> \<open>Store\<close>: \<^verbatim>\<open>internal/store/store.go\<close>, the repository interfaces, with the locales \<open>role_repo_laws\<close> and
    \<open>role_repo_total\<close>: what the role expansion relies on.
  \<^item> \<open>Sqlite\<close>: \<^verbatim>\<open>internal/store/sqlite/sqlite.go\<close>, the repositories as operations on tables with the
    constraints and cascades of the migrations; interprets \<open>role_repo_total\<close>.
  \<^item> \<open>SessionSpec\<close>: the locale \<open>session_contract\<close>, two finite maps as the specification of the session
    repository, interpreted on the tables; any sequence of writes refines the maps.
  \<^item> \<open>GroupStore\<close>: the group tree of \<^verbatim>\<open>sqlite.go\<close> and the move endpoint of \<^verbatim>\<open>internal/admin/organizationgroups.go\<close>:
    when the table is a forest, which operations keep it one, and what the walks do when it is not.
  \<^item> \<open>Roles\<close>: \<^verbatim>\<open>internal/roles/roles.go\<close> and \<^verbatim>\<open>internal/oidc/roles.go\<close>: the composite walk is the reflexive
    transitive closure, and a token carries exactly the roles held and in scope.
  \<^item> \<open>JavaMap\<close>: \<^verbatim>\<open>internal/javamap/javamap.go\<close>: the key order is canonical, and the table-size loop ends exactly up
    to a stated number of keys.
  \<^item> \<open>Ber\<close>: \<^verbatim>\<open>internal/keystore/ber.go\<close>: the conversion to DER is idempotent.
  \<^item> \<open>Token\<close>: \<^verbatim>\<open>internal/token\<close>: what is signed is read back, and the token kinds exclude each other.
  \<^item> \<open>Keys\<close>: \<^verbatim>\<open>internal/keys\<close>: the keys of a realm survive a restart, an interrupted creation does not.
  \<^item> \<open>Password\<close>: \<^verbatim>\<open>internal/auth/password.go\<close> and the hashing of \<^verbatim>\<open>internal/admin/credentials.go\<close>.
  \<^item> \<open>Dpop\<close>: \<^verbatim>\<open>internal/oidc/dpop.go\<close>, the proof check and the cache of used proofs.
  \<^item> \<open>AuthStore\<close>, \<open>DeviceStore\<close>: \<^verbatim>\<open>authsession.go\<close>, \<^verbatim>\<open>devicestore.go\<close> and the polling ladder of \<^verbatim>\<open>device.go\<close>,
    with step relations over event histories: a code is handed out once and in time, a device code is redeemed
    only after an approval, and what overlapping polls do.
  \<^item> \<open>Http\<close>, \<open>Pages\<close>: the response writers of \<^verbatim>\<open>internal/httpx\<close> and the page frames of \<^verbatim>\<open>themepage.go\<close>.
  \<^item> \<open>TokenEndpoint\<close>: \<^verbatim>\<open>token.go\<close>, \<^verbatim>\<open>clientauth.go\<close>, \<^verbatim>\<open>device.go\<close>, \<^verbatim>\<open>tokenexchange.go\<close>, \<^verbatim>\<open>ciba.go\<close>, \<^verbatim>\<open>jwtbearer.go\<close>,
    \<^verbatim>\<open>introspect.go\<close>, \<^verbatim>\<open>revoke.go\<close>, \<^verbatim>\<open>userinfo.go\<close>; \<open>GrantSafety\<close>: which requests get tokens and what revocation ends.
  \<^item> \<open>Authorize\<close>, \<open>Login\<close>: \<^verbatim>\<open>authorize.go\<close>, \<^verbatim>\<open>flowbinding.go\<close>, \<^verbatim>\<open>sso.go\<close>, \<^verbatim>\<open>loginactions.go\<close>, \<^verbatim>\<open>requiredactions.go\<close>,
    \<^verbatim>\<open>consent.go\<close>, \<^verbatim>\<open>deviceverify.go\<close>; \<open>LoginSafety\<close>: where a browser is sent, which logins yield a code and what the
    code is bound to; \<open>FlowSearch\<close>: the search of the browser flow.
  \<^item> \<open>Logout\<close>: \<^verbatim>\<open>logout.go\<close>, \<^verbatim>\<open>channellogout.go\<close>; \<open>LogoutSafety\<close>: who can end a session, where the browser goes and
    which clients are told. \<open>KeyFrame\<close> says what loading a realm's keys leaves untouched.
  \<^item> \<open>Registration\<close>: \<^verbatim>\<open>registration.go\<close>, \<^verbatim>\<open>registrationstore.go\<close>, dynamic client registration;
    \<open>RegistrationSafety\<close>: who can create, change or delete a client, what a registered client is, and the rotation
    of registration access tokens.
  \<^item> \<open>AdminAuth\<close>, \<open>AdminRoles\<close>: the callers and guards of the Admin REST interface (\<^verbatim>\<open>internal/admin/auth.go\<close>, the
    guards of \<^verbatim>\<open>router.go\<close>) and its role endpoints (\<^verbatim>\<open>roles.go\<close>, \<^verbatim>\<open>rolemappings.go\<close>, \<^verbatim>\<open>groupmappings.go\<close>), with
    every route that writes through them; \<open>AdminSafety\<close>: who can hand out which role; \<open>AdminOffer\<close>: the roles offered are the ones accepted, and what a
    rename of an administrative role confers; \<open>AdminInvariant\<close>: the role tables stay well formed.

  \<^bold>\<open>Parameters.\<close> What the code calls outside the repository and the standard library is an argument of the
  model: the JWS library (\<^typ>\<open>jose\<close>, with \<^const>\<open>jose_ok\<close>: a signed JSON value verifies
  back to itself under its key and algorithm, and under no other algorithm), the RSA and X.509 routines (\<^typ>\<open>x509_lib\<close>, \<^const>\<open>x509_ok\<close>), argon2 (\<^const>\<open>argon2_panics\<close>: it panics
  for no iterations and for no lanes, used by the one theorem about that panic), the JOSE calls of DPoP (\<^typ>\<open>dpop_lib\<close>),
  the Unicode lower-case table and \<^verbatim>\<open>url.Parse\<close> (the host it reads, or its error). Each hypothesis is shown to hold of a concrete instance by the witnesses.
  Randomness is a finite list of bytes that the state carries and the draws consume.

  \<^bold>\<open>Bounds.\<close> Loops of the code that may not end are partial functions into \<^const>\<open>None\<close> (the composite walk, the
  group walks, the table sizes), and theorems say when they return. The JSON parser's recursion bound is twice
  the length of the text plus one, which no text exhausts, beside the decoder's own nesting limit of 10000; the
  search of the browser flow has the code's own bound, the number of flows plus one, shown to be enough.

  \<^bold>\<open>Not modelled.\<close> A page is the arguments of its writer, not its markup. A back-channel call is the address and
  the token of the attempt, made for an address that parses, since the code discards its outcome. The role routes
  under an organization take the organization store and \<^verbatim>\<open>organizationsEnabled\<close>, one flag of the realm's settings, as
  arguments (\<^typ>\<open>'db organizations\<close>), and what is shown of them holds whatever these answer. Handlers run one after another, except the
  polls of a device code, which interleave. Failures of the database itself appear only as branches of the
  handlers. The PostgreSQL driver repeats the SQLite one in another dialect; \<^verbatim>\<open>internal/conformance\<close> and
  \<^verbatim>\<open>internal/parity\<close> are recorded requests and their replay; the Account REST interface and, apart from the
  operations named above, the Admin one map representations to the repositories; the SAML endpoints are XML and signatures of
  external libraries; \<^verbatim>\<open>internal/bootstrap\<close> seeds a fixed set of rows, apart from the scopes a new client inherits,
  which are part of \<open>Registration\<close>; \<^verbatim>\<open>internal/management\<close> and \<^verbatim>\<open>cmd\<close> are process plumbing.
\<close>

end
